(* ===== verification/Prelude.thy ===== *)
theory Prelude
  imports Main "HOL-Library.Product_Lexorder" "HOL-Library.List_Lexorder"
begin

text \<open>
  Shared vocabulary of the development: the state-and-error computations every service and
  repository method is written in, the Hoare-style rules that carry the invariant proofs, and
  the generic lemmas on lists used as database tables.

  A method of the program runs inside one database session and either returns a value or
  raises. The session (with its uncommitted rows) survives a raise: it is the caller that
  decides between commit and rollback. A computation therefore returns the session in both
  cases.
\<close>

section \<open>Computations over a session\<close>

type_synonym ('s, 'e, 'a) comp = "'s \<Rightarrow> ('e + 'a) \<times> 's"

definition ret :: "'a \<Rightarrow> ('s, 'e, 'a) comp" where
  "ret x = (\<lambda>s. (Inr x, s))"

definition raise :: "'e \<Rightarrow> ('s, 'e, 'a) comp" where
  "raise e = (\<lambda>s. (Inl e, s))"

definition bnd :: "('s, 'e, 'a) comp \<Rightarrow> ('a \<Rightarrow> ('s, 'e, 'b) comp) \<Rightarrow> ('s, 'e, 'b) comp" where
  "bnd m f = (\<lambda>s. case m s of (Inl e, s') \<Rightarrow> (Inl e, s') | (Inr x, s') \<Rightarrow> f x s')"

definition gets :: "('s \<Rightarrow> 'a) \<Rightarrow> ('s, 'e, 'a) comp" where
  "gets f = (\<lambda>s. (Inr (f s), s))"

definition modify :: "('s \<Rightarrow> 's) \<Rightarrow> ('s, 'e, unit) comp" where
  "modify f = (\<lambda>s. (Inr (), f s))"

definition require :: "bool \<Rightarrow> 'e \<Rightarrow> ('s, 'e, unit) comp" where
  "require b e = (if b then ret () else raise e)"

text \<open>A pure function that may raise, lifted into the session.\<close>

definition lift_sum :: "'e + 'a \<Rightarrow> ('s, 'e, 'a) comp" where
  "lift_sum r = (\<lambda>s. (r, s))"

fun for_each :: "('a \<Rightarrow> ('s, 'e, unit) comp) \<Rightarrow> 'a list \<Rightarrow> ('s, 'e, unit) comp" where
  "for_each f [] = ret ()"
| "for_each f (x # xs) = bnd (f x) (\<lambda>_. for_each f xs)"

fun map_comp :: "('a \<Rightarrow> ('s, 'e, 'b) comp) \<Rightarrow> 'a list \<Rightarrow> ('s, 'e, 'b list) comp" where
  "map_comp f [] = ret []"
| "map_comp f (x # xs) = bnd (f x) (\<lambda>y. bnd (map_comp f xs) (\<lambda>ys. ret (y # ys)))"

text \<open>
  \<open>run_simps\<close> computes a computation on a session; \<open>run_elims\<close> inverts a successful or a
  failed run into the runs of its parts.
\<close>

named_theorems run_simps
named_theorems run_iffs

lemma ret_run [run_simps]: "ret x s = (Inr x, s)"
  by (simp add: ret_def)

lemma raise_run [run_simps]: "raise e s = (Inl e, s)"
  by (simp add: raise_def)

lemma gets_run [run_simps]: "gets f s = (Inr (f s), s)"
  by (simp add: gets_def)

lemma modify_run [run_simps]: "modify f s = (Inr (), f s)"
  by (simp add: modify_def)

lemma lift_sum_run [run_simps]: "lift_sum r s = (r, s)"
  by (simp add: lift_sum_def)

lemma require_run [run_simps]:
  "require b e s = (if b then (Inr (), s) else (Inl e, s))"
  by (simp add: require_def ret_run raise_run)

lemma bnd_run: "bnd m f s = (case m s of (Inl e, s') \<Rightarrow> (Inl e, s') | (Inr x, s') \<Rightarrow> f x s')"
  by (simp add: bnd_def)

lemma bnd_Inr [run_simps]: "m s = (Inr x, s') \<Longrightarrow> bnd m f s = f x s'"
  by (simp add: bnd_def)

lemma bnd_Inl [run_simps]: "m s = (Inl e, s') \<Longrightarrow> bnd m f s = (Inl e, s')"
  by (simp add: bnd_def)

lemma bnd_eq_Inr [run_iffs]:
  "bnd m f s = (Inr y, s'') \<longleftrightarrow> (\<exists>x s'. m s = (Inr x, s') \<and> f x s' = (Inr y, s''))"
  by (auto simp: bnd_def split: prod.splits sum.splits)

lemma bnd_eq_Inl [run_iffs]:
  "bnd m f s = (Inl e, s'') \<longleftrightarrow>
     m s = (Inl e, s'') \<or> (\<exists>x s'. m s = (Inr x, s') \<and> f x s' = (Inl e, s''))"
  by (auto simp: bnd_def split: prod.splits sum.splits)

lemma ret_eq_iff [run_iffs]: "ret x s = (r, s') \<longleftrightarrow> r = Inr x \<and> s' = s"
  by (auto simp: ret_def)

lemma raise_eq_iff [run_iffs]: "raise e s = (r, s') \<longleftrightarrow> r = Inl e \<and> s' = s"
  by (auto simp: raise_def)

lemma gets_eq_iff [run_iffs]: "gets f s = (r, s') \<longleftrightarrow> r = Inr (f s) \<and> s' = s"
  by (auto simp: gets_def)

lemma modify_eq_iff [run_iffs]: "modify f s = (r, s') \<longleftrightarrow> r = Inr () \<and> s' = f s"
  by (auto simp: modify_def)

lemma lift_sum_eq_iff [run_iffs]: "lift_sum x s = (r, s') \<longleftrightarrow> x = r \<and> s' = s"
  by (auto simp: lift_sum_def)

lemma require_eq_iff [run_iffs]:
  "require b e s = (Inr u, s') \<longleftrightarrow> s' = s \<and> b"
  "require b e s = (Inl e', s') \<longleftrightarrow> s' = s \<and> \<not> b \<and> e' = e"
  by (auto simp: require_def ret_def raise_def)

lemma bnd_assoc: "bnd (bnd m f) g = bnd m (\<lambda>x. bnd (f x) g)"
  by (rule ext) (simp add: bnd_def split: prod.splits sum.splits)

lemma bnd_cong [fundef_cong]:
  assumes "m s = m' s'" and "s = s'" and "\<And>x t. m' s' = (Inr x, t) \<Longrightarrow> f x t = f' x t"
  shows "bnd m f s = bnd m' f' s'"
  using assms by (auto simp: bnd_def split: prod.splits sum.splits)

section \<open>Preservation of a property of the session\<close>

text \<open>
  \<open>preserves I m\<close>: whatever \<open>m\<close> does (return or raise), it keeps \<open>I\<close>.
  \<open>unchanged m\<close>: \<open>m\<close> only reads.
\<close>

definition preserves :: "('s \<Rightarrow> bool) \<Rightarrow> ('s, 'e, 'a) comp \<Rightarrow> bool" where
  "preserves I m \<longleftrightarrow> (\<forall>s. I s \<longrightarrow> I (snd (m s)))"

definition unchanged :: "('s, 'e, 'a) comp \<Rightarrow> bool" where
  "unchanged m \<longleftrightarrow> (\<forall>s. snd (m s) = s)"

named_theorems preserves_intros
named_theorems unchanged_intros

lemma preservesI: "(\<And>s. I s \<Longrightarrow> I (snd (m s))) \<Longrightarrow> preserves I m"
  by (simp add: preserves_def)

lemma preservesD: "preserves I m \<Longrightarrow> I s \<Longrightarrow> m s = (r, s') \<Longrightarrow> I s'"
  by (auto simp: preserves_def dest: spec [of _ s])

lemma unchangedI: "(\<And>s. snd (m s) = s) \<Longrightarrow> unchanged m"
  by (simp add: unchanged_def)

lemma unchangedD: "unchanged m \<Longrightarrow> m s = (r, s') \<Longrightarrow> s' = s"
  by (auto simp: unchanged_def dest: spec [of _ s])

lemma unchanged_preserves: "unchanged m \<Longrightarrow> preserves I m"
  by (simp add: unchanged_def preserves_def)

lemma preserves_ret [preserves_intros]: "preserves I (ret x)"
  by (simp add: preserves_def ret_def)

lemma preserves_raise [preserves_intros]: "preserves I (raise e)"
  by (simp add: preserves_def raise_def)

lemma preserves_gets [preserves_intros]: "preserves I (gets f)"
  by (simp add: preserves_def gets_def)

lemma preserves_lift_sum [preserves_intros]: "preserves I (lift_sum r)"
  by (simp add: preserves_def lift_sum_def)

lemma preserves_require [preserves_intros]: "preserves I (require b e)"
  by (simp add: preserves_def require_def ret_def raise_def)

lemma preserves_bnd [preserves_intros]:
  assumes "preserves I m" and "\<And>x. preserves I (f x)"
  shows "preserves I (bnd m f)"
proof (rule preservesI)
  fix s
  assume "I s"
  obtain r s' where m: "m s = (r, s')" by (cases "m s")
  with assms(1) \<open>I s\<close> have "I s'" by (rule preservesD)
  with m assms(2) show "I (snd (bnd m f s))"
    by (cases r) (simp_all add: bnd_def preserves_def)
qed

lemma preserves_if [preserves_intros]:
  "(b \<Longrightarrow> preserves I m) \<Longrightarrow> (\<not> b \<Longrightarrow> preserves I m') \<Longrightarrow> preserves I (if b then m else m')"
  by simp

lemma preserves_option [preserves_intros]:
  "(x = None \<Longrightarrow> preserves I m) \<Longrightarrow> (\<And>y. x = Some y \<Longrightarrow> preserves I (f y)) \<Longrightarrow>
   preserves I (case x of None \<Rightarrow> m | Some y \<Rightarrow> f y)"
  by (cases x) simp_all

lemma preserves_sum [preserves_intros]:
  "(\<And>y. x = Inl y \<Longrightarrow> preserves I (g y)) \<Longrightarrow> (\<And>y. x = Inr y \<Longrightarrow> preserves I (f y)) \<Longrightarrow>
   preserves I (case x of Inl y \<Rightarrow> g y | Inr y \<Rightarrow> f y)"
  by (cases x) simp_all

lemma preserves_prod [preserves_intros]:
  "(\<And>a b. x = (a, b) \<Longrightarrow> preserves I (f a b)) \<Longrightarrow> preserves I (case x of (a, b) \<Rightarrow> f a b)"
  by (cases x) simp_all

lemma preserves_Let [preserves_intros]:
  "(\<And>x. x = t \<Longrightarrow> preserves I (f x)) \<Longrightarrow> preserves I (let x = t in f x)"
  by simp

lemma preserves_for_each [preserves_intros]:
  "(\<And>x. preserves I (f x)) \<Longrightarrow> preserves I (for_each f xs)"
  by (induction xs) (auto intro: preserves_intros)

lemma preserves_map_comp [preserves_intros]:
  "(\<And>x. preserves I (f x)) \<Longrightarrow> preserves I (map_comp f xs)"
  by (induction xs) (auto intro!: preserves_intros)

lemma unchanged_ret [unchanged_intros]: "unchanged (ret x)"
  by (simp add: unchanged_def ret_def)

lemma unchanged_raise [unchanged_intros]: "unchanged (raise e)"
  by (simp add: unchanged_def raise_def)

lemma unchanged_gets [unchanged_intros]: "unchanged (gets f)"
  by (simp add: unchanged_def gets_def)

lemma unchanged_lift_sum [unchanged_intros]: "unchanged (lift_sum r)"
  by (simp add: unchanged_def lift_sum_def)

lemma unchanged_require [unchanged_intros]: "unchanged (require b e)"
  by (simp add: unchanged_def require_def ret_def raise_def)

lemma unchanged_bnd [unchanged_intros]:
  assumes "unchanged m" and "\<And>x. unchanged (f x)"
  shows "unchanged (bnd m f)"
proof (rule unchangedI)
  fix s
  obtain r s' where m: "m s = (r, s')" by (cases "m s")
  with assms(1) have "s' = s" by (rule unchangedD)
  with m assms(2) show "snd (bnd m f s) = s"
    by (cases r) (simp_all add: bnd_def unchanged_def)
qed

lemma unchanged_if [unchanged_intros]:
  "(b \<Longrightarrow> unchanged m) \<Longrightarrow> (\<not> b \<Longrightarrow> unchanged m') \<Longrightarrow> unchanged (if b then m else m')"
  by simp

lemma unchanged_option [unchanged_intros]:
  "(x = None \<Longrightarrow> unchanged m) \<Longrightarrow> (\<And>y. x = Some y \<Longrightarrow> unchanged (f y)) \<Longrightarrow>
   unchanged (case x of None \<Rightarrow> m | Some y \<Rightarrow> f y)"
  by (cases x) simp_all

lemma unchanged_sum [unchanged_intros]:
  "(\<And>y. x = Inl y \<Longrightarrow> unchanged (g y)) \<Longrightarrow> (\<And>y. x = Inr y \<Longrightarrow> unchanged (f y)) \<Longrightarrow>
   unchanged (case x of Inl y \<Rightarrow> g y | Inr y \<Rightarrow> f y)"
  by (cases x) simp_all

lemma unchanged_map_comp [unchanged_intros]:
  "(\<And>x. unchanged (f x)) \<Longrightarrow> unchanged (map_comp f xs)"
  by (induction xs) (auto intro!: unchanged_intros)

text \<open>What holds of a value if there is one, in a form that computes.\<close>

definition opt_all :: "('a \<Rightarrow> bool) \<Rightarrow> 'a option \<Rightarrow> bool" where
  "opt_all P x = (case x of None \<Rightarrow> True | Some y \<Rightarrow> P y)"

lemma opt_all_unfold [code_unfold]: "(\<forall>y. HOL.equal x (Some y) \<longrightarrow> P y) = opt_all P x"
  by (cases x) (simp_all add: opt_all_def equal_eq)

definition opt_ex :: "('a \<Rightarrow> bool) \<Rightarrow> 'a option \<Rightarrow> bool" where
  "opt_ex P x = (case x of None \<Rightarrow> False | Some y \<Rightarrow> P y)"

lemma opt_ex_unfold [code_unfold]: "(\<exists>y. HOL.equal x (Some y) \<and> P y) = opt_ex P x"
  by (cases x) (simp_all add: opt_ex_def equal_eq)

section \<open>Tables as lists of rows\<close>

text \<open>
  A table is the list of its rows in insertion order. \<open>upd_where\<close> is an
  \<^verbatim>\<open>UPDATE ... WHERE\<close>, \<open>count_where\<close> the number of rows it touches.
\<close>

definition upd_where :: "('r \<Rightarrow> bool) \<Rightarrow> ('r \<Rightarrow> 'r) \<Rightarrow> 'r list \<Rightarrow> 'r list" where
  "upd_where P f t = map (\<lambda>r. if P r then f r else r) t"

definition count_where :: "('r \<Rightarrow> bool) \<Rightarrow> 'r list \<Rightarrow> nat" where
  "count_where P t = length (filter P t)"

lemma set_upd_where: "set (upd_where P f t) = (\<lambda>r. if P r then f r else r) ` set t"
  by (simp add: upd_where_def)

lemma length_upd_where [simp]: "length (upd_where P f t) = length t"
  by (simp add: upd_where_def)

lemma map_upd_where:
  "(\<And>r. P r \<Longrightarrow> g (f r) = g r) \<Longrightarrow> map g (upd_where P f t) = map g t"
  by (simp add: upd_where_def)

lemma upd_where_id: "(\<And>r. r \<in> set t \<Longrightarrow> \<not> P r) \<Longrightarrow> upd_where P f t = t"
  by (simp add: upd_where_def map_idI)

lemma upd_where_append [simp]: "upd_where P f (t @ u) = upd_where P f t @ upd_where P f u"
  by (simp add: upd_where_def)

lemma upd_where_Nil [simp]: "upd_where P f [] = []"
  by (simp add: upd_where_def)

lemma upd_where_Cons [simp]:
  "upd_where P f (r # t) = (if P r then f r else r) # upd_where P f t"
  by (simp add: upd_where_def)

lemma count_where_0: "count_where P t = 0 \<longleftrightarrow> (\<forall>r \<in> set t. \<not> P r)"
  by (simp add: count_where_def filter_empty_conv)

lemma filter_Some_unique:
  assumes "distinct (map k t)" and "r \<in> set t" and "Q r"
    and uq: "\<And>r'. r' \<in> set t \<Longrightarrow> Q r' \<Longrightarrow> k r' = k r"
  shows "filter Q t = [r]"
proof -
  have sub: "set (filter Q t) \<subseteq> {r}"
    using assms by (auto simp: distinct_map inj_on_def)
  moreover have "distinct (filter Q t)"
    using assms(1) by (simp add: distinct_map)
  moreover have "r \<in> set (filter Q t)"
    using assms(2,3) by simp
  ultimately show ?thesis
    by (cases "filter Q t"; cases "tl (filter Q t)") auto
qed

lemma distinct_map_inj:
  "distinct (map k t) \<Longrightarrow> r \<in> set t \<Longrightarrow> r' \<in> set t \<Longrightarrow> k r = k r' \<Longrightarrow> r = r'"
  by (simp add: distinct_map inj_on_def)

text \<open>
  The law of a partial unique index: at most one row satisfies \<open>P\<close> per value of the
  key \<open>k\<close>.
\<close>

definition unique_where :: "('r \<Rightarrow> bool) \<Rightarrow> ('r \<Rightarrow> 'k) \<Rightarrow> 'r list \<Rightarrow> bool" where
  "unique_where P k t \<longleftrightarrow> distinct (map k (filter P t))"

lemma unique_where_snoc:
  "unique_where P k (t @ [r]) \<longleftrightarrow>
     unique_where P k t \<and> (P r \<longrightarrow> (\<forall>r' \<in> set t. P r' \<longrightarrow> k r' \<noteq> k r))"
  by (auto simp: unique_where_def image_iff)

lemma unique_where_upd:
  assumes "unique_where P k t"
    and "\<And>r. r \<in> set t \<Longrightarrow> Q r \<Longrightarrow> P (f r) \<Longrightarrow> P r \<and> k (f r) = k r"
  shows "unique_where P k (upd_where Q f t)"
  using assms
proof (induction t)
  case Nil
  then show ?case by (simp add: unique_where_def)
next
  case (Cons a t)
  have sub: "k ` set (filter P (upd_where Q f t)) \<subseteq> k ` set (filter P t)"
  proof
    fix x assume "x \<in> k ` set (filter P (upd_where Q f t))"
    then obtain b where b: "b \<in> set t" "P (if Q b then f b else b)"
      "x = k (if Q b then f b else b)"
      by (auto simp: set_upd_where)
    with Cons.prems(2) [of b] show "x \<in> k ` set (filter P t)"
      by (cases "Q b") auto
  qed
  have IH: "unique_where P k (upd_where Q f t)"
    using Cons.IH Cons.prems by (auto simp: unique_where_def split: if_splits)
  from Cons.prems(1) Cons.prems(2) [of a] sub IH show ?case
    by (auto simp: unique_where_def split: if_splits)
qed

lemma unique_where_inj:
  assumes "unique_where P k t" and "r \<in> set t" "r' \<in> set t" "P r" "P r'" "k r = k r'"
  shows "r = r'"
  using assms by (auto simp: unique_where_def distinct_map inj_on_def)

end
