(* ===== verification/PyStd.thy ===== *)
theory PyStd
  imports Prelude "HOL-Library.Word" "HOL-Library.Char_ord"
begin

text \<open>
  What the program uses of the Python standard library: \<^verbatim>\<open>str\<close> as a list of code
  points, \<^verbatim>\<open>str.strip\<close>, \<^verbatim>\<open>str.encode("utf-8")\<close>,
  \<^verbatim>\<open>hashlib.sha256\<close>, \<^verbatim>\<open>json.dumps\<close> with sorted keys,
  \<^verbatim>\<open>uuid.UUID\<close> and timezone-aware \<^verbatim>\<open>datetime\<close>; and of PostgreSQL
  the text function \<^verbatim>\<open>btrim\<close>.
\<close>

unbundle bit_operations_syntax

section \<open>Strings\<close>

text \<open>
  A Python string is a sequence of code points, so \<open>length\<close> counts what
  \<^verbatim>\<open>len\<close> counts; \<open>pys\<close> writes an ASCII literal.
\<close>

type_synonym pystr = "nat list"

definition pys :: "string \<Rightarrow> pystr" where
  "pys s = map of_char s"

lemma pys_Nil [simp]: "pys [] = []"
  by (simp add: pys_def)

lemma pys_Cons [simp]: "pys (c # s) = of_char c # pys s"
  by (simp add: pys_def)

lemma pys_inj [simp]: "pys s = pys t \<longleftrightarrow> s = t"
  unfolding pys_def by (metis inj_map_eq_map inj_of_char)

lemma pys_eq_Nil_iff [simp]: "pys s = [] \<longleftrightarrow> s = []"
  by (simp add: pys_def)

definition is_space :: "nat \<Rightarrow> bool" where
  "is_space c \<longleftrightarrow> (9 \<le> c \<and> c \<le> 13) \<or> (28 \<le> c \<and> c \<le> 32) \<or> c = 133 \<or> c = 160 \<or>
     c = 5760 \<or> (8192 \<le> c \<and> c \<le> 8202) \<or> c = 8232 \<or> c = 8233 \<or> c = 8239 \<or> c = 8287 \<or>
     c = 12288"

lemma is_space_32 [simp]: "is_space 32"
  by (simp add: is_space_def)

definition strip :: "pystr \<Rightarrow> pystr" where
  "strip s = rev (dropWhile is_space (rev (dropWhile is_space s)))"

text \<open>\<^verbatim>\<open>not s.strip()\<close>.\<close>

definition blank :: "pystr \<Rightarrow> bool" where
  "blank s \<longleftrightarrow> strip s = []"

lemma blank_iff: "blank s \<longleftrightarrow> (\<forall>c \<in> set s. is_space c)"
proof -
  have "dropWhile is_space s \<noteq> [] \<Longrightarrow>
      dropWhile is_space (rev (dropWhile is_space s)) \<noteq> []"
    by (metis dropWhile_eq_Nil_conv hd_dropWhile list.set_sel(1) set_rev)
  then show ?thesis
    by (auto simp: blank_def strip_def dest: set_dropWhileD)
qed

text \<open>The database's \<^verbatim>\<open>length(btrim(x)) > 0\<close>: only the space character is trimmed.\<close>

definition sql_not_blank :: "pystr \<Rightarrow> bool" where
  "sql_not_blank s \<longleftrightarrow> (\<exists>c \<in> set s. c \<noteq> 32)"

lemma not_blank_sql_not_blank: "\<not> blank s \<Longrightarrow> sql_not_blank s"
  unfolding blank_iff sql_not_blank_def by (metis is_space_32)

definition starts_with :: "pystr \<Rightarrow> pystr \<Rightarrow> bool" where
  "starts_with s p \<longleftrightarrow> take (length p) s = p"

section \<open>UTF-8\<close>

type_synonym bytes = "nat list"

definition utf8_char :: "nat \<Rightarrow> bytes option" where
  "utf8_char c =
     (if c < 128 then Some [c]
      else if c < 2048 then Some [192 + c div 64, 128 + c mod 64]
      else if 55296 \<le> c \<and> c < 57344 then None
      else if c < 65536 then
        Some [224 + c div 4096, 128 + c div 64 mod 64, 128 + c mod 64]
      else if c < 1114112 then
        Some [240 + c div 262144, 128 + c div 4096 mod 64, 128 + c div 64 mod 64, 128 + c mod 64]
      else None)"

text \<open>\<^verbatim>\<open>None\<close> is \<^verbatim>\<open>UnicodeEncodeError\<close>: a lone surrogate has no encoding.\<close>

fun utf8 :: "pystr \<Rightarrow> bytes option" where
  "utf8 [] = Some []"
| "utf8 (c # s) =
     (case utf8_char c of
        None \<Rightarrow> None
      | Some b \<Rightarrow> (case utf8 s of None \<Rightarrow> None | Some bs \<Rightarrow> Some (b @ bs)))"

lemma utf8_append:
  "utf8 (s @ t) =
     (case utf8 s of
        None \<Rightarrow> None
      | Some a \<Rightarrow> (case utf8 t of None \<Rightarrow> None | Some b \<Rightarrow> Some (a @ b)))"
  by (induction s) (auto split: option.splits)

section \<open>Hexadecimal and decimal digits\<close>

definition hex_digit :: "nat \<Rightarrow> nat" where
  "hex_digit d = (if d < 10 then 48 + d else 87 + d)"

definition hex_value :: "nat \<Rightarrow> nat option" where
  "hex_value c =
     (if 48 \<le> c \<and> c \<le> 57 then Some (c - 48)
      else if 97 \<le> c \<and> c \<le> 102 then Some (c - 87)
      else if 65 \<le> c \<and> c \<le> 70 then Some (c - 55)
      else None)"

definition is_lower_hex :: "nat \<Rightarrow> bool" where
  "is_lower_hex c \<longleftrightarrow> (48 \<le> c \<and> c \<le> 57) \<or> (97 \<le> c \<and> c \<le> 102)"

fun fixed_hex :: "nat \<Rightarrow> nat \<Rightarrow> pystr" where
  "fixed_hex 0 n = []"
| "fixed_hex (Suc k) n = fixed_hex k (n div 16) @ [hex_digit (n mod 16)]"

fun hex_number :: "nat \<Rightarrow> pystr \<Rightarrow> nat option" where
  "hex_number acc [] = Some acc"
| "hex_number acc (c # s) =
     (case hex_value c of None \<Rightarrow> None | Some d \<Rightarrow> hex_number (16 * acc + d) s)"

lemma length_fixed_hex [simp]: "length (fixed_hex k n) = k"
  by (induction k arbitrary: n) simp_all

lemma fixed_hex_lower: "c \<in> set (fixed_hex k n) \<Longrightarrow> is_lower_hex c"
proof (induction k arbitrary: n)
  case 0
  then show ?case by simp
next
  case (Suc k)
  have "n mod 16 < 16" by simp
  then have "is_lower_hex (hex_digit (n mod 16))"
    by (auto simp: is_lower_hex_def hex_digit_def)
  with Suc show ?case by auto
qed

lemma hex_value_digit [simp]: "d < 16 \<Longrightarrow> hex_value (hex_digit d) = Some d"
  by (auto simp: hex_value_def hex_digit_def)

lemma hex_number_append:
  "hex_number a (s @ t) = (case hex_number a s of None \<Rightarrow> None | Some b \<Rightarrow> hex_number b t)"
  by (induction s arbitrary: a) (auto split: option.splits)

lemma hex_number_fixed_hex:
  "n < 16 ^ k \<Longrightarrow> hex_number a (fixed_hex k n) = Some (a * 16 ^ k + n)"
proof (induction k arbitrary: n)
  case 0
  then show ?case by simp
next
  case (Suc k)
  then have "n div 16 < 16 ^ k" by (simp add: less_mult_imp_div_less mult.commute)
  with Suc.IH have "hex_number a (fixed_hex k (n div 16)) = Some (a * 16 ^ k + n div 16)"
    by simp
  then show ?case by (simp add: hex_number_append algebra_simps)
qed

fun dec_nat :: "nat \<Rightarrow> pystr" where
  "dec_nat n = (if n < 10 then [48 + n] else dec_nat (n div 10) @ [48 + n mod 10])"

declare dec_nat.simps [simp del]

definition str_int :: "int \<Rightarrow> pystr" where
  "str_int i = (if i < 0 then 45 # dec_nat (nat (- i)) else dec_nat (nat i))"

fun pad_dec :: "nat \<Rightarrow> nat \<Rightarrow> pystr" where
  "pad_dec 0 n = []"
| "pad_dec (Suc k) n = pad_dec k (n div 10) @ [48 + n mod 10]"

section \<open>SHA-256\<close>

type_synonym u32 = "32 word"

text \<open>Eight words, the most significant first. The constants are written eight to a row.\<close>

definition word_row :: "nat \<Rightarrow> u32 list" where
  "word_row n = map (\<lambda>i. of_nat (n div 2 ^ (32 * (7 - i)) mod 2 ^ 32)) [0..<8]"

definition sha_k :: "u32 list" where
  "sha_k = concat (map word_row
    [0x428a2f9871374491b5c0fbcfe9b5dba53956c25b59f111f1923f82a4ab1c5ed5,
     0xd807aa9812835b01243185be550c7dc372be5d7480deb1fe9bdc06a7c19bf174,
     0xe49b69c1efbe47860fc19dc6240ca1cc2de92c6f4a7484aa5cb0a9dc76f988da,
     0x983e5152a831c66db00327c8bf597fc7c6e00bf3d5a7914706ca635114292967,
     0x27b70a852e1b21384d2c6dfc53380d13650a7354766a0abb81c2c92e92722c85,
     0xa2bfe8a1a81a664bc24b8b70c76c51a3d192e819d6990624f40e3585106aa070,
     0x19a4c1161e376c082748774c34b0bcb5391c0cb34ed8aa4a5b9cca4f682e6ff3,
     0x748f82ee78a5636f84c878148cc7020890befffaa4506cebbef9a3f7c67178f2])"

definition sha_h0 :: "u32 list" where
  "sha_h0 = word_row 0x6a09e667bb67ae853c6ef372a54ff53a510e527f9b05688c1f83d9ab5be0cd19"

lemma length_sha_h0 [simp]: "length sha_h0 = 8"
  by (simp add: sha_h0_def word_row_def)

definition be_word :: "nat list \<Rightarrow> u32" where
  "be_word bs = of_nat (foldl (\<lambda>a b. 256 * a + b) 0 bs)"

fun be_words :: "nat \<Rightarrow> nat list \<Rightarrow> u32 list" where
  "be_words 0 bs = []"
| "be_words (Suc k) bs = be_word (take 4 bs) # be_words k (drop 4 bs)"

text \<open>The length in bits, as eight big-endian bytes.\<close>

definition sha_length :: "nat \<Rightarrow> bytes" where
  "sha_length n = map (\<lambda>i. (8 * n) div 256 ^ (7 - i) mod 256) [0..<8]"

definition sha_pad :: "bytes \<Rightarrow> bytes" where
  "sha_pad bs =
     bs @ [128] @ replicate ((119 - length bs mod 64) mod 64) 0 @ sha_length (length bs)"

text \<open>The message schedule: \<open>w\<close> holds the words so far, newest first.\<close>

fun sha_extend :: "nat \<Rightarrow> u32 list \<Rightarrow> u32 list" where
  "sha_extend 0 w = w"
| "sha_extend (Suc k) w =
     (let w15 = w ! 14; w2 = w ! 1;
          s0 = word_rotr 7 w15 XOR word_rotr 18 w15 XOR drop_bit 3 w15;
          s1 = word_rotr 17 w2 XOR word_rotr 19 w2 XOR drop_bit 10 w2
      in sha_extend k ((w ! 15 + s0 + w ! 6 + s1) # w))"

type_synonym sha_state = "u32 \<times> u32 \<times> u32 \<times> u32 \<times> u32 \<times> u32 \<times> u32 \<times> u32"

fun sha_round :: "sha_state \<Rightarrow> u32 \<times> u32 \<Rightarrow> sha_state" where
  "sha_round (a, b, c, d, e, f, g, h) (k, w) =
     (let s1 = word_rotr 6 e XOR word_rotr 11 e XOR word_rotr 25 e;
          ch = (e AND f) XOR (NOT e AND g);
          t1 = h + s1 + ch + k + w;
          s0 = word_rotr 2 a XOR word_rotr 13 a XOR word_rotr 22 a;
          maj = (a AND b) XOR (a AND c) XOR (b AND c);
          t2 = s0 + maj
      in (t1 + t2, a, b, c, d + t1, e, f, g))"

definition sha_block :: "u32 list \<Rightarrow> bytes \<Rightarrow> u32 list" where
  "sha_block hs blk =
     (let w = rev (sha_extend 48 (rev (be_words 16 blk)));
          (a, b, c, d, e, f, g, h) =
            foldl sha_round
              (hs ! 0, hs ! 1, hs ! 2, hs ! 3, hs ! 4, hs ! 5, hs ! 6, hs ! 7) (zip sha_k w)
      in map2 (+) hs [a, b, c, d, e, f, g, h])"

fun sha_blocks :: "nat \<Rightarrow> u32 list \<Rightarrow> bytes \<Rightarrow> u32 list" where
  "sha_blocks 0 hs bs = hs"
| "sha_blocks (Suc k) hs bs = sha_blocks k (sha_block hs (take 64 bs)) (drop 64 bs)"

text \<open>\<^verbatim>\<open>hashlib.sha256(bs).hexdigest()\<close>.\<close>

definition sha256_hex :: "bytes \<Rightarrow> pystr" where
  "sha256_hex bs =
     (let p = sha_pad bs
      in concat (map (\<lambda>h. fixed_hex 8 (unat h)) (sha_blocks (length p div 64) sha_h0 p)))"

lemma length_sha_block [simp]: "length hs = 8 \<Longrightarrow> length (sha_block hs blk) = 8"
  by (simp add: sha_block_def Let_def split: prod.split)

lemma length_sha_blocks: "length hs = 8 \<Longrightarrow> length (sha_blocks k hs bs) = 8"
  by (induction k arbitrary: hs bs) simp_all

lemma length_concat_fixed_hex:
  "length (concat (map (\<lambda>h. fixed_hex k (f h)) hs)) = k * length hs"
  by (induction hs) simp_all

lemma length_sha256_hex [simp]: "length (sha256_hex bs) = 64"
  by (simp add: sha256_hex_def Let_def length_concat_fixed_hex length_sha_blocks)

lemma sha256_hex_lower: "c \<in> set (sha256_hex bs) \<Longrightarrow> is_lower_hex c"
  by (auto simp: sha256_hex_def Let_def dest: fixed_hex_lower)

text \<open>
  \<^verbatim>\<open>re.compile(r"^[0-9a-f]{64}$").match(s)\<close>. In Python \<^verbatim>\<open>$\<close> also matches
  before a newline that ends the string, so one trailing newline passes.
\<close>

definition match_sha256 :: "pystr \<Rightarrow> bool" where
  "match_sha256 s \<longleftrightarrow>
     (\<forall>c \<in> set (take 64 s). is_lower_hex c) \<and> (length s = 64 \<or> length s = 65 \<and> s ! 64 = 10)"

lemma match_sha256_hex [simp]: "match_sha256 (sha256_hex bs)"
  by (auto simp: match_sha256_def sha256_hex_lower dest: in_set_takeD)

section \<open>JSON values and \<^verbatim>\<open>json.dumps\<close>\<close>

text \<open>
  A Python float is known here by what \<^verbatim>\<open>float.__repr__\<close> prints for a finite
  one, or as one of the three values JSON has no number for.
\<close>

datatype pyfloat = Finite pystr | PosInf | NegInf | NaN

datatype json =
  JNull
| JBool bool
| JInt int
| JFloat pyfloat
| JStr pystr
| JList "json list"
| JObj "(pystr \<times> json) list"

definition json_escape :: "nat \<Rightarrow> pystr" where
  "json_escape c =
     (if c = 34 then [92, 34] else if c = 92 then [92, 92]
      else if c = 8 then [92, 98] else if c = 12 then [92, 102]
      else if c = 10 then [92, 110] else if c = 13 then [92, 114]
      else if c = 9 then [92, 116]
      else if c < 32 then [92, 117] @ fixed_hex 4 c else [c])"

definition dump_str :: "pystr \<Rightarrow> pystr" where
  "dump_str s = 34 # concat (map json_escape s) @ [34]"

fun join_with :: "pystr \<Rightarrow> pystr list \<Rightarrow> pystr" where
  "join_with sep [] = []"
| "join_with sep [x] = x"
| "join_with sep (x # y # xs) = x @ sep @ join_with sep (y # xs)"

fun dump_float :: "pyfloat \<Rightarrow> pystr" where
  "dump_float (Finite r) = r"
| "dump_float PosInf = pys ''Infinity''"
| "dump_float NegInf = pys ''-Infinity''"
| "dump_float NaN = pys ''NaN''"

text \<open>
  \<^verbatim>\<open>json.dumps(v, sort_keys=True, separators=(",", ":"), ensure_ascii=False)\<close>.
  The keys of an object are distinct: it is a \<^verbatim>\<open>dict\<close>.
\<close>

fun dumps :: "json \<Rightarrow> pystr" where
  "dumps JNull = pys ''null''"
| "dumps (JBool b) = (if b then pys ''true'' else pys ''false'')"
| "dumps (JInt i) = str_int i"
| "dumps (JFloat r) = dump_float r"
| "dumps (JStr s) = dump_str s"
| "dumps (JList vs) = 91 # join_with [44] (map dumps vs) @ [93]"
| "dumps (JObj kvs) =
     123 # join_with [44]
             (map (\<lambda>kv. dump_str (fst kv) @ 58 # dumps (snd kv)) (sort_key fst kvs)) @ [125]"

text \<open>
  What makes \<^verbatim>\<open>json.dumps(..., allow_nan=False)\<close> raise, in the order the encoder meets
  it: a float that is not finite, or a container nested deeper than the \<open>d\<close> levels the
  recursion limit leaves.
\<close>

datatype dump_error = DumpNonFinite | DumpTooDeep

fun first_some :: "'a option list \<Rightarrow> 'a option" where
  "first_some [] = None"
| "first_some (Some x # xs) = Some x"
| "first_some (None # xs) = first_some xs"

lemma first_some_None: "first_some xs = None \<longleftrightarrow> (\<forall>x \<in> set xs. x = None)"
  by (induction xs rule: first_some.induct) auto

fun dump_check :: "nat \<Rightarrow> json \<Rightarrow> dump_error option" where
  "dump_check d (JFloat r) = (case r of Finite _ \<Rightarrow> None | _ \<Rightarrow> Some DumpNonFinite)"
| "dump_check d (JList vs) =
     (if d = 0 then Some DumpTooDeep else first_some (map (dump_check (d - 1)) vs))"
| "dump_check d (JObj kvs) =
     (if d = 0 then Some DumpTooDeep
      else first_some (map (\<lambda>kv. dump_check (d - 1) (snd kv)) (sort_key fst kvs)))"
| "dump_check d _ = None"

text \<open>The order in which a dictionary was filled does not show.\<close>

lemma sort_key_fst_unique:
  assumes "set xs = set ys" and "distinct (map fst xs)" and "distinct (map fst ys)"
  shows "sort_key fst xs = sort_key fst (ys :: ('a::linorder \<times> 'b) list)"
proof (rule map_sorted_distinct_set_unique [where f = fst])
  show "inj_on fst (set (sort_key fst xs) \<union> set (sort_key fst ys))"
    using assms by (simp add: distinct_map)
  have perm: "distinct (map fst (sort_key fst zs))" if "distinct (map fst zs)"
    for zs :: "('a \<times> 'b) list"
    using that by (simp add: distinct_map)
  show "distinct (map fst (sort_key fst xs))" "distinct (map fst (sort_key fst ys))"
    using perm assms by blast+
qed (simp_all add: assms(1))

lemma dumps_obj_order:
  "set xs = set ys \<Longrightarrow> distinct (map fst xs) \<Longrightarrow> distinct (map fst ys) \<Longrightarrow>
   dumps (JObj xs) = dumps (JObj ys)"
  using sort_key_fst_unique [of xs ys] by simp

section \<open>UUIDs\<close>

datatype uuid = Uuid "128 word"

primrec uuid_word :: "uuid \<Rightarrow> 128 word" where
  "uuid_word (Uuid w) = w"

lemma uuid_word_inj: "uuid_word a = uuid_word b \<Longrightarrow> a = b"
  by (cases a; cases b) simp

instantiation uuid :: linorder
begin

definition less_eq_uuid :: "uuid \<Rightarrow> uuid \<Rightarrow> bool" where
  "less_eq_uuid a b \<longleftrightarrow> uuid_word a \<le> uuid_word b"

definition less_uuid :: "uuid \<Rightarrow> uuid \<Rightarrow> bool" where
  "less_uuid a b \<longleftrightarrow> uuid_word a < uuid_word b"

instance
  by standard (auto simp: less_eq_uuid_def less_uuid_def intro: uuid_word_inj)

end

text \<open>\<^verbatim>\<open>str(uuid)\<close>: 32 lower-case digits in groups of 8, 4, 4, 4 and 12.\<close>

definition str_uuid :: "uuid \<Rightarrow> pystr" where
  "str_uuid u =
     (let h = fixed_hex 32 (unat (uuid_word u))
      in take 8 h @ [45] @ take 4 (drop 8 h) @ [45] @ take 4 (drop 12 h) @ [45] @
         take 4 (drop 16 h) @ [45] @ drop 20 h)"

text \<open>The \<^verbatim>\<open>uuid.UUID(...)\<close> constructor on a string of the canonical form.\<close>

definition parse_uuid :: "pystr \<Rightarrow> uuid option" where
  "parse_uuid s =
     (let h = filter (\<lambda>c. c \<noteq> 45) s
      in if length h = 32
         then (case hex_number 0 h of None \<Rightarrow> None | Some n \<Rightarrow> Some (Uuid (of_nat n)))
         else None)"

lemma lower_hex_not_dash: "is_lower_hex c \<Longrightarrow> c \<noteq> 45"
  by (auto simp: is_lower_hex_def)

lemma filter_dash_str_uuid:
  "filter (\<lambda>c. c \<noteq> 45) (str_uuid u) = fixed_hex 32 (unat (uuid_word u))"
proof -
  define h where "h = fixed_hex 32 (unat (uuid_word u))"
  have h: "\<And>c. c \<in> set h \<Longrightarrow> c \<noteq> 45"
    by (auto simp: h_def dest: fixed_hex_lower lower_hex_not_dash)
  then have keep: "\<And>xs. set xs \<subseteq> set h \<Longrightarrow> filter (\<lambda>c. c \<noteq> 45) xs = xs"
    by (auto simp: filter_id_conv)
  have parts: "set (take 8 h) \<subseteq> set h" "set (take 4 (drop 8 h)) \<subseteq> set h"
    "set (take 4 (drop 12 h)) \<subseteq> set h" "set (take 4 (drop 16 h)) \<subseteq> set h"
    "set (drop 20 h) \<subseteq> set h"
    by (meson set_drop_subset set_take_subset subset_trans)+
  have "take 8 h @ take 4 (drop 8 h) @ take 4 (drop 12 h) @ take 4 (drop 16 h) @ drop 20 h = h"
    using append_take_drop_id [of 4 "drop 16 h"] append_take_drop_id [of 4 "drop 12 h"]
      append_take_drop_id [of 4 "drop 8 h"] append_take_drop_id [of 8 h] by simp
  then show ?thesis
    by (simp add: str_uuid_def Let_def h_def [symmetric] keep [OF parts(1)] keep [OF parts(2)]
        keep [OF parts(3)] keep [OF parts(4)] keep [OF parts(5)])
qed

lemma parse_str_uuid: "parse_uuid (str_uuid u) = Some u"
proof -
  have "unat (uuid_word u) < 16 ^ 32"
    using unsigned_less [of "uuid_word u"] by simp
  then show ?thesis
    by (simp add: parse_uuid_def filter_dash_str_uuid hex_number_fixed_hex)
       (cases u, simp)
qed

lemma str_uuid_inj [simp]: "str_uuid a = str_uuid b \<longleftrightarrow> a = b"
  by (metis option.inject parse_str_uuid)

section \<open>Instants\<close>

text \<open>
  A \<^verbatim>\<open>datetime\<close>, in microseconds of wall-clock time since 1970, without or with its
  offset from UTC. Two aware values are compared by the instant they denote.
\<close>

datatype py_datetime = Naive int | Aware int int

fun instant :: "py_datetime \<Rightarrow> int" where
  "instant (Naive w) = w"
| "instant (Aware w off) = w - off"

fun tz_aware :: "py_datetime \<Rightarrow> bool" where
  "tz_aware (Naive _) = False"
| "tz_aware (Aware _ _) = True"

text \<open>Year, month and day of a day count since 1970-01-01, in the proleptic Gregorian calendar.\<close>

definition civil :: "int \<Rightarrow> int \<times> int \<times> int" where
  "civil days =
     (let z = days + 719468;
          era = z div 146097;
          doe = z mod 146097;
          yoe = (doe - doe div 1460 + doe div 36524 - doe div 146096) div 365;
          doy = doe - (365 * yoe + yoe div 4 - yoe div 100);
          mp = (5 * doy + 2) div 153;
          d = doy - (153 * mp + 2) div 5 + 1;
          m = (if mp < 10 then mp + 3 else mp - 9)
      in (yoe + era * 400 + (if m \<le> 2 then 1 else 0), m, d))"

definition iso_wall :: "int \<Rightarrow> pystr" where
  "iso_wall w =
     (let days = w div 86400000000; us = w mod 86400000000;
          (y, m, d) = civil days;
          frac = us mod 1000000; secs = us div 1000000
      in pad_dec 4 (nat y) @ [45] @ pad_dec 2 (nat m) @ [45] @ pad_dec 2 (nat d) @ [84] @
         pad_dec 2 (nat (secs div 3600)) @ [58] @ pad_dec 2 (nat (secs div 60 mod 60)) @ [58] @
         pad_dec 2 (nat (secs mod 60)) @
         (if frac = 0 then [] else 46 # pad_dec 6 (nat frac)))"

definition iso_offset :: "int \<Rightarrow> pystr" where
  "iso_offset off =
     (let a = \<bar>off\<bar>; frac = a mod 1000000; secs = a div 1000000
      in (if off < 0 then 45 else 43) # pad_dec 2 (nat (secs div 3600)) @ [58] @
         pad_dec 2 (nat (secs div 60 mod 60)) @
         (if secs mod 60 = 0 \<and> frac = 0 then []
          else 58 # pad_dec 2 (nat (secs mod 60)) @
               (if frac = 0 then [] else 46 # pad_dec 6 (nat frac))))"

fun isoformat :: "py_datetime \<Rightarrow> pystr" where
  "isoformat (Naive w) = iso_wall w"
| "isoformat (Aware w off) = iso_wall w @ iso_offset off"

end
