(* ===== verification/Vocabulary.thy ===== *)
theory Vocabulary
  imports PyStd
begin

text \<open>
  The closed vocabularies of \<^verbatim>\<open>orchestration/models/enums.py\<close> with the strings they
  are stored under, the transition sets each delivery declares, and the exceptions of
  \<^verbatim>\<open>orchestration/errors\<close> with the code and HTTP status each carries.
\<close>

section \<open>Life cycles\<close>

datatype schedule_state = DRAFT | ACTIVE | PAUSED | COMPLETED | CANCELLED | STOPPED

fun schedule_state_value :: "schedule_state \<Rightarrow> pystr" where
  "schedule_state_value DRAFT = pys ''draft''"
| "schedule_state_value ACTIVE = pys ''active''"
| "schedule_state_value PAUSED = pys ''paused''"
| "schedule_state_value COMPLETED = pys ''completed''"
| "schedule_state_value CANCELLED = pys ''cancelled''"
| "schedule_state_value STOPPED = pys ''stopped''"

definition TERMINAL_SCHEDULE_STATES :: "schedule_state set" where
  "TERMINAL_SCHEDULE_STATES = {COMPLETED, CANCELLED, STOPPED}"

datatype step_state =
  PENDING | DISPATCHED | AWAITING_RETURN | RETURNED | REJECTED | FAILED | STEP_CANCELLED

fun step_state_value :: "step_state \<Rightarrow> pystr" where
  "step_state_value PENDING = pys ''pending''"
| "step_state_value DISPATCHED = pys ''dispatched''"
| "step_state_value AWAITING_RETURN = pys ''awaiting_return''"
| "step_state_value RETURNED = pys ''returned''"
| "step_state_value REJECTED = pys ''rejected''"
| "step_state_value FAILED = pys ''failed''"
| "step_state_value STEP_CANCELLED = pys ''cancelled''"

datatype attempt_state =
  OPEN | CLOSED_OK | CLOSED_REJECTED | CLOSED_TIMEOUT | CLOSED_CANCELLED

fun attempt_state_value :: "attempt_state \<Rightarrow> pystr" where
  "attempt_state_value OPEN = pys ''open''"
| "attempt_state_value CLOSED_OK = pys ''closed_ok''"
| "attempt_state_value CLOSED_REJECTED = pys ''closed_rejected''"
| "attempt_state_value CLOSED_TIMEOUT = pys ''closed_timeout''"
| "attempt_state_value CLOSED_CANCELLED = pys ''closed_cancelled''"

datatype handoff_mode =
  MANUAL_HANDOFF | SUPERVISED_AUTOMATIC_HANDOFF | RESTRICTED_AUTOMATIC_CONTINUATION

fun handoff_mode_value :: "handoff_mode \<Rightarrow> pystr" where
  "handoff_mode_value MANUAL_HANDOFF = pys ''manual_handoff''"
| "handoff_mode_value SUPERVISED_AUTOMATIC_HANDOFF = pys ''supervised_automatic_handoff''"
| "handoff_mode_value RESTRICTED_AUTOMATIC_CONTINUATION = pys ''restricted_automatic_continuation''"

definition EXECUTABLE_HANDOFF_MODES :: "handoff_mode set" where
  "EXECUTABLE_HANDOFF_MODES = {MANUAL_HANDOFF}"

datatype command_operation =
  CREATE_SCHEDULE | SEAL_HANDOFF | EXPORT_HANDOFF | IMPORT_RETURN | GRANT_DELEGATION
| REVOKE_DELEGATION | CONTROL_SCHEDULE | ISSUE_AUDIT_OPINION

fun command_operation_value :: "command_operation \<Rightarrow> pystr" where
  "command_operation_value CREATE_SCHEDULE = pys ''orchestration.create_schedule''"
| "command_operation_value SEAL_HANDOFF = pys ''orchestration.seal_handoff''"
| "command_operation_value EXPORT_HANDOFF = pys ''orchestration.export_handoff''"
| "command_operation_value IMPORT_RETURN = pys ''orchestration.import_return''"
| "command_operation_value GRANT_DELEGATION = pys ''orchestration.grant_delegation''"
| "command_operation_value REVOKE_DELEGATION = pys ''orchestration.revoke_delegation''"
| "command_operation_value CONTROL_SCHEDULE = pys ''orchestration.control_schedule''"
| "command_operation_value ISSUE_AUDIT_OPINION = pys ''orchestration.issue_audit_opinion''"

datatype handoff_result_status = VALIDATED | RESULT_REJECTED

datatype delegation_state = DELEGATION_ACTIVE | CONSUMED | REVOKED | EXPIRED

definition TERMINAL_DELEGATION_STATES :: "delegation_state set" where
  "TERMINAL_DELEGATION_STATES = {CONSUMED, REVOKED, EXPIRED}"

section \<open>Control, observation and opinion\<close>

datatype control_event_kind =
  EVENT_PAUSED | EVENT_RESUMED | EVENT_STOPPED | EVENT_CANCELLED | EVENT_COMPLETED

datatype control_reason_code =
  OPERATOR_REQUESTED | DELEGATION_MISSING | DELEGATION_EXPIRED | DELEGATION_CONTENT_CHANGED
| HUMAN_GATE_UNAVAILABLE | STOP_CONDITION_DECLARED | ALL_STEPS_RETURNED

datatype stop_condition_category =
  MISSING_AUTHORITY | SCOPE_OR_IMPACT_CHANGE | PROVIDER_OR_TOOL_SWITCH
| COST_QUOTA_OR_DURATION_LIMIT | SECRET_OR_PRIVACY_RISK | ARTIFACT_IDENTITY_MISMATCH
| MANDATORY_GATE_FAILED | MATERIAL_AUDIT_FINDING | EXTERNAL_EFFECT_REQUESTED
| PROVENANCE_OR_ISOLATION_FAILURE

fun stop_condition_category_value :: "stop_condition_category \<Rightarrow> pystr" where
  "stop_condition_category_value MISSING_AUTHORITY = pys ''missing_authority''"
| "stop_condition_category_value SCOPE_OR_IMPACT_CHANGE = pys ''scope_or_impact_change''"
| "stop_condition_category_value PROVIDER_OR_TOOL_SWITCH = pys ''provider_or_tool_switch''"
| "stop_condition_category_value COST_QUOTA_OR_DURATION_LIMIT =
     pys ''cost_quota_or_duration_limit''"
| "stop_condition_category_value SECRET_OR_PRIVACY_RISK = pys ''secret_or_privacy_risk''"
| "stop_condition_category_value ARTIFACT_IDENTITY_MISMATCH = pys ''artifact_identity_mismatch''"
| "stop_condition_category_value MANDATORY_GATE_FAILED = pys ''mandatory_gate_failed''"
| "stop_condition_category_value MATERIAL_AUDIT_FINDING = pys ''material_audit_finding''"
| "stop_condition_category_value EXTERNAL_EFFECT_REQUESTED = pys ''external_effect_requested''"
| "stop_condition_category_value PROVENANCE_OR_ISOLATION_FAILURE =
     pys ''provenance_or_isolation_failure''"

datatype observation_kind = DECLARED_PROVIDER_SWITCH

datatype audit_opinion_kind = CONCUR | DISSENT | INSUFFICIENT_EVIDENCE | OUT_OF_SCOPE

fun audit_opinion_kind_value :: "audit_opinion_kind \<Rightarrow> pystr" where
  "audit_opinion_kind_value CONCUR = pys ''concur''"
| "audit_opinion_kind_value DISSENT = pys ''dissent''"
| "audit_opinion_kind_value INSUFFICIENT_EVIDENCE = pys ''insufficient_evidence''"
| "audit_opinion_kind_value OUT_OF_SCOPE = pys ''out_of_scope''"

datatype audit_reason_code =
  CONTRACT_CONFORMS | CONTRACT_NONCONFORMITY | EVIDENCE_MISSING | SCOPE_EXCLUDED

fun audit_reason_code_value :: "audit_reason_code \<Rightarrow> pystr" where
  "audit_reason_code_value CONTRACT_CONFORMS = pys ''contract_conforms''"
| "audit_reason_code_value CONTRACT_NONCONFORMITY = pys ''contract_nonconformity''"
| "audit_reason_code_value EVIDENCE_MISSING = pys ''evidence_missing''"
| "audit_reason_code_value SCOPE_EXCLUDED = pys ''scope_excluded''"

fun AUDIT_OPINION_REASON_MATRIX :: "audit_opinion_kind \<Rightarrow> audit_reason_code set" where
  "AUDIT_OPINION_REASON_MATRIX CONCUR = {CONTRACT_CONFORMS}"
| "AUDIT_OPINION_REASON_MATRIX DISSENT = {CONTRACT_NONCONFORMITY}"
| "AUDIT_OPINION_REASON_MATRIX INSUFFICIENT_EVIDENCE = {EVIDENCE_MISSING}"
| "AUDIT_OPINION_REASON_MATRIX OUT_OF_SCOPE = {SCOPE_EXCLUDED}"

datatype gate_reason_code = AUTHORIZED | HUMAN_AUTHORITY_UNAVAILABLE

section \<open>The transitions each delivery declares\<close>

definition E7_1_IMPLEMENTED_SCHEDULE_TRANSITIONS :: "(schedule_state \<times> schedule_state) set" where
  "E7_1_IMPLEMENTED_SCHEDULE_TRANSITIONS = {(DRAFT, ACTIVE)}"

definition E7_1_IMPLEMENTED_STEP_TRANSITIONS :: "(step_state \<times> step_state) set" where
  "E7_1_IMPLEMENTED_STEP_TRANSITIONS = {}"

definition E7_1_IMPLEMENTED_ATTEMPT_TRANSITIONS :: "(attempt_state \<times> attempt_state) set" where
  "E7_1_IMPLEMENTED_ATTEMPT_TRANSITIONS = {}"

definition E7_2_IMPLEMENTED_STEP_TRANSITIONS :: "(step_state \<times> step_state) set" where
  "E7_2_IMPLEMENTED_STEP_TRANSITIONS =
     {(PENDING, DISPATCHED), (DISPATCHED, AWAITING_RETURN), (AWAITING_RETURN, RETURNED)}"

definition E7_2_IMPLEMENTED_ATTEMPT_TRANSITIONS :: "(attempt_state \<times> attempt_state) set" where
  "E7_2_IMPLEMENTED_ATTEMPT_TRANSITIONS = {(OPEN, CLOSED_OK), (OPEN, CLOSED_REJECTED)}"

definition E7_3_IMPLEMENTED_SCHEDULE_TRANSITIONS :: "(schedule_state \<times> schedule_state) set" where
  "E7_3_IMPLEMENTED_SCHEDULE_TRANSITIONS =
     {(ACTIVE, PAUSED), (PAUSED, ACTIVE), (ACTIVE, STOPPED), (PAUSED, STOPPED),
      (ACTIVE, CANCELLED), (PAUSED, CANCELLED), (ACTIVE, COMPLETED)}"

definition E7_3_IMPLEMENTED_STEP_TRANSITIONS :: "(step_state \<times> step_state) set" where
  "E7_3_IMPLEMENTED_STEP_TRANSITIONS =
     {(PENDING, STEP_CANCELLED), (AWAITING_RETURN, STEP_CANCELLED)}"

definition E7_3_IMPLEMENTED_ATTEMPT_TRANSITIONS :: "(attempt_state \<times> attempt_state) set" where
  "E7_3_IMPLEMENTED_ATTEMPT_TRANSITIONS = {(OPEN, CLOSED_CANCELLED)}"

definition schedule_transitions :: "(schedule_state \<times> schedule_state) set" where
  "schedule_transitions =
     E7_1_IMPLEMENTED_SCHEDULE_TRANSITIONS \<union> E7_3_IMPLEMENTED_SCHEDULE_TRANSITIONS"

definition step_transitions :: "(step_state \<times> step_state) set" where
  "step_transitions =
     E7_1_IMPLEMENTED_STEP_TRANSITIONS \<union> E7_2_IMPLEMENTED_STEP_TRANSITIONS \<union>
     E7_3_IMPLEMENTED_STEP_TRANSITIONS"

definition attempt_transitions :: "(attempt_state \<times> attempt_state) set" where
  "attempt_transitions =
     E7_1_IMPLEMENTED_ATTEMPT_TRANSITIONS \<union> E7_2_IMPLEMENTED_ATTEMPT_TRANSITIONS \<union>
     E7_3_IMPLEMENTED_ATTEMPT_TRANSITIONS"

definition delegation_transitions :: "(delegation_state \<times> delegation_state) set" where
  "delegation_transitions = {DELEGATION_ACTIVE} \<times> TERMINAL_DELEGATION_STATES"

lemmas transition_defs =
  schedule_transitions_def step_transitions_def attempt_transitions_def
  delegation_transitions_def TERMINAL_DELEGATION_STATES_def TERMINAL_SCHEDULE_STATES_def
  E7_1_IMPLEMENTED_SCHEDULE_TRANSITIONS_def E7_1_IMPLEMENTED_STEP_TRANSITIONS_def
  E7_1_IMPLEMENTED_ATTEMPT_TRANSITIONS_def E7_2_IMPLEMENTED_STEP_TRANSITIONS_def
  E7_2_IMPLEMENTED_ATTEMPT_TRANSITIONS_def E7_3_IMPLEMENTED_SCHEDULE_TRANSITIONS_def
  E7_3_IMPLEMENTED_STEP_TRANSITIONS_def E7_3_IMPLEMENTED_ATTEMPT_TRANSITIONS_def

section \<open>Exceptions\<close>

text \<open>
  The exceptions of the orchestration layer, the \<^verbatim>\<open>ValueError\<close> of its value
  objects, the codec error of \<^verbatim>\<open>str.encode\<close>, and the errors the database driver and
  the mapper raise: a violated constraint (with its name), a value too long for its column, and a
  \<^verbatim>\<open>one_or_none()\<close> that finds several rows. A blocked dispatch carries the
  \<^verbatim>\<open>reason_code\<close> of its detail.
\<close>

datatype block_reason =
  BlockedByGate control_reason_code
| TooManyPendingAuthorizations
| AuthorizationNotIssued
| ContentChangedAfterAuthorization
| DelegationNoLongerConsumable

datatype error =
  OrchestrationContractViolation
| OrchestrationScopeViolation
| OrchestrationLifecycleViolation
| SealReceiptImmutable
| HandoffRecordImmutable
| DispatchBlocked block_reason
| DelegationImmutable
| GovernanceRecordImmutable
| HumanProtectionGateUnavailable
| ConnectionScopeViolation
| ConnectionContractViolation
| ConnectionRecordImmutable
| EntitlementSuccessionViolation
| ManualTransportInboundUnavailable
| ValueError
| PyTypeError
| PyKeyError
| PyRuntimeError
| PyRecursionError
| UnicodeEncodeError
| IntegrityError string
| DataError
| MultipleResultsFound

record error_code =
  code :: string
  default_message :: string
  http_status :: nat

fun orchestration_error_code :: "error \<Rightarrow> error_code option" where
  "orchestration_error_code OrchestrationContractViolation =
     Some \<lparr>code = ''PIA-8057'', default_message = ''orchestration_contract_violation'',
           http_status = 422\<rparr>"
| "orchestration_error_code OrchestrationScopeViolation =
     Some \<lparr>code = ''PIA-8058'', default_message = ''orchestration_scope_violation'',
           http_status = 404\<rparr>"
| "orchestration_error_code OrchestrationLifecycleViolation =
     Some \<lparr>code = ''PIA-8059'', default_message = ''orchestration_lifecycle_violation'',
           http_status = 409\<rparr>"
| "orchestration_error_code SealReceiptImmutable =
     Some \<lparr>code = ''PIA-8060'', default_message = ''seal_receipt_immutable'',
           http_status = 409\<rparr>"
| "orchestration_error_code HandoffRecordImmutable =
     Some \<lparr>code = ''PIA-8061'', default_message = ''handoff_record_immutable'',
           http_status = 409\<rparr>"
| "orchestration_error_code (DispatchBlocked _) =
     Some \<lparr>code = ''PIA-8062'', default_message = ''dispatch_blocked_by_gate'',
           http_status = 409\<rparr>"
| "orchestration_error_code DelegationImmutable =
     Some \<lparr>code = ''PIA-8063'', default_message = ''delegation_binding_immutable'',
           http_status = 409\<rparr>"
| "orchestration_error_code GovernanceRecordImmutable =
     Some \<lparr>code = ''PIA-8064'', default_message = ''governance_record_immutable'',
           http_status = 409\<rparr>"
| "orchestration_error_code HumanProtectionGateUnavailable =
     Some \<lparr>code = ''PIA-8069'', default_message = ''human_protection_gate_unavailable'',
           http_status = 409\<rparr>"
| "orchestration_error_code _ = None"

fun connection_error_code :: "error \<Rightarrow> error_code option" where
  "connection_error_code ConnectionScopeViolation =
     Some \<lparr>code = ''PIA-8065'', default_message = ''connection_scope_violation'',
           http_status = 404\<rparr>"
| "connection_error_code ConnectionContractViolation =
     Some \<lparr>code = ''PIA-8066'', default_message = ''connection_contract_violation'',
           http_status = 422\<rparr>"
| "connection_error_code ConnectionRecordImmutable =
     Some \<lparr>code = ''PIA-8067'', default_message = ''connection_record_immutable'',
           http_status = 409\<rparr>"
| "connection_error_code EntitlementSuccessionViolation =
     Some \<lparr>code = ''PIA-8068'', default_message = ''entitlement_succession_violation'',
           http_status = 409\<rparr>"
| "connection_error_code _ = None"

text \<open>A computation of the program, over any session type.\<close>

type_synonym ('s, 'a) prog = "('s, error, 'a) comp"

end
