(* ===== verification/Envelope.thy ===== *)
theory Envelope
  imports Vocabulary
begin

text \<open>
  \<^verbatim>\<open>orchestration/schemas/envelope.py\<close>: the eight frozen fields of an envelope,
  the validation of each, their canonical JSON and its hash, and the gate a step declares
  inside its constraints.
\<close>

section \<open>Python values that cross the boundary\<close>

text \<open>
  The validators take any object. What they tell apart is a string, a byte string, a
  boolean, an integer, a sequence, a mapping (its keys are strings: it comes from a JSON
  object) and a reference already built; \<open>PyOther\<close> is everything else.
\<close>

record context_ref =
  uri :: pystr
  sha256 :: pystr
  bytes_field :: int

datatype pyobj =
  PyNone
| PyBool bool
| PyInt int
| PyStr pystr
| PyBytes bytes
| PySeq "pyobj list"
| PyMap "(pystr \<times> pyobj) list"
| PyContextRef context_ref
| PyUuid uuid
| PyOther

definition MAX_REF_LENGTH :: nat where "MAX_REF_LENGTH = 255"
definition MAX_ROLE_LENGTH :: nat where "MAX_ROLE_LENGTH = 64"
definition MAX_TITLE_LENGTH :: nat where "MAX_TITLE_LENGTH = 200"
definition MAX_URI_LENGTH :: nat where "MAX_URI_LENGTH = 1024"
definition MAX_CONSTRAINT_KEY_LENGTH :: nat where "MAX_CONSTRAINT_KEY_LENGTH = 64"
definition MAX_CONSTRAINT_VALUE_LENGTH :: nat where "MAX_CONSTRAINT_VALUE_LENGTH = 255"
definition MAX_ENVELOPE_VERSION_LENGTH :: nat where "MAX_ENVELOPE_VERSION_LENGTH = 16"

lemmas max_length_defs =
  MAX_REF_LENGTH_def MAX_ROLE_LENGTH_def MAX_TITLE_LENGTH_def MAX_URI_LENGTH_def
  MAX_CONSTRAINT_KEY_LENGTH_def MAX_CONSTRAINT_VALUE_LENGTH_def MAX_ENVELOPE_VERSION_LENGTH_def

definition ENVELOPE_VERSION :: pystr where
  "ENVELOPE_VERSION = pys ''1''"

text \<open>
  Sequencing of value-object code, which raises but has no session.
\<close>

fun andthen :: "'e + 'a \<Rightarrow> ('a \<Rightarrow> 'e + 'b) \<Rightarrow> 'e + 'b" where
  "andthen (Inl e) f = Inl e"
| "andthen (Inr x) f = f x"

lemma andthen_eq_Inr [run_iffs]:
  "andthen m f = Inr y \<longleftrightarrow> (\<exists>x. m = Inr x \<and> f x = Inr y)"
  by (cases m) simp_all

lemma andthen_eq_Inl [run_iffs]:
  "andthen m f = Inl e \<longleftrightarrow> m = Inl e \<or> (\<exists>x. m = Inr x \<and> f x = Inl e)"
  by (cases m) simp_all

lemma andthen_cong [fundef_cong]:
  "m = m' \<Longrightarrow> (\<And>x. m' = Inr x \<Longrightarrow> f x = f' x) \<Longrightarrow> andthen m f = andthen m' f'"
  by (cases m') simp_all

definition check :: "bool \<Rightarrow> error + unit" where
  "check b = (if b then Inr () else Inl ValueError)"

lemma check_simps [simp]: "check True = Inr ()" "check False = Inl ValueError"
  by (simp_all add: check_def)

lemma check_eq_Inr [run_iffs]: "check b = Inr u \<longleftrightarrow> b"
  by (simp add: check_def)

lemma check_eq_Inl [run_iffs]: "check b = Inl e \<longleftrightarrow> \<not> b \<and> e = ValueError"
  by (auto simp: check_def)

section \<open>Text, references and constraints\<close>

definition texto_obrigatorio :: "pyobj \<Rightarrow> nat \<Rightarrow> error + pystr" where
  "texto_obrigatorio valor limite =
     (case valor of
        PyStr s \<Rightarrow>
          if blank s then Inl ValueError
          else if length s > limite then Inl ValueError
          else Inr s
      | _ \<Rightarrow> Inl ValueError)"

text \<open>A text the validator lets through.\<close>

definition valid_text :: "nat \<Rightarrow> pystr \<Rightarrow> bool" where
  "valid_text limite s \<longleftrightarrow> \<not> blank s \<and> length s \<le> limite"

lemma texto_obrigatorio_iff [run_iffs]:
  "texto_obrigatorio v n = Inr s \<longleftrightarrow> v = PyStr s \<and> valid_text n s"
  by (auto simp: texto_obrigatorio_def valid_text_def split: pyobj.splits)

lemma texto_obrigatorio_ok [simp]: "valid_text n s \<Longrightarrow> texto_obrigatorio (PyStr s) n = Inr s"
  by (simp add: run_iffs)

text \<open>\<^verbatim>\<open>isinstance(x, str)\<close>, and \<^verbatim>\<open>isinstance(x, int)\<close> with
  \<^verbatim>\<open>bool\<close> turned away.\<close>

fun expect_str :: "pyobj \<Rightarrow> error + pystr" where
  "expect_str (PyStr s) = Inr s"
| "expect_str _ = Inl ValueError"

fun expect_int :: "pyobj \<Rightarrow> error + int" where
  "expect_int (PyInt i) = Inr i"
| "expect_int _ = Inl ValueError"

lemma expect_str_iff [run_iffs]: "expect_str v = Inr s \<longleftrightarrow> v = PyStr s"
  by (cases v) auto

lemma expect_int_iff [run_iffs]: "expect_int v = Inr i \<longleftrightarrow> v = PyInt i"
  by (cases v) auto

definition make_context_ref :: "pyobj \<Rightarrow> pyobj \<Rightarrow> pyobj \<Rightarrow> error + context_ref" where
  "make_context_ref u h b =
     andthen (texto_obrigatorio u MAX_URI_LENGTH) (\<lambda>u'.
     andthen (expect_str h) (\<lambda>h'.
     andthen (check (match_sha256 h')) (\<lambda>_.
     andthen (expect_int b) (\<lambda>n.
     andthen (check (0 \<le> n)) (\<lambda>_.
     Inr \<lparr>uri = u', sha256 = h', bytes_field = n\<rparr>)))))"

definition valid_ref :: "context_ref \<Rightarrow> bool" where
  "valid_ref r \<longleftrightarrow>
     valid_text MAX_URI_LENGTH (uri r) \<and> match_sha256 (sha256 r) \<and> 0 \<le> bytes_field r"

lemma make_context_ref_iff [run_iffs]:
  "make_context_ref u h b = Inr r \<longleftrightarrow>
     valid_ref r \<and> u = PyStr (uri r) \<and> h = PyStr (sha256 r) \<and> b = PyInt (bytes_field r)"
  by (cases r) (auto simp: make_context_ref_def valid_ref_def run_iffs)

definition as_content :: "context_ref \<Rightarrow> json" where
  "as_content r =
     JObj [(pys ''uri'', JStr (uri r)), (pys ''sha256'', JStr (sha256 r)),
           (pys ''bytes'', JInt (bytes_field r))]"

text \<open>
  A reference already built is taken as it is: the constructor validated it. Mappings
  must have exactly the three fields.
\<close>

definition CONTEXT_REF_FIELDS :: "pystr list" where
  "CONTEXT_REF_FIELDS = [pys ''uri'', pys ''sha256'', pys ''bytes'']"

fun parse_context_ref :: "pyobj \<Rightarrow> error + context_ref" where
  "parse_context_ref (PyContextRef r) = Inr r"
| "parse_context_ref (PyMap kvs) =
     (if set (map fst kvs) \<noteq> set CONTEXT_REF_FIELDS then Inl ValueError
      else make_context_ref (the (map_of kvs (pys ''uri''))) (the (map_of kvs (pys ''sha256'')))
             (the (map_of kvs (pys ''bytes''))))"
| "parse_context_ref _ = Inl ValueError"

fun parse_refs_loop :: "pyobj list \<Rightarrow> error + context_ref list" where
  "parse_refs_loop [] = Inr []"
| "parse_refs_loop (item # items) =
     andthen (parse_context_ref item) (\<lambda>r. andthen (parse_refs_loop items) (\<lambda>rs. Inr (r # rs)))"

fun parse_context_refs :: "pyobj \<Rightarrow> error + context_ref list" where
  "parse_context_refs (PySeq items) = parse_refs_loop items"
| "parse_context_refs _ = Inl ValueError"

type_synonym constraint_pairs = "(pystr \<times> pystr) list"

section \<open>The gate inside the constraints\<close>

definition GATE_RESERVED_PREFIX :: pystr where
  "GATE_RESERVED_PREFIX = pys ''pia.gate.''"

definition GATE_KEY_REQUIRED :: pystr where
  "GATE_KEY_REQUIRED = pys ''pia.gate.required''"

definition GATE_KEY_SCOPE :: pystr where
  "GATE_KEY_SCOPE = pys ''pia.gate.scope''"

definition GATE_RESERVED_KEYS :: "pystr set" where
  "GATE_RESERVED_KEYS = {GATE_KEY_REQUIRED, GATE_KEY_SCOPE}"

definition GATE_REQUIRED_SERVICE_DELEGATION :: pystr where
  "GATE_REQUIRED_SERVICE_DELEGATION = pys ''service_delegation''"

definition GATE_REQUIRED_SERVICE_DELEGATION_AND_HUMAN :: pystr where
  "GATE_REQUIRED_SERVICE_DELEGATION_AND_HUMAN = pys ''service_delegation_and_human''"

definition GATE_REQUIRED_VALUES :: "pystr set" where
  "GATE_REQUIRED_VALUES =
     {GATE_REQUIRED_SERVICE_DELEGATION, GATE_REQUIRED_SERVICE_DELEGATION_AND_HUMAN}"

definition GATE_SCOPE_DISPATCH :: pystr where
  "GATE_SCOPE_DISPATCH = pys ''dispatch''"

definition GATE_SCOPE_VALUES :: "pystr set" where
  "GATE_SCOPE_VALUES = {GATE_SCOPE_DISPATCH}"

lemmas gate_defs =
  GATE_RESERVED_PREFIX_def GATE_KEY_REQUIRED_def GATE_KEY_SCOPE_def GATE_RESERVED_KEYS_def
  GATE_REQUIRED_SERVICE_DELEGATION_def GATE_REQUIRED_SERVICE_DELEGATION_AND_HUMAN_def
  GATE_REQUIRED_VALUES_def GATE_SCOPE_DISPATCH_def GATE_SCOPE_VALUES_def

record gate_requirement_rec =
  required :: pystr
  gate_scope :: pystr

definition make_gate_requirement :: "pystr \<Rightarrow> pystr \<Rightarrow> error + gate_requirement_rec" where
  "make_gate_requirement r s =
     (if r \<notin> GATE_REQUIRED_VALUES then Inl ValueError
      else if s \<notin> GATE_SCOPE_VALUES then Inl ValueError
      else Inr \<lparr>required = r, gate_scope = s\<rparr>)"

definition requires_human :: "gate_requirement_rec \<Rightarrow> bool" where
  "requires_human g \<longleftrightarrow> required g = GATE_REQUIRED_SERVICE_DELEGATION_AND_HUMAN"

text \<open>\<^verbatim>\<open>dict(pairs)\<close>: the last of two equal keys wins.\<close>

definition dict_of :: "('k \<times> 'v) list \<Rightarrow> 'k \<Rightarrow> 'v option" where
  "dict_of pares = map_of (rev pares)"

definition lookup_key :: "('k \<Rightarrow> 'v option) \<Rightarrow> 'k \<Rightarrow> error + 'v" where
  "lookup_key m k = (case m k of None \<Rightarrow> Inl PyKeyError | Some v \<Rightarrow> Inr v)"

definition validate_gate_keys :: "constraint_pairs \<Rightarrow> error + unit" where
  "validate_gate_keys pares =
     (let presentes = set (filter (\<lambda>k. starts_with k GATE_RESERVED_PREFIX) (map fst pares));
          desconhecidas = presentes - GATE_RESERVED_KEYS
      in if desconhecidas \<noteq> {} then Inl ValueError
         else if presentes = {} then Inr ()
         else if presentes \<noteq> GATE_RESERVED_KEYS then Inl ValueError
         else
           (let mapa = dict_of pares in
            andthen (lookup_key mapa GATE_KEY_REQUIRED) (\<lambda>r.
            andthen (lookup_key mapa GATE_KEY_SCOPE) (\<lambda>s.
            andthen (make_gate_requirement r s) (\<lambda>_. Inr ())))))"

definition gate_requirement :: "constraint_pairs \<Rightarrow> error + gate_requirement_rec option" where
  "gate_requirement pares =
     (let mapa = dict_of pares in
      case mapa GATE_KEY_REQUIRED of
        None \<Rightarrow> Inr None
      | Some r \<Rightarrow>
          andthen (lookup_key mapa GATE_KEY_SCOPE) (\<lambda>s.
          andthen (make_gate_requirement r s) (\<lambda>g. Inr (Some g))))"

section \<open>Canonical constraints\<close>

fun split_pairs :: "pyobj list \<Rightarrow> error + (pyobj \<times> pyobj) list" where
  "split_pairs [] = Inr []"
| "split_pairs (par # resto) =
     (case par of
        PySeq [k, v] \<Rightarrow> andthen (split_pairs resto) (\<lambda>kvs. Inr ((k, v) # kvs))
      | _ \<Rightarrow> Inl ValueError)"

fun constraint_items :: "pyobj \<Rightarrow> error + (pyobj \<times> pyobj) list" where
  "constraint_items (PyMap kvs) = Inr (map (\<lambda>(k, v). (PyStr k, v)) kvs)"
| "constraint_items (PySeq ps) = split_pairs ps"
| "constraint_items _ = Inl ValueError"

fun constraint_loop ::
  "pystr set \<Rightarrow> (pyobj \<times> pyobj) list \<Rightarrow> error + constraint_pairs" where
  "constraint_loop vistas [] = Inr []"
| "constraint_loop vistas ((chave, conteudo) # itens) =
     andthen (texto_obrigatorio chave MAX_CONSTRAINT_KEY_LENGTH) (\<lambda>k.
     andthen (texto_obrigatorio conteudo MAX_CONSTRAINT_VALUE_LENGTH) (\<lambda>v.
     if k \<in> vistas then Inl ValueError
     else andthen (constraint_loop (insert k vistas) itens) (\<lambda>pares. Inr ((k, v) # pares))))"

definition canonical_constraints :: "pyobj \<Rightarrow> error + constraint_pairs" where
  "canonical_constraints valor =
     (if valor = PyNone then Inr []
      else
        andthen (constraint_items valor) (\<lambda>itens.
        andthen (constraint_loop {} itens) (\<lambda>pares.
        let canonicas = sort pares in
        andthen (validate_gate_keys canonicas) (\<lambda>_. Inr canonicas))))"

text \<open>The pairs as the objects a second construction receives.\<close>

definition py_pairs :: "constraint_pairs \<Rightarrow> pyobj" where
  "py_pairs pares = PySeq (map (\<lambda>(k, v). PySeq [PyStr k, PyStr v]) pares)"

definition py_mapping :: "constraint_pairs \<Rightarrow> pyobj" where
  "py_mapping pares = PyMap (map (\<lambda>(k, v). (k, PyStr v)) pares)"

section \<open>Drafts and envelope content\<close>

record step_draft =
  draft_role :: pystr
  draft_instruction_ref :: pystr
  draft_expected_output_contract :: pystr
  draft_context_refs :: "context_ref list"
  draft_constraints :: constraint_pairs

definition make_step_draft ::
  "pyobj \<Rightarrow> pyobj \<Rightarrow> pyobj \<Rightarrow> pyobj \<Rightarrow> pyobj \<Rightarrow> error + step_draft" where
  "make_step_draft role' instruction contract refs constraints =
     andthen (texto_obrigatorio role' MAX_ROLE_LENGTH) (\<lambda>r.
     andthen (texto_obrigatorio instruction MAX_REF_LENGTH) (\<lambda>i.
     andthen (texto_obrigatorio contract MAX_REF_LENGTH) (\<lambda>c.
     andthen (parse_context_refs refs) (\<lambda>rs.
     andthen (canonical_constraints constraints) (\<lambda>cs.
     Inr \<lparr>draft_role = r, draft_instruction_ref = i, draft_expected_output_contract = c,
          draft_context_refs = rs, draft_constraints = cs\<rparr>)))))"

record schedule_draft =
  draft_title :: pystr
  draft_steps :: "step_draft list"

definition make_schedule_draft :: "pyobj \<Rightarrow> step_draft list \<Rightarrow> error + schedule_draft" where
  "make_schedule_draft title' steps =
     andthen (texto_obrigatorio title' MAX_TITLE_LENGTH) (\<lambda>t.
     andthen (check (steps \<noteq> [])) (\<lambda>_.
     Inr \<lparr>draft_title = t, draft_steps = steps\<rparr>))"

record envelope_content =
  env_version :: pystr
  env_schedule_id :: uuid
  env_step_id :: uuid
  env_role :: pystr
  env_instruction_ref :: pystr
  env_context_refs :: "context_ref list"
  env_expected_output_contract :: pystr
  env_constraints :: constraint_pairs

fun expect_uuid :: "pyobj \<Rightarrow> error + uuid" where
  "expect_uuid (PyUuid u) = Inr u"
| "expect_uuid _ = Inl ValueError"

lemma expect_uuid_iff [run_iffs]: "expect_uuid v = Inr u \<longleftrightarrow> v = PyUuid u"
  by (cases v) auto

definition make_envelope_content ::
  "pyobj \<Rightarrow> pyobj \<Rightarrow> pyobj \<Rightarrow> pyobj \<Rightarrow> pyobj \<Rightarrow> pyobj \<Rightarrow> pyobj \<Rightarrow> pyobj \<Rightarrow>
   error + envelope_content" where
  "make_envelope_content version schedule step role' instruction refs contract constraints =
     andthen (texto_obrigatorio version MAX_ENVELOPE_VERSION_LENGTH) (\<lambda>v.
     andthen (expect_uuid schedule) (\<lambda>sid.
     andthen (expect_uuid step) (\<lambda>pid.
     andthen (texto_obrigatorio role' MAX_ROLE_LENGTH) (\<lambda>r.
     andthen (texto_obrigatorio instruction MAX_REF_LENGTH) (\<lambda>i.
     andthen (texto_obrigatorio contract MAX_REF_LENGTH) (\<lambda>c.
     andthen (parse_context_refs refs) (\<lambda>rs.
     andthen (canonical_constraints constraints) (\<lambda>cs.
     Inr \<lparr>env_version = v, env_schedule_id = sid, env_step_id = pid, env_role = r,
          env_instruction_ref = i, env_context_refs = rs, env_expected_output_contract = c,
          env_constraints = cs\<rparr>))))))))"

definition constraints_as_mapping :: "constraint_pairs \<Rightarrow> json" where
  "constraints_as_mapping pares = JObj (map (\<lambda>(k, v). (k, JStr v)) pares)"

definition as_canonical_mapping :: "envelope_content \<Rightarrow> json" where
  "as_canonical_mapping e = JObj
     [(pys ''envelope_version'', JStr (env_version e)),
      (pys ''schedule_id'', JStr (str_uuid (env_schedule_id e))),
      (pys ''step_id'', JStr (str_uuid (env_step_id e))),
      (pys ''role'', JStr (env_role e)),
      (pys ''instruction_ref'', JStr (env_instruction_ref e)),
      (pys ''context_refs'', JList (map as_content (env_context_refs e))),
      (pys ''expected_output_contract'', JStr (env_expected_output_contract e)),
      (pys ''constraints'', constraints_as_mapping (env_constraints e))]"

definition canonical_json :: "envelope_content \<Rightarrow> pystr" where
  "canonical_json e = dumps (as_canonical_mapping e)"

text \<open>\<^verbatim>\<open>hashlib.sha256(text.encode("utf-8")).hexdigest()\<close>.\<close>

definition sha256_text :: "pystr \<Rightarrow> error + pystr" where
  "sha256_text s = (case utf8 s of None \<Rightarrow> Inl UnicodeEncodeError | Some bs \<Rightarrow> Inr (sha256_hex bs))"

lemma sha256_text_Inr [run_iffs]:
  "sha256_text s = Inr h \<longleftrightarrow> (\<exists>bs. utf8 s = Some bs \<and> h = sha256_hex bs)"
  by (auto simp: sha256_text_def split: option.splits)

lemma sha256_text_Inl [run_iffs]:
  "sha256_text s = Inl e \<longleftrightarrow> utf8 s = None \<and> e = UnicodeEncodeError"
  by (auto simp: sha256_text_def split: option.splits)

definition content_sha256 :: "envelope_content \<Rightarrow> error + pystr" where
  "content_sha256 e = sha256_text (canonical_json e)"

section \<open>What the constructors guarantee\<close>

definition valid_pair :: "pystr \<times> pystr \<Rightarrow> bool" where
  "valid_pair kv \<longleftrightarrow>
     valid_text MAX_CONSTRAINT_KEY_LENGTH (fst kv) \<and> valid_text MAX_CONSTRAINT_VALUE_LENGTH (snd kv)"

definition canonical_pairs :: "constraint_pairs \<Rightarrow> bool" where
  "canonical_pairs cs \<longleftrightarrow>
     sorted cs \<and> distinct (map fst cs) \<and> list_all valid_pair cs \<and> validate_gate_keys cs = Inr ()"

lemma dict_of_None: "dict_of kvs k = None \<longleftrightarrow> k \<notin> fst ` set kvs"
  by (simp add: dict_of_def map_of_eq_None_iff)

lemma dict_of_distinct:
  assumes "distinct (map fst kvs)"
  shows "dict_of kvs = map_of kvs"
proof
  fix k
  have "distinct (map fst (rev kvs))" using assms by (simp add: rev_map [symmetric])
  then have "dict_of kvs k = Some v \<longleftrightarrow> map_of kvs k = Some v" for v
    using assms by (simp add: dict_of_def)
  then show "dict_of kvs k = map_of kvs k"
    by (metis option.exhaust)
qed

lemma lookup_key_iff [run_iffs]:
  "lookup_key m k = Inr v \<longleftrightarrow> m k = Some v"
  "lookup_key m k = Inl e \<longleftrightarrow> m k = None \<and> e = PyKeyError"
  by (auto simp: lookup_key_def split: option.splits)

lemma make_gate_requirement_iff [run_iffs]:
  "make_gate_requirement r s = Inr g \<longleftrightarrow>
     r \<in> GATE_REQUIRED_VALUES \<and> s \<in> GATE_SCOPE_VALUES \<and> g = \<lparr>required = r, gate_scope = s\<rparr>"
  "make_gate_requirement r s = Inl e \<longleftrightarrow>
     \<not> (r \<in> GATE_REQUIRED_VALUES \<and> s \<in> GATE_SCOPE_VALUES) \<and> e = ValueError"
  by (auto simp: make_gate_requirement_def)

lemma reserved_keys_prefix: "k \<in> GATE_RESERVED_KEYS \<Longrightarrow> starts_with k GATE_RESERVED_PREFIX"
  by (auto simp: gate_defs starts_with_def)

lemma validate_gate_keys_Inl: "validate_gate_keys pares = Inl e \<Longrightarrow> e = ValueError"
  by (auto simp: validate_gate_keys_def Let_def run_iffs dict_of_None split: if_splits)
     (auto simp: GATE_RESERVED_KEYS_def)

lemma constraint_loop_iff:
  "constraint_loop V itens = Inr pares \<longleftrightarrow>
     itens = map (\<lambda>(k, v). (PyStr k, PyStr v)) pares \<and> distinct (map fst pares) \<and>
     (\<forall>k \<in> set (map fst pares). k \<notin> V) \<and> list_all valid_pair pares"
proof (induction itens arbitrary: V pares)
  case Nil
  then show ?case by auto
next
  case (Cons item itens)
  obtain chave conteudo where item: "item = (chave, conteudo)" by (cases item)
  show ?case
    by (cases pares) (auto simp: item run_iffs Cons.IH valid_pair_def split: if_splits)
qed

lemma canonical_constraints_canonical:
  "canonical_constraints v = Inr cs \<Longrightarrow> canonical_pairs cs"
proof -
  assume *: "canonical_constraints v = Inr cs"
  have "validate_gate_keys [] = Inr ()" by (simp add: validate_gate_keys_def)
  with * show ?thesis
    by (auto simp: canonical_constraints_def canonical_pairs_def run_iffs constraint_loop_iff
        Let_def distinct_map list_all_iff split: if_splits)
qed

lemma split_pairs_py_pairs:
  "split_pairs (map (\<lambda>(k, v). PySeq [PyStr k, PyStr v]) cs) =
     Inr (map (\<lambda>(k, v). (PyStr k, PyStr v)) cs)"
  by (induction cs) auto

lemma constraint_items_py [simp]:
  "constraint_items (py_pairs cs) = Inr (map (\<lambda>(k, v). (PyStr k, PyStr v)) cs)"
  "constraint_items (py_mapping cs) = Inr (map (\<lambda>(k, v). (PyStr k, PyStr v)) cs)"
  by (auto simp: py_pairs_def py_mapping_def split_pairs_py_pairs)

lemma canonical_constraints_of_items:
  assumes "v \<noteq> PyNone" and "constraint_items v = Inr (map (\<lambda>(k, v). (PyStr k, PyStr v)) ps)"
    and "distinct (map fst ps)" and "list_all valid_pair ps"
    and "validate_gate_keys (sort ps) = Inr ()"
  shows "canonical_constraints v = Inr (sort ps)"
proof -
  have "constraint_loop {} (map (\<lambda>(k, v). (PyStr k, PyStr v)) ps) = Inr ps"
    using assms(3,4) by (simp add: constraint_loop_iff)
  with assms(1,2,5) show ?thesis
    by (simp add: canonical_constraints_def)
qed

lemma py_not_None [simp]: "py_pairs cs \<noteq> PyNone" "py_mapping cs \<noteq> PyNone"
  by (simp_all add: py_pairs_def py_mapping_def)

lemma canonical_constraints_again [simp]:
  assumes "canonical_pairs cs"
  shows "canonical_constraints (py_pairs cs) = Inr cs"
    and "canonical_constraints (py_mapping cs) = Inr cs"
proof -
  have "sort cs = cs" using assms by (simp add: canonical_pairs_def sorted_sort_id)
  with assms show "canonical_constraints (py_pairs cs) = Inr cs"
    and "canonical_constraints (py_mapping cs) = Inr cs"
    using canonical_constraints_of_items [of "py_pairs cs" cs]
      canonical_constraints_of_items [of "py_mapping cs" cs]
    by (simp_all add: canonical_pairs_def)
qed

end
