(* ===== verification/JsonRead.thy ===== *)
theory JsonRead
  imports Envelope "HOL-Library.AList"
begin

text \<open>
  \<^verbatim>\<open>json.loads\<close> as the C scanner of CPython reads a text, with the hooks a caller may
  pass. Two things about the interpreter are parameters: the conversion of a decimal literal to
  a float (with its \<^verbatim>\<open>repr\<close>), and the depth, which is what is left of the recursion
  limit when the scanner is entered.
\<close>

section \<open>Reading JSON\<close>

datatype scan_error = Malformed | NonCanonicalConstant | DuplicateKey | TooDeep | OutOfFuel

text \<open>
  \<^verbatim>\<open>parse_float\<close>, \<^verbatim>\<open>parse_constant\<close> (called on \<^verbatim>\<open>NaN\<close> and the
  infinities) and \<^verbatim>\<open>object_pairs_hook\<close> (called on the members of a finished object, in
  the order of the text).
\<close>

record json_hooks =
  hook_float :: "pystr \<Rightarrow> pyfloat"
  hook_constant :: "pyfloat \<Rightarrow> scan_error + pyfloat"
  hook_pairs :: "(pystr \<times> json) list \<Rightarrow> scan_error + json"

text \<open>A \<^verbatim>\<open>dict\<close> filled in the order of the text: the last of two equal keys wins.\<close>

definition dict_of_pairs :: "(pystr \<times> json) list \<Rightarrow> (pystr \<times> json) list" where
  "dict_of_pairs ps = foldl (\<lambda>kvs kv. AList.update (fst kv) (snd kv) kvs) [] ps"

definition skip_ws :: "pystr \<Rightarrow> pystr" where
  "skip_ws s = dropWhile (\<lambda>c. c = 32 \<or> c = 9 \<or> c = 10 \<or> c = 13) s"

fun expect_char :: "nat \<Rightarrow> pystr \<Rightarrow> pystr option" where
  "expect_char c [] = None"
| "expect_char c (x # s) = (if x = c then Some s else None)"

definition simple_escape :: "nat \<Rightarrow> nat option" where
  "simple_escape c =
     (if c = 34 \<or> c = 92 \<or> c = 47 then Some c
      else if c = 98 then Some 8 else if c = 102 then Some 12 else if c = 110 then Some 10
      else if c = 114 then Some 13 else if c = 116 then Some 9 else None)"

definition read_hex4 :: "pystr \<Rightarrow> (nat \<times> pystr) option" where
  "read_hex4 s =
     (if length s < 4 then None
      else (case hex_number 0 (take 4 s) of None \<Rightarrow> None | Some n \<Rightarrow> Some (n, drop 4 s)))"

lemma read_hex4_shorter: "read_hex4 s = Some (n, r) \<Longrightarrow> length r < length s"
  by (auto simp: read_hex4_def split: if_splits option.splits)

definition is_high :: "nat \<Rightarrow> bool" where "is_high u \<longleftrightarrow> 55296 \<le> u \<and> u < 56320"
definition is_low :: "nat \<Rightarrow> bool" where "is_low u \<longleftrightarrow> 56320 \<le> u \<and> u < 57344"

text \<open>
  The code point after \<^verbatim>\<open>\u\<close> and what follows it: a high surrogate joins the low
  surrogate escaped right after it, and stays alone otherwise.
\<close>

definition read_u_escape :: "pystr \<Rightarrow> (nat \<times> pystr) option" where
  "read_u_escape s =
     (case read_hex4 s of
        None \<Rightarrow> None
      | Some (u, r) \<Rightarrow>
          if is_high u \<and> take 2 r = [92, 117]
          then (case read_hex4 (drop 2 r) of
                  None \<Rightarrow> None
                | Some (v, r') \<Rightarrow>
                    if is_low v then Some (65536 + (u - 55296) * 1024 + (v - 56320), r')
                    else Some (u, r))
          else Some (u, r))"

lemma read_u_escape_shorter: "read_u_escape s = Some (n, r) \<Longrightarrow> length r < length s"
  by (auto simp: read_u_escape_def split: if_splits option.splits dest!: read_hex4_shorter)

text \<open>One character of a string literal, decoded.\<close>

definition scan_char :: "pystr \<Rightarrow> (nat \<times> pystr) option" where
  "scan_char s =
     (case s of
        [] \<Rightarrow> None
      | c # r \<Rightarrow>
          if c < 32 then None
          else if c \<noteq> 92 then Some (c, r)
          else (case r of
                  [] \<Rightarrow> None
                | e # r1 \<Rightarrow>
                    if e = 117 then read_u_escape r1
                    else map_option (\<lambda>u. (u, r1)) (simple_escape e)))"

lemma scan_char_shorter: "scan_char s = Some (u, r) \<Longrightarrow> length r < length s"
  by (auto simp: scan_char_def split: list.splits if_splits dest!: read_u_escape_shorter)

function scan_string :: "pystr \<Rightarrow> (pystr \<times> pystr) option" where
  "scan_string s =
     (case expect_char 34 s of
        Some r \<Rightarrow> Some ([], r)
      | None \<Rightarrow>
          (case scan_char s of
             None \<Rightarrow> None
           | Some (u, r) \<Rightarrow>
               (case scan_string r of None \<Rightarrow> None | Some (t, r') \<Rightarrow> Some (u # t, r'))))"
  by pat_completeness auto

termination
  by (relation "measure length") (auto dest: scan_char_shorter)

declare scan_string.simps [simp del]

lemma expect_char_shorter: "expect_char c s = Some r \<Longrightarrow> length s = Suc (length r)"
  by (cases s) (auto split: if_splits)

lemma scan_string_shorter: "scan_string s = Some (t, r) \<Longrightarrow> length r < length s"
proof (induction s arbitrary: t r rule: scan_string.induct)
  case (1 s)
  show ?case
  proof (cases "expect_char 34 s")
    case (Some r')
    with "1.prems" show ?thesis
      by (simp add: scan_string.simps [of s] expect_char_shorter)
  next
    case None
    with "1.prems" obtain u r1 t' where
      *: "scan_char s = Some (u, r1)" "scan_string r1 = Some (t', r)"
      by (auto simp: scan_string.simps [of s] split: option.splits)
    have "length r < length r1" by (rule "1.IH" [OF None *(1) refl *(2)])
    with scan_char_shorter [OF *(1)] show ?thesis by simp
  qed
qed

definition is_digit :: "nat \<Rightarrow> bool" where "is_digit c \<longleftrightarrow> 48 \<le> c \<and> c \<le> 57"

definition digits_value :: "pystr \<Rightarrow> int" where
  "digits_value ds = foldl (\<lambda>a c. 10 * a + int (c - 48)) 0 ds"

text \<open>The number literal at the head of the text: sign, integer digits, fraction, exponent.\<close>

definition scan_fraction :: "pystr \<Rightarrow> pystr \<times> pystr" where
  "scan_fraction s =
     (case expect_char 46 s of
        None \<Rightarrow> ([], s)
      | Some r \<Rightarrow>
          (let ds = takeWhile is_digit r in
           if ds = [] then ([], s) else (46 # ds, dropWhile is_digit r)))"

definition scan_exponent :: "pystr \<Rightarrow> pystr \<times> pystr" where
  "scan_exponent s =
     (case s of
        [] \<Rightarrow> ([], s)
      | e # r \<Rightarrow>
          if e \<noteq> 101 \<and> e \<noteq> 69 then ([], s)
          else
            (let sign = (if r \<noteq> [] \<and> (hd r = 43 \<or> hd r = 45) then [hd r] else []);
                 r' = drop (length sign) r;
                 ds = takeWhile is_digit r'
             in if ds = [] then ([], s) else (e # sign @ ds, dropWhile is_digit r')))"

definition MAX_INT_DIGITS :: nat where "MAX_INT_DIGITS = 4300"

text \<open>The optional sign, the digits of the integer part (a leading zero stands alone) and the rest.\<close>

definition scan_int :: "pystr \<Rightarrow> pystr \<times> pystr \<times> pystr" where
  "scan_int s =
     (let sign = (if s \<noteq> [] \<and> hd s = 45 then [45] else []);
          r = drop (length sign) s;
          ds = (if r \<noteq> [] \<and> hd r = 48 then [48] else takeWhile is_digit r)
      in (sign, ds, drop (length ds) r))"

definition scan_number ::
  "(pystr \<Rightarrow> pyfloat) \<Rightarrow> pystr \<Rightarrow> scan_error + json \<times> pystr" where
  "scan_number float_of s =
     (case scan_int s of (sign, ds, r1) \<Rightarrow>
      case scan_fraction r1 of (frac, r2) \<Rightarrow>
      case scan_exponent r2 of (ex, r3) \<Rightarrow>
        if ds = [] then Inl Malformed
        else if frac \<noteq> [] \<or> ex \<noteq> [] then Inr (JFloat (float_of (sign @ ds @ frac @ ex)), r3)
        else if length ds > MAX_INT_DIGITS then Inl Malformed
        else Inr (JInt (if sign = [] then digits_value ds else - digits_value ds), r1))"

text \<open>What a finished value becomes, followed by the rest of the text.\<close>

fun resume :: "pystr \<Rightarrow> scan_error + json \<Rightarrow> scan_error + json \<times> pystr" where
  "resume r (Inl e) = Inl e"
| "resume r (Inr v) = Inr (v, r)"

lemma resume_eq_Inr [simp]: "resume r x = Inr y \<longleftrightarrow> (\<exists>v. x = Inr v \<and> y = (v, r))"
  by (cases x) auto

lemma resume_eq_Inl [simp]: "resume r x = Inl e \<longleftrightarrow> x = Inl e"
  by (cases x) auto

fun float_value :: "scan_error + pyfloat \<Rightarrow> scan_error + json" where
  "float_value (Inl e) = Inl e"
| "float_value (Inr x) = Inr (JFloat x)"

lemma float_value_eq_Inl [simp]: "float_value x = Inl e \<longleftrightarrow> x = Inl e"
  by (cases x) auto

text \<open>
  The scanner. \<open>d\<close> counts the containers that may still be opened, and each call spends one
  unit of fuel.
\<close>

fun scan_value ::
    "json_hooks \<Rightarrow> nat \<Rightarrow> nat \<Rightarrow> pystr \<Rightarrow> scan_error + json \<times> pystr"
and scan_members ::
    "json_hooks \<Rightarrow> nat \<Rightarrow> nat \<Rightarrow> (pystr \<times> json) list \<Rightarrow> pystr \<Rightarrow>
     scan_error + json \<times> pystr"
and scan_elements ::
    "json_hooks \<Rightarrow> nat \<Rightarrow> nat \<Rightarrow> json list \<Rightarrow> pystr \<Rightarrow>
     scan_error + json \<times> pystr" where
  "scan_value h 0 d s = Inl OutOfFuel"
| "scan_value h (Suc n) d s =
     (case s of
        [] \<Rightarrow> Inl Malformed
      | c # r \<Rightarrow>
          if c = 34 then
            (case scan_string r of None \<Rightarrow> Inl Malformed | Some (t, r') \<Rightarrow> Inr (JStr t, r'))
          else if c = 123 then
            (if d = 0 then Inl TooDeep
             else (case expect_char 125 (skip_ws r) of
                     Some r' \<Rightarrow> resume r' (hook_pairs h [])
                   | None \<Rightarrow> scan_members h n (d - 1) [] (skip_ws r)))
          else if c = 91 then
            (if d = 0 then Inl TooDeep
             else (case expect_char 93 (skip_ws r) of
                     Some r' \<Rightarrow> Inr (JList [], r')
                   | None \<Rightarrow> scan_elements h n (d - 1) [] (skip_ws r)))
          else if starts_with s (pys ''null'') then Inr (JNull, drop 4 s)
          else if starts_with s (pys ''true'') then Inr (JBool True, drop 4 s)
          else if starts_with s (pys ''false'') then Inr (JBool False, drop 5 s)
          else if starts_with s (pys ''NaN'') then
            resume (drop 3 s) (float_value (hook_constant h NaN))
          else if starts_with s (pys ''Infinity'') then
            resume (drop 8 s) (float_value (hook_constant h PosInf))
          else if starts_with s (pys ''-Infinity'') then
            resume (drop 9 s) (float_value (hook_constant h NegInf))
          else scan_number (hook_float h) s)"
| "scan_members h 0 d acc s = Inl OutOfFuel"
| "scan_members h (Suc n) d acc s =
     (case expect_char 34 s of
        None \<Rightarrow> Inl Malformed
      | Some r \<Rightarrow>
          (case scan_string r of
             None \<Rightarrow> Inl Malformed
           | Some (k, r1) \<Rightarrow>
               (case expect_char 58 (skip_ws r1) of
                  None \<Rightarrow> Inl Malformed
                | Some r2 \<Rightarrow>
                    (case scan_value h n d (skip_ws r2) of
                       Inl e \<Rightarrow> Inl e
                     | Inr (v, r3) \<Rightarrow>
                         (case expect_char 125 (skip_ws r3) of
                            Some r4 \<Rightarrow> resume r4 (hook_pairs h (acc @ [(k, v)]))
                          | None \<Rightarrow>
                              (case expect_char 44 (skip_ws r3) of
                                 None \<Rightarrow> Inl Malformed
                               | Some r4 \<Rightarrow>
                                   scan_members h n d (acc @ [(k, v)]) (skip_ws r4)))))))"
| "scan_elements h 0 d acc s = Inl OutOfFuel"
| "scan_elements h (Suc n) d acc s =
     (case scan_value h n d s of
        Inl e \<Rightarrow> Inl e
      | Inr (v, r1) \<Rightarrow>
          (case expect_char 93 (skip_ws r1) of
             Some r2 \<Rightarrow> Inr (JList (acc @ [v]), r2)
           | None \<Rightarrow>
               (case expect_char 44 (skip_ws r1) of
                  None \<Rightarrow> Inl Malformed
                | Some r2 \<Rightarrow> scan_elements h n d (acc @ [v]) (skip_ws r2))))"

text \<open>
  \<^verbatim>\<open>json.loads\<close>: one value, surrounded by white space; a byte order mark is refused.
  The fuel is twice the length of the text and one.
\<close>

definition json_loads_with :: "json_hooks \<Rightarrow> nat \<Rightarrow> pystr \<Rightarrow> scan_error + json" where
  "json_loads_with h depth s =
     (if s \<noteq> [] \<and> hd s = 65279 then Inl Malformed
      else (case scan_value h (2 * length s + 1) depth (skip_ws s) of
              Inl e \<Rightarrow> Inl e
            | Inr (v, r) \<Rightarrow> if skip_ws r = [] then Inr v else Inl Malformed))"

text \<open>\<^verbatim>\<open>json.loads(text, parse_constant=...)\<close> with a hook that raises.\<close>

definition strict_constants :: "(pystr \<Rightarrow> pyfloat) \<Rightarrow> json_hooks" where
  "strict_constants fl =
     \<lparr>hook_float = fl, hook_constant = \<lambda>_. Inl NonCanonicalConstant,
      hook_pairs = \<lambda>ps. Inr (JObj (dict_of_pairs ps))\<rparr>"

definition json_loads ::
  "(pystr \<Rightarrow> pyfloat) \<Rightarrow> nat \<Rightarrow> pystr \<Rightarrow> scan_error + json" where
  "json_loads fl depth s = json_loads_with (strict_constants fl) depth s"

section \<open>The fuel is enough\<close>

lemma skip_ws_le: "length (skip_ws s) \<le> length s"
  by (simp add: skip_ws_def length_dropWhile_le)

lemma dropWhile_le: "length (dropWhile P s) \<le> length s"
  by (rule length_dropWhile_le)

lemma scan_fraction_le: "scan_fraction s = (f, r) \<Longrightarrow> length r \<le> length s"
  using dropWhile_le [of is_digit "tl s"]
  by (cases s) (auto simp: scan_fraction_def Let_def split: if_splits)

lemma scan_exponent_le: "scan_exponent s = (f, r) \<Longrightarrow> length r \<le> length s"
  using dropWhile_le [of is_digit "tl s"] dropWhile_le [of is_digit "drop 2 s"]
  by (cases s) (auto simp: scan_exponent_def Let_def numeral_2_eq_2 split: if_splits)

lemma scan_int_shorter:
  "scan_int s = (sign, ds, r) \<Longrightarrow> ds \<noteq> [] \<Longrightarrow> length r < length s"
  by (cases s) (auto simp: scan_int_def Let_def neq_Nil_conv split: if_splits)

lemma scan_number_shorter: "scan_number fl s = Inr (v, r) \<Longrightarrow> length r < length s"
  by (auto simp: scan_number_def split: prod.splits if_splits
      dest!: scan_fraction_le scan_exponent_le scan_int_shorter)

text \<open>A success consumes text; with more fuel than text, the fuel never runs out.\<close>

lemmas scan_dests =
  scan_string_shorter scan_number_shorter expect_char_shorter

lemma skip_ws_lt: "length r < length (skip_ws s) \<Longrightarrow> length r < length s"
  using skip_ws_le [of s] by simp

lemma scan_shorter:
  "(\<forall>d s v r. scan_value h n d s = Inr (v, r) \<longrightarrow> length r < length s) \<and>
   (\<forall>d acc s v r. scan_members h n d acc s = Inr (v, r) \<longrightarrow> length r < length s) \<and>
   (\<forall>d vs s v r. scan_elements h n d vs s = Inr (v, r) \<longrightarrow> length r < length s)"
proof (induction n)
  case 0
  then show ?case by simp
next
  case (Suc n)
  then have IH:
    "\<And>d s v r. scan_value h n d s = Inr (v, r) \<Longrightarrow> length r < length s"
    "\<And>d acc s v r. scan_members h n d acc s = Inr (v, r) \<Longrightarrow> length r < length s"
    "\<And>d vs s v r. scan_elements h n d vs s = Inr (v, r) \<Longrightarrow> length r < length s"
    by blast+
  have e: "length r < length s" if "expect_char c (skip_ws s) = Some r" for c r s
    using skip_ws_le [of s] expect_char_shorter [OF that] by simp
  have 1: "length r < length s" if *: "scan_value h (Suc n) d s = Inr (v, r)" for d s v r
  proof -
    obtain c t where s: "s = c # t" using * by (cases s) auto
    show ?thesis
      using * e [of _ t] skip_ws_le [of t]
      by (auto simp: s split: if_splits option.splits
          dest!: scan_dests IH intro: less_SucI le_less_trans)
  qed
  note IH' = IH(1) [THEN skip_ws_lt] IH(2) [THEN skip_ws_lt] IH(3) [THEN skip_ws_lt]
  have 2: "length r < length s" if "scan_members h (Suc n) d acc s = Inr (v, r)" for d acc s v r
    using that
    by (auto split: option.splits sum.splits prod.splits
        dest!: e scan_string_shorter expect_char_shorter [of 34] IH')
  have 3: "length r < length s" if "scan_elements h (Suc n) d vs s = Inr (v, r)" for d vs s v r
    using that
    by (auto split: option.splits sum.splits prod.splits dest!: e IH(1) IH')
  from 1 2 3 show ?case by blast
qed

text \<open>Hooks have errors of their own; running out of fuel is none of them.\<close>

definition hooks_total :: "json_hooks \<Rightarrow> bool" where
  "hooks_total h \<longleftrightarrow>
     (\<forall>ps. hook_pairs h ps \<noteq> Inl OutOfFuel) \<and> (\<forall>c. hook_constant h c \<noteq> Inl OutOfFuel)"

lemma hooks_totalD [simp]:
  "hooks_total h \<Longrightarrow> hook_pairs h ps \<noteq> Inl OutOfFuel"
  "hooks_total h \<Longrightarrow> hook_constant h c \<noteq> Inl OutOfFuel"
  by (auto simp: hooks_total_def)

lemma scan_fuel:
  assumes total [simp]: "hooks_total h"
  shows
  "(\<forall>d s. 2 * length s < n \<longrightarrow> scan_value h n d s \<noteq> Inl OutOfFuel) \<and>
   (\<forall>d acc s. 2 * length s < n \<longrightarrow> scan_members h n d acc s \<noteq> Inl OutOfFuel) \<and>
   (\<forall>d vs s. 2 * length s + 1 < n \<longrightarrow> scan_elements h n d vs s \<noteq> Inl OutOfFuel)"
proof (induction n)
  case 0
  then show ?case by simp
next
  case (Suc n)
  then have IH:
    "\<And>d s. 2 * length s < n \<Longrightarrow> scan_value h n d s \<noteq> Inl OutOfFuel"
    "\<And>d acc s. 2 * length s < n \<Longrightarrow> scan_members h n d acc s \<noteq> Inl OutOfFuel"
    "\<And>d vs s. 2 * length s + 1 < n \<Longrightarrow> scan_elements h n d vs s \<noteq> Inl OutOfFuel"
    by blast+
  have S: "\<And>d s v r. scan_value h n d s = Inr (v, r) \<Longrightarrow> length r < length s"
    using scan_shorter by blast
  have num: "scan_number fl s \<noteq> Inl OutOfFuel" for fl s
    by (simp add: scan_number_def split: prod.splits)
  have e: "length r < length s" if "expect_char c (skip_ws s) = Some r" for c r s
    using skip_ws_le [of s] expect_char_shorter [OF that] by simp
  have 1: "scan_value h (Suc n) d s \<noteq> Inl OutOfFuel" if len: "2 * length s < Suc n" for d s
  proof (cases s)
    case (Cons c t)
    have "2 * length (skip_ws t) + 1 < n"
      using len Cons skip_ws_le [of t] by simp
    then show ?thesis
      by (auto simp: Cons num IH split: option.splits)
  qed simp
  have 2: "scan_members h (Suc n) d acc s \<noteq> Inl OutOfFuel"
    if len: "2 * length s < Suc n" for d acc s
  proof -
    have val: "scan_value h n d (skip_ws r2) \<noteq> Inl OutOfFuel"
      if "expect_char 34 s = Some r" "scan_string r = Some (k, r1)"
        "expect_char 58 (skip_ws r1) = Some r2" for r k r1 r2
      using that len skip_ws_le [of r2]
      by (intro IH) (auto dest!: expect_char_shorter [of 34] scan_string_shorter e)
    have mem: "scan_members h n d acc' (skip_ws r4) \<noteq> Inl OutOfFuel"
      if "expect_char 34 s = Some r" "scan_string r = Some (k, r1)"
        "expect_char 58 (skip_ws r1) = Some r2" "scan_value h n d (skip_ws r2) = Inr (v, r3)"
        "expect_char 44 (skip_ws r3) = Some r4" for r k r1 r2 r3 r4 v acc'
      using that len skip_ws_le [of r4] skip_ws_le [of r2]
      by (intro IH) (auto dest!: expect_char_shorter [of 34] scan_string_shorter e S)
    show ?thesis
      using val mem by (auto split: option.splits sum.splits prod.splits)
  qed
  have 3: "scan_elements h (Suc n) d vs s \<noteq> Inl OutOfFuel"
    if len: "2 * length s + 1 < Suc n" for d vs s
  proof -
    have el: "scan_elements h n d vs' (skip_ws r2) \<noteq> Inl OutOfFuel"
      if "scan_value h n d s = Inr (v, r1)" "expect_char 44 (skip_ws r1) = Some r2"
      for v r1 r2 vs'
      using that len skip_ws_le [of r2] by (intro IH) (auto dest!: e S)
    show ?thesis
      using el IH(1) [of s d] len by (auto split: option.splits sum.splits prod.splits)
  qed
  from 1 2 3 show ?case by blast
qed

lemma json_loads_with_fuel:
  assumes "hooks_total h"
  shows "json_loads_with h depth s \<noteq> Inl OutOfFuel"
proof -
  have "2 * length (skip_ws s) < 2 * length s + 1"
    using skip_ws_le [of s] by simp
  then have "scan_value h (2 * length s + 1) depth (skip_ws s) \<noteq> Inl OutOfFuel"
    using scan_fuel [OF assms, of "2 * length s + 1"] by blast
  then show ?thesis
    by (auto simp: json_loads_with_def simp del: scan_value.simps split: sum.splits)
qed

lemma json_loads_fuel: "json_loads fl depth s \<noteq> Inl OutOfFuel"
  unfolding json_loads_def
  by (rule json_loads_with_fuel) (simp add: hooks_total_def strict_constants_def)

end
