(* ===== verification/OutputContract.thy ===== *)
theory OutputContract
  imports JsonRead
begin

text \<open>
  \<^verbatim>\<open>orchestration/schemas/output_contract.py\<close>: the two closed output contracts, the
  closed vocabulary of rejection codes and the validation of an untrusted return. The content
  is measured and never stored: a verdict carries its hash, its size and its codes.
\<close>

section \<open>Contracts and codes\<close>

definition OUTPUT_NON_EMPTY_TEXT_V1 :: pystr where
  "OUTPUT_NON_EMPTY_TEXT_V1 = pys ''pia://orchestration/output/non-empty-text/v1''"

definition OUTPUT_JSON_OBJECT_V1 :: pystr where
  "OUTPUT_JSON_OBJECT_V1 = pys ''pia://orchestration/output/json-object/v1''"

definition SUPPORTED_OUTPUT_CONTRACTS :: "pystr set" where
  "SUPPORTED_OUTPUT_CONTRACTS = {OUTPUT_NON_EMPTY_TEXT_V1, OUTPUT_JSON_OBJECT_V1}"

definition MEDIA_TYPE_TEXT_PLAIN :: pystr where
  "MEDIA_TYPE_TEXT_PLAIN = pys ''text/plain''"

definition MEDIA_TYPE_APPLICATION_JSON :: pystr where
  "MEDIA_TYPE_APPLICATION_JSON = pys ''application/json''"

definition CONTRACT_MEDIA_TYPES :: "pystr \<Rightarrow> pystr option" where
  "CONTRACT_MEDIA_TYPES =
     [OUTPUT_NON_EMPTY_TEXT_V1 \<mapsto> MEDIA_TYPE_TEXT_PLAIN,
      OUTPUT_JSON_OBJECT_V1 \<mapsto> MEDIA_TYPE_APPLICATION_JSON]"

definition CODE_UNSUPPORTED_OUTPUT_CONTRACT :: pystr where
  "CODE_UNSUPPORTED_OUTPUT_CONTRACT = pys ''unsupported_output_contract''"

definition CODE_MEDIA_TYPE_MISMATCH :: pystr where
  "CODE_MEDIA_TYPE_MISMATCH = pys ''media_type_mismatch''"

definition CODE_EXPECTED_NON_EMPTY_TEXT :: pystr where
  "CODE_EXPECTED_NON_EMPTY_TEXT = pys ''expected_non_empty_text''"

definition CODE_EXPECTED_JSON_OBJECT :: pystr where
  "CODE_EXPECTED_JSON_OBJECT = pys ''expected_json_object''"

definition CODE_NON_CANONICAL_JSON_NUMBER :: pystr where
  "CODE_NON_CANONICAL_JSON_NUMBER = pys ''non_canonical_json_number''"

definition VALIDATION_CODES :: "pystr set" where
  "VALIDATION_CODES =
     {CODE_UNSUPPORTED_OUTPUT_CONTRACT, CODE_MEDIA_TYPE_MISMATCH, CODE_EXPECTED_NON_EMPTY_TEXT,
      CODE_EXPECTED_JSON_OBJECT, CODE_NON_CANONICAL_JSON_NUMBER}"

lemmas contract_defs =
  OUTPUT_NON_EMPTY_TEXT_V1_def OUTPUT_JSON_OBJECT_V1_def SUPPORTED_OUTPUT_CONTRACTS_def
  MEDIA_TYPE_TEXT_PLAIN_def MEDIA_TYPE_APPLICATION_JSON_def CONTRACT_MEDIA_TYPES_def

lemmas code_defs =
  CODE_UNSUPPORTED_OUTPUT_CONTRACT_def CODE_MEDIA_TYPE_MISMATCH_def
  CODE_EXPECTED_NON_EMPTY_TEXT_def CODE_EXPECTED_JSON_OBJECT_def
  CODE_NON_CANONICAL_JSON_NUMBER_def VALIDATION_CODES_def

fun code_loop :: "pyobj list \<Rightarrow> error + pystr list" where
  "code_loop [] = Inr []"
| "code_loop (codigo # resto) =
     andthen (expect_str codigo) (\<lambda>c.
     andthen (check (c \<in> VALIDATION_CODES)) (\<lambda>_.
     andthen (code_loop resto) (\<lambda>cs. Inr (c # cs))))"

fun as_tuple :: "pyobj \<Rightarrow> error + pyobj list" where
  "as_tuple PyNone = Inl ValueError"
| "as_tuple (PyStr _) = Inl ValueError"
| "as_tuple (PyBytes _) = Inl ValueError"
| "as_tuple (PySeq vs) = Inr vs"
| "as_tuple (PyMap kvs) = Inr (map (\<lambda>kv. PyStr (fst kv)) kvs)"
| "as_tuple _ = Inl PyTypeError"

definition canonical_validation_codes :: "pyobj \<Rightarrow> error + pystr list" where
  "canonical_validation_codes valor =
     andthen (as_tuple valor) (\<lambda>codigos.
     andthen (code_loop codigos) (\<lambda>cs. Inr (sort (remdups cs))))"

section \<open>The verdict\<close>

record validated_output =
  accepted :: bool
  media_type :: pystr
  output_sha256 :: pystr
  output_bytes :: nat
  validation_codes :: "pystr list"

definition make_validated_output ::
  "bool \<Rightarrow> pystr \<Rightarrow> pystr \<Rightarrow> nat \<Rightarrow> pystr list \<Rightarrow> error + validated_output" where
  "make_validated_output acc media h n codes =
     andthen (check (match_sha256 h)) (\<lambda>_.
     andthen (check (\<not> (acc \<and> codes \<noteq> []))) (\<lambda>_.
     andthen (check (\<not> (\<not> acc \<and> codes = []))) (\<lambda>_.
     Inr \<lparr>accepted = acc, media_type = media, output_sha256 = h, output_bytes = n,
          validation_codes = codes\<rparr>)))"

definition rejeitar :: "bytes \<Rightarrow> pystr \<Rightarrow> pystr list \<Rightarrow> error + validated_output" where
  "rejeitar bs media codigos =
     andthen (canonical_validation_codes (PySeq (map PyStr codigos))) (\<lambda>cs.
     make_validated_output False media (sha256_hex bs) (length bs) cs)"

definition aceitar :: "bytes \<Rightarrow> pystr \<Rightarrow> error + validated_output" where
  "aceitar bs media = make_validated_output True media (sha256_hex bs) (length bs) []"

text \<open>
  The second and third parameter are what is left of the recursion limit when the scanner and
  the encoder are entered. A recursion error of the scanner is a verdict; one of the encoder, and a
  canonical text with a lone surrogate, leave the function as exceptions.
\<close>

definition validate_json_object ::
  "(pystr \<Rightarrow> pyfloat) \<Rightarrow> nat \<Rightarrow> nat \<Rightarrow> bytes \<Rightarrow> pystr \<Rightarrow> pystr \<Rightarrow>
   error + validated_output" where
  "validate_json_object fl load_depth dump_depth brutos esperado content =
     (case json_loads fl load_depth content of
        Inl NonCanonicalConstant \<Rightarrow> rejeitar brutos esperado [CODE_NON_CANONICAL_JSON_NUMBER]
      | Inl _ \<Rightarrow> rejeitar brutos esperado [CODE_EXPECTED_JSON_OBJECT]
      | Inr (JObj kvs) \<Rightarrow>
          (case dump_check dump_depth (JObj kvs) of
             Some DumpTooDeep \<Rightarrow> Inl PyRecursionError
           | Some DumpNonFinite \<Rightarrow> rejeitar brutos esperado [CODE_NON_CANONICAL_JSON_NUMBER]
           | None \<Rightarrow>
               (case utf8 (dumps (JObj kvs)) of
                  None \<Rightarrow> Inl UnicodeEncodeError
                | Some bs \<Rightarrow> aceitar bs esperado))
      | Inr _ \<Rightarrow> rejeitar brutos esperado [CODE_EXPECTED_JSON_OBJECT])"

definition validate_output ::
  "(pystr \<Rightarrow> pyfloat) \<Rightarrow> nat \<Rightarrow> nat \<Rightarrow> pystr \<Rightarrow> pystr \<Rightarrow> pyobj \<Rightarrow>
   error + validated_output" where
  "validate_output fl load_depth dump_depth contract media valor =
     andthen (expect_str valor) (\<lambda>content.
     case utf8 content of
       None \<Rightarrow> Inl UnicodeEncodeError
     | Some brutos \<Rightarrow>
         (case CONTRACT_MEDIA_TYPES contract of
            None \<Rightarrow> rejeitar brutos media [CODE_UNSUPPORTED_OUTPUT_CONTRACT]
          | Some esperado \<Rightarrow>
              if media \<noteq> esperado then rejeitar brutos media [CODE_MEDIA_TYPE_MISMATCH]
              else if contract = OUTPUT_NON_EMPTY_TEXT_V1 then
                (if blank content then rejeitar brutos esperado [CODE_EXPECTED_NON_EMPTY_TEXT]
                 else aceitar brutos esperado)
              else validate_json_object fl load_depth dump_depth brutos esperado content))"

section \<open>What a verdict says\<close>

lemma code_loop_PyStr:
  "code_loop (map PyStr cs) = (if set cs \<subseteq> VALIDATION_CODES then Inr cs else Inl ValueError)"
  by (induction cs) (auto simp: check_def)

lemma rejeitar_code:
  "c \<in> VALIDATION_CODES \<Longrightarrow>
   rejeitar bs media [c] =
     Inr \<lparr>accepted = False, media_type = media, output_sha256 = sha256_hex bs,
          output_bytes = length bs, validation_codes = [c]\<rparr>"
  by (simp add: rejeitar_def canonical_validation_codes_def make_validated_output_def)

lemma aceitar_ok:
  "aceitar bs media =
     Inr \<lparr>accepted = True, media_type = media, output_sha256 = sha256_hex bs,
          output_bytes = length bs, validation_codes = []\<rparr>"
  by (simp add: aceitar_def make_validated_output_def)

lemma codes_in [simp]:
  "CODE_UNSUPPORTED_OUTPUT_CONTRACT \<in> VALIDATION_CODES"
  "CODE_MEDIA_TYPE_MISMATCH \<in> VALIDATION_CODES"
  "CODE_EXPECTED_NON_EMPTY_TEXT \<in> VALIDATION_CODES"
  "CODE_EXPECTED_JSON_OBJECT \<in> VALIDATION_CODES"
  "CODE_NON_CANONICAL_JSON_NUMBER \<in> VALIDATION_CODES"
  by (simp_all add: VALIDATION_CODES_def)

lemmas verdict_simps = rejeitar_code [OF codes_in(1)] rejeitar_code [OF codes_in(2)]
  rejeitar_code [OF codes_in(3)] rejeitar_code [OF codes_in(4)] rejeitar_code [OF codes_in(5)]
  aceitar_ok

end
