(* ===== verification/Store.thy ===== *)
theory Store
  imports OutputContract
begin

text \<open>
  The database session of the orchestration layer: one record per row of
  \<^verbatim>\<open>orchestration/models\<close> and of the two tables of
  \<^verbatim>\<open>connections/models\<close> an export writes, the tables as lists in insertion order,
  and the constraints each table declares (\<^verbatim>\<open>__table_args__\<close> and the migrations),
  checked on every insertion.

  Of the catalogue of access providers only the identities a foreign key can refer to are kept.

  \<open>now\<close> is what PostgreSQL's \<^verbatim>\<open>now()\<close> returns, the start of the transaction,
  in microseconds. \<open>emitted\<close> is the registry of pending authorizations of the export
  service, an object of the request, and \<open>next_object\<close> the next object identity.
  \<open>entropy\<close> is the stream \<^verbatim>\<open>uuid.uuid4()\<close> draws from and
  \<open>drawn\<close> how much of it was used; nothing here assumes that the draws differ.
\<close>

section \<open>Rows\<close>

record schedule =
  sch_id :: uuid
  sch_title :: pystr
  sch_state :: schedule_state
  sch_mode :: handoff_mode
  sch_owner :: pystr

record schedule_step =
  stp_id :: uuid
  stp_schedule_id :: uuid
  stp_position :: int
  stp_role :: pystr
  stp_instruction_ref :: pystr
  stp_context_refs :: "context_ref list"
  stp_output_contract :: pystr
  stp_constraints :: constraint_pairs
  stp_state :: step_state

record handoff_attempt =
  att_id :: uuid
  att_schedule_id :: uuid
  att_step_id :: uuid
  att_number :: int
  att_envelope_version :: pystr
  att_content_sha256 :: pystr
  att_state :: attempt_state
  att_created_at :: int

record seal_receipt =
  rcp_id :: uuid
  rcp_attempt_id :: uuid
  rcp_content_sha256 :: pystr
  rcp_sealed_at :: int
  rcp_sealer_ref :: pystr

record command_receipt =
  cmd_id :: uuid
  cmd_principal :: pystr
  cmd_operation :: pystr
  cmd_key :: pystr
  cmd_request_sha256 :: "pystr option"
  cmd_outcome_ref :: pystr

record handoff_result =
  res_id :: uuid
  res_attempt_id :: uuid
  res_status :: handoff_result_status
  res_contract :: pystr
  res_media_type :: pystr
  res_sha256 :: pystr
  res_bytes :: int
  res_declared_ref :: "pystr option"
  res_codes :: "pystr list"

record handoff_attribution =
  atr_id :: uuid
  atr_attempt_id :: uuid
  atr_role :: pystr
  atr_provider :: "pystr option"
  atr_model :: "pystr option"
  atr_instance :: pystr
  atr_declared_at :: int
  atr_self_declared :: bool

record service_delegation =
  dlg_id :: uuid
  dlg_schedule_id :: uuid
  dlg_step_id :: uuid
  dlg_content_sha256 :: pystr
  dlg_scope :: pystr
  dlg_granted_by :: pystr
  dlg_valid_until :: int
  dlg_state :: delegation_state
  dlg_consumed_at :: "int option"
  dlg_consumed_by :: "uuid option"
  dlg_created_at :: int

record control_event =
  evt_id :: uuid
  evt_schedule_id :: uuid
  evt_step_id :: "uuid option"
  evt_kind :: control_event_kind
  evt_reason :: control_reason_code
  evt_category :: "stop_condition_category option"
  evt_declared_by :: pystr
  evt_occurred_at :: int

record execution_observation =
  obs_id :: uuid
  obs_schedule_id :: uuid
  obs_step_id :: uuid
  obs_kind :: observation_kind
  obs_previous_attempt :: uuid
  obs_current_attempt :: uuid
  obs_previous_provider :: "pystr option"
  obs_current_provider :: "pystr option"
  obs_self_declared :: bool
  obs_observed_at :: int

record audit_opinion =
  opn_id :: uuid
  opn_result_id :: uuid
  opn_opinion :: audit_opinion_kind
  opn_reason_codes :: "pystr list"
  opn_auditor_ref :: pystr
  opn_issued_by :: pystr
  opn_issued_at :: int

text \<open>The connection kernel: how a repasse crosses the boundary.\<close>

datatype connection_method =
  METHOD_MANUAL_HANDOFF | PROVIDER_NATIVE_MCP_INBOUND | DIRECT_PROVIDER_API
| PROVIDER_NATIVE_AGENT_BRIDGE | ENTERPRISE_GATEWAY_OR_BROKER | LOCAL_MODEL_ADAPTER
| BROWSER_ASSISTED_HANDOFF | WATCHED_INBOX_OUTBOX

datatype connection_state =
  DECLARED | PREFLIGHT_REQUIRED | IMPLEMENTED_PENDING_AUDIT | AVAILABLE | DEGRADED
| CONNECTION_REVOKED | UNSUPPORTED

datatype model_attestation_level = ATTESTED | SELF_DECLARED | UNKNOWN

record connection_profile =
  con_id :: uuid
  con_principal :: pystr
  con_method :: connection_method
  con_endpoint_ref :: "pystr option"
  con_access_provider :: "uuid option"
  con_state :: connection_state
  con_credential_ref :: "pystr option"
  con_display_name :: "pystr option"
  con_created_at :: int

record connection_execution_receipt =
  exe_id :: uuid
  exe_principal :: pystr
  exe_schedule_id :: uuid
  exe_step_id :: uuid
  exe_attempt_id :: uuid
  exe_connection_id :: uuid
  exe_method :: connection_method
  exe_access_provider :: "pystr option"
  exe_requested_model :: "pystr option"
  exe_observed_model :: "pystr option"
  exe_attestation :: model_attestation_level
  exe_observed_at :: int

text \<open>
  An authorization of dispatch is a Python object: \<open>da_object\<close> is its identity, which
  \<^verbatim>\<open>is\<close> compares. A copy of all its fields is another object.
\<close>

record dispatch_authorized =
  da_content_sha256 :: pystr
  da_delegation_id :: "uuid option"
  da_first_dispatch :: bool
  da_authorization_id :: uuid
  da_object :: nat

record store =
  schedules :: "schedule list"
  steps :: "schedule_step list"
  attempts :: "handoff_attempt list"
  seals :: "seal_receipt list"
  commands :: "command_receipt list"
  results :: "handoff_result list"
  attributions :: "handoff_attribution list"
  delegations :: "service_delegation list"
  events :: "control_event list"
  observations :: "execution_observation list"
  opinions :: "audit_opinion list"
  profiles :: "connection_profile list"
  exec_receipts :: "connection_execution_receipt list"
  provider_ids :: "uuid list"
  emitted :: "(uuid \<times> dispatch_authorized) list"
  next_object :: nat
  now :: int
  entropy :: "nat \<Rightarrow> uuid"
  drawn :: nat

type_synonym 'a db = "(store, 'a) prog"

section \<open>Column and constraint checks\<close>

text \<open>
  A text column: the driver encodes the parameter, PostgreSQL refuses the NUL character and a
  value longer than the column. A string inside a \<^verbatim>\<open>JSONB\<close> column reaches the
  server escaped, and is refused there for a NUL or a lone surrogate.
\<close>

definition text_col :: "nat \<Rightarrow> pystr \<Rightarrow> error option" where
  "text_col n s =
     (if utf8 s = None then Some UnicodeEncodeError
      else if 0 \<in> set s \<or> length s > n then Some DataError else None)"

definition opt_text_col :: "nat \<Rightarrow> pystr option \<Rightarrow> error option" where
  "opt_text_col n s = (case s of None \<Rightarrow> None | Some t \<Rightarrow> text_col n t)"

definition json_text :: "pystr \<Rightarrow> error option" where
  "json_text s = (if utf8 s = None \<or> 0 \<in> set s then Some DataError else None)"

definition int_col :: "int \<Rightarrow> error option" where
  "int_col n = (if n > 2147483647 then Some DataError else None)"

definition ck :: "bool \<Rightarrow> string \<Rightarrow> error option" where
  "ck b name = (if b then None else Some (IntegrityError name))"

lemma ck_None [simp]: "ck b name = None \<longleftrightarrow> b"
  by (simp add: ck_def)

lemma text_col_None [simp]:
  "text_col n s = None \<longleftrightarrow> utf8 s \<noteq> None \<and> 0 \<notin> set s \<and> length s \<le> n"
  by (auto simp: text_col_def)

lemma opt_text_col_None [simp]:
  "opt_text_col n s = None \<longleftrightarrow> (\<forall>t. s = Some t \<longrightarrow> text_col n t = None)"
  by (auto simp: opt_text_col_def split: option.splits)

lemma json_text_None [simp]: "json_text s = None \<longleftrightarrow> utf8 s \<noteq> None \<and> 0 \<notin> set s"
  by (auto simp: json_text_def)

lemma int_col_None [simp]: "int_col n = None \<longleftrightarrow> n \<le> 2147483647"
  by (auto simp: int_col_def)

text \<open>PostgreSQL's \<^verbatim>\<open>~ '^[0-9a-f]{64}$'\<close>: no newline passes there.\<close>

definition sql_hex64 :: "pystr \<Rightarrow> bool" where
  "sql_hex64 s \<longleftrightarrow> length s = 64 \<and> (\<forall>c \<in> set s. is_lower_hex c)"

lemma sql_hex64_sha256 [simp]: "sql_hex64 (sha256_hex bs)"
  by (auto simp: sql_hex64_def sha256_hex_lower)

text \<open>Insertion: the table's checks, then the row at the end.\<close>

definition insert_row ::
  "(store \<Rightarrow> 'r \<Rightarrow> error option) \<Rightarrow> (('r list \<Rightarrow> 'r list) \<Rightarrow> store \<Rightarrow> store) \<Rightarrow> 'r \<Rightarrow> unit db" where
  "insert_row chk upd r =
     (\<lambda>s. case chk s r of Some e \<Rightarrow> (Inl e, s) | None \<Rightarrow> (Inr (), upd (\<lambda>t. t @ [r]) s))"

lemma insert_row_eq_Inr [run_iffs]:
  "insert_row chk upd r s = (Inr u, s') \<longleftrightarrow> chk s r = None \<and> s' = upd (\<lambda>t. t @ [r]) s"
  by (auto simp: insert_row_def split: option.splits)

lemma insert_row_eq_Inl [run_iffs]:
  "insert_row chk upd r s = (Inl e, s') \<longleftrightarrow> chk s r = Some e \<and> s' = s"
  by (auto simp: insert_row_def split: option.splits)

lemma preserves_insert_row:
  assumes "\<And>s. I s \<Longrightarrow> chk s r = None \<Longrightarrow> I (upd (\<lambda>t. t @ [r]) s)"
  shows "preserves I (insert_row chk upd r)"
  using assms by (auto simp: preserves_def insert_row_def split: option.splits)

text \<open>An insertion and an update as the new value of the table.\<close>

lemma table_updates [run_iffs]:
  "schedules_update (\<lambda>t. t @ [r0]) s = s\<lparr>schedules := schedules s @ [r0]\<rparr>"
  "steps_update (\<lambda>t. t @ [r1]) s = s\<lparr>steps := steps s @ [r1]\<rparr>"
  "attempts_update (\<lambda>t. t @ [r2]) s = s\<lparr>attempts := attempts s @ [r2]\<rparr>"
  "seals_update (\<lambda>t. t @ [r3]) s = s\<lparr>seals := seals s @ [r3]\<rparr>"
  "results_update (\<lambda>t. t @ [r4]) s = s\<lparr>results := results s @ [r4]\<rparr>"
  "attributions_update (\<lambda>t. t @ [r5]) s = s\<lparr>attributions := attributions s @ [r5]\<rparr>"
  "delegations_update (\<lambda>t. t @ [r6]) s = s\<lparr>delegations := delegations s @ [r6]\<rparr>"
  "events_update (\<lambda>t. t @ [r7]) s = s\<lparr>events := events s @ [r7]\<rparr>"
  "observations_update (\<lambda>t. t @ [r8]) s = s\<lparr>observations := observations s @ [r8]\<rparr>"
  "opinions_update (\<lambda>t. t @ [r9]) s = s\<lparr>opinions := opinions s @ [r9]\<rparr>"
  "profiles_update (\<lambda>t. t @ [r10]) s = s\<lparr>profiles := profiles s @ [r10]\<rparr>"
  "exec_receipts_update (\<lambda>t. t @ [r11]) s = s\<lparr>exec_receipts := exec_receipts s @ [r11]\<rparr>"
  "schedules_update (upd_where P0 f0) s = s\<lparr>schedules := upd_where P0 f0 (schedules s)\<rparr>"
  "steps_update (upd_where P1 f1) s = s\<lparr>steps := upd_where P1 f1 (steps s)\<rparr>"
  "attempts_update (upd_where P2 f2) s = s\<lparr>attempts := upd_where P2 f2 (attempts s)\<rparr>"
  by simp_all

definition draw_uuid :: "uuid db" where
  "draw_uuid = (\<lambda>s. (Inr (entropy s (drawn s)), s\<lparr>drawn := Suc (drawn s)\<rparr>))"

lemma draw_uuid_iff [run_iffs]:
  "draw_uuid s = (r, s') \<longleftrightarrow> r = Inr (entropy s (drawn s)) \<and> s' = s\<lparr>drawn := Suc (drawn s)\<rparr>"
  by (auto simp: draw_uuid_def)

definition database_now :: "int db" where
  "database_now = gets now"

end
