(* ===== verification/Constraints.thy ===== *)
theory Constraints
  imports Store
begin

text \<open>
  What each table refuses: the length of its columns, its \<^verbatim>\<open>CHECK\<close>, \<^verbatim>\<open>UNIQUE\<close> and
  foreign key constraints and its partial unique indexes, each under the name the schema gives it.
  The two deferred foreign keys are checked at commit.
\<close>

definition fresh :: "('r \<Rightarrow> 'k) \<Rightarrow> 'k \<Rightarrow> 'r list \<Rightarrow> bool" where
  "fresh k x t \<longleftrightarrow> (\<forall>r \<in> set t. k r \<noteq> x)"

definition exists_row :: "('r \<Rightarrow> bool) \<Rightarrow> 'r list \<Rightarrow> bool" where
  "exists_row P t \<longleftrightarrow> (\<exists>r \<in> set t. P r)"

definition schedule_row_ok :: "schedule \<Rightarrow> error option" where
  "schedule_row_ok r = first_some
     [text_col MAX_TITLE_LENGTH (sch_title r), text_col MAX_REF_LENGTH (sch_owner r),
      ck (sql_not_blank (sch_title r)) ''ck_schedules_title_not_blank'',
      ck (sql_not_blank (sch_owner r)) ''ck_schedules_control_principal_not_blank'']"

definition check_schedule :: "store \<Rightarrow> schedule \<Rightarrow> error option" where
  "check_schedule s r = first_some
     [schedule_row_ok r, ck (fresh sch_id (sch_id r) (schedules s)) ''schedules_pkey'']"

definition ref_col :: "context_ref \<Rightarrow> error option" where
  "ref_col c = first_some [json_text (uri c), json_text (sha256 c)]"

definition context_refs_are_canonical :: "context_ref list \<Rightarrow> bool" where
  "context_refs_are_canonical =
     list_all (\<lambda>c. sql_not_blank (uri c) \<and> sql_hex64 (sha256 c) \<and> 0 \<le> bytes_field c)"

definition pair_col :: "pystr \<times> pystr \<Rightarrow> error option" where
  "pair_col kv = first_some [json_text (fst kv), json_text (snd kv)]"

definition gate_marker_is_canonical :: "constraint_pairs \<Rightarrow> bool" where
  "gate_marker_is_canonical cs \<longleftrightarrow>
     (let reservadas = filter (\<lambda>k. starts_with k GATE_RESERVED_PREFIX) (map fst cs) in
      set reservadas \<subseteq> GATE_RESERVED_KEYS \<and>
      (length reservadas = 0 \<or>
       length reservadas = 2 \<and>
       (\<exists>r. map_of cs GATE_KEY_REQUIRED = Some r \<and> r \<in> GATE_REQUIRED_VALUES) \<and>
       map_of cs GATE_KEY_SCOPE = Some GATE_SCOPE_DISPATCH))"

definition step_row_ok :: "schedule_step \<Rightarrow> error option" where
  "step_row_ok r = first_some
     [int_col (stp_position r), text_col MAX_ROLE_LENGTH (stp_role r),
      text_col MAX_REF_LENGTH (stp_instruction_ref r),
      text_col MAX_REF_LENGTH (stp_output_contract r),
      first_some (map ref_col (stp_context_refs r)),
      first_some (map pair_col (stp_constraints r)),
      ck (stp_position r \<ge> 1) ''ck_schedule_steps_position_positive'',
      ck (sql_not_blank (stp_role r)) ''ck_schedule_steps_role_not_blank'',
      ck (sql_not_blank (stp_instruction_ref r)) ''ck_schedule_steps_instruction_ref_not_blank'',
      ck (sql_not_blank (stp_output_contract r)) ''ck_schedule_steps_output_contract_not_blank'',
      ck (context_refs_are_canonical (stp_context_refs r)) ''ck_schedule_steps_context_refs_canonical'',
      ck (gate_marker_is_canonical (stp_constraints r)) ''ck_schedule_steps_gate_marker'']"

definition check_step :: "store \<Rightarrow> schedule_step \<Rightarrow> error option" where
  "check_step s r = first_some
     [step_row_ok r,
      ck (fresh stp_id (stp_id r) (steps s)) ''schedule_steps_pkey'',
      ck (fresh (\<lambda>p. (stp_schedule_id p, stp_position p)) (stp_schedule_id r, stp_position r)
            (steps s)) ''uq_schedule_steps_position'',
      ck (exists_row (\<lambda>a. sch_id a = stp_schedule_id r) (schedules s)) ''fk_schedule_steps_schedule'']"

text \<open>The step of a row lies within the schedule of the row.\<close>

definition step_within :: "store \<Rightarrow> uuid \<Rightarrow> uuid \<Rightarrow> bool" where
  "step_within s step sched \<longleftrightarrow>
     exists_row (\<lambda>p. stp_id p = step \<and> stp_schedule_id p = sched) (steps s)"

definition attempt_within :: "store \<Rightarrow> uuid \<Rightarrow> uuid \<Rightarrow> uuid \<Rightarrow> bool" where
  "attempt_within s att step sched \<longleftrightarrow>
     exists_row (\<lambda>a. att_id a = att \<and> att_step_id a = step \<and> att_schedule_id a = sched) (attempts s)"

definition attempt_row_ok :: "handoff_attempt \<Rightarrow> error option" where
  "attempt_row_ok r = first_some
     [int_col (att_number r), text_col MAX_ENVELOPE_VERSION_LENGTH (att_envelope_version r),
      text_col 64 (att_content_sha256 r),
      ck (att_number r \<ge> 1) ''ck_handoff_attempts_number_positive'',
      ck (length (att_content_sha256 r) = 64) ''ck_handoff_attempts_content_sha256_length'',
      ck (sql_hex64 (att_content_sha256 r)) ''ck_handoff_attempts_content_sha256_hex'',
      ck (sql_not_blank (att_envelope_version r)) ''ck_handoff_attempts_envelope_version_not_blank'']"

definition check_attempt :: "store \<Rightarrow> handoff_attempt \<Rightarrow> error option" where
  "check_attempt s r = first_some
     [attempt_row_ok r,
      ck (fresh att_id (att_id r) (attempts s)) ''handoff_attempts_pkey'',
      ck (fresh (\<lambda>a. (att_step_id a, att_number a)) (att_step_id r, att_number r) (attempts s))
        ''uq_handoff_attempts_step_number'',
      ck (att_state r = OPEN \<longrightarrow>
            fresh att_step_id (att_step_id r) (filter (\<lambda>a. att_state a = OPEN) (attempts s)))
        ''ix_handoff_attempts_single_open'',
      ck (step_within s (att_step_id r) (att_schedule_id r))
        ''fk_handoff_attempts_step_within_schedule'']"

definition seal_row_ok :: "seal_receipt \<Rightarrow> error option" where
  "seal_row_ok r = first_some
     [text_col 64 (rcp_content_sha256 r), text_col MAX_REF_LENGTH (rcp_sealer_ref r),
      ck (length (rcp_content_sha256 r) = 64) ''ck_seal_receipts_content_sha256_length'',
      ck (sql_hex64 (rcp_content_sha256 r)) ''ck_seal_receipts_content_sha256_hex'',
      ck (sql_not_blank (rcp_sealer_ref r)) ''ck_seal_receipts_sealer_ref_not_blank'']"

definition check_seal :: "store \<Rightarrow> seal_receipt \<Rightarrow> error option" where
  "check_seal s r = first_some
     [seal_row_ok r,
      ck (fresh rcp_id (rcp_id r) (seals s)) ''seal_receipts_pkey'',
      ck (fresh rcp_attempt_id (rcp_attempt_id r) (seals s)) ''uq_seal_receipts_attempt'',
      ck (exists_row (\<lambda>a. att_id a = rcp_attempt_id r) (attempts s)) ''fk_seal_receipts_attempt'']"

definition MAX_OPERATION_LENGTH :: nat where "MAX_OPERATION_LENGTH = 64"
definition MAX_COMMAND_KEY_LENGTH :: nat where "MAX_COMMAND_KEY_LENGTH = 255"

definition command_row_ok :: "command_receipt \<Rightarrow> error option" where
  "command_row_ok r = first_some
     [text_col MAX_REF_LENGTH (cmd_principal r), text_col MAX_OPERATION_LENGTH (cmd_operation r),
      text_col MAX_COMMAND_KEY_LENGTH (cmd_key r), opt_text_col 64 (cmd_request_sha256 r),
      text_col MAX_REF_LENGTH (cmd_outcome_ref r),
      ck (sql_not_blank (cmd_principal r)) ''ck_command_receipts_principal_not_blank'',
      ck (sql_not_blank (cmd_operation r)) ''ck_command_receipts_operation_not_blank'',
      ck (sql_not_blank (cmd_key r)) ''ck_command_receipts_command_key_not_blank'',
      ck (sql_not_blank (cmd_outcome_ref r)) ''ck_command_receipts_outcome_ref_not_blank'',
      ck (\<forall>h. cmd_request_sha256 r = Some h \<longrightarrow> length h = 64)
        ''ck_command_receipts_request_sha256_length'',
      ck (\<forall>h. cmd_request_sha256 r = Some h \<longrightarrow> sql_hex64 h)
        ''ck_command_receipts_request_sha256_hex'']"

definition cmd_triple :: "command_receipt \<Rightarrow> pystr \<times> pystr \<times> pystr" where
  "cmd_triple r = (cmd_principal r, cmd_operation r, cmd_key r)"

definition MAX_MEDIA_TYPE_LENGTH :: nat where "MAX_MEDIA_TYPE_LENGTH = 64"
definition MAX_DECLARED_REF_LENGTH :: nat where "MAX_DECLARED_REF_LENGTH = 1024"

definition codes_strictly_sorted :: "pystr list \<Rightarrow> bool" where
  "codes_strictly_sorted cs \<longleftrightarrow> set cs \<subseteq> VALIDATION_CODES \<and> sorted_wrt (<) cs"

definition result_row_ok :: "handoff_result \<Rightarrow> error option" where
  "result_row_ok r = first_some
     [text_col MAX_REF_LENGTH (res_contract r), text_col MAX_MEDIA_TYPE_LENGTH (res_media_type r),
      text_col 64 (res_sha256 r), int_col (res_bytes r),
      opt_text_col MAX_DECLARED_REF_LENGTH (res_declared_ref r),
      ck (length (res_sha256 r) = 64) ''ck_handoff_results_output_sha256_length'',
      ck (sql_hex64 (res_sha256 r)) ''ck_handoff_results_output_sha256_hex'',
      ck (res_bytes r \<ge> 0) ''ck_handoff_results_output_bytes_non_negative'',
      ck (sql_not_blank (res_contract r)) ''ck_handoff_results_contract_not_blank'',
      ck (sql_not_blank (res_media_type r)) ''ck_handoff_results_media_type_not_blank'',
      ck ((res_status r = VALIDATED) = (res_codes r = []))
        ''ck_handoff_results_status_codes_coherent'',
      ck (codes_strictly_sorted (res_codes r)) ''ck_handoff_results_validation_codes_canonical'']"

definition check_result :: "store \<Rightarrow> handoff_result \<Rightarrow> error option" where
  "check_result s r = first_some
     [result_row_ok r,
      ck (fresh res_id (res_id r) (results s)) ''handoff_results_pkey'',
      ck (fresh res_attempt_id (res_attempt_id r) (results s)) ''uq_handoff_results_attempt'',
      ck (exists_row (\<lambda>a. att_id a = res_attempt_id r) (attempts s)) ''fk_handoff_results_attempt'']"

definition attribution_row_ok :: "handoff_attribution \<Rightarrow> error option" where
  "attribution_row_ok r = first_some
     [text_col MAX_ROLE_LENGTH (atr_role r), opt_text_col MAX_REF_LENGTH (atr_provider r),
      opt_text_col MAX_REF_LENGTH (atr_model r), text_col MAX_REF_LENGTH (atr_instance r),
      ck (atr_self_declared r) ''ck_handoff_attributions_self_declared_true'',
      ck (sql_not_blank (atr_role r)) ''ck_handoff_attributions_role_not_blank'',
      ck (sql_not_blank (atr_instance r)) ''ck_handoff_attributions_instance_not_blank'']"

definition check_attribution :: "store \<Rightarrow> handoff_attribution \<Rightarrow> error option" where
  "check_attribution s r = first_some
     [attribution_row_ok r,
      ck (fresh atr_id (atr_id r) (attributions s)) ''handoff_attributions_pkey'',
      ck (fresh atr_attempt_id (atr_attempt_id r) (attributions s)) ''uq_handoff_attributions_attempt'',
      ck (exists_row (\<lambda>a. att_id a = atr_attempt_id r) (attempts s))
        ''fk_handoff_attributions_attempt'']"

definition MAX_SCOPE_LENGTH :: nat where "MAX_SCOPE_LENGTH = 32"

definition delegation_row_ok :: "service_delegation \<Rightarrow> error option" where
  "delegation_row_ok r = first_some
     [text_col 64 (dlg_content_sha256 r), text_col MAX_SCOPE_LENGTH (dlg_scope r),
      text_col MAX_REF_LENGTH (dlg_granted_by r),
      ck (length (dlg_content_sha256 r) = 64) ''ck_service_delegations_content_sha256_length'',
      ck (sql_hex64 (dlg_content_sha256 r)) ''ck_service_delegations_content_sha256_hex'',
      ck (sql_not_blank (dlg_granted_by r)) ''ck_service_delegations_granted_by_not_blank'',
      ck ((dlg_state r = CONSUMED) = (dlg_consumed_at r \<noteq> None))
        ''ck_service_delegations_consumed_at_coherent'',
      ck ((dlg_state r = CONSUMED) = (dlg_consumed_by r \<noteq> None))
        ''ck_service_delegations_consumed_attempt_coherent'',
      ck (dlg_scope r = GATE_SCOPE_DISPATCH) ''ck_service_delegations_scope_vocabulary'']"

definition dlg_triple :: "service_delegation \<Rightarrow> uuid \<times> uuid \<times> pystr" where
  "dlg_triple d = (dlg_schedule_id d, dlg_step_id d, dlg_scope d)"

definition check_delegation :: "store \<Rightarrow> service_delegation \<Rightarrow> error option" where
  "check_delegation s r = first_some
     [delegation_row_ok r,
      ck (fresh dlg_id (dlg_id r) (delegations s)) ''service_delegations_pkey'',
      ck (dlg_state r = DELEGATION_ACTIVE \<longrightarrow>
            fresh dlg_triple (dlg_triple r)
              (filter (\<lambda>d. dlg_state d = DELEGATION_ACTIVE) (delegations s)))
        ''ix_service_delegations_single_active'',
      ck (step_within s (dlg_step_id r) (dlg_schedule_id r))
        ''fk_service_delegations_step_within_schedule'']"

definition event_row_ok :: "control_event \<Rightarrow> error option" where
  "event_row_ok r = first_some
     [text_col MAX_REF_LENGTH (evt_declared_by r),
      ck ((evt_reason r = STOP_CONDITION_DECLARED) = (evt_category r \<noteq> None))
        ''ck_control_events_stop_category_matrix'',
      ck (sql_not_blank (evt_declared_by r)) ''ck_control_events_principal_not_blank'']"

definition check_event :: "store \<Rightarrow> control_event \<Rightarrow> error option" where
  "check_event s r = first_some
     [event_row_ok r,
      ck (fresh evt_id (evt_id r) (events s)) ''orchestration_control_events_pkey'',
      ck (exists_row (\<lambda>a. sch_id a = evt_schedule_id r) (schedules s)) ''fk_control_events_schedule'',
      ck (\<forall>p. evt_step_id r = Some p \<longrightarrow> step_within s p (evt_schedule_id r))
        ''fk_control_events_step_within_schedule'']"

definition observation_row_ok :: "execution_observation \<Rightarrow> error option" where
  "observation_row_ok r = first_some
     [opt_text_col MAX_REF_LENGTH (obs_previous_provider r),
      opt_text_col MAX_REF_LENGTH (obs_current_provider r),
      ck (obs_self_declared r) ''ck_execution_observations_self_declared_true'',
      ck (obs_previous_attempt r \<noteq> obs_current_attempt r)
        ''ck_execution_observations_distinct_attempts'',
      ck (obs_previous_provider r \<noteq> obs_current_provider r)
        ''ck_execution_observations_provider_actually_changed'']"

definition check_observation :: "store \<Rightarrow> execution_observation \<Rightarrow> error option" where
  "check_observation s r = first_some
     [observation_row_ok r,
      ck (fresh obs_id (obs_id r) (observations s)) ''execution_observations_pkey'',
      ck (step_within s (obs_step_id r) (obs_schedule_id r))
        ''fk_execution_observations_step_within_schedule'',
      ck (attempt_within s (obs_previous_attempt r) (obs_step_id r) (obs_schedule_id r))
        ''fk_execution_observations_previous_attempt'',
      ck (attempt_within s (obs_current_attempt r) (obs_step_id r) (obs_schedule_id r))
        ''fk_execution_observations_current_attempt'']"

text \<open>The matrix as the database states it: exactly the one code of the opinion.\<close>

fun opinion_codes :: "audit_opinion_kind \<Rightarrow> pystr list" where
  "opinion_codes CONCUR = [pys ''contract_conforms'']"
| "opinion_codes DISSENT = [pys ''contract_nonconformity'']"
| "opinion_codes INSUFFICIENT_EVIDENCE = [pys ''evidence_missing'']"
| "opinion_codes OUT_OF_SCOPE = [pys ''scope_excluded'']"

definition opinion_row_ok :: "audit_opinion \<Rightarrow> error option" where
  "opinion_row_ok r = first_some
     [text_col MAX_REF_LENGTH (opn_auditor_ref r), text_col MAX_REF_LENGTH (opn_issued_by r),
      ck (sql_not_blank (opn_auditor_ref r)) ''ck_audit_opinions_auditor_ref_not_blank'',
      ck (sql_not_blank (opn_issued_by r)) ''ck_audit_opinions_principal_not_blank'',
      ck (opn_reason_codes r = opinion_codes (opn_opinion r)) ''ck_audit_opinions_reason_matrix'']"

definition check_opinion :: "store \<Rightarrow> audit_opinion \<Rightarrow> error option" where
  "check_opinion s r = first_some
     [opinion_row_ok r,
      ck (fresh opn_id (opn_id r) (opinions s)) ''audit_opinions_pkey'',
      ck (exists_row (\<lambda>a. res_id a = opn_result_id r) (results s)) ''fk_audit_opinions_result'']"

definition MAX_ENDPOINT_REF_LENGTH :: nat where "MAX_ENDPOINT_REF_LENGTH = 512"

definition TERMINAL_CONNECTION_STATES :: "connection_state set" where
  "TERMINAL_CONNECTION_STATES = {CONNECTION_REVOKED, UNSUPPORTED}"

definition profile_row_ok :: "connection_profile \<Rightarrow> error option" where
  "profile_row_ok r = first_some
     [text_col MAX_REF_LENGTH (con_principal r),
      opt_text_col MAX_ENDPOINT_REF_LENGTH (con_endpoint_ref r),
      opt_text_col MAX_REF_LENGTH (con_credential_ref r),
      opt_text_col MAX_REF_LENGTH (con_display_name r),
      ck (sql_not_blank (con_principal r)) ''ck_connection_profiles_principal_not_blank'',
      ck (\<not> (con_method r = METHOD_MANUAL_HANDOFF \<and> con_endpoint_ref r \<noteq> None))
        ''ck_connection_profiles_manual_has_no_endpoint'',
      ck (con_state r \<noteq> AVAILABLE \<or> con_method r = METHOD_MANUAL_HANDOFF)
        ''ck_connection_profiles_available_method'']"

definition manual_live :: "connection_profile \<Rightarrow> bool" where
  "manual_live c \<longleftrightarrow>
     con_method c = METHOD_MANUAL_HANDOFF \<and> con_state c \<notin> TERMINAL_CONNECTION_STATES"

text \<open>
  In the triple index a null endpoint equals nothing, so it only binds rows with an endpoint.
\<close>

definition check_profile ::
  "store \<Rightarrow> connection_profile \<Rightarrow> error option" where
  "check_profile s r = first_some
     [profile_row_ok r,
      ck (fresh con_id (con_id r) (profiles s)) ''connection_profiles_pkey'',
      ck (manual_live r \<longrightarrow> fresh con_principal (con_principal r) (filter manual_live (profiles s)))
        ''ix_connection_profiles_manual_singleton'',
      ck (con_state r \<notin> TERMINAL_CONNECTION_STATES \<and> con_endpoint_ref r \<noteq> None \<longrightarrow>
            fresh (\<lambda>c. (con_principal c, con_method c, con_endpoint_ref c))
              (con_principal r, con_method r, con_endpoint_ref r)
              (filter (\<lambda>c. con_state c \<notin> TERMINAL_CONNECTION_STATES) (profiles s)))
        ''ix_connection_profiles_non_terminal_triple'',
      ck (\<forall>p. con_access_provider r = Some p \<longrightarrow> p \<in> set (provider_ids s))
        ''fk_connection_profiles_access_provider'']"

definition exec_row_ok :: "connection_execution_receipt \<Rightarrow> error option" where
  "exec_row_ok r = first_some
     [text_col MAX_REF_LENGTH (exe_principal r), opt_text_col 128 (exe_access_provider r),
      opt_text_col 255 (exe_requested_model r), opt_text_col 255 (exe_observed_model r),
      ck ((exe_attestation r = ATTESTED) = (exe_observed_model r \<noteq> None))
        ''ck_connection_execution_receipts_attestation_bicondicional'',
      ck (exe_method r \<noteq> METHOD_MANUAL_HANDOFF \<or>
            (exe_access_provider r = None \<and> exe_requested_model r = None \<and>
             exe_observed_model r = None \<and> exe_attestation r = UNKNOWN))
        ''ck_connection_execution_receipts_manual_truth'',
      ck (sql_not_blank (exe_principal r))
        ''ck_connection_execution_receipts_principal_not_blank'']"

definition check_exec_receipt :: "store \<Rightarrow> connection_execution_receipt \<Rightarrow> error option" where
  "check_exec_receipt s r = first_some
     [exec_row_ok r,
      ck (fresh exe_id (exe_id r) (exec_receipts s)) ''connection_execution_receipts_pkey'',
      ck (fresh exe_attempt_id (exe_attempt_id r) (exec_receipts s))
        ''uq_connection_execution_receipts_attempt'',
      ck (exists_row (\<lambda>c. con_id c = exe_connection_id r \<and> con_principal c = exe_principal r \<and>
                           con_method c = exe_method r) (profiles s))
        ''fk_connection_execution_receipts_connection_within_principal'']"

text \<open>What is checked when the transaction commits.\<close>

definition deferred_ok :: "store \<Rightarrow> bool" where
  "deferred_ok s \<longleftrightarrow>
     (\<forall>d \<in> set (delegations s). \<forall>a. dlg_consumed_by d = Some a \<longrightarrow>
        attempt_within s a (dlg_step_id d) (dlg_schedule_id d)) \<and>
     (\<forall>r \<in> set (exec_receipts s).
        attempt_within s (exe_attempt_id r) (exe_step_id r) (exe_schedule_id r))"

lemmas row_checks =
  check_schedule_def check_step_def check_attempt_def check_seal_def check_result_def
  check_attribution_def check_delegation_def check_event_def check_observation_def
  check_opinion_def check_profile_def check_exec_receipt_def

end
