(* ===== verification/Repository.thy ===== *)
theory Repository
  imports Constraints
begin

text \<open>
  \<^verbatim>\<open>orchestration/repositories/orchestration_repository.py\<close>, method by method.
  Every query carries the principal and the schedule the caller declares; a join with a primary
  key is a test that the row exists. \<^verbatim>\<open>FOR UPDATE\<close> takes a lock and reads the same row:
  a transaction is one atomic step here, so a lock has no effect on the result.
\<close>

section \<open>Queries\<close>

text \<open>\<^verbatim>\<open>one_or_none()\<close>.\<close>

definition select_one :: "(store \<Rightarrow> 'r list) \<Rightarrow> 'r option db" where
  "select_one q =
     (\<lambda>s. case q s of
        [] \<Rightarrow> (Inr None, s)
      | [r] \<Rightarrow> (Inr (Some r), s)
      | _ \<Rightarrow> (Inl MultipleResultsFound, s))"

definition owned :: "store \<Rightarrow> pystr \<Rightarrow> uuid \<Rightarrow> bool" where
  "owned s cp sid \<longleftrightarrow> exists_row (\<lambda>a. sch_id a = sid \<and> sch_owner a = cp) (schedules s)"

definition require_some :: "error \<Rightarrow> 'a option \<Rightarrow> 'a db" where
  "require_some e x = (case x of None \<Rightarrow> raise e | Some y \<Rightarrow> ret y)"

definition get_schedule :: "pystr \<Rightarrow> uuid \<Rightarrow> schedule option db" where
  "get_schedule cp sid =
     select_one (\<lambda>s. filter (\<lambda>a. sch_id a = sid \<and> sch_owner a = cp) (schedules s))"

definition lock_schedule :: "pystr \<Rightarrow> uuid \<Rightarrow> schedule option db" where
  "lock_schedule cp sid =
     select_one (\<lambda>s. filter (\<lambda>a. sch_id a = sid \<and> sch_owner a = cp) (schedules s))"

definition list_steps :: "pystr \<Rightarrow> uuid \<Rightarrow> schedule_step list db" where
  "list_steps cp sid =
     gets (\<lambda>s. sort_key (\<lambda>p. (stp_position p, stp_id p))
                 (filter (\<lambda>p. stp_schedule_id p = sid \<and> owned s cp sid) (steps s)))"

definition get_step :: "pystr \<Rightarrow> uuid \<Rightarrow> uuid \<Rightarrow> schedule_step option db" where
  "get_step cp sid pid =
     select_one (\<lambda>s. filter (\<lambda>p. stp_id p = pid \<and> stp_schedule_id p = sid \<and> owned s cp sid) (steps s))"

definition lock_step :: "pystr \<Rightarrow> uuid \<Rightarrow> uuid \<Rightarrow> schedule_step option db" where
  "lock_step cp sid pid =
     select_one (\<lambda>s. filter (\<lambda>p. stp_id p = pid \<and> stp_schedule_id p = sid \<and> owned s cp sid) (steps s))"

text \<open>The identity of an attempt, if it lies in the declared schedule and that one in the declared owner.\<close>

definition attempt_under_scope :: "pystr \<Rightarrow> uuid \<Rightarrow> uuid \<Rightarrow> uuid option db" where
  "attempt_under_scope cp sid aid =
     select_one (\<lambda>s. map att_id
       (filter (\<lambda>a. att_id a = aid \<and> att_schedule_id a = sid \<and> owned s cp sid) (attempts s)))"

definition get_attempt :: "pystr \<Rightarrow> uuid \<Rightarrow> uuid \<Rightarrow> handoff_attempt option db" where
  "get_attempt cp sid aid =
     select_one (\<lambda>s.
       filter (\<lambda>a. att_id a = aid \<and> att_schedule_id a = sid \<and> owned s cp sid) (attempts s))"

definition lock_attempt :: "pystr \<Rightarrow> uuid \<Rightarrow> uuid \<Rightarrow> handoff_attempt option db" where
  "lock_attempt cp sid aid =
     select_one (\<lambda>s.
       filter (\<lambda>a. att_id a = aid \<and> att_schedule_id a = sid \<and> owned s cp sid) (attempts s))"

text \<open>A row that hangs from an attempt of the declared schedule.\<close>

definition attempt_in :: "store \<Rightarrow> uuid \<Rightarrow> uuid \<Rightarrow> bool" where
  "attempt_in s aid sid \<longleftrightarrow> exists_row (\<lambda>a. att_id a = aid \<and> att_schedule_id a = sid) (attempts s)"

definition get_seal_receipt_by_attempt :: "pystr \<Rightarrow> uuid \<Rightarrow> uuid \<Rightarrow> seal_receipt option db" where
  "get_seal_receipt_by_attempt cp sid aid =
     select_one (\<lambda>s.
       filter (\<lambda>r. rcp_attempt_id r = aid \<and> attempt_in s aid sid \<and> owned s cp sid) (seals s))"

definition list_attempts :: "pystr \<Rightarrow> uuid \<Rightarrow> uuid option \<Rightarrow> handoff_attempt list db" where
  "list_attempts cp sid pid =
     gets (\<lambda>s. sort_key (\<lambda>a. (att_created_at a, att_id a))
       (filter (\<lambda>a. att_schedule_id a = sid \<and> owned s cp sid \<and>
                     (\<forall>p. pid = Some p \<longrightarrow> att_step_id a = p)) (attempts s)))"

definition get_open_attempt :: "pystr \<Rightarrow> uuid \<Rightarrow> uuid \<Rightarrow> handoff_attempt option db" where
  "get_open_attempt cp sid pid =
     select_one (\<lambda>s.
       filter (\<lambda>a. att_step_id a = pid \<and> att_schedule_id a = sid \<and> att_state a = OPEN \<and>
                    owned s cp sid) (attempts s))"

definition list_unreturned_predecessors :: "pystr \<Rightarrow> uuid \<Rightarrow> int \<Rightarrow> int list db" where
  "list_unreturned_predecessors cp sid pos =
     gets (\<lambda>s. sort (map stp_position
       (filter (\<lambda>p. stp_schedule_id p = sid \<and> stp_position p < pos \<and> stp_state p \<noteq> RETURNED \<and>
                     owned s cp sid) (steps s))))"

definition get_handoff_result :: "pystr \<Rightarrow> uuid \<Rightarrow> uuid \<Rightarrow> handoff_result option db" where
  "get_handoff_result cp sid aid =
     select_one (\<lambda>s.
       filter (\<lambda>r. res_attempt_id r = aid \<and> attempt_in s aid sid \<and> owned s cp sid) (results s))"

definition get_handoff_attribution :: "pystr \<Rightarrow> uuid \<Rightarrow> uuid \<Rightarrow> handoff_attribution option db" where
  "get_handoff_attribution cp sid aid =
     select_one (\<lambda>s.
       filter (\<lambda>r. atr_attempt_id r = aid \<and> attempt_in s aid sid \<and> owned s cp sid) (attributions s))"

definition get_active_delegation ::
  "pystr \<Rightarrow> uuid \<Rightarrow> uuid \<Rightarrow> pystr \<Rightarrow> service_delegation option db" where
  "get_active_delegation cp sid pid scope =
     select_one (\<lambda>s.
       filter (\<lambda>d. dlg_schedule_id d = sid \<and> dlg_step_id d = pid \<and> dlg_scope d = scope \<and>
                    dlg_state d = DELEGATION_ACTIVE \<and> owned s cp sid) (delegations s))"

definition get_delegation :: "pystr \<Rightarrow> uuid \<Rightarrow> uuid \<Rightarrow> service_delegation option db" where
  "get_delegation cp sid did =
     select_one (\<lambda>s.
       filter (\<lambda>d. dlg_id d = did \<and> dlg_schedule_id d = sid \<and> owned s cp sid) (delegations s))"

definition list_delegations :: "pystr \<Rightarrow> uuid \<Rightarrow> service_delegation list db" where
  "list_delegations cp sid =
     gets (\<lambda>s. sort_key (\<lambda>d. (dlg_created_at d, dlg_id d))
       (filter (\<lambda>d. dlg_schedule_id d = sid \<and> owned s cp sid) (delegations s)))"

definition list_control_events :: "pystr \<Rightarrow> uuid \<Rightarrow> control_event list db" where
  "list_control_events cp sid =
     gets (\<lambda>s. sort_key (\<lambda>e. (evt_occurred_at e, evt_id e))
       (filter (\<lambda>e. evt_schedule_id e = sid \<and> owned s cp sid) (events s)))"

definition get_control_event :: "pystr \<Rightarrow> uuid \<Rightarrow> uuid \<Rightarrow> control_event option db" where
  "get_control_event cp sid eid =
     select_one (\<lambda>s.
       filter (\<lambda>e. evt_id e = eid \<and> evt_schedule_id e = sid \<and> owned s cp sid) (events s))"

text \<open>The pauses recorded since the last resumption, by reason.\<close>

definition count_open_pause_events :: "pystr \<Rightarrow> uuid \<Rightarrow> control_reason_code \<Rightarrow> nat db" where
  "count_open_pause_events cp sid reason =
     gets (\<lambda>s.
       let resumes = map evt_occurred_at
             (filter (\<lambda>e. evt_schedule_id e = sid \<and> evt_kind e = EVENT_RESUMED) (events s))
       in count_where (\<lambda>e. evt_schedule_id e = sid \<and> evt_kind e = EVENT_PAUSED \<and>
            evt_reason e = reason \<and>
            (resumes = [] \<or> evt_occurred_at e > Max (set resumes)) \<and> owned s cp sid) (events s))"

definition list_open_attempts_of_schedule :: "pystr \<Rightarrow> uuid \<Rightarrow> handoff_attempt list db" where
  "list_open_attempts_of_schedule cp sid =
     gets (\<lambda>s. sort_key (\<lambda>a. (att_created_at a, att_id a))
       (filter (\<lambda>a. att_schedule_id a = sid \<and> att_state a = OPEN \<and> owned s cp sid) (attempts s)))"

definition all_steps_returned :: "pystr \<Rightarrow> uuid \<Rightarrow> bool db" where
  "all_steps_returned cp sid =
     gets (\<lambda>s. count_where (\<lambda>p. stp_schedule_id p = sid \<and> stp_state p \<noteq> RETURNED \<and> owned s cp sid)
                 (steps s) = 0)"

definition list_execution_observations :: "pystr \<Rightarrow> uuid \<Rightarrow> execution_observation list db" where
  "list_execution_observations cp sid =
     gets (\<lambda>s. sort_key (\<lambda>e. (obs_observed_at e, obs_id e))
       (filter (\<lambda>e. obs_schedule_id e = sid \<and> owned s cp sid) (observations s)))"

definition get_result_for_audit :: "pystr \<Rightarrow> uuid \<Rightarrow> uuid \<Rightarrow> handoff_result option db" where
  "get_result_for_audit cp sid aid = get_handoff_result cp sid aid"

text \<open>A result of the declared schedule, through its attempt.\<close>

definition result_in :: "store \<Rightarrow> uuid \<Rightarrow> uuid \<Rightarrow> bool" where
  "result_in s rid sid \<longleftrightarrow> exists_row (\<lambda>r. res_id r = rid \<and> attempt_in s (res_attempt_id r) sid) (results s)"

definition list_audit_opinions :: "pystr \<Rightarrow> uuid \<Rightarrow> audit_opinion list db" where
  "list_audit_opinions cp sid =
     gets (\<lambda>s. sort_key (\<lambda>o'. (opn_issued_at o', opn_id o'))
       (filter (\<lambda>o'. result_in s (opn_result_id o') sid \<and> owned s cp sid) (opinions s)))"

definition get_audit_opinion :: "pystr \<Rightarrow> uuid \<Rightarrow> uuid \<Rightarrow> audit_opinion option db" where
  "get_audit_opinion cp sid oid =
     select_one (\<lambda>s.
       filter (\<lambda>o'. opn_id o' = oid \<and> result_in s (opn_result_id o') sid \<and> owned s cp sid) (opinions s))"

text \<open>
  The attribution of the latest other attempt of the step that is not younger than the given one.
  The attributions are joined with their attempts; the first of the descending order is returned.
\<close>

definition get_last_attribution_before ::
  "pystr \<Rightarrow> uuid \<Rightarrow> uuid \<Rightarrow> uuid \<Rightarrow> handoff_attribution option db" where
  "get_last_attribution_before cp sid pid aid =
     bnd (select_one (\<lambda>s. map att_created_at (filter (\<lambda>a. att_id a = aid) (attempts s)))) (\<lambda>atual.
     case atual of
       None \<Rightarrow> ret None
     | Some t \<Rightarrow>
         gets (\<lambda>s.
           let pairs = filter (\<lambda>(r, a). att_id a = atr_attempt_id r \<and> att_step_id a = pid \<and>
                         att_schedule_id a = sid \<and> att_id a \<noteq> aid \<and> att_created_at a \<le> t \<and>
                         owned s cp sid)
                       (List.product (attributions s) (attempts s));
               ordered = sort_key (\<lambda>(r, a). (att_created_at a, att_id a)) pairs
           in if ordered = [] then None else Some (fst (last ordered))))"

definition get_command_receipt :: "pystr \<Rightarrow> pystr \<Rightarrow> pystr \<Rightarrow> command_receipt option db" where
  "get_command_receipt tp operation key =
     select_one (\<lambda>s. filter (\<lambda>r. cmd_triple r = (tp, operation, key)) (commands s))"

section \<open>Writers\<close>

text \<open>
  A writer re-resolves what it is about to touch under the declared scope, and raises a scope
  violation when there is nothing: it never derives the authorization from the row.
\<close>

definition require_schedule :: "pystr \<Rightarrow> uuid \<Rightarrow> schedule db" where
  "require_schedule cp sid = bnd (lock_schedule cp sid) (require_some OrchestrationScopeViolation)"

definition require_step :: "pystr \<Rightarrow> uuid \<Rightarrow> uuid \<Rightarrow> schedule_step db" where
  "require_step cp sid pid = bnd (get_step cp sid pid) (require_some OrchestrationScopeViolation)"

definition require_attempt :: "pystr \<Rightarrow> uuid \<Rightarrow> uuid \<Rightarrow> uuid db" where
  "require_attempt cp sid aid =
     bnd (attempt_under_scope cp sid aid) (require_some OrchestrationScopeViolation)"

definition create_step_row :: "uuid \<Rightarrow> nat \<times> step_draft \<Rightarrow> unit db" where
  "create_step_row sid item =
     (case item of (posicao, rascunho) \<Rightarrow>
      bnd draw_uuid (\<lambda>new_id.
      bnd (lift_sum (canonical_constraints (py_pairs (draft_constraints rascunho)))) (\<lambda>cs.
      insert_row check_step steps_update
        \<lparr>stp_id = new_id, stp_schedule_id = sid, stp_position = int posicao,
         stp_role = draft_role rascunho, stp_instruction_ref = draft_instruction_ref rascunho,
         stp_context_refs = draft_context_refs rascunho,
         stp_output_contract = draft_expected_output_contract rascunho,
         stp_constraints = cs, stp_state = PENDING\<rparr>)))"

definition create_schedule_rows ::
  "uuid \<Rightarrow> pystr \<Rightarrow> pystr \<Rightarrow> handoff_mode \<Rightarrow> step_draft list \<Rightarrow> schedule db" where
  "create_schedule_rows sid cp title mode drafts =
     (let agenda = \<lparr>sch_id = sid, sch_title = title, sch_state = DRAFT, sch_mode = mode, sch_owner = cp\<rparr>
      in bnd (insert_row check_schedule schedules_update agenda) (\<lambda>_.
         bnd (for_each (create_step_row sid) (List.enumerate 1 drafts)) (\<lambda>_.
         ret agenda)))"

definition set_schedule_state :: "pystr \<Rightarrow> uuid \<Rightarrow> schedule_state \<Rightarrow> schedule db" where
  "set_schedule_state cp sid st =
     bnd (require_schedule cp sid) (\<lambda>agenda.
     bnd (modify (schedules_update
            (upd_where (\<lambda>a. sch_id a = sch_id agenda) (\<lambda>a. a\<lparr>sch_state := st\<rparr>)))) (\<lambda>_.
     ret (agenda\<lparr>sch_state := st\<rparr>)))"

definition set_step_state :: "pystr \<Rightarrow> uuid \<Rightarrow> uuid \<Rightarrow> step_state \<Rightarrow> schedule_step db" where
  "set_step_state cp sid pid st =
     bnd (bnd (lock_step cp sid pid) (require_some OrchestrationScopeViolation)) (\<lambda>etapa.
     bnd (modify (steps_update
            (upd_where (\<lambda>p. stp_id p = stp_id etapa) (\<lambda>p. p\<lparr>stp_state := st\<rparr>)))) (\<lambda>_.
     ret (etapa\<lparr>stp_state := st\<rparr>)))"

definition set_attempt_state :: "pystr \<Rightarrow> uuid \<Rightarrow> uuid \<Rightarrow> attempt_state \<Rightarrow> handoff_attempt db" where
  "set_attempt_state cp sid aid st =
     bnd (bnd (lock_attempt cp sid aid) (require_some OrchestrationScopeViolation)) (\<lambda>tentativa.
     bnd (modify (attempts_update
            (upd_where (\<lambda>a. att_id a = att_id tentativa) (\<lambda>a. a\<lparr>att_state := st\<rparr>)))) (\<lambda>_.
     ret (tentativa\<lparr>att_state := st\<rparr>)))"

definition next_attempt_number :: "pystr \<Rightarrow> uuid \<Rightarrow> uuid \<Rightarrow> int db" where
  "next_attempt_number cp sid pid =
     bnd (require_step cp sid pid) (\<lambda>_.
     gets (\<lambda>s. foldr max (map att_number (filter (\<lambda>a. att_step_id a = pid) (attempts s))) 0 + 1))"

definition create_attempt ::
  "pystr \<Rightarrow> uuid \<Rightarrow> uuid \<Rightarrow> uuid \<Rightarrow> int \<Rightarrow> pystr \<Rightarrow> pystr \<Rightarrow> handoff_attempt db" where
  "create_attempt cp aid sid pid number version content =
     bnd (require_step cp sid pid) (\<lambda>_.
     bnd (gets now) (\<lambda>t.
     let tentativa = \<lparr>att_id = aid, att_schedule_id = sid, att_step_id = pid, att_number = number,
                      att_envelope_version = version, att_content_sha256 = content,
                      att_state = OPEN, att_created_at = t\<rparr>
     in bnd (insert_row check_attempt attempts_update tentativa) (\<lambda>_. ret tentativa)))"

definition create_seal_receipt ::
  "pystr \<Rightarrow> uuid \<Rightarrow> uuid \<Rightarrow> pystr \<Rightarrow> int \<Rightarrow> pystr \<Rightarrow> seal_receipt db" where
  "create_seal_receipt cp sid aid content sealed_at sealer =
     bnd (require_attempt cp sid aid) (\<lambda>_.
     bnd draw_uuid (\<lambda>new_id.
     let recibo = \<lparr>rcp_id = new_id, rcp_attempt_id = aid, rcp_content_sha256 = content,
                   rcp_sealed_at = sealed_at, rcp_sealer_ref = sealer\<rparr>
     in bnd (insert_row check_seal seals_update recibo) (\<lambda>_. ret recibo)))"

definition update_seal_receipt :: "uuid \<Rightarrow> unit db" where
  "update_seal_receipt receipt = raise SealReceiptImmutable"

definition delete_seal_receipt :: "uuid \<Rightarrow> unit db" where
  "delete_seal_receipt receipt = raise SealReceiptImmutable"

text \<open>
  \<^verbatim>\<open>INSERT ... ON CONFLICT (principal, operation, key) DO UPDATE ... RETURNING\<close>: the
  checks are evaluated on the proposed row, then either the existing row of the triple comes
  back unchanged or the row goes in. The claim is recognised by the identity of the receipt.
\<close>

definition claim_command ::
  "pystr \<Rightarrow> pystr \<Rightarrow> pystr \<Rightarrow> pystr \<Rightarrow> pystr option \<Rightarrow> (command_receipt \<times> bool) db" where
  "claim_command tp operation key outcome request =
     bnd draw_uuid (\<lambda>receipt_id.
     let proposto = \<lparr>cmd_id = receipt_id, cmd_principal = tp, cmd_operation = operation,
                     cmd_key = key, cmd_request_sha256 = request, cmd_outcome_ref = outcome\<rparr>
     in (\<lambda>s.
       case command_row_ok proposto of
         Some e \<Rightarrow> (Inl e, s)
       | None \<Rightarrow>
           (case filter (\<lambda>r. cmd_triple r = cmd_triple proposto) (commands s) of
              r # _ \<Rightarrow> (Inr (r, cmd_id r = receipt_id), s)
            | [] \<Rightarrow>
                if fresh cmd_id receipt_id (commands s)
                then (Inr (proposto, True), s\<lparr>commands := commands s @ [proposto]\<rparr>)
                else (Inl (IntegrityError ''command_receipts_pkey''), s))))"

definition create_handoff_result ::
  "pystr \<Rightarrow> uuid \<Rightarrow> uuid \<Rightarrow> handoff_result_status \<Rightarrow> pystr \<Rightarrow> validated_output \<Rightarrow> pystr option \<Rightarrow>
   handoff_result db" where
  "create_handoff_result cp sid aid status contract out declared_ref =
     bnd (require_attempt cp sid aid) (\<lambda>_.
     bnd draw_uuid (\<lambda>new_id.
     bnd (lift_sum (canonical_validation_codes (PySeq (map PyStr (validation_codes out))))) (\<lambda>codes.
     let resultado = \<lparr>res_id = new_id, res_attempt_id = aid, res_status = status,
                      res_contract = contract, res_media_type = media_type out,
                      res_sha256 = output_sha256 out, res_bytes = int (output_bytes out),
                      res_declared_ref = declared_ref, res_codes = codes\<rparr>
     in bnd (insert_row check_result results_update resultado) (\<lambda>_. ret resultado))))"

definition create_handoff_attribution ::
  "pystr \<Rightarrow> uuid \<Rightarrow> uuid \<Rightarrow> pystr \<Rightarrow> pystr option \<Rightarrow> pystr option \<Rightarrow> pystr \<Rightarrow> int \<Rightarrow>
   handoff_attribution db" where
  "create_handoff_attribution cp sid aid role' provider model inst declared_at =
     bnd (require_attempt cp sid aid) (\<lambda>_.
     bnd draw_uuid (\<lambda>new_id.
     let atribuicao = \<lparr>atr_id = new_id, atr_attempt_id = aid, atr_role = role',
                       atr_provider = provider, atr_model = model, atr_instance = inst,
                       atr_declared_at = declared_at, atr_self_declared = True\<rparr>
     in bnd (insert_row check_attribution attributions_update atribuicao) (\<lambda>_. ret atribuicao)))"

definition update_handoff_record :: "uuid \<Rightarrow> unit db" where
  "update_handoff_record record_id = raise HandoffRecordImmutable"

definition delete_handoff_record :: "uuid \<Rightarrow> unit db" where
  "delete_handoff_record record_id = raise HandoffRecordImmutable"

section \<open>Delegation, control, observation and opinion\<close>

text \<open>
  \<^verbatim>\<open>UPDATE service_delegations ... WHERE\<close>, with the number of rows it touched.
\<close>

definition update_delegations ::
  "(store \<Rightarrow> service_delegation \<Rightarrow> bool) \<Rightarrow> (store \<Rightarrow> service_delegation \<Rightarrow> service_delegation) \<Rightarrow> nat db" where
  "update_delegations P f =
     bnd (gets (\<lambda>s. count_where (P s) (delegations s))) (\<lambda>n.
     bnd (modify (\<lambda>s. s\<lparr>delegations := upd_where (P s) (f s) (delegations s)\<rparr>)) (\<lambda>_.
     ret n))"

definition expire_stale_delegations :: "pystr \<Rightarrow> uuid \<Rightarrow> uuid \<Rightarrow> nat db" where
  "expire_stale_delegations cp sid pid =
     bnd (require_step cp sid pid) (\<lambda>_.
     update_delegations
       (\<lambda>s d. dlg_schedule_id d = sid \<and> dlg_step_id d = pid \<and> dlg_state d = DELEGATION_ACTIVE \<and>
              dlg_valid_until d \<le> now s)
       (\<lambda>s d. d\<lparr>dlg_state := EXPIRED\<rparr>))"

definition revoke_active_delegations :: "pystr \<Rightarrow> uuid \<Rightarrow> uuid \<Rightarrow> pystr \<Rightarrow> nat db" where
  "revoke_active_delegations cp sid pid scope =
     bnd (require_step cp sid pid) (\<lambda>_.
     update_delegations
       (\<lambda>s d. dlg_schedule_id d = sid \<and> dlg_step_id d = pid \<and> dlg_scope d = scope \<and>
              dlg_state d = DELEGATION_ACTIVE)
       (\<lambda>s d. d\<lparr>dlg_state := REVOKED\<rparr>))"

definition create_delegation ::
  "pystr \<Rightarrow> uuid \<Rightarrow> uuid \<Rightarrow> uuid \<Rightarrow> pystr \<Rightarrow> pystr \<Rightarrow> pystr \<Rightarrow> int \<Rightarrow> service_delegation db" where
  "create_delegation cp did sid pid content scope granted_by valid_until =
     bnd (require_step cp sid pid) (\<lambda>_.
     bnd (gets now) (\<lambda>t.
     let delegacao = \<lparr>dlg_id = did, dlg_schedule_id = sid, dlg_step_id = pid,
                      dlg_content_sha256 = content, dlg_scope = scope, dlg_granted_by = granted_by,
                      dlg_valid_until = valid_until, dlg_state = DELEGATION_ACTIVE,
                      dlg_consumed_at = None, dlg_consumed_by = None, dlg_created_at = t\<rparr>
     in bnd (insert_row check_delegation delegations_update delegacao) (\<lambda>_. ret delegacao)))"

definition consume_delegation ::
  "pystr \<Rightarrow> uuid \<Rightarrow> uuid \<Rightarrow> uuid \<Rightarrow> pystr \<Rightarrow> pystr \<Rightarrow> uuid \<Rightarrow> bool db" where
  "consume_delegation cp sid pid did content scope aid =
     bnd (require_step cp sid pid) (\<lambda>_.
     bnd (update_delegations
       (\<lambda>s d. dlg_id d = did \<and> dlg_schedule_id d = sid \<and> dlg_step_id d = pid \<and>
              dlg_scope d = scope \<and> dlg_content_sha256 d = content \<and>
              dlg_state d = DELEGATION_ACTIVE \<and> dlg_valid_until d > now s)
       (\<lambda>s d. d\<lparr>dlg_state := CONSUMED, dlg_consumed_at := Some (now s),
                dlg_consumed_by := Some aid\<rparr>)) (\<lambda>n.
     ret (n \<noteq> 0)))"

definition create_control_event ::
  "uuid \<Rightarrow> pystr \<Rightarrow> uuid \<Rightarrow> uuid option \<Rightarrow> control_event_kind \<Rightarrow> control_reason_code \<Rightarrow>
   stop_condition_category option \<Rightarrow> pystr \<Rightarrow> int \<Rightarrow> control_event db" where
  "create_control_event eid cp sid pid kind reason category declared_by occurred_at =
     bnd (bnd (get_schedule cp sid) (require_some OrchestrationScopeViolation)) (\<lambda>_.
     let evento = \<lparr>evt_id = eid, evt_schedule_id = sid, evt_step_id = pid, evt_kind = kind,
                   evt_reason = reason, evt_category = category, evt_declared_by = declared_by,
                   evt_occurred_at = occurred_at\<rparr>
     in bnd (insert_row check_event events_update evento) (\<lambda>_. ret evento))"

definition create_execution_observation ::
  "pystr \<Rightarrow> uuid \<Rightarrow> uuid \<Rightarrow> observation_kind \<Rightarrow> uuid \<Rightarrow> uuid \<Rightarrow> pystr option \<Rightarrow> pystr option \<Rightarrow>
   int \<Rightarrow> execution_observation db" where
  "create_execution_observation cp sid pid kind previous current previous_provider
       current_provider observed_at =
     bnd (require_step cp sid pid) (\<lambda>_.
     bnd draw_uuid (\<lambda>new_id.
     let observacao = \<lparr>obs_id = new_id, obs_schedule_id = sid, obs_step_id = pid, obs_kind = kind,
                       obs_previous_attempt = previous, obs_current_attempt = current,
                       obs_previous_provider = previous_provider,
                       obs_current_provider = current_provider, obs_self_declared = True,
                       obs_observed_at = observed_at\<rparr>
     in bnd (insert_row check_observation observations_update observacao) (\<lambda>_. ret observacao)))"

definition create_audit_opinion ::
  "uuid \<Rightarrow> pystr \<Rightarrow> uuid \<Rightarrow> uuid \<Rightarrow> audit_opinion_kind \<Rightarrow> pystr list \<Rightarrow> pystr \<Rightarrow> pystr \<Rightarrow> int \<Rightarrow>
   audit_opinion db" where
  "create_audit_opinion oid cp sid rid opinion codes auditor issued_by issued_at =
     bnd (select_one (\<lambda>s.
            map res_id (filter (\<lambda>r. res_id r = rid \<and> attempt_in s (res_attempt_id r) sid \<and>
                                     owned s cp sid) (results s)))) (\<lambda>pertence.
     bnd (require_some OrchestrationScopeViolation pertence) (\<lambda>_.
     let parecer = \<lparr>opn_id = oid, opn_result_id = rid, opn_opinion = opinion,
                    opn_reason_codes = codes, opn_auditor_ref = auditor, opn_issued_by = issued_by,
                    opn_issued_at = issued_at\<rparr>
     in bnd (insert_row check_opinion opinions_update parecer) (\<lambda>_. ret parecer)))"

definition update_governance_record :: "uuid \<Rightarrow> unit db" where
  "update_governance_record record_id = raise GovernanceRecordImmutable"

definition delete_governance_record :: "uuid \<Rightarrow> unit db" where
  "delete_governance_record record_id = raise GovernanceRecordImmutable"

section \<open>What a query returns\<close>

lemma select_one_iff [run_iffs]:
  "select_one q s = (Inr None, s') \<longleftrightarrow> s' = s \<and> q s = []"
  "select_one q s = (Inr (Some r), s') \<longleftrightarrow> s' = s \<and> q s = [r]"
  "select_one q s = (Inl e, s') \<longleftrightarrow> s' = s \<and> e = MultipleResultsFound \<and> length (q s) > 1"
  by (auto simp: select_one_def split: list.splits)

lemma select_one_run:
  "q s = [] \<Longrightarrow> select_one q s = (Inr None, s)"
  "q s = [r] \<Longrightarrow> select_one q s = (Inr (Some r), s)"
  by (simp_all add: select_one_def)

lemma unchanged_select_one [unchanged_intros]: "unchanged (select_one q)"
  by (auto simp: unchanged_def select_one_def split: list.splits)

lemma require_some_iff [run_iffs]:
  "require_some e x s = (Inr y, s') \<longleftrightarrow> s' = s \<and> x = Some y"
  "require_some e x s = (Inl e', s') \<longleftrightarrow> s' = s \<and> x = None \<and> e' = e"
  by (auto simp: require_some_def ret_def raise_def split: option.splits)

lemma unchanged_require_some [unchanged_intros]: "unchanged (require_some e x)"
  by (auto simp: unchanged_def require_some_def ret_def raise_def split: option.splits)

lemmas query_defs =
  get_schedule_def lock_schedule_def list_steps_def get_step_def lock_step_def
  attempt_under_scope_def get_attempt_def lock_attempt_def get_seal_receipt_by_attempt_def
  list_attempts_def get_open_attempt_def list_unreturned_predecessors_def get_handoff_result_def
  get_handoff_attribution_def get_active_delegation_def get_delegation_def list_delegations_def
  list_control_events_def get_control_event_def count_open_pause_events_def
  list_open_attempts_of_schedule_def all_steps_returned_def list_execution_observations_def
  get_result_for_audit_def list_audit_opinions_def get_audit_opinion_def
  get_last_attribution_before_def get_command_receipt_def database_now_def
  require_schedule_def require_step_def require_attempt_def

lemma unchanged_queries [unchanged_intros]:
  "unchanged (get_schedule cp sid)" "unchanged (lock_schedule cp sid)"
  "unchanged (list_steps cp sid)" "unchanged (get_step cp sid pid)"
  "unchanged (lock_step cp sid pid)" "unchanged (attempt_under_scope cp sid aid)"
  "unchanged (get_attempt cp sid aid)" "unchanged (lock_attempt cp sid aid)"
  "unchanged (get_seal_receipt_by_attempt cp sid aid)" "unchanged (list_attempts cp sid p)"
  "unchanged (get_open_attempt cp sid pid)" "unchanged (list_unreturned_predecessors cp sid n)"
  "unchanged (get_handoff_result cp sid aid)" "unchanged (get_handoff_attribution cp sid aid)"
  "unchanged (get_active_delegation cp sid pid scope)" "unchanged (get_delegation cp sid did)"
  "unchanged (list_delegations cp sid)" "unchanged (list_control_events cp sid)"
  "unchanged (get_control_event cp sid eid)" "unchanged (count_open_pause_events cp sid reason)"
  "unchanged (list_open_attempts_of_schedule cp sid)" "unchanged (all_steps_returned cp sid)"
  "unchanged (list_execution_observations cp sid)" "unchanged (get_result_for_audit cp sid aid)"
  "unchanged (list_audit_opinions cp sid)" "unchanged (get_audit_opinion cp sid oid)"
  "unchanged (get_last_attribution_before cp sid pid aid)"
  "unchanged (get_command_receipt tp operation key)" "unchanged database_now"
  "unchanged (require_schedule cp sid)" "unchanged (require_step cp sid pid)"
  "unchanged (require_attempt cp sid aid)"
  by (auto simp: query_defs intro!: unchanged_intros)

end
