(* ===== verification/ScheduleService.thy ===== *)
theory ScheduleService
  imports Repository
begin

text \<open>
  \<^verbatim>\<open>orchestration/services/schedule_service.py\<close> and
  \<^verbatim>\<open>orchestration/services/handoff_service.py\<close>: declaring a piece of work, activating it,
  the advance rule, and sealing a step (envelope, attempt, receipt).
\<close>

section \<open>Schedules\<close>

record schedule_step_view =
  view_step_id :: uuid
  view_position :: int
  view_role :: pystr
  view_instruction_ref :: pystr
  view_context_refs :: "context_ref list"
  view_output_contract :: pystr
  view_constraints :: constraint_pairs
  view_state :: step_state

record schedule_view =
  view_schedule_id :: uuid
  view_title :: pystr
  view_schedule_state :: schedule_state
  view_execution_mode :: handoff_mode
  view_control_principal_ref :: pystr
  view_steps :: "schedule_step_view list"

definition step_view_of :: "schedule_step \<Rightarrow> schedule_step_view" where
  "step_view_of p =
     \<lparr>view_step_id = stp_id p, view_position = stp_position p, view_role = stp_role p,
      view_instruction_ref = stp_instruction_ref p, view_context_refs = stp_context_refs p,
      view_output_contract = stp_output_contract p, view_constraints = stp_constraints p,
      view_state = stp_state p\<rparr>"

definition schedule_view_of :: "schedule \<Rightarrow> schedule_step list \<Rightarrow> schedule_view" where
  "schedule_view_of agenda etapas =
     \<lparr>view_schedule_id = sch_id agenda, view_title = sch_title agenda,
      view_schedule_state = sch_state agenda, view_execution_mode = sch_mode agenda,
      view_control_principal_ref = sch_owner agenda, view_steps = map step_view_of etapas\<rparr>"

definition service_get_schedule :: "pystr \<Rightarrow> uuid \<Rightarrow> schedule_view db" where
  "service_get_schedule cp sid =
     bnd (bnd (get_schedule cp sid) (require_some OrchestrationScopeViolation)) (\<lambda>agenda.
     bnd (list_steps cp sid) (\<lambda>etapas.
     ret (schedule_view_of agenda etapas)))"

definition create_schedule ::
  "uuid \<Rightarrow> pystr \<Rightarrow> schedule_draft \<Rightarrow> handoff_mode \<Rightarrow> schedule_view db" where
  "create_schedule sid cp draft mode =
     bnd (require (mode \<in> EXECUTABLE_HANDOFF_MODES) OrchestrationContractViolation) (\<lambda>_.
     bnd (require (\<not> blank cp) OrchestrationContractViolation) (\<lambda>_.
     bnd (create_schedule_rows sid cp (draft_title draft) mode (draft_steps draft)) (\<lambda>_.
     service_get_schedule cp sid)))"

definition activate :: "pystr \<Rightarrow> uuid \<Rightarrow> schedule_view db" where
  "activate cp sid =
     bnd (bnd (lock_schedule cp sid) (require_some OrchestrationScopeViolation)) (\<lambda>agenda.
     bnd (require ((sch_state agenda, ACTIVE) \<in> E7_1_IMPLEMENTED_SCHEDULE_TRANSITIONS)
            OrchestrationLifecycleViolation) (\<lambda>_.
     bnd (set_schedule_state cp sid ACTIVE) (\<lambda>_.
     service_get_schedule cp sid)))"

definition advance :: "pystr \<Rightarrow> uuid \<Rightarrow> int \<Rightarrow> int list db" where
  "advance cp sid position = list_unreturned_predecessors cp sid position"

section \<open>Sealing\<close>

record seal_outcome =
  seal_attempt_id :: uuid
  seal_attempt_number :: int
  seal_content_sha256 :: pystr
  seal_envelope_version :: pystr
  seal_receipt_id :: uuid
  seal_sealed_at :: int
  seal_sealer_ref :: pystr

definition make_seal_outcome ::
  "uuid \<Rightarrow> int \<Rightarrow> pystr \<Rightarrow> pystr \<Rightarrow> uuid \<Rightarrow> int \<Rightarrow> pystr \<Rightarrow> error + seal_outcome" where
  "make_seal_outcome aid number content version rid sealed_at sealer =
     andthen (check (\<not> number < 1)) (\<lambda>_.
     andthen (check (length content = 64)) (\<lambda>_.
     Inr \<lparr>seal_attempt_id = aid, seal_attempt_number = number, seal_content_sha256 = content,
          seal_envelope_version = version, seal_receipt_id = rid, seal_sealed_at = sealed_at,
          seal_sealer_ref = sealer\<rparr>))"

text \<open>The eight frozen fields of a persisted step.\<close>

definition envelope_of_step :: "uuid \<Rightarrow> uuid \<Rightarrow> schedule_step \<Rightarrow> error + envelope_content" where
  "envelope_of_step sid pid etapa =
     make_envelope_content (PyStr ENVELOPE_VERSION) (PyUuid sid) (PyUuid pid)
       (PyStr (stp_role etapa)) (PyStr (stp_instruction_ref etapa))
       (PySeq (map PyContextRef (stp_context_refs etapa))) (PyStr (stp_output_contract etapa))
       (py_pairs (stp_constraints etapa))"

definition build_envelope_content :: "pystr \<Rightarrow> uuid \<Rightarrow> uuid \<Rightarrow> envelope_content db" where
  "build_envelope_content cp sid pid =
     bnd (bnd (get_schedule cp sid) (require_some OrchestrationScopeViolation)) (\<lambda>_.
     bnd (bnd (get_step cp sid pid) (require_some OrchestrationScopeViolation)) (\<lambda>etapa.
     lift_sum (envelope_of_step sid pid etapa)))"

definition seal_with ::
  "step_state list \<Rightarrow> uuid \<Rightarrow> pystr \<Rightarrow> uuid \<Rightarrow> uuid \<Rightarrow> pystr \<Rightarrow> seal_outcome db" where
  "seal_with estados_admitidos aid cp sid pid sealer =
     bnd (bnd (get_schedule cp sid) (require_some OrchestrationScopeViolation)) (\<lambda>agenda.
     bnd (require (sch_state agenda = ACTIVE) OrchestrationLifecycleViolation) (\<lambda>_.
     bnd (require (sch_mode agenda \<in> EXECUTABLE_HANDOFF_MODES) OrchestrationLifecycleViolation) (\<lambda>_.
     bnd (bnd (get_step cp sid pid) (require_some OrchestrationScopeViolation)) (\<lambda>etapa.
     bnd (require (stp_state etapa \<in> set estados_admitidos) OrchestrationLifecycleViolation) (\<lambda>_.
     bnd (require (\<not> blank sealer) OrchestrationLifecycleViolation) (\<lambda>_.
     bnd (lift_sum (envelope_of_step sid pid etapa)) (\<lambda>conteudo.
     bnd (lift_sum (content_sha256 conteudo)) (\<lambda>content.
     bnd (next_attempt_number cp sid pid) (\<lambda>numero.
     bnd (create_attempt cp aid sid pid numero (env_version conteudo) content) (\<lambda>tentativa.
     bnd database_now (\<lambda>sealed_at.
     bnd (create_seal_receipt cp sid (att_id tentativa) content sealed_at sealer) (\<lambda>recibo.
     lift_sum (make_seal_outcome (att_id tentativa) (att_number tentativa) content
       (env_version conteudo) (rcp_id recibo) (rcp_sealed_at recibo) (rcp_sealer_ref recibo))
     ))))))))))))"

definition seal_step :: "uuid \<Rightarrow> pystr \<Rightarrow> uuid \<Rightarrow> uuid \<Rightarrow> pystr \<Rightarrow> seal_outcome db" where
  "seal_step = seal_with [PENDING]"

definition seal_step_for_export :: "uuid \<Rightarrow> pystr \<Rightarrow> uuid \<Rightarrow> uuid \<Rightarrow> pystr \<Rightarrow> seal_outcome db" where
  "seal_step_for_export = seal_with [PENDING, AWAITING_RETURN]"

end
