(* ===== verification/ControlService.thy ===== *)
theory ControlService
  imports ScheduleService
begin

text \<open>
  \<^verbatim>\<open>orchestration/services/control_service.py\<close>: pause, resume, stop and cancel, the
  pause a blocked gate provokes and the completion of a schedule; and
  \<^verbatim>\<open>orchestration/services/delegation_service.py\<close>: granting and revoking the technical
  authorization of a dispatch.
\<close>

section \<open>Control\<close>

record control_outcome =
  co_schedule_id :: uuid
  co_schedule_state :: schedule_state
  co_event :: control_event
  co_cancelled_steps :: nat
  co_closed_attempts :: nat

definition ACAO_DESTINO :: "pystr \<Rightarrow> schedule_state option" where
  "ACAO_DESTINO =
     [pys ''pause'' \<mapsto> PAUSED, pys ''resume'' \<mapsto> ACTIVE, pys ''stop'' \<mapsto> STOPPED,
      pys ''cancel'' \<mapsto> CANCELLED]"

definition ACAO_EVENTO :: "pystr \<Rightarrow> control_event_kind option" where
  "ACAO_EVENTO =
     [pys ''pause'' \<mapsto> EVENT_PAUSED, pys ''resume'' \<mapsto> EVENT_RESUMED, pys ''stop'' \<mapsto> EVENT_STOPPED,
      pys ''cancel'' \<mapsto> EVENT_CANCELLED]"

definition cancelar_conteudo :: "pystr \<Rightarrow> uuid \<Rightarrow> (nat \<times> nat) db" where
  "cancelar_conteudo cp sid =
     bnd (list_steps cp sid) (\<lambda>etapas.
     let alvo = filter (\<lambda>p. stp_state p = PENDING \<or> stp_state p = AWAITING_RETURN) etapas in
     bnd (for_each (\<lambda>p. bnd (set_step_state cp sid (stp_id p) STEP_CANCELLED) (\<lambda>_. ret ())) alvo) (\<lambda>_.
     bnd (list_open_attempts_of_schedule cp sid) (\<lambda>abertas.
     bnd (for_each (\<lambda>a. bnd (set_attempt_state cp sid (att_id a) CLOSED_CANCELLED) (\<lambda>_. ret ()))
            abertas) (\<lambda>_.
     ret (length alvo, length abertas)))))"

definition control_motivo ::
  "pystr \<Rightarrow> stop_condition_category option \<Rightarrow> error + control_reason_code" where
  "control_motivo action category =
     (if action = pys ''stop''
      then (if category = None then Inl OrchestrationContractViolation
            else Inr STOP_CONDITION_DECLARED)
      else (if category \<noteq> None then Inl OrchestrationContractViolation
            else Inr OPERATOR_REQUESTED))"

definition apply_control ::
  "pystr \<Rightarrow> uuid \<Rightarrow> pystr \<Rightarrow> uuid \<Rightarrow> stop_condition_category option \<Rightarrow> control_outcome db" where
  "apply_control cp sid action event_id category =
     bnd (require_some OrchestrationContractViolation (ACAO_DESTINO action)) (\<lambda>destino.
     bnd (bnd (lock_schedule cp sid) (require_some OrchestrationScopeViolation)) (\<lambda>agenda.
     bnd (require ((sch_state agenda, destino) \<in> E7_3_IMPLEMENTED_SCHEDULE_TRANSITIONS)
            OrchestrationLifecycleViolation) (\<lambda>_.
     bnd (lift_sum (control_motivo action category)) (\<lambda>motivo.
     bnd (if action = pys ''cancel'' then cancelar_conteudo cp sid else ret (0, 0)) (\<lambda>(canceladas, fechadas).
     bnd (set_schedule_state cp sid destino) (\<lambda>_.
     bnd (require_some PyKeyError (ACAO_EVENTO action)) (\<lambda>kind.
     bnd database_now (\<lambda>t.
     bnd (create_control_event event_id cp sid None kind motivo category cp t) (\<lambda>evento.
     ret \<lparr>co_schedule_id = sid, co_schedule_state = destino, co_event = evento,
          co_cancelled_steps = canceladas, co_closed_attempts = fechadas\<rparr>)))))))))"

definition register_pause ::
  "pystr \<Rightarrow> uuid \<Rightarrow> uuid \<Rightarrow> control_reason_code \<Rightarrow> control_event option db" where
  "register_pause cp sid pid reason =
     bnd (bnd (lock_schedule cp sid) (require_some OrchestrationScopeViolation)) (\<lambda>agenda.
     let gravar =
       bnd draw_uuid (\<lambda>event_id.
       bnd database_now (\<lambda>t.
       bnd (create_control_event event_id cp sid (Some pid) EVENT_PAUSED reason None cp t) (\<lambda>evento.
       ret (Some evento))))
     in if sch_state agenda = PAUSED then
          bnd (count_open_pause_events cp sid reason) (\<lambda>n. if n \<noteq> 0 then ret None else gravar)
        else if sch_state agenda = ACTIVE then
          bnd (set_schedule_state cp sid PAUSED) (\<lambda>_. gravar)
        else ret None)"

definition complete_if_all_returned :: "pystr \<Rightarrow> uuid \<Rightarrow> control_event option db" where
  "complete_if_all_returned cp sid =
     bnd (lock_schedule cp sid) (\<lambda>agenda.
     case agenda of
       None \<Rightarrow> ret None
     | Some a \<Rightarrow>
         if sch_state a \<noteq> ACTIVE then ret None
         else
           bnd (all_steps_returned cp sid) (\<lambda>todas.
           if \<not> todas then ret None
           else
             bnd (set_schedule_state cp sid COMPLETED) (\<lambda>_.
             bnd draw_uuid (\<lambda>event_id.
             bnd database_now (\<lambda>t.
             bnd (create_control_event event_id cp sid None EVENT_COMPLETED ALL_STEPS_RETURNED None cp t)
               (\<lambda>evento. ret (Some evento)))))))"

section \<open>Delegation\<close>

text \<open>
  \<open>gate_requirement\<close> is read from the persisted constraints. The comparison of the deadline
  with the clock needs an aware value: a naive one is refused first.
\<close>

definition grant_delegation ::
  "pystr \<Rightarrow> uuid \<Rightarrow> uuid \<Rightarrow> py_datetime \<Rightarrow> uuid \<Rightarrow> service_delegation db" where
  "grant_delegation cp sid pid valid_until did =
     bnd (bnd (lock_schedule cp sid) (require_some OrchestrationScopeViolation)) (\<lambda>_.
     bnd (bnd (lock_step cp sid pid) (require_some OrchestrationScopeViolation)) (\<lambda>etapa.
     bnd (lift_sum (gate_requirement (stp_constraints etapa))) (\<lambda>exigencia.
     bnd (require (exigencia \<noteq> None) OrchestrationContractViolation) (\<lambda>_.
     bnd (require (tz_aware valid_until) OrchestrationContractViolation) (\<lambda>_.
     bnd database_now (\<lambda>agora.
     bnd (require (\<not> instant valid_until \<le> agora) OrchestrationContractViolation) (\<lambda>_.
     bnd (expire_stale_delegations cp sid pid) (\<lambda>_.
     bnd (build_envelope_content cp sid pid) (\<lambda>conteudo.
     bnd (revoke_active_delegations cp sid pid GATE_SCOPE_DISPATCH) (\<lambda>_.
     bnd (lift_sum (content_sha256 conteudo)) (\<lambda>content.
     create_delegation cp did sid pid content GATE_SCOPE_DISPATCH cp (instant valid_until))))))))))))"

text \<open>
  The second read finds the object the first one left in the identity map of the session, whose
  columns the textual \<^verbatim>\<open>UPDATE\<close> did not refresh: the view is built from the first row.
\<close>

definition revoke_delegation :: "pystr \<Rightarrow> uuid \<Rightarrow> uuid \<Rightarrow> uuid \<Rightarrow> service_delegation db" where
  "revoke_delegation cp sid pid did =
     bnd (bnd (get_delegation cp sid did) (require_some OrchestrationScopeViolation)) (\<lambda>delegacao.
     bnd (require (dlg_step_id delegacao = pid) OrchestrationScopeViolation) (\<lambda>_.
     bnd (require (dlg_state delegacao = DELEGATION_ACTIVE) OrchestrationLifecycleViolation) (\<lambda>_.
     bnd (revoke_active_delegations cp sid (dlg_step_id delegacao) (dlg_scope delegacao)) (\<lambda>_.
     bnd (get_delegation cp sid did) (\<lambda>atual.
     bnd (require (atual \<noteq> None) PyRuntimeError) (\<lambda>_.
     ret delegacao))))))"

end
