(* ===== verification/Connections.thy ===== *)
theory Connections
  imports Repository
begin

text \<open>
  The part of \<^verbatim>\<open>connections\<close> an orchestration command goes through: the profiles of
  \<^verbatim>\<open>connection_repository.py\<close> and \<^verbatim>\<open>connection_profile_service.py\<close>, and the
  execution receipts of \<^verbatim>\<open>connection_execution_receipt_service.py\<close>. The advisory lock
  orders concurrent transactions and has no effect inside one.
\<close>

section \<open>Profiles\<close>

definition AVAILABLE_CONNECTION_METHODS :: "connection_method set" where
  "AVAILABLE_CONNECTION_METHODS = {METHOD_MANUAL_HANDOFF}"

fun BASELINE_METHOD_STATE :: "connection_method \<Rightarrow> connection_state" where
  "BASELINE_METHOD_STATE METHOD_MANUAL_HANDOFF = AVAILABLE"
| "BASELINE_METHOD_STATE PROVIDER_NATIVE_MCP_INBOUND = PREFLIGHT_REQUIRED"
| "BASELINE_METHOD_STATE _ = DECLARED"

definition E7_4_1_IMPLEMENTED_CONNECTION_TRANSITIONS ::
  "(connection_state \<times> connection_state) set" where
  "E7_4_1_IMPLEMENTED_CONNECTION_TRANSITIONS = {}"

definition get_manual_profile :: "pystr \<Rightarrow> connection_profile option db" where
  "get_manual_profile cp =
     select_one (\<lambda>s. filter (\<lambda>c. con_principal c = cp \<and> con_method c = METHOD_MANUAL_HANDOFF \<and>
                                   con_state c \<notin> TERMINAL_CONNECTION_STATES) (profiles s))"

definition create_profile ::
  "pystr \<Rightarrow> connection_method \<Rightarrow> connection_state \<Rightarrow> pystr option \<Rightarrow> uuid option \<Rightarrow> pystr option \<Rightarrow>
   pystr option \<Rightarrow> connection_profile db" where
  "create_profile cp method st endpoint provider display credential =
     bnd draw_uuid (\<lambda>new_id.
     bnd (gets now) (\<lambda>t.
     let perfil = \<lparr>con_id = new_id, con_principal = cp, con_method = method,
                   con_endpoint_ref = endpoint, con_access_provider = provider, con_state = st,
                   con_credential_ref = credential, con_display_name = display, con_created_at = t\<rparr>
     in bnd (insert_row check_profile profiles_update perfil) (\<lambda>_. ret perfil)))"

definition get_profile :: "pystr \<Rightarrow> uuid \<Rightarrow> connection_profile option db" where
  "get_profile cp cid =
     select_one (\<lambda>s. filter (\<lambda>c. con_id c = cid \<and> con_principal c = cp) (profiles s))"

definition require_profile :: "pystr \<Rightarrow> uuid \<Rightarrow> connection_profile db" where
  "require_profile cp cid = bnd (get_profile cp cid) (require_some ConnectionScopeViolation)"

definition list_profiles :: "pystr \<Rightarrow> connection_profile list db" where
  "list_profiles cp =
     gets (\<lambda>s. sort_key (\<lambda>c. (con_created_at c, con_id c))
                 (filter (\<lambda>c. con_principal c = cp) (profiles s)))"

record manual_profile_outcome =
  outcome_profile :: connection_profile
  outcome_created :: bool

text \<open>
  \<^verbatim>\<open>begin_nested()\<close>: an error inside rolls the rows back to the savepoint, and an
  \<^verbatim>\<open>IntegrityError\<close> is handled; any other error propagates. The random source is not part
  of the database and does not go back.
\<close>

definition nested :: "'a db \<Rightarrow> 'a db \<Rightarrow> 'a db" where
  "nested m on_integrity =
     (\<lambda>s. case m s of
        (Inr x, s') \<Rightarrow> (Inr x, s')
      | (Inl (IntegrityError name), s') \<Rightarrow> on_integrity (s\<lparr>drawn := drawn s'\<rparr>)
      | (Inl e, s') \<Rightarrow> (Inl e, s\<lparr>drawn := drawn s'\<rparr>))"

definition ensure_manual_profile :: "pystr \<Rightarrow> manual_profile_outcome db" where
  "ensure_manual_profile cp =
     bnd (require (\<not> blank cp) ConnectionContractViolation) (\<lambda>_.
     bnd (get_manual_profile cp) (\<lambda>existente.
     case existente of
       Some c \<Rightarrow> ret \<lparr>outcome_profile = c, outcome_created = False\<rparr>
     | None \<Rightarrow>
         bnd (get_manual_profile cp) (\<lambda>relido.
         case relido of
           Some c \<Rightarrow> ret \<lparr>outcome_profile = c, outcome_created = False\<rparr>
         | None \<Rightarrow>
             nested
               (bnd (create_profile cp METHOD_MANUAL_HANDOFF (BASELINE_METHOD_STATE METHOD_MANUAL_HANDOFF)
                       None None None None) (\<lambda>criado.
                ret \<lparr>outcome_profile = criado, outcome_created = True\<rparr>))
               (bnd (get_manual_profile cp) (\<lambda>vencedor.
                case vencedor of
                  None \<Rightarrow> raise (IntegrityError ''connection_profiles'')
                | Some c \<Rightarrow> ret \<lparr>outcome_profile = c, outcome_created = False\<rparr>)))))"

definition declare_profile ::
  "pystr \<Rightarrow> connection_method \<Rightarrow> pystr option \<Rightarrow> uuid option \<Rightarrow> pystr option \<Rightarrow>
   connection_profile db" where
  "declare_profile cp method endpoint provider display =
     bnd (require (method \<noteq> METHOD_MANUAL_HANDOFF) ConnectionContractViolation) (\<lambda>_.
     bnd (require (\<forall>e. endpoint = Some e \<longrightarrow> \<not> blank e) ConnectionContractViolation) (\<lambda>_.
     let estado = BASELINE_METHOD_STATE method in
     bnd (require (\<not> (estado = AVAILABLE \<and> method \<notin> AVAILABLE_CONNECTION_METHODS))
            ConnectionContractViolation) (\<lambda>_.
     create_profile cp method estado endpoint provider display None)))"

section \<open>Execution receipts\<close>

record execution_attribution =
  ea_connection_id :: uuid
  ea_method :: connection_method
  ea_access_provider :: "pystr option"
  ea_requested_model :: "pystr option"
  ea_observed_model :: "pystr option"
  ea_attestation :: model_attestation_level

definition make_execution_attribution ::
  "uuid \<Rightarrow> connection_method \<Rightarrow> pystr option \<Rightarrow> pystr option \<Rightarrow> pystr option \<Rightarrow>
   model_attestation_level \<Rightarrow> error + execution_attribution" where
  "make_execution_attribution cid method provider requested observed level =
     andthen (check ((level = ATTESTED) = (observed \<noteq> None))) (\<lambda>_.
     andthen (check (\<not> (method = METHOD_MANUAL_HANDOFF \<and>
                (provider \<noteq> None \<or> requested \<noteq> None \<or> observed \<noteq> None \<or> level \<noteq> UNKNOWN)))) (\<lambda>_.
     Inr \<lparr>ea_connection_id = cid, ea_method = method, ea_access_provider = provider,
          ea_requested_model = requested, ea_observed_model = observed, ea_attestation = level\<rparr>))"

definition manual_attribution :: "uuid \<Rightarrow> error + execution_attribution" where
  "manual_attribution cid =
     make_execution_attribution cid METHOD_MANUAL_HANDOFF None None None UNKNOWN"

definition create_execution_receipt ::
  "pystr \<Rightarrow> uuid \<Rightarrow> uuid \<Rightarrow> uuid \<Rightarrow> execution_attribution \<Rightarrow> int \<Rightarrow> connection_execution_receipt db" where
  "create_execution_receipt cp sid pid aid attr observed_at =
     bnd (require_profile cp (ea_connection_id attr)) (\<lambda>_.
     bnd draw_uuid (\<lambda>new_id.
     let recibo = \<lparr>exe_id = new_id, exe_principal = cp, exe_schedule_id = sid, exe_step_id = pid,
                   exe_attempt_id = aid, exe_connection_id = ea_connection_id attr,
                   exe_method = ea_method attr, exe_access_provider = ea_access_provider attr,
                   exe_requested_model = ea_requested_model attr,
                   exe_observed_model = ea_observed_model attr,
                   exe_attestation = ea_attestation attr, exe_observed_at = observed_at\<rparr>
     in bnd (insert_row check_exec_receipt exec_receipts_update recibo) (\<lambda>_. ret recibo)))"

definition record_execution ::
  "pystr \<Rightarrow> uuid \<Rightarrow> uuid \<Rightarrow> uuid \<Rightarrow> execution_attribution \<Rightarrow> int \<Rightarrow> connection_execution_receipt db" where
  "record_execution cp sid pid aid attr observed_at =
     bnd (require (\<not> blank cp) ConnectionContractViolation) (\<lambda>_.
     create_execution_receipt cp sid pid aid attr observed_at)"

definition get_by_attempt ::
  "pystr \<Rightarrow> uuid \<Rightarrow> uuid \<Rightarrow> connection_execution_receipt option db" where
  "get_by_attempt cp sid aid =
     select_one (\<lambda>s. filter (\<lambda>r. exe_attempt_id r = aid \<and> exe_schedule_id r = sid \<and>
                                   exe_principal r = cp) (exec_receipts s))"

end
