(* ===== verification/ExportService.thy ===== *)
theory ExportService
  imports ControlService Connections
begin

text \<open>
  \<^verbatim>\<open>orchestration/services/manual_handoff_export_service.py\<close> with the ports of
  \<^verbatim>\<open>orchestration/ports/gate.py\<close> and \<^verbatim>\<open>transport.py\<close> and their production
  adapters: the preflight of a dispatch, the registry of authorizations, the pause a blocked gate
  leaves and the export of a step.
\<close>

section \<open>Ports\<close>

record gate_decision =
  granted :: bool
  gate_reason :: gate_reason_code

definition make_gate_decision :: "bool \<Rightarrow> gate_reason_code \<Rightarrow> error + gate_decision" where
  "make_gate_decision g r =
     andthen (check (\<not> (g \<and> r \<noteq> AUTHORIZED))) (\<lambda>_.
     andthen (check (\<not> (\<not> g \<and> r = AUTHORIZED))) (\<lambda>_.
     Inr \<lparr>granted = g, gate_reason = r\<rparr>))"

text \<open>The port decides on a scope, a schedule, a step and the hash of the exact content.\<close>

type_synonym human_gate_port = "pystr \<Rightarrow> uuid \<Rightarrow> uuid \<Rightarrow> pystr \<Rightarrow> gate_decision"

definition deny_all_human_gate :: human_gate_port where
  "deny_all_human_gate scope sid pid content =
     \<lparr>granted = False, gate_reason = HUMAN_AUTHORITY_UNAVAILABLE\<rparr>"

record exported_handoff =
  eh_schedule_id :: uuid
  eh_step_id :: uuid
  eh_attempt_id :: uuid
  eh_attempt_number :: int
  eh_receipt_id :: uuid
  eh_content_sha256 :: pystr
  eh_sealed_at :: int
  eh_envelope :: envelope_content

definition make_exported_handoff ::
  "uuid \<Rightarrow> uuid \<Rightarrow> seal_outcome \<Rightarrow> envelope_content \<Rightarrow> error + exported_handoff" where
  "make_exported_handoff sid pid selado envelope =
     andthen (check (\<not> seal_attempt_number selado < 1)) (\<lambda>_.
     andthen (content_sha256 envelope) (\<lambda>h.
     andthen (check (h = seal_content_sha256 selado)) (\<lambda>_.
     Inr \<lparr>eh_schedule_id = sid, eh_step_id = pid, eh_attempt_id = seal_attempt_id selado,
          eh_attempt_number = seal_attempt_number selado, eh_receipt_id = seal_receipt_id selado,
          eh_content_sha256 = seal_content_sha256 selado, eh_sealed_at = seal_sealed_at selado,
          eh_envelope = envelope\<rparr>)))"

definition manual_transport_export :: "exported_handoff \<Rightarrow> error + exported_handoff" where
  "manual_transport_export handoff = Inr handoff"

definition manual_transport_receive :: "uuid \<Rightarrow> error + 'a" where
  "manual_transport_receive aid = Inl ManualTransportInboundUnavailable"

text \<open>What the constructor of the service receives.\<close>

record composition =
  human_gate :: "human_gate_port option"
  has_control_service :: bool
  transport_export :: "exported_handoff \<Rightarrow> error + exported_handoff"

definition production :: composition where
  "production =
     \<lparr>human_gate = Some deny_all_human_gate, has_control_service = True,
      transport_export = manual_transport_export\<rparr>"

section \<open>The registry of authorizations\<close>

definition MAX_AUTORIZACOES_PENDENTES :: nat where
  "MAX_AUTORIZACOES_PENDENTES = 8"

definition registrar_autorizacao :: "dispatch_authorized \<Rightarrow> dispatch_authorized db" where
  "registrar_autorizacao a =
     bnd (gets emitted) (\<lambda>pend.
     bnd (require (\<not> length pend \<ge> MAX_AUTORIZACOES_PENDENTES)
            (DispatchBlocked TooManyPendingAuthorizations)) (\<lambda>_.
     bnd (modify (\<lambda>s. s\<lparr>emitted := AList.update (da_authorization_id a) a (emitted s)\<rparr>)) (\<lambda>_.
     ret a)))"

definition consumir_autorizacao :: "dispatch_authorized \<Rightarrow> unit db" where
  "consumir_autorizacao a =
     bnd (gets (\<lambda>s. map_of (emitted s) (da_authorization_id a))) (\<lambda>emitida.
     bnd (modify (\<lambda>s. s\<lparr>emitted := AList.delete (da_authorization_id a) (emitted s)\<rparr>)) (\<lambda>_.
     case emitida of
       None \<Rightarrow> raise (DispatchBlocked AuthorizationNotIssued)
     | Some e \<Rightarrow>
         if da_object e \<noteq> da_object a
         then bnd (modify (\<lambda>s. s\<lparr>emitted := AList.update (da_authorization_id a) e (emitted s)\<rparr>)) (\<lambda>_.
              raise (DispatchBlocked AuthorizationNotIssued))
         else ret ()))"

text \<open>The constructor call: a new object.\<close>

definition new_authorization ::
  "pystr \<Rightarrow> uuid option \<Rightarrow> bool \<Rightarrow> dispatch_authorized db" where
  "new_authorization content delegation first =
     bnd draw_uuid (\<lambda>aid.
     bnd (gets next_object) (\<lambda>n.
     bnd (modify (\<lambda>s. s\<lparr>next_object := Suc n\<rparr>)) (\<lambda>_.
     ret \<lparr>da_content_sha256 = content, da_delegation_id = delegation, da_first_dispatch = first,
          da_authorization_id = aid, da_object = n\<rparr>)))"

section \<open>Preflight\<close>

record dispatch_blocked =
  db_reason :: control_reason_code
  db_content :: "pystr option"

datatype dispatch = Authorized dispatch_authorized | Blocked dispatch_blocked

definition preflight_guards :: "pystr \<Rightarrow> uuid \<Rightarrow> uuid \<Rightarrow> schedule_step db" where
  "preflight_guards cp sid pid =
     bnd (bnd (lock_schedule cp sid) (require_some OrchestrationScopeViolation)) (\<lambda>agenda.
     bnd (require (sch_state agenda \<notin> {STOPPED, CANCELLED}) OrchestrationLifecycleViolation) (\<lambda>_.
     bnd (require (sch_state agenda \<noteq> PAUSED) OrchestrationLifecycleViolation) (\<lambda>_.
     bnd (require (sch_state agenda = ACTIVE) OrchestrationLifecycleViolation) (\<lambda>_.
     bnd (require (sch_mode agenda \<in> EXECUTABLE_HANDOFF_MODES) OrchestrationLifecycleViolation) (\<lambda>_.
     bnd (bnd (lock_step cp sid pid) (require_some OrchestrationScopeViolation)) (\<lambda>etapa.
     bnd (require (stp_state etapa \<noteq> STEP_CANCELLED) OrchestrationLifecycleViolation) (\<lambda>_.
     bnd (advance cp sid (stp_position etapa)) (\<lambda>pendentes.
     bnd (require (pendentes = []) OrchestrationLifecycleViolation) (\<lambda>_.
     bnd (get_open_attempt cp sid pid) (\<lambda>aberta.
     bnd (require (aberta = None) OrchestrationLifecycleViolation) (\<lambda>_.
     bnd (require (stp_state etapa \<in> {PENDING, AWAITING_RETURN}) OrchestrationLifecycleViolation) (\<lambda>_.
     ret etapa))))))))))))"

definition human_refuses :: "composition \<Rightarrow> gate_requirement_rec \<Rightarrow> uuid \<Rightarrow> uuid \<Rightarrow> pystr \<Rightarrow> bool" where
  "human_refuses c exigencia sid pid content \<longleftrightarrow>
     requires_human exigencia \<and>
     (case human_gate c of
        None \<Rightarrow> True
      | Some porta \<Rightarrow>
          (let decisao = porta (gate_scope exigencia) sid pid content
           in \<not> granted decisao \<or> gate_reason decisao \<noteq> AUTHORIZED))"

definition preflight :: "composition \<Rightarrow> pystr \<Rightarrow> uuid \<Rightarrow> uuid \<Rightarrow> dispatch db" where
  "preflight c cp sid pid =
     bnd (preflight_guards cp sid pid) (\<lambda>etapa.
     bnd (build_envelope_content cp sid pid) (\<lambda>conteudo.
     bnd (lift_sum (content_sha256 conteudo)) (\<lambda>hash_corrente.
     let primeira = (stp_state etapa = PENDING) in
     bnd (lift_sum (gate_requirement (stp_constraints etapa))) (\<lambda>exigencia.
     case exigencia of
       None \<Rightarrow>
         bnd (new_authorization hash_corrente None primeira) (\<lambda>a.
         bnd (registrar_autorizacao a) (\<lambda>a'. ret (Authorized a')))
     | Some g \<Rightarrow>
         if human_refuses c g sid pid hash_corrente
         then ret (Blocked \<lparr>db_reason = HUMAN_GATE_UNAVAILABLE, db_content = Some hash_corrente\<rparr>)
         else
           bnd (expire_stale_delegations cp sid pid) (\<lambda>_.
           bnd (get_active_delegation cp sid pid (gate_scope g)) (\<lambda>delegacao.
           case delegacao of
             None \<Rightarrow> ret (Blocked \<lparr>db_reason = DELEGATION_MISSING, db_content = Some hash_corrente\<rparr>)
           | Some d \<Rightarrow>
               if dlg_content_sha256 d \<noteq> hash_corrente
               then ret (Blocked \<lparr>db_reason = DELEGATION_CONTENT_CHANGED,
                                 db_content = Some hash_corrente\<rparr>)
               else
                 bnd (new_authorization hash_corrente (Some (dlg_id d)) primeira) (\<lambda>a.
                 bnd (registrar_autorizacao a) (\<lambda>a'. ret (Authorized a')))))))))"

definition register_block ::
  "composition \<Rightarrow> pystr \<Rightarrow> uuid \<Rightarrow> uuid \<Rightarrow> dispatch_blocked \<Rightarrow> 'a db" where
  "register_block c cp sid pid blocked =
     bnd (if has_control_service c
          then bnd (register_pause cp sid pid (db_reason blocked)) (\<lambda>_. ret ())
          else ret ()) (\<lambda>_.
     raise (DispatchBlocked (BlockedByGate (db_reason blocked))))"

section \<open>Export\<close>

record export_outcome =
  xo_exported :: exported_handoff
  xo_step_state :: step_state
  xo_attempt_state :: attempt_state

definition obtain_authorization ::
  "composition \<Rightarrow> pystr \<Rightarrow> uuid \<Rightarrow> uuid \<Rightarrow> dispatch_authorized option \<Rightarrow> dispatch_authorized db" where
  "obtain_authorization c cp sid pid authorization =
     (case authorization of
        Some a \<Rightarrow> ret a
      | None \<Rightarrow>
          bnd (preflight c cp sid pid) (\<lambda>resultado.
          case resultado of
            Blocked b \<Rightarrow> register_block c cp sid pid b
          | Authorized a \<Rightarrow> ret a))"

definition consume_authorized_delegation ::
  "pystr \<Rightarrow> uuid \<Rightarrow> uuid \<Rightarrow> dispatch_authorized \<Rightarrow> uuid \<Rightarrow> unit db" where
  "consume_authorized_delegation cp sid pid a aid =
     (case da_delegation_id a of
        None \<Rightarrow> ret ()
      | Some did \<Rightarrow>
          bnd (consume_delegation cp sid pid did (da_content_sha256 a) GATE_SCOPE_DISPATCH aid) (\<lambda>consumida.
          require consumida (DispatchBlocked DelegationNoLongerConsumable)))"

definition export_step ::
  "composition \<Rightarrow> uuid \<Rightarrow> pystr \<Rightarrow> uuid \<Rightarrow> uuid \<Rightarrow> pystr \<Rightarrow> dispatch_authorized option \<Rightarrow>
   export_outcome db" where
  "export_step c aid cp sid pid sealer authorization =
     bnd (obtain_authorization c cp sid pid authorization) (\<lambda>a.
     bnd (consumir_autorizacao a) (\<lambda>_.
     bnd (bnd (lock_step cp sid pid) (require_some OrchestrationScopeViolation)) (\<lambda>etapa.
     bnd (build_envelope_content cp sid pid) (\<lambda>agora.
     bnd (lift_sum (content_sha256 agora)) (\<lambda>h.
     bnd (require (h = da_content_sha256 a) (DispatchBlocked ContentChangedAfterAuthorization)) (\<lambda>_.
     bnd (consume_authorized_delegation cp sid pid a aid) (\<lambda>_.
     bnd (seal_step_for_export aid cp sid pid sealer) (\<lambda>selado.
     bnd (ensure_manual_profile cp) (\<lambda>perfil.
     bnd (lift_sum (manual_attribution (con_id (outcome_profile perfil)))) (\<lambda>attr.
     bnd database_now (\<lambda>t.
     bnd (record_execution cp sid pid (seal_attempt_id selado) attr t) (\<lambda>_.
     bnd (lift_sum (envelope_of_step sid pid etapa)) (\<lambda>envelope.
     bnd (lift_sum (make_exported_handoff sid pid selado envelope)) (\<lambda>repasse.
     bnd (lift_sum (transport_export c repasse)) (\<lambda>entregue.
     bnd (if da_first_dispatch a then bnd (set_step_state cp sid pid DISPATCHED) (\<lambda>_. ret ())
          else ret ()) (\<lambda>_.
     bnd (set_step_state cp sid pid AWAITING_RETURN) (\<lambda>_.
     ret \<lparr>xo_exported = entregue, xo_step_state = AWAITING_RETURN, xo_attempt_state = OPEN\<rparr>)))))))))))))))))"

end
