(* ===== verification/ReturnValidation.thy ===== *)
theory ReturnValidation
  imports ControlService
begin

text \<open>
  \<^verbatim>\<open>orchestration/services/return_validation_service.py\<close>: importing a return (verdict,
  attribution, closing of the attempt, advance of the step), and
  \<^verbatim>\<open>orchestration/services/audit_service.py\<close> with the reason codes of
  \<^verbatim>\<open>orchestration/models/audit_opinion.py\<close>.

  The interpreter parameters of the JSON validation are one record.
\<close>

record python_runtime =
  float_of :: "pystr \<Rightarrow> pyfloat"
  load_depth :: nat
  dump_depth :: nat

section \<open>Importing a return\<close>

record raw_return =
  raw_media_type :: pystr
  raw_content :: pystr
  raw_declared_output_ref :: "pystr option"

definition make_raw_return :: "pyobj \<Rightarrow> pyobj \<Rightarrow> pystr option \<Rightarrow> error + raw_return" where
  "make_raw_return media content ref =
     andthen (expect_str media) (\<lambda>m.
     andthen (check (\<not> blank m)) (\<lambda>_.
     andthen (expect_str content) (\<lambda>c.
     Inr \<lparr>raw_media_type = m, raw_content = c, raw_declared_output_ref = ref\<rparr>)))"

record declared_attribution =
  declared_instance_id :: pystr
  declared_provider_id :: "pystr option"
  declared_model_id :: "pystr option"

definition MAX_DECLARED_ID_LENGTH :: nat where "MAX_DECLARED_ID_LENGTH = 255"

definition make_declared_attribution ::
  "pyobj \<Rightarrow> pystr option \<Rightarrow> pystr option \<Rightarrow> error + declared_attribution" where
  "make_declared_attribution inst provider model =
     andthen (expect_str inst) (\<lambda>i.
     andthen (check (\<not> blank i)) (\<lambda>_.
     andthen (check (length i \<le> MAX_DECLARED_ID_LENGTH)) (\<lambda>_.
     andthen (check (\<forall>p. provider = Some p \<longrightarrow> length p \<le> MAX_DECLARED_ID_LENGTH)) (\<lambda>_.
     andthen (check (\<forall>m. model = Some m \<longrightarrow> length m \<le> MAX_DECLARED_ID_LENGTH)) (\<lambda>_.
     Inr \<lparr>declared_instance_id = i, declared_provider_id = provider, declared_model_id = model\<rparr>)))))"

record return_outcome =
  ro_result :: handoff_result
  ro_attribution :: handoff_attribution
  ro_attempt_state :: attempt_state
  ro_step_state :: step_state

definition observar_troca_de_provedor ::
  "pystr \<Rightarrow> uuid \<Rightarrow> uuid \<Rightarrow> uuid \<Rightarrow> pystr option \<Rightarrow> unit db" where
  "observar_troca_de_provedor cp sid pid aid provedor_atual =
     bnd (get_last_attribution_before cp sid pid aid) (\<lambda>anterior.
     case anterior of
       None \<Rightarrow> ret ()
     | Some a \<Rightarrow>
         if atr_provider a = provedor_atual then ret ()
         else
           bnd database_now (\<lambda>t.
           bnd (create_execution_observation cp sid pid DECLARED_PROVIDER_SWITCH
                  (atr_attempt_id a) aid (atr_provider a) provedor_atual t) (\<lambda>_.
           ret ())))"

text \<open>
  The preconditions, in the order the code tests them. The attempt must be of the declared step: an
  attempt of another step of the same schedule is out of scope.
\<close>

definition import_preconditions ::
  "pystr \<Rightarrow> uuid \<Rightarrow> uuid \<Rightarrow> uuid \<Rightarrow> raw_return \<Rightarrow> schedule_step db" where
  "import_preconditions cp sid pid aid raw =
     bnd (bnd (lock_schedule cp sid) (require_some OrchestrationScopeViolation)) (\<lambda>_.
     bnd (bnd (lock_step cp sid pid) (require_some OrchestrationScopeViolation)) (\<lambda>etapa.
     bnd (bnd (lock_attempt cp sid aid) (require_some OrchestrationScopeViolation)) (\<lambda>tentativa.
     bnd (require (att_step_id tentativa = pid) OrchestrationScopeViolation) (\<lambda>_.
     bnd (require (att_state tentativa = OPEN) OrchestrationLifecycleViolation) (\<lambda>_.
     bnd (require (stp_state etapa = AWAITING_RETURN) OrchestrationLifecycleViolation) (\<lambda>_.
     bnd (require (\<forall>ref. raw_declared_output_ref raw = Some ref \<longrightarrow> length ref \<le> MAX_DECLARED_REF_LENGTH)
            OrchestrationContractViolation) (\<lambda>_.
     ret etapa)))))))"

definition import_return ::
  "python_runtime \<Rightarrow> pystr \<Rightarrow> uuid \<Rightarrow> uuid \<Rightarrow> uuid \<Rightarrow> raw_return \<Rightarrow> declared_attribution \<Rightarrow>
   return_outcome db" where
  "import_return rt cp sid pid aid raw attribution =
     bnd (import_preconditions cp sid pid aid raw) (\<lambda>etapa.
     bnd (lift_sum (validate_output (float_of rt) (load_depth rt) (dump_depth rt)
            (stp_output_contract etapa) (raw_media_type raw) (PyStr (raw_content raw)))) (\<lambda>medido.
     let status = (if accepted medido then VALIDATED else RESULT_REJECTED);
         novo_estado = (if accepted medido then CLOSED_OK else CLOSED_REJECTED)
     in
     bnd (create_handoff_result cp sid aid status (stp_output_contract etapa) medido
            (raw_declared_output_ref raw)) (\<lambda>resultado.
     bnd database_now (\<lambda>declarado_em.
     bnd (create_handoff_attribution cp sid aid (stp_role etapa) (declared_provider_id attribution)
            (declared_model_id attribution) (declared_instance_id attribution) declarado_em) (\<lambda>atribuicao.
     bnd (set_attempt_state cp sid aid novo_estado) (\<lambda>_.
     bnd (observar_troca_de_provedor cp sid pid aid (declared_provider_id attribution)) (\<lambda>_.
     bnd (if accepted medido
          then bnd (set_step_state cp sid pid RETURNED) (\<lambda>_.
               bnd (complete_if_all_returned cp sid) (\<lambda>_. ret RETURNED))
          else ret AWAITING_RETURN) (\<lambda>estado_etapa.
     ret \<lparr>ro_result = resultado, ro_attribution = atribuicao, ro_attempt_state = novo_estado,
          ro_step_state = estado_etapa\<rparr>))))))))"

section \<open>Audit opinions\<close>

definition audit_reason_values :: "pystr set" where
  "audit_reason_values =
     audit_reason_code_value `
       {CONTRACT_CONFORMS, CONTRACT_NONCONFORMITY, EVIDENCE_MISSING, SCOPE_EXCLUDED}"

fun audit_code_loop :: "pyobj list \<Rightarrow> error + pystr list" where
  "audit_code_loop [] = Inr []"
| "audit_code_loop (codigo # resto) =
     andthen (expect_str codigo) (\<lambda>c.
     andthen (check (c \<in> audit_reason_values)) (\<lambda>_.
     andthen (audit_code_loop resto) (\<lambda>cs. Inr (c # cs))))"

definition canonical_audit_reason_codes :: "pyobj \<Rightarrow> error + pystr list" where
  "canonical_audit_reason_codes valor =
     andthen (as_tuple valor) (\<lambda>codigos.
     andthen (check (codigos \<noteq> [])) (\<lambda>_.
     andthen (audit_code_loop codigos) (\<lambda>cs. Inr (sort (remdups cs)))))"

definition assert_opinion_matrix :: "audit_opinion_kind \<Rightarrow> pystr list \<Rightarrow> error + unit" where
  "assert_opinion_matrix opinion codigos =
     (let admitidos = audit_reason_code_value ` AUDIT_OPINION_REASON_MATRIX opinion
      in check (set codigos - admitidos = {}))"

text \<open>\<^verbatim>\<open>except ValueError\<close>: a value error becomes a contract violation.\<close>

fun value_error_as_contract :: "error + 'a \<Rightarrow> error + 'a" where
  "value_error_as_contract (Inl ValueError) = Inl OrchestrationContractViolation"
| "value_error_as_contract (Inl UnicodeEncodeError) = Inl OrchestrationContractViolation"
| "value_error_as_contract r = r"

definition issue_opinion ::
  "pystr \<Rightarrow> uuid \<Rightarrow> uuid \<Rightarrow> audit_opinion_kind \<Rightarrow> pystr list \<Rightarrow> pystr \<Rightarrow> uuid \<Rightarrow> audit_opinion db" where
  "issue_opinion cp sid aid opinion reason_codes auditor oid =
     bnd (require (\<not> blank auditor) OrchestrationContractViolation) (\<lambda>_.
     bnd (lift_sum (value_error_as_contract
            (andthen (canonical_audit_reason_codes (PySeq (map PyStr reason_codes))) (\<lambda>codigos.
             andthen (assert_opinion_matrix opinion codigos) (\<lambda>_. Inr codigos))))) (\<lambda>codigos.
     bnd (bnd (get_result_for_audit cp sid aid) (require_some OrchestrationScopeViolation)) (\<lambda>resultado.
     bnd database_now (\<lambda>t.
     create_audit_opinion oid cp sid (res_id resultado) opinion codigos auditor cp t))))"

end
