(* ===== verification/CommandReceiptService.thy ===== *)
theory CommandReceiptService
  imports ExportService ReturnValidation
begin

text \<open>
  \<^verbatim>\<open>orchestration/services/command_receipt_service.py\<close>: each command of the closed
  vocabulary runs at most once per (principal, operation, key), and a key reused for another
  request is refused. The effect of a command is a computation over the same session.
\<close>

section \<open>The core\<close>

definition impressao_digital :: "json \<Rightarrow> error + pystr" where
  "impressao_digital payload = sha256_text (dumps payload)"

definition digest_de_conteudo :: "pystr \<Rightarrow> error + pystr" where
  "digest_de_conteudo content = sha256_text content"

record command_outcome =
  out_receipt_id :: uuid
  out_technical_principal_ref :: pystr
  out_operation :: command_operation
  out_command_key :: pystr
  out_outcome_ref :: pystr
  out_replayed :: bool

definition executar_uma_vez ::
  "pystr \<Rightarrow> command_operation \<Rightarrow> pystr \<Rightarrow> pystr \<Rightarrow> pystr \<Rightarrow> 'a db \<Rightarrow>
   (command_outcome \<times> 'a option) db" where
  "executar_uma_vez tp operation key outcome request efeito =
     bnd (require (\<not> blank tp) OrchestrationContractViolation) (\<lambda>_.
     bnd (require (\<not> length tp > MAX_REF_LENGTH) OrchestrationContractViolation) (\<lambda>_.
     bnd (require (\<not> blank key) OrchestrationContractViolation) (\<lambda>_.
     bnd (require (\<not> length key > MAX_COMMAND_KEY_LENGTH) OrchestrationContractViolation) (\<lambda>_.
     bnd (claim_command tp (command_operation_value operation) key outcome (Some request))
       (\<lambda>(recibo, reivindicado).
     bnd (require (\<not> (\<not> reivindicado \<and> cmd_request_sha256 recibo \<noteq> Some request))
            OrchestrationLifecycleViolation) (\<lambda>_.
     bnd (if reivindicado then bnd efeito (\<lambda>x. ret (Some x)) else ret None) (\<lambda>saida.
     ret (\<lparr>out_receipt_id = cmd_id recibo, out_technical_principal_ref = cmd_principal recibo,
           out_operation = operation, out_command_key = cmd_key recibo,
           out_outcome_ref = cmd_outcome_ref recibo, out_replayed = \<not> reivindicado\<rparr>, saida))))))))"

section \<open>The commands\<close>

definition opt_str :: "pystr option \<Rightarrow> json" where
  "opt_str x = (case x of None \<Rightarrow> JNull | Some t \<Rightarrow> JStr t)"

definition operation_field :: "command_operation \<Rightarrow> pystr \<times> json" where
  "operation_field operation = (pys ''operation'', JStr (command_operation_value operation))"

definition id_field :: "string \<Rightarrow> uuid \<Rightarrow> pystr \<times> json" where
  "id_field name u = (pys name, JStr (str_uuid u))"

definition draft_payload :: "step_draft \<Rightarrow> json" where
  "draft_payload e = JObj
     [(pys ''role'', JStr (draft_role e)),
      (pys ''instruction_ref'', JStr (draft_instruction_ref e)),
      (pys ''expected_output_contract'', JStr (draft_expected_output_contract e)),
      (pys ''context_refs'', JList (map as_content (draft_context_refs e))),
      (pys ''constraints'', constraints_as_mapping (draft_constraints e))]"

definition create_payload :: "schedule_draft \<Rightarrow> handoff_mode \<Rightarrow> json" where
  "create_payload draft mode = JObj
     [operation_field CREATE_SCHEDULE, (pys ''title'', JStr (draft_title draft)),
      (pys ''execution_mode'', JStr (handoff_mode_value mode)),
      (pys ''steps'', JList (map draft_payload (draft_steps draft)))]"

definition create_schedule_once ::
  "pystr \<Rightarrow> pystr \<Rightarrow> schedule_draft \<Rightarrow> handoff_mode \<Rightarrow> (command_outcome \<times> schedule_view option) db" where
  "create_schedule_once tp key draft mode =
     bnd draw_uuid (\<lambda>sid.
     bnd (lift_sum (impressao_digital (create_payload draft mode))) (\<lambda>impressao.
     executar_uma_vez tp CREATE_SCHEDULE key (str_uuid sid) impressao
       (create_schedule sid tp draft mode)))"

definition seal_payload :: "command_operation \<Rightarrow> uuid \<Rightarrow> uuid \<Rightarrow> pystr \<Rightarrow> json" where
  "seal_payload operation sid pid sealer = JObj
     [operation_field operation, id_field ''schedule_id'' sid, id_field ''step_id'' pid,
      (pys ''sealer_ref'', JStr sealer)]"

definition seal_handoff_once ::
  "pystr \<Rightarrow> pystr \<Rightarrow> uuid \<Rightarrow> uuid \<Rightarrow> pystr \<Rightarrow> (command_outcome \<times> seal_outcome option) db" where
  "seal_handoff_once tp key sid pid sealer =
     bnd draw_uuid (\<lambda>aid.
     bnd (lift_sum (impressao_digital (seal_payload SEAL_HANDOFF sid pid sealer))) (\<lambda>impressao.
     executar_uma_vez tp SEAL_HANDOFF key (str_uuid aid) impressao
       (seal_step aid tp sid pid sealer)))"

definition export_handoff_once ::
  "composition \<Rightarrow> pystr \<Rightarrow> pystr \<Rightarrow> uuid \<Rightarrow> uuid \<Rightarrow> pystr \<Rightarrow>
   (command_outcome \<times> export_outcome option) db" where
  "export_handoff_once c tp key sid pid sealer =
     bnd draw_uuid (\<lambda>aid.
     bnd (lift_sum (impressao_digital (seal_payload EXPORT_HANDOFF sid pid sealer))) (\<lambda>impressao.
     executar_uma_vez tp EXPORT_HANDOFF key (str_uuid aid) impressao
       (export_step c aid tp sid pid sealer None)))"

definition import_payload ::
  "uuid \<Rightarrow> uuid \<Rightarrow> uuid \<Rightarrow> raw_return \<Rightarrow> declared_attribution \<Rightarrow> pystr \<Rightarrow> json" where
  "import_payload sid pid aid raw attribution digest = JObj
     [operation_field IMPORT_RETURN, id_field ''schedule_id'' sid, id_field ''step_id'' pid,
      id_field ''attempt_id'' aid, (pys ''media_type'', JStr (raw_media_type raw)),
      (pys ''content_sha256'', JStr digest),
      (pys ''declared_output_ref'', opt_str (raw_declared_output_ref raw)),
      (pys ''declared_provider_id'', opt_str (declared_provider_id attribution)),
      (pys ''declared_model_id'', opt_str (declared_model_id attribution)),
      (pys ''declared_instance_id'', JStr (declared_instance_id attribution))]"

definition import_return_once ::
  "python_runtime \<Rightarrow> pystr \<Rightarrow> pystr \<Rightarrow> uuid \<Rightarrow> uuid \<Rightarrow> uuid \<Rightarrow> raw_return \<Rightarrow> declared_attribution \<Rightarrow>
   (command_outcome \<times> return_outcome option) db" where
  "import_return_once rt tp key sid pid aid raw attribution =
     bnd (lift_sum (digest_de_conteudo (raw_content raw))) (\<lambda>digest.
     bnd (lift_sum (impressao_digital (import_payload sid pid aid raw attribution digest))) (\<lambda>impressao.
     executar_uma_vez tp IMPORT_RETURN key (str_uuid aid) impressao
       (import_return rt tp sid pid aid raw attribution)))"

definition grant_payload :: "uuid \<Rightarrow> uuid \<Rightarrow> py_datetime \<Rightarrow> json" where
  "grant_payload sid pid valid_until = JObj
     [operation_field GRANT_DELEGATION, id_field ''schedule_id'' sid, id_field ''step_id'' pid,
      (pys ''valid_until'', JStr (isoformat valid_until))]"

definition grant_delegation_once ::
  "pystr \<Rightarrow> pystr \<Rightarrow> uuid \<Rightarrow> uuid \<Rightarrow> py_datetime \<Rightarrow> (command_outcome \<times> service_delegation option) db" where
  "grant_delegation_once tp key sid pid valid_until =
     bnd draw_uuid (\<lambda>did.
     bnd (lift_sum (impressao_digital (grant_payload sid pid valid_until))) (\<lambda>impressao.
     executar_uma_vez tp GRANT_DELEGATION key (str_uuid did) impressao
       (grant_delegation tp sid pid valid_until did)))"

definition revoke_payload :: "uuid \<Rightarrow> uuid \<Rightarrow> uuid \<Rightarrow> json" where
  "revoke_payload sid pid did = JObj
     [operation_field REVOKE_DELEGATION, id_field ''schedule_id'' sid, id_field ''step_id'' pid,
      id_field ''delegation_id'' did]"

definition revoke_delegation_once ::
  "pystr \<Rightarrow> pystr \<Rightarrow> uuid \<Rightarrow> uuid \<Rightarrow> uuid \<Rightarrow> (command_outcome \<times> service_delegation option) db" where
  "revoke_delegation_once tp key sid pid did =
     bnd (lift_sum (impressao_digital (revoke_payload sid pid did))) (\<lambda>impressao.
     executar_uma_vez tp REVOKE_DELEGATION key (str_uuid did) impressao
       (revoke_delegation tp sid pid did))"

definition control_payload :: "uuid \<Rightarrow> pystr \<Rightarrow> stop_condition_category option \<Rightarrow> json" where
  "control_payload sid action category = JObj
     [operation_field CONTROL_SCHEDULE, id_field ''schedule_id'' sid, (pys ''action'', JStr action),
      (pys ''stop_condition_category'', opt_str (map_option stop_condition_category_value category))]"

definition control_schedule_once ::
  "pystr \<Rightarrow> pystr \<Rightarrow> uuid \<Rightarrow> pystr \<Rightarrow> stop_condition_category option \<Rightarrow>
   (command_outcome \<times> control_outcome option) db" where
  "control_schedule_once tp key sid action category =
     bnd draw_uuid (\<lambda>event_id.
     bnd (lift_sum (impressao_digital (control_payload sid action category))) (\<lambda>impressao.
     executar_uma_vez tp CONTROL_SCHEDULE key (str_uuid event_id) impressao
       (apply_control tp sid action event_id category)))"

definition opinion_payload ::
  "uuid \<Rightarrow> uuid \<Rightarrow> audit_opinion_kind \<Rightarrow> pystr list \<Rightarrow> pystr \<Rightarrow> json" where
  "opinion_payload sid aid opinion codes auditor = JObj
     [operation_field ISSUE_AUDIT_OPINION, id_field ''schedule_id'' sid, id_field ''attempt_id'' aid,
      (pys ''opinion'', JStr (audit_opinion_kind_value opinion)),
      (pys ''reason_codes'', JList (map JStr (sort codes))),
      (pys ''auditor_execution_ref'', JStr auditor)]"

definition issue_audit_opinion_once ::
  "pystr \<Rightarrow> pystr \<Rightarrow> uuid \<Rightarrow> uuid \<Rightarrow> audit_opinion_kind \<Rightarrow> pystr list \<Rightarrow> pystr \<Rightarrow>
   (command_outcome \<times> audit_opinion option) db" where
  "issue_audit_opinion_once tp key sid aid opinion codes auditor =
     bnd draw_uuid (\<lambda>oid.
     bnd (lift_sum (impressao_digital (opinion_payload sid aid opinion codes auditor))) (\<lambda>impressao.
     executar_uma_vez tp ISSUE_AUDIT_OPINION key (str_uuid oid) impressao
       (issue_opinion tp sid aid opinion codes auditor oid)))"

end
