(* ===== verification/Query.thy ===== *)
theory Query
  imports ReturnValidation
begin

text \<open>
  \<^verbatim>\<open>orchestration/services/orchestration_query_service.py\<close>: the scoped reads for
  external consumers, as frozen projections without content and without the owner.
\<close>

record result_projection =
  rp_status :: handoff_result_status
  rp_contract :: pystr
  rp_media_type :: pystr
  rp_sha256 :: pystr
  rp_bytes :: int
  rp_declared_ref :: "pystr option"
  rp_codes :: "pystr list"

record attribution_projection =
  ap_provider :: "pystr option"
  ap_model :: "pystr option"
  ap_instance :: pystr
  ap_role :: pystr
  ap_declared_at :: int
  ap_self_declared :: bool

record attempt_projection =
  tp_attempt_id :: uuid
  tp_step_id :: uuid
  tp_number :: int
  tp_envelope_version :: pystr
  tp_content_sha256 :: pystr
  tp_state :: attempt_state
  tp_created_at :: int
  tp_result :: "result_projection option"
  tp_attribution :: "attribution_projection option"

record delegation_projection =
  dp_delegation_id :: uuid
  dp_step_id :: uuid
  dp_content_sha256 :: pystr
  dp_scope :: pystr
  dp_state :: delegation_state
  dp_valid_until :: int
  dp_consumed_at :: "int option"
  dp_consumed_by :: "uuid option"

record control_event_projection =
  ep_event_id :: uuid
  ep_step_id :: "uuid option"
  ep_kind :: control_event_kind
  ep_reason :: control_reason_code
  ep_category :: "stop_condition_category option"
  ep_occurred_at :: int

record observation_projection =
  op_observation_id :: uuid
  op_step_id :: uuid
  op_kind :: observation_kind
  op_previous_attempt :: uuid
  op_current_attempt :: uuid
  op_previous_provider :: "pystr option"
  op_current_provider :: "pystr option"
  op_self_declared :: bool
  op_observed_at :: int

record audit_opinion_projection =
  pp_opinion_id :: uuid
  pp_result_id :: uuid
  pp_opinion :: audit_opinion_kind
  pp_reason_codes :: "pystr list"
  pp_auditor_ref :: pystr
  pp_issued_at :: int

record seal_receipt_projection =
  sp_receipt_id :: uuid
  sp_attempt_id :: uuid
  sp_content_sha256 :: pystr
  sp_sealed_at :: int

record step_projection =
  ep_step :: uuid
  ep_position :: int
  ep_role :: pystr
  ep_state :: step_state
  ep_instruction_ref :: pystr
  ep_context_refs :: "context_ref list"
  ep_output_contract :: pystr
  ep_constraints :: constraint_pairs

record governance_projection =
  gp_schedule_id :: uuid
  gp_schedule_state :: schedule_state
  gp_delegations :: "delegation_projection list"
  gp_events :: "control_event_projection list"
  gp_observations :: "observation_projection list"
  gp_opinions :: "audit_opinion_projection list"

definition projetar_resultado :: "handoff_result \<Rightarrow> result_projection" where
  "projetar_resultado r =
     \<lparr>rp_status = res_status r, rp_contract = res_contract r, rp_media_type = res_media_type r,
      rp_sha256 = res_sha256 r, rp_bytes = res_bytes r, rp_declared_ref = res_declared_ref r,
      rp_codes = res_codes r\<rparr>"

definition projetar_atribuicao :: "handoff_attribution \<Rightarrow> attribution_projection" where
  "projetar_atribuicao a =
     \<lparr>ap_provider = atr_provider a, ap_model = atr_model a, ap_instance = atr_instance a,
      ap_role = atr_role a, ap_declared_at = atr_declared_at a,
      ap_self_declared = atr_self_declared a\<rparr>"

definition projetar_etapa :: "schedule_step \<Rightarrow> step_projection" where
  "projetar_etapa p =
     \<lparr>ep_step = stp_id p, ep_position = stp_position p, ep_role = stp_role p,
      ep_state = stp_state p, ep_instruction_ref = stp_instruction_ref p,
      ep_context_refs = stp_context_refs p, ep_output_contract = stp_output_contract p,
      ep_constraints = stp_constraints p\<rparr>"

definition projetar_selo :: "seal_receipt \<Rightarrow> seal_receipt_projection" where
  "projetar_selo r =
     \<lparr>sp_receipt_id = rcp_id r, sp_attempt_id = rcp_attempt_id r,
      sp_content_sha256 = rcp_content_sha256 r, sp_sealed_at = rcp_sealed_at r\<rparr>"

definition projetar_delegacao :: "service_delegation \<Rightarrow> delegation_projection" where
  "projetar_delegacao d =
     \<lparr>dp_delegation_id = dlg_id d, dp_step_id = dlg_step_id d,
      dp_content_sha256 = dlg_content_sha256 d, dp_scope = dlg_scope d, dp_state = dlg_state d,
      dp_valid_until = dlg_valid_until d, dp_consumed_at = dlg_consumed_at d,
      dp_consumed_by = dlg_consumed_by d\<rparr>"

definition projetar_evento :: "control_event \<Rightarrow> control_event_projection" where
  "projetar_evento e =
     \<lparr>ep_event_id = evt_id e, ep_step_id = evt_step_id e, ep_kind = evt_kind e,
      ep_reason = evt_reason e, ep_category = evt_category e, ep_occurred_at = evt_occurred_at e\<rparr>"

definition projetar_observacao :: "execution_observation \<Rightarrow> observation_projection" where
  "projetar_observacao o' =
     \<lparr>op_observation_id = obs_id o', op_step_id = obs_step_id o', op_kind = obs_kind o',
      op_previous_attempt = obs_previous_attempt o', op_current_attempt = obs_current_attempt o',
      op_previous_provider = obs_previous_provider o',
      op_current_provider = obs_current_provider o', op_self_declared = obs_self_declared o',
      op_observed_at = obs_observed_at o'\<rparr>"

definition projetar_parecer :: "audit_opinion \<Rightarrow> audit_opinion_projection" where
  "projetar_parecer p =
     \<lparr>pp_opinion_id = opn_id p, pp_result_id = opn_result_id p, pp_opinion = opn_opinion p,
      pp_reason_codes = opn_reason_codes p, pp_auditor_ref = opn_auditor_ref p,
      pp_issued_at = opn_issued_at p\<rparr>"

definition projetar_tentativa ::
  "handoff_attempt \<Rightarrow> handoff_result option \<Rightarrow> handoff_attribution option \<Rightarrow> attempt_projection" where
  "projetar_tentativa a r t =
     \<lparr>tp_attempt_id = att_id a, tp_step_id = att_step_id a, tp_number = att_number a,
      tp_envelope_version = att_envelope_version a, tp_content_sha256 = att_content_sha256 a,
      tp_state = att_state a, tp_created_at = att_created_at a,
      tp_result = map_option projetar_resultado r,
      tp_attribution = map_option projetar_atribuicao t\<rparr>"

section \<open>Reads\<close>

definition query_list_attempts :: "pystr \<Rightarrow> uuid \<Rightarrow> attempt_projection list db" where
  "query_list_attempts cp sid =
     bnd (service_get_schedule cp sid) (\<lambda>_.
     bnd (list_attempts cp sid None) (\<lambda>tentativas.
     map_comp (\<lambda>a.
       bnd (get_handoff_result cp sid (att_id a)) (\<lambda>r.
       bnd (get_handoff_attribution cp sid (att_id a)) (\<lambda>t.
       ret (projetar_tentativa a r t)))) tentativas))"

definition get_attempt_outcome ::
  "pystr \<Rightarrow> uuid \<Rightarrow> uuid \<Rightarrow> uuid \<Rightarrow>
   (result_projection option \<times> attribution_projection option \<times> step_projection option) db" where
  "get_attempt_outcome cp sid pid aid =
     bnd (get_handoff_result cp sid aid) (\<lambda>r.
     bnd (get_handoff_attribution cp sid aid) (\<lambda>t.
     bnd (get_step cp sid pid) (\<lambda>p.
     ret (map_option projetar_resultado r, map_option projetar_atribuicao t,
          map_option projetar_etapa p))))"

definition query_get_attempt :: "pystr \<Rightarrow> uuid \<Rightarrow> uuid \<Rightarrow> attempt_projection option db" where
  "query_get_attempt cp sid aid =
     bnd (get_attempt cp sid aid) (\<lambda>a. ret (map_option (\<lambda>a. projetar_tentativa a None None) a))"

definition get_export_replay_context ::
  "pystr \<Rightarrow> uuid \<Rightarrow> uuid \<Rightarrow> uuid \<Rightarrow>
   (attempt_projection option \<times> seal_receipt_projection option \<times> step_projection option) db" where
  "get_export_replay_context cp sid pid aid =
     bnd (get_attempt cp sid aid) (\<lambda>a.
     bnd (get_seal_receipt_by_attempt cp sid aid) (\<lambda>r.
     bnd (get_step cp sid pid) (\<lambda>p.
     ret (map_option (\<lambda>a. projetar_tentativa a None None) a, map_option projetar_selo r,
          map_option projetar_etapa p))))"

definition read_governance :: "pystr \<Rightarrow> uuid \<Rightarrow> governance_projection db" where
  "read_governance cp sid =
     bnd (service_get_schedule cp sid) (\<lambda>agenda.
     bnd (list_delegations cp sid) (\<lambda>ds.
     bnd (list_control_events cp sid) (\<lambda>es.
     bnd (list_execution_observations cp sid) (\<lambda>os.
     bnd (list_audit_opinions cp sid) (\<lambda>ps.
     ret \<lparr>gp_schedule_id = sid, gp_schedule_state = view_schedule_state agenda,
          gp_delegations = map projetar_delegacao ds, gp_events = map projetar_evento es,
          gp_observations = map projetar_observacao os, gp_opinions = map projetar_parecer ps\<rparr>)))))"

lemma unchanged_service_get_schedule [unchanged_intros]: "unchanged (service_get_schedule cp sid)"
  by (auto simp: service_get_schedule_def intro!: unchanged_intros)

lemma unchanged_query_reads [unchanged_intros]:
  "unchanged (query_list_attempts cp sid)" "unchanged (get_attempt_outcome cp sid pid aid)"
  "unchanged (query_get_attempt cp sid aid)" "unchanged (get_export_replay_context cp sid pid aid)"
  "unchanged (read_governance cp sid)"
  by (auto simp: query_list_attempts_def get_attempt_outcome_def query_get_attempt_def
      get_export_replay_context_def read_governance_def intro!: unchanged_intros)

end
