(* ===== verification/Routes.thy ===== *)
theory Routes
  imports CommandReceiptService Query
begin

text \<open>
  The transaction boundary of \<^verbatim>\<open>routers/orchestration.py\<close>: what each handler commits
  and what it rolls back. A request runs on a session of its own, in a transaction whose clock is
  the instant it began; the objects of the request start empty.
\<close>

section \<open>Transactions\<close>

text \<open>A rollback restores every row; the random numbers drawn are gone.\<close>

definition rollback :: "store \<Rightarrow> store \<Rightarrow> store" where
  "rollback s s' = s\<lparr>drawn := drawn s'\<rparr>"

text \<open>\<^verbatim>\<open>try: ...; session.commit() except: session.rollback(); raise\<close>.\<close>

definition committed :: "'a db \<Rightarrow> 'a db" where
  "committed m =
     (\<lambda>s. case m s of
        (Inl e, s') \<Rightarrow> (Inl e, rollback s s')
      | (Inr x, s') \<Rightarrow>
          if deferred_ok s' then (Inr x, s')
          else (Inl (IntegrityError ''deferred''), rollback s s'))"

definition request :: "int \<Rightarrow> 'a db \<Rightarrow> 'a db" where
  "request t m = (\<lambda>s. m (s\<lparr>now := t, emitted := [], next_object := 0\<rparr>))"

definition parse_outcome :: "command_outcome \<Rightarrow> uuid db" where
  "parse_outcome recibo =
     (case parse_uuid (out_outcome_ref recibo) of None \<Rightarrow> raise ValueError | Some u \<Rightarrow> ret u)"

section \<open>Handlers\<close>

definition criar_schedule ::
  "pystr \<Rightarrow> pystr \<Rightarrow> schedule_draft \<Rightarrow> handoff_mode \<Rightarrow> schedule_view db" where
  "criar_schedule principal_ref key rascunho mode =
     (if list_ex (\<lambda>e. draft_expected_output_contract e \<notin> SUPPORTED_OUTPUT_CONTRACTS)
           (draft_steps rascunho)
      then raise OrchestrationContractViolation
      else committed
        (bnd (create_schedule_once principal_ref key rascunho mode) (\<lambda>(recibo, _).
         bnd (parse_outcome recibo) (\<lambda>sid.
         bnd (if \<not> out_replayed recibo then bnd (activate principal_ref sid) (\<lambda>_. ret ()) else ret ()) (\<lambda>_.
         service_get_schedule principal_ref sid)))))"

definition ler_schedule :: "pystr \<Rightarrow> uuid \<Rightarrow> schedule_view db" where
  "ler_schedule principal_ref sid = service_get_schedule principal_ref sid"

record export_response =
  er_attempt_id :: uuid
  er_attempt_number :: int
  er_receipt_id :: uuid
  er_content_sha256 :: pystr
  er_sealed_at :: int
  er_replayed :: bool
  er_step_state :: step_state
  er_attempt_state :: attempt_state
  er_envelope :: envelope_content

text \<open>On a replay the envelope is rebuilt from the persisted step.\<close>

definition replay_envelope :: "uuid \<Rightarrow> uuid \<Rightarrow> step_projection \<Rightarrow> envelope_content" where
  "replay_envelope sid pid etapa =
     \<lparr>env_version = ENVELOPE_VERSION, env_schedule_id = sid, env_step_id = pid,
      env_role = ep_role etapa, env_instruction_ref = ep_instruction_ref etapa,
      env_context_refs = ep_context_refs etapa,
      env_expected_output_contract = ep_output_contract etapa,
      env_constraints = ep_constraints etapa\<rparr>"

definition resposta_export ::
  "pystr \<Rightarrow> uuid \<Rightarrow> uuid \<Rightarrow> command_outcome \<Rightarrow> export_outcome option \<Rightarrow> export_response db" where
  "resposta_export principal_ref sid pid recibo saida =
     bnd (parse_outcome recibo) (\<lambda>aid.
     bnd (get_export_replay_context principal_ref sid pid aid) (\<lambda>(tentativa, selo, etapa).
     bnd (require_some OrchestrationLifecycleViolation tentativa) (\<lambda>a.
     bnd (require (tp_step_id a = pid) OrchestrationLifecycleViolation) (\<lambda>_.
     bnd (require_some PyRuntimeError selo) (\<lambda>r.
     bnd (require_some PyRuntimeError etapa) (\<lambda>p.
     ret \<lparr>er_attempt_id = aid, er_attempt_number = tp_number a, er_receipt_id = sp_receipt_id r,
          er_content_sha256 = tp_content_sha256 a, er_sealed_at = sp_sealed_at r,
          er_replayed = out_replayed recibo, er_step_state = ep_state p,
          er_attempt_state = tp_state a,
          er_envelope = (case saida of
             Some x \<Rightarrow> eh_envelope (xo_exported x) | None \<Rightarrow> replay_envelope sid pid p)\<rparr>))))))"

definition impressao_de_export :: "uuid \<Rightarrow> uuid \<Rightarrow> pystr \<Rightarrow> error + pystr" where
  "impressao_de_export sid pid principal_ref =
     impressao_digital (seal_payload EXPORT_HANDOFF sid pid principal_ref)"

definition replay_de_export :: "pystr \<Rightarrow> pystr \<Rightarrow> pystr \<Rightarrow> command_receipt option db" where
  "replay_de_export principal_ref key impressao =
     bnd (get_command_receipt principal_ref (command_operation_value EXPORT_HANDOFF) key) (\<lambda>recibo.
     case recibo of
       None \<Rightarrow> ret None
     | Some r \<Rightarrow>
         bnd (require (cmd_request_sha256 r = Some impressao) OrchestrationLifecycleViolation) (\<lambda>_.
         ret (Some r)))"

text \<open>
  Phase zero and one of an export, outside the block that rolls back: replay, lock, replay again
  and preflight. The result is the block of a gate, if there is one.
\<close>

definition export_phase_one ::
  "composition \<Rightarrow> pystr \<Rightarrow> pystr \<Rightarrow> uuid \<Rightarrow> uuid \<Rightarrow> dispatch_blocked option db" where
  "export_phase_one c principal_ref key sid pid =
     bnd (lift_sum (impressao_de_export sid pid principal_ref)) (\<lambda>impressao.
     bnd (replay_de_export principal_ref key impressao) (\<lambda>replay.
     case replay of
       Some _ \<Rightarrow> ret None
     | None \<Rightarrow>
         bnd (bnd (lock_schedule principal_ref sid) (require_some OrchestrationScopeViolation)) (\<lambda>_.
         bnd (replay_de_export principal_ref key impressao) (\<lambda>relido.
         case relido of
           Some _ \<Rightarrow> ret None
         | None \<Rightarrow>
             bnd (preflight c principal_ref sid pid) (\<lambda>autorizacao.
             case autorizacao of
               Blocked b \<Rightarrow> ret (Some b)
             | Authorized a \<Rightarrow> ret None)))))"

text \<open>
  The second phase uses the export service of the command service, a second instance with an
  empty registry.
\<close>

definition export_phase_two ::
  "composition \<Rightarrow> pystr \<Rightarrow> pystr \<Rightarrow> uuid \<Rightarrow> uuid \<Rightarrow> export_response db" where
  "export_phase_two c principal_ref key sid pid =
     bnd (modify (\<lambda>s. s\<lparr>emitted := []\<rparr>)) (\<lambda>_.
     bnd (export_handoff_once c principal_ref key sid pid principal_ref) (\<lambda>(recibo, saida).
     resposta_export principal_ref sid pid recibo saida))"

text \<open>
  A blocked gate: the pause is registered, \<^verbatim>\<open>DispatchBlockedError\<close> is caught to commit it,
  and only then goes up. Any other exception leaves the session to be closed, which rolls back.
\<close>

definition exportar_handoff ::
  "composition \<Rightarrow> pystr \<Rightarrow> pystr \<Rightarrow> uuid \<Rightarrow> uuid \<Rightarrow> export_response db" where
  "exportar_handoff c principal_ref key sid pid =
     (\<lambda>s. case export_phase_one c principal_ref key sid pid s of
        (Inl e, s') \<Rightarrow> (Inl e, rollback s s')
      | (Inr (Some b), s') \<Rightarrow>
          (case register_block c principal_ref sid pid b s' of
             (Inl (DispatchBlocked r), s'') \<Rightarrow>
               if deferred_ok s'' then (Inl (DispatchBlocked r), s'')
               else (Inl (IntegrityError ''deferred''), rollback s s'')
           | (r, s'') \<Rightarrow> (r, rollback s s''))
      | (Inr None, s') \<Rightarrow>
          (case export_phase_two c principal_ref key sid pid s' of
             (Inl e, s'') \<Rightarrow> (Inl e, rollback s s'')
           | (Inr x, s'') \<Rightarrow>
               if deferred_ok s'' then (Inr x, s'')
               else (Inl (IntegrityError ''deferred''), rollback s s'')))"

record import_response =
  ir_attempt_id :: uuid
  ir_replayed :: bool
  ir_step_state :: step_state
  ir_attempt_state :: attempt_state
  ir_result :: result_projection
  ir_attribution :: attribution_projection

definition resposta_import ::
  "pystr \<Rightarrow> uuid \<Rightarrow> uuid \<Rightarrow> uuid \<Rightarrow> command_outcome \<Rightarrow> import_response db" where
  "resposta_import principal_ref sid pid aid recibo =
     bnd (require (out_outcome_ref recibo = str_uuid aid) OrchestrationLifecycleViolation) (\<lambda>_.
     bnd (get_attempt_outcome principal_ref sid pid aid) (\<lambda>(resultado, atribuicao, etapa).
     bnd (require_some PyRuntimeError resultado) (\<lambda>r.
     bnd (require_some PyRuntimeError atribuicao) (\<lambda>t.
     bnd (query_get_attempt principal_ref sid aid) (\<lambda>tentativa.
     bnd (require_some PyRuntimeError tentativa) (\<lambda>a.
     bnd (require_some PyRuntimeError etapa) (\<lambda>p.
     ret \<lparr>ir_attempt_id = aid, ir_replayed = out_replayed recibo, ir_step_state = ep_state p,
          ir_attempt_state = tp_state a, ir_result = r, ir_attribution = t\<rparr>)))))))"

definition importar_retorno ::
  "python_runtime \<Rightarrow> pystr \<Rightarrow> pystr \<Rightarrow> uuid \<Rightarrow> uuid \<Rightarrow> uuid \<Rightarrow> raw_return \<Rightarrow> declared_attribution \<Rightarrow>
   import_response db" where
  "importar_retorno rt principal_ref key sid pid aid raw attribution = committed
     (bnd (import_return_once rt principal_ref key sid pid aid raw attribution) (\<lambda>(recibo, _).
      resposta_import principal_ref sid pid aid recibo))"

definition listar_tentativas :: "pystr \<Rightarrow> uuid \<Rightarrow> attempt_projection list db" where
  "listar_tentativas principal_ref sid = query_list_attempts principal_ref sid"

definition delegation_view :: "pystr \<Rightarrow> uuid \<Rightarrow> uuid \<Rightarrow> delegation_projection db" where
  "delegation_view principal_ref sid did =
     bnd (bnd (get_delegation principal_ref sid did) (require_some OrchestrationScopeViolation)) (\<lambda>d.
     ret (projetar_delegacao d))"

definition conceder_delegacao ::
  "pystr \<Rightarrow> pystr \<Rightarrow> uuid \<Rightarrow> uuid \<Rightarrow> py_datetime \<Rightarrow> (bool \<times> delegation_projection) db" where
  "conceder_delegacao principal_ref key sid pid valid_until = committed
     (bnd (grant_delegation_once principal_ref key sid pid valid_until) (\<lambda>(recibo, _).
      bnd (parse_outcome recibo) (\<lambda>did.
      bnd (delegation_view principal_ref sid did) (\<lambda>d.
      ret (out_replayed recibo, d)))))"

definition revogar_delegacao ::
  "pystr \<Rightarrow> pystr \<Rightarrow> uuid \<Rightarrow> uuid \<Rightarrow> uuid \<Rightarrow> (bool \<times> delegation_projection) db" where
  "revogar_delegacao principal_ref key sid pid did = committed
     (bnd (revoke_delegation_once principal_ref key sid pid did) (\<lambda>(recibo, _).
      bnd (delegation_view principal_ref sid did) (\<lambda>d.
      ret (out_replayed recibo, d))))"

record control_response =
  cr_schedule_state :: schedule_state
  cr_replayed :: bool
  cr_cancelled_steps :: nat
  cr_closed_attempts :: nat
  cr_event :: control_event_projection

definition registrar_controle ::
  "pystr \<Rightarrow> pystr \<Rightarrow> uuid \<Rightarrow> pystr \<Rightarrow> stop_condition_category option \<Rightarrow> control_response db" where
  "registrar_controle principal_ref key sid action category = committed
     (bnd (control_schedule_once principal_ref key sid action category) (\<lambda>(recibo, saida).
      bnd (service_get_schedule principal_ref sid) (\<lambda>agenda.
      bnd (parse_outcome recibo) (\<lambda>eid.
      bnd (bnd (get_control_event principal_ref sid eid) (require_some PyRuntimeError)) (\<lambda>evento.
      ret \<lparr>cr_schedule_state = view_schedule_state agenda, cr_replayed = out_replayed recibo,
           cr_cancelled_steps = (case saida of None \<Rightarrow> 0 | Some x \<Rightarrow> co_cancelled_steps x),
           cr_closed_attempts = (case saida of None \<Rightarrow> 0 | Some x \<Rightarrow> co_closed_attempts x),
           cr_event = projetar_evento evento\<rparr>)))))"

definition registrar_parecer ::
  "pystr \<Rightarrow> pystr \<Rightarrow> uuid \<Rightarrow> uuid \<Rightarrow> audit_opinion_kind \<Rightarrow> pystr list \<Rightarrow> pystr \<Rightarrow>
   (bool \<times> audit_opinion_projection) db" where
  "registrar_parecer principal_ref key sid aid opinion codes auditor = committed
     (bnd (issue_audit_opinion_once principal_ref key sid aid opinion codes auditor) (\<lambda>(recibo, _).
      bnd (parse_outcome recibo) (\<lambda>oid.
      bnd (bnd (get_audit_opinion principal_ref sid oid) (require_some PyRuntimeError)) (\<lambda>parecer.
      ret (out_replayed recibo, projetar_parecer parecer)))))"

definition ler_governanca :: "pystr \<Rightarrow> uuid \<Rightarrow> governance_projection db" where
  "ler_governanca principal_ref sid = read_governance principal_ref sid"

section \<open>Requests\<close>

text \<open>The seven commands of the router, with their arguments.\<close>

datatype call =
  CallCreate schedule_draft handoff_mode
| CallExport uuid uuid
| CallImport uuid uuid uuid raw_return declared_attribution
| CallGrant uuid uuid py_datetime
| CallRevoke uuid uuid uuid
| CallControl uuid pystr "stop_condition_category option"
| CallOpinion uuid uuid audit_opinion_kind "pystr list" pystr

text \<open>One request: its time, the authenticated principal, the idempotency key and the command.\<close>

definition discard :: "'a db \<Rightarrow> unit db" where
  "discard m = bnd m (\<lambda>_. ret ())"

fun handle :: "composition \<Rightarrow> python_runtime \<Rightarrow> pystr \<Rightarrow> pystr \<Rightarrow> call \<Rightarrow> unit db" where
  "handle c rt cp key (CallCreate draft mode) = discard (criar_schedule cp key draft mode)"
| "handle c rt cp key (CallExport sid pid) = discard (exportar_handoff c cp key sid pid)"
| "handle c rt cp key (CallImport sid pid aid raw d) =
     discard (importar_retorno rt cp key sid pid aid raw d)"
| "handle c rt cp key (CallGrant sid pid valid_until) =
     discard (conceder_delegacao cp key sid pid valid_until)"
| "handle c rt cp key (CallRevoke sid pid did) = discard (revogar_delegacao cp key sid pid did)"
| "handle c rt cp key (CallControl sid action category) =
     discard (registrar_controle cp key sid action category)"
| "handle c rt cp key (CallOpinion sid aid k codes auditor) =
     discard (registrar_parecer cp key sid aid k codes auditor)"

definition serve ::
  "composition \<Rightarrow> python_runtime \<Rightarrow> int \<Rightarrow> pystr \<Rightarrow> pystr \<Rightarrow> call \<Rightarrow> store \<Rightarrow> store" where
  "serve c rt t cp key cl s = snd (request t (handle c rt cp key cl) s)"

end
