(* ===== verification/Progress.thy ===== *)
theory Progress
  imports Routes
begin

text \<open>
  What every operation of the orchestration layer keeps. The operations touch the database through
  a few primitive steps only: a checked insertion, a change of state of a row, an update of the
  active delegations, the claim of a command, a draw of an identity, the registry of the request.
  A reflexive and transitive relation between stores that admits those steps relates the store
  before any operation to the store after it; the contract is a locale, interpreted on the
  integrity of the database and on the identities of the receipts.
\<close>

section \<open>Relations kept by a computation\<close>

definition keeps :: "('s \<Rightarrow> 's \<Rightarrow> bool) \<Rightarrow> ('s, 'e, 'a) comp \<Rightarrow> bool" where
  "keeps R m \<longleftrightarrow> (\<forall>s. R s (snd (m s)))"

named_theorems keeps_intros

lemma keepsI: "(\<And>s. R s (snd (m s))) \<Longrightarrow> keeps R m"
  by (simp add: keeps_def)

lemma keepsD: "keeps R m \<Longrightarrow> m s = (r, s') \<Longrightarrow> R s s'"
  by (metis keeps_def snd_conv)

lemma keeps_preserves: "keeps (\<lambda>s t. I s \<longrightarrow> I t) m \<longleftrightarrow> preserves I m"
  by (simp add: keeps_def preserves_def)

lemma keeps_if [keeps_intros]:
  "(b \<Longrightarrow> keeps R m) \<Longrightarrow> (\<not> b \<Longrightarrow> keeps R m') \<Longrightarrow> keeps R (if b then m else m')"
  by simp

lemma keeps_option [keeps_intros]:
  "(x = None \<Longrightarrow> keeps R m) \<Longrightarrow> (\<And>y. x = Some y \<Longrightarrow> keeps R (f y)) \<Longrightarrow>
   keeps R (case x of None \<Rightarrow> m | Some y \<Rightarrow> f y)"
  by (cases x) simp_all

lemma keeps_prod [keeps_intros]:
  "(\<And>a b. x = (a, b) \<Longrightarrow> keeps R (f a b)) \<Longrightarrow> keeps R (case x of (a, b) \<Rightarrow> f a b)"
  by (cases x) simp_all

lemma keeps_dispatch [keeps_intros]:
  "(\<And>a. x = Authorized a \<Longrightarrow> keeps R (f a)) \<Longrightarrow> (\<And>b. x = Blocked b \<Longrightarrow> keeps R (g b)) \<Longrightarrow>
   keeps R (case x of Authorized a \<Rightarrow> f a | Blocked b \<Rightarrow> g b)"
  by (cases x) simp_all

text \<open>The reads of the layer change nothing.\<close>

lemma unchanged_get_profile [unchanged_intros]:
  "unchanged (get_manual_profile cp)" "unchanged (get_profile cp cid)"
  "unchanged (require_profile cp cid)" "unchanged (get_by_attempt cp sid aid)"
  "unchanged (list_profiles cp)"
  by (auto simp: get_manual_profile_def get_profile_def require_profile_def get_by_attempt_def
      list_profiles_def intro!: unchanged_intros)

lemma unchanged_services [unchanged_intros]:
  "unchanged (advance cp sid position)" "unchanged (build_envelope_content cp sid pid)"
  "unchanged (preflight_guards cp sid pid)" "unchanged (import_preconditions cp sid pid aid raw)"
  "unchanged (parse_outcome recibo)" "unchanged (resposta_export cp sid pid recibo saida)"
  "unchanged (resposta_import cp sid pid aid recibo)" "unchanged (delegation_view cp sid did)"
  "unchanged (replay_de_export cp key impressao)"
  by (auto simp: advance_def build_envelope_content_def preflight_guards_def
      import_preconditions_def parse_outcome_def resposta_export_def resposta_import_def
      delegation_view_def replay_de_export_def intro!: unchanged_intros split: option.splits)

section \<open>The contract\<close>

text \<open>The three ways a delegation leaves the active state.\<close>

definition closes_delegation :: "(service_delegation \<Rightarrow> service_delegation) \<Rightarrow> bool" where
  "closes_delegation f \<longleftrightarrow>
     f = (\<lambda>d. d\<lparr>dlg_state := EXPIRED\<rparr>) \<or> f = (\<lambda>d. d\<lparr>dlg_state := REVOKED\<rparr>) \<or>
     (\<exists>t a. f = (\<lambda>d. d\<lparr>dlg_state := CONSUMED, dlg_consumed_at := Some t,
                      dlg_consumed_by := Some a\<rparr>))"

locale progress =
  fixes R :: "'s \<Rightarrow> 's \<Rightarrow> bool"
  assumes refl: "R s s"
    and trans: "R s t \<Longrightarrow> R t u \<Longrightarrow> R s u"
begin

lemma keeps_unchanged: "unchanged m \<Longrightarrow> keeps R m"
  by (simp add: unchanged_def keeps_def refl)

lemma keeps_bnd [keeps_intros]:
  assumes "keeps R m" and "\<And>x. keeps R (f x)"
  shows "keeps R (bnd m f)"
proof (rule keepsI)
  fix s
  obtain r t where m: "m s = (r, t)" by (cases "m s")
  from keepsD [OF assms(1) m] m show "R s (snd (bnd m f s))"
    using assms(2) trans [of s t] by (cases r) (auto simp: bnd_def keeps_def)
qed

lemmas keeps_basic [keeps_intros] =
  unchanged_ret [THEN keeps_unchanged] unchanged_raise [THEN keeps_unchanged]
  unchanged_gets [THEN keeps_unchanged] unchanged_lift_sum [THEN keeps_unchanged]
  unchanged_require [THEN keeps_unchanged]

lemma keeps_for_each [keeps_intros]: "(\<And>x. keeps R (f x)) \<Longrightarrow> keeps R (for_each f xs)"
  by (induction xs) (auto intro: keeps_intros)

lemma keeps_map_comp [keeps_intros]: "(\<And>x. keeps R (f x)) \<Longrightarrow> keeps R (map_comp f xs)"
  by (induction xs) (auto intro!: keeps_intros)

end

locale store_progress = progress R for R :: "store \<Rightarrow> store \<Rightarrow> bool" +
  assumes draw: "R s (s\<lparr>drawn := Suc (drawn s)\<rparr>)"
    and clock: "R s (s\<lparr>next_object := k\<rparr>)" "R s (s\<lparr>now := n\<rparr>)"
    and registry_new: "R s (s\<lparr>emitted := []\<rparr>)"
    and registry_put: "length (emitted s) < MAX_AUTORIZACOES_PENDENTES \<Longrightarrow>
      R s (s\<lparr>emitted := AList.update (da_authorization_id v) v (emitted s)\<rparr>)"
    and registry_pop: "R s (s\<lparr>emitted := AList.delete i (emitted s)\<rparr>)"
    and registry_back: "map_of (emitted s) i = Some e \<Longrightarrow>
      R s (s\<lparr>emitted := AList.update i e (AList.delete i (emitted s))\<rparr>)"
    and undone: "R s t \<Longrightarrow> R s (s\<lparr>drawn := drawn t\<rparr>)"
    and claim: "command_row_ok c = None \<Longrightarrow> cmd_id c = entropy s (drawn s) \<Longrightarrow>
      fresh cmd_id (cmd_id c) (commands s) \<Longrightarrow> fresh cmd_triple (cmd_triple c) (commands s) \<Longrightarrow>
      R s (s\<lparr>drawn := Suc (drawn s), commands := commands s @ [c]\<rparr>)"
    and insertions:
      "check_schedule s r0 = None \<Longrightarrow> R s (schedules_update (\<lambda>t. t @ [r0]) s)"
      "check_step s r1 = None \<Longrightarrow> R s (steps_update (\<lambda>t. t @ [r1]) s)"
      "check_attempt s r2 = None \<Longrightarrow> R s (attempts_update (\<lambda>t. t @ [r2]) s)"
      "check_seal s r3 = None \<Longrightarrow> R s (seals_update (\<lambda>t. t @ [r3]) s)"
      "check_result s r4 = None \<Longrightarrow> R s (results_update (\<lambda>t. t @ [r4]) s)"
      "check_attribution s r5 = None \<Longrightarrow> R s (attributions_update (\<lambda>t. t @ [r5]) s)"
      "check_delegation s r6 = None \<Longrightarrow> R s (delegations_update (\<lambda>t. t @ [r6]) s)"
      "check_event s r7 = None \<Longrightarrow> R s (events_update (\<lambda>t. t @ [r7]) s)"
      "check_observation s r8 = None \<Longrightarrow> R s (observations_update (\<lambda>t. t @ [r8]) s)"
      "check_opinion s r9 = None \<Longrightarrow> R s (opinions_update (\<lambda>t. t @ [r9]) s)"
      "check_profile s r10 = None \<Longrightarrow> R s (profiles_update (\<lambda>t. t @ [r10]) s)"
      "check_exec_receipt s r11 = None \<Longrightarrow> R s (exec_receipts_update (\<lambda>t. t @ [r11]) s)"
    and states:
      "R s (schedules_update (upd_where P0 (\<lambda>a. a\<lparr>sch_state := st0\<rparr>)) s)"
      "R s (steps_update (upd_where P1 (\<lambda>p. p\<lparr>stp_state := st1\<rparr>)) s)"
      "st2 \<noteq> OPEN \<Longrightarrow> R s (attempts_update (upd_where P2 (\<lambda>a. a\<lparr>att_state := st2\<rparr>)) s)"
    and closed: "closes_delegation f \<Longrightarrow> (\<And>d. P3 d \<Longrightarrow> dlg_state d = DELEGATION_ACTIVE) \<Longrightarrow>
      R s (s\<lparr>delegations := upd_where P3 f (delegations s)\<rparr>)"
begin

lemma keeps_insert_row:
  "(\<And>s. chk s r = None \<Longrightarrow> R s (upd (\<lambda>t. t @ [r]) s)) \<Longrightarrow> keeps R (insert_row chk upd r)"
  by (auto simp: keeps_def insert_row_def refl split: option.split)

lemma keeps_modify: "(\<And>s. R s (f s)) \<Longrightarrow> keeps R (modify f)"
  by (simp add: keeps_def modify_def)

lemma keeps_insertions [keeps_intros]:
  "keeps R (insert_row check_schedule schedules_update r0)"
  "keeps R (insert_row check_step steps_update r1)"
  "keeps R (insert_row check_attempt attempts_update r2)"
  "keeps R (insert_row check_seal seals_update r3)"
  "keeps R (insert_row check_result results_update r4)"
  "keeps R (insert_row check_attribution attributions_update r5)"
  "keeps R (insert_row check_delegation delegations_update r6)"
  "keeps R (insert_row check_event events_update r7)"
  "keeps R (insert_row check_observation observations_update r8)"
  "keeps R (insert_row check_opinion opinions_update r9)"
  "keeps R (insert_row check_profile profiles_update r10)"
  "keeps R (insert_row check_exec_receipt exec_receipts_update r11)"
  by (rule keeps_insert_row, erule insertions)+

lemmas keeps_reads [keeps_intros] =
  unchanged_queries [THEN keeps_unchanged] unchanged_select_one [THEN keeps_unchanged]
  unchanged_require_some [THEN keeps_unchanged] unchanged_services [THEN keeps_unchanged]
  unchanged_get_profile [THEN keeps_unchanged] unchanged_query_reads [THEN keeps_unchanged]
  unchanged_service_get_schedule [THEN keeps_unchanged]

lemma keeps_draw_uuid [keeps_intros]: "keeps R draw_uuid"
  by (simp add: keeps_def draw_uuid_def draw)

lemma keeps_nested [keeps_intros]:
  assumes m: "keeps R m" and h: "keeps R h"
  shows "keeps R (nested m h)"
proof (rule keepsI)
  fix s
  obtain r t where ms: "m s = (r, t)" by (cases "m s")
  from undone [OF keepsD [OF m ms]] have u: "R s (s\<lparr>drawn := drawn t\<rparr>)" .
  from h have "R (s\<lparr>drawn := drawn t\<rparr>) (snd (h (s\<lparr>drawn := drawn t\<rparr>)))" by (simp add: keeps_def)
  with u have "R s (snd (h (s\<lparr>drawn := drawn t\<rparr>)))" by (rule trans)
  with u keepsD [OF m ms] ms show "R s (snd (nested m h s))"
    by (auto simp: nested_def split: sum.split error.split)
qed

lemma keeps_committed [keeps_intros]:
  assumes "keeps R m"
  shows "keeps R (committed m)"
proof (rule keepsI)
  fix s
  obtain r t where m: "m s = (r, t)" by (cases "m s")
  with keepsD [OF assms m] undone show "R s (snd (committed m s))"
    by (auto simp: committed_def rollback_def split: sum.split)
qed

lemma keeps_request [keeps_intros]:
  assumes "keeps R m"
  shows "keeps R (request t m)"
proof (rule keepsI)
  fix s
  have "R s (s\<lparr>now := t, emitted := [], next_object := 0\<rparr>)"
    using trans [OF clock(2) [of s t] trans [OF registry_new clock(1)]] by simp
  with assms show "R s (snd (request t m s))"
    by (auto simp: request_def keeps_def intro: trans)
qed

lemma keeps_update_delegations:
  assumes "\<And>s. closes_delegation (f s)" and "\<And>s d. P s d \<Longrightarrow> dlg_state d = DELEGATION_ACTIVE"
  shows "keeps R (update_delegations P f)"
  unfolding update_delegations_def
  by (intro keeps_intros keeps_modify closed assms; assumption?)

lemma keeps_set_schedule_state [keeps_intros]: "keeps R (set_schedule_state cp sid st)"
  unfolding set_schedule_state_def
  by (intro keeps_intros keeps_modify states)

lemma keeps_set_step_state [keeps_intros]: "keeps R (set_step_state cp sid pid st)"
  unfolding set_step_state_def
  by (intro keeps_intros keeps_modify states)

lemma keeps_set_attempt_state [keeps_intros]:
  "st \<noteq> OPEN \<Longrightarrow> keeps R (set_attempt_state cp sid aid st)"
  unfolding set_attempt_state_def
  by (intro keeps_intros keeps_modify states)

lemma keeps_claim_command [keeps_intros]:
  "keeps R (claim_command tp operation key outcome req)"
proof (rule keepsI)
  fix s
  show "R s (snd (claim_command tp operation key outcome req s))"
    using draw [of s]
    by (auto simp: claim_command_def bnd_def draw_uuid_def Let_def fresh_def filter_empty_conv
        intro!: claim split: option.split list.split)
qed

lemma keeps_writers [keeps_intros]:
  "keeps R (create_step_row sid item)"
  "keeps R (create_schedule_rows sid cp title mode drafts)"
  "keeps R (next_attempt_number cp sid pid)"
  "keeps R (create_attempt cp aid sid pid number version content)"
  "keeps R (create_seal_receipt cp sid aid content sealed_at sealer)"
  "keeps R (create_handoff_result cp sid aid status contract out declared_ref)"
  "keeps R (create_handoff_attribution cp sid aid role' provider model inst t)"
  "keeps R (create_delegation cp did sid pid content scope granted_by valid_until)"
  "keeps R (create_control_event eid cp sid p kind reason category declared_by t)"
  "keeps R (create_execution_observation cp sid pid okind previous current pp cpr t)"
  "keeps R (create_audit_opinion oid cp sid rid opinion codes auditor issued_by t)"
  "keeps R (create_profile cp method cst endpoint prov display credential)"
  unfolding create_step_row_def create_schedule_rows_def next_attempt_number_def create_attempt_def
    create_seal_receipt_def create_handoff_result_def create_handoff_attribution_def
    create_delegation_def create_control_event_def create_execution_observation_def
    create_audit_opinion_def create_profile_def Let_def
  by (intro keeps_intros keeps_insertions)+

lemma keeps_delegation_updates [keeps_intros]:
  "keeps R (expire_stale_delegations cp sid pid)"
  "keeps R (revoke_active_delegations cp sid pid scope)"
  "keeps R (consume_delegation cp sid pid did content scope aid)"
  unfolding expire_stale_delegations_def revoke_active_delegations_def consume_delegation_def
  by (intro keeps_intros keeps_update_delegations; auto simp: closes_delegation_def)+

text \<open>The services.\<close>

lemma keeps_schedule_services [keeps_intros]:
  "keeps R (create_schedule sid cp draft mode)"
  "keeps R (activate cp sid)"
  "keeps R (seal_with admitted aid cp sid pid sealer)"
  "keeps R (seal_step aid cp sid pid sealer)"
  "keeps R (seal_step_for_export aid cp sid pid sealer)"
  unfolding create_schedule_def activate_def seal_step_def seal_step_for_export_def seal_with_def
  by (intro keeps_intros)+

lemma keeps_connection_services [keeps_intros]:
  "keeps R (ensure_manual_profile cp)"
  "keeps R (declare_profile cp method endpoint provider display)"
  "keeps R (create_execution_receipt cp sid pid aid attr t)"
  "keeps R (record_execution cp sid pid aid attr t)"
  unfolding ensure_manual_profile_def declare_profile_def create_execution_receipt_def
    record_execution_def Let_def
  by (intro keeps_intros keeps_insertions)+

lemma keeps_control_services [keeps_intros]:
  "keeps R (cancelar_conteudo cp sid)"
  "keeps R (apply_control cp sid action event_id category)"
  "keeps R (register_pause cp sid pid reason)"
  "keeps R (complete_if_all_returned cp sid)"
  "keeps R (grant_delegation cp sid pid valid_until did)"
  "keeps R (revoke_delegation cp sid pid did)"
  unfolding cancelar_conteudo_def apply_control_def register_pause_def complete_if_all_returned_def
    grant_delegation_def revoke_delegation_def Let_def
  by ((intro keeps_intros keeps_insertions; simp?)+)

lemma keeps_import_services [keeps_intros]:
  "keeps R (observar_troca_de_provedor cp sid pid aid prov)"
  "keeps R (import_return rt cp sid pid aid raw attribution)"
  "keeps R (issue_opinion cp sid aid opinion reason_codes auditor oid)"
  unfolding observar_troca_de_provedor_def import_return_def issue_opinion_def Let_def
  by ((intro keeps_intros; simp?)+)

lemma keeps_modify_registry [keeps_intros]:
  "keeps R (modify (\<lambda>s. s\<lparr>emitted := []\<rparr>))"
  "keeps R (modify (\<lambda>s. s\<lparr>next_object := g s\<rparr>))"
  by (intro keeps_modify registry_new clock)+

text \<open>
  The registry: an authorization enters only below the cap, and what is taken out by an authorization
  that is not the one issued goes back in.
\<close>

lemma keeps_registry [keeps_intros]:
  "keeps R (registrar_autorizacao a)" "keeps R (consumir_autorizacao a)"
  "keeps R (new_authorization content d fst_dispatch)"
proof -
  show "keeps R (registrar_autorizacao a)"
    using refl registry_put
    by (auto simp: keeps_def registrar_autorizacao_def bnd_def gets_def require_def ret_def raise_def modify_def)
  show "keeps R (consumir_autorizacao a)"
    using registry_pop registry_back
    by (auto simp: keeps_def consumir_autorizacao_def bnd_def gets_def ret_def raise_def modify_def
        split: option.split)
  show "keeps R (new_authorization content d fst_dispatch)"
    unfolding new_authorization_def by (intro keeps_intros)
qed

lemma keeps_export_services [keeps_intros]:
  "keeps R (preflight c cp sid pid)"
  "keeps R (register_block c cp sid pid blocked)"
  "keeps R (consume_authorized_delegation cp sid pid a aid)"
  unfolding preflight_def register_block_def consume_authorized_delegation_def Let_def
  by (intro keeps_intros)+

lemma keeps_export_step [keeps_intros]:
  "keeps R (obtain_authorization c cp sid pid authorization)"
  "keeps R (export_step c aid cp sid pid sealer authorization)"
  unfolding obtain_authorization_def export_step_def
  by (intro keeps_intros)+

text \<open>The commands and the handlers.\<close>

lemma keeps_executar_uma_vez:
  assumes "\<And>req. keeps R (claim_command tp (command_operation_value operation) key outcome req)"
    and "keeps R efeito"
  shows "keeps R (executar_uma_vez tp operation key outcome impressao efeito)"
  unfolding executar_uma_vez_def by (intro keeps_intros assms)

lemma keeps_commands_once [keeps_intros]:
  "keeps R (create_schedule_once tp key draft mode)"
  "keeps R (seal_handoff_once tp key sid pid sealer)"
  "keeps R (export_handoff_once c tp key sid pid sealer)"
  "keeps R (import_return_once rt tp key sid pid aid raw attribution)"
  "keeps R (grant_delegation_once tp key sid pid valid_until)"
  "keeps R (revoke_delegation_once tp key sid pid did)"
  "keeps R (control_schedule_once tp key sid action category)"
  "keeps R (issue_audit_opinion_once tp key sid aid opinion codes auditor)"
  unfolding create_schedule_once_def seal_handoff_once_def export_handoff_once_def
    import_return_once_def grant_delegation_once_def revoke_delegation_once_def
    control_schedule_once_def issue_audit_opinion_once_def
  by (intro keeps_intros keeps_executar_uma_vez)+

lemma keeps_export_phases:
  "keeps R (export_phase_one c cp key sid pid)"
  "keeps R (export_phase_two c cp key sid pid)"
  unfolding export_phase_one_def export_phase_two_def
  by (intro keeps_intros)+

lemma keeps_exportar_handoff [keeps_intros]: "keeps R (exportar_handoff c cp key sid pid)"
proof (rule keepsI)
  fix s
  obtain q t where 1: "export_phase_one c cp key sid pid s = (q, t)"
    by (cases "export_phase_one c cp key sid pid s")
  obtain z u where 2: "export_phase_two c cp key sid pid t = (z, u)"
    by (cases "export_phase_two c cp key sid pid t")
  have t: "R s t" by (rule keepsD [OF keeps_export_phases(1) 1])
  then have u: "R s u" by (rule trans) (rule keepsD [OF keeps_export_phases(2) 2])
  show "R s (snd (exportar_handoff c cp key sid pid s))"
  proof (cases q)
    case (Inl e)
    with 1 undone [OF t] show ?thesis by (simp add: exportar_handoff_def rollback_def)
  next
    case (Inr b)
    show ?thesis
    proof (cases b)
      case None
      with 1 2 Inr u undone [OF u] show ?thesis
        by (auto simp: exportar_handoff_def rollback_def split: sum.split)
    next
      case (Some x)
      obtain w :: "error + export_response" and v' where w: "register_block c cp sid pid x t = (w, v')"
        by fastforce
      have "R s v'" by (rule trans [OF t keepsD [OF keeps_export_services(2) w]])
      with undone have "R s v'" "R s (s\<lparr>drawn := drawn v'\<rparr>)" by auto
      with 1 w Inr Some show ?thesis
        by (auto simp: exportar_handoff_def rollback_def split: sum.split error.split)
    qed
  qed
qed

lemma keeps_handlers [keeps_intros]:
  "keeps R (criar_schedule cp key draft mode)"
  "keeps R (importar_retorno rt cp key sid pid aid raw attribution)"
  "keeps R (conceder_delegacao cp key sid pid valid_until)"
  "keeps R (revogar_delegacao cp key sid pid did)"
  "keeps R (registrar_controle cp key sid action category)"
  "keeps R (registrar_parecer cp key sid aid opinion codes auditor)"
  unfolding criar_schedule_def importar_retorno_def conceder_delegacao_def revogar_delegacao_def
    registrar_controle_def registrar_parecer_def
  by (intro keeps_intros)+

lemma keeps_handle [keeps_intros]: "keeps R (handle c rt cp key cl)"
  by (cases cl) (auto simp: discard_def intro!: keeps_intros)

lemma serve_related: "R s (serve c rt t cp key cl s)"
  using keeps_request [OF keeps_handle] by (simp add: keeps_def serve_def)

end

end
