(* ===== verification/Integrity.thy ===== *)
theory Integrity
  imports Progress
begin

text \<open>
  The integrity invariant of the database: what the constraints of the schema promise of the
  rows, table by table, and that every operation of the orchestration layer keeps it. A table
  refers to others only through their keys, so a change of state of a row disturbs no reference.
\<close>

section \<open>Keys and well-formed tables\<close>

definition sch_keys :: "schedule list \<Rightarrow> uuid set" where
  "sch_keys t = sch_id ` set t"

definition step_keys :: "schedule_step list \<Rightarrow> (uuid \<times> uuid) set" where
  "step_keys t = (\<lambda>p. (stp_id p, stp_schedule_id p)) ` set t"

definition att_keys :: "handoff_attempt list \<Rightarrow> (uuid \<times> uuid \<times> uuid) set" where
  "att_keys t = (\<lambda>a. (att_id a, att_step_id a, att_schedule_id a)) ` set t"

definition res_keys :: "handoff_result list \<Rightarrow> uuid set" where
  "res_keys t = res_id ` set t"

definition con_keys :: "connection_profile list \<Rightarrow> (uuid \<times> pystr \<times> connection_method) set" where
  "con_keys t = (\<lambda>c. (con_id c, con_principal c, con_method c)) ` set t"

text \<open>Every row passes the checks of the row, and the key is unique.\<close>

definition rows_ok :: "('r \<Rightarrow> error option) \<Rightarrow> ('r \<Rightarrow> 'k) \<Rightarrow> 'r list \<Rightarrow> bool" where
  "rows_ok row_ok key t \<longleftrightarrow> (\<forall>r \<in> set t. row_ok r = None) \<and> distinct (map key t)"

definition wf_schedules :: "schedule list \<Rightarrow> bool" where
  "wf_schedules t \<longleftrightarrow> rows_ok schedule_row_ok sch_id t"

definition wf_steps :: "uuid set \<Rightarrow> schedule_step list \<Rightarrow> bool" where
  "wf_steps S t \<longleftrightarrow> rows_ok step_row_ok stp_id t \<and>
     distinct (map (\<lambda>p. (stp_schedule_id p, stp_position p)) t) \<and>
     (\<forall>p \<in> set t. stp_schedule_id p \<in> S)"

definition wf_attempts :: "(uuid \<times> uuid) set \<Rightarrow> handoff_attempt list \<Rightarrow> bool" where
  "wf_attempts P t \<longleftrightarrow> rows_ok attempt_row_ok att_id t \<and>
     distinct (map (\<lambda>a. (att_step_id a, att_number a)) t) \<and>
     unique_where (\<lambda>a. att_state a = OPEN) att_step_id t \<and>
     (\<forall>a \<in> set t. (att_step_id a, att_schedule_id a) \<in> P)"

definition wf_seals :: "(uuid \<times> uuid \<times> uuid) set \<Rightarrow> seal_receipt list \<Rightarrow> bool" where
  "wf_seals A t \<longleftrightarrow> rows_ok seal_row_ok rcp_id t \<and> distinct (map rcp_attempt_id t) \<and>
     (\<forall>r \<in> set t. rcp_attempt_id r \<in> fst ` A)"

definition wf_commands :: "command_receipt list \<Rightarrow> bool" where
  "wf_commands t \<longleftrightarrow> rows_ok command_row_ok cmd_id t \<and> distinct (map cmd_triple t)"

definition wf_results :: "(uuid \<times> uuid \<times> uuid) set \<Rightarrow> handoff_result list \<Rightarrow> bool" where
  "wf_results A t \<longleftrightarrow> rows_ok result_row_ok res_id t \<and> distinct (map res_attempt_id t) \<and>
     (\<forall>r \<in> set t. res_attempt_id r \<in> fst ` A)"

definition wf_attributions :: "(uuid \<times> uuid \<times> uuid) set \<Rightarrow> handoff_attribution list \<Rightarrow> bool" where
  "wf_attributions A t \<longleftrightarrow> rows_ok attribution_row_ok atr_id t \<and> distinct (map atr_attempt_id t) \<and>
     (\<forall>r \<in> set t. atr_attempt_id r \<in> fst ` A)"

definition wf_delegations :: "(uuid \<times> uuid) set \<Rightarrow> service_delegation list \<Rightarrow> bool" where
  "wf_delegations P t \<longleftrightarrow> rows_ok delegation_row_ok dlg_id t \<and>
     unique_where (\<lambda>d. dlg_state d = DELEGATION_ACTIVE) dlg_triple t \<and>
     (\<forall>d \<in> set t. (dlg_step_id d, dlg_schedule_id d) \<in> P)"

definition wf_events :: "uuid set \<Rightarrow> (uuid \<times> uuid) set \<Rightarrow> control_event list \<Rightarrow> bool" where
  "wf_events S P t \<longleftrightarrow> rows_ok event_row_ok evt_id t \<and>
     (\<forall>e \<in> set t. evt_schedule_id e \<in> S \<and>
        (\<forall>p. evt_step_id e = Some p \<longrightarrow> (p, evt_schedule_id e) \<in> P))"

definition wf_observations ::
  "(uuid \<times> uuid) set \<Rightarrow> (uuid \<times> uuid \<times> uuid) set \<Rightarrow> execution_observation list \<Rightarrow> bool" where
  "wf_observations P A t \<longleftrightarrow> rows_ok observation_row_ok obs_id t \<and>
     (\<forall>e \<in> set t. (obs_step_id e, obs_schedule_id e) \<in> P \<and>
        (obs_previous_attempt e, obs_step_id e, obs_schedule_id e) \<in> A \<and>
        (obs_current_attempt e, obs_step_id e, obs_schedule_id e) \<in> A)"

definition wf_opinions :: "uuid set \<Rightarrow> audit_opinion list \<Rightarrow> bool" where
  "wf_opinions R t \<longleftrightarrow> rows_ok opinion_row_ok opn_id t \<and> (\<forall>p \<in> set t. opn_result_id p \<in> R)"

definition wf_profiles :: "uuid list \<Rightarrow> connection_profile list \<Rightarrow> bool" where
  "wf_profiles Q t \<longleftrightarrow> rows_ok profile_row_ok con_id t \<and>
     unique_where manual_live con_principal t \<and>
     unique_where (\<lambda>c. con_state c \<notin> TERMINAL_CONNECTION_STATES \<and> con_endpoint_ref c \<noteq> None)
       (\<lambda>c. (con_principal c, con_method c, con_endpoint_ref c)) t \<and>
     (\<forall>c \<in> set t. \<forall>p. con_access_provider c = Some p \<longrightarrow> p \<in> set Q)"

definition wf_exec_receipts ::
  "(uuid \<times> pystr \<times> connection_method) set \<Rightarrow> connection_execution_receipt list \<Rightarrow> bool" where
  "wf_exec_receipts K t \<longleftrightarrow> rows_ok exec_row_ok exe_id t \<and> distinct (map exe_attempt_id t) \<and>
     (\<forall>r \<in> set t. (exe_connection_id r, exe_principal r, exe_method r) \<in> K)"

definition wf_store :: "store \<Rightarrow> bool" where
  "wf_store s \<longleftrightarrow>
     wf_schedules (schedules s) \<and>
     wf_steps (sch_keys (schedules s)) (steps s) \<and>
     wf_attempts (step_keys (steps s)) (attempts s) \<and>
     wf_seals (att_keys (attempts s)) (seals s) \<and>
     wf_commands (commands s) \<and>
     wf_results (att_keys (attempts s)) (results s) \<and>
     wf_attributions (att_keys (attempts s)) (attributions s) \<and>
     wf_delegations (step_keys (steps s)) (delegations s) \<and>
     wf_events (sch_keys (schedules s)) (step_keys (steps s)) (events s) \<and>
     wf_observations (step_keys (steps s)) (att_keys (attempts s)) (observations s) \<and>
     wf_opinions (res_keys (results s)) (opinions s) \<and>
     wf_profiles (provider_ids s) (profiles s) \<and>
     wf_exec_receipts (con_keys (profiles s)) (exec_receipts s)"

lemmas wf_defs =
  wf_schedules_def wf_steps_def wf_attempts_def wf_seals_def wf_commands_def wf_results_def
  wf_attributions_def wf_delegations_def wf_events_def wf_observations_def wf_opinions_def
  wf_profiles_def wf_exec_receipts_def

lemmas key_defs = sch_keys_def step_keys_def att_keys_def res_keys_def con_keys_def

text \<open>References survive the growth of the table they point into.\<close>

lemma wf_mono:
  "wf_steps S p \<Longrightarrow> S \<subseteq> S' \<Longrightarrow> wf_steps S' p"
  "wf_attempts P a \<Longrightarrow> P \<subseteq> P' \<Longrightarrow> wf_attempts P' a"
  "wf_seals A r \<Longrightarrow> A \<subseteq> A' \<Longrightarrow> wf_seals A' r"
  "wf_results A rs \<Longrightarrow> A \<subseteq> A' \<Longrightarrow> wf_results A' rs"
  "wf_attributions A ts \<Longrightarrow> A \<subseteq> A' \<Longrightarrow> wf_attributions A' ts"
  "wf_delegations P ds \<Longrightarrow> P \<subseteq> P' \<Longrightarrow> wf_delegations P' ds"
  "wf_events S P es \<Longrightarrow> S \<subseteq> S' \<Longrightarrow> P \<subseteq> P' \<Longrightarrow> wf_events S' P' es"
  "wf_observations P A os \<Longrightarrow> P \<subseteq> P' \<Longrightarrow> A \<subseteq> A' \<Longrightarrow> wf_observations P' A' os"
  "wf_opinions R ps \<Longrightarrow> R \<subseteq> R' \<Longrightarrow> wf_opinions R' ps"
  "wf_exec_receipts K xs \<Longrightarrow> K \<subseteq> K' \<Longrightarrow> wf_exec_receipts K' xs"
  unfolding wf_defs by (blast | (intro conjI ballI; blast))+

lemma keys_snoc [simp]:
  "sch_keys (t @ [r]) = insert (sch_id r) (sch_keys t)"
  "step_keys (u @ [p]) = insert (stp_id p, stp_schedule_id p) (step_keys u)"
  "att_keys (v @ [a]) = insert (att_id a, att_step_id a, att_schedule_id a) (att_keys v)"
  "res_keys (w @ [x]) = insert (res_id x) (res_keys w)"
  "con_keys (z @ [c]) = insert (con_id c, con_principal c, con_method c) (con_keys z)"
  by (simp_all add: key_defs)

lemma map_upd_where_set:
  "(\<And>r. k (f r) = k r) \<Longrightarrow> k ` set (upd_where P f t) = k ` set t"
  by (metis list.set_map map_upd_where)

lemma keys_upd_where:
  "(\<And>r. sch_id (f r) = sch_id r) \<Longrightarrow> sch_keys (upd_where P f t) = sch_keys t"
  "(\<And>p. stp_id (g p) = stp_id p) \<Longrightarrow> (\<And>p. stp_schedule_id (g p) = stp_schedule_id p) \<Longrightarrow>
     step_keys (upd_where Q g u) = step_keys u"
  "(\<And>a. att_id (h a) = att_id a) \<Longrightarrow> (\<And>a. att_step_id (h a) = att_step_id a) \<Longrightarrow>
   (\<And>a. att_schedule_id (h a) = att_schedule_id a) \<Longrightarrow> att_keys (upd_where R h v) = att_keys v"
  by (simp_all add: key_defs map_upd_where_set)

lemma rows_ok_snoc: "rows_ok ok k (t @ [r]) \<longleftrightarrow> rows_ok ok k t \<and> ok r = None \<and> fresh k (k r) t"
  unfolding rows_ok_def fresh_def by (fastforce simp: image_iff)

lemma rows_ok_upd:
  assumes "rows_ok ok k t" and "\<And>r. P r \<Longrightarrow> ok r = None \<Longrightarrow> ok (f r) = None"
    and "\<And>r. k (f r) = k r"
  shows "rows_ok ok k (upd_where P f t)"
  using assms by (auto simp: rows_ok_def set_upd_where map_upd_where)

lemma distinct_snoc_fresh: "distinct (map k (t @ [r])) \<longleftrightarrow> distinct (map k t) \<and> fresh k (k r) t"
  unfolding fresh_def by (fastforce simp: image_iff)


section \<open>Insertions\<close>

text \<open>A foreign key check is membership in the keys of the table it refers to.\<close>

lemma reference_keys:
  "exists_row (\<lambda>a. sch_id a = x) ss \<longleftrightarrow> x \<in> sch_keys ss"
  "exists_row (\<lambda>a. att_id a = x) as \<longleftrightarrow> x \<in> fst ` att_keys as"
  "exists_row (\<lambda>r. res_id r = x) rs \<longleftrightarrow> x \<in> res_keys rs"
  "exists_row (\<lambda>c. con_id c = x \<and> con_principal c = y \<and> con_method c = z) cs \<longleftrightarrow>
     (x, y, z) \<in> con_keys cs"
  "step_within s p sid \<longleftrightarrow> (p, sid) \<in> step_keys (steps s)"
  "attempt_within s a p sid \<longleftrightarrow> (a, p, sid) \<in> att_keys (attempts s)"
  by (auto simp: exists_row_def key_defs step_within_def attempt_within_def image_iff)

lemmas insert_simps =
  row_checks first_some_None rows_ok_snoc distinct_snoc_fresh unique_where_snoc fresh_def
  reference_keys manual_live_def

lemma insert_schedule:
  "wf_store s \<Longrightarrow> check_schedule s r = None \<Longrightarrow> wf_store (schedules_update (\<lambda>t. t @ [r]) s)"
  unfolding wf_store_def
  by (auto simp: wf_schedules_def insert_simps elim!: wf_mono)

lemma insert_step:
  "wf_store s \<Longrightarrow> check_step s r = None \<Longrightarrow> wf_store (steps_update (\<lambda>t. t @ [r]) s)"
  unfolding wf_store_def
  by (auto simp: wf_steps_def insert_simps elim!: wf_mono)

lemma insert_attempt:
  "wf_store s \<Longrightarrow> check_attempt s r = None \<Longrightarrow> wf_store (attempts_update (\<lambda>t. t @ [r]) s)"
  unfolding wf_store_def
  by (auto simp: wf_attempts_def insert_simps elim!: wf_mono)

lemma insert_seal:
  "wf_store s \<Longrightarrow> check_seal s r = None \<Longrightarrow> wf_store (seals_update (\<lambda>t. t @ [r]) s)"
  unfolding wf_store_def
  by (auto simp: wf_seals_def insert_simps)

lemma insert_result:
  "wf_store s \<Longrightarrow> check_result s r = None \<Longrightarrow> wf_store (results_update (\<lambda>t. t @ [r]) s)"
  unfolding wf_store_def
  by (auto simp: wf_results_def insert_simps elim!: wf_mono)

lemma insert_attribution:
  "wf_store s \<Longrightarrow> check_attribution s r = None \<Longrightarrow> wf_store (attributions_update (\<lambda>t. t @ [r]) s)"
  unfolding wf_store_def
  by (auto simp: wf_attributions_def insert_simps)

lemma insert_delegation:
  "wf_store s \<Longrightarrow> check_delegation s r = None \<Longrightarrow> wf_store (delegations_update (\<lambda>t. t @ [r]) s)"
  unfolding wf_store_def
  by (auto simp: wf_delegations_def insert_simps)

lemma insert_event:
  "wf_store s \<Longrightarrow> check_event s r = None \<Longrightarrow> wf_store (events_update (\<lambda>t. t @ [r]) s)"
  unfolding wf_store_def
  by (auto simp: wf_events_def insert_simps)

lemma insert_observation:
  "wf_store s \<Longrightarrow> check_observation s r = None \<Longrightarrow> wf_store (observations_update (\<lambda>t. t @ [r]) s)"
  unfolding wf_store_def
  by (auto simp: wf_observations_def insert_simps)

lemma insert_opinion:
  "wf_store s \<Longrightarrow> check_opinion s r = None \<Longrightarrow> wf_store (opinions_update (\<lambda>t. t @ [r]) s)"
  unfolding wf_store_def
  by (auto simp: wf_opinions_def insert_simps)

lemma insert_profile:
  "wf_store s \<Longrightarrow> check_profile s r = None \<Longrightarrow> wf_store (profiles_update (\<lambda>t. t @ [r]) s)"
  unfolding wf_store_def
  by (auto simp: wf_profiles_def insert_simps elim!: wf_mono)

lemma insert_exec_receipt:
  "wf_store s \<Longrightarrow> check_exec_receipt s r = None \<Longrightarrow> wf_store (exec_receipts_update (\<lambda>t. t @ [r]) s)"
  unfolding wf_store_def
  by (auto simp: wf_exec_receipts_def insert_simps)

section \<open>Updates\<close>

lemma row_ok_state [simp]:
  "schedule_row_ok (a\<lparr>sch_state := x\<rparr>) = schedule_row_ok a"
  "step_row_ok (p\<lparr>stp_state := y\<rparr>) = step_row_ok p"
  "attempt_row_ok (q\<lparr>att_state := z\<rparr>) = attempt_row_ok q"
  by (simp_all add: schedule_row_ok_def step_row_ok_def attempt_row_ok_def)

lemma update_schedule_state:
  "wf_store s \<Longrightarrow>
   wf_store (schedules_update (upd_where P (\<lambda>a. a\<lparr>sch_state := st\<rparr>)) s)"
  by (auto simp: wf_store_def keys_upd_where wf_schedules_def intro: rows_ok_upd)

lemma update_step_state:
  "wf_store s \<Longrightarrow> wf_store (steps_update (upd_where P (\<lambda>p. p\<lparr>stp_state := st\<rparr>)) s)"
  by (auto simp: wf_store_def keys_upd_where wf_steps_def map_upd_where set_upd_where
      intro: rows_ok_upd)

lemma update_attempt_state:
  "wf_store s \<Longrightarrow> st \<noteq> OPEN \<Longrightarrow>
   wf_store (attempts_update (upd_where P (\<lambda>a. a\<lparr>att_state := st\<rparr>)) s)"
  by (auto simp: wf_store_def keys_upd_where wf_attempts_def map_upd_where set_upd_where
      intro: unique_where_upd rows_ok_upd)

lemma rows_ok_upd_delegation:
  assumes "rows_ok delegation_row_ok dlg_id t" and "closes_delegation f"
    and "\<And>d. P d \<Longrightarrow> dlg_state d = DELEGATION_ACTIVE"
  shows "rows_ok delegation_row_ok dlg_id (upd_where P f t)"
proof (rule rows_ok_upd [OF assms(1)])
  fix d assume "P d" "delegation_row_ok d = None"
  with assms(2,3) show "delegation_row_ok (f d) = None"
    by (auto simp: closes_delegation_def delegation_row_ok_def first_some_None)
next
  fix d show "dlg_id (f d) = dlg_id d"
    using assms(2) by (auto simp: closes_delegation_def)
qed

lemma update_delegation:
  assumes "wf_store s" and "closes_delegation f"
    and "\<And>d. P d \<Longrightarrow> dlg_state d = DELEGATION_ACTIVE"
  shows "wf_store (s\<lparr>delegations := upd_where P f (delegations s)\<rparr>)"
proof -
  have wf: "wf_delegations (step_keys (steps s)) (delegations s)"
    using assms(1) by (simp add: wf_store_def)
  have keep: "dlg_step_id (f d) = dlg_step_id d \<and> dlg_schedule_id (f d) = dlg_schedule_id d \<and>
      dlg_state (f d) \<noteq> DELEGATION_ACTIVE" for d
    using assms(2) by (auto simp: closes_delegation_def)
  have "wf_delegations (step_keys (steps s)) (upd_where P f (delegations s))"
    using wf assms(2,3) keep
    by (auto simp: wf_delegations_def rows_ok_upd_delegation set_upd_where intro: unique_where_upd)
  with assms(1) show ?thesis by (simp add: wf_store_def)
qed

section \<open>Every operation keeps the integrity of the database\<close>

lemma wf_store_request_fields [simp]:
  "wf_store (s\<lparr>drawn := n\<rparr>) = wf_store s" "wf_store (s\<lparr>emitted := m\<rparr>) = wf_store s"
  "wf_store (s\<lparr>next_object := k\<rparr>) = wf_store s" "wf_store (s\<lparr>now := t\<rparr>) = wf_store s"
  by (simp_all add: wf_store_def)

interpretation wfi: store_progress "\<lambda>s t. wf_store s \<longrightarrow> wf_store t"
proof
  show "wf_store s \<longrightarrow> wf_store (s\<lparr>drawn := Suc (drawn s), commands := commands s @ [r]\<rparr>)"
    if "command_row_ok r = None" "fresh cmd_id (cmd_id r) (commands s)"
      "fresh cmd_triple (cmd_triple r) (commands s)" for r s
    using that by (simp add: wf_store_def wf_commands_def rows_ok_snoc distinct_snoc_fresh del: map_append)
  show "wf_store s \<longrightarrow> wf_store (s\<lparr>delegations := upd_where P f (delegations s)\<rparr>)"
    if "closes_delegation f" "\<And>d. P d \<Longrightarrow> dlg_state d = DELEGATION_ACTIVE" for s P f
    using update_delegation [OF _ that] by blast
qed (auto intro: insert_schedule insert_step insert_attempt insert_seal insert_result
    insert_attribution insert_delegation insert_event insert_observation insert_opinion
    insert_profile insert_exec_receipt update_schedule_state update_step_state update_attempt_state)

lemma wfD: "keeps (\<lambda>s t. wf_store s \<longrightarrow> wf_store t) m \<Longrightarrow> m s = (r, s') \<Longrightarrow> wf_store s \<Longrightarrow> wf_store s'"
  using keepsD by fastforce

lemmas preserves_integrity =
  wfi.keeps_set_schedule_state wfi.keeps_set_step_state wfi.keeps_set_attempt_state
  wfi.keeps_writers wfi.keeps_delegation_updates wfi.keeps_schedule_services
  wfi.keeps_connection_services wfi.keeps_control_services wfi.keeps_import_services
  wfi.keeps_export_services wfi.keeps_export_step wfi.keeps_export_phases wfi.keeps_handlers

lemmas wf_preserved [preserves_intros] = preserves_integrity [unfolded keeps_preserves]

lemma wf_serve: "wf_store s \<Longrightarrow> wf_store (serve c rt t cp key cl s)"
  using wfi.serve_related by blast

end
