(* ===== verification/Runs.thy ===== *)
theory Runs
  imports Integrity
begin

text \<open>
  What a successful run of each repository method and service operation amounts to: the rows it
  found, the guards that held and the session it leaves, as an explicit update of the session it
  started from. The invariants of the life cycle are proved over these facts.
\<close>

text \<open>A computation that begins with a read.\<close>

lemma bnd_read:
  "unchanged m \<Longrightarrow> bnd m f s = (Inr y, s') \<longleftrightarrow> (\<exists>x. m s = (Inr x, s) \<and> f x s = (Inr y, s'))"
  by (auto simp: bnd_eq_Inr dest: unchangedD)

section \<open>Rows in scope\<close>

definition schedule_of :: "store \<Rightarrow> pystr \<Rightarrow> uuid \<Rightarrow> schedule \<Rightarrow> bool" where
  "schedule_of s cp sid a \<longleftrightarrow> a \<in> set (schedules s) \<and> sch_id a = sid \<and> sch_owner a = cp"

definition step_of :: "store \<Rightarrow> uuid \<Rightarrow> uuid \<Rightarrow> schedule_step \<Rightarrow> bool" where
  "step_of s sid pid p \<longleftrightarrow> p \<in> set (steps s) \<and> stp_id p = pid \<and> stp_schedule_id p = sid"

definition attempt_of :: "store \<Rightarrow> uuid \<Rightarrow> uuid \<Rightarrow> handoff_attempt \<Rightarrow> bool" where
  "attempt_of s sid aid a \<longleftrightarrow> a \<in> set (attempts s) \<and> att_id a = aid \<and> att_schedule_id a = sid"

lemmas row_of_defs = schedule_of_def step_of_def attempt_of_def

lemma filter_eq_single:
  assumes "filter P t = [a]"
  shows "a \<in> set t" "P a" "\<And>b. b \<in> set t \<Longrightarrow> P b \<Longrightarrow> b = a"
proof -
  have "set (filter P t) = {a}" using assms by simp
  then show "a \<in> set t" "P a" "\<And>b. b \<in> set t \<Longrightarrow> P b \<Longrightarrow> b = a" by auto
qed

lemma owned_iff: "owned s cp sid \<longleftrightarrow> (\<exists>a. schedule_of s cp sid a)"
  by (auto simp: owned_def exists_row_def schedule_of_def)

named_theorems found

lemma found_schedule [found]:
  "get_schedule cp sid s = (Inr (Some a), s') \<Longrightarrow> s' = s \<and> schedule_of s cp sid a"
  "lock_schedule cp sid s = (Inr (Some a), s') \<Longrightarrow> s' = s \<and> schedule_of s cp sid a"
  by (auto simp: query_defs run_iffs row_of_defs dest: filter_eq_single(1,2))

lemma found_step [found]:
  "get_step cp sid pid s = (Inr (Some p), s') \<Longrightarrow> s' = s \<and> step_of s sid pid p \<and> owned s cp sid"
  "lock_step cp sid pid s = (Inr (Some p), s') \<Longrightarrow> s' = s \<and> step_of s sid pid p \<and> owned s cp sid"
  "require_step cp sid pid s = (Inr p, s') \<Longrightarrow> s' = s \<and> step_of s sid pid p \<and> owned s cp sid"
  by (auto simp: query_defs run_iffs row_of_defs dest: filter_eq_single(1,2))

lemma found_attempt [found]:
  "get_attempt cp sid aid s = (Inr (Some a), s') \<Longrightarrow> s' = s \<and> attempt_of s sid aid a \<and> owned s cp sid"
  "lock_attempt cp sid aid s = (Inr (Some a), s') \<Longrightarrow> s' = s \<and> attempt_of s sid aid a \<and> owned s cp sid"
  by (auto simp: query_defs run_iffs row_of_defs dest: filter_eq_single(1,2))

lemma wf_schedule_unique:
  "wf_store s \<Longrightarrow> a \<in> set (schedules s) \<Longrightarrow> b \<in> set (schedules s) \<Longrightarrow> sch_id a = sch_id b \<Longrightarrow> a = b"
  by (auto simp: wf_store_def wf_schedules_def rows_ok_def intro: distinct_map_inj)

lemma wf_step_unique:
  "wf_store s \<Longrightarrow> p \<in> set (steps s) \<Longrightarrow> q \<in> set (steps s) \<Longrightarrow> stp_id p = stp_id q \<Longrightarrow> p = q"
  by (auto simp: wf_store_def wf_steps_def rows_ok_def intro: distinct_map_inj)

lemma wf_attempt_unique:
  "wf_store s \<Longrightarrow> a \<in> set (attempts s) \<Longrightarrow> b \<in> set (attempts s) \<Longrightarrow> att_id a = att_id b \<Longrightarrow> a = b"
  by (auto simp: wf_store_def wf_attempts_def rows_ok_def intro: distinct_map_inj)

lemma wf_step_schedule:
  "wf_store s \<Longrightarrow> p \<in> set (steps s) \<Longrightarrow> \<exists>a \<in> set (schedules s). sch_id a = stp_schedule_id p"
  by (auto simp: wf_store_def wf_steps_def sch_keys_def image_iff) metis

lemma wf_attempt_step:
  "wf_store s \<Longrightarrow> a \<in> set (attempts s) \<Longrightarrow>
   \<exists>p \<in> set (steps s). stp_id p = att_step_id a \<and> stp_schedule_id p = att_schedule_id a"
  by (auto simp: wf_store_def wf_attempts_def step_keys_def image_iff) metis

lemma sort_map_filter_empty [simp]:
  "sort (map f (filter P t)) = [] \<longleftrightarrow> (\<forall>x \<in> set t. \<not> P x)"
  "[] = sort (map f (filter P t)) \<longleftrightarrow> (\<forall>x \<in> set t. \<not> P x)"
  by (metis filter_empty_conv list.map_disc_iff set_empty set_sort)+

text \<open>
  What only lives as long as a request: the registry of authorizations, the object counter, the
  clock of the transaction and the position in the random stream. Two sessions agree on the
  database when they agree without it.
\<close>

definition scrub :: "store \<Rightarrow> store" where
  "scrub s = s\<lparr>emitted := [], next_object := 0, drawn := 0, now := 0\<rparr>"

lemma scrub_local [simp]:
  "scrub (s\<lparr>drawn := n\<rparr>) = scrub s" "scrub (s\<lparr>next_object := k\<rparr>) = scrub s"
  "scrub (s\<lparr>emitted := e\<rparr>) = scrub s" "scrub (s\<lparr>now := t\<rparr>) = scrub s"
  by (simp_all add: scrub_def)

lemma scrub_tables [simp]:
  "schedules (scrub s) = schedules s" "steps (scrub s) = steps s" "attempts (scrub s) = attempts s"
  "seals (scrub s) = seals s" "commands (scrub s) = commands s" "results (scrub s) = results s"
  "attributions (scrub s) = attributions s" "delegations (scrub s) = delegations s"
  "events (scrub s) = events s" "observations (scrub s) = observations s"
  "opinions (scrub s) = opinions s" "profiles (scrub s) = profiles s"
  "exec_receipts (scrub s) = exec_receipts s" "provider_ids (scrub s) = provider_ids s"
  by (simp_all add: scrub_def)

lemma scrub_update [simp]:
  "scrub (s\<lparr>schedules := t1\<rparr>) = (scrub s)\<lparr>schedules := t1\<rparr>"
  "scrub (s\<lparr>steps := t2\<rparr>) = (scrub s)\<lparr>steps := t2\<rparr>"
  "scrub (s\<lparr>attempts := t3\<rparr>) = (scrub s)\<lparr>attempts := t3\<rparr>"
  "scrub (s\<lparr>seals := t4\<rparr>) = (scrub s)\<lparr>seals := t4\<rparr>"
  "scrub (s\<lparr>commands := t5\<rparr>) = (scrub s)\<lparr>commands := t5\<rparr>"
  "scrub (s\<lparr>results := t6\<rparr>) = (scrub s)\<lparr>results := t6\<rparr>"
  "scrub (s\<lparr>attributions := t7\<rparr>) = (scrub s)\<lparr>attributions := t7\<rparr>"
  "scrub (s\<lparr>delegations := t8\<rparr>) = (scrub s)\<lparr>delegations := t8\<rparr>"
  "scrub (s\<lparr>events := t9\<rparr>) = (scrub s)\<lparr>events := t9\<rparr>"
  "scrub (s\<lparr>observations := t10\<rparr>) = (scrub s)\<lparr>observations := t10\<rparr>"
  "scrub (s\<lparr>opinions := t11\<rparr>) = (scrub s)\<lparr>opinions := t11\<rparr>"
  "scrub (s\<lparr>profiles := t12\<rparr>) = (scrub s)\<lparr>profiles := t12\<rparr>"
  "scrub (s\<lparr>exec_receipts := t13\<rparr>) = (scrub s)\<lparr>exec_receipts := t13\<rparr>"
  by (simp_all add: scrub_def)

section \<open>State changes\<close>

definition with_schedule_state :: "uuid \<Rightarrow> schedule_state \<Rightarrow> store \<Rightarrow> store" where
  "with_schedule_state sid st s =
     s\<lparr>schedules := upd_where (\<lambda>a. sch_id a = sid) (\<lambda>a. a\<lparr>sch_state := st\<rparr>) (schedules s)\<rparr>"

definition with_step_state :: "uuid \<Rightarrow> step_state \<Rightarrow> store \<Rightarrow> store" where
  "with_step_state pid st s =
     s\<lparr>steps := upd_where (\<lambda>p. stp_id p = pid) (\<lambda>p. p\<lparr>stp_state := st\<rparr>) (steps s)\<rparr>"

definition with_attempt_state :: "uuid \<Rightarrow> attempt_state \<Rightarrow> store \<Rightarrow> store" where
  "with_attempt_state aid st s =
     s\<lparr>attempts := upd_where (\<lambda>a. att_id a = aid) (\<lambda>a. a\<lparr>att_state := st\<rparr>) (attempts s)\<rparr>"

lemma set_schedule_state_run:
  "set_schedule_state cp sid st s = (Inr x, s') \<Longrightarrow>
   s' = with_schedule_state sid st s \<and> owned s cp sid"
  by (auto simp: set_schedule_state_def with_schedule_state_def require_schedule_def run_iffs
      row_of_defs owned_iff dest!: found)

lemma set_step_state_run:
  "set_step_state cp sid pid st s = (Inr x, s') \<Longrightarrow>
   s' = with_step_state pid st s \<and> owned s cp sid \<and> (\<exists>p. step_of s sid pid p)"
  by (auto simp: set_step_state_def with_step_state_def run_iffs row_of_defs dest!: found)

lemma set_attempt_state_run:
  "set_attempt_state cp sid aid st s = (Inr x, s') \<Longrightarrow>
   s' = with_attempt_state aid st s \<and> owned s cp sid \<and> (\<exists>a. attempt_of s sid aid a)"
  by (auto simp: set_attempt_state_def with_attempt_state_def run_iffs row_of_defs dest!: found)

section \<open>Schedules\<close>

text \<open>The row a draft becomes.\<close>

definition row_of_draft :: "uuid \<Rightarrow> uuid \<Rightarrow> nat \<Rightarrow> step_draft \<Rightarrow> constraint_pairs \<Rightarrow> schedule_step" where
  "row_of_draft pid sid n d cs =
     \<lparr>stp_id = pid, stp_schedule_id = sid, stp_position = int n, stp_role = draft_role d,
      stp_instruction_ref = draft_instruction_ref d, stp_context_refs = draft_context_refs d,
      stp_output_contract = draft_expected_output_contract d, stp_constraints = cs,
      stp_state = PENDING\<rparr>"

definition draft_row :: "uuid \<Rightarrow> nat \<times> step_draft \<Rightarrow> schedule_step \<Rightarrow> bool" where
  "draft_row sid item r \<longleftrightarrow>
     (\<exists>pid cs. canonical_constraints (py_pairs (draft_constraints (snd item))) = Inr cs \<and>
        r = row_of_draft pid sid (fst item) (snd item) cs)"

lemma create_step_row_run:
  assumes "create_step_row sid item s = (Inr u, s')"
  shows "\<exists>r. draft_row sid item r \<and> s' = s\<lparr>steps := steps s @ [r], drawn := Suc (drawn s)\<rparr>"
proof (cases item)
  case (Pair n d)
  from assms obtain cs where cs: "canonical_constraints (py_pairs (draft_constraints d)) = Inr cs"
    and s': "s' = s\<lparr>drawn := Suc (drawn s), steps := steps s @
      [row_of_draft (entropy s (drawn s)) sid n d cs]\<rparr>"
    by (auto simp: Pair create_step_row_def row_of_draft_def run_iffs)
  have "draft_row sid item (row_of_draft (entropy s (drawn s)) sid n d cs)"
    using cs by (auto simp: draft_row_def Pair)
  with s' show ?thesis
    by (intro exI [of _ "row_of_draft (entropy s (drawn s)) sid n d cs"]) simp
qed

lemma create_step_rows_run:
  assumes "for_each (create_step_row sid) items s = (Inr u, s')"
  shows "\<exists>rows. list_all2 (draft_row sid) items rows \<and>
    s' = s\<lparr>steps := steps s @ rows, drawn := drawn s + length items\<rparr>"
  using assms
proof (induction items arbitrary: s)
  case Nil
  then show ?case by (simp add: run_iffs)
next
  case (Cons item items)
  from Cons.prems obtain v t where
    1: "create_step_row sid item s = (Inr v, t)" and
    2: "for_each (create_step_row sid) items t = (Inr u, s')"
    by (auto simp: run_iffs)
  from create_step_row_run [OF 1] obtain r where
    r: "draft_row sid item r" "t = s\<lparr>steps := steps s @ [r], drawn := Suc (drawn s)\<rparr>" by blast
  from Cons.IH [OF 2] obtain rows where
    rows: "list_all2 (draft_row sid) items rows"
      "s' = t\<lparr>steps := steps t @ rows, drawn := drawn t + length items\<rparr>" by blast
  show ?case
    using r rows by (intro exI [of _ "r # rows"]) simp
qed

lemma service_get_schedule_run:
  "service_get_schedule cp sid s = (Inr v, s') \<Longrightarrow> s' = s \<and> owned s cp sid"
  by (auto simp: service_get_schedule_def list_steps_def run_iffs owned_iff dest!: found)

lemma create_schedule_run:
  assumes "create_schedule sid cp draft mode s = (Inr v, s')"
  shows "\<exists>rows. list_all2 (draft_row sid) (List.enumerate 1 (draft_steps draft)) rows \<and>
    mode \<in> EXECUTABLE_HANDOFF_MODES \<and> \<not> blank cp \<and> fresh sch_id sid (schedules s) \<and>
    s' = s\<lparr>schedules := schedules s @ [\<lparr>sch_id = sid, sch_title = draft_title draft,
             sch_state = DRAFT, sch_mode = mode, sch_owner = cp\<rparr>],
           steps := steps s @ rows, drawn := drawn s + length (draft_steps draft)\<rparr>"
  using assms
  by (auto simp: create_schedule_def create_schedule_rows_def Let_def run_iffs check_schedule_def
      first_some_None dest!: service_get_schedule_run create_step_rows_run)

lemma activate_run:
  assumes "activate cp sid s = (Inr v, s')"
  shows "s' = with_schedule_state sid ACTIVE s \<and> (\<exists>a. schedule_of s cp sid a \<and> sch_state a = DRAFT)"
  using assms
  by (auto simp: activate_def run_iffs transition_defs
      dest!: found service_get_schedule_run set_schedule_state_run)


section \<open>Sealing\<close>

lemma found_open_attempt [found]:
  "get_open_attempt cp sid pid s = (Inr None, s') \<Longrightarrow>
   s' = s \<and> (owned s cp sid \<longrightarrow>
     (\<forall>a \<in> set (attempts s). att_step_id a = pid \<and> att_schedule_id a = sid \<longrightarrow> att_state a \<noteq> OPEN))"
  by (auto simp: query_defs run_iffs filter_empty_conv)

lemma build_envelope_content_run:
  "build_envelope_content cp sid pid s = (Inr e, s') \<Longrightarrow>
   s' = s \<and> owned s cp sid \<and> (\<exists>p. step_of s sid pid p \<and> envelope_of_step sid pid p = Inr e)"
  by (auto simp: build_envelope_content_def run_iffs dest!: found)

lemma envelope_of_step_version:
  "envelope_of_step sid pid p = Inr e \<Longrightarrow> env_version e = ENVELOPE_VERSION"
  by (auto simp: envelope_of_step_def make_envelope_content_def run_iffs)

definition attempts_of_step :: "uuid \<Rightarrow> store \<Rightarrow> handoff_attempt list" where
  "attempts_of_step pid s = filter (\<lambda>a. att_step_id a = pid) (attempts s)"

definition next_number :: "uuid \<Rightarrow> store \<Rightarrow> int" where
  "next_number pid s = foldr max (map att_number (attempts_of_step pid s)) 0 + 1"

lemma next_attempt_number_run:
  "next_attempt_number cp sid pid s = (Inr n, s') \<Longrightarrow> s' = s \<and> n = next_number pid s"
  by (auto simp: next_attempt_number_def next_number_def attempts_of_step_def run_iffs dest!: found)

text \<open>The attempt and the receipt a seal leaves.\<close>

definition sealed ::
  "uuid \<Rightarrow> uuid \<Rightarrow> uuid \<Rightarrow> pystr \<Rightarrow> int \<Rightarrow> int \<Rightarrow> handoff_attempt" where
  "sealed aid sid pid h n t =
     \<lparr>att_id = aid, att_schedule_id = sid, att_step_id = pid, att_number = n,
      att_envelope_version = ENVELOPE_VERSION, att_content_sha256 = h, att_state = OPEN,
      att_created_at = t\<rparr>"

definition receipt :: "uuid \<Rightarrow> uuid \<Rightarrow> pystr \<Rightarrow> int \<Rightarrow> pystr \<Rightarrow> seal_receipt" where
  "receipt rid aid h t sealer =
     \<lparr>rcp_id = rid, rcp_attempt_id = aid, rcp_content_sha256 = h, rcp_sealed_at = t,
      rcp_sealer_ref = sealer\<rparr>"

lemma seal_with_run:
  assumes "seal_with admitted aid cp sid pid sealer s = (Inr out, s')"
  shows "\<exists>a p e h rid.
    schedule_of s cp sid a \<and> sch_state a = ACTIVE \<and> sch_mode a \<in> EXECUTABLE_HANDOFF_MODES \<and>
    step_of s sid pid p \<and> stp_state p \<in> set admitted \<and> \<not> blank sealer \<and>
    envelope_of_step sid pid p = Inr e \<and> content_sha256 e = Inr h \<and>
    fresh att_id aid (attempts s) \<and>
    (\<forall>b \<in> set (attempts s). att_step_id b = pid \<longrightarrow> att_state b \<noteq> OPEN) \<and>
    fresh rcp_attempt_id aid (seals s) \<and>
    out = \<lparr>seal_attempt_id = aid, seal_attempt_number = next_number pid s, seal_content_sha256 = h,
           seal_envelope_version = ENVELOPE_VERSION, seal_receipt_id = rid, seal_sealed_at = now s,
           seal_sealer_ref = sealer\<rparr> \<and>
    s' = s\<lparr>attempts := attempts s @ [sealed aid sid pid h (next_number pid s) (now s)],
           seals := seals s @ [receipt rid aid h (now s) sealer], drawn := Suc (drawn s)\<rparr>"
proof -
  from assms obtain a p e h n tent rec t where
    a: "schedule_of s cp sid a" "sch_state a = ACTIVE" "sch_mode a \<in> EXECUTABLE_HANDOFF_MODES"
    and p: "step_of s sid pid p" "stp_state p \<in> set admitted" "\<not> blank sealer"
    and e: "envelope_of_step sid pid p = Inr e" "content_sha256 e = Inr h"
    and n: "n = next_number pid s"
    and c: "create_attempt cp aid sid pid n (env_version e) h s = (Inr tent, t)"
    and r: "create_seal_receipt cp sid (att_id tent) h (now t) sealer t = (Inr rec, s')"
    and o: "make_seal_outcome (att_id tent) (att_number tent) h (env_version e) (rcp_id rec)
        (rcp_sealed_at rec) (rcp_sealer_ref rec) = Inr out"
    by (auto simp: seal_with_def run_iffs database_now_def
        dest!: found next_attempt_number_run)
  note v = envelope_of_step_version [OF e(1)]
  from c have tent: "tent = sealed aid sid pid h n (now s)"
    and t: "t = s\<lparr>attempts := attempts s @ [tent]\<rparr>" and ca: "check_attempt s tent = None"
    by (auto simp: create_attempt_def Let_def run_iffs sealed_def v dest!: found)
  from r have rec: "rec = receipt (entropy s (drawn s)) aid h (now s) sealer"
    and s': "s' = t\<lparr>seals := seals t @ [rec], drawn := Suc (drawn t)\<rparr>"
    and cr: "check_seal t rec = None"
    by (auto simp: create_seal_receipt_def require_attempt_def query_defs Let_def run_iffs
        receipt_def tent t sealed_def check_seal_def)
  show ?thesis
    using a p e n ca cr o
    by (intro exI [of _ a] exI [of _ p] exI [of _ e] exI [of _ h]
          exI [of _ "entropy s (drawn s)"])
      (auto simp: s' t tent rec sealed_def receipt_def check_attempt_def check_seal_def
        first_some_None fresh_def make_seal_outcome_def v run_iffs)
qed

section \<open>Connections\<close>

lemma nested_success:
  "nested m h s = (Inr x, s') \<Longrightarrow>
   m s = (Inr x, s') \<or> (\<exists>name t. m s = (Inl (IntegrityError name), t) \<and>
     h (s\<lparr>drawn := drawn t\<rparr>) = (Inr x, s'))"
  by (auto simp: nested_def split: prod.splits sum.splits error.splits)

lemma get_manual_profile_run:
  "get_manual_profile cp s = (Inr None, s') \<Longrightarrow>
   s' = s \<and> (\<forall>c \<in> set (profiles s). con_principal c = cp \<longrightarrow> \<not> manual_live c)"
  "get_manual_profile cp s = (Inr (Some c), s') \<Longrightarrow>
   s' = s \<and> c \<in> set (profiles s) \<and> con_principal c = cp \<and> manual_live c"
  by (auto simp: get_manual_profile_def run_iffs manual_live_def filter_empty_conv
      dest: filter_eq_single(1,2))

lemma get_manual_profile_drawn:
  "get_manual_profile cp s = (Inr None, s') \<Longrightarrow>
   get_manual_profile cp (s\<lparr>drawn := n\<rparr>) = (Inr None, s\<lparr>drawn := n\<rparr>)"
  by (auto simp: get_manual_profile_def run_iffs)

definition manual_profile :: "uuid \<Rightarrow> pystr \<Rightarrow> int \<Rightarrow> connection_profile" where
  "manual_profile cid cp t =
     \<lparr>con_id = cid, con_principal = cp, con_method = METHOD_MANUAL_HANDOFF, con_endpoint_ref = None,
      con_access_provider = None, con_state = AVAILABLE, con_credential_ref = None,
      con_display_name = None, con_created_at = t\<rparr>"

lemma manual_profile_live [simp]:
  "manual_live (manual_profile i cp t)" "con_principal (manual_profile i cp t) = cp"
  by (simp_all add: manual_live_def manual_profile_def TERMINAL_CONNECTION_STATES_def)

lemma create_manual_profile_run:
  "bnd (create_profile cp METHOD_MANUAL_HANDOFF AVAILABLE
      None None None None) (\<lambda>c. ret \<lparr>outcome_profile = c, outcome_created = True\<rparr>) s = (Inr x, s') \<Longrightarrow>
   x = \<lparr>outcome_profile = manual_profile (entropy s (drawn s)) cp (now s), outcome_created = True\<rparr> \<and>
   s' = s\<lparr>profiles := profiles s @ [outcome_profile x], drawn := Suc (drawn s)\<rparr>"
  by (auto simp: create_profile_def Let_def run_iffs manual_profile_def)

lemma ensure_manual_profile_run:
  assumes "ensure_manual_profile cp s = (Inr x, s')"
  shows "\<not> blank cp \<and> con_principal (outcome_profile x) = cp \<and> manual_live (outcome_profile x) \<and>
    (if outcome_created x
     then (\<forall>c \<in> set (profiles s). con_principal c = cp \<longrightarrow> \<not> manual_live c) \<and>
       outcome_profile x = manual_profile (entropy s (drawn s)) cp (now s) \<and>
       s' = s\<lparr>profiles := profiles s @ [outcome_profile x], drawn := Suc (drawn s)\<rparr>
     else outcome_profile x \<in> set (profiles s) \<and> s' = s)"
proof -
  from assms obtain y where nb: "\<not> blank cp" and y: "get_manual_profile cp s = (Inr y, s)"
    and rest: "(case y of
       Some c \<Rightarrow> ret \<lparr>outcome_profile = c, outcome_created = False\<rparr>
     | None \<Rightarrow>
         bnd (get_manual_profile cp) (\<lambda>relido.
         case relido of
           Some c \<Rightarrow> ret \<lparr>outcome_profile = c, outcome_created = False\<rparr>
         | None \<Rightarrow>
             nested
               (bnd (create_profile cp METHOD_MANUAL_HANDOFF AVAILABLE
                       None None None None) (\<lambda>criado.
                ret \<lparr>outcome_profile = criado, outcome_created = True\<rparr>))
               (bnd (get_manual_profile cp) (\<lambda>vencedor.
                case vencedor of
                  None \<Rightarrow> raise (IntegrityError ''connection_profiles'')
                | Some c \<Rightarrow> ret \<lparr>outcome_profile = c, outcome_created = False\<rparr>)))) s = (Inr x, s')"
    unfolding ensure_manual_profile_def
    by (auto simp: bnd_read [OF unchanged_get_profile(1)] bnd_read [OF unchanged_require]
        require_eq_iff)
  show ?thesis
  proof (cases y)
    case (Some c)
    with rest get_manual_profile_run(2) y nb show ?thesis by (auto simp: ret_eq_iff)
  next
    case None
    with rest y have n: "nested
        (bnd (create_profile cp METHOD_MANUAL_HANDOFF AVAILABLE
           None None None None) (\<lambda>criado. ret \<lparr>outcome_profile = criado, outcome_created = True\<rparr>))
        (bnd (get_manual_profile cp) (\<lambda>vencedor.
           case vencedor of
             None \<Rightarrow> raise (IntegrityError ''connection_profiles'')
           | Some c \<Rightarrow> ret \<lparr>outcome_profile = c, outcome_created = False\<rparr>)) s = (Inr x, s')"
      by (simp add: bnd_Inr)
    have none: "get_manual_profile cp s = (Inr None, s)" using y None by simp
    from nested_success [OF n] show ?thesis
    proof (elim disjE exE conjE)
      assume "bnd (create_profile cp METHOD_MANUAL_HANDOFF AVAILABLE
           None None None None) (\<lambda>criado. ret \<lparr>outcome_profile = criado, outcome_created = True\<rparr>) s
         = (Inr x, s')"
      from create_manual_profile_run [OF this] get_manual_profile_run(1) [OF none] nb
      show ?thesis by simp
    next
      fix name t
      assume "bnd (get_manual_profile cp) (\<lambda>vencedor.
           case vencedor of
             None \<Rightarrow> raise (IntegrityError ''connection_profiles'')
           | Some c \<Rightarrow> ret \<lparr>outcome_profile = c, outcome_created = False\<rparr>) (s\<lparr>drawn := drawn t\<rparr>)
         = (Inr x, s')"
      with get_manual_profile_drawn [OF none] show ?thesis by (simp add: bnd_Inr raise_run)
    qed
  qed
qed

lemma ensure_manual_profile_effect:
  assumes "ensure_manual_profile cp s = (Inr x, s')"
  shows "\<exists>profs. con_principal (outcome_profile x) = cp \<and> manual_live (outcome_profile x) \<and>
    (outcome_profile x \<in> set (profiles s) \<and> profs = profiles s \<or>
     profs = profiles s @ [outcome_profile x]) \<and>
    scrub s' = scrub (s\<lparr>profiles := profs\<rparr>) \<and> now s' = now s"
proof (cases "outcome_created x")
  case True
  with ensure_manual_profile_run [OF assms] show ?thesis
    by (intro exI [of _ "profiles s @ [outcome_profile x]"]) simp
next
  case False
  with ensure_manual_profile_run [OF assms] show ?thesis
    by (intro exI [of _ "profiles s"]) simp
qed

definition manual_receipt ::
  "uuid \<Rightarrow> pystr \<Rightarrow> uuid \<Rightarrow> uuid \<Rightarrow> uuid \<Rightarrow> uuid \<Rightarrow> int \<Rightarrow> connection_execution_receipt" where
  "manual_receipt xid cp sid pid aid cid t =
     \<lparr>exe_id = xid, exe_principal = cp, exe_schedule_id = sid, exe_step_id = pid,
      exe_attempt_id = aid, exe_connection_id = cid, exe_method = METHOD_MANUAL_HANDOFF,
      exe_access_provider = None, exe_requested_model = None, exe_observed_model = None,
      exe_attestation = UNKNOWN, exe_observed_at = t\<rparr>"

lemma record_execution_run:
  assumes "manual_attribution cid = Inr attr"
    and "record_execution cp sid pid aid attr t s = (Inr x, s')"
  shows "x = manual_receipt (entropy s (drawn s)) cp sid pid aid cid t \<and>
    fresh exe_attempt_id aid (exec_receipts s) \<and>
    s' = s\<lparr>exec_receipts := exec_receipts s @ [x], drawn := Suc (drawn s)\<rparr>"
  using assms
  by (auto simp: record_execution_def create_execution_receipt_def require_profile_def get_profile_def
      manual_attribution_def make_execution_attribution_def manual_receipt_def run_iffs Let_def
      check_exec_receipt_def first_some_None fresh_def)

section \<open>Preflight\<close>

definition expired_at :: "uuid \<Rightarrow> uuid \<Rightarrow> store \<Rightarrow> service_delegation \<Rightarrow> bool" where
  "expired_at sid pid s d \<longleftrightarrow> dlg_schedule_id d = sid \<and> dlg_step_id d = pid \<and>
     dlg_state d = DELEGATION_ACTIVE \<and> dlg_valid_until d \<le> now s"

definition expire :: "uuid \<Rightarrow> uuid \<Rightarrow> store \<Rightarrow> service_delegation list" where
  "expire sid pid s =
     upd_where (expired_at sid pid s) (\<lambda>d. d\<lparr>dlg_state := EXPIRED\<rparr>) (delegations s)"

lemma expire_run:
  "expire_stale_delegations cp sid pid s = (Inr n, s') \<Longrightarrow>
   s' = s\<lparr>delegations := expire sid pid s\<rparr> \<and> owned s cp sid"
  by (auto simp: expire_stale_delegations_def update_delegations_def expire_def
      expired_at_def [abs_def] run_iffs dest!: found)

lemma get_active_delegation_run:
  "get_active_delegation cp sid pid scope s = (Inr (Some d), s') \<Longrightarrow>
   s' = s \<and> d \<in> set (delegations s) \<and> dlg_schedule_id d = sid \<and> dlg_step_id d = pid \<and>
   dlg_scope d = scope \<and> dlg_state d = DELEGATION_ACTIVE"
  by (auto simp: query_defs run_iffs dest: filter_eq_single(1,2))

text \<open>What the guards of a dispatch establish.\<close>

definition dispatchable :: "store \<Rightarrow> pystr \<Rightarrow> uuid \<Rightarrow> uuid \<Rightarrow> schedule \<Rightarrow> schedule_step \<Rightarrow> bool" where
  "dispatchable s cp sid pid a p \<longleftrightarrow>
     schedule_of s cp sid a \<and> sch_state a = ACTIVE \<and> sch_mode a \<in> EXECUTABLE_HANDOFF_MODES \<and>
     step_of s sid pid p \<and> (stp_state p = PENDING \<or> stp_state p = AWAITING_RETURN) \<and>
     (\<forall>q \<in> set (steps s). stp_schedule_id q = sid \<and> stp_position q < stp_position p \<longrightarrow>
        stp_state q = RETURNED) \<and>
     (\<forall>b \<in> set (attempts s). att_step_id b = pid \<and> att_schedule_id b = sid \<longrightarrow> att_state b \<noteq> OPEN)"

lemma preflight_guards_run:
  assumes "preflight_guards cp sid pid s = (Inr p, s')"
  shows "s' = s \<and> (\<exists>a. dispatchable s cp sid pid a p)"
proof -
  from assms obtain a where
    "s' = s" "schedule_of s cp sid a" "sch_state a = ACTIVE" "sch_mode a \<in> EXECUTABLE_HANDOFF_MODES"
    "step_of s sid pid p" "stp_state p = PENDING \<or> stp_state p = AWAITING_RETURN"
    and pred: "advance cp sid (stp_position p) s = (Inr [], s)" and o: "owned s cp sid"
    and "\<forall>b \<in> set (attempts s). att_step_id b = pid \<and> att_schedule_id b = sid \<longrightarrow> att_state b \<noteq> OPEN"
    by (auto simp: preflight_guards_def run_iffs dest!: found
        dest: unchangedD [OF unchanged_services(1)])
  moreover have "\<forall>q \<in> set (steps s). stp_schedule_id q = sid \<and> stp_position q < stp_position p \<longrightarrow>
      stp_state q = RETURNED"
    using pred o by (auto simp: advance_def list_unreturned_predecessors_def gets_def)
  ultimately show ?thesis by (auto simp: dispatchable_def)
qed

definition same_but_delegations :: "store \<Rightarrow> store \<Rightarrow> service_delegation list \<Rightarrow> bool" where
  "same_but_delegations s t ds \<longleftrightarrow> scrub t = scrub (s\<lparr>delegations := ds\<rparr>) \<and> now t = now s"

lemma registrar_run:
  assumes "bnd (new_authorization h did first) (\<lambda>a. bnd (registrar_autorizacao a) (\<lambda>a'. ret (Authorized a'))) s
    = (Inr x, s')"
  shows "\<exists>a. x = Authorized a \<and> da_content_sha256 a = h \<and> da_delegation_id a = did \<and>
    da_first_dispatch a = first \<and> map_of (emitted s') (da_authorization_id a) = Some a \<and>
    same_but_delegations s s' (delegations s)"
  using assms
  by (auto simp: new_authorization_def registrar_autorizacao_def run_iffs same_but_delegations_def
      update_conv)

text \<open>The way a dispatch was authorized: without a gate, or by an active delegation.\<close>

definition authorized_by ::
  "composition \<Rightarrow> store \<Rightarrow> uuid \<Rightarrow> uuid \<Rightarrow> schedule_step \<Rightarrow> pystr \<Rightarrow> uuid option \<Rightarrow>
   service_delegation list \<Rightarrow> bool" where
  "authorized_by c s sid pid p h did ds \<longleftrightarrow>
     (gate_requirement (stp_constraints p) = Inr None \<and> did = None \<and> ds = delegations s) \<or>
     (\<exists>g d. gate_requirement (stp_constraints p) = Inr (Some g) \<and> \<not> human_refuses c g sid pid h \<and>
        ds = expire sid pid s \<and> d \<in> set ds \<and> did = Some (dlg_id d) \<and> dlg_schedule_id d = sid \<and>
        dlg_step_id d = pid \<and> dlg_scope d = gate_scope g \<and> dlg_state d = DELEGATION_ACTIVE \<and>
        dlg_content_sha256 d = h)"

lemma preflight_run:
  assumes "preflight c cp sid pid s = (Inr (Authorized a), s')" and "wf_store s"
  shows "\<exists>sched p e ds.
    dispatchable s cp sid pid sched p \<and> envelope_of_step sid pid p = Inr e \<and>
    content_sha256 e = Inr (da_content_sha256 a) \<and> da_first_dispatch a = (stp_state p = PENDING) \<and>
    authorized_by c s sid pid p (da_content_sha256 a) (da_delegation_id a) ds \<and>
    map_of (emitted s') (da_authorization_id a) = Some a \<and> same_but_delegations s s' ds"
proof -
  from assms(1) obtain p e h g where
    1: "preflight_guards cp sid pid s = (Inr p, s)" and
    2: "build_envelope_content cp sid pid s = (Inr e, s)" and h: "content_sha256 e = Inr h" and
    g: "gate_requirement (stp_constraints p) = Inr g" and
    rest: "(case g of
       None \<Rightarrow>
         bnd (new_authorization h None (stp_state p = PENDING)) (\<lambda>a.
         bnd (registrar_autorizacao a) (\<lambda>a'. ret (Authorized a')))
     | Some g \<Rightarrow>
         if human_refuses c g sid pid h
         then ret (Blocked \<lparr>db_reason = HUMAN_GATE_UNAVAILABLE, db_content = Some h\<rparr>)
         else
           bnd (expire_stale_delegations cp sid pid) (\<lambda>_.
           bnd (get_active_delegation cp sid pid (gate_scope g)) (\<lambda>delegacao.
           case delegacao of
             None \<Rightarrow> ret (Blocked \<lparr>db_reason = DELEGATION_MISSING, db_content = Some h\<rparr>)
           | Some d \<Rightarrow>
               if dlg_content_sha256 d \<noteq> h
               then ret (Blocked \<lparr>db_reason = DELEGATION_CONTENT_CHANGED, db_content = Some h\<rparr>)
               else
                 bnd (new_authorization h (Some (dlg_id d)) (stp_state p = PENDING)) (\<lambda>a.
                 bnd (registrar_autorizacao a) (\<lambda>a'. ret (Authorized a')))))) s
       = (Inr (Authorized a), s')"
    by (auto simp: preflight_def Let_def bnd_read [OF unchanged_services(2)]
        bnd_read [OF unchanged_services(3)] bnd_read [OF unchanged_lift_sum] lift_sum_eq_iff)
  from preflight_guards_run [OF 1] obtain sched where d: "dispatchable s cp sid pid sched p" by blast
  from build_envelope_content_run [OF 2] obtain p' where
    "step_of s sid pid p'" "envelope_of_step sid pid p' = Inr e" by blast
  with d have e: "envelope_of_step sid pid p = Inr e"
    using wf_step_unique [OF assms(2), of p p'] by (simp add: dispatchable_def step_of_def)
  show ?thesis
  proof (cases g)
    case None
    with rest have
      "bnd (new_authorization h None (stp_state p = PENDING)) (\<lambda>a.
       bnd (registrar_autorizacao a) (\<lambda>a'. ret (Authorized a'))) s = (Inr (Authorized a), s')" by simp
    from registrar_run [OF this] d e h g None show ?thesis
      by (auto simp: authorized_by_def)
  next
    case (Some r)
    with rest obtain n t d' where hr: "\<not> human_refuses c r sid pid h"
      and x: "expire_stale_delegations cp sid pid s = (Inr n, t)"
      and y: "get_active_delegation cp sid pid (gate_scope r) t = (Inr (Some d'), t)"
      and z: "dlg_content_sha256 d' = h"
      and w: "bnd (new_authorization h (Some (dlg_id d')) (stp_state p = PENDING)) (\<lambda>a.
         bnd (registrar_autorizacao a) (\<lambda>a'. ret (Authorized a'))) t = (Inr (Authorized a), s')"
      by (auto simp: bnd_eq_Inr [of "expire_stale_delegations cp sid pid"]
          bnd_read [OF unchanged_queries(15)] ret_eq_iff split: if_splits option.splits)
    have t: "t = s\<lparr>delegations := expire sid pid s\<rparr>" using expire_run [OF x] by simp
    show ?thesis
      using d e h g Some hr z get_active_delegation_run [OF y] registrar_run [OF w]
      by (intro exI [of _ sched] exI [of _ p] exI [of _ e] exI [of _ "expire sid pid s"])
        (auto simp: authorized_by_def t same_but_delegations_def)
  qed
qed

section \<open>Export\<close>

lemma scrub_eqD:
  assumes "scrub s = scrub t"
  shows "schedules s = schedules t" "steps s = steps t" "attempts s = attempts t"
    "seals s = seals t" "commands s = commands t" "results s = results t"
    "attributions s = attributions t" "delegations s = delegations t" "events s = events t"
    "observations s = observations t" "opinions s = opinions t" "profiles s = profiles t"
    "exec_receipts s = exec_receipts t" "provider_ids s = provider_ids t"
  using arg_cong [OF assms, of schedules] arg_cong [OF assms, of steps] arg_cong [OF assms, of attempts] arg_cong [OF assms, of seals] arg_cong [OF assms, of commands]
    arg_cong [OF assms, of results] arg_cong [OF assms, of attributions] arg_cong [OF assms, of delegations] arg_cong [OF assms, of events] arg_cong [OF assms, of observations]
    arg_cong [OF assms, of opinions] arg_cong [OF assms, of profiles] arg_cong [OF assms, of exec_receipts] arg_cong [OF assms, of provider_ids]
  by simp_all

lemma wf_store_scrub [simp]: "wf_store (scrub s) = wf_store s"
  by (simp add: scrub_def)

lemma register_block_never_returns: "register_block c cp sid pid b s \<noteq> (Inr x, s')"
  by (auto simp: register_block_def bnd_eq_Inr raise_eq_iff)

lemma obtain_authorization_run:
  assumes "obtain_authorization c cp sid pid None s = (Inr a, s')"
  shows "preflight c cp sid pid s = (Inr (Authorized a), s')"
proof -
  from assms obtain x t where x: "preflight c cp sid pid s = (Inr x, t)"
    "(case x of Blocked b \<Rightarrow> register_block c cp sid pid b | Authorized a \<Rightarrow> ret a) t = (Inr a, s')"
    by (auto simp: obtain_authorization_def bnd_eq_Inr)
  then show ?thesis
    by (cases x) (auto simp: ret_eq_iff register_block_never_returns)
qed

lemma consumir_run:
  assumes "consumir_autorizacao a s = (Inr u, s')"
  shows "scrub s' = scrub s \<and> now s' = now s \<and>
    (\<exists>e. map_of (emitted s) (da_authorization_id a) = Some e \<and> da_object e = da_object a)"
  using assms by (auto simp: consumir_autorizacao_def run_iffs split: option.splits if_splits)

definition consumable :: "uuid \<Rightarrow> uuid \<Rightarrow> pystr \<Rightarrow> int \<Rightarrow> uuid \<Rightarrow> service_delegation \<Rightarrow> bool" where
  "consumable sid pid h t did d \<longleftrightarrow> dlg_id d = did \<and> dlg_schedule_id d = sid \<and> dlg_step_id d = pid \<and>
     dlg_scope d = GATE_SCOPE_DISPATCH \<and> dlg_content_sha256 d = h \<and>
     dlg_state d = DELEGATION_ACTIVE \<and> dlg_valid_until d > t"

definition consumed_row :: "int \<Rightarrow> uuid \<Rightarrow> service_delegation \<Rightarrow> service_delegation" where
  "consumed_row t aid d =
     d\<lparr>dlg_state := CONSUMED, dlg_consumed_at := Some t, dlg_consumed_by := Some aid\<rparr>"

definition consume ::
  "uuid \<Rightarrow> uuid \<Rightarrow> pystr \<Rightarrow> int \<Rightarrow> uuid \<Rightarrow> uuid option \<Rightarrow> service_delegation list \<Rightarrow>
   service_delegation list" where
  "consume sid pid h t aid did ds =
     (case did of None \<Rightarrow> ds
      | Some i \<Rightarrow> upd_where (consumable sid pid h t i) (consumed_row t aid) ds)"

lemma consume_run:
  assumes "consume_authorized_delegation cp sid pid a aid s = (Inr u, s')"
  shows "s' = s\<lparr>delegations :=
      consume sid pid (da_content_sha256 a) (now s) aid (da_delegation_id a) (delegations s)\<rparr> \<and>
    (\<forall>i. da_delegation_id a = Some i \<longrightarrow>
       (\<exists>d \<in> set (delegations s). consumable sid pid (da_content_sha256 a) (now s) i d))"
proof (cases "da_delegation_id a")
  case None
  with assms show ?thesis
    by (simp add: consume_authorized_delegation_def consume_def ret_eq_iff)
next
  case (Some i)
  have f: "consumed_row (now s) aid =
      (\<lambda>d. d\<lparr>dlg_state := CONSUMED, dlg_consumed_at := Some (now s), dlg_consumed_by := Some aid\<rparr>)"
    by (simp add: consumed_row_def [abs_def])
  have P: "consumable sid pid (da_content_sha256 a) (now s) i =
      (\<lambda>d. dlg_id d = i \<and> dlg_schedule_id d = sid \<and> dlg_step_id d = pid \<and>
           dlg_scope d = GATE_SCOPE_DISPATCH \<and> dlg_content_sha256 d = da_content_sha256 a \<and>
           dlg_state d = DELEGATION_ACTIVE \<and> dlg_valid_until d > now s)"
    by (simp add: consumable_def [abs_def])
  from assms have "s' = s\<lparr>delegations :=
      upd_where (consumable sid pid (da_content_sha256 a) (now s) i) (consumed_row (now s) aid)
        (delegations s)\<rparr>"
    and "count_where (consumable sid pid (da_content_sha256 a) (now s) i) (delegations s) \<noteq> 0"
    by (auto simp: Some consume_authorized_delegation_def consume_delegation_def update_delegations_def
        P f run_iffs dest!: found)
  then show ?thesis by (auto simp: Some consume_def count_where_0)
qed

lemma with_step_state_twice [simp]:
  "with_step_state pid x (with_step_state pid y s) = with_step_state pid x s"
  by (auto simp: with_step_state_def upd_where_def)

text \<open>The session an export leaves.\<close>

definition dispatched ::
  "store \<Rightarrow> uuid \<Rightarrow> service_delegation list \<Rightarrow> handoff_attempt \<Rightarrow> seal_receipt \<Rightarrow>
   connection_profile list \<Rightarrow> connection_execution_receipt \<Rightarrow> store" where
  "dispatched s pid ds a r profs x =
     with_step_state pid AWAITING_RETURN
       (s\<lparr>delegations := ds, attempts := attempts s @ [a], seals := seals s @ [r],
          profiles := profs, exec_receipts := exec_receipts s @ [x]\<rparr>)"

lemma export_tail_run:
  assumes "bnd (if first then bnd (set_step_state cp sid pid DISPATCHED) (\<lambda>_. ret ()) else ret ()) (\<lambda>_.
      bnd (set_step_state cp sid pid AWAITING_RETURN) (\<lambda>_. ret y)) s = (Inr x, s')"
  shows "x = y \<and> s' = with_step_state pid AWAITING_RETURN s"
  using assms by (auto simp: run_iffs dest!: set_step_state_run split: if_splits)

text \<open>Everything a successful export did, in one predicate over the two sessions.\<close>

definition export_effect ::
  "composition \<Rightarrow> uuid \<Rightarrow> pystr \<Rightarrow> uuid \<Rightarrow> uuid \<Rightarrow> pystr \<Rightarrow> schedule \<Rightarrow> schedule_step \<Rightarrow>
   envelope_content \<Rightarrow> pystr \<Rightarrow> uuid option \<Rightarrow> store \<Rightarrow> store \<Rightarrow> bool" where
  "export_effect c aid cp sid pid sealer sched p e h did s s' \<longleftrightarrow>
     dispatchable s cp sid pid sched p \<and> envelope_of_step sid pid p = Inr e \<and>
     content_sha256 e = Inr h \<and> \<not> blank sealer \<and>
     fresh att_id aid (attempts s) \<and> fresh rcp_attempt_id aid (seals s) \<and>
     fresh exe_attempt_id aid (exec_receipts s) \<and>
     (\<exists>ds rid xid prof profs.
        authorized_by c s sid pid p h did ds \<and>
        (\<forall>i. did = Some i \<longrightarrow> (\<exists>d \<in> set ds. consumable sid pid h (now s) i d)) \<and>
        con_principal prof = cp \<and> manual_live prof \<and>
        (prof \<in> set (profiles s) \<and> profs = profiles s \<or> profs = profiles s @ [prof]) \<and>
        scrub s' = scrub (dispatched s pid (consume sid pid h (now s) aid did ds)
          (sealed aid sid pid h (next_number pid s) (now s)) (receipt rid aid h (now s) sealer)
          profs (manual_receipt xid cp sid pid aid (con_id prof) (now s))))"

lemma scrub_dispatched:
  assumes "scrub s = scrub t"
  shows "scrub (dispatched s pid ds a r profs x) = scrub (dispatched t pid ds a r profs x)"
  using assms scrub_eqD [OF assms] by (simp add: dispatched_def with_step_state_def)

lemma export_step_run:
  assumes "export_step c aid cp sid pid sealer None s = (Inr x, s')" and wf: "wf_store s"
  shows "\<exists>sched p e h did.
    export_effect c aid cp sid pid sealer sched p e h did s s' \<and>
    (\<exists>out. seal_attempt_id out = aid \<and> seal_attempt_number out = next_number pid s \<and>
       seal_content_sha256 out = h \<and> seal_sealed_at out = now s \<and>
       (\<exists>handoff. make_exported_handoff sid pid out e = Inr handoff \<and>
          transport_export c handoff = Inr (xo_exported x))) \<and>
    xo_step_state x = AWAITING_RETURN \<and> xo_attempt_state x = OPEN"
proof -
  from assms(1) obtain a t1 t2 t3 t4 t5 t6 q e' u prof sel attr rec env2 handoff ent where
    1: "obtain_authorization c cp sid pid None s = (Inr a, t1)" and
    2: "consumir_autorizacao a t1 = (Inr u, t2)" and
    3: "lock_step cp sid pid t2 = (Inr (Some q), t2)" and
    4: "build_envelope_content cp sid pid t2 = (Inr e', t2)"
       "content_sha256 e' = Inr (da_content_sha256 a)" and
    5: "consume_authorized_delegation cp sid pid a aid t2 = (Inr u, t3)" and
    6: "seal_step_for_export aid cp sid pid sealer t3 = (Inr sel, t4)" and
    7: "ensure_manual_profile cp t4 = (Inr prof, t5)" and
    8: "manual_attribution (con_id (outcome_profile prof)) = Inr attr" and
    9: "record_execution cp sid pid (seal_attempt_id sel) attr (now t5) t5 = (Inr rec, t6)" and
    10: "envelope_of_step sid pid q = Inr env2" "make_exported_handoff sid pid sel env2 = Inr handoff"
       "transport_export c handoff = Inr ent" and
    11: "bnd (if da_first_dispatch a then bnd (set_step_state cp sid pid DISPATCHED) (\<lambda>_. ret ())
              else ret ()) (\<lambda>_.
         bnd (set_step_state cp sid pid AWAITING_RETURN) (\<lambda>_.
         ret \<lparr>xo_exported = ent, xo_step_state = AWAITING_RETURN, xo_attempt_state = OPEN\<rparr>)) t6
         = (Inr x, s')"
    unfolding export_step_def
    by (auto simp: bnd_eq_Inr [of "obtain_authorization c cp sid pid None"]
        bnd_eq_Inr [of "consumir_autorizacao a" for a] bnd_assoc
        bnd_read [OF unchanged_queries(5)] bnd_read [OF unchanged_require_some] require_some_iff
        bnd_read [OF unchanged_services(2)] bnd_read [OF unchanged_lift_sum] lift_sum_eq_iff
        bnd_read [OF unchanged_require] require_eq_iff
        bnd_eq_Inr [of "consume_authorized_delegation cp sid pid a aid" for a]
        bnd_eq_Inr [of "seal_step_for_export aid cp sid pid sealer"]
        bnd_eq_Inr [of "ensure_manual_profile cp"]
        bnd_eq_Inr [of "record_execution cp sid pid a b t" for a b t]
        bnd_read [OF unchanged_gets] database_now_def gets_eq_iff)
  from preflight_run [OF obtain_authorization_run [OF 1] wf] obtain sched p e ds where
    pre: "dispatchable s cp sid pid sched p" "envelope_of_step sid pid p = Inr e"
      "content_sha256 e = Inr (da_content_sha256 a)"
      "authorized_by c s sid pid p (da_content_sha256 a) (da_delegation_id a) ds"
      "same_but_delegations s t1 ds" by blast
  let ?h = "da_content_sha256 a" and ?did = "da_delegation_id a"
  let ?cons = "consume sid pid ?h (now s) aid ?did ds"
  have t2: "scrub t2 = scrub (s\<lparr>delegations := ds\<rparr>)" "now t2 = now s"
    using consumir_run [OF 2] pre(5) by (auto simp: same_but_delegations_def)
  note t2' = scrub_eqD [OF t2(1), simplified]
  have "q = p"
    using wf_step_unique [OF wf] pre(1) found_step(2) [OF 3]
    by (auto simp: dispatchable_def step_of_def t2')
  with 10 pre(2) have env2: "env2 = e" by simp
  from consume_run [OF 5] have t3: "scrub t3 = scrub (s\<lparr>delegations := ?cons\<rparr>)" "now t3 = now s"
    and can: "\<forall>i. ?did = Some i \<longrightarrow> (\<exists>d \<in> set ds. consumable sid pid ?h (now s) i d)"
    by (simp_all add: t2' t2)
  note t3' = scrub_eqD [OF t3(1), simplified]
  from seal_with_run [OF 6 [unfolded seal_step_for_export_def]] obtain p3 e3 h3 rid where
    s3: "step_of t3 sid pid p3" "\<not> blank sealer" "envelope_of_step sid pid p3 = Inr e3"
      "content_sha256 e3 = Inr h3" "fresh att_id aid (attempts t3)"
      "fresh rcp_attempt_id aid (seals t3)"
    and out: "sel = \<lparr>seal_attempt_id = aid, seal_attempt_number = next_number pid t3,
        seal_content_sha256 = h3, seal_envelope_version = ENVELOPE_VERSION, seal_receipt_id = rid,
        seal_sealed_at = now t3, seal_sealer_ref = sealer\<rparr>"
    and t4: "t4 = t3\<lparr>attempts := attempts t3 @ [sealed aid sid pid h3 (next_number pid t3) (now t3)],
        seals := seals t3 @ [receipt rid aid h3 (now t3) sealer], drawn := Suc (drawn t3)\<rparr>"
    by blast
  have "p3 = p"
    using wf_step_unique [OF wf] pre(1) s3(1) by (auto simp: dispatchable_def step_of_def t3')
  with s3 pre have h3: "h3 = ?h" by simp
  have nn: "next_number pid t3 = next_number pid s"
    by (simp add: next_number_def attempts_of_step_def t3')
  let ?prof = "outcome_profile prof"
  have pn: "profiles t4 = profiles s" "now t4 = now s" by (simp_all add: t4 t3' t3(2))
  obtain profs where
    prof: "con_principal ?prof = cp" "manual_live ?prof"
      "?prof \<in> set (profiles s) \<and> profs = profiles s \<or> profs = profiles s @ [?prof]"
    and t5: "scrub t5 = scrub (t4\<lparr>profiles := profs\<rparr>)" "now t5 = now s"
    using ensure_manual_profile_effect [OF 7] unfolding pn by blast
  from record_execution_run [OF 8 9] obtain xid where
    rec: "rec = manual_receipt xid cp sid pid aid (con_id ?prof) (now s)"
      "fresh exe_attempt_id aid (exec_receipts t5)"
    and t6: "scrub t6 = scrub (t5\<lparr>exec_receipts := exec_receipts t5 @ [rec]\<rparr>)"
    by (auto simp: out t5(2))
  note t5' = scrub_eqD [OF t5(1), simplified]
  from export_tail_run [OF 11] have x: "x = \<lparr>xo_exported = ent, xo_step_state = AWAITING_RETURN,
      xo_attempt_state = OPEN\<rparr>" and s': "s' = with_step_state pid AWAITING_RETURN t6" by simp_all
  note t6' = scrub_eqD [OF t6, simplified]
  have "scrub s' = scrub (dispatched s pid ?cons (sealed aid sid pid ?h (next_number pid s) (now s))
      (receipt rid aid ?h (now s) sealer) profs rec)"
    using t6 t5(1) t3(1)
    by (simp add: s' dispatched_def with_step_state_def t6' t5' t4 t3' t3(2) h3 nn)
  then have "export_effect c aid cp sid pid sealer sched p e ?h ?did s s'"
    unfolding export_effect_def
    using pre(1-4) s3(2) s3(5,6) [unfolded t3'] rec(2) [unfolded t5' t4, simplified, unfolded t3']
      rec(1) can prof
    by (intro conjI exI [of _ ds] exI [of _ rid] exI [of _ xid] exI [of _ ?prof] exI [of _ profs])
      simp_all
  with x 10 out h3 nn t3(2) env2 show ?thesis
    by (intro exI [of _ sched] exI [of _ p] exI [of _ e] exI [of _ ?h] exI [of _ ?did]
          conjI exI [of _ sel] exI [of _ handoff]) simp_all
qed

end
