(* ===== verification/ReturnRuns.thy ===== *)
theory ReturnRuns
  imports Runs
begin

text \<open>
  The successful runs of the operations that follow a dispatch: the import of a return, the
  completion of a schedule, the control actions, the pause of a blocked gate, the grant and the
  revocation of a delegation and the issue of an opinion.
\<close>

section \<open>Completion and pause\<close>

definition event_row ::
  "uuid \<Rightarrow> uuid \<Rightarrow> uuid option \<Rightarrow> control_event_kind \<Rightarrow> control_reason_code \<Rightarrow>
   stop_condition_category option \<Rightarrow> pystr \<Rightarrow> int \<Rightarrow> control_event" where
  "event_row eid sid pid kind reason category cp t =
     \<lparr>evt_id = eid, evt_schedule_id = sid, evt_step_id = pid, evt_kind = kind, evt_reason = reason,
      evt_category = category, evt_declared_by = cp, evt_occurred_at = t\<rparr>"

lemma create_control_event_run:
  "create_control_event eid cp sid pid kind reason category decl t s = (Inr e, s') \<Longrightarrow>
   e = event_row eid sid pid kind reason category decl t \<and> owned s cp sid \<and>
   s' = s\<lparr>events := events s @ [e]\<rparr>"
  by (auto simp: create_control_event_def Let_def run_iffs event_row_def owned_iff dest!: found)

lemma all_steps_returned_run:
  "all_steps_returned cp sid s = (Inr b, s') \<Longrightarrow> owned s cp sid \<Longrightarrow>
   s' = s \<and> b = (\<forall>p \<in> set (steps s). stp_schedule_id p = sid \<longrightarrow> stp_state p = RETURNED)"
  by (auto simp: all_steps_returned_def gets_def count_where_0)

text \<open>
  The schedule of the principal is completed exactly when it is active and all its steps returned.
\<close>

definition completes :: "store \<Rightarrow> pystr \<Rightarrow> uuid \<Rightarrow> bool" where
  "completes s cp sid \<longleftrightarrow> (\<exists>a. schedule_of s cp sid a \<and> sch_state a = ACTIVE) \<and>
     (\<forall>p \<in> set (steps s). stp_schedule_id p = sid \<longrightarrow> stp_state p = RETURNED)"

lemma schedule_of_unique:
  "wf_store s \<Longrightarrow> schedule_of s cp sid a \<Longrightarrow> schedule_of s cp' sid b \<Longrightarrow> a = b"
  by (auto simp: schedule_of_def intro: wf_schedule_unique)

lemma complete_run:
  assumes "complete_if_all_returned cp sid s = (Inr r, s')" and wf: "wf_store s"
  shows "if completes s cp sid
    then \<exists>eid. r = Some (event_row eid sid None EVENT_COMPLETED ALL_STEPS_RETURNED None cp (now s)) \<and>
      s' = (with_schedule_state sid COMPLETED s)\<lparr>events := events s @ [the r], drawn := Suc (drawn s)\<rparr>
    else r = None \<and> s' = s"
proof -
  from assms(1) obtain x where x: "lock_schedule cp sid s = (Inr x, s)" and
    rest: "(case x of
       None \<Rightarrow> ret None
     | Some a \<Rightarrow>
         if sch_state a \<noteq> ACTIVE then ret None
         else
           bnd (all_steps_returned cp sid) (\<lambda>todas.
           if \<not> todas then ret None
           else
             bnd (set_schedule_state cp sid COMPLETED) (\<lambda>_.
             bnd draw_uuid (\<lambda>event_id.
             bnd database_now (\<lambda>t.
             bnd (create_control_event event_id cp sid None EVENT_COMPLETED ALL_STEPS_RETURNED None cp t)
               (\<lambda>evento. ret (Some evento))))))) s = (Inr r, s')"
    by (auto simp: complete_if_all_returned_def bnd_read [OF unchanged_queries(2)])
  show ?thesis
  proof (cases x)
    case None
    then have "\<not> schedule_of s cp sid a" for a
      using x by (auto simp: query_defs run_iffs schedule_of_def filter_empty_conv)
    with rest None show ?thesis by (simp add: completes_def ret_eq_iff)
  next
    case (Some a)
    with x found_schedule(2) have a: "schedule_of s cp sid a" by blast
    then have o: "owned s cp sid" by (auto simp: owned_iff)
    show ?thesis
    proof (cases "sch_state a = ACTIVE")
      case False
      with schedule_of_unique [OF wf a] have "\<not> completes s cp sid" by (auto simp: completes_def)
      with rest Some False show ?thesis by (simp add: ret_eq_iff)
    next
      case True
      with rest Some obtain todas where t: "all_steps_returned cp sid s = (Inr todas, s)"
        and rest: "(if \<not> todas then ret None
           else
             bnd (set_schedule_state cp sid COMPLETED) (\<lambda>_.
             bnd draw_uuid (\<lambda>event_id.
             bnd database_now (\<lambda>t.
             bnd (create_control_event event_id cp sid None EVENT_COMPLETED ALL_STEPS_RETURNED None cp t)
               (\<lambda>evento. ret (Some evento)))))) s = (Inr r, s')"
        by (auto simp: bnd_read [OF unchanged_queries(22)])
      have c: "completes s cp sid = todas"
        using all_steps_returned_run [OF t o] a True by (auto simp: completes_def)
      show ?thesis
      proof (cases todas)
        case False
        with rest c show ?thesis by (simp add: ret_eq_iff)
      next
        case t: True
        with rest c show ?thesis
          by (auto simp: run_iffs database_now_def with_schedule_state_def
              dest!: set_schedule_state_run create_control_event_run)
      qed
    qed
  qed
qed

definition pause_event :: "uuid \<Rightarrow> uuid \<Rightarrow> uuid \<Rightarrow> control_reason_code \<Rightarrow> pystr \<Rightarrow> int \<Rightarrow> control_event" where
  "pause_event eid sid pid reason cp t = event_row eid sid (Some pid) EVENT_PAUSED reason None cp t"

lemma with_schedule_state_same:
  assumes "wf_store s" and "schedule_of s cp sid a"
  shows "with_schedule_state sid (sch_state a) s = s"
proof -
  have "b\<lparr>sch_state := sch_state a\<rparr> = b" if "b \<in> set (schedules s)" "sch_id b = sid" for b
    using wf_schedule_unique [OF assms(1), of a b] assms(2) that by (auto simp: schedule_of_def)
  then have "upd_where (\<lambda>b. sch_id b = sid) (\<lambda>b. b\<lparr>sch_state := sch_state a\<rparr>) (schedules s) = schedules s"
    unfolding upd_where_def by (intro map_idI) simp
  then show ?thesis by (simp add: with_schedule_state_def)
qed

definition paused :: "uuid \<Rightarrow> control_event \<Rightarrow> store \<Rightarrow> store" where
  "paused sid e s = (with_schedule_state sid PAUSED s)\<lparr>events := events s @ [e]\<rparr>"

lemma register_pause_run:
  assumes "register_pause cp sid pid reason s = (Inr r, s')" and wf: "wf_store s"
  shows "owned s cp sid \<and>
    ((r = None \<and> s' = s) \<or>
     (\<exists>a eid. schedule_of s cp sid a \<and> (sch_state a = ACTIVE \<or> sch_state a = PAUSED) \<and>
        scrub s' = scrub (paused sid (pause_event eid sid pid reason cp (now s)) s)))"
proof -
  let ?gravar = "bnd draw_uuid (\<lambda>event_id.
       bnd database_now (\<lambda>t.
       bnd (create_control_event event_id cp sid (Some pid) EVENT_PAUSED reason None cp t) (\<lambda>evento.
       ret (Some evento))))"
  from assms(1) obtain a where a: "schedule_of s cp sid a" and
    rest: "(if sch_state a = PAUSED then
          bnd (count_open_pause_events cp sid reason) (\<lambda>n. if n \<noteq> 0 then ret None else ?gravar)
        else if sch_state a = ACTIVE then
          bnd (set_schedule_state cp sid PAUSED) (\<lambda>_. ?gravar)
        else ret None) s = (Inr r, s')"
    by (auto simp: register_pause_def Let_def bnd_assoc bnd_read [OF unchanged_queries(2)]
        bnd_read [OF unchanged_require_some] require_some_iff dest!: found_schedule(2))
  have g: "\<exists>eid. scrub t' = scrub (t\<lparr>events := events t @ [pause_event eid sid pid reason cp (now t)]\<rparr>)"
    if "?gravar t = (Inr r, t')" for t t'
    using that by (auto simp: run_iffs database_now_def pause_event_def dest!: create_control_event_run)
  have o: "owned s cp sid" using a by (auto simp: owned_iff)
  consider (p) "sch_state a = PAUSED" | (q) "sch_state a = ACTIVE"
    | (n) "sch_state a \<noteq> PAUSED" "sch_state a \<noteq> ACTIVE" by blast
  then show ?thesis
  proof cases
    case n
    with rest o show ?thesis by (simp add: ret_eq_iff)
  next
    case q
    with rest obtain x where "?gravar (with_schedule_state sid PAUSED s) = (Inr r, s')"
      by (auto simp: bnd_eq_Inr [of "set_schedule_state cp sid PAUSED"] dest!: set_schedule_state_run)
    from g [OF this] show ?thesis
      using a o q by (auto simp: paused_def with_schedule_state_def)
  next
    case p
    from with_schedule_state_same [OF wf a] p have same: "with_schedule_state sid PAUSED s = s" by simp
    from p rest have "(r = None \<and> s' = s) \<or> ?gravar s = (Inr r, s')"
      by (auto simp: bnd_read [OF unchanged_queries(20)] ret_eq_iff split: if_splits)
    then show ?thesis using g a o p same by (fastforce simp: paused_def)
  qed
qed

section \<open>Control\<close>

text \<open>What a cancellation does to the content of a schedule.\<close>

definition live_step :: "uuid \<Rightarrow> schedule_step \<Rightarrow> bool" where
  "live_step sid p \<longleftrightarrow> stp_schedule_id p = sid \<and> (stp_state p = PENDING \<or> stp_state p = AWAITING_RETURN)"

definition open_attempt :: "uuid \<Rightarrow> handoff_attempt \<Rightarrow> bool" where
  "open_attempt sid a \<longleftrightarrow> att_schedule_id a = sid \<and> att_state a = OPEN"

definition cancelled :: "uuid \<Rightarrow> store \<Rightarrow> store" where
  "cancelled sid s =
     s\<lparr>steps := upd_where (live_step sid) (\<lambda>p. p\<lparr>stp_state := STEP_CANCELLED\<rparr>) (steps s),
       attempts := upd_where (open_attempt sid) (\<lambda>a. a\<lparr>att_state := CLOSED_CANCELLED\<rparr>) (attempts s)\<rparr>"

lemma upd_where_cong:
  "(\<And>r. r \<in> set t \<Longrightarrow> P r = Q r) \<Longrightarrow> upd_where P f t = upd_where Q f t"
  by (simp add: upd_where_def)

text \<open>An update by the keys of some rows is an update of those rows.\<close>

lemma upd_where_by_key:
  assumes "distinct (map k t)"
  shows "upd_where (\<lambda>r. k r \<in> k ` {r \<in> set t. P r}) f t = upd_where P f t"
proof (rule upd_where_cong)
  fix r assume "r \<in> set t"
  with assms show "(k r \<in> k ` {r \<in> set t. P r}) = P r"
    by (auto dest: distinct_map_inj)
qed

lemma wf_distinct_ids:
  "wf_store s \<Longrightarrow> distinct (map stp_id (steps s))"
  "wf_store s \<Longrightarrow> distinct (map att_id (attempts s))"
  by (simp_all add: wf_store_def wf_steps_def wf_attempts_def rows_ok_def)

lemma set_steps_run:
  assumes "for_each (\<lambda>p. bnd (set_step_state cp sid (stp_id p) st) (\<lambda>_. ret ())) ps s = (Inr u, s')"
  shows "s' = s\<lparr>steps := upd_where (\<lambda>p. stp_id p \<in> stp_id ` set ps) (\<lambda>p. p\<lparr>stp_state := st\<rparr>) (steps s)\<rparr>"
  using assms
proof (induction ps arbitrary: s)
  case Nil
  then show ?case by (simp add: run_iffs upd_where_id)
next
  case (Cons p ps)
  from Cons.prems obtain t where
    t: "t = with_step_state (stp_id p) st s" and
    2: "for_each (\<lambda>p. bnd (set_step_state cp sid (stp_id p) st) (\<lambda>_. ret ())) ps t = (Inr u, s')"
    by (auto simp: run_iffs dest!: set_step_state_run)
  from Cons.IH [OF 2] show ?case
    by (auto simp: t with_step_state_def upd_where_def)
qed

lemma set_attempts_run:
  assumes "for_each (\<lambda>a. bnd (set_attempt_state cp sid (att_id a) st) (\<lambda>_. ret ())) as s = (Inr u, s')"
  shows "s' = s\<lparr>attempts :=
    upd_where (\<lambda>a. att_id a \<in> att_id ` set as) (\<lambda>a. a\<lparr>att_state := st\<rparr>) (attempts s)\<rparr>"
  using assms
proof (induction as arbitrary: s)
  case Nil
  then show ?case by (simp add: run_iffs upd_where_id)
next
  case (Cons a as)
  from Cons.prems obtain t where
    t: "t = with_attempt_state (att_id a) st s" and
    2: "for_each (\<lambda>a. bnd (set_attempt_state cp sid (att_id a) st) (\<lambda>_. ret ())) as t = (Inr u, s')"
    by (auto simp: run_iffs dest!: set_attempt_state_run)
  from Cons.IH [OF 2] show ?case
    by (auto simp: t with_attempt_state_def upd_where_def)
qed

lemma cancelar_run:
  assumes "cancelar_conteudo cp sid s = (Inr n, s')" and wf: "wf_store s" and o: "owned s cp sid"
  shows "s' = cancelled sid s \<and>
    n = (length (filter (live_step sid) (steps s)), length (filter (open_attempt sid) (attempts s)))"
proof -
  let ?alvo = "filter (\<lambda>p. stp_state p = PENDING \<or> stp_state p = AWAITING_RETURN)
    (sort_key (\<lambda>p. (stp_position p, stp_id p)) (filter (\<lambda>p. stp_schedule_id p = sid) (steps s)))"
  let ?abertas = "\<lambda>t. sort_key (\<lambda>a. (att_created_at a, att_id a))
    (filter (\<lambda>a. att_schedule_id a = sid \<and> att_state a = OPEN) (attempts t))"
  from assms(1) obtain ps t ab u v where
    0: "list_steps cp sid s = (Inr ps, s)" and
    1: "for_each (\<lambda>p. bnd (set_step_state cp sid (stp_id p) STEP_CANCELLED) (\<lambda>_. ret ()))
        (filter (\<lambda>p. stp_state p = PENDING \<or> stp_state p = AWAITING_RETURN) ps) s = (Inr u, t)" and
    11: "list_open_attempts_of_schedule cp sid t = (Inr ab, t)" and
    2: "for_each (\<lambda>a. bnd (set_attempt_state cp sid (att_id a) CLOSED_CANCELLED) (\<lambda>_. ret ()))
        ab t = (Inr v, s')" and
    n: "n = (length (filter (\<lambda>p. stp_state p = PENDING \<or> stp_state p = AWAITING_RETURN) ps), length ab)"
    unfolding cancelar_conteudo_def Let_def
    by (auto simp: bnd_read [OF unchanged_queries(3)] bnd_read [OF unchanged_queries(21)]
        bnd_eq_Inr [of "for_each f xs" for f xs] ret_eq_iff)
  have ps: "filter (\<lambda>p. stp_state p = PENDING \<or> stp_state p = AWAITING_RETURN) ps = ?alvo"
    using 0 o by (auto simp: list_steps_def gets_eq_iff)
  note 1 = 1 [unfolded ps]
  have "owned t cp sid" using o set_steps_run [OF 1] by (simp add: owned_def)
  with 11 have ab: "ab = ?abertas t"
    by (auto simp: list_open_attempts_of_schedule_def gets_eq_iff)
  note 2 = 2 [unfolded ab]
  note n = n [unfolded ps ab]
  have sa: "set ?alvo = {p \<in> set (steps s). live_step sid p}"
    by (auto simp: live_step_def)
  have t: "t = s\<lparr>steps := upd_where (live_step sid) (\<lambda>p. p\<lparr>stp_state := STEP_CANCELLED\<rparr>) (steps s)\<rparr>"
    unfolding set_steps_run [OF 1] sa by (simp add: upd_where_by_key wf_distinct_ids wf)
  have sb: "set (?abertas t) = {a \<in> set (attempts s). open_attempt sid a}"
    by (auto simp: t open_attempt_def)
  have s': "s' = cancelled sid s"
    unfolding set_attempts_run [OF 2] sb cancelled_def t
    by (simp add: upd_where_by_key wf_distinct_ids wf open_attempt_def [abs_def])
  have "length ?alvo = length (filter (live_step sid) (steps s))"
    by (simp add: filter_sort live_step_def [abs_def] conj_commute)
  moreover have "length (?abertas t) = length (filter (open_attempt sid) (attempts s))"
    by (simp add: t open_attempt_def [abs_def])
  ultimately show ?thesis using s' n by simp
qed

text \<open>The session a control action leaves, before the event is recorded.\<close>

definition controlled :: "uuid \<Rightarrow> pystr \<Rightarrow> schedule_state \<Rightarrow> store \<Rightarrow> store" where
  "controlled sid action st s =
     with_schedule_state sid st (if action = pys ''cancel'' then cancelled sid s else s)"

lemma apply_control_run:
  assumes "apply_control cp sid action eid category s = (Inr r, s')" and wf: "wf_store s"
  shows "\<exists>a st kind reason.
    schedule_of s cp sid a \<and> ACAO_DESTINO action = Some st \<and> ACAO_EVENTO action = Some kind \<and>
    (sch_state a, st) \<in> E7_3_IMPLEMENTED_SCHEDULE_TRANSITIONS \<and>
    control_motivo action category = Inr reason \<and>
    r = \<lparr>co_schedule_id = sid, co_schedule_state = st,
         co_event = event_row eid sid None kind reason category cp (now s),
         co_cancelled_steps = (if action = pys ''cancel'' then length (filter (live_step sid) (steps s)) else 0),
         co_closed_attempts = (if action = pys ''cancel''
           then length (filter (open_attempt sid) (attempts s)) else 0)\<rparr> \<and>
    s' = (controlled sid action st s)\<lparr>events := events s @ [co_event r]\<rparr>"
proof -
  from assms(1) obtain a st kind reason t t2 n ev x where
    a: "schedule_of s cp sid a" "ACAO_DESTINO action = Some st" "ACAO_EVENTO action = Some kind"
      "(sch_state a, st) \<in> E7_3_IMPLEMENTED_SCHEDULE_TRANSITIONS"
      "control_motivo action category = Inr reason" and
    n: "(if action = pys ''cancel'' then cancelar_conteudo cp sid else ret (0, 0)) s = (Inr n, t)" and
    st: "set_schedule_state cp sid st t = (Inr x, t2)" and
    ev: "create_control_event eid cp sid None kind reason category cp (now t2) t2 = (Inr ev, s')" and
    r: "r = \<lparr>co_schedule_id = sid, co_schedule_state = st, co_event = ev,
          co_cancelled_steps = fst n, co_closed_attempts = snd n\<rparr>"
    unfolding apply_control_def bnd_assoc
    by (auto simp: bnd_read [OF unchanged_queries(2)] bnd_read [OF unchanged_require_some]
        require_some_iff bnd_read [OF unchanged_require] require_eq_iff bnd_read [OF unchanged_lift_sum]
        lift_sum_eq_iff bnd_eq_Inr [of "if b then m else m'" for b m m']
        bnd_eq_Inr [of "set_schedule_state cp sid st" for st] database_now_def
        bnd_read [OF unchanged_gets] gets_eq_iff
        bnd_eq_Inr [of "create_control_event e cp sid p k r c d t" for e p k r c d t] ret_eq_iff
        dest!: found_schedule(2) split: prod.splits)
  have t2: "t2 = with_schedule_state sid st t" using set_schedule_state_run [OF st] by simp
  have o: "owned s cp sid" using a(1) by (auto simp: owned_iff)
  have t: "t = (if action = pys ''cancel'' then cancelled sid s else s) \<and>
    n = (if action = pys ''cancel'' then (length (filter (live_step sid) (steps s)),
      length (filter (open_attempt sid) (attempts s))) else (0, 0))"
    using n cancelar_run [OF _ wf o] by (auto simp: ret_eq_iff split: if_splits)
  show ?thesis
    using a create_control_event_run [OF ev] r t
    by (intro exI [of _ a] exI [of _ st] exI [of _ kind] exI [of _ reason])
      (auto simp: t2 controlled_def with_schedule_state_def cancelled_def)
qed

section \<open>Delegations\<close>

definition revocable :: "uuid \<Rightarrow> uuid \<Rightarrow> pystr \<Rightarrow> service_delegation \<Rightarrow> bool" where
  "revocable sid pid scope d \<longleftrightarrow> dlg_schedule_id d = sid \<and> dlg_step_id d = pid \<and>
     dlg_scope d = scope \<and> dlg_state d = DELEGATION_ACTIVE"

definition revoke_all :: "uuid \<Rightarrow> uuid \<Rightarrow> pystr \<Rightarrow> service_delegation list \<Rightarrow> service_delegation list" where
  "revoke_all sid pid scope = upd_where (revocable sid pid scope) (\<lambda>d. d\<lparr>dlg_state := REVOKED\<rparr>)"

lemma revoke_active_run:
  "revoke_active_delegations cp sid pid scope s = (Inr n, s') \<Longrightarrow>
   s' = s\<lparr>delegations := revoke_all sid pid scope (delegations s)\<rparr>"
  by (auto simp: revoke_active_delegations_def update_delegations_def revoke_all_def
      revocable_def [abs_def] run_iffs dest!: found)

definition delegation_row ::
  "uuid \<Rightarrow> uuid \<Rightarrow> uuid \<Rightarrow> pystr \<Rightarrow> pystr \<Rightarrow> int \<Rightarrow> int \<Rightarrow> service_delegation" where
  "delegation_row did sid pid h cp until t =
     \<lparr>dlg_id = did, dlg_schedule_id = sid, dlg_step_id = pid, dlg_content_sha256 = h,
      dlg_scope = GATE_SCOPE_DISPATCH, dlg_granted_by = cp, dlg_valid_until = until,
      dlg_state = DELEGATION_ACTIVE, dlg_consumed_at = None, dlg_consumed_by = None,
      dlg_created_at = t\<rparr>"

lemma fresh_map: "fresh k x t \<longleftrightarrow> x \<notin> set (map k t)"
  by (auto simp: fresh_def)

lemma scope_delegations [simp]:
  "owned (s\<lparr>delegations := ds\<rparr>) cp sid = owned s cp sid"
  "step_of (s\<lparr>delegations := ds\<rparr>) sid pid p = step_of s sid pid p"
  by (simp_all add: owned_def step_of_def)

lemma grant_run:
  assumes "grant_delegation cp sid pid valid_until did s = (Inr d, s')" and wf: "wf_store s"
  shows "\<exists>p e h g. owned s cp sid \<and> step_of s sid pid p \<and>
    gate_requirement (stp_constraints p) = Inr (Some g) \<and> tz_aware valid_until \<and>
    instant valid_until > now s \<and> envelope_of_step sid pid p = Inr e \<and> content_sha256 e = Inr h \<and>
    d = delegation_row did sid pid h cp (instant valid_until) (now s) \<and>
    fresh dlg_id did (delegations s) \<and>
    s' = s\<lparr>delegations := revoke_all sid pid GATE_SCOPE_DISPATCH (expire sid pid s) @ [d]\<rparr>"
proof -
  have ids: "fresh dlg_id i (revoke_all sid pid scope (expire sid pid s)) = fresh dlg_id i (delegations s)"
    for i scope
    by (simp add: fresh_map revoke_all_def expire_def map_upd_where del: set_map)
  let ?ds = "revoke_all sid pid GATE_SCOPE_DISPATCH (expire sid pid s)"
  from assms(1) obtain p q e h g where
    1: "owned s cp sid" "step_of s sid pid p" "gate_requirement (stp_constraints p) = Inr (Some g)"
      "tz_aware valid_until" "instant valid_until > now s" "step_of s sid pid q"
      "envelope_of_step sid pid q = Inr e" "content_sha256 e = Inr h" and
    2: "create_delegation cp did sid pid h GATE_SCOPE_DISPATCH cp (instant valid_until)
      (s\<lparr>delegations := ?ds\<rparr>) = (Inr d, s')"
    by (auto simp: grant_delegation_def run_iffs database_now_def
        dest!: found build_envelope_content_run expire_run revoke_active_run)
  have "q = p" using wf_step_unique [OF wf] 1 by (auto simp: step_of_def)
  moreover have "d = delegation_row did sid pid h cp (instant valid_until) (now s) \<and>
      fresh dlg_id did (delegations s) \<and> s' = s\<lparr>delegations := ?ds @ [d]\<rparr>"
    using 2 by (auto simp: create_delegation_def Let_def run_iffs delegation_row_def
        check_delegation_def first_some_None ids dest!: found)
  ultimately show ?thesis using 1 by auto
qed

lemma revoke_run:
  assumes "revoke_delegation cp sid pid did s = (Inr d, s')"
  shows "owned s cp sid \<and> d \<in> set (delegations s) \<and> dlg_id d = did \<and> dlg_schedule_id d = sid \<and>
    dlg_step_id d = pid \<and> dlg_state d = DELEGATION_ACTIVE \<and>
    s' = s\<lparr>delegations := revoke_all sid pid (dlg_scope d) (delegations s)\<rparr>"
proof -
  have g: "get_delegation cp sid did s = (Inr (Some d), s') \<Longrightarrow>
      s' = s \<and> d \<in> set (delegations s) \<and> dlg_id d = did \<and> dlg_schedule_id d = sid \<and> owned s cp sid"
    for s d s'
    by (auto simp: query_defs run_iffs dest: filter_eq_single(1,2))
  from assms show ?thesis
    by (auto simp: revoke_delegation_def run_iffs dest!: g revoke_active_run
        dest: unchangedD [OF unchanged_queries(16)])
qed

section \<open>Returns\<close>

definition result_row ::
  "uuid \<Rightarrow> uuid \<Rightarrow> pystr \<Rightarrow> pystr option \<Rightarrow> validated_output \<Rightarrow> handoff_result" where
  "result_row rid aid contract ref out =
     \<lparr>res_id = rid, res_attempt_id = aid,
      res_status = (if accepted out then VALIDATED else RESULT_REJECTED), res_contract = contract,
      res_media_type = media_type out, res_sha256 = output_sha256 out,
      res_bytes = int (output_bytes out), res_declared_ref = ref, res_codes = validation_codes out\<rparr>"

definition attribution_row ::
  "uuid \<Rightarrow> uuid \<Rightarrow> pystr \<Rightarrow> declared_attribution \<Rightarrow> int \<Rightarrow> handoff_attribution" where
  "attribution_row tid aid role' d t =
     \<lparr>atr_id = tid, atr_attempt_id = aid, atr_role = role', atr_provider = declared_provider_id d,
      atr_model = declared_model_id d, atr_instance = declared_instance_id d, atr_declared_at = t,
      atr_self_declared = True\<rparr>"

definition switch_row ::
  "uuid \<Rightarrow> uuid \<Rightarrow> uuid \<Rightarrow> uuid \<Rightarrow> uuid \<Rightarrow> pystr option \<Rightarrow> pystr option \<Rightarrow> int \<Rightarrow> execution_observation" where
  "switch_row oid sid pid prev cur pp cpr t =
     \<lparr>obs_id = oid, obs_schedule_id = sid, obs_step_id = pid, obs_kind = DECLARED_PROVIDER_SWITCH,
      obs_previous_attempt = prev, obs_current_attempt = cur, obs_previous_provider = pp,
      obs_current_provider = cpr, obs_self_declared = True, obs_observed_at = t\<rparr>"

lemma import_preconditions_run:
  assumes "import_preconditions cp sid pid aid raw s = (Inr p, s')"
  shows "s' = s \<and> owned s cp sid \<and> step_of s sid pid p \<and> stp_state p = AWAITING_RETURN \<and>
    (\<exists>a. attempt_of s sid aid a \<and> att_step_id a = pid \<and> att_state a = OPEN) \<and>
    (\<forall>ref. raw_declared_output_ref raw = Some ref \<longrightarrow> length ref \<le> MAX_DECLARED_REF_LENGTH)"
  using assms by (auto simp: import_preconditions_def run_iffs dest!: found)

lemma get_last_attribution_run:
  assumes "get_last_attribution_before cp sid pid aid s = (Inr (Some r), s')"
  shows "s' = s \<and> r \<in> set (attributions s) \<and> (\<exists>a \<in> set (attempts s). att_id a = atr_attempt_id r \<and>
    att_step_id a = pid \<and> att_schedule_id a = sid \<and> att_id a \<noteq> aid)"
proof -
  let ?pairs = "\<lambda>t. filter (\<lambda>(r, a). att_id a = atr_attempt_id r \<and> att_step_id a = pid \<and>
      att_schedule_id a = sid \<and> att_id a \<noteq> aid \<and> att_created_at a \<le> t \<and> owned s cp sid)
    (List.product (attributions s) (attempts s))"
  from assms obtain t where s': "s' = s" and
    r: "sort_key (\<lambda>(r, a). (att_created_at a, att_id a)) (?pairs t) \<noteq> []"
      "r = fst (last (sort_key (\<lambda>(r, a). (att_created_at a, att_id a)) (?pairs t)))"
    by (auto simp: get_last_attribution_before_def Let_def run_iffs split: option.splits if_splits)
  have "last (sort_key (\<lambda>(r, a). (att_created_at a, att_id a)) (?pairs t)) \<in> set (?pairs t)"
    using last_in_set [OF r(1)] by simp
  with r(2) s' show ?thesis by auto
qed

lemma observar_run:
  assumes "observar_troca_de_provedor cp sid pid aid prov s = (Inr u, s')"
  shows "\<exists>obs. length obs \<le> 1 \<and> scrub s' = scrub (s\<lparr>observations := observations s @ obs\<rparr>) \<and>
    now s' = now s \<and>
    (\<forall>e \<in> set obs. \<exists>oid prev. e = switch_row oid sid pid (atr_attempt_id prev) aid (atr_provider prev)
       prov (now s) \<and> prev \<in> set (attributions s) \<and> atr_provider prev \<noteq> prov)"
proof -
  from assms obtain x where x: "get_last_attribution_before cp sid pid aid s = (Inr x, s)" and
    rest: "(case x of
       None \<Rightarrow> ret ()
     | Some a \<Rightarrow>
         if atr_provider a = prov then ret ()
         else
           bnd database_now (\<lambda>t.
           bnd (create_execution_observation cp sid pid DECLARED_PROVIDER_SWITCH
                  (atr_attempt_id a) aid (atr_provider a) prov t) (\<lambda>_. ret ()))) s = (Inr u, s')"
    by (auto simp: observar_troca_de_provedor_def bnd_read [OF unchanged_queries(27)])
  show ?thesis
  proof (cases "\<exists>a. x = Some a \<and> atr_provider a \<noteq> prov")
    case False
    with rest have "s' = s" by (auto simp: ret_eq_iff split: option.splits)
    then show ?thesis by (intro exI [of _ "[]"]) simp
  next
    case True
    then obtain a where a: "x = Some a" "atr_provider a \<noteq> prov" by blast
    with rest obtain e where
      "create_execution_observation cp sid pid DECLARED_PROVIDER_SWITCH (atr_attempt_id a) aid
        (atr_provider a) prov (now s) s = (Inr e, s')"
      by (auto simp: run_iffs database_now_def)
    then have "e = switch_row (entropy s (drawn s)) sid pid (atr_attempt_id a) aid (atr_provider a) prov (now s) \<and>
        s' = s\<lparr>observations := observations s @ [e], drawn := Suc (drawn s)\<rparr>"
      by (auto simp: create_execution_observation_def Let_def run_iffs switch_row_def dest!: found)
    moreover have "a \<in> set (attributions s)" using get_last_attribution_run x a by blast
    ultimately show ?thesis
      using a(2) by (intro exI [of _ "[e]"])
        (auto intro!: exI [of _ "entropy s (drawn s)"] exI [of _ a])
  qed
qed

text \<open>
  The session an import leaves: the result, the attribution, the closed attempt, at most one
  observation, and, when the return was accepted, the step returned and the schedule completed
  if that was its last step.
\<close>

definition imported ::
  "uuid \<Rightarrow> validated_output \<Rightarrow> handoff_result \<Rightarrow> handoff_attribution \<Rightarrow>
   execution_observation list \<Rightarrow> store \<Rightarrow> store" where
  "imported aid out r t obs s =
     with_attempt_state aid (if accepted out then CLOSED_OK else CLOSED_REJECTED)
       (s\<lparr>results := results s @ [r], attributions := attributions s @ [t],
          observations := observations s @ obs\<rparr>)"

definition completed :: "uuid \<Rightarrow> control_event \<Rightarrow> store \<Rightarrow> store" where
  "completed sid e s = (with_schedule_state sid COMPLETED s)\<lparr>events := events s @ [e]\<rparr>"

definition advanced :: "pystr \<Rightarrow> uuid \<Rightarrow> uuid \<Rightarrow> uuid \<Rightarrow> int \<Rightarrow> store \<Rightarrow> store" where
  "advanced cp sid pid eid t s =
     (let s1 = with_step_state pid RETURNED s in
      if completes s1 cp sid
      then completed sid (event_row eid sid None EVENT_COMPLETED ALL_STEPS_RETURNED None cp t) s1
      else s1)"

lemma create_handoff_result_run:
  assumes "create_handoff_result cp sid aid (if accepted out then VALIDATED else RESULT_REJECTED)
      contract out ref s = (Inr r, s')"
    and "canonical_validation_codes (PySeq (map PyStr (validation_codes out))) = Inr (validation_codes out)"
  shows "r = result_row (entropy s (drawn s)) aid contract ref out \<and>
    fresh res_attempt_id aid (results s) \<and>
    s' = s\<lparr>results := results s @ [r], drawn := Suc (drawn s)\<rparr>"
  using assms
  by (auto simp: create_handoff_result_def Let_def run_iffs result_row_def require_attempt_def
      query_defs check_result_def first_some_None fresh_def)

lemma create_handoff_attribution_run:
  assumes "create_handoff_attribution cp sid aid role' (declared_provider_id d) (declared_model_id d)
      (declared_instance_id d) t s = (Inr r, s')"
  shows "r = attribution_row (entropy s (drawn s)) aid role' d t \<and>
    fresh atr_attempt_id aid (attributions s) \<and>
    s' = s\<lparr>attributions := attributions s @ [r], drawn := Suc (drawn s)\<rparr>"
  using assms
  by (auto simp: create_handoff_attribution_def Let_def run_iffs attribution_row_def
      require_attempt_def query_defs check_attribution_def first_some_None fresh_def)

text \<open>A verdict has no code when it accepts and exactly one of the vocabulary when it rejects.\<close>

definition verdict_shape :: "validated_output \<Rightarrow> bool" where
  "verdict_shape out \<longleftrightarrow>
     (if accepted out then validation_codes out = []
      else \<exists>c \<in> VALIDATION_CODES. validation_codes out = [c])"

lemma verdict_shape_parts:
  "rejeitar bs media [c] = Inr out \<Longrightarrow> c \<in> VALIDATION_CODES \<Longrightarrow> verdict_shape out"
  "aceitar bs media = Inr out \<Longrightarrow> verdict_shape out"
  by (auto simp: rejeitar_code aceitar_ok verdict_shape_def)

lemma verdict_shape_json:
  "validate_json_object fl ld dd bs media content = Inr out \<Longrightarrow> verdict_shape out"
  unfolding validate_json_object_def
  by (auto dest: verdict_shape_parts
      split: sum.split_asm scan_error.split_asm json.split_asm option.split_asm dump_error.split_asm)

lemma validate_output_shape:
  assumes "validate_output fl ld dd contract media v = Inr out"
  shows "verdict_shape out"
proof -
  from assms obtain content where v: "v = PyStr content"
    by (auto simp: validate_output_def andthen_eq_Inr expect_str_iff)
  from assms show ?thesis
    unfolding v validate_output_def expect_str.simps andthen.simps
    by (cases "utf8 content"; cases "CONTRACT_MEDIA_TYPES contract")
      (auto dest: verdict_shape_parts verdict_shape_json split: if_split_asm)
qed

lemma verdict_codes_canonical:
  assumes "validate_output fl ld dd contract media v = Inr out"
  shows "canonical_validation_codes (PySeq (map PyStr (validation_codes out))) = Inr (validation_codes out)"
  using validate_output_shape [OF assms]
  by (auto simp: canonical_validation_codes_def code_loop_PyStr verdict_shape_def split: if_split_asm)

lemma completes_scrub:
  assumes "scrub s = scrub t"
  shows "completes s cp sid = completes t cp sid"
  by (simp add: completes_def schedule_of_def scrub_eqD [OF assms])

lemma advanced_scrub:
  assumes "scrub s = scrub t"
  shows "scrub (advanced cp sid pid eid n s) = scrub (advanced cp sid pid eid n t)"
proof -
  have "scrub (with_step_state pid RETURNED s) = scrub (with_step_state pid RETURNED t)"
    using assms by (simp add: with_step_state_def scrub_eqD [OF assms])
  from completes_scrub [OF this] scrub_eqD [OF assms] assms show ?thesis
    by (simp add: advanced_def Let_def completed_def with_step_state_def with_schedule_state_def)
qed

lemma advance_tail_run:
  assumes "(if b
          then bnd (set_step_state cp sid pid RETURNED) (\<lambda>_.
               bnd (complete_if_all_returned cp sid) (\<lambda>_. ret RETURNED))
          else ret AWAITING_RETURN) s = (Inr z, s')" and wf: "wf_store s"
  shows "z = (if b then RETURNED else AWAITING_RETURN) \<and>
    (\<exists>eid. scrub s' = scrub (if b then advanced cp sid pid eid (now s) s else s))"
proof (cases b)
  case False
  with assms(1) show ?thesis by (simp add: ret_eq_iff)
next
  case True
  with assms(1) obtain x t r where 1: "set_step_state cp sid pid RETURNED s = (Inr x, t)"
    and 2: "complete_if_all_returned cp sid t = (Inr r, s')" and z: "z = RETURNED"
    by (auto simp: bnd_eq_Inr ret_eq_iff)
  have t: "t = with_step_state pid RETURNED s" using set_step_state_run [OF 1] by simp
  have wf': "wf_store t" by (rule wfD [OF wfi.keeps_set_step_state 1 wf])
  have "now t = now s" by (simp add: t with_step_state_def)
  with complete_run [OF 2 wf'] show ?thesis
    unfolding z advanced_def Let_def t [symmetric] completed_def using True
    by (auto split: if_split_asm)
qed

lemma import_return_run:
  assumes "import_return rt cp sid pid aid raw d s = (Inr x, s')" and wf: "wf_store s"
  shows "\<exists>p a out rid tid obs eid.
    owned s cp sid \<and> step_of s sid pid p \<and> stp_state p = AWAITING_RETURN \<and>
    attempt_of s sid aid a \<and> att_step_id a = pid \<and> att_state a = OPEN \<and>
    validate_output (float_of rt) (load_depth rt) (dump_depth rt) (stp_output_contract p)
      (raw_media_type raw) (PyStr (raw_content raw)) = Inr out \<and>
    fresh res_attempt_id aid (results s) \<and> fresh atr_attempt_id aid (attributions s) \<and>
    length obs \<le> 1 \<and>
    (\<forall>e \<in> set obs. \<exists>oid prev. e = switch_row oid sid pid (atr_attempt_id prev) aid (atr_provider prev)
       (declared_provider_id d) (now s) \<and>
       prev \<in> set (attributions s @ [attribution_row tid aid (stp_role p) d (now s)]) \<and>
       atr_provider prev \<noteq> declared_provider_id d) \<and>
    ro_result x = result_row rid aid (stp_output_contract p) (raw_declared_output_ref raw) out \<and>
    ro_attribution x = attribution_row tid aid (stp_role p) d (now s) \<and>
    ro_attempt_state x = (if accepted out then CLOSED_OK else CLOSED_REJECTED) \<and>
    ro_step_state x = (if accepted out then RETURNED else AWAITING_RETURN) \<and>
    scrub s' = scrub (let s1 = imported aid out (ro_result x) (ro_attribution x) obs s
      in if accepted out then advanced cp sid pid eid (now s) s1 else s1)"
proof -
  let ?st = "\<lambda>out. if accepted out then CLOSED_OK else CLOSED_REJECTED"
  from assms(1) obtain p out r s1 t s2 y s3 u s4 z where
    0: "import_preconditions cp sid pid aid raw s = (Inr p, s)" and
    v: "validate_output (float_of rt) (load_depth rt) (dump_depth rt) (stp_output_contract p)
      (raw_media_type raw) (PyStr (raw_content raw)) = Inr out" and
    1: "create_handoff_result cp sid aid (if accepted out then VALIDATED else RESULT_REJECTED)
      (stp_output_contract p) out (raw_declared_output_ref raw) s = (Inr r, s1)" and
    2: "create_handoff_attribution cp sid aid (stp_role p) (declared_provider_id d)
      (declared_model_id d) (declared_instance_id d) (now s1) s1 = (Inr t, s2)" and
    3: "set_attempt_state cp sid aid (?st out) s2 = (Inr y, s3)" and
    4: "observar_troca_de_provedor cp sid pid aid (declared_provider_id d) s3 = (Inr u, s4)" and
    5: "(if accepted out
          then bnd (set_step_state cp sid pid RETURNED) (\<lambda>_.
               bnd (complete_if_all_returned cp sid) (\<lambda>_. ret RETURNED))
          else ret AWAITING_RETURN) s4 = (Inr z, s')" and
    x: "x = \<lparr>ro_result = r, ro_attribution = t, ro_attempt_state = ?st out, ro_step_state = z\<rparr>"
    unfolding import_return_def Let_def
    by (auto simp: bnd_read [OF unchanged_services(4)] bnd_read [OF unchanged_lift_sum]
        lift_sum_eq_iff database_now_def bnd_read [OF unchanged_gets] gets_eq_iff
        bnd_eq_Inr [of "create_handoff_result a b c e f g h" for a b c e f g h]
        bnd_eq_Inr [of "create_handoff_attribution a b c e f g h i" for a b c e f g h i]
        bnd_eq_Inr [of "set_attempt_state a b c e" for a b c e]
        bnd_eq_Inr [of "observar_troca_de_provedor a b c e f" for a b c e f]
        bnd_eq_Inr [of "if b then m else m'" for b m m'] ret_eq_iff)
  note r1 = create_handoff_result_run [OF 1 verdict_codes_canonical [OF v]]
  note r2 = create_handoff_attribution_run [OF 2]
  from observar_run [OF 4] obtain obs where
    obs: "length obs \<le> 1" "scrub s4 = scrub (s3\<lparr>observations := observations s3 @ obs\<rparr>)"
      "now s4 = now s3"
      "\<forall>e \<in> set obs. \<exists>oid prev. e = switch_row oid sid pid (atr_attempt_id prev) aid (atr_provider prev)
       (declared_provider_id d) (now s3) \<and> prev \<in> set (attributions s3) \<and>
       atr_provider prev \<noteq> declared_provider_id d" by blast
  have s3: "s3 = with_attempt_state aid (?st out) s2"
    using set_attempt_state_run [OF 3] by simp
  have n3: "now s3 = now s" "attributions s3 = attributions s @ [t]"
    using r1 r2 by (simp_all add: s3 with_attempt_state_def)
  have s4: "scrub s4 = scrub (imported aid out r t obs s)"
    using r1 r2 obs(2) by (simp add: s3 imported_def with_attempt_state_def)
  have wf1: "wf_store s1" by (rule wfD [OF wfi.keeps_writers(6) 1 wf])
  have wf2: "wf_store s2" by (rule wfD [OF wfi.keeps_writers(7) 2 wf1])
  have wf3: "wf_store s3" by (rule wfD [OF wfi.keeps_set_attempt_state 3 wf2]) simp
  have wf4: "wf_store s4" by (rule wfD [OF wfi.keeps_import_services(1) 4 wf3])
  let ?s1 = "imported aid out r t obs s"
  have n4: "now s4 = now s" using obs(3) n3 by simp
  obtain eid where s5: "z = (if accepted out then RETURNED else AWAITING_RETURN)"
    "scrub s' = scrub (if accepted out then advanced cp sid pid eid (now s) ?s1 else ?s1)"
    using advance_tail_run [OF 5 wf4] advanced_scrub [OF s4] s4 unfolding n4
    by (cases "accepted out") auto
  note pre = import_preconditions_run [OF 0]
  from pre obtain a where a: "attempt_of s sid aid a" "att_step_id a = pid" "att_state a = OPEN" by blast
  show ?thesis
    using pre a v r1 r2 obs(1,4) s5
    by (intro exI [of _ p] exI [of _ a] exI [of _ out] exI [of _ "entropy s (drawn s)"]
        exI [of _ "entropy s1 (drawn s1)"] exI [of _ obs] exI [of _ eid] conjI)
      (simp_all add: x n3)
qed

section \<open>Opinions and commands\<close>

definition opinion_row ::
  "uuid \<Rightarrow> uuid \<Rightarrow> audit_opinion_kind \<Rightarrow> pystr list \<Rightarrow> pystr \<Rightarrow> pystr \<Rightarrow> int \<Rightarrow> audit_opinion" where
  "opinion_row oid rid opinion codes auditor cp t =
     \<lparr>opn_id = oid, opn_result_id = rid, opn_opinion = opinion, opn_reason_codes = codes,
      opn_auditor_ref = auditor, opn_issued_by = cp, opn_issued_at = t\<rparr>"

lemma issue_opinion_run:
  assumes "issue_opinion cp sid aid opinion reason_codes auditor oid s = (Inr o', s')"
  shows "\<exists>r codes. r \<in> set (results s) \<and> res_attempt_id r = aid \<and> attempt_in s aid sid \<and> owned s cp sid \<and>
    canonical_audit_reason_codes (PySeq (map PyStr reason_codes)) = Inr codes \<and>
    assert_opinion_matrix opinion codes = Inr () \<and> \<not> blank auditor \<and>
    codes = opinion_codes opinion \<and>
    o' = opinion_row oid (res_id r) opinion codes auditor cp (now s) \<and>
    s' = s\<lparr>opinions := opinions s @ [o']\<rparr>"
proof -
  have ve: "value_error_as_contract x = Inr y \<longleftrightarrow> x = Inr y" for x and y :: "pystr list"
    by (cases x rule: value_error_as_contract.cases) auto
  have g: "get_result_for_audit cp sid aid s = (Inr (Some r), s') \<Longrightarrow>
      s' = s \<and> r \<in> set (results s) \<and> res_attempt_id r = aid \<and> attempt_in s aid sid \<and> owned s cp sid"
    for s r s'
    by (auto simp: query_defs run_iffs dest: filter_eq_single(1,2))
  from assms obtain codes r where
    1: "canonical_audit_reason_codes (PySeq (map PyStr reason_codes)) = Inr codes"
      "assert_opinion_matrix opinion codes = Inr ()" "\<not> blank auditor" and
    2: "get_result_for_audit cp sid aid s = (Inr (Some r), s)" and
    3: "create_audit_opinion oid cp sid (res_id r) opinion codes auditor cp (now s) s = (Inr o', s')"
    unfolding issue_opinion_def
    by (auto simp: bnd_read [OF unchanged_require] require_eq_iff bnd_assoc
        bnd_read [OF unchanged_lift_sum] lift_sum_eq_iff ve andthen_eq_Inr database_now_def
        bnd_read [OF unchanged_queries(24)] bnd_read [OF unchanged_require_some] require_some_iff
        bnd_read [OF unchanged_gets] gets_eq_iff)
  from 3 have "o' = opinion_row oid (res_id r) opinion codes auditor cp (now s) \<and>
      codes = opinion_codes opinion \<and> s' = s\<lparr>opinions := opinions s @ [o']\<rparr>"
    by (auto simp: create_audit_opinion_def Let_def run_iffs opinion_row_def check_opinion_def
        first_some_None opinion_row_ok_def)
  with 1 g [OF 2] show ?thesis by blast
qed

definition command_row :: "uuid \<Rightarrow> pystr \<Rightarrow> command_operation \<Rightarrow> pystr \<Rightarrow> pystr \<Rightarrow> pystr \<Rightarrow> command_receipt" where
  "command_row i tp operation key req outcome =
     \<lparr>cmd_id = i, cmd_principal = tp, cmd_operation = command_operation_value operation,
      cmd_key = key, cmd_request_sha256 = Some req, cmd_outcome_ref = outcome\<rparr>"

text \<open>
  A command either runs, after its receipt went in, or replays the receipt of its key. The third
  case is a receipt whose identity the random source has just drawn again: the program takes it
  for its own.
\<close>

definition claims ::
  "pystr \<Rightarrow> command_operation \<Rightarrow> pystr \<Rightarrow> pystr \<Rightarrow> pystr \<Rightarrow> store \<Rightarrow> store \<Rightarrow> bool" where
  "claims tp operation key req outcome s t \<longleftrightarrow>
     (let r = command_row (entropy s (drawn s)) tp operation key req outcome in
      command_row_ok r = None \<and> (\<forall>x \<in> set (commands s). cmd_triple x \<noteq> cmd_triple r) \<and>
      fresh cmd_id (cmd_id r) (commands s) \<and>
      t = s\<lparr>drawn := Suc (drawn s), commands := commands s @ [r]\<rparr>) \<or>
     (\<exists>x \<in> set (commands s). cmd_id x = entropy s (drawn s) \<and>
        cmd_triple x = (tp, command_operation_value operation, key) \<and> t = s\<lparr>drawn := Suc (drawn s)\<rparr>)"

definition replays ::
  "pystr \<Rightarrow> command_operation \<Rightarrow> pystr \<Rightarrow> pystr \<Rightarrow> store \<Rightarrow> command_receipt \<Rightarrow> bool" where
  "replays tp operation key req s x \<longleftrightarrow> x \<in> set (commands s) \<and> cmd_id x \<noteq> entropy s (drawn s) \<and>
     cmd_request_sha256 x = Some req \<and> cmd_triple x = (tp, command_operation_value operation, key)"

lemma cmd_triple_command_row [simp]:
  "cmd_triple (command_row i tp operation key req outcome) = (tp, command_operation_value operation, key)"
  "cmd_id (command_row i tp operation key req outcome) = i"
  "cmd_request_sha256 (command_row i tp operation key req outcome) = Some req"
  "cmd_outcome_ref (command_row i tp operation key req outcome) = outcome"
  "cmd_principal (command_row i tp operation key req outcome) = tp"
  "cmd_key (command_row i tp operation key req outcome) = key"
  by (simp_all add: command_row_def cmd_triple_def)

lemma claim_command_run:
  assumes "claim_command tp (command_operation_value operation) key outcome (Some req) s = (Inr (r, b), t)"
    and "b \<or> cmd_request_sha256 r = Some req"
  shows "if b then claims tp operation key req outcome s t
    else replays tp operation key req s r \<and> t = s\<lparr>drawn := Suc (drawn s)\<rparr>"
proof -
  let ?i = "entropy s (drawn s)" and ?s = "s\<lparr>drawn := Suc (drawn s)\<rparr>"
  let ?r = "command_row ?i tp operation key req outcome"
  let ?same = "filter (\<lambda>r. cmd_triple r = cmd_triple ?r) (commands s)"
  from assms(1) have ok: "command_row_ok ?r = None" and
    c: "(case ?same of
          r # _ \<Rightarrow> (Inr (r, cmd_id r = ?i), ?s)
        | [] \<Rightarrow> if fresh cmd_id ?i (commands s)
                then (Inr (?r, True), s\<lparr>drawn := Suc (drawn s), commands := commands s @ [?r]\<rparr>)
                else (Inl (IntegrityError ''command_receipts_pkey''), ?s)) = (Inr (r, b), t)"
    by (auto simp: claim_command_def Let_def draw_uuid_def bnd_def command_row_def [symmetric]
        cong: list.case_cong split: option.splits)
  show ?thesis
  proof (cases ?same)
    case Nil
    then have "\<forall>x \<in> set (commands s). cmd_triple x \<noteq> cmd_triple ?r"
      by (metis (mono_tags, lifting) filter_empty_conv)
    with c Nil ok show ?thesis by (auto simp: claims_def Let_def split: if_split_asm)
  next
    case (Cons x xs)
    then have "x \<in> set ?same" by simp
    then have x: "x \<in> set (commands s)" "cmd_triple x = cmd_triple ?r" by auto
    from c Cons have "r = x" "b = (cmd_id x = ?i)" "t = ?s" by auto
    with x assms(2) show ?thesis by (auto simp: claims_def replays_def)
  qed
qed

lemma executar_run:
  assumes "executar_uma_vez tp operation key outcome req efeito s = (Inr (out, saida), s')"
  shows "\<not> blank tp \<and> \<not> blank key \<and>
    ((\<exists>t x. claims tp operation key req outcome s t \<and> efeito t = (Inr x, s') \<and> saida = Some x \<and>
        \<not> out_replayed out) \<or>
     (\<exists>r. replays tp operation key req s r \<and> s' = s\<lparr>drawn := Suc (drawn s)\<rparr> \<and> saida = None \<and>
        out_replayed out \<and> out_outcome_ref out = cmd_outcome_ref r))"
proof -
  from assms obtain r b t where nb: "\<not> blank tp" "\<not> blank key" and
    1: "claim_command tp (command_operation_value operation) key outcome (Some req) s = (Inr (r, b), t)"
      "b \<or> cmd_request_sha256 r = Some req" and
    2: "(if b then bnd efeito (\<lambda>x. ret (Some x)) else ret None) t = (Inr saida, s')"
      "out_replayed out = (\<not> b)" "out_outcome_ref out = cmd_outcome_ref r"
    unfolding executar_uma_vez_def
    by (auto simp: bnd_read [OF unchanged_require] require_eq_iff
        bnd_eq_Inr [of "claim_command a b c d e" for a b c d e]
        bnd_eq_Inr [of "if b then m else m'" for b m m'] ret_eq_iff)
  show ?thesis
    using nb 2 claim_command_run [OF 1] by (cases b) (auto simp: bnd_eq_Inr ret_eq_iff)
qed

end
