(* ===== verification/Effects.thy ===== *)
theory Effects
  imports ReturnRuns "HOL-Library.Sublist"
begin

text \<open>
  The abstract specification of the orchestration layer: what a command may do to the database,
  as a relation with one rule per kind of effect, and the refinement: every handler of the
  router, whatever its arguments and its outcome, either leaves the rows as they were or has one
  of these effects. The receipts of the commands are accounted for separately.
\<close>

section \<open>Drafts\<close>

text \<open>What the constructors of a draft let through.\<close>

definition valid_step_draft :: "step_draft \<Rightarrow> bool" where
  "valid_step_draft d \<longleftrightarrow>
     valid_text MAX_ROLE_LENGTH (draft_role d) \<and> valid_text MAX_REF_LENGTH (draft_instruction_ref d) \<and>
     valid_text MAX_REF_LENGTH (draft_expected_output_contract d) \<and>
     list_all valid_ref (draft_context_refs d) \<and> canonical_pairs (draft_constraints d)"

definition valid_draft :: "schedule_draft \<Rightarrow> bool" where
  "valid_draft d \<longleftrightarrow> valid_text MAX_TITLE_LENGTH (draft_title d) \<and> draft_steps d \<noteq> [] \<and>
     list_all valid_step_draft (draft_steps d)"

section \<open>The rows\<close>

text \<open>
  The database without what only lives as long as a request and without the receipts of the
  commands of one principal.
\<close>

definition rows :: "pystr \<Rightarrow> store \<Rightarrow> store" where
  "rows cp s = scrub (s\<lparr>commands := filter (\<lambda>r. cmd_principal r \<noteq> cp) (commands s)\<rparr>)"

lemma rows_local [simp]:
  "rows cp (s\<lparr>drawn := n\<rparr>) = rows cp s" "rows cp (s\<lparr>next_object := k\<rparr>) = rows cp s"
  "rows cp (s\<lparr>emitted := e\<rparr>) = rows cp s" "rows cp (s\<lparr>now := t\<rparr>) = rows cp s"
  by (simp_all add: rows_def scrub_def)

lemma rows_scrub: "scrub s = scrub t \<Longrightarrow> rows cp s = rows cp t"
  using scrub_eqD(5) [of s t] by (simp add: rows_def)

lemma rows_eqD:
  assumes "rows cp s = rows cp t"
  shows "schedules s = schedules t" "steps s = steps t" "attempts s = attempts t"
    "seals s = seals t" "results s = results t" "attributions s = attributions t"
    "delegations s = delegations t" "events s = events t" "observations s = observations t"
    "opinions s = opinions t" "profiles s = profiles t" "exec_receipts s = exec_receipts t"
    "provider_ids s = provider_ids t"
    "filter (\<lambda>r. cmd_principal r \<noteq> cp) (commands s) = filter (\<lambda>r. cmd_principal r \<noteq> cp) (commands t)"
  using scrub_eqD [OF assms [unfolded rows_def]] by simp_all

text \<open>Between two effects nothing happens but the request's own data and new receipts of its principal.\<close>

definition carries :: "pystr \<Rightarrow> store \<Rightarrow> store \<Rightarrow> bool" where
  "carries cp s t \<longleftrightarrow> rows cp t = rows cp s \<and> prefix (commands s) (commands t)"

lemma carries_rows: "carries cp s t \<Longrightarrow> rows cp t = rows cp s"
  by (simp add: carries_def)

lemma carries_refl [simp]: "carries cp s s"
  by (simp add: carries_def)

lemma carries_trans: "carries cp s t \<Longrightarrow> carries cp t u \<Longrightarrow> carries cp s u"
  by (auto simp: carries_def intro: prefix_order.trans)

lemma carries_scrub: "scrub t = scrub s \<Longrightarrow> carries cp s t"
  using rows_scrub [of t s] scrub_eqD(5) [of t s] by (simp add: carries_def)

lemma carries_local [simp]:
  "carries cp s (t\<lparr>drawn := n\<rparr>) = carries cp s t" "carries cp s (t\<lparr>now := m\<rparr>) = carries cp s t"
  "carries cp s (t\<lparr>next_object := k\<rparr>) = carries cp s t" "carries cp s (t\<lparr>emitted := e\<rparr>) = carries cp s t"
  "carries cp (s\<lparr>drawn := n\<rparr>) t = carries cp s t" "carries cp (s\<lparr>now := m\<rparr>) t = carries cp s t"
  "carries cp (s\<lparr>next_object := k\<rparr>) t = carries cp s t" "carries cp (s\<lparr>emitted := e\<rparr>) t = carries cp s t"
  by (simp_all add: carries_def)

section \<open>Effects\<close>

definition created ::
  "uuid \<Rightarrow> pystr \<Rightarrow> handoff_mode \<Rightarrow> pystr \<Rightarrow> schedule_step list \<Rightarrow> store \<Rightarrow> store" where
  "created sid title mode cp ps s =
     s\<lparr>schedules := schedules s @ [\<lparr>sch_id = sid, sch_title = title, sch_state = ACTIVE,
         sch_mode = mode, sch_owner = cp\<rparr>],
       steps := steps s @ ps\<rparr>"

text \<open>A return that may be imported: the open attempt of a step that awaits one.\<close>

definition importable ::
  "store \<Rightarrow> pystr \<Rightarrow> uuid \<Rightarrow> uuid \<Rightarrow> uuid \<Rightarrow> schedule_step \<Rightarrow> handoff_attempt \<Rightarrow> bool" where
  "importable s cp sid pid aid p a \<longleftrightarrow>
     owned s cp sid \<and> step_of s sid pid p \<and> stp_state p = AWAITING_RETURN \<and>
     attempt_of s sid aid a \<and> att_step_id a = pid \<and> att_state a = OPEN \<and>
     fresh res_attempt_id aid (results s) \<and> fresh atr_attempt_id aid (attributions s)"

text \<open>The observation that the declared provider is another one than that of the last attempt.\<close>

definition switches ::
  "store \<Rightarrow> uuid \<Rightarrow> uuid \<Rightarrow> uuid \<Rightarrow> uuid \<Rightarrow> pystr \<Rightarrow> declared_attribution \<Rightarrow>
   execution_observation list \<Rightarrow> bool" where
  "switches s sid pid aid tid r d obs \<longleftrightarrow> length obs \<le> 1 \<and>
     (\<forall>e \<in> set obs. \<exists>oid prev.
        e = switch_row oid sid pid (atr_attempt_id prev) aid (atr_provider prev) (declared_provider_id d)
          (now s) \<and>
        prev \<in> set (attributions s @ [attribution_row tid aid r d (now s)]) \<and>
        atr_provider prev \<noteq> declared_provider_id d)"

inductive effect :: "composition \<Rightarrow> pystr \<Rightarrow> store \<Rightarrow> store \<Rightarrow> bool" for c cp where
  create:
    "list_all2 (draft_row sid) (List.enumerate 1 drafts) ps \<Longrightarrow> mode \<in> EXECUTABLE_HANDOFF_MODES \<Longrightarrow>
     \<not> blank cp \<Longrightarrow> fresh sch_id sid (schedules s) \<Longrightarrow> distinct (map stp_id (steps s @ ps)) \<Longrightarrow>
     drafts \<noteq> [] \<Longrightarrow> list_all valid_step_draft drafts \<Longrightarrow>
     effect c cp s (created sid title mode cp ps s)"
| export:
    "export_effect c aid cp sid pid sealer sched p e h did s s' \<Longrightarrow> effect c cp s s'"
| import_rejected:
    "importable s cp sid pid aid p a \<Longrightarrow> verdict_shape out \<Longrightarrow> \<not> accepted out \<Longrightarrow>
     switches s sid pid aid tid (stp_role p) d obs \<Longrightarrow>
     effect c cp s (imported aid out (result_row rid aid (stp_output_contract p) ref out)
       (attribution_row tid aid (stp_role p) d (now s)) obs s)"
| import_accepted:
    "importable s cp sid pid aid p a \<Longrightarrow> verdict_shape out \<Longrightarrow> accepted out \<Longrightarrow>
     switches s sid pid aid tid (stp_role p) d obs \<Longrightarrow>
     effect c cp s (advanced cp sid pid eid (now s)
       (imported aid out (result_row rid aid (stp_output_contract p) ref out)
          (attribution_row tid aid (stp_role p) d (now s)) obs s))"
| control:
    "schedule_of s cp sid a \<Longrightarrow> ACAO_DESTINO action = Some st \<Longrightarrow>
     (sch_state a, st) \<in> E7_3_IMPLEMENTED_SCHEDULE_TRANSITIONS \<Longrightarrow>
     ACAO_EVENTO action = Some kind \<Longrightarrow> control_motivo action category = Inr reason \<Longrightarrow>
     effect c cp s ((controlled sid action st s)\<lparr>events := events s @
       [event_row eid sid None kind reason category cp (now s)]\<rparr>)"
| grant:
    "owned s cp sid \<Longrightarrow> step_of s sid pid p \<Longrightarrow> gate_requirement (stp_constraints p) = Inr (Some g) \<Longrightarrow>
     envelope_of_step sid pid p = Inr e \<Longrightarrow> content_sha256 e = Inr h \<Longrightarrow> until > now s \<Longrightarrow>
     fresh dlg_id did (delegations s) \<Longrightarrow>
     effect c cp s (s\<lparr>delegations := revoke_all sid pid GATE_SCOPE_DISPATCH (expire sid pid s) @
       [delegation_row did sid pid h cp until (now s)]\<rparr>)"
| revoke:
    "owned s cp sid \<Longrightarrow>
     effect c cp s (s\<lparr>delegations := revoke_all sid pid scope (delegations s)\<rparr>)"
| opinion:
    "r \<in> set (results s) \<Longrightarrow> res_attempt_id r = aid \<Longrightarrow> attempt_in s aid sid \<Longrightarrow> owned s cp sid \<Longrightarrow>
     effect c cp s (s\<lparr>opinions := opinions s @
       [opinion_row oid (res_id r) k (opinion_codes k) auditor cp (now s)]\<rparr>)"
| expiry:
    "owned s cp sid \<Longrightarrow> effect c cp s (s\<lparr>delegations := expire sid pid s\<rparr>)"
| gate_pause:
    "dispatchable s cp sid pid a p \<Longrightarrow> gate_requirement (stp_constraints p) = Inr (Some g) \<Longrightarrow>
     effect c cp s (paused sid (pause_event eid sid pid reason cp (now s)) s)"

section \<open>Refinement of the services\<close>

text \<open>
  A change is a sequence of effects. Between them only the request's own data and the receipts of
  commands may move.
\<close>

inductive change :: "composition \<Rightarrow> pystr \<Rightarrow> store \<Rightarrow> store \<Rightarrow> bool" for c cp where
  same: "carries cp s s' \<Longrightarrow> change c cp s s'"
| step: "change c cp s t \<Longrightarrow> wf_store t' \<Longrightarrow> carries cp t t' \<Longrightarrow> effect c cp t' u \<Longrightarrow>
    wf_store u \<Longrightarrow> carries cp u s' \<Longrightarrow> change c cp s s'"

lemma change_same: "carries cp s s' \<Longrightarrow> change c cp s s'"
  by (rule change.same)

lemma change_effect:
  assumes "wf_store s" and "effect c cp s t" and "scrub s' = scrub t" and "wf_store s'"
  shows "change c cp s s'"
proof -
  have "wf_store t" using wf_store_scrub [of t] wf_store_scrub [of s'] assms(3,4) by simp
  then show ?thesis
    by (rule change.step [OF change.same [OF carries_refl] assms(1) carries_refl assms(2)])
      (rule carries_scrub [OF assms(3)])
qed

text \<open>The integrity of the rows after a service.\<close>

lemma wf_after:
  "export_step c aid cp sid pid sealer None s = (r1, s') \<Longrightarrow> wf_store s \<Longrightarrow> wf_store s'"
  "import_return rt cp sid pid aid raw d s = (r2, s') \<Longrightarrow> wf_store s \<Longrightarrow> wf_store s'"
  "apply_control cp sid action eid category s = (r3, s') \<Longrightarrow> wf_store s \<Longrightarrow> wf_store s'"
  "grant_delegation cp sid pid valid_until did s = (r4, s') \<Longrightarrow> wf_store s \<Longrightarrow> wf_store s'"
  "revoke_delegation cp sid pid did s = (r5, s') \<Longrightarrow> wf_store s \<Longrightarrow> wf_store s'"
  "issue_opinion cp sid aid k codes auditor oid s = (r6, s') \<Longrightarrow> wf_store s \<Longrightarrow> wf_store s'"
  "preflight c cp sid pid s = (r7, s') \<Longrightarrow> wf_store s \<Longrightarrow> wf_store s'"
  "register_pause cp sid pid reason s = (r8, s') \<Longrightarrow> wf_store s \<Longrightarrow> wf_store s'"
  by (erule preservesD [rotated 2], intro preserves_intros, assumption)+

lemma change_rows_left: "change c cp t s' \<Longrightarrow> carries cp s t \<Longrightarrow> change c cp s s'"
  by (induction rule: change.induct) (auto intro: change.intros carries_trans)

lemma change_rows_right: "change c cp s t \<Longrightarrow> carries cp t s' \<Longrightarrow> change c cp s s'"
  by (induction rule: change.induct) (auto intro: change.intros carries_trans)

lemma change_trans_same:
  "carries cp s t \<Longrightarrow> change c cp t t' \<Longrightarrow> carries cp t' s' \<Longrightarrow> change c cp s s'"
  by (blast intro: change_rows_left change_rows_right)

lemma change_trans: "change c cp t u \<Longrightarrow> change c cp s t \<Longrightarrow> change c cp s u"
  by (induction rule: change.induct) (auto intro: change.step change_rows_right)

lemma export_step_change:
  "export_step c aid cp sid pid sealer None s = (Inr x, s') \<Longrightarrow> wf_store s \<Longrightarrow> change c cp s s'"
  by (frule (1) export_step_run, frule (1) wf_after) (blast intro: change_effect effect.export)

lemma import_return_change:
  assumes "import_return rt cp sid pid aid raw d s = (Inr x, s')" and wf: "wf_store s"
  shows "change c cp s s'"
proof -
  from import_return_run [OF assms] obtain p a out rid tid obs eid where
    i: "importable s cp sid pid aid p a" and
    v: "validate_output (float_of rt) (load_depth rt) (dump_depth rt) (stp_output_contract p)
      (raw_media_type raw) (PyStr (raw_content raw)) = Inr out" and
    sw: "switches s sid pid aid tid (stp_role p) d obs" and
    x: "ro_result x = result_row rid aid (stp_output_contract p) (raw_declared_output_ref raw) out"
      "ro_attribution x = attribution_row tid aid (stp_role p) d (now s)" and
    s': "scrub s' = scrub (let s1 = imported aid out (ro_result x) (ro_attribution x) obs s
      in if accepted out then advanced cp sid pid eid (now s) s1 else s1)"
    unfolding importable_def switches_def by blast
  show ?thesis
  proof (cases "accepted out")
    case True
    with effect.import_accepted [OF i validate_output_shape [OF v] _ sw] s' x wf show ?thesis
      using wf_after(2) [OF assms] by (metis change_effect)
  next
    case False
    with effect.import_rejected [OF i validate_output_shape [OF v] _ sw] s' x wf show ?thesis
      using wf_after(2) [OF assms] by (metis change_effect)
  qed
qed

lemma apply_control_change:
  "apply_control cp sid action eid category s = (Inr r, s') \<Longrightarrow> wf_store s \<Longrightarrow> change c cp s s'"
  by (frule (1) apply_control_run, frule (1) wf_after) (auto intro: change_effect effect.control)

lemma grant_change:
  "grant_delegation cp sid pid valid_until did s = (Inr d, s') \<Longrightarrow> wf_store s \<Longrightarrow> change c cp s s'"
  by (frule (1) grant_run, frule (1) wf_after) (auto intro: change_effect effect.grant)

lemma revoke_change:
  "revoke_delegation cp sid pid did s = (Inr d, s') \<Longrightarrow> wf_store s \<Longrightarrow> change c cp s s'"
  by (frule revoke_run, frule (1) wf_after) (auto intro: change_effect effect.revoke)

lemma issue_opinion_change:
  "issue_opinion cp sid aid k codes auditor oid s = (Inr d, s') \<Longrightarrow> wf_store s \<Longrightarrow> change c cp s s'"
  by (frule issue_opinion_run, frule (1) wf_after) (auto intro: change_effect effect.opinion)

section \<open>Refinement of the commands\<close>

lemma claims_cases:
  assumes "claims tp operation key req outcome s t"
  obtains (new) r where "t = s\<lparr>drawn := Suc (drawn s), commands := commands s @ [r]\<rparr>"
      "r = command_row (entropy s (drawn s)) tp operation key req outcome" "command_row_ok r = None"
      "fresh cmd_id (cmd_id r) (commands s)" "fresh cmd_triple (cmd_triple r) (commands s)"
    | (same) "t = s\<lparr>drawn := Suc (drawn s)\<rparr>"
  using assms unfolding claims_def Let_def fresh_def by (elim disjE bexE conjE) blast+

lemma claims_keep:
  assumes "claims tp operation key req outcome s t"
  shows "carries tp s t \<and> (wf_store s \<longrightarrow> wf_store t)"
  using assms
proof (cases rule: claims_cases)
  case (new r)
  have "wf_commands (commands s) \<Longrightarrow> wf_commands (commands s @ [r])"
    using new(3-5) by (simp only: wf_commands_def rows_ok_snoc distinct_snoc_fresh simp_thms)
  then show ?thesis by (simp add: new(1) wf_store_def carries_def rows_def scrub_def, simp add: new(2))
next
  case same
  then show ?thesis by simp
qed

lemma executar_change:
  assumes run: "executar_uma_vez cp operation key outcome req efeito s = (Inr y, s')" and wf: "wf_store s"
    and eff: "\<And>t x t'. wf_store t \<Longrightarrow> efeito t = (Inr x, t') \<Longrightarrow> change c cp t t'"
  shows "change c cp s s'"
proof -
  obtain out saida where y: "y = (out, saida)" by (cases y)
  from executar_run [OF run [unfolded y]] consider
    (claimed) t x where "claims cp operation key req outcome s t" "efeito t = (Inr x, s')"
    | (replayed) "s' = s\<lparr>drawn := Suc (drawn s)\<rparr>" by blast
  then show ?thesis
  proof cases
    case claimed
    with claims_keep wf have "wf_store t" "carries cp s t" by blast+
    with eff claimed(2) show ?thesis by (blast intro: change_rows_left)
  next
    case replayed
    then show ?thesis by (simp add: change_same)
  qed
qed

text \<open>A command draws an identity, hashes its request and runs once.\<close>

lemma draw_change:
  assumes "bnd draw_uuid f s = (Inr y, s')" and "wf_store s"
    and "\<And>i t. wf_store t \<Longrightarrow> f i t = (Inr y, s') \<Longrightarrow> change c cp t s'"
  shows "change c cp s s'"
proof -
  from assms(1) have "f (entropy s (drawn s)) (s\<lparr>drawn := Suc (drawn s)\<rparr>) = (Inr y, s')"
    by (auto simp: bnd_def draw_uuid_def)
  from assms(3) [OF _ this] assms(2) show ?thesis
    by (auto intro: change_trans_same [of cp s "s\<lparr>drawn := Suc (drawn s)\<rparr>"])
qed

lemma lift_sum_change:
  assumes "bnd (lift_sum x) f s = (Inr y, s')"
    and "\<And>z. f z s = (Inr y, s') \<Longrightarrow> change c cp s s'"
  shows "change c cp s s'"
  using assms by (auto simp: bnd_eq_Inr lift_sum_eq_iff)

lemmas service_changes = export_step_change import_return_change apply_control_change grant_change
  revoke_change issue_opinion_change

lemma once_change:
  "export_handoff_once c cp key sid pid sealer s = (Inr y1, s') \<Longrightarrow> wf_store s \<Longrightarrow> change c cp s s'"
  "import_return_once rt cp key sid pid aid raw d s = (Inr y2, s') \<Longrightarrow> wf_store s \<Longrightarrow> change c cp s s'"
  "grant_delegation_once cp key sid pid valid_until s = (Inr y3, s') \<Longrightarrow> wf_store s \<Longrightarrow> change c cp s s'"
  "revoke_delegation_once cp key sid pid did s = (Inr y4, s') \<Longrightarrow> wf_store s \<Longrightarrow> change c cp s s'"
  "control_schedule_once cp key sid action category s = (Inr y5, s') \<Longrightarrow> wf_store s \<Longrightarrow> change c cp s s'"
  "issue_audit_opinion_once cp key sid aid k codes auditor s = (Inr y6, s') \<Longrightarrow> wf_store s \<Longrightarrow>
     change c cp s s'"
  unfolding export_handoff_once_def import_return_once_def grant_delegation_once_def
    revoke_delegation_once_def control_schedule_once_def issue_audit_opinion_once_def
       apply (erule draw_change, assumption)
       apply (auto elim!: lift_sum_change executar_change intro: service_changes)[1]
      apply (auto elim!: lift_sum_change executar_change intro: service_changes)[1]
     apply (erule draw_change, assumption)
     apply (auto elim!: lift_sum_change executar_change intro: service_changes)[1]
    apply (auto elim!: lift_sum_change executar_change intro: service_changes)[1]
   apply (erule draw_change, assumption)
   apply (auto elim!: lift_sum_change executar_change intro: service_changes)[1]
  apply (erule draw_change, assumption)
  apply (auto elim!: lift_sum_change executar_change intro: service_changes)[1]
  done

section \<open>Refinement of the handlers\<close>

lemma committed_change:
  assumes "committed m s = (r, s')" and "\<And>x t. m s = (Inr x, t) \<Longrightarrow> change c cp s t"
  shows "change c cp s s'"
proof -
  obtain q t where m: "m s = (q, t)" by (cases "m s")
  show ?thesis
  proof (cases "\<exists>x. q = Inr x \<and> deferred_ok t")
    case True
    with m assms show ?thesis by (auto simp: committed_def)
  next
    case False
    with m assms(1) have "s' = rollback s t"
      by (cases q) (auto simp: committed_def)
    then show ?thesis by (simp add: rollback_def change_same)
  qed
qed

lemma read_change:
  assumes "bnd m f s = (Inr y, s')" and "\<And>x. unchanged (f x)"
    and "\<And>x t. m s = (Inr x, t) \<Longrightarrow> change c cp s t"
  shows "change c cp s s'"
  using assms by (auto simp: bnd_eq_Inr dest: unchangedD)

lemma unchanged_split_prod [unchanged_intros]:
  "(\<And>a b. unchanged (f a b)) \<Longrightarrow> unchanged (case x of (a, b) \<Rightarrow> f a b)"
  by (cases x) simp

lemma handler_change:
  "importar_retorno rt cp key sid pid aid raw d s = (r1, s') \<Longrightarrow> wf_store s \<Longrightarrow> change c cp s s'"
  "conceder_delegacao cp key sid pid valid_until s = (r2, s') \<Longrightarrow> wf_store s \<Longrightarrow> change c cp s s'"
  "revogar_delegacao cp key sid pid did s = (r3, s') \<Longrightarrow> wf_store s \<Longrightarrow> change c cp s s'"
  "registrar_controle cp key sid action category s = (r4, s') \<Longrightarrow> wf_store s \<Longrightarrow> change c cp s s'"
  "registrar_parecer cp key sid aid k codes auditor s = (r5, s') \<Longrightarrow> wf_store s \<Longrightarrow> change c cp s s'"
  unfolding importar_retorno_def conceder_delegacao_def revogar_delegacao_def
    registrar_controle_def registrar_parecer_def
  by (erule committed_change, erule read_change, (intro unchanged_intros; fail),
      erule (1) once_change)+

section \<open>Export\<close>

text \<open>A blocked dispatch is one of a step that declares a gate.\<close>

lemma preflight_blocked_run:
  assumes "preflight c cp sid pid s = (Inr (Blocked b), s')" and wf: "wf_store s"
  shows "\<exists>a p g. dispatchable s cp sid pid a p \<and> gate_requirement (stp_constraints p) = Inr (Some g) \<and>
    (scrub s' = scrub s \<and> db_reason b = HUMAN_GATE_UNAVAILABLE \<or>
     scrub s' = scrub (s\<lparr>delegations := expire sid pid s\<rparr>) \<and>
       db_reason b \<in> {DELEGATION_MISSING, DELEGATION_CONTENT_CHANGED}) \<and> now s' = now s"
proof -
  from assms(1) obtain p e h g where
    1: "preflight_guards cp sid pid s = (Inr p, s)" and
    g: "gate_requirement (stp_constraints p) = Inr g" and
    rest: "(case g of
       None \<Rightarrow>
         bnd (new_authorization h None (stp_state p = PENDING)) (\<lambda>a.
         bnd (registrar_autorizacao a) (\<lambda>a'. ret (Authorized a')))
     | Some g \<Rightarrow>
         if human_refuses c g sid pid h
         then ret (Blocked \<lparr>db_reason = HUMAN_GATE_UNAVAILABLE, db_content = Some h\<rparr>)
         else
           bnd (expire_stale_delegations cp sid pid) (\<lambda>_.
           bnd (get_active_delegation cp sid pid (gate_scope g)) (\<lambda>delegacao.
           case delegacao of
             None \<Rightarrow> ret (Blocked \<lparr>db_reason = DELEGATION_MISSING, db_content = Some h\<rparr>)
           | Some d \<Rightarrow>
               if dlg_content_sha256 d \<noteq> h
               then ret (Blocked \<lparr>db_reason = DELEGATION_CONTENT_CHANGED, db_content = Some h\<rparr>)
               else
                 bnd (new_authorization h (Some (dlg_id d)) (stp_state p = PENDING)) (\<lambda>a.
                 bnd (registrar_autorizacao a) (\<lambda>a'. ret (Authorized a')))))) s
       = (Inr (Blocked b), s')"
    by (auto simp: preflight_def Let_def bnd_read [OF unchanged_services(2)]
        bnd_read [OF unchanged_services(3)] bnd_read [OF unchanged_lift_sum] lift_sum_eq_iff)
  from preflight_guards_run [OF 1] obtain a where d: "dispatchable s cp sid pid a p" by blast
  have no: "bnd (new_authorization h did first) (\<lambda>a. bnd (registrar_autorizacao a) (\<lambda>a'. ret (Authorized a'))) t
      \<noteq> (Inr (Blocked b), u)" for did first t u
    by (auto dest: registrar_run)
  show ?thesis
  proof (cases g)
    case None
    with rest no show ?thesis by simp
  next
    case (Some r)
    show ?thesis
    proof (cases "human_refuses c r sid pid h")
      case True
      with rest Some g d show ?thesis by (auto simp: ret_eq_iff)
    next
      case False
      with rest Some obtain n t where x: "expire_stale_delegations cp sid pid s = (Inr n, t)"
        and y: "s' = t" "db_reason b \<in> {DELEGATION_MISSING, DELEGATION_CONTENT_CHANGED}"
        by (auto simp: bnd_eq_Inr [of "expire_stale_delegations cp sid pid"] no
            bnd_read [OF unchanged_queries(15)] ret_eq_iff split: if_splits option.splits)
      with expire_run [OF x] g Some d show ?thesis by auto
    qed
  qed
qed

text \<open>The errors a constraint raises.\<close>

definition db_error :: "error \<Rightarrow> bool" where
  "db_error e \<longleftrightarrow> e = UnicodeEncodeError \<or> e = DataError \<or> (\<exists>name. e = IntegrityError name)"

lemma first_some_error:
  "first_some xs = Some e \<Longrightarrow> (\<And>x. Some x \<in> set xs \<Longrightarrow> P x) \<Longrightarrow> P e"
  by (induction xs rule: first_some.induct) auto

lemma column_error:
  "text_col n x = Some e \<Longrightarrow> db_error e" "Some e = text_col n x \<Longrightarrow> db_error e"
  "ck b name = Some e \<Longrightarrow> db_error e" "Some e = ck b name \<Longrightarrow> db_error e"
  by (auto simp: text_col_def ck_def db_error_def split: if_splits)

lemma event_row_error: "event_row_ok r = Some e \<Longrightarrow> db_error e"
  unfolding event_row_ok_def by (erule first_some_error) (auto dest: column_error)

lemma check_event_error: "check_event s r = Some e \<Longrightarrow> db_error e"
  unfolding check_event_def by (erule first_some_error) (auto dest: column_error event_row_error [OF sym])

lemma register_pause_error:
  "register_pause cp sid pid reason s = (Inl e, s') \<Longrightarrow>
   e = OrchestrationScopeViolation \<or> e = MultipleResultsFound \<or> db_error e"
  by (auto simp: register_pause_def set_schedule_state_def create_control_event_def Let_def run_iffs
      query_defs draw_uuid_def split: if_splits dest: check_event_error)

lemma register_block_run:
  assumes "register_block c cp sid pid b s = (Inl (DispatchBlocked x), s')" and "wf_store s"
    and d: "dispatchable s cp sid pid a p" and g: "gate_requirement (stp_constraints p) = Inr (Some g)"
  shows "change c cp s s'"
proof (cases "has_control_service c")
  case True
  with assms(1) obtain r where
    "register_pause cp sid pid (db_reason b) s = (Inr r, s')"
    by (auto simp: register_block_def run_iffs db_error_def dest: register_pause_error)
  from register_pause_run [OF this assms(2)] show ?thesis
    using effect.gate_pause [OF d g] assms(2) wf_after(8) [OF \<open>register_pause cp sid pid (db_reason b) s = (Inr r, s')\<close> assms(2)]
    by (auto intro: change_same change_effect)
next
  case False
  with assms(1) show ?thesis by (auto simp: register_block_def run_iffs intro: change_same)
qed

lemma expiry_change:
  assumes "wf_store s" and "owned s cp sid" and "scrub s' = scrub (s\<lparr>delegations := expire sid pid s\<rparr>)"
    and "wf_store s'"
  shows "change c cp s s'"
  using change_effect [OF assms(1) effect.expiry [OF assms(2)] assms(3,4)] .

lemma dispatchable_owned: "dispatchable s cp sid pid a p \<Longrightarrow> owned s cp sid"
  by (auto simp: dispatchable_def owned_iff)

lemma dispatchable_scrub:
  assumes "scrub t = scrub (s\<lparr>delegations := ds\<rparr>)"
  shows "dispatchable t cp sid pid a p = dispatchable s cp sid pid a p"
  using scrub_eqD [OF assms] by (simp add: dispatchable_def row_of_defs)

lemma preflight_change:
  assumes "preflight c cp sid pid s = (Inr r, s')" and wf: "wf_store s"
  shows "change c cp s s'"
proof (cases r)
  case (Authorized a)
  from preflight_run [OF assms(1) [unfolded Authorized] wf] obtain sched p ds where
    d: "dispatchable s cp sid pid sched p" and
    ds: "authorized_by c s sid pid p (da_content_sha256 a) (da_delegation_id a) ds"
      "same_but_delegations s s' ds" by blast
  then have "scrub s' = scrub s \<or> scrub s' = scrub (s\<lparr>delegations := expire sid pid s\<rparr>)"
    by (auto simp: authorized_by_def same_but_delegations_def)
  then show ?thesis
    using wf dispatchable_owned [OF d] wf_after(7) [OF assms(1) wf]
    by (auto intro: expiry_change change_same carries_scrub)
next
  case (Blocked b)
  from preflight_blocked_run [OF assms(1) [unfolded Blocked] wf] wf wf_after(7) [OF assms(1) wf] show ?thesis
    by (auto intro: expiry_change change_same carries_scrub dest: dispatchable_owned)
qed

text \<open>The first phase of an export: a replay, an authorization or a block.\<close>

lemma export_phase_one_run:
  assumes "export_phase_one c cp key sid pid s = (Inr b, s')"
  shows "(s' = s \<and> b = None) \<or>
    (\<exists>r. preflight c cp sid pid s = (Inr r, s') \<and>
      b = (case r of Blocked x \<Rightarrow> Some x | Authorized a \<Rightarrow> None))"
proof -
  have case_run: "(case r of Blocked b \<Rightarrow> ret (Some b) | Authorized a \<Rightarrow> ret None) t = (Inr b, s') \<Longrightarrow>
      s' = t \<and> b = (case r of Blocked x \<Rightarrow> Some x | Authorized a \<Rightarrow> None)" for r t
    by (cases r) (auto simp: ret_eq_iff)
  from assms show ?thesis
    unfolding export_phase_one_def
    by (auto simp: bnd_read [OF unchanged_lift_sum] bnd_assoc bnd_read [OF unchanged_services(9)]
        bnd_read [OF unchanged_queries(2)] bnd_read [OF unchanged_require_some] ret_eq_iff
        bnd_eq_Inr [of "preflight c cp sid pid"] dest!: case_run split: option.split_asm)
qed

lemma exportar_change:
  assumes "exportar_handoff c cp key sid pid s = (r, s')" and wf: "wf_store s"
  shows "change c cp s s'"
proof -
  obtain q t where 1: "export_phase_one c cp key sid pid s = (q, t)"
    by (cases "export_phase_one c cp key sid pid s")
  have wft: "wf_store t" by (rule wfD [OF wfi.keeps_export_phases(1) 1 wf])
  have same: "change c cp s (rollback s u)" for u by (simp add: rollback_def change_same)
  show ?thesis
  proof (cases q)
    case (Inl e)
    with 1 assms(1) same show ?thesis by (auto simp: exportar_handoff_def)
  next
    case (Inr b)
    note one = export_phase_one_run [OF 1 [unfolded Inr]]
    have st: "change c cp s t"
      using one wf by (auto intro: change_same preflight_change)
    show ?thesis
    proof (cases b)
      case None
      obtain z u where 2: "export_phase_two c cp key sid pid t = (z, u)"
        by (cases "export_phase_two c cp key sid pid t")
      have two: "change c cp t u" if "z = Inr x" for x
      proof -
        from 2 that obtain y where "export_handoff_once c cp key sid pid cp (t\<lparr>emitted := []\<rparr>) = (Inr y, u)"
          by (auto simp: export_phase_two_def bnd_def modify_def
              split: sum.splits prod.splits dest: unchangedD [OF unchanged_services(6)])
        from once_change(1) [OF this] wft show ?thesis
          by (auto intro: change_rows_left)
      qed
      from assms(1) 1 2 Inr None have "s' = rollback s u \<or> (\<exists>x. z = Inr x) \<and> s' = u"
        by (auto simp: exportar_handoff_def split: sum.split_asm if_split_asm)
      with two st same show ?thesis by (metis change_trans)
    next
      case (Some x)
      from one [unfolded Some] have p: "preflight c cp sid pid s = (Inr (Blocked x), t)"
        by (auto split: dispatch.split_asm) (metis dispatch.exhaust)
      obtain z :: "error + export_response" and u where 2: "register_block c cp sid pid x t = (z, u)"
        by fastforce
      from preflight_blocked_run [OF p wf] obtain a q g where
        d: "dispatchable s cp sid pid a q" and g: "gate_requirement (stp_constraints q) = Inr (Some g)"
        and "scrub t = scrub s \<or> scrub t = scrub (s\<lparr>delegations := expire sid pid s\<rparr>)" by blast
      then have "dispatchable t cp sid pid a q"
        using dispatchable_scrub [where t = t and s = s and ds = "delegations s"]
          dispatchable_scrub [where t = t and s = s and ds = "expire sid pid s"] by auto
      then have blk: "change c cp t u" if "z = Inl (DispatchBlocked y)" for y
        using register_block_run [OF 2 [unfolded that] wft _ g] by blast
      from assms(1) 1 2 Inr Some have "s' = rollback s u \<or> (\<exists>y. z = Inl (DispatchBlocked y)) \<and> s' = u"
        by (auto simp: exportar_handoff_def split: sum.split_asm if_split_asm error.split_asm)
      with blk st same show ?thesis by (metis change_trans)
    qed
  qed
qed

section \<open>Creation\<close>

lemma parse_outcome_run:
  "parse_outcome out s = (Inr u, s') \<Longrightarrow> s' = s \<and> parse_uuid (out_outcome_ref out) = Some u"
  by (auto simp: parse_outcome_def raise_eq_iff ret_eq_iff split: option.splits)

text \<open>A schedule that is created is activated in the same transaction.\<close>

lemma activate_created:
  assumes "fresh sch_id sid (schedules s)"
  shows "with_schedule_state sid ACTIVE (s\<lparr>schedules := schedules s @ [\<lparr>sch_id = sid, sch_title = title,
      sch_state = DRAFT, sch_mode = mode, sch_owner = cp\<rparr>], steps := steps s @ ps, drawn := n\<rparr>)
    = (created sid title mode cp ps s)\<lparr>drawn := n\<rparr>"
proof -
  have "upd_where (\<lambda>a. sch_id a = sid) (\<lambda>a. a\<lparr>sch_state := ACTIVE\<rparr>) (schedules s) = schedules s"
    using assms by (intro upd_where_id) (auto simp: fresh_def)
  then show ?thesis by (simp add: with_schedule_state_def created_def)
qed

lemma criar_change:
  assumes "criar_schedule cp key draft mode s = (r, s')" and wf: "wf_store s" and v: "valid_draft draft"
    and nodraft: "\<forall>a \<in> set (schedules s). sch_state a \<noteq> DRAFT"
  shows "change c cp s s'"
proof (cases "list_ex (\<lambda>e. draft_expected_output_contract e \<notin> SUPPORTED_OUTPUT_CONTRACTS) (draft_steps draft)")
  case True
  with assms(1) show ?thesis by (auto simp: criar_schedule_def raise_eq_iff change_same)
next
  case False
  with assms(1) have c: "committed
        (bnd (create_schedule_once cp key draft mode) (\<lambda>(recibo, _).
         bnd (parse_outcome recibo) (\<lambda>sid.
         bnd (if \<not> out_replayed recibo then bnd (activate cp sid) (\<lambda>_. ret ()) else ret ()) (\<lambda>_.
         service_get_schedule cp sid)))) s = (r, s')"
    by (simp add: criar_schedule_def)
  show ?thesis
  proof (rule committed_change [OF c])
    fix x t
    assume "bnd (create_schedule_once cp key draft mode) (\<lambda>(recibo, _).
         bnd (parse_outcome recibo) (\<lambda>sid.
         bnd (if \<not> out_replayed recibo then bnd (activate cp sid) (\<lambda>_. ret ()) else ret ()) (\<lambda>_.
         service_get_schedule cp sid))) s = (Inr x, t)"
    then obtain out saida s1 sid where
      1: "create_schedule_once cp key draft mode s = (Inr (out, saida), s1)" and
      2: "(if \<not> out_replayed out then bnd (activate cp sid) (\<lambda>_. ret ()) else ret ()) s1 = (Inr (), t)"
      by (auto simp: bnd_eq_Inr dest!: parse_outcome_run service_get_schedule_run)
    let ?s = "s\<lparr>drawn := Suc (drawn s)\<rparr>" and ?i = "entropy s (drawn s)"
    from 1 obtain req where
      "executar_uma_vez cp CREATE_SCHEDULE key (str_uuid ?i) req (create_schedule ?i cp draft mode) ?s
        = (Inr (out, saida), s1)"
      by (auto simp: create_schedule_once_def bnd_eq_Inr draw_uuid_iff lift_sum_eq_iff)
    from executar_run [OF this] consider
      (claimed) u y where "claims cp CREATE_SCHEDULE key req (str_uuid ?i) ?s u"
        "create_schedule ?i cp draft mode u = (Inr y, s1)" "\<not> out_replayed out"
      | (replayed) "carries cp s s1" "out_replayed out" by auto
    then show "change c cp s t"
    proof cases
      case replayed
      with 2 show ?thesis by (auto simp: ret_eq_iff intro: change_same)
    next
      case claimed
      from claims_keep [OF claimed(1)] wf have u: "wf_store u" "carries cp s u" by simp_all
      from create_schedule_run [OF claimed(2)] obtain ps where
        ps: "list_all2 (draft_row ?i) (List.enumerate 1 (draft_steps draft)) ps"
          "mode \<in> EXECUTABLE_HANDOFF_MODES" "\<not> blank cp" "fresh sch_id ?i (schedules u)" and
        s1: "s1 = u\<lparr>schedules := schedules u @ [\<lparr>sch_id = ?i, sch_title = draft_title draft,
             sch_state = DRAFT, sch_mode = mode, sch_owner = cp\<rparr>],
           steps := steps u @ ps, drawn := drawn u + length (draft_steps draft)\<rparr>" by blast
      have w1: "wf_store s1" using preservesD [of wf_store "create_schedule ?i cp draft mode", OF _ u(1) claimed(2)]
        by (blast intro: preserves_intros)
      then have ids: "distinct (map stp_id (steps u @ ps))"
        by (simp add: s1 wf_store_def wf_steps_def rows_ok_def)
      from 2 claimed(3) obtain w where act: "activate cp sid s1 = (Inr w, t)"
        by (auto simp: bnd_eq_Inr ret_eq_iff)
      have wt: "wf_store t" using preservesD [of wf_store "activate cp sid", OF _ w1 act]
        by (blast intro: preserves_intros)
      from activate_run [OF act] obtain a where
        t: "t = with_schedule_state sid ACTIVE s1" and a: "schedule_of s1 cp sid a" "sch_state a = DRAFT"
        by blast
      have "sid = ?i"
        using a nodraft
        by (auto simp: schedule_of_def s1 rows_eqD(1) [OF carries_rows [OF u(2)]] dest: arg_cong [where f = sch_id])
      then have t: "t = (created ?i (draft_title draft) mode cp ps u)\<lparr>drawn := drawn u + length (draft_steps draft)\<rparr>"
        unfolding t s1 by (simp add: activate_created [OF ps(4)])
      have "effect c cp u (created ?i (draft_title draft) mode cp ps u)"
        using ps ids v by (intro effect.create) (auto simp: valid_draft_def)
      from change_effect [OF u(1) this] t wt have "change c cp u t" by simp
      then show ?thesis by (rule change_rows_left [OF _ u(2)])
    qed
  qed
qed

section \<open>The server\<close>

fun valid_call :: "call \<Rightarrow> bool" where
  "valid_call (CallCreate draft mode) = valid_draft draft"
| "valid_call _ = True"

lemma discard_snd: "snd (discard m s) = snd (m s)"
  by (auto simp: discard_def bnd_def ret_def split: prod.splits sum.splits)

theorem handle_change:
  assumes wf: "wf_store s" and "valid_call cl" and "\<forall>a \<in> set (schedules s). sch_state a \<noteq> DRAFT"
  shows "change c cp s (snd (handle c rt cp key cl s))"
proof (cases cl)
  case (CallCreate draft mode)
  with assms show ?thesis
    by (auto simp: discard_snd intro!: criar_change [OF prod.collapse [symmetric]])
next
  case (CallExport sid pid)
  with wf show ?thesis
    by (auto simp: discard_snd intro!: exportar_change [OF prod.collapse [symmetric]])
qed (use wf in \<open>auto simp: discard_snd intro!: handler_change [OF prod.collapse [symmetric]]\<close>)

lemma serve_change:
  assumes "wf_store s" and "valid_call cl" and "\<forall>a \<in> set (schedules s). sch_state a \<noteq> DRAFT"
  shows "change c cp s (serve c rt t cp key cl s)"
proof -
  let ?s = "s\<lparr>now := t, emitted := [], next_object := 0\<rparr>"
  have "change c cp ?s (snd (handle c rt cp key cl ?s))"
    by (rule handle_change) (use assms in simp_all)
  then show ?thesis unfolding serve_def request_def by (rule change_rows_left) simp
qed

end
