(* ===== verification/Lifecycle.thy ===== *)
theory Lifecycle
  imports Effects
begin

text \<open>
  The life cycle of schedules, steps and attempts: the history of a step is the chronological
  list of the states of its attempts, and the state of the step is determined by it. Every effect
  a command may have keeps that agreement, the numbering of the attempts, the order of the steps
  and what a finished schedule means.
\<close>

section \<open>Histories\<close>

definition history :: "uuid \<Rightarrow> store \<Rightarrow> attempt_state list" where
  "history pid s = map att_state (attempts_of_step pid s)"

text \<open>All attempts but the last were rejected.\<close>

definition retried :: "attempt_state list \<Rightarrow> bool" where
  "retried h \<longleftrightarrow> list_all (\<lambda>x. x = CLOSED_REJECTED) (butlast h)"

fun history_ok :: "step_state \<Rightarrow> attempt_state list \<Rightarrow> bool" where
  "history_ok PENDING h = (h = [])"
| "history_ok AWAITING_RETURN h = (h \<noteq> [] \<and> retried h \<and> last h \<in> {OPEN, CLOSED_REJECTED})"
| "history_ok RETURNED h = (h \<noteq> [] \<and> retried h \<and> last h = CLOSED_OK)"
| "history_ok STEP_CANCELLED h =
     (h = [] \<or> retried h \<and> last h \<in> {CLOSED_REJECTED, CLOSED_CANCELLED})"
| "history_ok DISPATCHED h = False"
| "history_ok REJECTED h = False"
| "history_ok FAILED h = False"

definition close :: "attempt_state \<Rightarrow> attempt_state list \<Rightarrow> attempt_state list" where
  "close st h = map (\<lambda>x. if x = OPEN then st else x) h"

lemma close_snoc_open:
  assumes "list_all (\<lambda>x. x = CLOSED_REJECTED) h"
  shows "close st (h @ [OPEN]) = h @ [st]"
  using assms by (induction h) (auto simp: close_def)

lemma close_none: "OPEN \<notin> set h \<Longrightarrow> close st h = h"
  unfolding close_def by (rule map_idI) auto

lemma retried_cases:
  assumes "h \<noteq> []" and "retried h"
  obtains g where "h = g @ [last h]" "list_all (\<lambda>x. x = CLOSED_REJECTED) g"
    "OPEN \<in> set h \<longleftrightarrow> last h = OPEN"
proof (rule that [of "butlast h"])
  have "set h = insert (last h) (set (butlast h))"
    using assms(1) by (metis append_butlast_last_id empty_set list.simps(15) set_append Un_commute insert_is_Un)
  then show "OPEN \<in> set h \<longleftrightarrow> last h = OPEN"
    using assms(2) by (auto simp: retried_def list_all_iff)
qed (use assms in \<open>simp_all add: retried_def\<close>)

text \<open>The four moves of a history.\<close>

lemma history_move_open:
  assumes "history_ok st h" and "st = PENDING \<or> st = AWAITING_RETURN" and "OPEN \<notin> set h"
  shows "history_ok AWAITING_RETURN (h @ [OPEN])"
proof (cases "st = PENDING")
  case True
  with assms(1) show ?thesis by (simp add: retried_def)
next
  case False
  with assms have h: "h \<noteq> []" "retried h" "last h \<in> {OPEN, CLOSED_REJECTED}" by auto
  then obtain g where g: "h = g @ [last h]" "list_all (\<lambda>x. x = CLOSED_REJECTED) g"
    "OPEN \<in> set h \<longleftrightarrow> last h = OPEN" by (metis retried_cases)
  with h(3) assms(3) have l: "last h = CLOSED_REJECTED" by simp
  have "list_all (\<lambda>x. x = CLOSED_REJECTED) h"
    by (subst g(1)) (simp add: g(2) l)
  then show ?thesis by (simp add: retried_def)
qed

lemma history_move_close:
  assumes "history_ok AWAITING_RETURN h" and "OPEN \<in> set h"
  shows "history_ok AWAITING_RETURN (close CLOSED_REJECTED h)"
    and "history_ok RETURNED (close CLOSED_OK h)"
proof -
  from assms(1) have "h \<noteq> []" "retried h" by auto
  then obtain g where g: "h = g @ [last h]" "list_all (\<lambda>x. x = CLOSED_REJECTED) g"
    "OPEN \<in> set h \<longleftrightarrow> last h = OPEN" by (metis retried_cases)
  with assms(2) have h: "h = g @ [OPEN]" by simp
  from g(2) show "history_ok AWAITING_RETURN (close CLOSED_REJECTED h)"
    "history_ok RETURNED (close CLOSED_OK h)"
    by (simp_all add: h close_snoc_open retried_def)
qed

lemma history_move_cancel:
  assumes "history_ok st h" and "st = PENDING \<or> st = AWAITING_RETURN"
  shows "history_ok STEP_CANCELLED (close CLOSED_CANCELLED h)"
proof (cases "st = PENDING")
  case True
  with assms(1) show ?thesis by (simp add: close_def)
next
  case False
  with assms have st: "h \<noteq> []" "retried h" "last h \<in> {OPEN, CLOSED_REJECTED}" by auto
  from st(1,2) obtain g where g: "h = g @ [last h]" "list_all (\<lambda>x. x = CLOSED_REJECTED) g"
    "OPEN \<in> set h \<longleftrightarrow> last h = OPEN" by (metis retried_cases)
  show ?thesis
  proof (cases "last h = OPEN")
    case True
    then have "close CLOSED_CANCELLED h = g @ [CLOSED_CANCELLED]"
      using g by (metis close_snoc_open)
    with g(2) show ?thesis by (simp add: retried_def)
  next
    case False
    with st g(3) show ?thesis by (simp add: close_none)
  qed
qed

lemma history_closed:
  assumes "history_ok st h" and "st \<noteq> AWAITING_RETURN"
  shows "OPEN \<notin> set h"
proof (cases "h = []")
  case False
  with assms have "retried h" "last h \<noteq> OPEN" by (cases st; auto)+
  with False show ?thesis by (metis retried_cases)
qed simp

section \<open>How the effects move a history\<close>

lemma history_updates [simp]:
  "history pid (with_step_state q st s) = history pid s"
  "history pid (with_schedule_state sid st' s) = history pid s"
  "history pid (s\<lparr>attempts := attempts s @ [a]\<rparr>)
     = history pid s @ (if att_step_id a = pid then [att_state a] else [])"
  by (simp_all add: history_def attempts_of_step_def with_step_state_def with_schedule_state_def)

lemma history_cong: "attempts t = attempts s \<Longrightarrow> history pid t = history pid s"
  by (simp add: history_def attempts_of_step_def)

lemma history_OPEN:
  "OPEN \<in> set (history pid s) \<longleftrightarrow> (\<exists>a \<in> set (attempts s). att_step_id a = pid \<and> att_state a = OPEN)"
  by (auto simp: history_def attempts_of_step_def image_iff)

lemma history_Nil: "history pid s = [] \<longleftrightarrow> (\<forall>a \<in> set (attempts s). att_step_id a \<noteq> pid)"
  by (auto simp: history_def attempts_of_step_def filter_empty_conv)

lemma map_att_state_upd:
  assumes "\<And>a. a \<in> set t \<Longrightarrow> P a \<longleftrightarrow> att_state a = OPEN"
  shows "map att_state (upd_where P (\<lambda>a. a\<lparr>att_state := st\<rparr>) t) = close st (map att_state t)"
  using assms by (induction t) (auto simp: close_def)

lemma map_upd_where_none:
  "(\<And>r. r \<in> set t \<Longrightarrow> \<not> P r) \<Longrightarrow> map g (upd_where P f t) = map g t"
  by (simp add: upd_where_id)

lemma filter_upd_where:
  "(\<And>r. P r \<Longrightarrow> Q (f r) = Q r) \<Longrightarrow> filter Q (upd_where P f t) = upd_where P f (filter Q t)"
  by (induction t) auto

lemma history_attempt_state:
  assumes wf: "wf_store s" and a: "a \<in> set (attempts s)" "att_state a = OPEN"
  shows "history pid (with_attempt_state (att_id a) st s) =
    (if pid = att_step_id a then close st (history pid s) else history pid s)"
proof -
  have u: "unique_where (\<lambda>a. att_state a = OPEN) att_step_id (attempts s)"
    using wf by (simp add: wf_store_def wf_attempts_def)
  have same: "att_id b = att_id a \<longleftrightarrow> att_state b = OPEN"
    if "b \<in> set (attempts s)" "att_step_id b = att_step_id a" for b
    using that a wf_attempt_unique [OF wf that(1) a(1)] unique_where_inj [OF u that(1) a(1)] by auto
  have other: "att_id b \<noteq> att_id a"
    if "b \<in> set (attempts s)" "att_step_id b \<noteq> att_step_id a" for b
    using that wf_attempt_unique [OF wf that(1) a(1)] by auto
  show ?thesis
    by (auto simp: history_def attempts_of_step_def with_attempt_state_def filter_upd_where
        same other intro!: map_att_state_upd map_upd_where_none)
qed

lemma history_cancelled:
  assumes wf: "wf_store s" and p: "p \<in> set (steps s)"
  shows "history (stp_id p) (cancelled sid s) =
    (if stp_schedule_id p = sid then close CLOSED_CANCELLED (history (stp_id p) s)
     else history (stp_id p) s)"
proof -
  have "att_schedule_id a = stp_schedule_id p" if "a \<in> set (attempts s)" "att_step_id a = stp_id p" for a
    using wf_attempt_step [OF wf that(1)] that(2) wf_step_unique [OF wf _ p] by metis
  then show ?thesis
    by (auto simp: history_def attempts_of_step_def cancelled_def filter_upd_where open_attempt_def
        intro!: map_att_state_upd map_upd_where_none)
qed

section \<open>The invariant\<close>

definition histories :: "store \<Rightarrow> bool" where
  "histories s \<longleftrightarrow> (\<forall>p \<in> set (steps s). history_ok (stp_state p) (history (stp_id p) s))"

definition numbered :: "store \<Rightarrow> bool" where
  "numbered s \<longleftrightarrow> (\<forall>p \<in> set (steps s). map att_number (attempts_of_step (stp_id p) s) =
     map int [1..<Suc (length (history (stp_id p) s))])"

definition ordered :: "store \<Rightarrow> bool" where
  "ordered s \<longleftrightarrow> (\<forall>p \<in> set (steps s). \<forall>q \<in> set (steps s).
     stp_schedule_id q = stp_schedule_id p \<and> stp_position q < stp_position p \<and>
     history (stp_id p) s \<noteq> [] \<longrightarrow> stp_state q = RETURNED)"

fun content_ok :: "schedule_state \<Rightarrow> step_state \<Rightarrow> bool" where
  "content_ok DRAFT st = False"
| "content_ok COMPLETED st = (st = RETURNED)"
| "content_ok CANCELLED st = (st = RETURNED \<or> st = STEP_CANCELLED)"
| "content_ok _ st = (st \<noteq> STEP_CANCELLED)"

definition contents :: "store \<Rightarrow> bool" where
  "contents s \<longleftrightarrow> (\<forall>a \<in> set (schedules s). sch_state a \<noteq> DRAFT \<and>
     (\<forall>p \<in> set (steps s). stp_schedule_id p = sch_id a \<longrightarrow> content_ok (sch_state a) (stp_state p)))"

definition life :: "store \<Rightarrow> bool" where
  "life s \<longleftrightarrow> histories s \<and> numbered s \<and> ordered s \<and> contents s"

lemmas life_defs = life_def histories_def numbered_def ordered_def contents_def

lemma life_cong:
  assumes "schedules t = schedules s" "steps t = steps s" "attempts t = attempts s"
  shows "life t = life s"
  using assms by (simp add: life_defs history_cong [OF assms(3)] attempts_of_step_def)

lemma history_length: "length (history q s) = length (map att_number (attempts_of_step q s))"
  by (simp add: history_def)

lemma numbered_cong:
  assumes "numbered s" and ids: "stp_id ` set (steps t) = stp_id ` set (steps s)"
    and n: "\<And>q. map att_number (attempts_of_step q t) = map att_number (attempts_of_step q s)"
  shows "numbered t"
  unfolding numbered_def history_length n
proof
  fix p assume "p \<in> set (steps t)"
  then have "stp_id p \<in> stp_id ` set (steps s)" using ids by auto
  with assms(1) show "map att_number (attempts_of_step (stp_id p) s) =
      map int [1..<Suc (length (map att_number (attempts_of_step (stp_id p) s)))]"
    unfolding numbered_def history_length by auto
qed

section \<open>Preservation\<close>

lemma list_all2_set2: "list_all2 P xs ys \<Longrightarrow> y \<in> set ys \<Longrightarrow> \<exists>x \<in> set xs. P x y"
  by (metis in_set_conv_nth list_all2_conv_all_nth)

lemma life_created:
  assumes wf: "wf_store s" and life: "life s"
    and ps: "list_all2 (draft_row sid) items ps" "distinct (map stp_id (steps s @ ps))"
    and sid: "fresh sch_id sid (schedules s)"
  shows "life (created sid title mode cp ps s)"
proof -
  have new: "stp_state p = PENDING \<and> stp_schedule_id p = sid \<and> attempts_of_step (stp_id p) s = []"
    if p: "p \<in> set ps" for p
  proof -
    from list_all2_set2 [OF ps(1) p] have "stp_state p = PENDING" "stp_schedule_id p = sid"
      by (auto simp: draft_row_def row_of_draft_def)
    moreover have "stp_id q \<noteq> stp_id p" if "q \<in> set (steps s)" for q
      using ps(2) p that by (auto simp: image_iff)
    then have "attempts_of_step (stp_id p) s = []"
      using wf_attempt_step [OF wf] by (fastforce simp: attempts_of_step_def filter_empty_conv)
    ultimately show ?thesis by simp
  qed
  have old: "stp_schedule_id p \<noteq> sid" if "p \<in> set (steps s)" for p
    using wf_step_schedule [OF wf that] sid by (auto simp: fresh_def)
  have a: "attempts_of_step pid (created sid title mode cp ps s) = attempts_of_step pid s" for pid
    by (simp add: created_def attempts_of_step_def)
  have st: "set (steps (created sid title mode cp ps s)) = set (steps s) \<union> set ps"
    by (simp add: created_def)
  have sch: "set (schedules (created sid title mode cp ps s)) =
      insert \<lparr>sch_id = sid, sch_title = title, sch_state = ACTIVE, sch_mode = mode, sch_owner = cp\<rparr>
        (set (schedules s))"
    by (simp add: created_def)
  show ?thesis
    using life new old sid
    unfolding life_defs history_def a st sch fresh_def by (auto simp: ball_Un)
qed

lemma foldr_max_upt: "foldr max (map int [1..<Suc n]) 0 = int n"
proof -
  have "foldr max (map int [1..<Suc n]) k = max k (int n)" if "0 \<le> k" for k
    using that by (induction n arbitrary: k) (auto simp: max_def)
  then show ?thesis by simp
qed

lemma next_number_length:
  assumes "numbered s" and "p \<in> set (steps s)"
  shows "next_number (stp_id p) s = int (Suc (length (history (stp_id p) s)))"
proof -
  from assms have "map att_number (attempts_of_step (stp_id p) s) =
      map int [1..<Suc (length (history (stp_id p) s))]"
    by (simp add: numbered_def)
  then show ?thesis by (simp only: next_number_def foldr_max_upt)
qed

lemma steps_with_step_state:
  "set (steps (with_step_state pid st s)) =
    (\<lambda>p. if stp_id p = pid then p\<lparr>stp_state := st\<rparr> else p) ` set (steps s)"
  by (simp add: with_step_state_def set_upd_where)

lemma with_step_state_tables [simp]:
  "schedules (with_step_state pid st s) = schedules s"
  "attempts (with_step_state pid st s) = attempts s"
  "attempts_of_step q (with_step_state pid st s) = attempts_of_step q s"
  by (simp_all add: with_step_state_def attempts_of_step_def)

text \<open>The fields a change of state leaves alone.\<close>

lemma stp_if [simp]:
  "stp_id (if b then p\<lparr>stp_state := st\<rparr> else p) = stp_id p"
  "stp_schedule_id (if b then p\<lparr>stp_state := st\<rparr> else p) = stp_schedule_id p"
  "stp_position (if b then p\<lparr>stp_state := st\<rparr> else p) = stp_position p"
  "stp_state (if b then p\<lparr>stp_state := st\<rparr> else p) = (if b then st else stp_state p)"
  by simp_all

text \<open>Sealing an attempt of a step and sending it.\<close>

definition attempted :: "uuid \<Rightarrow> handoff_attempt \<Rightarrow> store \<Rightarrow> store" where
  "attempted pid a s = with_step_state pid AWAITING_RETURN (s\<lparr>attempts := attempts s @ [a]\<rparr>)"

lemma life_attempted:
  assumes wf: "wf_store s" and life: "life s" and d: "dispatchable s cp sid pid sched p"
    and a: "a = sealed aid sid pid h (next_number pid s) t"
  shows "life (attempted pid a s)"
proof -
  let ?s = "attempted pid a s"
  have p: "p \<in> set (steps s)" "stp_id p = pid" "stp_schedule_id p = sid"
    and st: "stp_state p = PENDING \<or> stp_state p = AWAITING_RETURN"
    and sch: "sched \<in> set (schedules s)" "sch_id sched = sid" "sch_state sched = ACTIVE"
    using d by (auto simp: dispatchable_def row_of_defs)
  have closed: "OPEN \<notin> set (history pid s)"
    using d wf_attempt_step [OF wf] wf_step_unique [OF wf _ p(1)] p
    by (fastforce simp: history_OPEN dispatchable_def)
  have hist: "history q ?s = history q s @ (if q = pid then [OPEN] else [])" for q
    by (simp add: attempted_def a sealed_def)
  have att: "attempts_of_step q ?s = attempts_of_step q s @ (if q = pid then [a] else [])" for q
    by (auto simp: attempted_def a sealed_def attempts_of_step_def with_step_state_def)
  have steps: "set (steps ?s) = (\<lambda>p. if stp_id p = pid then p\<lparr>stp_state := AWAITING_RETURN\<rparr> else p) ` set (steps s)"
    by (simp add: attempted_def steps_with_step_state)
  have one: "stp_state q = stp_state p" "stp_position q = stp_position p" "stp_schedule_id q = sid"
    if "q \<in> set (steps s)" "stp_id q = pid" for q
    using wf_step_unique [OF wf that(1) p(1)] that p by simp_all
  have H: "histories ?s"
    unfolding histories_def steps
  proof (simp only: ball_simps stp_if hist, intro ballI)
    fix q assume q: "q \<in> set (steps s)"
    with life have "history_ok (stp_state q) (history (stp_id q) s)"
      by (simp add: life_def histories_def)
    with history_move_open [OF _ st closed] one(1) [OF q]
    show "history_ok (if stp_id q = pid then AWAITING_RETURN else stp_state q)
        (history (stp_id q) s @ (if stp_id q = pid then [OPEN] else []))"
      by (cases "stp_id q = pid") simp_all
  qed
  have N: "numbered ?s"
    unfolding numbered_def steps
  proof (simp only: ball_simps stp_if hist att, intro ballI)
    fix q assume q: "q \<in> set (steps s)"
    from life q have "map att_number (attempts_of_step (stp_id q) s) =
        map int [1..<Suc (length (history (stp_id q) s))]"
      by (simp only: life_def numbered_def)
    moreover have "next_number pid s = int (Suc (length (history pid s)))"
      using next_number_length [of s p] life p by (simp add: life_def)
    ultimately show "map att_number (attempts_of_step (stp_id q) s @ (if stp_id q = pid then [a] else [])) =
      map int [1..<Suc (length (history (stp_id q) s @ (if stp_id q = pid then [OPEN] else [])))]"
      by (cases "stp_id q = pid") (simp_all add: a sealed_def)
  qed
  have O: "ordered ?s"
    unfolding ordered_def steps
  proof (simp only: ball_simps stp_if hist, intro ballI impI, elim conjE)
    fix q r assume q: "q \<in> set (steps s)" and r: "r \<in> set (steps s)"
      and rq: "stp_schedule_id r = stp_schedule_id q" "stp_position r < stp_position q"
      and h: "history (stp_id q) s @ (if stp_id q = pid then [OPEN] else []) \<noteq> []"
    have "stp_state r = RETURNED"
    proof (cases "stp_id q = pid")
      case True
      with d r rq one(2,3) [OF q] show ?thesis by (simp add: dispatchable_def)
    next
      case False
      with h life q r rq show ?thesis by (simp add: life_def ordered_def)
    qed
    moreover from this have "stp_id r \<noteq> pid" using one(1) [OF r] st by auto
    ultimately show "(if stp_id r = pid then AWAITING_RETURN else stp_state r) = RETURNED" by simp
  qed
  have C: "contents ?s"
    unfolding contents_def steps
  proof (simp only: ball_simps stp_if, intro ballI conjI impI)
    fix b assume b: "b \<in> set (schedules ?s)"
    then have b': "b \<in> set (schedules s)" by (simp add: attempted_def)
    with life show "sch_state b \<noteq> DRAFT" by (simp add: life_def contents_def)
    fix q assume q: "q \<in> set (steps s)" "stp_schedule_id q = sch_id b"
    with life b' have "content_ok (sch_state b) (stp_state q)" by (simp add: life_def contents_def)
    moreover have "sch_state b = ACTIVE" if "stp_id q = pid"
      using wf_schedule_unique [OF wf b' sch(1)] one(3) [OF q(1) that] q(2) sch by simp
    ultimately show "content_ok (sch_state b) (if stp_id q = pid then AWAITING_RETURN else stp_state q)"
      by (cases "stp_id q = pid") simp_all
  qed
  show ?thesis using H N O C by (simp add: life_def)
qed

text \<open>Closing the open attempt of a step that awaits its return.\<close>

lemma with_attempt_state_tables [simp]:
  "schedules (with_attempt_state aid st s) = schedules s"
  "steps (with_attempt_state aid st s) = steps s"
  "map att_number (attempts_of_step q (with_attempt_state aid st s)) = map att_number (attempts_of_step q s)"
  by (simp_all add: with_attempt_state_def attempts_of_step_def filter_upd_where map_upd_where)

lemma history_with_step_state [simp]: "history q (with_step_state pid st s) = history q s"
  by (simp add: history_def)

lemma content_returned: "content_ok x AWAITING_RETURN \<Longrightarrow> content_ok x RETURNED"
  by (cases x) simp_all

definition outcome_of :: "attempt_state \<Rightarrow> step_state" where
  "outcome_of st = (if st = CLOSED_OK then RETURNED else AWAITING_RETURN)"

lemma life_close:
  assumes wf: "wf_store s" and life: "life s"
    and p: "p \<in> set (steps s)" "stp_state p = AWAITING_RETURN"
    and a: "a \<in> set (attempts s)" "att_state a = OPEN" "att_step_id a = stp_id p"
    and st: "st = CLOSED_OK \<or> st = CLOSED_REJECTED"
  shows "life (with_step_state (stp_id p) (outcome_of st) (with_attempt_state (att_id a) st s))"
    (is "life ?s")
proof -
  let ?pid = "stp_id p"
  have hist: "history q ?s = (if q = ?pid then close st (history q s) else history q s)" for q
    by (simp add: history_attempt_state [OF wf a(1,2)] a(3))
  have steps: "set (steps ?s) = (\<lambda>p. if stp_id p = ?pid then p\<lparr>stp_state := outcome_of st\<rparr> else p) ` set (steps s)"
    by (simp add: steps_with_step_state)
  have one: "q = p" if "q \<in> set (steps s)" "stp_id q = ?pid" for q
    using wf_step_unique [OF wf that(1) p(1)] that by simp
  have ok: "history_ok (outcome_of st) (close st (history ?pid s))"
  proof -
    have aw: "history_ok AWAITING_RETURN (history ?pid s)"
      using life p by (auto simp: life_def histories_def dest: bspec)
    have "OPEN \<in> set (history ?pid s)" using a by (auto simp: history_OPEN)
    from history_move_close [OF aw this] st show ?thesis by (auto simp: outcome_of_def)
  qed
  have H: "histories ?s"
    unfolding histories_def steps
    by (simp only: ball_simps stp_if hist) (use life ok in \<open>auto simp: life_def histories_def\<close>)
  have L: "length (history q ?s) = length (history q s)" for q
    unfolding hist by (simp add: close_def)
  have N: "numbered ?s"
    by (rule numbered_cong [of s]) (use life in \<open>simp_all only: life_def steps image_image stp_if with_attempt_state_tables with_step_state_tables\<close>)
  have O: "ordered ?s"
    unfolding ordered_def steps
  proof (simp only: ball_simps stp_if, intro ballI impI, elim conjE)
    fix q r assume q: "q \<in> set (steps s)" and r: "r \<in> set (steps s)"
      and rq: "stp_schedule_id r = stp_schedule_id q" "stp_position r < stp_position q"
      and h: "history (stp_id q) ?s \<noteq> []"
    from h L [of "stp_id q"] have "history (stp_id q) s \<noteq> []" by auto
    with life q r rq have ret: "stp_state r = RETURNED" by (simp add: life_def ordered_def)
    with one [OF r] p(2) have "stp_id r \<noteq> ?pid" by auto
    with ret show "(if stp_id r = ?pid then outcome_of st else stp_state r) = RETURNED" by simp
  qed
  have C: "contents ?s"
    unfolding contents_def steps
  proof (simp only: ball_simps stp_if, intro ballI conjI impI)
    fix b assume b: "b \<in> set (schedules ?s)"
    with life show "sch_state b \<noteq> DRAFT" by (simp add: life_def contents_def)
    fix q assume q: "q \<in> set (steps s)" "stp_schedule_id q = sch_id b"
    with life b have c: "content_ok (sch_state b) (stp_state q)" by (simp add: life_def contents_def)
    show "content_ok (sch_state b) (if stp_id q = ?pid then outcome_of st else stp_state q)"
    proof (cases "stp_id q = ?pid")
      case True
      with one [OF q(1)] p(2) c have "content_ok (sch_state b) AWAITING_RETURN" by simp
      with True show ?thesis by (simp add: outcome_of_def content_returned)
    qed (use c in simp)
  qed
  show ?thesis using H N O C by (simp add: life_def)
qed

text \<open>Moving a schedule to a state its steps agree with.\<close>

lemma life_schedule_state:
  assumes "life s" and "st \<noteq> DRAFT"
    and "\<forall>p \<in> set (steps s). stp_schedule_id p = sid \<longrightarrow> content_ok st (stp_state p)"
  shows "life (with_schedule_state sid st s)"
proof -
  have a: "attempts_of_step q (with_schedule_state sid st s) = attempts_of_step q s" for q
    by (simp add: with_schedule_state_def attempts_of_step_def)
  have p: "steps (with_schedule_state sid st s) = steps s" by (simp add: with_schedule_state_def)
  have "contents (with_schedule_state sid st s)"
    using assms by (auto simp: contents_def life_def p with_schedule_state_def set_upd_where)
  with assms(1) show ?thesis
    by (simp add: life_def histories_def numbered_def ordered_def a p)
qed

lemma content_same:
  "content_ok x st \<Longrightarrow> x \<in> {ACTIVE, PAUSED, STOPPED} \<Longrightarrow> y \<in> {ACTIVE, PAUSED, STOPPED} \<Longrightarrow> content_ok y st"
  by auto

text \<open>Cancelling a schedule that is active or paused.\<close>

lemma life_cancelled:
  assumes wf: "wf_store s" and life: "life s"
    and a: "a \<in> set (schedules s)" "sch_id a = sid" "sch_state a = ACTIVE \<or> sch_state a = PAUSED"
  shows "life (with_schedule_state sid CANCELLED (cancelled sid s))" (is "life ?s")
proof -
  let ?f = "\<lambda>p. if live_step sid p then p\<lparr>stp_state := STEP_CANCELLED\<rparr> else p"
  have steps: "set (steps ?s) = ?f ` set (steps s)"
    by (simp add: with_schedule_state_def cancelled_def set_upd_where)
  have hist: "history (stp_id p) ?s =
      (if stp_schedule_id p = sid then close CLOSED_CANCELLED (history (stp_id p) s)
       else history (stp_id p) s)" if "p \<in> set (steps s)" for p
    by (simp add: history_cancelled [OF wf that])
  have L: "length (history (stp_id p) ?s) = length (history (stp_id p) s)" if "p \<in> set (steps s)" for p
    unfolding hist [OF that] by (simp add: close_def)
  have N0: "map att_number (attempts_of_step q ?s) = map att_number (attempts_of_step q s)" for q
    by (simp add: with_schedule_state_def cancelled_def attempts_of_step_def filter_upd_where
        map_upd_where open_attempt_def)
  have finished: "stp_state p = RETURNED"
    if p: "p \<in> set (steps s)" "stp_schedule_id p = sid" "\<not> live_step sid p" for p
  proof -
    from life a p have "content_ok (sch_state a) (stp_state p)" "history_ok (stp_state p) (history (stp_id p) s)"
      by (auto simp: life_def contents_def histories_def)
    with a(3) p(2,3) show ?thesis by (cases "stp_state p") (auto simp: live_step_def)
  qed
  have H: "histories ?s"
    unfolding histories_def steps
  proof (simp only: ball_simps stp_if, intro ballI)
    fix p assume p: "p \<in> set (steps s)"
    with life have h: "history_ok (stp_state p) (history (stp_id p) s)"
      by (simp add: life_def histories_def)
    consider "live_step sid p" | "stp_schedule_id p = sid" "\<not> live_step sid p" | "stp_schedule_id p \<noteq> sid"
      by blast
    then show "history_ok (if live_step sid p then STEP_CANCELLED else stp_state p) (history (stp_id p) ?s)"
    proof cases
      case 1
      with h history_move_cancel [OF h] show ?thesis unfolding hist [OF p] by (auto simp: live_step_def)
    next
      case 2
      with h history_closed [OF h] finished [OF p] show ?thesis unfolding hist [OF p] by (simp add: close_none)
    next
      case 3
      with h show ?thesis unfolding hist [OF p] by (simp add: live_step_def)
    qed
  qed
  have N: "numbered ?s"
    by (rule numbered_cong [of s, OF _ _ N0]) (use life in \<open>simp_all only: life_def steps image_image stp_if\<close>)
  have O: "ordered ?s"
    unfolding ordered_def steps
  proof (simp only: ball_simps stp_if, intro ballI impI, elim conjE)
    fix q r assume q: "q \<in> set (steps s)" and r: "r \<in> set (steps s)"
      and rq: "stp_schedule_id r = stp_schedule_id q" "stp_position r < stp_position q"
      and h: "history (stp_id q) ?s \<noteq> []"
    from h L [OF q] have "history (stp_id q) s \<noteq> []" by auto
    with life q r rq have ret: "stp_state r = RETURNED" by (simp add: life_def ordered_def)
    then show "(if live_step sid r then STEP_CANCELLED else stp_state r) = RETURNED"
      by (simp add: live_step_def)
  qed
  have C: "contents ?s"
    unfolding contents_def steps
  proof (simp only: ball_simps stp_if, intro ballI conjI impI)
    fix b assume "b \<in> set (schedules ?s)"
    then obtain b' where b: "b' \<in> set (schedules s)" "sch_id b = sch_id b'"
      "sch_state b = (if sch_id b' = sid then CANCELLED else sch_state b')"
      by (auto simp: with_schedule_state_def cancelled_def set_upd_where split: if_splits)
    with life show "sch_state b \<noteq> DRAFT" by (auto simp: life_def contents_def)
    fix p assume p: "p \<in> set (steps s)" "stp_schedule_id p = sch_id b"
    show "content_ok (sch_state b) (if live_step sid p then STEP_CANCELLED else stp_state p)"
    proof (cases "sch_id b' = sid")
      case True
      with b p finished [OF p(1)] show ?thesis by auto
    next
      case False
      with b p life show ?thesis by (auto simp: life_def contents_def live_step_def)
    qed
  qed
  show ?thesis using H N O C by (simp add: life_def)
qed

section \<open>Every effect\<close>

lemma with_step_state_same:
  assumes "wf_store s" and "p \<in> set (steps s)"
  shows "with_step_state (stp_id p) (stp_state p) s = s"
proof -
  have "q\<lparr>stp_state := stp_state p\<rparr> = q" if "q \<in> set (steps s)" "stp_id q = stp_id p" for q
    using wf_step_unique [OF assms(1) that(1) assms(2) that(2)] by simp
  then have "upd_where (\<lambda>q. stp_id q = stp_id p) (\<lambda>q. q\<lparr>stp_state := stp_state p\<rparr>) (steps s) = steps s"
    unfolding upd_where_def by (intro map_idI) simp
  then show ?thesis by (simp add: with_step_state_def)
qed

lemma imported_tables:
  "schedules (imported aid out r t obs s) = schedules s"
  "steps (imported aid out r t obs s) = steps s"
  "attempts (imported aid out r t obs s) =
     attempts (with_attempt_state aid (if accepted out then CLOSED_OK else CLOSED_REJECTED) s)"
  by (simp_all add: imported_def with_attempt_state_def)

lemma life_rejected:
  assumes wf: "wf_store s" and life: "life s" and i: "importable s cp sid pid aid p a"
    and "\<not> accepted out"
  shows "life (imported aid out r t obs s)"
proof -
  from i have p: "p \<in> set (steps s)" "stp_state p = AWAITING_RETURN" "stp_id p = pid"
    and a: "a \<in> set (attempts s)" "att_state a = OPEN" "att_step_id a = stp_id p" "att_id a = aid"
    by (auto simp: importable_def row_of_defs)
  from life_close [OF wf life p(1,2) a(1-3), of CLOSED_REJECTED] a(4)
  have "life (with_step_state (stp_id p) AWAITING_RETURN (with_attempt_state aid CLOSED_REJECTED s))"
    by (simp add: outcome_of_def)
  also have "life \<dots> = life (imported aid out r t obs s)"
  proof (rule life_cong)
    from with_step_state_same [OF wf p(1)] p(2)
    have "steps s = steps (with_step_state (stp_id p) AWAITING_RETURN s)" by simp
    then show "steps (with_step_state (stp_id p) AWAITING_RETURN (with_attempt_state aid CLOSED_REJECTED s))
        = steps (imported aid out r t obs s)"
      by (simp add: imported_tables with_step_state_def with_attempt_state_def)
  qed (use assms(4) in \<open>simp_all add: imported_tables\<close>)
  finally show ?thesis .
qed

lemma with_schedule_state_tables [simp]:
  "steps (with_schedule_state sid st s) = steps s"
  "attempts (with_schedule_state sid st s) = attempts s"
  by (simp_all add: with_schedule_state_def)

lemma life_accepted:
  assumes wf: "wf_store s" and life: "life s" and i: "importable s cp sid pid aid p a"
    and acc: "accepted out"
  shows "life (advanced cp sid pid eid n (imported aid out r t obs s))"
proof -
  from i have p: "p \<in> set (steps s)" "stp_state p = AWAITING_RETURN" "stp_id p = pid"
    and a: "a \<in> set (attempts s)" "att_state a = OPEN" "att_step_id a = stp_id p" "att_id a = aid"
    by (auto simp: importable_def row_of_defs)
  let ?s = "with_step_state pid RETURNED (imported aid out r t obs s)"
  from life_close [OF wf life p(1,2) a(1-3), of CLOSED_OK] a(4) p(3)
  have "life (with_step_state pid RETURNED (with_attempt_state aid CLOSED_OK s))"
    by (simp add: outcome_of_def)
  also have "life \<dots> = life ?s"
    using acc by (intro life_cong [symmetric]) (simp_all add: imported_tables with_step_state_def)
  finally have s: "life ?s" .
  show ?thesis
  proof (cases "completes ?s cp sid")
    case True
    then have "life (with_schedule_state sid COMPLETED ?s)"
      by (intro life_schedule_state [OF s]) (auto simp: completes_def)
    then have "life (completed sid e ?s)" for e
      by (subst life_cong [of _ "with_schedule_state sid COMPLETED ?s"])
        (auto simp: completed_def with_schedule_state_def)
    with True show ?thesis by (simp add: advanced_def)
  next
    case False
    with s show ?thesis by (simp add: advanced_def)
  qed
qed

lemma control_targets:
  assumes "ACAO_DESTINO action = Some st" and "(x, st) \<in> E7_3_IMPLEMENTED_SCHEDULE_TRANSITIONS"
  shows "x = ACTIVE \<or> x = PAUSED" and "st = CANCELLED \<longleftrightarrow> action = pys ''cancel''"
    and "st \<in> {ACTIVE, PAUSED, STOPPED, CANCELLED}"
  using assms by (auto simp: ACAO_DESTINO_def transition_defs split: if_splits)

lemma life_controlled:
  assumes wf: "wf_store s" and life: "life s" and a: "schedule_of s cp sid a"
    and st: "ACAO_DESTINO action = Some st" "(sch_state a, st) \<in> E7_3_IMPLEMENTED_SCHEDULE_TRANSITIONS"
  shows "life (controlled sid action st s)"
proof (cases "action = pys ''cancel''")
  case True
  with life_cancelled [OF wf life _ _ control_targets(1) [OF st]] a control_targets(2) [OF st]
  show ?thesis by (simp add: controlled_def schedule_of_def)
next
  case False
  with control_targets [OF st] have x: "sch_state a \<in> {ACTIVE, PAUSED, STOPPED}" "st \<in> {ACTIVE, PAUSED, STOPPED}"
    by auto
  have "content_ok st (stp_state p)" if "p \<in> set (steps s)" "stp_schedule_id p = sid" for p
  proof (rule content_same [OF _ x])
    show "content_ok (sch_state a) (stp_state p)"
      using life a that by (auto simp: life_def contents_def schedule_of_def)
  qed
  with x(2) life have "life (with_schedule_state sid st s)"
    by (intro life_schedule_state) auto
  with False show ?thesis by (simp add: controlled_def)
qed

lemma life_paused:
  assumes wf: "wf_store s" and life: "life s" and d: "dispatchable s cp sid pid a p"
  shows "life (paused sid e s)"
proof -
  have "content_ok PAUSED (stp_state p)" if "p \<in> set (steps s)" "stp_schedule_id p = sid" for p
  proof (rule content_same)
    show "content_ok (sch_state a) (stp_state p)"
      using life d that by (auto simp: life_def contents_def dispatchable_def schedule_of_def)
  qed (use d in \<open>simp_all add: dispatchable_def\<close>)
  with life have "life (with_schedule_state sid PAUSED s)"
    by (intro life_schedule_state) auto
  then show ?thesis
    by (subst life_cong [of _ "with_schedule_state sid PAUSED s"])
      (simp_all add: paused_def)
qed

lemma life_dispatched:
  assumes wf: "wf_store s" and life: "life s"
    and e: "export_effect c aid cp sid pid sealer sched p e h did s s'"
  shows "life s'"
proof -
  let ?a = "sealed aid sid pid h (next_number pid s) (now s)"
  from e obtain ds profs x rid where d: "dispatchable s cp sid pid sched p" and
    s': "scrub s' = scrub (dispatched s pid ds ?a (receipt rid aid h (now s) sealer) profs x)"
    by (auto simp: export_effect_def)
  have "life (attempted pid ?a s)" by (rule life_attempted [OF wf life d refl])
  also have "life \<dots> = life s'"
    using scrub_eqD [OF s']
    by (intro life_cong) (simp_all add: dispatched_def attempted_def with_step_state_def)
  finally show ?thesis .
qed

lemma effect_life:
  assumes "effect c cp s s'" and wf: "wf_store s" and life: "life s"
  shows "life s'"
  using assms(1)
proof (cases rule: effect.cases)
  case (create sid drafts ps mode title)
  with life_created [OF wf life] show ?thesis by simp
next
  case export
  with life_dispatched [OF wf life] show ?thesis by blast
next
  case import_rejected
  with life_rejected [OF wf life] show ?thesis by simp
next
  case import_accepted
  with life_accepted [OF wf life] show ?thesis by simp
next
  case (control sid a action st kind category reason eid)
  from life_controlled [OF wf life control(2-4)] show ?thesis
    unfolding control(1) by (subst life_cong [of _ "controlled sid action st s"]) simp_all
next
  case gate_pause
  with life_paused [OF wf life] show ?thesis by simp
qed (use life in \<open>simp_all add: life_cong [of "s\<lparr>delegations := ds\<rparr>" s for ds]
    life_cong [of "s\<lparr>opinions := os\<rparr>" s for os]\<close>)

end
