(* ===== verification/Evolution.thy ===== *)
theory Evolution
  imports Lifecycle "HOL-Library.Sublist"
begin

text \<open>
  How the database evolves: no row is ever deleted, the columns that record what happened never
  change, the evidence tables are append-only, and the state of a row only moves along the
  transitions the vocabulary declares, so that a terminal state is final.
\<close>

section \<open>Tables that grow\<close>

text \<open>Rows keep their place; each is related to what it was.\<close>

definition grown :: "('r \<Rightarrow> 'r \<Rightarrow> bool) \<Rightarrow> 'r list \<Rightarrow> 'r list \<Rightarrow> bool" where
  "grown R t t' \<longleftrightarrow> length t \<le> length t' \<and> list_all2 R t (take (length t) t')"

lemma grown_refl: "(\<And>r. R r r) \<Longrightarrow> grown R t t"
  by (simp add: grown_def list_all2_refl)

lemma grown_append: "(\<And>r. R r r) \<Longrightarrow> grown R t (t @ u)"
  by (simp add: grown_def list_all2_refl)

lemma grown_upd:
  "(\<And>r. R r r) \<Longrightarrow> (\<And>r. r \<in> set t \<Longrightarrow> P r \<Longrightarrow> R r (f r)) \<Longrightarrow> grown R t (upd_where P f t)"
  by (auto simp: grown_def upd_where_def list_all2_conv_all_nth)

lemma grown_trans:
  assumes "\<And>x y z. R x y \<Longrightarrow> R y z \<Longrightarrow> R x z" and "grown R t u" and "grown R u v"
  shows "grown R t v"
  using assms by (fastforce simp: grown_def list_all2_conv_all_nth)

lemma grown_member:
  assumes "grown R t t'" and "r \<in> set t"
  shows "\<exists>r' \<in> set t'. R r r'"
proof -
  from assms(2) obtain i where i: "i < length t" "r = t ! i" by (auto simp: in_set_conv_nth)
  with assms(1) have "R r (t' ! i)" "t' ! i \<in> set t'"
    by (auto simp: grown_def list_all2_conv_all_nth)
  then show ?thesis by blast
qed

section \<open>The relations of the rows\<close>

text \<open>Everything but the state, and the state along the declared transitions.\<close>

definition schedule_evolves :: "schedule \<Rightarrow> schedule \<Rightarrow> bool" where
  "schedule_evolves a b \<longleftrightarrow> b = a\<lparr>sch_state := sch_state b\<rparr> \<and>
     (sch_state a, sch_state b) \<in> schedule_transitions\<^sup>*"

definition step_evolves :: "schedule_step \<Rightarrow> schedule_step \<Rightarrow> bool" where
  "step_evolves p q \<longleftrightarrow> q = p\<lparr>stp_state := stp_state q\<rparr> \<and>
     (stp_state p, stp_state q) \<in> step_transitions\<^sup>*"

definition attempt_evolves :: "handoff_attempt \<Rightarrow> handoff_attempt \<Rightarrow> bool" where
  "attempt_evolves a b \<longleftrightarrow> b = a\<lparr>att_state := att_state b\<rparr> \<and>
     (att_state a, att_state b) \<in> attempt_transitions\<^sup>*"

text \<open>A delegation also records when and by which attempt it was consumed.\<close>

definition delegation_evolves :: "service_delegation \<Rightarrow> service_delegation \<Rightarrow> bool" where
  "delegation_evolves d e \<longleftrightarrow> e = d \<or>
     dlg_state d = DELEGATION_ACTIVE \<and> dlg_state e \<in> TERMINAL_DELEGATION_STATES \<and>
     e = d\<lparr>dlg_state := dlg_state e, dlg_consumed_at := dlg_consumed_at e,
           dlg_consumed_by := dlg_consumed_by e\<rparr>"

lemmas row_evolves_defs =
  schedule_evolves_def step_evolves_def attempt_evolves_def delegation_evolves_def

lemma evolves_refl [simp]:
  "schedule_evolves a a" "step_evolves p p" "attempt_evolves b b" "delegation_evolves d d"
  by (simp_all add: row_evolves_defs)

lemma evolves_trans:
  "schedule_evolves a1 a2 \<Longrightarrow> schedule_evolves a2 a3 \<Longrightarrow> schedule_evolves a1 a3"
  "step_evolves p1 p2 \<Longrightarrow> step_evolves p2 p3 \<Longrightarrow> step_evolves p1 p3"
  "attempt_evolves b1 b2 \<Longrightarrow> attempt_evolves b2 b3 \<Longrightarrow> attempt_evolves b1 b3"
  "delegation_evolves d1 d2 \<Longrightarrow> delegation_evolves d2 d3 \<Longrightarrow> delegation_evolves d1 d3"
  unfolding schedule_evolves_def step_evolves_def attempt_evolves_def
     apply (metis rtrancl_trans schedule.update_convs(3) schedule.surjective)
    apply (metis rtrancl_trans schedule_step.update_convs(9) schedule_step.surjective)
   apply (metis rtrancl_trans handoff_attempt.update_convs(7) handoff_attempt.surjective)
  apply (auto simp: delegation_evolves_def TERMINAL_DELEGATION_STATES_def)
  done

section \<open>The evolution of the database\<close>

definition evolves :: "store \<Rightarrow> store \<Rightarrow> bool" where
  "evolves s t \<longleftrightarrow>
     grown schedule_evolves (schedules s) (schedules t) \<and>
     grown step_evolves (steps s) (steps t) \<and>
     grown attempt_evolves (attempts s) (attempts t) \<and>
     grown delegation_evolves (delegations s) (delegations t) \<and>
     prefix (commands s) (commands t) \<and> prefix (seals s) (seals t) \<and> prefix (results s) (results t) \<and>
     prefix (attributions s) (attributions t) \<and> prefix (events s) (events t) \<and>
     prefix (observations s) (observations t) \<and> prefix (opinions s) (opinions t) \<and>
     prefix (profiles s) (profiles t) \<and> prefix (exec_receipts s) (exec_receipts t) \<and>
     provider_ids t = provider_ids s"

lemma evolves_same: "carries cp s t \<Longrightarrow> evolves s t"
  using rows_eqD [of cp t s] by (simp add: evolves_def grown_refl carries_def)

lemma evolves_transD: "evolves s t \<Longrightarrow> evolves t u \<Longrightarrow> evolves s u"
  unfolding evolves_def
  by (elim conjE, intro conjI; (erule (1) grown_trans [rotated] | erule (1) prefix_order.trans | simp); (rule evolves_trans; assumption))

text \<open>The four kinds of change of a table.\<close>

lemma evolves_schedule_state:
  assumes "wf_store s" and "a \<in> set (schedules s)" and "(sch_state a, st) \<in> schedule_transitions\<^sup>*"
  shows "grown schedule_evolves (schedules s) (schedules (with_schedule_state (sch_id a) st s))"
  unfolding with_schedule_state_def
  using assms
  by (auto intro!: grown_upd simp: schedule_evolves_def dest!: wf_schedule_unique [OF assms(1) _ assms(2)])

lemma evolves_step_state:
  assumes "wf_store s" and "p \<in> set (steps s)" and "(stp_state p, st) \<in> step_transitions\<^sup>*"
  shows "grown step_evolves (steps s) (steps (with_step_state (stp_id p) st s))"
  unfolding with_step_state_def
  using assms
  by (auto intro!: grown_upd simp: step_evolves_def dest!: wf_step_unique [OF assms(1) _ assms(2)])

lemma evolves_attempt_state:
  assumes "wf_store s" and "a \<in> set (attempts s)" and "(att_state a, st) \<in> attempt_transitions\<^sup>*"
  shows "grown attempt_evolves (attempts s) (attempts (with_attempt_state (att_id a) st s))"
  unfolding with_attempt_state_def
  using assms
  by (auto intro!: grown_upd simp: attempt_evolves_def dest!: wf_attempt_unique [OF assms(1) _ assms(2)])

lemma grown_expire: "grown delegation_evolves (delegations s) (expire sid pid s)"
  unfolding expire_def
  by (rule grown_upd) (auto simp: delegation_evolves_def expired_at_def TERMINAL_DELEGATION_STATES_def)

lemma grown_revoke_all: "grown delegation_evolves ds (revoke_all sid pid scope ds)"
  unfolding revoke_all_def
  by (rule grown_upd) (auto simp: delegation_evolves_def revocable_def TERMINAL_DELEGATION_STATES_def)

lemma grown_consume: "grown delegation_evolves ds (consume sid pid h t aid did ds)"
  unfolding consume_def
  by (cases did) (auto intro!: grown_upd grown_refl
      simp: delegation_evolves_def consumable_def consumed_row_def TERMINAL_DELEGATION_STATES_def)

lemma grown_delegations_trans:
  "grown delegation_evolves s t \<Longrightarrow> grown delegation_evolves t u \<Longrightarrow> grown delegation_evolves s u"
  by (erule (1) grown_trans [rotated]) (rule evolves_trans)

lemma step_moves:
  "(PENDING, AWAITING_RETURN) \<in> step_transitions\<^sup>*" "(AWAITING_RETURN, RETURNED) \<in> step_transitions\<^sup>*"
  "(PENDING, STEP_CANCELLED) \<in> step_transitions\<^sup>*" "(AWAITING_RETURN, STEP_CANCELLED) \<in> step_transitions\<^sup>*"
  by (auto simp: transition_defs
      intro: converse_rtrancl_into_rtrancl [of PENDING DISPATCHED])

lemma attempt_moves:
  "(OPEN, CLOSED_OK) \<in> attempt_transitions\<^sup>*" "(OPEN, CLOSED_REJECTED) \<in> attempt_transitions\<^sup>*"
  "(OPEN, CLOSED_CANCELLED) \<in> attempt_transitions\<^sup>*"
  by (auto simp: transition_defs)

section \<open>Every effect\<close>

lemma grown_cancelled:
  "grown step_evolves (steps s) (steps (cancelled sid s))"
  "grown attempt_evolves (attempts s) (attempts (cancelled sid s))"
  unfolding cancelled_def
  by (auto intro!: grown_upd step_moves attempt_moves
      simp: live_step_def open_attempt_def step_evolves_def attempt_evolves_def)

lemma grown_trans_rows:
  "grown step_evolves t1 t2 \<Longrightarrow> grown step_evolves t2 t3 \<Longrightarrow> grown step_evolves t1 t3"
  "grown attempt_evolves u1 u2 \<Longrightarrow> grown attempt_evolves u2 u3 \<Longrightarrow> grown attempt_evolves u1 u3"
  "grown schedule_evolves v1 v2 \<Longrightarrow> grown schedule_evolves v2 v3 \<Longrightarrow> grown schedule_evolves v1 v3"
  by (erule (1) grown_trans [rotated], erule (1) evolves_trans)+

lemma evolves_export:
  assumes wf: "wf_store s" and e: "export_effect c aid cp sid pid sealer sched p e h did s s'"
  shows "evolves s s'"
proof -
  let ?a = "sealed aid sid pid h (next_number pid s) (now s)"
  from e have d: "dispatchable s cp sid pid sched p" by (simp add: export_effect_def)
  from e obtain ds rid xid prof profs where
    ds: "authorized_by c s sid pid p h did ds" and
    profs: "profs = profiles s \<or> profs = profiles s @ [prof]" and
    s': "scrub s' = scrub (dispatched s pid (consume sid pid h (now s) aid did ds) ?a
      (receipt rid aid h (now s) sealer) profs (manual_receipt xid cp sid pid aid (con_id prof) (now s)))"
    unfolding export_effect_def by blast
  from ds have "grown delegation_evolves (delegations s) ds"
    by (auto simp: authorized_by_def intro: grown_expire grown_refl)
  from grown_delegations_trans [OF this grown_consume]
  have dl: "grown delegation_evolves (delegations s) (consume sid pid h (now s) aid did ds)" .
  from d have "p \<in> set (steps s)" "stp_id p = pid" "(stp_state p, AWAITING_RETURN) \<in> step_transitions\<^sup>*"
    by (auto simp: dispatchable_def row_of_defs intro: step_moves)
  from evolves_step_state [OF wf this(1,3)] this(2)
  have st: "grown step_evolves (steps s)
      (upd_where (\<lambda>p. stp_id p = pid) (\<lambda>p. p\<lparr>stp_state := AWAITING_RETURN\<rparr>) (steps s))"
    by (simp add: with_step_state_def)
  show ?thesis
    using scrub_eqD [OF s'] dl st profs
    by (auto simp: evolves_def dispatched_def with_step_state_def grown_refl grown_append)
qed

lemma evolves_import:
  assumes wf: "wf_store s" and i: "importable s cp sid pid aid p a"
  shows "evolves s (imported aid out r t obs s)"
proof -
  from i have a: "a \<in> set (attempts s)" "att_state a = OPEN" "att_id a = aid"
    by (auto simp: importable_def row_of_defs)
  have "(att_state a, if accepted out then CLOSED_OK else CLOSED_REJECTED) \<in> attempt_transitions\<^sup>*"
    using a(2) attempt_moves by simp
  from evolves_attempt_state [OF wf a(1) this] a(3) show ?thesis
    by (simp add: evolves_def imported_def with_attempt_state_def grown_refl)
qed

lemma evolves_advance:
  assumes wf: "wf_store s" and p: "p \<in> set (steps s)" "stp_id p = pid" "stp_state p = AWAITING_RETURN"
    and u: "steps u = steps s" "schedules u = schedules s"
  shows "evolves u (advanced cp sid pid eid n u)"
proof -
  let ?s = "with_step_state pid RETURNED u"
  have "(stp_state p, RETURNED) \<in> step_transitions\<^sup>*" using p(3) step_moves by simp
  from evolves_step_state [OF wf p(1) this] p(2)
  have st: "grown step_evolves (steps s) (steps ?s)" by (simp add: with_step_state_def u)
  have sc: "grown schedule_evolves (schedules s) (schedules (with_schedule_state sid COMPLETED u))"
    if c: "completes ?s cp sid"
  proof -
    from c obtain a where a: "a \<in> set (schedules s)" "sch_id a = sid" "sch_state a = ACTIVE"
      by (auto simp: completes_def schedule_of_def u)
    then have "(sch_state a, COMPLETED) \<in> schedule_transitions\<^sup>*" by (auto simp: transition_defs)
    from evolves_schedule_state [OF wf a(1) this] a(2) show ?thesis by (simp add: with_schedule_state_def u)
  qed
  show ?thesis
    using st sc
    by (simp add: u evolves_def advanced_def Let_def completed_def with_step_state_def
        with_schedule_state_def grown_refl)
qed

lemma evolves_control:
  assumes wf: "wf_store s" and a: "schedule_of s cp sid a"
    and st: "(sch_state a, st) \<in> E7_3_IMPLEMENTED_SCHEDULE_TRANSITIONS"
  shows "evolves s ((controlled sid action st s)\<lparr>events := events s @ [e]\<rparr>)"
proof -
  from a have a': "a \<in> set (schedules s)" "sch_id a = sid" by (auto simp: schedule_of_def)
  have "(sch_state a, st) \<in> schedule_transitions\<^sup>*"
    using st by (auto simp: schedule_transitions_def)
  from evolves_schedule_state [OF wf a'(1) this] a'(2)
  have "grown schedule_evolves (schedules s) (schedules (with_schedule_state sid st s))" by simp
  moreover have "schedules (with_schedule_state sid st (cancelled sid s)) = schedules (with_schedule_state sid st s)"
    by (simp add: with_schedule_state_def cancelled_def)
  ultimately show ?thesis
    using grown_cancelled [where s = s and sid = sid]
    by (auto simp: evolves_def controlled_def with_schedule_state_def cancelled_def grown_refl)
qed

theorem effect_evolves:
  assumes "effect c cp s s'" and wf: "wf_store s"
  shows "evolves s s'"
  using assms(1)
proof (cases rule: effect.cases)
  case create
  then show ?thesis by (simp add: evolves_def created_def grown_append grown_refl)
next
  case export
  with evolves_export [OF wf] show ?thesis by blast
next
  case import_rejected
  with evolves_import [OF wf] show ?thesis by simp
next
  case (import_accepted sid pid aid p a out tid d obs eid rid ref)
  let ?u = "imported aid out (result_row rid aid (stp_output_contract p) ref out)
    (attribution_row tid aid (stp_role p) d (now s)) obs s"
  have "evolves ?u (advanced cp sid pid eid (now s) ?u)"
    using import_accepted(2)
    by (intro evolves_advance [OF wf]) (auto simp: imported_tables importable_def row_of_defs)
  with evolves_transD [OF evolves_import [OF wf import_accepted(2)]] import_accepted(1)
  show ?thesis by blast
next
  case control
  with evolves_control [OF wf] show ?thesis by simp
next
  case grant
  moreover have "grown delegation_evolves (delegations s)
      (revoke_all x y z (expire v w s) @ [r])" for x y z v w r
    by (rule grown_delegations_trans [OF grown_expire grown_delegations_trans [OF grown_revoke_all grown_append]])
      simp
  ultimately show ?thesis by (simp add: evolves_def grown_refl)
next
  case revoke
  then show ?thesis by (simp add: evolves_def grown_refl grown_revoke_all)
next
  case opinion
  then show ?thesis by (simp add: evolves_def grown_refl)
next
  case expiry
  then show ?thesis by (simp add: evolves_def grown_refl grown_expire)
next
  case (gate_pause sid pid a p g eid reason)
  then have a: "a \<in> set (schedules s)" "sch_id a = sid" "(sch_state a, PAUSED) \<in> schedule_transitions\<^sup>*"
    by (auto simp: dispatchable_def schedule_of_def transition_defs)
  from evolves_schedule_state [OF wf a(1,3)] a(2) gate_pause(1) show ?thesis
    by (simp add: evolves_def paused_def with_schedule_state_def grown_refl)
qed

end
