(* ===== verification/Reachable.thy ===== *)
theory Reachable
  imports Evolution
begin

text \<open>
  The databases the router can reach: from empty tables, one request after another, each with any
  principal, key, time and arguments, whether it succeeds or is rolled back. A property of the
  rows that every effect keeps holds in all of them: the contract is a locale, interpreted on
  each invariant of the development.
\<close>

section \<open>Reachable databases\<close>

definition initial :: "store \<Rightarrow> bool" where
  "initial s \<longleftrightarrow> schedules s = [] \<and> steps s = [] \<and> attempts s = [] \<and> seals s = [] \<and> commands s = [] \<and>
     results s = [] \<and> attributions s = [] \<and> delegations s = [] \<and> events s = [] \<and> observations s = [] \<and>
     opinions s = [] \<and> profiles s = [] \<and> exec_receipts s = []"

inductive reaches :: "composition \<Rightarrow> python_runtime \<Rightarrow> store \<Rightarrow> store \<Rightarrow> bool" for c rt s where
  start: "reaches c rt s s"
| serve: "reaches c rt s t \<Longrightarrow> valid_call cl \<Longrightarrow> reaches c rt s (serve c rt n cp key cl t)"

inductive_cases reaches_elim: "reaches c rt s t"

definition reachable :: "composition \<Rightarrow> python_runtime \<Rightarrow> store \<Rightarrow> bool" where
  "reachable c rt t \<longleftrightarrow> (\<exists>s. initial s \<and> reaches c rt s t)"

lemma reaches_trans: "reaches c rt t u \<Longrightarrow> reaches c rt s t \<Longrightarrow> reaches c rt s u"
  by (induction rule: reaches.induct) (auto intro: reaches.intros)

lemma reachable_induct [consumes 1, case_names initial serve]:
  assumes "reachable c rt t"
    and "\<And>s. initial s \<Longrightarrow> P s"
    and "\<And>s n cp key cl. reachable c rt s \<Longrightarrow> P s \<Longrightarrow> valid_call cl \<Longrightarrow> P (serve c rt n cp key cl s)"
  shows "P t"
proof -
  from assms(1) obtain s where s: "initial s" "reaches c rt s t" by (auto simp: reachable_def)
  from s(2) show ?thesis
  proof (induction rule: reaches.induct)
    case start
    show ?case by (rule assms(2) [OF s(1)])
  next
    case (serve t cl n cp key)
    moreover from serve.hyps(1) s(1) have "reachable c rt t" by (auto simp: reachable_def)
    ultimately show ?case by (intro assms(3))
  qed
qed

lemma wf_initial: "initial s \<Longrightarrow> wf_store s"
  by (simp add: initial_def wf_store_def wf_defs rows_ok_def unique_where_def)

lemma reachable_wf: "reachable c rt s \<Longrightarrow> wf_store s"
  by (induction rule: reachable_induct) (auto intro: wf_initial wf_serve)

section \<open>Invariants of the rows\<close>

text \<open>
  The contract between an invariant and the effects: it depends on the rows only, the empty tables
  satisfy it and every effect on a well-formed database in a consistent life cycle keeps it.
\<close>

locale row_invariant =
  fixes c :: composition and I :: "store \<Rightarrow> bool"
  assumes same_rows: "rows cp t = rows cp s \<Longrightarrow> I s \<Longrightarrow> I t"
    and starts: "initial s \<Longrightarrow> I s"
    and keeps: "effect c cp s t \<Longrightarrow> wf_store s \<Longrightarrow> life s \<Longrightarrow> I s \<Longrightarrow> I t"
begin

lemma change_keeps:
  assumes "change c cp s t" and "life s" and "I s"
  shows "life t \<and> I t"
  using assms
proof (induction rule: change.induct)
  case (same s t)
  from rows_eqD [OF carries_rows [OF same.hyps]] same.prems have "life t" by (simp add: life_cong [of t s])
  with same_rows [OF carries_rows [OF same.hyps]] same.prems show ?case by blast
next
  case (step s t t' u s')
  then have t: "life t" "I t" by blast+
  from rows_eqD [OF carries_rows [OF step.hyps(3)]] t(1) have "life t'" by (simp add: life_cong [of t' t])
  moreover have "I t'" by (rule same_rows [OF carries_rows [OF step.hyps(3)] t(2)])
  ultimately have u: "life u" "I u"
    using effect_life [OF step.hyps(4,2)] keeps [OF step.hyps(4,2)] by blast+
  from rows_eqD [OF carries_rows [OF step.hyps(6)]] u(1) have "life s'" by (simp add: life_cong [of s' u])
  with same_rows [OF carries_rows [OF step.hyps(6)] u(2)] show ?case by blast
qed

lemma serve_keeps:
  assumes "wf_store s" "life s" "I s" "valid_call cl"
  shows "life (serve c rt n cp key cl s) \<and> I (serve c rt n cp key cl s)"
proof (rule change_keeps [OF serve_change])
  show "\<forall>a \<in> set (schedules s). sch_state a \<noteq> DRAFT"
    using assms(2) by (simp add: life_def contents_def)
qed (use assms in simp_all)

lemma always:
  assumes "reachable c rt s"
  shows "life s \<and> I s"
  using assms
proof (induction rule: reachable_induct)
  case (initial s)
  with starts show ?case
    by (auto simp: initial_def life_defs)
next
  case (serve s n cp key cl)
  with serve_keeps [OF reachable_wf] show ?case by blast
qed

end

interpretation lc: row_invariant c life for c
proof
  show "rows cp t = rows cp s \<Longrightarrow> life s \<Longrightarrow> life t" for cp s t
    using rows_eqD [of cp t s] by (simp add: life_cong [of t s])
  show "effect c cp s t \<Longrightarrow> wf_store s \<Longrightarrow> life s \<Longrightarrow> life s \<Longrightarrow> life t" for c cp s t
    by (rule effect_life)
qed (simp add: initial_def life_defs)

lemmas reachable_life = lc.always [THEN conjunct1]

section \<open>Evolution\<close>

lemma change_evolves: "change c cp s t \<Longrightarrow> evolves s t"
proof (induction rule: change.induct)
  case (step s t t' u s')
  then show ?case
    by (blast intro: evolves_transD evolves_same effect_evolves)
qed (simp add: evolves_same)

lemma reaches_keeps:
  assumes "reaches c rt s t" and "wf_store s" and "life s"
  shows "wf_store t \<and> life t \<and> evolves s t"
  using assms
proof (induction rule: reaches.induct)
  case (serve t cl n cp key)
  then have t: "wf_store t" "life t" "evolves s t" by blast+
  have "\<forall>a \<in> set (schedules t). sch_state a \<noteq> DRAFT"
    using t(2) by (simp add: life_def contents_def)
  from change_evolves [OF serve_change [OF t(1) serve.hyps(2) this]] t(3)
  have "evolves s (serve c rt n cp key cl t)" by (rule evolves_transD [rotated])
  with wf_serve [OF t(1)] lc.serve_keeps [OF t(1,2,2) serve.hyps(2)] show ?case by blast
qed (simp_all add: evolves_same)

end
