(* ===== verification/Evidence.thy ===== *)
theory Evidence
  imports Reachable
begin

text \<open>
  What the evidence tables prove. Every attempt has exactly one seal and one execution receipt,
  its hash is the hash of the frozen content of its step, and its verdict and attribution agree
  with its state.
\<close>

section \<open>Effects on the attempts\<close>

lemma advanced_tables [simp]:
  "attempts (advanced cp sid pid eid n u) = attempts u"
  "results (advanced cp sid pid eid n u) = results u"
  "attributions (advanced cp sid pid eid n u) = attributions u"
  "delegations (advanced cp sid pid eid n u) = delegations u"
  by (simp_all add: advanced_def Let_def completed_def with_step_state_def with_schedule_state_def)

lemma effect_attempts:
  assumes e: "effect c cp s t" and wf: "wf_store s"
  obtains (export) aid sid pid sealer sched p e h did
      where "export_effect c aid cp sid pid sealer sched p e h did s t"
    | (quiet) "list_all2 attempt_evolves (attempts s) (attempts t)"
proof (cases "length (attempts t) = length (attempts s)")
  case True
  with effect_evolves [OF e wf] have "list_all2 attempt_evolves (attempts s) (attempts t)"
    by (simp add: evolves_def grown_def)
  then show ?thesis by (rule quiet)
next
  case False
  with e False show ?thesis
    by (cases rule: effect.cases)
      (auto simp: created_def imported_def with_attempt_state_def controlled_def cancelled_def paused_def intro: export split: if_split_asm)
qed

lemma export_sealed:
  assumes "export_effect c aid cp sid pid sealer sched p e h did s t"
  shows "attempts t = attempts s @ [sealed aid sid pid h (next_number pid s) (now s)]"
    and "\<exists>rid. seals t = seals s @ [receipt rid aid h (now s) sealer]"
    and "\<exists>xid cid. exec_receipts t = exec_receipts s @ [manual_receipt xid cp sid pid aid cid (now s)]"
    and "schedules t = schedules s"
    and "steps t = steps (with_step_state pid AWAITING_RETURN s)"
    and "results t = results s" and "attributions t = attributions s" and "events t = events s"
proof -
  from assms obtain ds rid xid profs and prof :: connection_profile where
    s': "scrub t = scrub (dispatched s pid (consume sid pid h (now s) aid did ds)
      (sealed aid sid pid h (next_number pid s) (now s))
      (receipt rid aid h (now s) sealer) profs (manual_receipt xid cp sid pid aid (con_id prof) (now s)))"
    unfolding export_effect_def by blast
  show "attempts t = attempts s @ [sealed aid sid pid h (next_number pid s) (now s)]"
    "\<exists>rid. seals t = seals s @ [receipt rid aid h (now s) sealer]"
    "\<exists>xid cid. exec_receipts t = exec_receipts s @ [manual_receipt xid cp sid pid aid cid (now s)]"
    "schedules t = schedules s" "steps t = steps (with_step_state pid AWAITING_RETURN s)"
    "results t = results s" "attributions t = attributions s" "events t = events s"
    using scrub_eqD [OF s'] by (auto simp: dispatched_def with_step_state_def)
qed

lemma quiet_member:
  assumes "list_all2 attempt_evolves (attempts s) (attempts t)" and "b \<in> set (attempts t)"
  obtains a where "a \<in> set (attempts s)" "att_id b = att_id a" "att_schedule_id b = att_schedule_id a"
    "att_step_id b = att_step_id a" "att_content_sha256 b = att_content_sha256 a"
    "att_created_at b = att_created_at a"
proof -
  from list_all2_set2 [OF assms] obtain a where "a \<in> set (attempts s)" "attempt_evolves a b" by blast
  then show ?thesis
    by (intro that [of a]) (auto simp: attempt_evolves_def,
        (metis handoff_attempt.select_convs handoff_attempt.surjective handoff_attempt.update_convs(7))+)
qed

section \<open>Seals\<close>

definition has_seal :: "store \<Rightarrow> handoff_attempt \<Rightarrow> bool" where
  "has_seal s a \<longleftrightarrow> (\<exists>r \<in> set (seals s). rcp_attempt_id r = att_id a \<and>
     rcp_content_sha256 r = att_content_sha256 a \<and> rcp_sealed_at r = att_created_at a)"

definition has_exec_receipt :: "store \<Rightarrow> handoff_attempt \<Rightarrow> bool" where
  "has_exec_receipt s a \<longleftrightarrow> (\<exists>x \<in> set (exec_receipts s). exe_attempt_id x = att_id a \<and>
     exe_schedule_id x = att_schedule_id a \<and> exe_step_id x = att_step_id a \<and>
     exe_observed_at x = att_created_at a \<and>
     (\<exists>b \<in> set (schedules s). sch_id b = att_schedule_id a \<and> sch_owner b = exe_principal x))"

definition attempts_sealed :: "store \<Rightarrow> bool" where
  "attempts_sealed s \<longleftrightarrow> (\<forall>a \<in> set (attempts s). has_seal s a \<and> has_exec_receipt s a)"

lemma has_seal_grows:
  assumes "has_seal s a" "prefix (seals s) (seals t)" "att_id b = att_id a"
    "att_content_sha256 b = att_content_sha256 a" "att_created_at b = att_created_at a"
  shows "has_seal t b"
  using assms set_mono_prefix [OF assms(2)] by (auto simp: has_seal_def)

lemma owner_grows:
  assumes "grown schedule_evolves (schedules s) (schedules t)" and "b \<in> set (schedules s)"
  shows "\<exists>b' \<in> set (schedules t). sch_id b' = sch_id b \<and> sch_owner b' = sch_owner b"
proof -
  from grown_member [OF assms] obtain b' where b: "b' \<in> set (schedules t)" "schedule_evolves b b'"
    by blast
  then have "sch_id b' = sch_id b" "sch_owner b' = sch_owner b"
    by (auto simp: schedule_evolves_def)
      (metis schedule.select_convs(1,5) schedule.surjective schedule.update_convs(3))+
  with b(1) show ?thesis by blast
qed

lemma has_exec_receipt_grows:
  assumes "has_exec_receipt s a" "evolves s t" "att_id b = att_id a"
    "att_schedule_id b = att_schedule_id a" "att_step_id b = att_step_id a" "att_created_at b = att_created_at a"
  shows "has_exec_receipt t b"
proof -
  have e: "grown schedule_evolves (schedules s) (schedules t)" "prefix (exec_receipts s) (exec_receipts t)"
    using assms(2) by (simp_all add: evolves_def)
  from assms(1) obtain x o' where x: "x \<in> set (exec_receipts s)" "exe_attempt_id x = att_id a"
    "exe_schedule_id x = att_schedule_id a" "exe_step_id x = att_step_id a" "exe_observed_at x = att_created_at a"
    "o' \<in> set (schedules s)" "sch_id o' = att_schedule_id a" "sch_owner o' = exe_principal x"
    by (auto simp: has_exec_receipt_def)
  with set_mono_prefix [OF e(2)] owner_grows [OF e(1) x(6)] assms(3-) show ?thesis
    by (auto simp: has_exec_receipt_def)
qed

lemma attempts_sealed_keeps:
  assumes e: "effect c cp s t" and wf: "wf_store s" and I: "attempts_sealed s"
  shows "attempts_sealed t"
proof -
  note ev = effect_evolves [OF e wf]
  then have pre: "prefix (seals s) (seals t)" by (simp add: evolves_def)
  from e wf show ?thesis
  proof (cases rule: effect_attempts)
    case (export aid sid pid sealer sched p e h did)
    let ?a = "sealed aid sid pid h (next_number pid s) (now s)"
    have "has_seal t a \<and> has_exec_receipt t a" if "a \<in> set (attempts s)" for a
      using I that has_seal_grows [OF _ pre refl refl refl] has_exec_receipt_grows [OF _ ev refl refl refl refl]
      by (simp add: attempts_sealed_def)
    moreover have "has_seal t ?a"
      using export_sealed(2) [OF export] by (auto simp: has_seal_def receipt_def sealed_def)
    moreover have "sched \<in> set (schedules s)" "sch_id sched = sid" "sch_owner sched = cp"
      using export by (auto simp: export_effect_def dispatchable_def schedule_of_def)
    then have "has_exec_receipt t ?a"
      using export_sealed(3,4) [OF export]
      by (auto simp: has_exec_receipt_def manual_receipt_def sealed_def)
    ultimately show ?thesis
      using export_sealed(1) [OF export] by (simp add: attempts_sealed_def)
  next
    case quiet
    show ?thesis
      unfolding attempts_sealed_def
    proof
      fix b assume "b \<in> set (attempts t)"
      with quiet obtain a where "a \<in> set (attempts s)" "att_id b = att_id a"
        "att_schedule_id b = att_schedule_id a" "att_step_id b = att_step_id a"
        "att_content_sha256 b = att_content_sha256 a" "att_created_at b = att_created_at a"
        by (rule quiet_member)
      moreover from this(1) I have "has_seal s a" "has_exec_receipt s a"
        by (simp_all add: attempts_sealed_def)
      ultimately show "has_seal t b \<and> has_exec_receipt t b"
        by (blast intro: has_seal_grows [OF _ pre] has_exec_receipt_grows [OF _ ev])
    qed
  qed
qed

lemma initial_attempts: "initial s \<Longrightarrow> attempts s = []"
  by (simp add: initial_def)

interpretation seal: row_invariant c attempts_sealed for c
proof
  show "attempts_sealed t" if "rows cp t = rows cp s" "attempts_sealed s" for cp s t
    using that(2) rows_eqD [OF that(1)] by (simp add: attempts_sealed_def has_seal_def has_exec_receipt_def)
qed (simp add: attempts_sealed_def initial_attempts, blast intro: attempts_sealed_keeps)

section \<open>Content\<close>

text \<open>The hash of an attempt is the hash of the envelope of its step, whatever happened since.\<close>

lemma envelope_of_step_state [simp]:
  "envelope_of_step sid pid (p\<lparr>stp_state := st\<rparr>) = envelope_of_step sid pid p"
  by (simp add: envelope_of_step_def)

lemma envelope_evolves: "step_evolves p q \<Longrightarrow> envelope_of_step sid pid q = envelope_of_step sid pid p"
  by (metis step_evolves_def envelope_of_step_state)

lemma step_evolves_id: "step_evolves p q \<Longrightarrow> stp_id q = stp_id p \<and> stp_schedule_id q = stp_schedule_id p
    \<and> stp_constraints q = stp_constraints p \<and> stp_output_contract q = stp_output_contract p"
  by (auto simp: step_evolves_def) (metis schedule_step.select_convs schedule_step.surjective
      schedule_step.update_convs(9))+

definition hash_of_step :: "schedule_step \<Rightarrow> pystr \<Rightarrow> bool" where
  "hash_of_step p h \<longleftrightarrow> (\<exists>e. envelope_of_step (stp_schedule_id p) (stp_id p) p = Inr e \<and> content_sha256 e = Inr h)"

definition content_kept :: "store \<Rightarrow> bool" where
  "content_kept s \<longleftrightarrow> (\<forall>a \<in> set (attempts s). \<exists>p \<in> set (steps s). stp_id p = att_step_id a \<and>
     stp_schedule_id p = att_schedule_id a \<and> hash_of_step p (att_content_sha256 a))"

lemma hash_of_step_evolves: "step_evolves p q \<Longrightarrow> hash_of_step q h = hash_of_step p h"
  using envelope_evolves step_evolves_id by (simp add: hash_of_step_def)

lemma content_kept_keeps:
  assumes e: "effect c cp s t" and wf: "wf_store s" and I: "content_kept s"
  shows "content_kept t"
proof -
  have g: "grown step_evolves (steps s) (steps t)"
    using effect_evolves [OF e wf] by (simp add: evolves_def)
  have old: "\<exists>q \<in> set (steps t). stp_id q = stp_id p \<and> stp_schedule_id q = stp_schedule_id p \<and> hash_of_step q h"
    if p: "p \<in> set (steps s)" "hash_of_step p h" for p h
    using grown_member [OF g p(1)] p(2) step_evolves_id hash_of_step_evolves by metis
  from e wf show ?thesis
  proof (cases rule: effect_attempts)
    case (export aid sid pid sealer sched p e h did)
    then have "p \<in> set (steps s)" "stp_id p = pid" "stp_schedule_id p = sid" "hash_of_step p h"
      by (auto simp: export_effect_def dispatchable_def row_of_defs hash_of_step_def)
    with old [OF this(1,4)] I old show ?thesis
      by (fastforce simp: content_kept_def export_sealed(1) [OF export] sealed_def)
  next
    case quiet
    show ?thesis
      unfolding content_kept_def
    proof
      fix b assume "b \<in> set (attempts t)"
      with quiet obtain a where a: "a \<in> set (attempts s)" "att_schedule_id b = att_schedule_id a"
        "att_step_id b = att_step_id a" "att_content_sha256 b = att_content_sha256 a"
        by (rule quiet_member)
      with I obtain p where "p \<in> set (steps s)" "stp_id p = att_step_id a"
        "stp_schedule_id p = att_schedule_id a" "hash_of_step p (att_content_sha256 a)"
        by (auto simp: content_kept_def)
      with old [OF this(1,4)] a show "\<exists>p \<in> set (steps t). stp_id p = att_step_id b \<and>
          stp_schedule_id p = att_schedule_id b \<and> hash_of_step p (att_content_sha256 b)"
        by simp
    qed
  qed
qed

interpretation content: row_invariant c content_kept for c
proof
  show "content_kept t" if "rows cp t = rows cp s" "content_kept s" for cp s t
    using that(2) rows_eqD [OF that(1)] by (simp add: content_kept_def)
qed (simp add: content_kept_def initial_attempts, blast intro: content_kept_keeps)

section \<open>Verdicts\<close>

fun verdict_state :: "handoff_result_status \<Rightarrow> attempt_state" where
  "verdict_state VALIDATED = CLOSED_OK"
| "verdict_state RESULT_REJECTED = CLOSED_REJECTED"

definition judged :: "handoff_attempt \<Rightarrow> bool" where
  "judged a \<longleftrightarrow> att_state a = CLOSED_OK \<or> att_state a = CLOSED_REJECTED"

definition verdict_ok :: "handoff_result list \<Rightarrow> handoff_attribution list \<Rightarrow> handoff_attempt \<Rightarrow> bool" where
  "verdict_ok rs ts a \<longleftrightarrow>
     (\<forall>r \<in> set rs. res_attempt_id r = att_id a \<longrightarrow> att_state a = verdict_state (res_status r)) \<and>
     (judged a \<longleftrightarrow> (\<exists>r \<in> set rs. res_attempt_id r = att_id a)) \<and>
     (judged a \<longleftrightarrow> (\<exists>t \<in> set ts. atr_attempt_id t = att_id a))"

definition verdicts :: "store \<Rightarrow> bool" where
  "verdicts s \<longleftrightarrow> list_all (verdict_ok (results s) (attributions s)) (attempts s)"

lemma verdict_ok_other:
  assumes "verdict_ok rs ts a" and "att_id a \<noteq> aid" and "res_attempt_id r = aid" and "atr_attempt_id x = aid"
  shows "verdict_ok (rs @ [r]) (ts @ [x]) a"
  using assms by (auto simp: verdict_ok_def)

lemma verdict_ok_fresh:
  assumes "fresh res_attempt_id aid rs" "fresh atr_attempt_id aid ts"
    and "res_attempt_id r = aid" and "atr_attempt_id x = aid" and "att_id a = aid"
  shows "verdict_ok (rs @ [r]) (ts @ [x]) (a\<lparr>att_state := verdict_state (res_status r)\<rparr>)"
  using assms by (cases "res_status r") (auto simp: verdict_ok_def judged_def fresh_def)

lemma verdicts_imported:
  assumes I: "verdicts s" and i: "importable s cp sid pid aid p a"
  shows "verdicts (imported aid out (result_row rid aid contract ref out) (attribution_row tid aid r d n) obs s)"
proof -
  let ?r = "result_row rid aid contract ref out" and ?t = "attribution_row tid aid r d n"
  have st: "(if accepted out then CLOSED_OK else CLOSED_REJECTED) = verdict_state (res_status ?r)"
    by (simp add: result_row_def)
  have ids: "res_attempt_id ?r = aid" "atr_attempt_id ?t = aid"
    by (simp_all add: result_row_def attribution_row_def)
  have f: "fresh res_attempt_id aid (results s)" "fresh atr_attempt_id aid (attributions s)"
    using i by (simp_all add: importable_def)
  show ?thesis
    using I verdict_ok_other [OF _ _ ids] verdict_ok_fresh [OF f ids]
    by (auto simp: verdicts_def imported_def with_attempt_state_def st list_all_iff set_upd_where)
qed

lemma verdicts_cancelled: "verdicts s \<Longrightarrow> verdicts (cancelled sid s)"
  by (auto simp: verdicts_def cancelled_def list_all_iff set_upd_where open_attempt_def
      verdict_ok_def judged_def split: if_splits)

lemma verdicts_cong:
  "attempts t = attempts s \<Longrightarrow> results t = results s \<Longrightarrow> attributions t = attributions s \<Longrightarrow>
   verdicts t = verdicts s"
  by (simp add: verdicts_def)

lemma wf_result_attempt:
  "wf_store s \<Longrightarrow> r \<in> set (results s) \<Longrightarrow> \<exists>a \<in> set (attempts s). att_id a = res_attempt_id r"
  "wf_store s \<Longrightarrow> t \<in> set (attributions s) \<Longrightarrow> \<exists>a \<in> set (attempts s). att_id a = atr_attempt_id t"
  by (fastforce simp: wf_store_def wf_results_def wf_attributions_def att_keys_def)+

lemma verdicts_keeps:
  assumes "effect c cp s t" and wf: "wf_store s" and I: "verdicts s"
  shows "verdicts t"
  using assms(1)
proof (cases rule: effect.cases)
  case (export aid sid pid sealer sched p e h did)
  then have "fresh att_id aid (attempts s)" by (simp add: export_effect_def)
  then have "\<forall>r \<in> set (results s). res_attempt_id r \<noteq> aid" "\<forall>r \<in> set (attributions s). atr_attempt_id r \<noteq> aid"
    using wf_result_attempt [OF wf] by (fastforce simp: fresh_def)+
  with I export_sealed [OF export] show ?thesis
    by (auto simp: verdicts_def verdict_ok_def judged_def sealed_def)
next
  case import_rejected
  with verdicts_imported [OF I] show ?thesis by simp
next
  case import_accepted
  with verdicts_imported [OF I] show ?thesis by (simp add: verdicts_def)
next
  case control
  with I verdicts_cancelled [OF I] show ?thesis
    by (simp add: controlled_def verdicts_def with_schedule_state_def split: if_splits)
qed (use I in \<open>simp_all add: verdicts_def created_def paused_def with_schedule_state_def\<close>)

interpretation verdict: row_invariant c verdicts for c
proof
  show "verdicts t" if "rows cp t = rows cp s" "verdicts s" for cp s t
    using that(2) rows_eqD [OF that(1)] by (simp add: verdicts_def)
qed (simp add: verdicts_def initial_attempts, blast intro: verdicts_keeps)

end
