(* ===== verification/Gates.thy ===== *)
theory Gates
  imports Evidence
begin

text \<open>
  The technical authorization of a dispatch: a step that declares a gate is only ever dispatched
  by consuming a delegation of the same step, scope and content, while it was valid, and a
  delegation authorizes at most one dispatch. A step that requires a human is dispatched only in a
  composition with a human gate.
\<close>

section \<open>Consumed delegations\<close>

definition consumed_by :: "handoff_attempt \<Rightarrow> service_delegation \<Rightarrow> bool" where
  "consumed_by a d \<longleftrightarrow> dlg_state d = CONSUMED \<and> dlg_consumed_by d = Some (att_id a) \<and>
     dlg_consumed_at d = Some (att_created_at a) \<and> dlg_schedule_id d = att_schedule_id a \<and>
     dlg_step_id d = att_step_id a \<and> dlg_scope d = GATE_SCOPE_DISPATCH \<and>
     dlg_content_sha256 d = att_content_sha256 a \<and> att_created_at a < dlg_valid_until d"

definition bound :: "handoff_attempt list \<Rightarrow> service_delegation list \<Rightarrow> bool" where
  "bound as ds \<longleftrightarrow> (\<forall>d \<in> set ds.
     (dlg_state d = CONSUMED \<longrightarrow> (\<exists>a \<in> set as. consumed_by a d)) \<and>
     (dlg_state d \<noteq> CONSUMED \<longrightarrow> dlg_consumed_by d = None))"

definition single_use :: "service_delegation list \<Rightarrow> bool" where
  "single_use ds \<longleftrightarrow> (\<forall>d \<in> set ds. \<forall>e \<in> set ds. dlg_state d = CONSUMED \<and> dlg_state e = CONSUMED \<and>
     dlg_consumed_by d = dlg_consumed_by e \<longrightarrow> dlg_id d = dlg_id e)"

definition gate_passed :: "composition \<Rightarrow> service_delegation list \<Rightarrow> handoff_attempt \<Rightarrow> schedule_step \<Rightarrow> bool" where
  "gate_passed c ds a p \<longleftrightarrow> (\<exists>g. gate_requirement (stp_constraints p) = Inr g \<and>
     (\<forall>r. g = Some r \<longrightarrow> (\<exists>d \<in> set ds. consumed_by a d) \<and>
        \<not> human_refuses c r (att_schedule_id a) (att_step_id a) (att_content_sha256 a)))"

definition gates_passed ::
  "composition \<Rightarrow> schedule_step list \<Rightarrow> service_delegation list \<Rightarrow> handoff_attempt list \<Rightarrow> bool" where
  "gates_passed c ps ds as \<longleftrightarrow> (\<forall>a \<in> set as. \<exists>p \<in> set ps. stp_id p = att_step_id a \<and> gate_passed c ds a p)"

definition gated :: "composition \<Rightarrow> store \<Rightarrow> bool" where
  "gated c s \<longleftrightarrow> bound (attempts s) (delegations s) \<and> single_use (delegations s) \<and>
     gates_passed c (steps s) (delegations s) (attempts s)"

section \<open>Preservation\<close>

lemma attempt_evolves_id:
  "attempt_evolves a b \<Longrightarrow> att_id b = att_id a \<and> att_schedule_id b = att_schedule_id a \<and>
     att_step_id b = att_step_id a \<and> att_content_sha256 b = att_content_sha256 a \<and>
     att_created_at b = att_created_at a"
  by (auto simp: attempt_evolves_def)
    (metis handoff_attempt.select_convs handoff_attempt.surjective handoff_attempt.update_convs(7))+

lemma consumed_by_evolves: "attempt_evolves a b \<Longrightarrow> consumed_by b d = consumed_by a d"
  using attempt_evolves_id by (simp add: consumed_by_def)

lemma bound_attempts: "bound as ds \<Longrightarrow> grown attempt_evolves as bs \<Longrightarrow> bound bs ds"
  unfolding bound_def using grown_member consumed_by_evolves by metis

lemma consumed_kept:
  "grown delegation_evolves ds es \<Longrightarrow> d \<in> set ds \<Longrightarrow> dlg_state d = CONSUMED \<Longrightarrow> d \<in> set es"
  by (drule (1) grown_member) (auto simp: delegation_evolves_def)

lemma gates_passed_grows:
  assumes "gates_passed c ps ds as" and "list_all2 attempt_evolves as bs"
    and p: "grown step_evolves ps qs" and d: "grown delegation_evolves ds es"
  shows "gates_passed c qs es bs"
  unfolding gates_passed_def
proof
  fix b assume "b \<in> set bs"
  with list_all2_set2 [OF assms(2)] obtain a where a: "a \<in> set as" "attempt_evolves a b" by blast
  with assms(1) obtain x where x: "x \<in> set ps" "stp_id x = att_step_id a" "gate_passed c ds a x"
    by (auto simp: gates_passed_def)
  from grown_member [OF p x(1)] obtain q where q: "q \<in> set qs" "step_evolves x q" by blast
  have "\<exists>d \<in> set ds. consumed_by a d \<Longrightarrow> \<exists>d \<in> set es. consumed_by b d"
    using consumed_kept [OF d] consumed_by_evolves [OF a(2)] by (auto simp: consumed_by_def)
  with x(3) q a have "gate_passed c es b q"
    using step_evolves_id [OF q(2)] attempt_evolves_id [OF a(2)] by (auto simp: gate_passed_def)
  with q x(2) a(2) show "\<exists>p \<in> set qs. stp_id p = att_step_id b \<and> gate_passed c es b p"
    using step_evolves_id [OF q(2)] attempt_evolves_id [OF a(2)] by auto
qed

text \<open>Expiry, revocation and granting consume nothing.\<close>

definition unconsumed :: "service_delegation list \<Rightarrow> service_delegation list \<Rightarrow> bool" where
  "unconsumed ds es \<longleftrightarrow> (\<forall>e \<in> set es. e \<in> set ds \<or> dlg_state e \<noteq> CONSUMED \<and>
     (dlg_consumed_by e = None \<or> (\<exists>d \<in> set ds. dlg_state d = DELEGATION_ACTIVE \<and> dlg_consumed_by e = dlg_consumed_by d)))"

lemma unconsumed_tables:
  "unconsumed ds ds" "unconsumed (delegations s) (expire sid pid s)" "unconsumed ds (revoke_all sid pid scope ds)"
  by (auto simp: unconsumed_def expire_def revoke_all_def set_upd_where expired_at_def revocable_def)

lemma unconsumed_bound:
  assumes u: "unconsumed ds es" and b: "bound as ds"
  shows "bound as es"
  unfolding bound_def
proof
  fix e assume "e \<in> set es"
  with u consider "e \<in> set ds" | "dlg_state e \<noteq> CONSUMED" "dlg_consumed_by e = None"
    | d where "dlg_state e \<noteq> CONSUMED" "d \<in> set ds" "dlg_state d = DELEGATION_ACTIVE"
        "dlg_consumed_by e = dlg_consumed_by d"
    by (auto simp: unconsumed_def)
  then show "(dlg_state e = CONSUMED \<longrightarrow> (\<exists>a \<in> set as. consumed_by a e)) \<and>
      (dlg_state e \<noteq> CONSUMED \<longrightarrow> dlg_consumed_by e = None)"
  proof cases
    case 1
    with b show ?thesis by (simp add: bound_def)
  next
    case (3 d)
    with b have "dlg_consumed_by d = None" by (simp add: bound_def)
    with 3 show ?thesis by simp
  qed simp
qed

lemma unconsumed_member: "unconsumed ds es \<Longrightarrow> e \<in> set es \<Longrightarrow> dlg_state e = CONSUMED \<Longrightarrow> e \<in> set ds"
  by (auto simp: unconsumed_def)

lemma single_useD:
  "single_use ds \<Longrightarrow> d \<in> set ds \<Longrightarrow> e \<in> set ds \<Longrightarrow> dlg_state d = CONSUMED \<Longrightarrow> dlg_state e = CONSUMED \<Longrightarrow>
   dlg_consumed_by d = dlg_consumed_by e \<Longrightarrow> dlg_id d = dlg_id e"
  unfolding single_use_def by blast

lemma unconsumed_single:
  assumes u: "unconsumed ds es" and s: "single_use ds"
  shows "single_use es"
  unfolding single_use_def
proof (intro ballI impI, elim conjE)
  fix d e assume "d \<in> set es" "e \<in> set es" and st: "dlg_state d = CONSUMED" "dlg_state e = CONSUMED"
    and eq: "dlg_consumed_by d = dlg_consumed_by e"
  then have "d \<in> set ds" "e \<in> set ds" using unconsumed_member [OF u] by blast+
  then show "dlg_id d = dlg_id e" by (rule single_useD [OF s]) (fact st eq)+
qed

lemma bound_snoc: "bound as ds \<Longrightarrow> bound as (ds @ [delegation_row did sid pid h cp until t])"
  by (auto simp: bound_def delegation_row_def)

lemma single_snoc:
  assumes s: "single_use ds"
  shows "single_use (ds @ [delegation_row did sid pid h cp until t])"
  unfolding single_use_def [of "ds @ r" for r]
  by (intro ballI impI, elim conjE) (auto simp: delegation_row_def intro: single_useD [OF s])

lemma consumed_row_by:
  assumes "consumable sid pid h t i d"
  shows "consumed_by (sealed aid sid pid h n t) (consumed_row t aid d)"
  using assms by (simp add: consumed_by_def consumable_def consumed_row_def sealed_def)

lemma bound_consume:
  assumes b: "bound as ds"
  shows "bound (as @ [sealed aid sid pid h n t]) (consume sid pid h t aid did ds)"
proof (cases did)
  case None
  with b show ?thesis by (auto simp: bound_def consume_def)
next
  case (Some i)
  show ?thesis
    unfolding bound_def
  proof
    fix e assume "e \<in> set (consume sid pid h t aid did ds)"
    then obtain d where d: "d \<in> set ds" "e = (if consumable sid pid h t i d then consumed_row t aid d else d)"
      by (auto simp: Some consume_def set_upd_where)
    show "(dlg_state e = CONSUMED \<longrightarrow> (\<exists>a \<in> set (as @ [sealed aid sid pid h n t]). consumed_by a e)) \<and>
      (dlg_state e \<noteq> CONSUMED \<longrightarrow> dlg_consumed_by e = None)"
    proof (cases "consumable sid pid h t i d")
      case True
      with d(2) consumed_row_by [OF True] show ?thesis by (simp add: consumed_row_def)
    next
      case False
      with d b show ?thesis by (auto simp: bound_def)
    qed
  qed
qed

lemma single_consume:
  assumes s: "single_use ds" and b: "bound as ds" and f: "fresh att_id aid as"
  shows "single_use (consume sid pid h t aid did ds)"
proof (cases did)
  case None
  with s show ?thesis by (simp add: consume_def)
next
  case (Some i)
  have "dlg_consumed_by d \<noteq> Some aid" if "d \<in> set ds" for d
  proof (cases "dlg_state d = CONSUMED")
    case True
    with b that obtain a where "a \<in> set as" "dlg_consumed_by d = Some (att_id a)"
      unfolding bound_def consumed_by_def by blast
    with f show ?thesis by (auto simp: fresh_def)
  next
    case False
    with b that show ?thesis by (simp add: bound_def)
  qed
  then have new: "d \<in> set (consume sid pid h t aid did ds) \<Longrightarrow>
      d \<in> set ds \<and> dlg_consumed_by d \<noteq> Some aid \<or> dlg_consumed_by d = Some aid \<and> dlg_id d = i" for d
    by (auto simp: Some consume_def set_upd_where consumable_def consumed_row_def)
  show ?thesis
    unfolding single_use_def
  proof (intro ballI impI, elim conjE)
    fix d e assume de: "d \<in> set (consume sid pid h t aid did ds)" "e \<in> set (consume sid pid h t aid did ds)"
      and st: "dlg_state d = CONSUMED" "dlg_state e = CONSUMED" and eq: "dlg_consumed_by d = dlg_consumed_by e"
    show "dlg_id d = dlg_id e"
      using new [OF de(1)] new [OF de(2)] eq st s unfolding single_use_def by auto
  qed
qed

lemma gated_export:
  assumes wf: "wf_store s" and I: "gated c s" and x: "export_effect c aid cp sid pid sealer sched p e h did s t"
  shows "gated c t"
proof -
  let ?a = "sealed aid sid pid h (next_number pid s) (now s)"
  note ev = evolves_export [OF wf x]
  from x have d: "dispatchable s cp sid pid sched p" and f: "fresh att_id aid (attempts s)"
    by (simp_all add: export_effect_def)
  from x obtain ds rid xid profs and prof :: connection_profile where
    ds: "authorized_by c s sid pid p h did ds" and
    con: "\<forall>i. did = Some i \<longrightarrow> (\<exists>d \<in> set ds. consumable sid pid h (now s) i d)" and
    s': "scrub t = scrub (dispatched s pid (consume sid pid h (now s) aid did ds) ?a
      (receipt rid aid h (now s) sealer) profs (manual_receipt xid cp sid pid aid (con_id prof) (now s)))"
    unfolding export_effect_def by blast
  have dt: "delegations t = consume sid pid h (now s) aid did ds"
    using scrub_eqD [OF s'] by (simp add: dispatched_def with_step_state_def)
  have at: "attempts t = attempts s @ [?a]" by (rule export_sealed(1) [OF x])
  from ds have un: "unconsumed (delegations s) ds"
    by (auto simp: authorized_by_def unconsumed_tables)
  from I un have b: "bound (attempts s) ds" "single_use ds"
    by (auto simp: gated_def intro: unconsumed_bound unconsumed_single)
  have gs: "grown step_evolves (steps s) (steps t)" "grown delegation_evolves (delegations s) (delegations t)"
    using ev by (simp_all add: evolves_def)
  have "list_all2 attempt_evolves (attempts s) (attempts s)" by (simp add: list_all2_refl)
  with I have old: "gates_passed c (steps t) (delegations t) (attempts s)"
    by (intro gates_passed_grows [OF _ _ gs]) (simp_all add: gated_def)
  from d have p: "p \<in> set (steps s)" "stp_id p = pid" by (auto simp: dispatchable_def row_of_defs)
  from grown_member [OF gs(1) p(1)] obtain q where q: "q \<in> set (steps t)" "step_evolves p q" by blast
  have "gate_passed c (delegations t) ?a p"
    using ds
    unfolding authorized_by_def
  proof (elim disjE exE conjE)
    assume "gate_requirement (stp_constraints p) = Inr None"
    then show ?thesis by (simp add: gate_passed_def)
  next
    fix g d assume g: "gate_requirement (stp_constraints p) = Inr (Some g)"
      and h: "\<not> human_refuses c g sid pid h" and did: "did = Some (dlg_id d)"
    from con did obtain d' where d': "d' \<in> set ds" "consumable sid pid h (now s) (dlg_id d) d'" by blast
    then have "consumed_row (now s) aid d' \<in> set (delegations t)"
      by (auto simp: dt did consume_def set_upd_where)
    with g h consumed_row_by [OF d'(2)] show ?thesis
      by (auto simp: gate_passed_def sealed_def)
  qed
  then have "gate_passed c (delegations t) ?a q"
    using step_evolves_id [OF q(2)] by (simp add: gate_passed_def)
  with old q p step_evolves_id [OF q(2)] have "gates_passed c (steps t) (delegations t) (attempts t)"
    by (auto simp: gates_passed_def at sealed_def)
  with bound_consume [OF b(1)] single_consume [OF b(2,1) f] show ?thesis
    by (simp add: gated_def at dt)
qed

lemma unconsumed_trans_tables:
  "unconsumed (delegations s) (revoke_all sid pid scope (expire sid' pid' s))"
  by (auto simp: unconsumed_def expire_def revoke_all_def set_upd_where expired_at_def revocable_def)

lemma effect_delegations:
  assumes "effect c cp s t" and "length (attempts t) = length (attempts s)"
  obtains (unconsumed) "unconsumed (delegations s) (delegations t)"
    | (granted) ds did sid pid h cp until n where "unconsumed (delegations s) ds"
        "delegations t = ds @ [delegation_row did sid pid h cp until n]"
  using assms(1)
proof (cases rule: effect.cases)
  case export
  with assms(2) show ?thesis by (simp add: export_sealed(1))
next
  case grant
  then show ?thesis by (auto intro: granted unconsumed_trans_tables)
next
  case control
  then show ?thesis
    by (intro unconsumed) (simp add: controlled_def with_schedule_state_def cancelled_def unconsumed_tables)
qed (auto intro!: unconsumed unconsumed_tables
    simp: created_def imported_def with_attempt_state_def paused_def with_schedule_state_def)

lemma gated_keeps:
  assumes e: "effect c cp s t" and wf: "wf_store s" and I: "gated c s"
  shows "gated c t"
proof -
  note ev = effect_evolves [OF e wf]
  from e wf show ?thesis
  proof (cases rule: effect_attempts)
    case export
    with gated_export [OF wf I] show ?thesis by blast
  next
    case quiet
    have b: "bound (attempts s) (delegations t) \<and> single_use (delegations t)"
    proof -
      have "length (attempts t) = length (attempts s)" using quiet by (simp add: list_all2_lengthD)
      with e show ?thesis
      proof (cases rule: effect_delegations)
        case unconsumed
        with I show ?thesis
          by (simp add: gated_def unconsumed_bound [OF unconsumed] unconsumed_single [OF unconsumed])
      next
        case granted
        with I show ?thesis
          by (simp add: gated_def bound_snoc single_snoc unconsumed_bound [OF granted(1)]
              unconsumed_single [OF granted(1)])
      qed
    qed
    from ev have "bound (attempts t) (delegations t)"
      by (intro bound_attempts [OF conjunct1 [OF b]]) (simp add: evolves_def)
    moreover from ev I have "gates_passed c (steps t) (delegations t) (attempts t)"
      by (intro gates_passed_grows [where ps = "steps s" and ds = "delegations s", OF _ quiet]) (simp_all add: evolves_def gated_def)
    ultimately show ?thesis using b by (simp add: gated_def)
  qed
qed

interpretation gate: row_invariant c "gated c" for c
proof
  show "gated c t" if "rows cp t = rows cp s" "gated c s" for cp s t
    using that(2) rows_eqD [OF that(1)] by (simp add: gated_def)
  show "gated c s" if "initial s" for s
    using that by (simp add: initial_def gated_def bound_def single_use_def gates_passed_def)
qed (blast intro: gated_keeps)

end
