(* ===== verification/ControlLog.thy ===== *)
theory ControlLog
  imports Gates
begin

text \<open>
  The log of control events. Replayed from the state a schedule is created in, the events of a
  schedule are a path of the declared transitions that ends in the state the schedule is in; and
  what a principal signs lies in a schedule the principal owns.
\<close>

section \<open>Replaying the log\<close>

fun event_state :: "control_event_kind \<Rightarrow> schedule_state" where
  "event_state EVENT_PAUSED = PAUSED"
| "event_state EVENT_RESUMED = ACTIVE"
| "event_state EVENT_STOPPED = STOPPED"
| "event_state EVENT_CANCELLED = CANCELLED"
| "event_state EVENT_COMPLETED = COMPLETED"

definition trace :: "uuid \<Rightarrow> control_event list \<Rightarrow> schedule_state list" where
  "trace sid es = ACTIVE # map (\<lambda>e. event_state (evt_kind e)) (filter (\<lambda>e. evt_schedule_id e = sid) es)"

definition log_path :: "schedule_state list \<Rightarrow> bool" where
  "log_path xs \<longleftrightarrow> successively (\<lambda>x y. (x, y) \<in> E7_3_IMPLEMENTED_SCHEDULE_TRANSITIONS) xs"

definition logged :: "store \<Rightarrow> bool" where
  "logged s \<longleftrightarrow> (\<forall>a \<in> set (schedules s). log_path (trace (sch_id a) (events s)) \<and>
     last (trace (sch_id a) (events s)) = sch_state a)"

lemma trace_snoc:
  "trace sid (es @ [e]) = (if evt_schedule_id e = sid then trace sid es @ [event_state (evt_kind e)] else trace sid es)"
  by (simp add: trace_def)

lemma trace_not_Nil [simp]: "trace sid es \<noteq> []"
  by (simp add: trace_def)

lemma log_path_snoc:
  "xs \<noteq> [] \<Longrightarrow> log_path (xs @ [y]) \<longleftrightarrow> log_path xs \<and> (last xs, y) \<in> E7_3_IMPLEMENTED_SCHEDULE_TRANSITIONS"
  by (auto simp: log_path_def successively_append_iff)

text \<open>A change of state with its event.\<close>

lemma logged_move:
  assumes wf: "wf_store s" and l: "logged s" and a: "a \<in> set (schedules s)" "sch_id a = sid"
    and tr: "(sch_state a, st) \<in> E7_3_IMPLEMENTED_SCHEDULE_TRANSITIONS"
    and e: "evt_schedule_id e = sid" "event_state (evt_kind e) = st"
    and t: "schedules t = schedules (with_schedule_state sid st s)" "events t = events s @ [e]"
  shows "logged t"
  unfolding logged_def
proof
  fix b assume "b \<in> set (schedules t)"
  then obtain b' where b: "b' \<in> set (schedules s)"
    "b = (if sch_id b' = sid then b'\<lparr>sch_state := st\<rparr> else b')"
    by (auto simp: t with_schedule_state_def set_upd_where)
  have l': "log_path (trace (sch_id b') (events s))" "last (trace (sch_id b') (events s)) = sch_state b'"
    using l b(1) by (simp_all add: logged_def)
  show "log_path (trace (sch_id b) (events t)) \<and> last (trace (sch_id b) (events t)) = sch_state b"
  proof (cases "sch_id b' = sid")
    case True
    then have "b' = a" using wf_schedule_unique [OF wf b(1) a(1)] a(2) by simp
    with True l' tr e b(2) show ?thesis by (simp add: t trace_snoc log_path_snoc)
  next
    case False
    with l' e b(2) show ?thesis by (simp add: t trace_snoc)
  qed
qed

lemma logged_same:
  "schedules t = schedules s \<Longrightarrow> events t = events s \<Longrightarrow> logged t = logged s"
  by (simp add: logged_def)

lemma wf_event_schedule:
  "wf_store s \<Longrightarrow> e \<in> set (events s) \<Longrightarrow> \<exists>a \<in> set (schedules s). sch_id a = evt_schedule_id e"
  by (fastforce simp: wf_store_def wf_events_def sch_keys_def)

lemma logged_created:
  assumes wf: "wf_store s" and l: "logged s" and f: "fresh sch_id sid (schedules s)"
  shows "logged (created sid title mode cp ps s)"
proof -
  have "evt_schedule_id e \<noteq> sid" if "e \<in> set (events s)" for e
    using wf_event_schedule [OF wf that] f by (auto simp: fresh_def)
  then have "filter (\<lambda>e. evt_schedule_id e = sid) (events s) = []"
    by (auto simp: filter_empty_conv)
  with l show ?thesis
    by (simp add: logged_def created_def trace_def log_path_def)
qed

lemma control_kind:
  "ACAO_DESTINO action = Some st \<Longrightarrow> ACAO_EVENTO action = Some kind \<Longrightarrow> event_state kind = st"
  by (auto simp: ACAO_DESTINO_def ACAO_EVENTO_def split: if_splits)

lemma advanced_cases:
  obtains (stays) "schedules (advanced cp sid pid eid n u) = schedules u" "events (advanced cp sid pid eid n u) = events u"
  | (completes) a where "a \<in> set (schedules u)" "sch_id a = sid" "sch_owner a = cp" "sch_state a = ACTIVE"
      "schedules (advanced cp sid pid eid n u) = schedules (with_schedule_state sid COMPLETED u)"
      "events (advanced cp sid pid eid n u) =
         events u @ [event_row eid sid None EVENT_COMPLETED ALL_STEPS_RETURNED None cp n]"
proof (cases "completes (with_step_state pid RETURNED u) cp sid")
  case True
  then obtain a where "a \<in> set (schedules u)" "sch_id a = sid" "sch_owner a = cp" "sch_state a = ACTIVE"
    by (auto simp: completes_def schedule_of_def)
  with True show ?thesis
    by (intro completes) (simp_all add: advanced_def completed_def with_schedule_state_def with_step_state_def)
next
  case False
  then show ?thesis by (intro stays) (simp_all add: advanced_def with_step_state_def)
qed

lemma logged_keeps:
  assumes "effect c cp s t" and wf: "wf_store s" and I: "logged s"
  shows "logged t"
  using assms(1)
proof (cases rule: effect.cases)
  case create
  with logged_created [OF wf I] show ?thesis by simp
next
  case export
  with I export_sealed(4,8) show ?thesis by (simp add: logged_same [of t s])
next
  case import_rejected
  with I show ?thesis by (simp add: logged_def imported_def with_attempt_state_def)
next
  case (import_accepted sid pid aid p a out tid d obs eid rid ref)
  let ?u = "imported aid out (result_row rid aid (stp_output_contract p) ref out)
    (attribution_row tid aid (stp_role p) d (now s)) obs s"
  have u: "schedules ?u = schedules s" "events ?u = events s"
    by (simp_all add: imported_def with_attempt_state_def)
  show ?thesis
  proof (cases rule: advanced_cases [of cp sid pid eid "now s" ?u])
    case stays
    then have "schedules t = schedules s" "events t = events s"
      using import_accepted(1) u by simp_all
    with I show ?thesis by (simp only: logged_same [of t s])
  next
    case (completes b)
    show ?thesis
    proof (rule logged_move [OF wf I])
      show "b \<in> set (schedules s)" "sch_id b = sid" using completes u by simp_all
      show "(sch_state b, COMPLETED) \<in> E7_3_IMPLEMENTED_SCHEDULE_TRANSITIONS"
        using completes by (simp add: transition_defs)
      show "schedules t = schedules (with_schedule_state sid COMPLETED s)"
        using completes u import_accepted(1) by (simp add: with_schedule_state_def)
      show "events t = events s @ [event_row eid sid None EVENT_COMPLETED ALL_STEPS_RETURNED None cp (now s)]"
        using completes u import_accepted(1) by simp
    qed (simp_all add: event_row_def)
  qed
next
  case (control sid a action st kind category reason eid)
  show ?thesis
  proof (rule logged_move [OF wf I _ _ control(4)])
    show "schedules t = schedules (with_schedule_state sid st s)"
      by (simp add: control(1) controlled_def with_schedule_state_def cancelled_def)
    show "events t = events s @ [event_row eid sid None kind reason category cp (now s)]"
      by (simp add: control(1))
  qed (use control control_kind in \<open>auto simp: schedule_of_def event_row_def\<close>)
next
  case (gate_pause sid pid a p g eid reason)
  show ?thesis
  proof (rule logged_move [OF wf I])
    show "schedules t = schedules (with_schedule_state sid PAUSED s)"
      "events t = events s @ [pause_event eid sid pid reason cp (now s)]"
      by (simp_all add: gate_pause(1) paused_def with_schedule_state_def)
    show "(sch_state a, PAUSED) \<in> E7_3_IMPLEMENTED_SCHEDULE_TRANSITIONS" "a \<in> set (schedules s)" "sch_id a = sid"
      using gate_pause(2) by (auto simp: dispatchable_def schedule_of_def transition_defs)
  qed (simp_all add: pause_event_def event_row_def)
qed (use I in \<open>simp_all add: logged_def\<close>)

interpretation log: row_invariant c logged for c
proof
  show "logged t" if "rows cp t = rows cp s" "logged s" for cp s t
    using that(2) rows_eqD [OF that(1)] by (simp add: logged_def)
  show "logged s" if "initial s" for s
    using that by (simp add: initial_def logged_def)
qed (blast intro: logged_keeps)

section \<open>Authorship\<close>

definition signs :: "store \<Rightarrow> uuid \<Rightarrow> pystr \<Rightarrow> bool" where
  "signs s sid cp \<longleftrightarrow> (\<exists>a \<in> set (schedules s). sch_id a = sid \<and> sch_owner a = cp)"

definition authored :: "store \<Rightarrow> bool" where
  "authored s \<longleftrightarrow>
     (\<forall>d \<in> set (delegations s). signs s (dlg_schedule_id d) (dlg_granted_by d)) \<and>
     (\<forall>e \<in> set (events s). signs s (evt_schedule_id e) (evt_declared_by e)) \<and>
     (\<forall>x \<in> set (exec_receipts s). signs s (exe_schedule_id x) (exe_principal x))"

lemma signs_grows:
  assumes "evolves s t" and "signs s sid cp"
  shows "signs t sid cp"
  using assms owner_grows [of s t] unfolding signs_def evolves_def by metis

lemma authored_grows:
  assumes I: "authored s" and ev: "evolves s t"
    and d: "\<forall>d \<in> set (delegations t). (\<exists>x \<in> set (delegations s). dlg_schedule_id d = dlg_schedule_id x \<and>
        dlg_granted_by d = dlg_granted_by x) \<or> signs t (dlg_schedule_id d) (dlg_granted_by d)"
    and e: "\<forall>e \<in> set (events t). e \<in> set (events s) \<or> signs t (evt_schedule_id e) (evt_declared_by e)"
    and x: "\<forall>x \<in> set (exec_receipts t). x \<in> set (exec_receipts s) \<or> signs t (exe_schedule_id x) (exe_principal x)"
  shows "authored t"
  unfolding authored_def
  using d e x I signs_grows [OF ev] unfolding authored_def by metis

lemma signs_owned: "signs s sid cp \<longleftrightarrow> owned s cp sid"
  by (auto simp: signs_def owned_iff schedule_of_def)

lemma delegation_members:
  "\<forall>d \<in> set (expire sid pid s). \<exists>x \<in> set (delegations s). dlg_schedule_id d = dlg_schedule_id x \<and>
     dlg_granted_by d = dlg_granted_by x"
  "\<forall>d \<in> set (revoke_all sid pid scope ds). \<exists>x \<in> set ds. dlg_schedule_id d = dlg_schedule_id x \<and>
     dlg_granted_by d = dlg_granted_by x"
  "\<forall>d \<in> set (consume sid pid h n aid did ds). \<exists>x \<in> set ds. dlg_schedule_id d = dlg_schedule_id x \<and>
     dlg_granted_by d = dlg_granted_by x"
  by (cases did; auto simp: expire_def revoke_all_def consume_def set_upd_where consumed_row_def)+

lemma authored_quiet:
  assumes "authored s" and "evolves s t" and "delegations t = delegations s"
    and "\<forall>e \<in> set (events t). e \<in> set (events s) \<or> signs s (evt_schedule_id e) (evt_declared_by e)"
    and "exec_receipts t = exec_receipts s"
  shows "authored t"
  using assms signs_grows [OF assms(2)] by (intro authored_grows [OF assms(1,2)]) auto

lemma authored_keeps:
  assumes e: "effect c cp s t" and wf: "wf_store s" and I: "authored s"
  shows "authored t"
proof -
  note ev = effect_evolves [OF e wf]
  have sg: "signs t sid cp" if "owned s cp sid" for sid
    using signs_grows [OF ev] that by (simp add: signs_owned)
  from e show ?thesis
  proof (cases rule: effect.cases)
    case (export aid sid pid sealer sched p e h did)
    from export obtain ds rid xid profs and prof :: connection_profile where
      ds: "authorized_by c s sid pid p h did ds" and
      s': "scrub t = scrub (dispatched s pid (consume sid pid h (now s) aid did ds)
        (sealed aid sid pid h (next_number pid s) (now s))
        (receipt rid aid h (now s) sealer) profs (manual_receipt xid cp sid pid aid (con_id prof) (now s)))"
      unfolding export_effect_def by blast
    have dl: "delegations t = consume sid pid h (now s) aid did ds"
      and x: "exec_receipts t = exec_receipts s @ [manual_receipt xid cp sid pid aid (con_id prof) (now s)]"
      using scrub_eqD [OF s'] by (simp_all add: dispatched_def with_step_state_def)
    have o': "owned s cp sid"
      using export by (auto simp: export_effect_def dest: dispatchable_owned)
    have "\<forall>d \<in> set ds. \<exists>x \<in> set (delegations s). dlg_schedule_id d = dlg_schedule_id x \<and>
        dlg_granted_by d = dlg_granted_by x"
      using ds delegation_members(1) by (auto simp: authorized_by_def)
    with delegation_members(3) have "\<forall>d \<in> set (delegations t). \<exists>x \<in> set (delegations s).
        dlg_schedule_id d = dlg_schedule_id x \<and> dlg_granted_by d = dlg_granted_by x"
      unfolding dl by metis
    then show ?thesis
      using export_sealed(8) [OF export] sg [OF o']
      by (intro authored_grows [OF I ev]) (auto simp: x manual_receipt_def)
  next
    case (import_accepted sid pid aid p a out tid d obs eid rid ref)
    let ?u = "imported aid out (result_row rid aid (stp_output_contract p) ref out)
      (attribution_row tid aid (stp_role p) d (now s)) obs s"
    have u: "schedules ?u = schedules s" "events ?u = events s"
      by (simp_all add: imported_def with_attempt_state_def)
    have "owned s cp sid" using import_accepted(2) by (simp add: importable_def)
    then have "\<forall>e \<in> set (events t). e \<in> set (events s) \<or> signs s (evt_schedule_id e) (evt_declared_by e)"
      by (cases rule: advanced_cases [of cp sid pid eid "now s" ?u])
        (simp_all add: import_accepted(1) u event_row_def signs_owned)
    then show ?thesis
      by (intro authored_quiet [OF I ev])
        (simp_all add: import_accepted(1) imported_def with_attempt_state_def advanced_def Let_def completed_def
          with_schedule_state_def with_step_state_def)
  next
    case (control sid a action st kind category reason eid)
    then have "owned s cp sid" by (auto simp: owned_iff)
    then show ?thesis
      by (intro authored_quiet [OF I ev])
        (auto simp: control(1) controlled_def with_schedule_state_def cancelled_def event_row_def signs_owned)
  next
    case (grant sid pid p g e h until did)
    have "\<forall>d \<in> set (revoke_all sid pid GATE_SCOPE_DISPATCH (expire sid pid s)). \<exists>x \<in> set (delegations s).
        dlg_schedule_id d = dlg_schedule_id x \<and> dlg_granted_by d = dlg_granted_by x"
      using delegation_members(1,2) by metis
    with sg [OF grant(2)] show ?thesis
      by (intro authored_grows [OF I ev]) (auto simp: grant(1) delegation_row_def)
  next
    case (revoke sid pid scope)
    with delegation_members(2) show ?thesis
      by (intro authored_grows [OF I ev]) auto
  next
    case (expiry sid pid)
    with delegation_members(1) show ?thesis
      by (intro authored_grows [OF I ev]) auto
  next
    case (gate_pause sid pid a p g eid reason)
    then have "owned s cp sid" by (auto dest: dispatchable_owned)
    then show ?thesis
      by (intro authored_quiet [OF I ev])
        (auto simp: gate_pause(1) paused_def with_schedule_state_def pause_event_def event_row_def signs_owned)
  qed (intro authored_quiet [OF I ev]; simp add: created_def imported_def with_attempt_state_def)+
qed

interpretation author: row_invariant c authored for c
proof
  show "authored t" if "rows cp t = rows cp s" "authored s" for cp s t
    using that(2) rows_eqD [OF that(1)] by (simp add: authored_def signs_def)
  show "authored s" if "initial s" for s
    using that by (simp add: initial_def authored_def)
qed (blast intro: authored_keeps)

end
