(* ===== verification/Isolation.thy ===== *)
theory Isolation
  imports ControlLog
begin

text \<open>
  Isolation between principals. The view of a principal is the database cut down to the schedules
  it owns and to what hangs from them, its connection profiles and its command receipts. What a
  principal reads depends on its view only, and no request of another principal changes it.
\<close>

section \<open>The view of a principal\<close>

definition attempt_owned :: "store \<Rightarrow> pystr \<Rightarrow> uuid \<Rightarrow> bool" where
  "attempt_owned s cp aid \<longleftrightarrow> exists_row (\<lambda>a. att_id a = aid \<and> owned s cp (att_schedule_id a)) (attempts s)"

definition result_owned :: "store \<Rightarrow> pystr \<Rightarrow> uuid \<Rightarrow> bool" where
  "result_owned s cp rid \<longleftrightarrow> exists_row (\<lambda>r. res_id r = rid \<and> attempt_owned s cp (res_attempt_id r)) (results s)"

definition view :: "pystr \<Rightarrow> store \<Rightarrow> store" where
  "view cp s = scrub (s\<lparr>
     schedules := filter (\<lambda>a. sch_owner a = cp) (schedules s),
     steps := filter (\<lambda>p. owned s cp (stp_schedule_id p)) (steps s),
     attempts := filter (\<lambda>a. owned s cp (att_schedule_id a)) (attempts s),
     seals := filter (\<lambda>r. attempt_owned s cp (rcp_attempt_id r)) (seals s),
     commands := filter (\<lambda>r. cmd_principal r = cp) (commands s),
     results := filter (\<lambda>r. attempt_owned s cp (res_attempt_id r)) (results s),
     attributions := filter (\<lambda>r. attempt_owned s cp (atr_attempt_id r)) (attributions s),
     delegations := filter (\<lambda>d. owned s cp (dlg_schedule_id d)) (delegations s),
     events := filter (\<lambda>e. owned s cp (evt_schedule_id e)) (events s),
     observations := filter (\<lambda>e. owned s cp (obs_schedule_id e)) (observations s),
     opinions := filter (\<lambda>x. result_owned s cp (opn_result_id x)) (opinions s),
     profiles := filter (\<lambda>x. con_principal x = cp) (profiles s),
     exec_receipts := filter (\<lambda>x. exe_principal x = cp) (exec_receipts s),
     entropy := (\<lambda>_. Uuid 0)\<rparr>)"

lemma view_eqI:
  assumes "\<And>x. owned t cp x = owned s cp x" "\<And>x. attempt_owned t cp x = attempt_owned s cp x"
    "\<And>x. result_owned t cp x = result_owned s cp x"
    and "filter (\<lambda>a. sch_owner a = cp) (schedules t) = filter (\<lambda>a. sch_owner a = cp) (schedules s)"
    "filter (\<lambda>p. owned s cp (stp_schedule_id p)) (steps t) = filter (\<lambda>p. owned s cp (stp_schedule_id p)) (steps s)"
    "filter (\<lambda>a. owned s cp (att_schedule_id a)) (attempts t) =
       filter (\<lambda>a. owned s cp (att_schedule_id a)) (attempts s)"
    "filter (\<lambda>r. attempt_owned s cp (rcp_attempt_id r)) (seals t) =
       filter (\<lambda>r. attempt_owned s cp (rcp_attempt_id r)) (seals s)"
    "filter (\<lambda>r. cmd_principal r = cp) (commands t) = filter (\<lambda>r. cmd_principal r = cp) (commands s)"
    "filter (\<lambda>r. attempt_owned s cp (res_attempt_id r)) (results t) =
       filter (\<lambda>r. attempt_owned s cp (res_attempt_id r)) (results s)"
    "filter (\<lambda>r. attempt_owned s cp (atr_attempt_id r)) (attributions t) =
       filter (\<lambda>r. attempt_owned s cp (atr_attempt_id r)) (attributions s)"
    "filter (\<lambda>d. owned s cp (dlg_schedule_id d)) (delegations t) =
       filter (\<lambda>d. owned s cp (dlg_schedule_id d)) (delegations s)"
    "filter (\<lambda>e. owned s cp (evt_schedule_id e)) (events t) = filter (\<lambda>e. owned s cp (evt_schedule_id e)) (events s)"
    "filter (\<lambda>e. owned s cp (obs_schedule_id e)) (observations t) =
       filter (\<lambda>e. owned s cp (obs_schedule_id e)) (observations s)"
    "filter (\<lambda>x. result_owned s cp (opn_result_id x)) (opinions t) =
       filter (\<lambda>x. result_owned s cp (opn_result_id x)) (opinions s)"
    "filter (\<lambda>x. con_principal x = cp) (profiles t) = filter (\<lambda>x. con_principal x = cp) (profiles s)"
    "filter (\<lambda>x. exe_principal x = cp) (exec_receipts t) = filter (\<lambda>x. exe_principal x = cp) (exec_receipts s)"
    "provider_ids t = provider_ids s"
  shows "view cp t = view cp s"
  unfolding view_def assms(1-3) assms(4-) scrub_def by (simp add: assms(17))

text \<open>The view depends on the rows, even without the receipts of another principal.\<close>

lemma filter_other:
  assumes "cp' \<noteq> cp"
  shows "filter (\<lambda>r. f r = cp') xs = filter (\<lambda>r. f r = cp') (filter (\<lambda>r. f r \<noteq> cp) xs)"
  using assms by (induction xs) auto

lemma view_rows:
  assumes "rows cp t = rows cp s" and "cp' \<noteq> cp"
  shows "view cp' t = view cp' s"
proof -
  note eq = rows_eqD [OF assms(1)]
  have o: "owned t x y = owned s x y" for x y by (simp add: owned_def eq)
  have a: "attempt_owned t x y = attempt_owned s x y" for x y by (simp add: attempt_owned_def eq o)
  have r: "result_owned t x y = result_owned s x y" for x y by (simp add: result_owned_def eq a)
  have "filter (\<lambda>r. cmd_principal r = cp') (commands t) = filter (\<lambda>r. cmd_principal r = cp') (commands s)"
    using filter_other [OF assms(2), of cmd_principal] eq(14) by metis
  then show ?thesis by (intro view_eqI) (simp_all add: eq o a r)
qed

section \<open>Writes stay inside the schedule\<close>

lemma owned_other:
  assumes "wf_store s" and "owned s cp sid" and "cp' \<noteq> cp"
  shows "\<not> owned s cp' sid"
  using assms wf_schedule_unique [OF assms(1)] by (fastforce simp: owned_iff schedule_of_def)

lemma attempt_other:
  assumes "wf_store s" and "owned s cp (att_schedule_id a)" and "cp' \<noteq> cp" and "a \<in> set (attempts s)"
  shows "\<not> attempt_owned s cp' (att_id a)"
  using owned_other [OF assms(1-3)] wf_attempt_unique [OF assms(1) _ assms(4)]
  by (fastforce simp: attempt_owned_def exists_row_def)

text \<open>An update of rows out of the filter is not seen through it.\<close>

lemma filter_upd_out:
  "(\<And>r. r \<in> set t \<Longrightarrow> P r \<Longrightarrow> \<not> Q r \<and> \<not> Q (f r)) \<Longrightarrow> filter Q (upd_where P f t) = filter Q t"
  by (induction t) auto

lemma exists_row_upd_out:
  "(\<And>r. r \<in> set t \<Longrightarrow> P r \<Longrightarrow> Q (f r) = Q r) \<Longrightarrow> exists_row Q (upd_where P f t) = exists_row Q t"
  by (auto simp: exists_row_def set_upd_where)

lemma exists_row_snoc [simp]: "exists_row Q (t @ u) = (exists_row Q t \<or> exists_row Q u)"
  by (auto simp: exists_row_def)

text \<open>
  What a principal does to its own schedule: updates and insertions of rows of that schedule. The
  relation lists, table by table, what may have happened.
\<close>

definition within :: "pystr \<Rightarrow> uuid \<Rightarrow> store \<Rightarrow> store \<Rightarrow> bool" where
  "within cp sid s t \<longleftrightarrow>
     filter (\<lambda>a. sch_id a \<noteq> sid) (schedules t) = filter (\<lambda>a. sch_id a \<noteq> sid) (schedules s) \<and>
     (\<forall>a \<in> set (schedules t). sch_id a = sid \<longrightarrow> sch_owner a = cp) \<and>
     filter (\<lambda>p. stp_schedule_id p \<noteq> sid) (steps t) = filter (\<lambda>p. stp_schedule_id p \<noteq> sid) (steps s) \<and>
     filter (\<lambda>a. att_schedule_id a \<noteq> sid) (attempts t) = filter (\<lambda>a. att_schedule_id a \<noteq> sid) (attempts s) \<and>
     filter (\<lambda>d. dlg_schedule_id d \<noteq> sid) (delegations t) = filter (\<lambda>d. dlg_schedule_id d \<noteq> sid) (delegations s) \<and>
     filter (\<lambda>e. evt_schedule_id e \<noteq> sid) (events t) = filter (\<lambda>e. evt_schedule_id e \<noteq> sid) (events s) \<and>
     filter (\<lambda>e. obs_schedule_id e \<noteq> sid) (observations t) = filter (\<lambda>e. obs_schedule_id e \<noteq> sid) (observations s) \<and>
     (\<exists>u. seals t = seals s @ u \<and> (\<forall>r \<in> set u. attempt_in t (rcp_attempt_id r) sid)) \<and>
     (\<exists>u. results t = results s @ u \<and> (\<forall>r \<in> set u. attempt_in t (res_attempt_id r) sid)) \<and>
     (\<exists>u. attributions t = attributions s @ u \<and> (\<forall>r \<in> set u. attempt_in t (atr_attempt_id r) sid)) \<and>
     (\<exists>u. opinions t = opinions s @ u \<and> (\<forall>x \<in> set u. result_in t (opn_result_id x) sid)) \<and>
     (\<exists>u. profiles t = profiles s @ u \<and> (\<forall>x \<in> set u. con_principal x = cp)) \<and>
     (\<exists>u. exec_receipts t = exec_receipts s @ u \<and> (\<forall>x \<in> set u. exe_principal x = cp)) \<and>
     commands t = commands s \<and> provider_ids t = provider_ids s"

lemma filter_finer:
  assumes "filter P t = filter P u" and "\<And>x. Q x \<Longrightarrow> P x"
  shows "filter Q t = filter Q u"
proof -
  have "filter Q (filter P v) = filter Q v" for v
    using assms(2) by (induction v) auto
  with assms(1) show ?thesis by metis
qed

lemma filter_set_iff:
  assumes "filter P t = filter P u" and "P x"
  shows "x \<in> set t \<longleftrightarrow> x \<in> set u"
proof -
  from assms(1) have "set (filter P t) = set (filter P u)" by simp
  with assms(2) show ?thesis by auto
qed

lemma within_view:
  assumes w: "within cp sid s t" and wt: "wf_store t" and ne: "cp' \<noteq> cp"
    and own: "\<forall>a \<in> set (schedules s). sch_id a = sid \<longrightarrow> sch_owner a = cp"
  shows "view cp' t = view cp' s"
proof -
  note w' = w [unfolded within_def]
  have no: "\<not> owned s cp' sid" "\<not> owned t cp' sid"
    using own w' ne by (auto simp: owned_iff schedule_of_def)
  have o: "owned t cp' x = owned s cp' x" for x
  proof (cases "x = sid")
    case False
    then have "schedule_of t cp' x a = schedule_of s cp' x a" for a
      using filter_set_iff [OF conjunct1 [OF w'], of a] by (auto simp: schedule_of_def)
    then show ?thesis by (simp add: owned_iff)
  qed (use no in simp)
  have "\<forall>a. owned s cp' (att_schedule_id a) \<longrightarrow> a \<in> set (attempts t) \<longleftrightarrow> a \<in> set (attempts s)"
  proof (intro allI impI)
    fix a :: handoff_attempt assume "owned s cp' (att_schedule_id a)"
    with no have "att_schedule_id a \<noteq> sid" by auto
    moreover have "filter (\<lambda>a. att_schedule_id a \<noteq> sid) (attempts t) = filter (\<lambda>a. att_schedule_id a \<noteq> sid) (attempts s)"
      using w' by blast
    ultimately show "a \<in> set (attempts t) \<longleftrightarrow> a \<in> set (attempts s)"
      using filter_set_iff [of "\<lambda>a. att_schedule_id a \<noteq> sid" "attempts t" "attempts s" a] by blast
  qed
  then have a: "attempt_owned t cp' x = attempt_owned s cp' x" for x
    by (auto simp: attempt_owned_def exists_row_def o)
  have out: "\<not> attempt_owned s cp' x" if "attempt_in t x sid" for x
  proof
    assume "attempt_owned s cp' x"
    then have "attempt_owned t cp' x" by (simp add: a)
    then obtain b where b: "b \<in> set (attempts t)" "att_id b = x" "owned t cp' (att_schedule_id b)"
      by (auto simp: attempt_owned_def exists_row_def)
    from that obtain b' where "b' \<in> set (attempts t)" "att_id b' = x" "att_schedule_id b' = sid"
      by (auto simp: attempt_in_def exists_row_def)
    with b wf_attempt_unique [OF wt] no show False by metis
  qed
  from w' obtain u1 u2 u3 u4 u5 u6 where
    u: "seals t = seals s @ u1" "\<forall>r \<in> set u1. attempt_in t (rcp_attempt_id r) sid"
      "results t = results s @ u2" "\<forall>r \<in> set u2. attempt_in t (res_attempt_id r) sid"
      "attributions t = attributions s @ u3" "\<forall>r \<in> set u3. attempt_in t (atr_attempt_id r) sid"
      "opinions t = opinions s @ u4" "\<forall>x \<in> set u4. result_in t (opn_result_id x) sid"
      "profiles t = profiles s @ u5" "\<forall>x \<in> set u5. con_principal x = cp"
      "exec_receipts t = exec_receipts s @ u6" "\<forall>x \<in> set u6. exe_principal x = cp" by blast
  have r: "result_owned t cp' x = result_owned s cp' x" for x
    using out u(4) by (auto simp: result_owned_def exists_row_def a u(3))
  have "\<not> result_owned s cp' x" if "result_in t x sid" for x
  proof
    assume "result_owned s cp' x"
    then have "result_owned t cp' x" by (simp add: r)
    then obtain b where b: "b \<in> set (results t)" "res_id b = x" "attempt_owned s cp' (res_attempt_id b)"
      by (auto simp: result_owned_def exists_row_def a)
    from that obtain b' where b': "b' \<in> set (results t)" "res_id b' = x" "attempt_in t (res_attempt_id b') sid"
      by (auto simp: result_in_def exists_row_def)
    have "b = b'" using b b' wt by (auto simp: wf_store_def wf_results_def rows_ok_def intro: distinct_map_inj)
    with b b' out show False by blast
  qed
  with u out have app: "\<And>x. x \<in> set u1 \<Longrightarrow> \<not> attempt_owned s cp' (rcp_attempt_id x)"
    "\<And>x. x \<in> set u2 \<Longrightarrow> \<not> attempt_owned s cp' (res_attempt_id x)"
    "\<And>x. x \<in> set u3 \<Longrightarrow> \<not> attempt_owned s cp' (atr_attempt_id x)"
    "\<And>x. x \<in> set u4 \<Longrightarrow> \<not> result_owned s cp' (opn_result_id x)"
    "\<And>x. x \<in> set u5 \<Longrightarrow> con_principal x \<noteq> cp'" "\<And>x. x \<in> set u6 \<Longrightarrow> exe_principal x \<noteq> cp'"
    using ne by auto
  have sch: "filter (\<lambda>a. sch_owner a = cp') (schedules t) = filter (\<lambda>a. sch_owner a = cp') (schedules s)"
  proof -
    have split: "filter (\<lambda>a. sch_owner a = cp') v = filter (\<lambda>a. sch_owner a = cp') (filter (\<lambda>a. sch_id a \<noteq> sid) v)"
      if "\<forall>a \<in> set v. sch_id a = sid \<longrightarrow> sch_owner a = cp" for v
      using that ne by (induction v) auto
    from w' have "\<forall>a \<in> set (schedules t). sch_id a = sid \<longrightarrow> sch_owner a = cp" by blast
    from split [OF this] split [OF own] w' show ?thesis by metis
  qed
  have f: "filter (\<lambda>p. owned s cp' (stp_schedule_id p)) (steps t) = filter (\<lambda>p. owned s cp' (stp_schedule_id p)) (steps s)"
    "filter (\<lambda>a. owned s cp' (att_schedule_id a)) (attempts t) = filter (\<lambda>a. owned s cp' (att_schedule_id a)) (attempts s)"
    "filter (\<lambda>d. owned s cp' (dlg_schedule_id d)) (delegations t) =
       filter (\<lambda>d. owned s cp' (dlg_schedule_id d)) (delegations s)"
    "filter (\<lambda>e. owned s cp' (evt_schedule_id e)) (events t) = filter (\<lambda>e. owned s cp' (evt_schedule_id e)) (events s)"
    "filter (\<lambda>e. owned s cp' (obs_schedule_id e)) (observations t) =
       filter (\<lambda>e. owned s cp' (obs_schedule_id e)) (observations s)"
    using w' no by (auto elim!: filter_finer)
  show ?thesis
    by (rule view_eqI) (use w' app in \<open>simp_all add: o a r sch f u\<close>)
qed

section \<open>No effect on another view\<close>

lemma delegations_within:
  assumes "\<And>d. P d \<Longrightarrow> dlg_schedule_id d = sid" and "\<And>d. dlg_schedule_id (f d) = dlg_schedule_id d"
  shows "filter (\<lambda>d. dlg_schedule_id d \<noteq> sid) (upd_where P f ds) = filter (\<lambda>d. dlg_schedule_id d \<noteq> sid) ds"
  by (rule filter_upd_out) (simp add: assms)

lemma delegations_out:
  "filter (\<lambda>d. dlg_schedule_id d \<noteq> sid) (expire sid pid s) = filter (\<lambda>d. dlg_schedule_id d \<noteq> sid) (delegations s)"
  "filter (\<lambda>d. dlg_schedule_id d \<noteq> sid) (revoke_all sid pid scope ds) = filter (\<lambda>d. dlg_schedule_id d \<noteq> sid) ds"
  "filter (\<lambda>d. dlg_schedule_id d \<noteq> sid) (consume sid pid h n aid did ds) = filter (\<lambda>d. dlg_schedule_id d \<noteq> sid) ds"
  unfolding expire_def revoke_all_def consume_def
  by (auto simp: expired_at_def revocable_def consumable_def consumed_row_def split: option.split
      intro!: delegations_within)

lemma steps_out:
  assumes "wf_store s" and "p \<in> set (steps s)" and "stp_id p = pid" and "stp_schedule_id p = sid"
  shows "filter (\<lambda>p. stp_schedule_id p \<noteq> sid) (upd_where (\<lambda>p. stp_id p = pid) (\<lambda>p. p\<lparr>stp_state := st\<rparr>) (steps s)) =
    filter (\<lambda>p. stp_schedule_id p \<noteq> sid) (steps s)"
  by (rule filter_upd_out) (use assms wf_step_unique [OF assms(1) _ assms(2)] in auto)

lemma attempts_out:
  assumes "wf_store s" and "a \<in> set (attempts s)" and "att_id a = aid" and "att_schedule_id a = sid"
  shows "filter (\<lambda>a. att_schedule_id a \<noteq> sid) (upd_where (\<lambda>a. att_id a = aid) (\<lambda>a. a\<lparr>att_state := st\<rparr>) (attempts s)) =
    filter (\<lambda>a. att_schedule_id a \<noteq> sid) (attempts s)"
  by (rule filter_upd_out) (use assms wf_attempt_unique [OF assms(1) _ assms(2)] in auto)

lemma schedules_out:
  "filter (\<lambda>a. sch_id a \<noteq> sid) (upd_where (\<lambda>a. sch_id a = sid) (\<lambda>a. a\<lparr>sch_state := st\<rparr>) t) =
   filter (\<lambda>a. sch_id a \<noteq> sid) t"
  by (rule filter_upd_out) simp

lemma cancelled_out:
  "filter (\<lambda>p. stp_schedule_id p \<noteq> sid) (steps (cancelled sid s)) = filter (\<lambda>p. stp_schedule_id p \<noteq> sid) (steps s)"
  "filter (\<lambda>a. att_schedule_id a \<noteq> sid) (attempts (cancelled sid s)) =
     filter (\<lambda>a. att_schedule_id a \<noteq> sid) (attempts s)"
  by (auto simp: cancelled_def live_step_def open_attempt_def intro!: filter_upd_out)

lemma owner_single:
  "wf_store s \<Longrightarrow> owned s cp sid \<Longrightarrow> \<forall>a \<in> set (schedules s). sch_id a = sid \<longrightarrow> sch_owner a = cp"
  using wf_schedule_unique [of s] by (auto simp: owned_iff schedule_of_def)

text \<open>The simple updates.\<close>

lemma within_simple:
  assumes "\<forall>a \<in> set (schedules s). sch_id a = sid \<longrightarrow> sch_owner a = cp"
  shows "within cp sid s s"
    and "filter (\<lambda>d. dlg_schedule_id d \<noteq> sid) ds = filter (\<lambda>d. dlg_schedule_id d \<noteq> sid) (delegations s) \<Longrightarrow>
      within cp sid s (s\<lparr>delegations := ds\<rparr>)"
    and "result_in s (opn_result_id x) sid \<Longrightarrow> within cp sid s (s\<lparr>opinions := opinions s @ [x]\<rparr>)"
    and "evt_schedule_id e = sid \<Longrightarrow>
      within cp sid s ((with_schedule_state sid st s)\<lparr>events := events s @ [e]\<rparr>)"
    and "evt_schedule_id e = sid \<Longrightarrow>
      within cp sid s ((with_schedule_state sid st (cancelled sid s))\<lparr>events := events s @ [e]\<rparr>)"
  using assms cancelled_out [of sid s]
  by (auto simp: within_def with_schedule_state_def schedules_out set_upd_where cancelled_def
      result_in_def attempt_in_def)

lemma within_export:
  assumes wf: "wf_store s" and x: "export_effect c aid cp sid pid sealer sched p e h did s t"
    and cm: "commands t = commands s" and pr: "provider_ids t = provider_ids s"
  shows "within cp sid s t"
proof -
  from x have d: "dispatchable s cp sid pid sched p" by (simp add: export_effect_def)
  then have p: "p \<in> set (steps s)" "stp_id p = pid" "stp_schedule_id p = sid" and o: "owned s cp sid"
    by (auto simp: dispatchable_def row_of_defs owned_iff)
  from x obtain ds rid xid profs and prof :: connection_profile where
    ds: "authorized_by c s sid pid p h did ds" and
    pf: "con_principal prof = cp" "profs = profiles s \<or> profs = profiles s @ [prof]" and
    s': "scrub t = scrub (dispatched s pid (consume sid pid h (now s) aid did ds)
      (sealed aid sid pid h (next_number pid s) (now s))
      (receipt rid aid h (now s) sealer) profs (manual_receipt xid cp sid pid aid (con_id prof) (now s)))"
    unfolding export_effect_def by blast
  have "filter (\<lambda>d. dlg_schedule_id d \<noteq> sid) ds = filter (\<lambda>d. dlg_schedule_id d \<noteq> sid) (delegations s)"
    using ds by (auto simp: authorized_by_def delegations_out)
  moreover have "attempt_in t aid sid"
    using export_sealed(1) [OF x] by (simp add: attempt_in_def exists_row_def sealed_def)
  ultimately show ?thesis
    using scrub_eqD [OF s'] pf owner_single [OF wf o]
    by (auto simp: within_def dispatched_def with_step_state_def delegations_out steps_out [OF wf p]
        sealed_def receipt_def manual_receipt_def cm pr)
qed

lemma within_import:
  assumes wf: "wf_store s" and i: "importable s cp sid pid aid p a"
    and sw: "switches s sid pid aid tid r d obs"
    and x: "res_attempt_id x = aid" "atr_attempt_id y = aid"
  shows "within cp sid s (imported aid out x y obs s)"
proof -
  from i have a: "a \<in> set (attempts s)" "att_id a = aid" "att_schedule_id a = sid" and o: "owned s cp sid"
    by (auto simp: importable_def row_of_defs)
  have "attempt_in (imported aid out x y obs s) aid sid = attempt_in s aid sid"
    unfolding attempt_in_def imported_def with_attempt_state_def by (simp add: exists_row_upd_out)
  moreover have "attempt_in s aid sid"
    using a by (auto simp: attempt_in_def exists_row_def)
  moreover have "\<forall>e \<in> set obs. obs_schedule_id e = sid"
    using sw by (auto simp: switches_def switch_row_def)
  ultimately show ?thesis
    using owner_single [OF wf o] attempts_out [OF wf a] x
    by (auto simp: within_def imported_def with_attempt_state_def filter_empty_conv)
qed

lemma within_advance:
  assumes w: "within cp sid s u" and u: "steps u = steps s"
    and wf: "wf_store s" and p: "p \<in> set (steps s)" "stp_id p = pid" "stp_schedule_id p = sid"
  shows "within cp sid s (advanced cp sid pid eid n u)"
proof -
  let ?t = "advanced cp sid pid eid n u"
  have t: "attempts ?t = attempts u" "results ?t = results u" by simp_all
  then have i: "attempt_in ?t x y = attempt_in u x y" "result_in ?t x y = result_in u x y" for x y
    by (simp_all add: attempt_in_def result_in_def)
  have s: "filter (\<lambda>a. sch_id a \<noteq> sid) (schedules ?t) = filter (\<lambda>a. sch_id a \<noteq> sid) (schedules u) \<and>
    (\<forall>a \<in> set (schedules ?t). sch_id a = sid \<longrightarrow> sch_owner a = cp) \<and>
    filter (\<lambda>e. evt_schedule_id e \<noteq> sid) (events ?t) = filter (\<lambda>e. evt_schedule_id e \<noteq> sid) (events u)"
  proof -
    have "\<forall>a \<in> set (schedules u). sch_id a = sid \<longrightarrow> sch_owner a = cp"
      using w by (simp add: within_def)
    then show ?thesis
      by (cases rule: advanced_cases [of cp sid pid eid n u])
        (auto simp: with_schedule_state_def schedules_out set_upd_where event_row_def)
  qed
  have p': "filter (\<lambda>p. stp_schedule_id p \<noteq> sid) (steps ?t) = filter (\<lambda>p. stp_schedule_id p \<noteq> sid) (steps u)"
    using steps_out [OF wf p] u
    by (simp add: advanced_def Let_def completed_def with_schedule_state_def with_step_state_def)
  have r: "seals ?t = seals u" "observations ?t = observations u" "opinions ?t = opinions u"
    "profiles ?t = profiles u" "exec_receipts ?t = exec_receipts u" "commands ?t = commands u"
    "provider_ids ?t = provider_ids u"
    by (simp_all add: advanced_def Let_def completed_def with_schedule_state_def with_step_state_def)
  show ?thesis using w s unfolding within_def i p' r t by simp
qed

text \<open>The tables outside the reach of an effect.\<close>

lemma effect_commands:
  assumes "effect c cp s t"
  shows "commands t = commands s \<and> provider_ids t = provider_ids s"
  using assms
proof (cases rule: effect.cases)
  case (export aid sid pid sealer sched p e h did)
  then obtain ds rid xid profs and prof :: connection_profile where
    s': "scrub t = scrub (dispatched s pid (consume sid pid h (now s) aid did ds)
      (sealed aid sid pid h (next_number pid s) (now s))
      (receipt rid aid h (now s) sealer) profs (manual_receipt xid cp sid pid aid (con_id prof) (now s)))"
    unfolding export_effect_def by blast
  show ?thesis using scrub_eqD [OF s'] by (simp add: dispatched_def with_step_state_def)
qed (auto simp: created_def imported_def with_attempt_state_def advanced_def Let_def completed_def
    with_schedule_state_def with_step_state_def controlled_def cancelled_def paused_def)

lemma effect_within:
  assumes "effect c cp s t" and wf: "wf_store s"
  obtains (within) sid where "within cp sid s t" "\<forall>a \<in> set (schedules s). sch_id a = sid \<longrightarrow> sch_owner a = cp"
  using assms(1)
proof (cases rule: effect.cases)
  case (create sid drafts ps mode title)
  then have f: "\<forall>a \<in> set (schedules s). sch_id a \<noteq> sid" by (simp add: fresh_def)
  have "\<forall>p \<in> set ps. stp_schedule_id p = sid"
  proof
    fix p assume "p \<in> set ps"
    from list_all2_set2 [OF create(2) this] show "stp_schedule_id p = sid"
      by (auto simp: draft_row_def row_of_draft_def)
  qed
  with f show ?thesis
    by (intro within [of sid]) (auto simp: create(1) within_def created_def filter_empty_conv)
next
  case (export aid sid pid sealer sched p e h did)
  then have "owned s cp sid" by (auto simp: export_effect_def dest: dispatchable_owned)
  with within_export [OF wf export] effect_commands [OF assms(1)] show ?thesis by (intro within owner_single [OF wf]) auto
next
  case (import_rejected sid pid aid p a out tid d obs rid ref)
  have "owned s cp sid" using import_rejected(2) by (simp add: importable_def)
  then show ?thesis
    unfolding import_rejected(1)
    by (intro within [of sid] owner_single [OF wf])
      (simp_all add: import_rejected(1) within_import [OF wf import_rejected(2,5)] result_row_def attribution_row_def)
next
  case (import_accepted sid pid aid p a out tid d obs eid rid ref)
  have o: "owned s cp sid" "p \<in> set (steps s)" "stp_id p = pid" "stp_schedule_id p = sid"
    using import_accepted(2) by (auto simp: importable_def row_of_defs)
  have "within cp sid s (imported aid out (result_row rid aid (stp_output_contract p) ref out)
      (attribution_row tid aid (stp_role p) d (now s)) obs s)"
    by (rule within_import [OF wf import_accepted(2,5)]) (simp_all add: result_row_def attribution_row_def)
  from within_advance [OF this _ wf o(2-4)] import_accepted(1) owner_single [OF wf o(1)] show ?thesis
    by (intro within [of sid]) (simp_all add: imported_tables)
next
  case (control sid a action st kind category reason eid)
  then have "owned s cp sid" by (auto simp: owned_iff)
  then show ?thesis
    by (intro within [of sid] owner_single [OF wf])
      (auto simp: control(1) controlled_def event_row_def intro!: within_simple owner_single [OF wf])
next
  case (grant sid pid p g e h until did)
  then show ?thesis
    by (intro within [of sid] owner_single [OF wf])
      (auto simp: grant(1) delegation_row_def delegations_out intro!: within_simple owner_single [OF wf])
next
  case (revoke sid pid scope)
  then show ?thesis
    by (intro within [of sid] owner_single [OF wf])
      (auto simp: revoke(1) delegations_out intro!: within_simple owner_single [OF wf])
next
  case (opinion r aid sid oid k auditor)
  then have "result_in s (res_id r) sid"
    by (auto simp: result_in_def exists_row_def)
  with opinion show ?thesis
    by (intro within [of sid] owner_single [OF wf])
      (auto simp: opinion(1) opinion_row_def intro!: within_simple owner_single [OF wf])
next
  case (expiry sid pid)
  then show ?thesis
    by (intro within [of sid] owner_single [OF wf])
      (auto simp: expiry(1) delegations_out intro!: within_simple owner_single [OF wf])
next
  case (gate_pause sid pid a p g eid reason)
  then have "owned s cp sid" by (auto dest: dispatchable_owned)
  then show ?thesis
    by (intro within [of sid] owner_single [OF wf])
      (auto simp: gate_pause(1) paused_def pause_event_def event_row_def intro!: within_simple owner_single [OF wf])
qed

lemma effect_view:
  assumes "effect c cp s t" and "wf_store s" and "wf_store t" and "cp' \<noteq> cp"
  shows "view cp' t = view cp' s"
  using assms(1,2)
proof (cases rule: effect_within)
  case (within sid)
  then show ?thesis by (rule within_view [OF _ assms(3,4)])
qed

lemma change_view:
  assumes "change c cp s t" and "cp' \<noteq> cp"
  shows "view cp' t = view cp' s"
  using assms
proof (induction rule: change.induct)
  case (step s t t' u s')
  have "view cp' s' = view cp' u" by (rule view_rows [OF carries_rows [OF step.hyps(6)] step.prems])
  also have "\<dots> = view cp' t'" by (rule effect_view [OF step.hyps(4,2,5) step.prems])
  also have "\<dots> = view cp' t" by (rule view_rows [OF carries_rows [OF step.hyps(3)] step.prems])
  finally show ?case using step.IH [OF step.prems] by simp
qed (rule view_rows [OF carries_rows])

lemma serve_view:
  assumes "wf_store s" and "life s" and "valid_call cl" and "cp' \<noteq> cp"
  shows "view cp' (serve c rt n cp key cl s) = view cp' s"
proof (rule change_view [OF serve_change [OF assms(1,3)] assms(4)])
  show "\<forall>a \<in> set (schedules s). sch_state a \<noteq> DRAFT"
    using assms(2) by (simp add: life_def contents_def)
qed

section \<open>Reads\<close>

text \<open>A computation that reads only what is in the view of the principal, and changes nothing.\<close>

definition scoped :: "pystr \<Rightarrow> 'a db \<Rightarrow> bool" where
  "scoped cp m \<longleftrightarrow> unchanged m \<and> (\<forall>s. fst (m (view cp s)) = fst (m s))"

named_theorems scoped_intros

lemma scoped_ret [scoped_intros]: "scoped cp (ret x)" "scoped cp (raise e)"
  by (simp_all add: scoped_def ret_def raise_def unchanged_def)

lemma scoped_bnd [scoped_intros]:
  assumes "scoped cp m" and "\<And>x. scoped cp (f x)"
  shows "scoped cp (bnd m f)"
proof -
  have "fst (bnd m f s) = (case fst (m s) of Inl e \<Rightarrow> Inl e | Inr x \<Rightarrow> fst (f x s))" for s
    using assms(1) by (cases "m s") (auto simp: scoped_def bnd_def unchanged_def split: sum.split dest: spec [of _ s])
  with assms show ?thesis
    by (auto simp: scoped_def intro!: unchanged_intros split: sum.split)
qed

lemma view_tables [simp]:
  "schedules (view cp s) = filter (\<lambda>a. sch_owner a = cp) (schedules s)"
  "steps (view cp s) = filter (\<lambda>p. owned s cp (stp_schedule_id p)) (steps s)"
  "attempts (view cp s) = filter (\<lambda>a. owned s cp (att_schedule_id a)) (attempts s)"
  "seals (view cp s) = filter (\<lambda>r. attempt_owned s cp (rcp_attempt_id r)) (seals s)"
  "commands (view cp s) = filter (\<lambda>r. cmd_principal r = cp) (commands s)"
  "results (view cp s) = filter (\<lambda>r. attempt_owned s cp (res_attempt_id r)) (results s)"
  "attributions (view cp s) = filter (\<lambda>r. attempt_owned s cp (atr_attempt_id r)) (attributions s)"
  "delegations (view cp s) = filter (\<lambda>d. owned s cp (dlg_schedule_id d)) (delegations s)"
  "events (view cp s) = filter (\<lambda>e. owned s cp (evt_schedule_id e)) (events s)"
  "observations (view cp s) = filter (\<lambda>e. owned s cp (obs_schedule_id e)) (observations s)"
  "opinions (view cp s) = filter (\<lambda>x. result_owned s cp (opn_result_id x)) (opinions s)"
  by (simp_all add: view_def scrub_def)

lemma view_owned [simp]: "owned (view cp s) cp sid = owned s cp sid"
  by (auto simp: owned_def exists_row_def)

lemma view_attempt_in: "owned s cp sid \<Longrightarrow> attempt_in (view cp s) aid sid = attempt_in s aid sid"
  by (auto simp: attempt_in_def exists_row_def)

lemma attempt_in_owned: "owned s cp sid \<Longrightarrow> attempt_in s aid sid \<Longrightarrow> attempt_owned s cp aid"
  by (auto simp: attempt_in_def attempt_owned_def exists_row_def)

lemma view_result_in: "owned s cp sid \<Longrightarrow> result_in (view cp s) rid sid = result_in s rid sid"
  using attempt_in_owned by (auto simp: result_in_def exists_row_def view_attempt_in)

lemma result_in_owned: "owned s cp sid \<Longrightarrow> result_in s rid sid \<Longrightarrow> result_owned s cp rid"
  using attempt_in_owned by (auto simp: result_in_def result_owned_def exists_row_def)

lemma filter_view: "(\<And>x. P' x \<Longrightarrow> Q x) \<Longrightarrow> (\<And>x. P x = P' x) \<Longrightarrow> filter P (filter Q t) = filter P' t"
  by (induction t) auto

lemma scoped_select:
  "(\<And>s. q (view cp s) = q s) \<Longrightarrow> scoped cp (select_one q)"
  "(\<And>s. h (view cp s) = h s) \<Longrightarrow> scoped cp (gets h)"
  by (auto simp: scoped_def select_one_def gets_def unchanged_def split: list.split)

lemma scoped_queries [scoped_intros]:
  "scoped cp (get_schedule cp sid)" "scoped cp (lock_schedule cp sid)" "scoped cp (list_steps cp sid)"
  "scoped cp (get_step cp sid pid)" "scoped cp (get_attempt cp sid aid)"
  "scoped cp (get_seal_receipt_by_attempt cp sid aid)" "scoped cp (list_attempts cp sid opid)"
  "scoped cp (get_handoff_result cp sid aid)" "scoped cp (get_handoff_attribution cp sid aid)"
  "scoped cp (get_delegation cp sid did)" "scoped cp (list_delegations cp sid)"
  "scoped cp (list_control_events cp sid)" "scoped cp (get_control_event cp sid eid)"
  "scoped cp (list_execution_observations cp sid)" "scoped cp (list_audit_opinions cp sid)"
  "scoped cp (get_audit_opinion cp sid oid)"
  unfolding query_defs
  by (rule scoped_select, simp only: view_tables filter_filter view_owned,
      ((rule arg_cong [where f = "sort_key k" for k])?, rule filter_cong [OF refl],
       auto simp: view_attempt_in view_result_in attempt_in_owned result_in_owned cong: conj_cong))+

lemma scoped_option [scoped_intros]:
  "scoped cp m \<Longrightarrow> (\<And>y. scoped cp (f y)) \<Longrightarrow> scoped cp (case x of None \<Rightarrow> m | Some y \<Rightarrow> f y)"
  by (cases x) simp_all

lemma scoped_require [scoped_intros]: "scoped cp (require_some e x)"
  unfolding require_some_def by (intro scoped_intros)

lemma scoped_map [scoped_intros]: "(\<And>x. scoped cp (f x)) \<Longrightarrow> scoped cp (map_comp f xs)"
  by (induction xs) (auto intro!: scoped_intros)

text \<open>The three reads of the router and the read that follows a grant.\<close>

lemma scoped_handlers:
  "scoped cp (ler_schedule cp sid)" "scoped cp (listar_tentativas cp sid)"
  "scoped cp (ler_governanca cp sid)" "scoped cp (delegation_view cp sid did)"
  unfolding ler_schedule_def listar_tentativas_def ler_governanca_def query_list_attempts_def
    read_governance_def service_get_schedule_def delegation_view_def
  by (intro scoped_intros)+

text \<open>A read of one principal does not notice the requests of another.\<close>

lemma scoped_noninterference:
  assumes "scoped cp' m" and "view cp' t = view cp' s"
  shows "fst (m t) = fst (m s)"
  using assms by (metis scoped_def)

end
