(* ===== verification/Idempotency.thy ===== *)
theory Idempotency
  imports Isolation
begin

text \<open>
  At most once: a command that succeeded left a receipt of its key, receipts are never lost, and
  from then on no request with that key and operation touches a row, whatever it asks for. A
  request that asks for something else under the same key fails.
\<close>

section \<open>The core\<close>

definition receipt_of :: "store \<Rightarrow> pystr \<Rightarrow> command_operation \<Rightarrow> pystr \<Rightarrow> command_receipt \<Rightarrow> bool" where
  "receipt_of s cp operation key r \<longleftrightarrow> r \<in> set (commands s) \<and>
     cmd_triple r = (cp, command_operation_value operation, key)"

lemma filter_key:
  assumes "distinct (map k t)" and "r \<in> set t"
  shows "filter (\<lambda>x. k x = k r) t = [r]"
  using assms
proof (induction t)
  case (Cons a t)
  show ?case
  proof (cases "a = r")
    case True
    with Cons.prems(1) have "filter (\<lambda>x. k x = k r) t = []"
      by (auto simp: filter_empty_conv image_iff)
    with True show ?thesis by simp
  next
    case False
    with Cons.prems have "r \<in> set t" "k a \<noteq> k r" by (auto simp: image_iff)
    with Cons show ?thesis by simp
  qed
qed simp

lemma filter_triple:
  assumes "wf_store s" and "receipt_of s cp operation key r"
  shows "filter (\<lambda>x. cmd_triple x = (cp, command_operation_value operation, key)) (commands s) = [r]"
proof -
  have "distinct (map cmd_triple (commands s))"
    using assms(1) by (simp add: wf_store_def wf_commands_def)
  with filter_key [of cmd_triple "commands s" r] assms(2) show ?thesis
    by (simp add: receipt_of_def)
qed

text \<open>The claim finds the receipt and changes nothing.\<close>

lemma claim_existing:
  assumes "wf_store s" and "receipt_of s cp operation key r" and f: "cmd_id r \<noteq> entropy s (drawn s)"
  shows "claim_command cp (command_operation_value operation) key outcome (Some req) s =
    ((case command_row_ok (command_row (entropy s (drawn s)) cp operation key req outcome) of
       Some e \<Rightarrow> Inl e | None \<Rightarrow> Inr (r, False)), s\<lparr>drawn := Suc (drawn s)\<rparr>)"
  using filter_triple [OF assms(1,2)] f
  by (auto simp: claim_command_def bnd_def draw_uuid_def Let_def command_row_def [symmetric]
      cmd_triple_command_row split: option.split)

lemma executar_existing:
  assumes "wf_store s" and "receipt_of s cp operation key r" and "cmd_id r \<noteq> entropy s (drawn s)"
  shows "scrub (snd (executar_uma_vez cp operation key outcome req efeito s)) = scrub s"
    and "executar_uma_vez cp operation key outcome req efeito s = (Inr (out, y), s') \<Longrightarrow>
      y = None \<and> out_replayed out \<and> cmd_request_sha256 r = Some req \<and> out_outcome_ref out = cmd_outcome_ref r"
  unfolding executar_uma_vez_def
  by (auto simp: bnd_def require_def ret_def raise_def claim_existing [OF assms] split: option.splits if_splits)

section \<open>The commands\<close>

fun operation_of :: "call \<Rightarrow> command_operation" where
  "operation_of (CallCreate draft mode) = CREATE_SCHEDULE"
| "operation_of (CallExport sid pid) = EXPORT_HANDOFF"
| "operation_of (CallImport sid pid aid raw d) = IMPORT_RETURN"
| "operation_of (CallGrant sid pid valid_until) = GRANT_DELEGATION"
| "operation_of (CallRevoke sid pid did) = REVOKE_DELEGATION"
| "operation_of (CallControl sid action category) = CONTROL_SCHEDULE"
| "operation_of (CallOpinion sid aid k codes auditor) = ISSUE_AUDIT_OPINION"

text \<open>What is hashed to tell one request from another.\<close>

fun fingerprint :: "pystr \<Rightarrow> call \<Rightarrow> error + pystr" where
  "fingerprint cp (CallCreate draft mode) = impressao_digital (create_payload draft mode)"
| "fingerprint cp (CallExport sid pid) = impressao_digital (seal_payload EXPORT_HANDOFF sid pid cp)"
| "fingerprint cp (CallImport sid pid aid raw d) =
     andthen (digest_de_conteudo (raw_content raw)) (\<lambda>digest.
     impressao_digital (import_payload sid pid aid raw d digest))"
| "fingerprint cp (CallGrant sid pid valid_until) = impressao_digital (grant_payload sid pid valid_until)"
| "fingerprint cp (CallRevoke sid pid did) = impressao_digital (revoke_payload sid pid did)"
| "fingerprint cp (CallControl sid action category) = impressao_digital (control_payload sid action category)"
| "fingerprint cp (CallOpinion sid aid k codes auditor) = impressao_digital (opinion_payload sid aid k codes auditor)"

text \<open>A request whose key has a receipt: nothing moves, and it succeeds only as the same request.\<close>

definition spent :: "store \<Rightarrow> pystr \<Rightarrow> command_operation \<Rightarrow> pystr \<Rightarrow> command_receipt \<Rightarrow> bool" where
  "spent s cp operation key r \<longleftrightarrow> wf_store s \<and> receipt_of s cp operation key r \<and>
     (\<forall>n \<ge> drawn s. cmd_id r \<noteq> entropy s n)"

definition inert :: "('a db) \<Rightarrow> (error + pystr) \<Rightarrow> command_receipt \<Rightarrow> store \<Rightarrow> bool" where
  "inert m h r s \<longleftrightarrow> scrub (snd (m s)) = scrub s \<and>
     (\<forall>x. fst (m s) = Inr x \<longrightarrow> h = Inr (the (cmd_request_sha256 r)))"

lemma spent_draw [simp]: "spent s cp operation key r \<Longrightarrow> spent (s\<lparr>drawn := Suc (drawn s)\<rparr>) cp operation key r"
  by (simp add: spent_def receipt_of_def)

lemma inert_executar:
  assumes "spent s cp operation key r"
  shows "inert (executar_uma_vez cp operation key outcome req efeito) (Inr req) r s"
  using executar_existing [of s cp operation key r outcome req efeito] assms
  by (cases "executar_uma_vez cp operation key outcome req efeito s")
    (auto simp: inert_def spent_def)

lemma inert_draw:
  assumes "\<And>i. inert (f i) h r (s\<lparr>drawn := Suc (drawn s)\<rparr>)"
  shows "inert (bnd draw_uuid f) h r s"
  using assms [of "entropy s (drawn s)"] by (simp add: inert_def bnd_def draw_uuid_def)

lemma inert_hash:
  assumes "\<And>z. x = Inr z \<Longrightarrow> inert (f z) (Inr z) r s"
  shows "inert (bnd (lift_sum x) f) x r s"
  using assms by (cases x) (auto simp: inert_def bnd_def lift_sum_def ret_def raise_def)

lemma inert_digest:
  assumes "\<And>z. x = Inr z \<Longrightarrow> inert (f z) (g z) r s"
  shows "inert (bnd (lift_sum x) f) (andthen x g) r s"
  using assms by (cases x) (auto simp: inert_def bnd_def lift_sum_def ret_def raise_def)

lemma inert_once:
  assumes "spent s cp (operation_of cl) key r"
  shows "cl = CallCreate draft mode \<Longrightarrow> inert (create_schedule_once cp key draft mode) (fingerprint cp cl) r s"
    and "cl = CallExport sid pid \<Longrightarrow> inert (export_handoff_once c cp key sid pid cp) (fingerprint cp cl) r s"
    and "cl = CallImport sid pid aid raw d \<Longrightarrow>
      inert (import_return_once rt cp key sid pid aid raw d) (fingerprint cp cl) r s"
    and "cl = CallGrant sid pid until \<Longrightarrow> inert (grant_delegation_once cp key sid pid until) (fingerprint cp cl) r s"
    and "cl = CallRevoke sid pid did \<Longrightarrow> inert (revoke_delegation_once cp key sid pid did) (fingerprint cp cl) r s"
    and "cl = CallControl sid action category \<Longrightarrow>
      inert (control_schedule_once cp key sid action category) (fingerprint cp cl) r s"
    and "cl = CallOpinion sid aid k codes auditor \<Longrightarrow>
      inert (issue_audit_opinion_once cp key sid aid k codes auditor) (fingerprint cp cl) r s"
  unfolding create_schedule_once_def export_handoff_once_def import_return_once_def grant_delegation_once_def
    revoke_delegation_once_def control_schedule_once_def issue_audit_opinion_once_def
  using assms
  by (auto intro!: inert_draw inert_hash inert_digest inert_executar)

section \<open>The handlers\<close>

lemma inert_bnd:
  assumes "inert m h r s" and "\<And>x t. m s = (Inr x, t) \<Longrightarrow> snd (f x t) = t"
  shows "inert (bnd m f) h r s"
proof (cases "m s")
  case (Pair x t)
  with assms show ?thesis by (cases x) (auto simp: inert_def bnd_def)
qed

lemma inert_read: "inert m h r s \<Longrightarrow> (\<And>x. unchanged (f x)) \<Longrightarrow> inert (bnd m f) h r s"
  by (rule inert_bnd) (simp_all add: unchanged_def)

lemma inert_committed: "inert m h r s \<Longrightarrow> inert (committed m) h r s"
  by (auto simp: inert_def committed_def rollback_def split: prod.split sum.split)

lemma inert_handlers:
  assumes "spent s cp (operation_of cl) key r"
  shows "cl = CallImport sid pid aid raw d \<Longrightarrow>
      inert (importar_retorno rt cp key sid pid aid raw d) (fingerprint cp cl) r s"
    and "cl = CallGrant sid pid until \<Longrightarrow> inert (conceder_delegacao cp key sid pid until) (fingerprint cp cl) r s"
    and "cl = CallRevoke sid pid did \<Longrightarrow> inert (revogar_delegacao cp key sid pid did) (fingerprint cp cl) r s"
    and "cl = CallControl sid action category \<Longrightarrow>
      inert (registrar_controle cp key sid action category) (fingerprint cp cl) r s"
    and "cl = CallOpinion sid aid k codes auditor \<Longrightarrow>
      inert (registrar_parecer cp key sid aid k codes auditor) (fingerprint cp cl) r s"
  unfolding importar_retorno_def conceder_delegacao_def revogar_delegacao_def registrar_controle_def
    registrar_parecer_def
  by (rule inert_committed, rule inert_read, erule inert_once [OF assms], intro unchanged_intros; simp)+

text \<open>A creation that is replayed does not activate again.\<close>

lemma create_once_replayed:
  assumes sp: "spent s cp CREATE_SCHEDULE key r"
    and run: "create_schedule_once cp key draft mode s = (Inr (out, y), s')"
  shows "out_replayed out"
proof -
  let ?s = "s\<lparr>drawn := Suc (drawn s)\<rparr>"
  from run obtain req where run': "executar_uma_vez cp CREATE_SCHEDULE key (str_uuid (entropy s (drawn s))) req
      (create_schedule (entropy s (drawn s)) cp draft mode) ?s = (Inr (out, y), s')"
    by (auto simp: create_schedule_once_def bnd_eq_Inr draw_uuid_iff lift_sum_eq_iff)
  from spent_draw [OF sp] have "wf_store ?s" "receipt_of ?s cp CREATE_SCHEDULE key r"
    "cmd_id r \<noteq> entropy ?s (drawn ?s)" by (simp_all add: spent_def)
  from executar_existing(2) [OF this run'] show ?thesis by blast
qed

lemma inert_create:
  assumes "spent s cp CREATE_SCHEDULE key r" and cl: "cl = CallCreate draft mode"
  shows "inert (criar_schedule cp key draft mode) (fingerprint cp cl) r s"
proof -
  let ?f = "\<lambda>(recibo, _ :: schedule_view option). bnd (parse_outcome recibo) (\<lambda>sid.
       bnd (if \<not> out_replayed recibo then bnd (activate cp sid) (\<lambda>_. ret ()) else ret ()) (\<lambda>_.
       service_get_schedule cp sid))"
  have once: "inert (create_schedule_once cp key draft mode) (fingerprint cp cl) r s"
    using inert_once(1) [of s cp cl key r] assms by simp
  have "unchanged (?f (out, y))" if "out_replayed out" for out y
    using that by (auto simp: parse_outcome_def intro!: unchanged_intros split: option.split)
  then have "inert (bnd (create_schedule_once cp key draft mode) ?f) (fingerprint cp cl) r s"
    using create_once_replayed [OF assms(1), of draft mode]
    by (intro inert_bnd [OF once]) (auto simp: unchanged_def split: prod.split)
  then show ?thesis
    by (auto simp: criar_schedule_def inert_committed) (simp add: inert_def raise_def)
qed

text \<open>An export whose key has a receipt ends in the first phase or replays in the second.\<close>

lemma inert_export:
  assumes "spent s cp EXPORT_HANDOFF key r" and cl: "cl = CallExport sid pid"
  shows "inert (exportar_handoff c cp key sid pid) (fingerprint cp cl) r s"
proof -
  have q: "replay_de_export cp key h s = (if cmd_request_sha256 r = Some h then (Inr (Some r), s)
      else (Inl OrchestrationLifecycleViolation, s))" for h
    using filter_triple [of s cp EXPORT_HANDOFF key r] assms(1)
    by (simp add: replay_de_export_def get_command_receipt_def select_one_def bnd_def require_def ret_def
        raise_def spent_def)
  have one: "export_phase_one c cp key sid pid s = (Inr b, t) \<Longrightarrow> t = s \<and> b = None" for b t
    by (auto simp: export_phase_one_def bnd_eq_Inr lift_sum_eq_iff q ret_eq_iff split: if_splits)
  have one_fails: "export_phase_one c cp key sid pid s = (Inl e, t) \<Longrightarrow> scrub t = scrub s" for e t
    by (auto simp: export_phase_one_def bnd_eq_Inl lift_sum_eq_iff q ret_eq_iff split: if_splits
        dest: unchangedD)
  have two: "inert (export_phase_two c cp key sid pid) (fingerprint cp cl) r s"
  proof -
    let ?s = "s\<lparr>emitted := []\<rparr>"
    have "spent ?s cp (operation_of cl) key r"
      using assms by (simp add: spent_def receipt_of_def)
    from inert_once(2) [OF this cl]
    have "inert (bnd (export_handoff_once c cp key sid pid cp)
        (\<lambda>(recibo, saida). resposta_export cp sid pid recibo saida)) (fingerprint cp cl) r ?s"
      by (rule inert_read) (intro unchanged_intros)
    moreover have "export_phase_two c cp key sid pid s = bnd (export_handoff_once c cp key sid pid cp)
        (\<lambda>(recibo, saida). resposta_export cp sid pid recibo saida) ?s"
      by (simp add: export_phase_two_def bnd_def modify_def)
    ultimately show ?thesis by (simp add: inert_def scrub_local)
  qed
  show ?thesis
  proof (cases "export_phase_one c cp key sid pid s")
    case (Pair x t)
    show ?thesis
    proof (cases x)
      case (Inl e)
      with Pair one_fails show ?thesis
        by (auto simp: inert_def exportar_handoff_def rollback_def)
    next
      case (Inr b)
      with Pair one have t: "x = Inr None" "t = s" by auto
      with Pair two show ?thesis
        by (auto simp: inert_def exportar_handoff_def rollback_def split: prod.split sum.split)
    qed
  qed
qed

lemma inert_handle:
  assumes "spent s cp (operation_of cl) key r"
  shows "inert (handle c rt cp key cl) (fingerprint cp cl) r s"
proof -
  have d: "inert m h r s \<Longrightarrow> inert (discard m) h r s" for m :: "'a db" and h
    unfolding discard_def by (erule inert_read) (intro unchanged_intros)
  show ?thesis
    using assms inert_handlers [of s cp cl key r] inert_create [of s cp key r cl] inert_export [of s cp key r cl]
    by (cases cl) (auto simp del: fingerprint.simps intro!: d)
qed

section \<open>Requests\<close>

lemma spent_request [simp]:
  "spent (s\<lparr>now := t, emitted := [], next_object := 0\<rparr>) cp operation key r = spent s cp operation key r"
  by (simp add: spent_def receipt_of_def)

theorem serve_spent:
  assumes "spent s cp (operation_of cl) key r"
  shows "scrub (serve c rt t cp key cl s) = scrub s"
  using inert_handle [of "s\<lparr>now := t, emitted := [], next_object := 0\<rparr>" cp cl key r c rt] assms
  by (simp add: inert_def serve_def request_def)

theorem other_request_fails:
  assumes "spent s cp (operation_of cl) key r" and "fingerprint cp cl \<noteq> Inr (the (cmd_request_sha256 r))"
  shows "\<exists>e. fst (request t (handle c rt cp key cl) s) = Inl e"
proof -
  from inert_handle [of "s\<lparr>now := t, emitted := [], next_object := 0\<rparr>" cp cl key r c rt] assms
  have "\<forall>x. fst (request t (handle c rt cp key cl) s) \<noteq> Inr x"
    by (simp add: inert_def request_def)
  then show ?thesis by (cases "fst (request t (handle c rt cp key cl) s)") auto
qed

section \<open>Receipts are kept\<close>

text \<open>Receipts are only added, each with an identity drawn since, and no draw repeats.\<close>

definition draws :: "store \<Rightarrow> store \<Rightarrow> bool" where
  "draws s t \<longleftrightarrow> entropy t = entropy s \<and> drawn s \<le> drawn t \<and>
     (\<exists>new. commands t = commands s @ new \<and>
        cmd_id ` set new \<subseteq> entropy s ` {drawn s..<drawn t})"

lemma draws_same: "commands t = commands s \<Longrightarrow> entropy t = entropy s \<Longrightarrow> drawn s \<le> drawn t \<Longrightarrow> draws s t"
  by (simp add: draws_def)

interpretation drw: store_progress draws
proof
  fix s t u
  assume "draws s t" and "draws t u"
  then obtain xs ys where c: "commands t = commands s @ xs" "commands u = commands t @ ys"
      and e: "entropy t = entropy s" "entropy u = entropy t" "drawn s \<le> drawn t" "drawn t \<le> drawn u"
      and w: "cmd_id ` set xs \<subseteq> entropy s ` {drawn s..<drawn t}"
        "cmd_id ` set ys \<subseteq> entropy t ` {drawn t..<drawn u}"
    unfolding draws_def by blast
  have "entropy s ` {drawn s..<drawn t} \<union> entropy s ` {drawn t..<drawn u} \<subseteq> entropy s ` {drawn s..<drawn u}"
    using e(3,4) by auto
  with w e have "cmd_id ` set (xs @ ys) \<subseteq> entropy s ` {drawn s..<drawn u}" by auto
  with c e show "draws s u" unfolding draws_def by auto
next
  show "cmd_id r = entropy s (drawn s) \<Longrightarrow>
      draws s (s\<lparr>drawn := Suc (drawn s), commands := commands s @ [r]\<rparr>)" for s r
    by (auto simp: draws_def)
qed (simp_all add: draws_same draws_def)

definition receipts_drawn :: "store \<Rightarrow> bool" where
  "receipts_drawn s \<longleftrightarrow> cmd_id ` set (commands s) \<subseteq> entropy s ` {..<drawn s}"

lemma receipts_drawn_keeps:
  assumes "receipts_drawn s" and "draws s t"
  shows "receipts_drawn t"
proof -
  from assms(2) obtain new where t: "entropy t = entropy s" "drawn s \<le> drawn t" "commands t = commands s @ new"
    and new: "cmd_id ` set new \<subseteq> entropy s ` {drawn s..<drawn t}" by (auto simp: draws_def)
  have "entropy s ` {..<drawn s} \<union> entropy s ` {drawn s..<drawn t} \<subseteq> entropy s ` {..<drawn t}"
    using t(2) by auto
  with assms(1) new t show ?thesis by (auto simp: receipts_drawn_def)
qed

lemma reaches_draws: "reaches c rt s t \<Longrightarrow> draws s t"
  by (induction rule: reaches.induct) (auto intro: drw.refl drw.trans drw.serve_related)

lemma reachable_drawn: "reachable c rt s \<Longrightarrow> receipts_drawn s"
proof (induction rule: reachable_induct)
  case (serve s n cp key cl)
  then show ?case by (blast intro: receipts_drawn_keeps drw.serve_related)
qed (simp add: receipts_drawn_def initial_def)

text \<open>
  The identities of \<^verbatim>\<open>uuid4\<close> are assumed not to repeat: the first \<open>k\<close> draws are distinct and none of
  them is drawn again.
\<close>

definition unrepeated :: "(nat \<Rightarrow> uuid) \<Rightarrow> nat \<Rightarrow> bool" where
  "unrepeated e k \<longleftrightarrow> inj_on e {..<k} \<and> (\<forall>m < k. \<forall>n \<ge> k. e m \<noteq> e n)"

lemma later_draws:
  assumes "receipts_drawn s" and "inj_on (entropy s) {..<k}" and "r \<in> set (commands s)"
    and "drawn s \<le> n" and "n < k"
  shows "cmd_id r \<noteq> entropy s n"
proof
  assume n: "cmd_id r = entropy s n"
  from assms(1,3) obtain m where "m < drawn s" "cmd_id r = entropy s m" by (auto simp: receipts_drawn_def)
  with n assms(2,4,5) have "m = n" by (intro inj_onD [OF assms(2)]) auto
  with \<open>m < drawn s\<close> assms(4) show False by simp
qed

lemma receipt_kept: "receipt_of s cp operation key r \<Longrightarrow> draws s t \<Longrightarrow> receipt_of t cp operation key r"
  by (auto simp: receipt_of_def draws_def)

section \<open>A success leaves a receipt\<close>

definition recorded ::
  "pystr \<Rightarrow> command_operation \<Rightarrow> pystr \<Rightarrow> 'a db \<Rightarrow> (error + pystr) \<Rightarrow> store \<Rightarrow> bool" where
  "recorded cp operation key m h s \<longleftrightarrow> (receipts_drawn s \<longrightarrow>
     (\<forall>x t. m s = (Inr x, t) \<and> inj_on (entropy s) {..<drawn t} \<longrightarrow>
        (\<exists>r. receipt_of t cp operation key r \<and> h = Inr (the (cmd_request_sha256 r)))))"

lemma recorded_executar:
  assumes k: "keeps draws efeito"
  shows "recorded cp operation key (executar_uma_vez cp operation key outcome req efeito) (Inr req) s"
  unfolding recorded_def
proof (intro impI allI)
  fix x s'
  assume s: "receipts_drawn s"
    and "executar_uma_vez cp operation key outcome req efeito s = (Inr x, s') \<and> inj_on (entropy s) {..<drawn s'}"
  then have run: "executar_uma_vez cp operation key outcome req efeito s = (Inr x, s')"
    and inj: "inj_on (entropy s) {..<drawn s'}" by blast+
  obtain out saida where x: "x = (out, saida)" by (cases x)
  from executar_run [OF run [unfolded x]] consider
    (claimed) t y where "claims cp operation key req outcome s t" "efeito t = (Inr y, s')"
    | (replayed) r where "replays cp operation key req s r" "s' = s\<lparr>drawn := Suc (drawn s)\<rparr>" by blast
  then show "\<exists>r. receipt_of s' cp operation key r \<and> Inr req = Inr (the (cmd_request_sha256 r))"
  proof cases
    case claimed
    have "drawn t = Suc (drawn s)" using claimed(1) by (cases rule: claims_cases) simp_all
    with keepsD [OF k claimed(2)] have "drawn s < drawn s'" by (simp add: draws_def)
    with later_draws [OF s inj] have f: "\<forall>r \<in> set (commands s). cmd_id r \<noteq> entropy s (drawn s)" by blast
    have "\<exists>r. receipt_of t cp operation key r \<and> cmd_request_sha256 r = Some req"
      using claimed(1) f unfolding claims_def Let_def receipt_of_def by auto
    with receipt_kept [OF _ keepsD [OF k claimed(2)]] show ?thesis by fastforce
  next
    case replayed
    then show ?thesis by (auto simp: replays_def receipt_of_def intro!: exI [of _ r])
  qed
qed

lemma recorded_draw:
  assumes "\<And>i. recorded cp operation key (f i) h (s\<lparr>drawn := Suc (drawn s)\<rparr>)"
  shows "recorded cp operation key (bnd draw_uuid f) h s"
  using assms [of "entropy s (drawn s)"] receipts_drawn_keeps [OF _ drw.draw]
  by (simp add: recorded_def bnd_def draw_uuid_def)

lemma recorded_hash:
  assumes "\<And>z. x = Inr z \<Longrightarrow> recorded cp operation key (f z) (g z) s"
  shows "recorded cp operation key (bnd (lift_sum x) f) (andthen x g) s"
  using assms by (cases x) (auto simp: recorded_def bnd_def lift_sum_def ret_def raise_def)

lemma recorded_request:
  assumes "\<And>z. x = Inr z \<Longrightarrow> recorded cp operation key (f z) (Inr z) s"
  shows "recorded cp operation key (bnd (lift_sum x) f) x s"
  using assms by (cases x) (auto simp: recorded_def bnd_def lift_sum_def ret_def raise_def)

lemma recorded_bnd:
  assumes "recorded cp operation key m h s" and "\<And>x. keeps draws (f x)"
  shows "recorded cp operation key (bnd m f) h s"
  unfolding recorded_def
proof (intro impI allI)
  fix y t
  assume s: "receipts_drawn s" and y: "bnd m f s = (Inr y, t) \<and> inj_on (entropy s) {..<drawn t}"
  then obtain x u where m: "m s = (Inr x, u)" and f: "f x u = (Inr y, t)" by (auto simp: bnd_eq_Inr)
  from keepsD [OF assms(2) f] have "drawn u \<le> drawn t" by (simp add: draws_def)
  with y have "inj_on (entropy s) {..<drawn u}" by (auto elim: inj_on_subset)
  with m assms(1) s obtain r where "receipt_of u cp operation key r" "h = Inr (the (cmd_request_sha256 r))"
    by (auto simp: recorded_def)
  with receipt_kept [OF _ keepsD [OF assms(2) f]]
  show "\<exists>r. receipt_of t cp operation key r \<and> h = Inr (the (cmd_request_sha256 r))" by blast
qed

lemma recorded_raise: "recorded cp operation key (raise e) h s"
  by (simp add: recorded_def raise_def)

lemma recorded_committed:
  "recorded cp operation key m h s \<Longrightarrow> recorded cp operation key (committed m) h s"
  by (cases "m s"; cases "fst (m s)") (auto simp: recorded_def committed_def split: if_splits)

lemmas recorded_once_rules = recorded_draw recorded_hash recorded_request recorded_executar

lemma recorded_once:
  "cl = CallCreate draft mode \<Longrightarrow>
   recorded cp (operation_of cl) key (create_schedule_once cp key draft mode) (fingerprint cp cl) s"
  "cl = CallExport sid pid \<Longrightarrow>
   recorded cp (operation_of cl) key (export_handoff_once c cp key sid pid cp) (fingerprint cp cl) s"
  "cl = CallImport sid pid aid raw d \<Longrightarrow>
   recorded cp (operation_of cl) key (import_return_once rt cp key sid pid aid raw d) (fingerprint cp cl) s"
  "cl = CallGrant sid pid until \<Longrightarrow>
   recorded cp (operation_of cl) key (grant_delegation_once cp key sid pid until) (fingerprint cp cl) s"
  "cl = CallRevoke sid pid did \<Longrightarrow>
   recorded cp (operation_of cl) key (revoke_delegation_once cp key sid pid did) (fingerprint cp cl) s"
  "cl = CallControl sid action category \<Longrightarrow>
   recorded cp (operation_of cl) key (control_schedule_once cp key sid action category) (fingerprint cp cl) s"
  "cl = CallOpinion sid aid k codes auditor \<Longrightarrow>
   recorded cp (operation_of cl) key (issue_audit_opinion_once cp key sid aid k codes auditor)
     (fingerprint cp cl) s"
  unfolding create_schedule_once_def export_handoff_once_def import_return_once_def grant_delegation_once_def
    revoke_delegation_once_def control_schedule_once_def issue_audit_opinion_once_def
  by (simp only: operation_of.simps fingerprint.simps,
      (rule recorded_draw recorded_hash recorded_request | rule recorded_executar, rule keeps_intros)+)+

lemma recorded_handlers:
  "cl = CallCreate draft mode \<Longrightarrow>
   recorded cp (operation_of cl) key (criar_schedule cp key draft mode) (fingerprint cp cl) s"
  "cl = CallImport sid pid aid raw d \<Longrightarrow>
   recorded cp (operation_of cl) key (importar_retorno rt cp key sid pid aid raw d) (fingerprint cp cl) s"
  "cl = CallGrant sid pid until \<Longrightarrow>
   recorded cp (operation_of cl) key (conceder_delegacao cp key sid pid until) (fingerprint cp cl) s"
  "cl = CallRevoke sid pid did \<Longrightarrow>
   recorded cp (operation_of cl) key (revogar_delegacao cp key sid pid did) (fingerprint cp cl) s"
  "cl = CallControl sid action category \<Longrightarrow>
   recorded cp (operation_of cl) key (registrar_controle cp key sid action category) (fingerprint cp cl) s"
  "cl = CallOpinion sid aid k codes auditor \<Longrightarrow>
   recorded cp (operation_of cl) key (registrar_parecer cp key sid aid k codes auditor) (fingerprint cp cl) s"
  subgoal
    unfolding criar_schedule_def
    by (auto simp del: operation_of.simps fingerprint.simps
        intro!: recorded_raise recorded_committed recorded_bnd recorded_once(1) keeps_intros)
  unfolding importar_retorno_def conceder_delegacao_def revogar_delegacao_def registrar_controle_def
    registrar_parecer_def
  by (rule recorded_committed, rule recorded_bnd, erule recorded_once, intro keeps_intros)+

lemma recorded_cleared:
  assumes "recorded cp operation key m h (s\<lparr>emitted := []\<rparr>)"
  shows "recorded cp operation key (bnd (modify (\<lambda>s. s\<lparr>emitted := []\<rparr>)) (\<lambda>_. m)) h s"
proof -
  have "bnd (modify (\<lambda>s. s\<lparr>emitted := []\<rparr>)) (\<lambda>_. m) s = m (s\<lparr>emitted := []\<rparr>)"
    by (simp add: bnd_def modify_def)
  with assms show ?thesis by (simp add: recorded_def receipts_drawn_def)
qed

lemma recorded_export:
  assumes cl: "cl = CallExport sid pid"
  shows "recorded cp (operation_of cl) key (exportar_handoff c cp key sid pid) (fingerprint cp cl) s"
  unfolding recorded_def
proof (intro impI allI)
  fix x t
  assume s: "receipts_drawn s"
    and "exportar_handoff c cp key sid pid s = (Inr x, t) \<and> inj_on (entropy s) {..<drawn t}"
  then have x: "exportar_handoff c cp key sid pid s = (Inr x, t)" and inj: "inj_on (entropy s) {..<drawn t}"
    by blast+
  obtain q u where 1: "export_phase_one c cp key sid pid s = (q, u)"
    by (cases "export_phase_one c cp key sid pid s")
  obtain z v where 2: "export_phase_two c cp key sid pid u = (z, v)"
    by (cases "export_phase_two c cp key sid pid u")
  have "register_block c cp sid pid b u \<noteq> (Inr (y :: export_response), w)" for b y w
    by (auto simp: register_block_def bnd_eq_Inr raise_eq_iff)
  with 1 2 x have "z = Inr x \<and> v = t"
    by (auto simp: exportar_handoff_def split: sum.split_asm option.split_asm prod.split_asm error.split_asm
        if_split_asm)
  moreover from keepsD [OF drw.keeps_export_phases(1) 1] s inj have "receipts_drawn u \<and> inj_on (entropy u) {..<drawn t}"
    using receipts_drawn_keeps by (auto simp: draws_def)
  moreover have "recorded cp (operation_of cl) key (export_phase_two c cp key sid pid) (fingerprint cp cl) u"
    unfolding export_phase_two_def
    by (rule recorded_cleared, rule recorded_bnd [OF recorded_once(2) [OF cl]]) (intro keeps_intros)
  ultimately show "\<exists>r. receipt_of t cp (operation_of cl) key r \<and> fingerprint cp cl = Inr (the (cmd_request_sha256 r))"
    using 2 unfolding recorded_def by blast
qed

lemma recorded_handle: "recorded cp (operation_of cl) key (handle c rt cp key cl) (fingerprint cp cl) s"
proof -
  have d: "recorded cp p key m h s \<Longrightarrow> recorded cp p key (discard m) h s" for m :: "'a db" and h p
    unfolding discard_def by (erule recorded_bnd) (intro keeps_intros)
  show ?thesis
    using recorded_handlers [of cl] recorded_export [of cl]
    by (cases cl) (auto simp del: fingerprint.simps operation_of.simps intro!: d)
qed

section \<open>At most once\<close>

text \<open>
  After a success, in every database that later requests can reach: no request of the same
  operation under the same key moves a row, and one that asks for something else fails.
\<close>

lemma request_entry:
  "receipts_drawn s \<Longrightarrow> receipts_drawn (s\<lparr>now := t, emitted := [], next_object := 0\<rparr>)"
  by (simp add: receipts_drawn_def)

lemma success_spent:
  assumes s: "reachable c rt s" and cl: "valid_call cl"
    and ok: "fst (request n (handle c rt cp key cl) s) = Inr ()"
    and u: "reaches c rt (serve c rt n cp key cl s) u" and e: "unrepeated (entropy s) (drawn u)"
  shows "\<exists>r. spent u cp (operation_of cl) key r \<and> fingerprint cp cl = Inr (the (cmd_request_sha256 r))"
proof -
  let ?t = "serve c rt n cp key cl s"
  have st: "draws ?t u" by (rule reaches_draws [OF u])
  have ent: "entropy ?t = entropy s" using drw.serve_related [of s c rt n cp key cl] by (simp add: draws_def)
  have inj: "inj_on (entropy s) {..<drawn ?t}"
    using e st by (auto simp: unrepeated_def draws_def elim: inj_on_subset)
  have "handle c rt cp key cl (s\<lparr>now := n, emitted := [], next_object := 0\<rparr>) = (Inr (), ?t)"
    using ok by (simp add: request_def serve_def prod_eq_iff)
  with recorded_handle [of cp cl key c rt "s\<lparr>now := n, emitted := [], next_object := 0\<rparr>"] inj
  obtain r where r: "receipt_of ?t cp (operation_of cl) key r" "fingerprint cp cl = Inr (the (cmd_request_sha256 r))"
    using request_entry [OF reachable_drawn [OF s]] by (auto simp: recorded_def)
  have t: "reachable c rt ?t" using s cl by (auto simp: reachable_def intro: reaches.serve)
  with u have ru: "reachable c rt u" by (auto simp: reachable_def intro: reaches_trans)
  from receipt_kept [OF r(1) st] have "receipt_of u cp (operation_of cl) key r" .
  moreover from this have "\<forall>n \<ge> drawn u. cmd_id r \<noteq> entropy u n"
    using reachable_drawn [OF ru] e st ent
    by (auto simp: receipt_of_def receipts_drawn_def unrepeated_def draws_def)
  ultimately show ?thesis using reachable_wf [OF ru] r(2) by (auto simp: spent_def)
qed

end
