(* ===== verification/Storable.thy ===== *)
theory Storable
  imports Idempotency
begin

text \<open>
  Text that survives the boundary: what can be encoded in UTF-8 and stored in a column, the JSON
  that is built from it, and the drafts whose rows the schema accepts.
\<close>

section \<open>Encodable text\<close>

definition encodable :: "pystr \<Rightarrow> bool" where
  "encodable s \<longleftrightarrow> utf8 s \<noteq> None"

lemma encodable_append [simp]: "encodable (s @ t) \<longleftrightarrow> encodable s \<and> encodable t"
  by (auto simp: encodable_def utf8_append split: option.split)

lemma encodable_Nil [simp]: "encodable []"
  by (simp add: encodable_def)

lemma encodable_Cons [simp]: "encodable (c # s) \<longleftrightarrow> utf8_char c \<noteq> None \<and> encodable s"
  by (auto simp: encodable_def split: option.split)

lemma utf8_ascii [simp]: "c < 128 \<Longrightarrow> utf8_char c \<noteq> None"
  by (simp add: utf8_char_def)

lemma encodable_ascii: "(\<And>c. c \<in> set s \<Longrightarrow> c < 128) \<Longrightarrow> encodable s"
  by (induction s) simp_all

lemma encodable_concat: "encodable (concat xs) \<longleftrightarrow> list_all encodable xs"
  by (induction xs) simp_all

lemma encodable_set: "encodable s \<Longrightarrow> c \<in> set s \<Longrightarrow> utf8_char c \<noteq> None"
  by (induction s) auto

lemma lower_hex_ascii: "is_lower_hex c \<Longrightarrow> c < 128"
  by (auto simp: is_lower_hex_def)

lemma encodable_fixed_hex [simp]: "encodable (fixed_hex k n)"
  by (rule encodable_ascii) (auto dest: fixed_hex_lower lower_hex_ascii)

lemma encodable_str_uuid [simp]: "encodable (str_uuid u)"
proof (rule encodable_ascii)
  fix c assume "c \<in> set (str_uuid u)"
  then have "c = 45 \<or> c \<in> set (fixed_hex 32 (unat (uuid_word u)))"
    by (auto simp: str_uuid_def Let_def dest: in_set_takeD in_set_dropD)
  then show "c < 128" by (auto dest: fixed_hex_lower lower_hex_ascii)
qed

lemma dec_nat_ascii: "c \<in> set (dec_nat n) \<Longrightarrow> c < 128"
proof (induction n rule: dec_nat.induct)
  case (1 n)
  then show ?case by (cases "n < 10") (auto simp: dec_nat.simps [of n])
qed

lemma encodable_str_int [simp]: "encodable (str_int i)"
  by (rule encodable_ascii) (auto simp: str_int_def dest: dec_nat_ascii split: if_splits)

lemma encodable_pys: "list_all (\<lambda>c. of_char c < (128::nat)) s \<Longrightarrow> encodable (pys s)"
  by (rule encodable_ascii) (auto simp: pys_def list_all_iff)

lemma encodable_dump_str: "encodable s \<Longrightarrow> encodable (dump_str s)"
proof -
  assume s: "encodable s"
  have "encodable (json_escape c)" if "c \<in> set s" for c
    using encodable_set [OF s that] by (simp add: json_escape_def)
  then show ?thesis by (simp add: dump_str_def encodable_concat list_all_iff)
qed

lemma encodable_join: "list_all encodable xs \<Longrightarrow> encodable sep \<Longrightarrow> encodable (join_with sep xs)"
  by (induction sep xs rule: join_with.induct) simp_all

fun encodable_json :: "json \<Rightarrow> bool" where
  "encodable_json (JStr s) = encodable s"
| "encodable_json (JFloat r) = encodable (dump_float r)"
| "encodable_json (JList vs) = list_all encodable_json vs"
| "encodable_json (JObj kvs) = list_all (\<lambda>kv. encodable (fst kv) \<and> encodable_json (snd kv)) kvs"
| "encodable_json _ = True"

lemma encodable_dumps: "encodable_json v \<Longrightarrow> encodable (dumps v)"
proof (induction v rule: dumps.induct)
  case (7 kvs)
  have "list_all encodable (map (\<lambda>kv. dump_str (fst kv) @ 58 # dumps (snd kv)) (sort_key fst kvs))"
    using "7.prems" "7.IH" by (auto simp: list_all_iff encodable_dump_str)
  then show ?case by (simp add: encodable_join)
qed (auto simp: encodable_dump_str encodable_pys list_all_iff intro!: encodable_join)

text \<open>Conversely, what is not encodable stays so.\<close>

lemma encodable_iff_set: "encodable s \<longleftrightarrow> (\<forall>c \<in> set s. utf8_char c \<noteq> None)"
  by (induction s) simp_all

lemma encodable_dump_str_iff [simp]: "encodable (dump_str s) \<longleftrightarrow> encodable s"
proof
  assume d: "encodable (dump_str s)"
  have "utf8_char c \<noteq> None" if c: "c \<in> set s" for c
  proof (cases "json_escape c = [c]")
    case True
    with d c show ?thesis by (auto simp: dump_str_def encodable_concat list_all_iff)
  next
    case False
    then have "c < 128" by (auto simp: json_escape_def split: if_splits)
    then show ?thesis by simp
  qed
  then show "encodable s" by (simp add: encodable_iff_set)
qed (rule encodable_dump_str)

lemma encodable_join_iff: "encodable sep \<Longrightarrow> encodable (join_with sep xs) \<longleftrightarrow> list_all encodable xs"
  by (induction sep xs rule: join_with.induct) auto

lemma unencodable_field: "(k, v) \<in> set kvs \<Longrightarrow> \<not> encodable (dumps v) \<Longrightarrow> \<not> encodable (dumps (JObj kvs))"
  by (force simp: encodable_join_iff list_all_iff)

text \<open>Hashing succeeds on encodable text.\<close>

lemma sha256_encodable: "encodable s \<Longrightarrow> \<exists>h. sha256_text s = Inr h \<and> sql_hex64 h \<and> encodable h"
proof -
  assume "encodable s"
  then obtain bs where "utf8 s = Some bs" by (auto simp: encodable_def)
  moreover have "encodable (sha256_hex bs)"
    by (rule encodable_ascii) (auto dest: sha256_hex_lower lower_hex_ascii)
  ultimately show ?thesis by (auto simp: sha256_text_def)
qed

section \<open>Constraints the schema accepts\<close>

text \<open>The gate keys a canonical list of pairs may carry are the ones the schema accepts.\<close>

lemma canonical_gate_marker:
  assumes "canonical_pairs cs"
  shows "gate_marker_is_canonical cs"
proof -
  let ?res = "filter (\<lambda>k. starts_with k GATE_RESERVED_PREFIX) (map fst cs)"
  have d: "distinct (map fst cs)" and v: "validate_gate_keys cs = Inr ()"
    using assms by (simp_all add: canonical_pairs_def)
  have sub: "set ?res \<subseteq> GATE_RESERVED_KEYS"
    using v by (auto simp: validate_gate_keys_def Let_def split: if_splits)
  show ?thesis
  proof (cases "set ?res = {}")
    case True
    with sub show ?thesis by (simp add: gate_marker_is_canonical_def)
  next
    case False
    with v sub have eq: "set ?res = GATE_RESERVED_KEYS" and
      m: "andthen (lookup_key (dict_of cs) GATE_KEY_REQUIRED) (\<lambda>r.
            andthen (lookup_key (dict_of cs) GATE_KEY_SCOPE) (\<lambda>s.
            andthen (make_gate_requirement r s) (\<lambda>_. Inr ()))) = Inr ()"
      by (auto simp: validate_gate_keys_def Let_def split: if_splits)
    have "length ?res = card (set ?res)"
      using d by (intro distinct_card [symmetric]) simp
    also have "\<dots> = 2" unfolding eq by (simp add: gate_defs)
    finally have "length ?res = 2" .
    with m eq show ?thesis
      by (auto simp: gate_marker_is_canonical_def Let_def run_iffs dict_of_distinct [OF d]
          GATE_SCOPE_VALUES_def)
  qed
qed

section \<open>Drafts the schema accepts\<close>

definition storable_text :: "nat \<Rightarrow> pystr \<Rightarrow> bool" where
  "storable_text n s \<longleftrightarrow> text_col n s = None \<and> \<not> blank s"

definition storable_ref :: "context_ref \<Rightarrow> bool" where
  "storable_ref r \<longleftrightarrow> valid_ref r \<and> ref_col r = None \<and> sql_hex64 (sha256 r)"

definition storable_step :: "step_draft \<Rightarrow> bool" where
  "storable_step d \<longleftrightarrow>
     storable_text MAX_ROLE_LENGTH (draft_role d) \<and> storable_text MAX_REF_LENGTH (draft_instruction_ref d) \<and>
     draft_expected_output_contract d \<in> SUPPORTED_OUTPUT_CONTRACTS \<and>
     list_all storable_ref (draft_context_refs d) \<and>
     canonical_pairs (draft_constraints d) \<and> list_all (\<lambda>kv. pair_col kv = None) (draft_constraints d)"

definition storable_draft :: "schedule_draft \<Rightarrow> bool" where
  "storable_draft d \<longleftrightarrow> storable_text MAX_TITLE_LENGTH (draft_title d) \<and> draft_steps d \<noteq> [] \<and>
     length (draft_steps d) \<le> 2147483647 \<and> list_all storable_step (draft_steps d)"

lemmas storable_defs = storable_text_def storable_ref_def storable_step_def storable_draft_def

lemma storable_textD:
  "storable_text n s \<Longrightarrow> encodable s \<and> 0 \<notin> set s \<and> length s \<le> n \<and> \<not> blank s \<and> sql_not_blank s \<and>
     text_col n s = None"
  using not_blank_sql_not_blank by (auto simp: storable_text_def encodable_def)

lemma supported_contract:
  assumes "c \<in> SUPPORTED_OUTPUT_CONTRACTS"
  shows "storable_text MAX_REF_LENGTH c"
proof -
  have "encodable c" using assms by (auto simp: contract_defs encodable_pys)
  with assms show ?thesis
    by (auto simp: storable_text_def encodable_def contract_defs blank_iff is_space_def max_length_defs)
qed

lemma storable_valid: "storable_draft d \<Longrightarrow> valid_draft d"
proof -
  have "storable_step e \<Longrightarrow> valid_step_draft e" for e
    using supported_contract [of "draft_expected_output_contract e"]
    by (auto simp: storable_step_def valid_step_draft_def valid_text_def storable_ref_def list_all_iff
        dest: storable_textD)
  then show "storable_draft d \<Longrightarrow> valid_draft d"
    by (auto simp: storable_draft_def valid_draft_def valid_text_def list_all_iff dest: storable_textD)
qed

lemma storable_step_row:
  assumes "storable_step d" and "1 \<le> n" and "n \<le> 2147483647"
  shows "step_row_ok (row_of_draft pid sid n d (draft_constraints d)) = None"
proof -
  have refs: "ref_col r = None" "sql_not_blank (uri r)" "sql_hex64 (sha256 r)" "0 \<le> bytes_field r"
    if "r \<in> set (draft_context_refs d)" for r
    using assms(1) that not_blank_sql_not_blank
    by (auto simp: storable_step_def storable_ref_def valid_ref_def valid_text_def list_all_iff)
  have c: "storable_text MAX_REF_LENGTH (draft_expected_output_contract d)"
    using assms(1) by (simp add: storable_step_def supported_contract)
  have t: "storable_text MAX_ROLE_LENGTH (draft_role d)" "storable_text MAX_REF_LENGTH (draft_instruction_ref d)"
    using assms(1) by (simp_all add: storable_step_def)
  have g: "gate_marker_is_canonical (draft_constraints d)"
    using assms(1) by (simp add: storable_step_def canonical_gate_marker)
  have "context_refs_are_canonical (draft_context_refs d)"
    using refs by (simp add: context_refs_are_canonical_def list_all_iff)
  moreover have "\<forall>x \<in> set (map ref_col (draft_context_refs d)). x = None"
    "\<forall>x \<in> set (map pair_col (draft_constraints d)). x = None"
    using refs assms(1) by (auto simp: storable_step_def list_all_iff)
  ultimately show ?thesis
    using assms(2,3) g storable_textD [OF c] storable_textD [OF t(1)] storable_textD [OF t(2)]
    by (simp add: step_row_ok_def row_of_draft_def first_some_None del: text_col_None)
qed

section \<open>Payloads\<close>

lemma encodable_operation [simp]: "encodable (command_operation_value operation)"
  by (cases operation) (simp_all add: encodable_pys)

lemma encodable_mode [simp]: "encodable (handoff_mode_value mode)"
  by (cases mode) (simp_all add: encodable_pys)

lemma encodable_field [simp]:
  "encodable_json (snd (operation_field operation))" "encodable (fst (operation_field operation))"
  "encodable_json (snd (id_field name u))" "encodable (fst (id_field name u)) = encodable (pys name)"
  by (simp_all add: operation_field_def id_field_def encodable_pys)

lemma storable_ref_json: "storable_ref r \<Longrightarrow> encodable_json (as_content r)"
  by (simp add: storable_ref_def ref_col_def as_content_def encodable_pys first_some_None
      encodable_def [of "uri r"] encodable_def [of "sha256 r"])

lemma storable_constraints_json:
  "list_all (\<lambda>kv. pair_col kv = None) cs \<Longrightarrow> encodable_json (constraints_as_mapping cs)"
  by (auto simp: constraints_as_mapping_def pair_col_def list_all_iff first_some_None encodable_def)

lemma storable_draft_json: "storable_draft d \<Longrightarrow> encodable_json (create_payload d mode)"
proof -
  have "encodable_json (draft_payload e)" if "storable_step e" for e
    using that supported_contract [of "draft_expected_output_contract e"]
    by (auto simp: draft_payload_def storable_step_def storable_ref_json storable_constraints_json
        encodable_pys list_all_iff dest: storable_textD)
  then show "storable_draft d \<Longrightarrow> encodable_json (create_payload d mode)"
    by (auto simp: create_payload_def storable_draft_def encodable_pys list_all_iff dest: storable_textD)
qed

lemma fingerprint_encodable:
  "encodable_json v \<Longrightarrow> \<exists>h. impressao_digital v = Inr h \<and> sql_hex64 h \<and> encodable h"
  unfolding impressao_digital_def by (intro sha256_encodable encodable_dumps)

end
