(* ===== verification/Liveness.thy ===== *)
theory Liveness
  imports Storable
begin

text \<open>
  Requests that succeed. The weakest precondition of a computation is computed through its parts;
  from it, the conditions under which a creation, an export and an import return a value, and the
  rows they leave.
\<close>

section \<open>Weakest preconditions\<close>

definition wp :: "('s, 'e, 'a) comp \<Rightarrow> ('a \<Rightarrow> 's \<Rightarrow> bool) \<Rightarrow> 's \<Rightarrow> bool" where
  "wp m Q s \<longleftrightarrow> (\<exists>x t. m s = (Inr x, t) \<and> Q x t)"

named_theorems wp_simps

lemma wp_basic [wp_simps]:
  "wp (ret x) Q = Q x" "wp (gets f) Q s = Q (f s) s" "wp (modify g) Q' s = Q' () (g s)"
  "wp (require b e) Q' s = (b \<and> Q' () s)"
  by (auto simp: fun_eq_iff wp_def ret_def gets_def modify_def require_def raise_def)

lemma wp_lift_sum [wp_simps]: "wp (lift_sum r) Q s = (\<exists>x. r = Inr x \<and> Q x s)"
  by (simp add: wp_def lift_sum_def)

lemma wp_bnd [wp_simps]: "wp (bnd m f) Q = wp m (\<lambda>x. wp (f x) Q)"
  by (auto simp: fun_eq_iff wp_def bnd_eq_Inr)

lemma wp_run: "m s = (Inr x, t) \<Longrightarrow> wp m Q s = Q x t"
  by (simp add: wp_def)

lemma wp_draw [wp_simps]: "wp draw_uuid Q s = Q (entropy s (drawn s)) (s\<lparr>drawn := Suc (drawn s)\<rparr>)"
  by (simp add: wp_def draw_uuid_def)

lemma wp_insert_row [wp_simps]:
  "wp (insert_row chk upd r) Q s = (chk s r = None \<and> Q () (upd (\<lambda>t. t @ [r]) s))"
  by (auto simp: wp_def insert_row_def split: option.split)

lemma wp_require_some [wp_simps]: "wp (require_some e x) Q s = (\<exists>y. x = Some y \<and> Q y s)"
  by (cases x) (auto simp: require_some_def wp_def ret_def raise_def)

lemma wp_mono: "wp m Q s \<Longrightarrow> (\<And>x t. m s = (Inr x, t) \<Longrightarrow> Q x t \<Longrightarrow> Q' x t) \<Longrightarrow> wp m Q' s"
  by (auto simp: wp_def)

lemma wp_fst: "wp m Q s \<Longrightarrow> \<exists>x. fst (m s) = Inr x"
  by (auto simp: wp_def)

lemma wp_committed: "wp m (\<lambda>x t. deferred_ok t \<and> Q x t) s \<Longrightarrow> wp (committed m) Q s"
  by (auto simp: wp_def committed_def)

section \<open>Rows that are found\<close>

text \<open>The keys the reads of a request need to be unique.\<close>

definition keyed :: "store \<Rightarrow> bool" where
  "keyed s \<longleftrightarrow> distinct (map sch_id (schedules s)) \<and> distinct (map stp_id (steps s)) \<and>
     distinct (map att_id (attempts s)) \<and> distinct (map rcp_attempt_id (seals s)) \<and>
     distinct (map cmd_triple (commands s)) \<and> distinct (map res_attempt_id (results s)) \<and>
     distinct (map atr_attempt_id (attributions s)) \<and> unique_where manual_live con_principal (profiles s) \<and>
     distinct (map con_id (profiles s))"

lemma wf_keyed: "wf_store s \<Longrightarrow> keyed s"
  by (simp add: keyed_def wf_store_def wf_defs rows_ok_def)

lemma filter_key_row:
  assumes "distinct (map k t)" and "r \<in> set t" and "P r" and "\<And>r'. P r' \<Longrightarrow> k r' = k r"
  shows "filter P t = [r]"
proof (rule filter_Some_unique [where k = k])
  show "\<And>r'. r' \<in> set t \<Longrightarrow> P r' \<Longrightarrow> k r' = k r" by (rule assms(4))
qed (fact assms(1) assms(2) assms(3))+

lemma select_row:
  assumes "distinct (map k t)" and "q s = filter P t" and "r \<in> set t" and "P r"
    and "\<And>r'. P r' \<Longrightarrow> k r' = k r"
  shows "select_one q s = (Inr (Some r), s)"
proof -
  have "filter P t = [r]"
    by (rule filter_key_row [where k = k]) (fact assms(1) assms(3) assms(4) | rule assms(5))+
  with assms(2) show ?thesis by (simp add: select_one_def)
qed

lemma read_schedule:
  assumes "keyed s" and "schedule_of s cp sid a"
  shows "get_schedule cp sid s = (Inr (Some a), s)" "lock_schedule cp sid s = (Inr (Some a), s)"
  unfolding get_schedule_def lock_schedule_def using assms
  by (auto intro!: select_row [where k = sch_id] simp: keyed_def schedule_of_def)

lemma read_step:
  assumes "keyed s" and "owned s cp sid" and "step_of s sid pid p"
  shows "get_step cp sid pid s = (Inr (Some p), s)" "lock_step cp sid pid s = (Inr (Some p), s)"
    "require_step cp sid pid s = (Inr p, s)"
proof -
  show g: "get_step cp sid pid s = (Inr (Some p), s)"
    unfolding get_step_def using assms
    by (auto intro!: select_row [where k = stp_id] simp: keyed_def step_of_def)
  show "lock_step cp sid pid s = (Inr (Some p), s)"
    unfolding lock_step_def using assms
    by (auto intro!: select_row [where k = stp_id] simp: keyed_def step_of_def)
  show "require_step cp sid pid s = (Inr p, s)"
    using g by (simp add: require_step_def bnd_def require_some_def ret_def)
qed

lemma read_attempt:
  assumes "keyed s" and "owned s cp sid" and "attempt_of s sid aid a"
  shows "get_attempt cp sid aid s = (Inr (Some a), s)" "lock_attempt cp sid aid s = (Inr (Some a), s)"
    "require_attempt cp sid aid s = (Inr aid, s)"
proof -
  show "get_attempt cp sid aid s = (Inr (Some a), s)"
    unfolding get_attempt_def using assms
    by (auto intro!: select_row [where k = att_id] simp: keyed_def attempt_of_def)
  show "lock_attempt cp sid aid s = (Inr (Some a), s)"
    unfolding lock_attempt_def using assms
    by (auto intro!: select_row [where k = att_id] simp: keyed_def attempt_of_def)
  have "filter (\<lambda>b. att_id b = aid \<and> att_schedule_id b = sid \<and> owned s cp sid) (attempts s) = [a]"
    using assms by (intro filter_key_row [where k = att_id]) (auto simp: keyed_def attempt_of_def)
  with assms(3) show "require_attempt cp sid aid s = (Inr aid, s)"
    by (simp add: require_attempt_def attempt_under_scope_def select_one_def bnd_def require_some_def ret_def
        attempt_of_def)
qed

lemma read_view:
  assumes "keyed s" and "schedule_of s cp sid a"
  shows "wp (service_get_schedule cp sid) (\<lambda>_. Q) s = Q s"
  using read_schedule(1) [OF assms]
  by (simp add: service_get_schedule_def list_steps_def wp_def bnd_def require_some_def ret_def gets_def)

section \<open>Receipts that are claimed\<close>

definition storable_caller :: "pystr \<Rightarrow> pystr \<Rightarrow> bool" where
  "storable_caller cp key \<longleftrightarrow> storable_text MAX_REF_LENGTH cp \<and> storable_text MAX_COMMAND_KEY_LENGTH key"

definition unclaimed :: "store \<Rightarrow> pystr \<Rightarrow> command_operation \<Rightarrow> pystr \<Rightarrow> bool" where
  "unclaimed s cp operation key \<longleftrightarrow>
     (\<forall>r \<in> set (commands s). cmd_triple r \<noteq> (cp, command_operation_value operation, key))"

definition claimed :: "store \<Rightarrow> pystr \<Rightarrow> command_operation \<Rightarrow> pystr \<Rightarrow> pystr \<Rightarrow> uuid \<Rightarrow> command_receipt" where
  "claimed s cp operation key h target =
     \<lparr>cmd_id = entropy s (drawn s), cmd_principal = cp, cmd_operation = command_operation_value operation,
      cmd_key = key, cmd_request_sha256 = Some h, cmd_outcome_ref = str_uuid target\<rparr>"

lemma storable_text_iff: "storable_text n s \<longleftrightarrow> encodable s \<and> 0 \<notin> set s \<and> length s \<le> n \<and> \<not> blank s"
  by (auto simp: storable_text_def encodable_def)

lemma storable_operation: "storable_text MAX_OPERATION_LENGTH (command_operation_value operation)"
  unfolding storable_text_iff
  by (cases operation) (auto simp: MAX_OPERATION_LENGTH_def blank_iff is_space_def encodable_pys)

lemma set_str_uuid: "c \<in> set (str_uuid u) \<Longrightarrow> c = 45 \<or> is_lower_hex c"
  by (auto simp: str_uuid_def Let_def dest!: in_set_takeD in_set_dropD dest: fixed_hex_lower)

lemma storable_uuid: "storable_text MAX_REF_LENGTH (str_uuid u)"
proof -
  have l: "length (str_uuid u) = 36" by (simp add: str_uuid_def Let_def)
  have c: "c \<noteq> 0 \<and> \<not> is_space c" if "c \<in> set (str_uuid u)" for c
    using set_str_uuid [OF that] by (auto simp: is_lower_hex_def is_space_def)
  from l have "str_uuid u \<noteq> []" by auto
  with c l show ?thesis
    by (auto simp: storable_text_iff max_length_defs blank_iff neq_Nil_conv)
qed

lemma hex64_col: "sql_hex64 h \<Longrightarrow> length h = 64 \<and> text_col 64 h = None"
proof -
  assume h: "sql_hex64 h"
  then have "encodable h" by (auto simp: sql_hex64_def intro!: encodable_ascii lower_hex_ascii)
  with h show ?thesis by (auto simp: sql_hex64_def encodable_def is_lower_hex_def)
qed

lemma claimed_row_ok:
  assumes "storable_caller cp key" and "sql_hex64 h"
  shows "command_row_ok (claimed s cp operation key h target) = None"
  using assms storable_textD [OF storable_operation [of operation]] storable_textD [OF storable_uuid [of target]]
    hex64_col [OF assms(2)]
  by (auto simp: command_row_ok_def claimed_def first_some_None storable_caller_def
      simp del: text_col_None dest!: storable_textD)

lemma wp_executar_uma_vez:
  assumes c: "storable_caller cp key" and h: "sql_hex64 h" and u: "unclaimed s cp operation key"
    and f: "fresh cmd_id (entropy s (drawn s)) (commands s)"
  shows "wp (executar_uma_vez cp operation key (str_uuid target) h efeito) Q s \<longleftrightarrow>
    wp efeito (\<lambda>x. Q (\<lparr>out_receipt_id = entropy s (drawn s), out_technical_principal_ref = cp,
        out_operation = operation, out_command_key = key, out_outcome_ref = str_uuid target,
        out_replayed = False\<rparr>, Some x))
      (s\<lparr>drawn := Suc (drawn s), commands := commands s @ [claimed s cp operation key h target]\<rparr>)"
proof -
  have "filter (\<lambda>r. cmd_triple r = cmd_triple (claimed s cp operation key h target)) (commands s) = []"
    using u by (auto simp: unclaimed_def filter_empty_conv claimed_def cmd_triple_def)
  with f claimed_row_ok [OF c h]
  have "claim_command cp (command_operation_value operation) key (str_uuid target) (Some h) s =
      (Inr (claimed s cp operation key h target, True),
       s\<lparr>drawn := Suc (drawn s), commands := commands s @ [claimed s cp operation key h target]\<rparr>)"
    by (simp add: claim_command_def bnd_def draw_uuid_def claimed_def Let_def)
  then have run: "wp (claim_command cp (command_operation_value operation) key (str_uuid target) (Some h)) P s =
      P (claimed s cp operation key h target, True)
        (s\<lparr>drawn := Suc (drawn s), commands := commands s @ [claimed s cp operation key h target]\<rparr>)" for P
    by (simp add: wp_def)
  have "\<not> blank cp" "length cp \<le> MAX_REF_LENGTH" "\<not> blank key" "length key \<le> MAX_COMMAND_KEY_LENGTH"
    using c by (auto simp: storable_caller_def dest!: storable_textD)
  then show ?thesis
    by (simp add: executar_uma_vez_def wp_simps run) (simp add: claimed_def)
qed

section \<open>Creation\<close>

text \<open>The rows a creation adds: its draws are the schedule, the receipt and one step each.\<close>

definition new_steps :: "store \<Rightarrow> uuid \<Rightarrow> nat \<Rightarrow> step_draft list \<Rightarrow> schedule_step list" where
  "new_steps s sid i ds =
     map (\<lambda>(k, d). row_of_draft (entropy s (drawn s + k - i)) sid k d (draft_constraints d)) (List.enumerate i ds)"

lemma new_steps_Cons:
  "new_steps s sid i (d # ds) = row_of_draft (entropy s (drawn s)) sid i d (draft_constraints d) #
     new_steps (s\<lparr>drawn := Suc (drawn s), steps := t\<rparr>) sid (Suc i) ds"
  by (auto simp: new_steps_def in_set_enumerate_eq intro!: arg_cong2 [of _ _ _ _ "\<lambda>e k. row_of_draft (entropy s e) sid k"])

text \<open>Draws that are new: distinct, and no primary key yet.\<close>

definition new_draws :: "store \<Rightarrow> nat \<Rightarrow> bool" where
  "new_draws s n \<longleftrightarrow> inj_on (entropy s) {drawn s..<drawn s + n} \<and>
     (\<forall>i \<in> {drawn s..<drawn s + n}. let u = entropy s i in
        fresh sch_id u (schedules s) \<and> fresh cmd_id u (commands s) \<and> fresh stp_id u (steps s) \<and>
        fresh att_id u (attempts s) \<and> fresh rcp_id u (seals s) \<and> fresh con_id u (profiles s) \<and>
        fresh exe_id u (exec_receipts s) \<and> fresh res_id u (results s) \<and> fresh atr_id u (attributions s) \<and>
        fresh obs_id u (observations s) \<and> fresh evt_id u (events s) \<and>
        fresh dlg_id u (delegations s))"

lemma wp_create_steps:
  assumes "list_all storable_step ds" and "1 \<le> i" and "i + length ds \<le> 2147483648"
    and "inj_on (entropy s) {drawn s..<drawn s + length ds}"
    and "\<forall>k \<in> {drawn s..<drawn s + length ds}. fresh stp_id (entropy s k) (steps s)"
    and "\<forall>p \<in> set (steps s). stp_schedule_id p = sid \<longrightarrow> stp_position p < int i"
    and "\<exists>a \<in> set (schedules s). sch_id a = sid"
  shows "wp (for_each (create_step_row sid) (List.enumerate i ds)) Q s =
    Q () (s\<lparr>steps := steps s @ new_steps s sid i ds, drawn := drawn s + length ds\<rparr>)"
  using assms
proof (induction ds arbitrary: i s)
  case Nil
  then show ?case by (simp add: wp_simps new_steps_def)
next
  case (Cons d ds)
  define r where "r = row_of_draft (entropy s (drawn s)) sid i d (draft_constraints d)"
  define s1 where "s1 = s\<lparr>drawn := Suc (drawn s), steps := steps s @ [r]\<rparr>"
  have cs: "canonical_constraints (py_pairs (draft_constraints d)) = Inr (draft_constraints d)"
    using Cons.prems(1) by (simp add: storable_step_def)
  have "step_row_ok r = None"
    unfolding r_def by (rule storable_step_row) (use Cons.prems(1-3) in auto)
  then have ok: "check_step (s\<lparr>drawn := Suc (drawn s)\<rparr>) r = None"
    using Cons.prems(5-7) by (force simp: check_step_def first_some_None fresh_def exists_row_def r_def row_of_draft_def)
  have IH: "wp (for_each (create_step_row sid) (List.enumerate (Suc i) ds)) Q s1 =
    Q () (s1\<lparr>steps := steps s1 @ new_steps s1 sid (Suc i) ds, drawn := drawn s1 + length ds\<rparr>)"
  proof (rule Cons.IH)
    show "inj_on (entropy s1) {drawn s1..<drawn s1 + length ds}"
      using Cons.prems(4) by (auto simp: s1_def intro: inj_on_subset)
    have "entropy s k \<noteq> entropy s (drawn s)" if "k \<in> {Suc (drawn s)..<Suc (drawn s) + length ds}" for k
      using inj_onD [OF Cons.prems(4), of k "drawn s"] that by auto
    with Cons.prems(5) show "\<forall>k \<in> {drawn s1..<drawn s1 + length ds}. fresh stp_id (entropy s1 k) (steps s1)"
      by (fastforce simp: s1_def fresh_def r_def row_of_draft_def)
    show "\<forall>p \<in> set (steps s1). stp_schedule_id p = sid \<longrightarrow> stp_position p < int (Suc i)"
      using Cons.prems(6) by (auto simp: s1_def r_def row_of_draft_def)
  qed (use Cons.prems in \<open>auto simp: s1_def\<close>)
  have "wp (create_step_row sid (i, d)) P s = P () s1" for P
    using cs ok by (simp add: create_step_row_def wp_simps table_updates s1_def r_def row_of_draft_def)
  with IH show ?case
    by (simp add: wp_simps new_steps_Cons [where t = "steps s @ [r]"] r_def [symmetric] s1_def)
qed

text \<open>The database a creation leaves.\<close>

definition creation :: "store \<Rightarrow> pystr \<Rightarrow> pystr \<Rightarrow> schedule_draft \<Rightarrow> handoff_mode \<Rightarrow> pystr \<Rightarrow> store" where
  "creation s cp key draft mode h =
     s\<lparr>schedules := schedules s @ [\<lparr>sch_id = entropy s (drawn s), sch_title = draft_title draft,
         sch_state = ACTIVE, sch_mode = mode, sch_owner = cp\<rparr>],
       steps := steps s @ new_steps (s\<lparr>drawn := drawn s + 2\<rparr>) (entropy s (drawn s)) 1 (draft_steps draft),
       commands := commands s @
         [claimed (s\<lparr>drawn := Suc (drawn s)\<rparr>) cp CREATE_SCHEDULE key h (entropy s (drawn s))],
       drawn := drawn s + 2 + length (draft_steps draft)\<rparr>"

lemma wp_create_schedule:
  assumes "storable_draft draft" and "mode \<in> EXECUTABLE_HANDOFF_MODES" and "storable_text MAX_REF_LENGTH cp"
    and k: "wf_store s" and "fresh sch_id sid (schedules s)"
    and "inj_on (entropy s) {drawn s..<drawn s + length (draft_steps draft)}"
    and "\<forall>k \<in> {drawn s..<drawn s + length (draft_steps draft)}. fresh stp_id (entropy s k) (steps s)"
  shows "wp (create_schedule sid cp draft mode) (\<lambda>_. Q) s =
    Q (s\<lparr>schedules := schedules s @ [\<lparr>sch_id = sid, sch_title = draft_title draft,
           sch_state = DRAFT, sch_mode = mode, sch_owner = cp\<rparr>],
         steps := steps s @ new_steps s sid 1 (draft_steps draft),
         drawn := drawn s + length (draft_steps draft)\<rparr>)"
proof -
  define a where "a = \<lparr>sch_id = sid, sch_title = draft_title draft, sch_state = DRAFT, sch_mode = mode, sch_owner = cp\<rparr>"
  define s1 where "s1 = s\<lparr>schedules := schedules s @ [a]\<rparr>"
  define s2 where "s2 = s1\<lparr>steps := steps s1 @ new_steps s1 sid 1 (draft_steps draft),
     drawn := drawn s1 + length (draft_steps draft)\<rparr>"
  have row: "check_schedule s a = None"
    using assms(1,3,5) by (auto simp: check_schedule_def schedule_row_ok_def first_some_None a_def storable_draft_def
        simp del: text_col_None dest!: storable_textD)
  have none: "stp_schedule_id p \<noteq> sid" if "p \<in> set (steps s)" for p
    using wf_step_schedule [OF k that] assms(5) by (auto simp: fresh_def)
  have rows: "wp (for_each (create_step_row sid) (List.enumerate 1 (draft_steps draft))) P s1 = P () s2" for P
    unfolding s2_def by (rule wp_create_steps)
      (use assms none in \<open>auto simp: storable_draft_def s1_def a_def\<close>)
  have "keyed s" using k by (rule wf_keyed)
  then have "distinct (map sch_id (schedules s2))"
    using assms(5) by (auto simp: keyed_def s2_def s1_def a_def fresh_def)
  then have "filter (\<lambda>b. sch_id b = sid \<and> sch_owner b = cp) (schedules s2) = [a]"
    by (rule filter_key_row) (auto simp: s2_def s1_def a_def)
  then have view: "wp (service_get_schedule cp sid) (\<lambda>_. Q) s2 = Q s2"
    by (simp add: service_get_schedule_def get_schedule_def select_one_def list_steps_def wp_def bnd_def
        require_some_def ret_def gets_def)
  have "\<not> blank cp" using assms(3) by (simp add: storable_text_iff)
  with assms(2) row show ?thesis
    by (simp add: create_schedule_def create_schedule_rows_def Let_def wp_simps a_def [symmetric] table_updates
        s1_def [symmetric] rows [unfolded One_nat_def] view) (simp add: s2_def s1_def new_steps_def)
qed

lemma deferred_untouched:
  "attempts s' = attempts s \<Longrightarrow> delegations s' = delegations s \<Longrightarrow> exec_receipts s' = exec_receipts s \<Longrightarrow>
   deferred_ok s' = deferred_ok s"
  by (simp add: deferred_ok_def attempt_within_def)

lemma wp_activate:
  assumes "keyed s" and "schedule_of s cp sid a" and "sch_state a = DRAFT"
  shows "wp (activate cp sid) (\<lambda>_. Q) s = Q (with_schedule_state sid ACTIVE s)"
proof -
  have l: "wp (lock_schedule cp sid) P s = P (Some a) s" for P
    using read_schedule(2) [OF assms(1,2)] by (simp add: wp_def)
  have sid: "sch_id a = sid" using assms(2) by (simp add: schedule_of_def)
  have "keyed (with_schedule_state sid ACTIVE s)"
    using assms(1) by (simp add: keyed_def with_schedule_state_def map_upd_where)
  moreover have "schedule_of (with_schedule_state sid ACTIVE s) cp sid (a\<lparr>sch_state := ACTIVE\<rparr>)"
    using assms(2) by (auto simp: schedule_of_def with_schedule_state_def set_upd_where)
  ultimately have v: "wp (service_get_schedule cp sid) (\<lambda>_. Q) (with_schedule_state sid ACTIVE s) =
      Q (with_schedule_state sid ACTIVE s)"
    by (rule read_view)
  have t: "(DRAFT, ACTIVE) \<in> E7_1_IMPLEMENTED_SCHEDULE_TRANSITIONS"
    by (simp add: E7_1_IMPLEMENTED_SCHEDULE_TRANSITIONS_def)
  show ?thesis
    using assms(3) t sid
    by (simp add: activate_def set_schedule_state_def require_schedule_def wp_simps l
        with_schedule_state_def [symmetric] table_updates v)
qed

lemma wp_wf:
  assumes "wp m (\<lambda>_ u. u = t) s" and "keeps (\<lambda>s t. wf_store s \<longrightarrow> wf_store t) m" and "wf_store s"
  shows "wf_store t"
  using assms wfD [OF assms(2)] by (auto simp: wp_def)

lemma wf_claimed:
  assumes "wf_store s" and "storable_caller cp key" and "sql_hex64 h" and "unclaimed s cp operation key"
    and "fresh cmd_id (entropy s (drawn s)) (commands s)"
  shows "wf_store (s\<lparr>drawn := n, commands := commands s @ [claimed s cp operation key h target]\<rparr>)"
  using assms claimed_row_ok [OF assms(2,3), of s operation target]
  by (auto simp: wf_store_def wf_commands_def rows_ok_snoc distinct_snoc_fresh fresh_def unclaimed_def
      cmd_triple_def [of "claimed _ _ _ _ _ _"]) (auto simp: claimed_def)

lemma creation_runs:
  assumes wf: "wf_store s" and d: "deferred_ok s" and draft: "storable_draft draft"
    and mode: "mode \<in> EXECUTABLE_HANDOFF_MODES" and caller: "storable_caller cp key"
    and u: "unclaimed s cp CREATE_SCHEDULE key" and new: "new_draws s (2 + length (draft_steps draft))"
  shows "\<exists>h. impressao_digital (create_payload draft mode) = Inr h \<and>
    wp (criar_schedule cp key draft mode) (\<lambda>_ t. t = creation s cp key draft mode h) s"
proof -
  let ?i = "entropy s (drawn s)"
  from fingerprint_encodable [OF storable_draft_json [OF draft, of mode]] obtain h
    where h: "impressao_digital (create_payload draft mode) = Inr h" "sql_hex64 h" by blast
  have ids: "fresh sch_id ?i (schedules s)" "fresh cmd_id (entropy s (Suc (drawn s))) (commands s)"
    "\<forall>k \<in> {drawn s + 2..<drawn s + 2 + length (draft_steps draft)}. fresh stp_id (entropy s k) (steps s)"
    "inj_on (entropy s) {drawn s + 2..<drawn s + 2 + length (draft_steps draft)}"
    using new by (auto simp: new_draws_def Let_def intro: inj_on_subset)
  define s1 where "s1 = s\<lparr>drawn := Suc (drawn s)\<rparr>"
  define s2 where "s2 = s1\<lparr>drawn := Suc (drawn s1), commands := commands s1 @ [claimed s1 cp CREATE_SCHEDULE key h ?i]\<rparr>"
  define a where "a = \<lparr>sch_id = ?i, sch_title = draft_title draft, sch_state = DRAFT, sch_mode = mode, sch_owner = cp\<rparr>"
  define s3 where "s3 = s2\<lparr>schedules := schedules s2 @ [a],
         steps := steps s2 @ new_steps s2 ?i 1 (draft_steps draft),
         drawn := drawn s2 + length (draft_steps draft)\<rparr>"
  have exec: "wp (executar_uma_vez cp CREATE_SCHEDULE key (str_uuid ?i) h e) Q s1 = wp e (\<lambda>x. Q (\<lparr>out_receipt_id =
        entropy s1 (drawn s1), out_technical_principal_ref = cp, out_operation = CREATE_SCHEDULE,
        out_command_key = key, out_outcome_ref = str_uuid ?i, out_replayed = False\<rparr>, Some x)) s2"
    for e :: "schedule_view db" and Q
    unfolding s2_def by (rule wp_executar_uma_vez [OF caller h(2)]) (use u ids(2) in \<open>simp_all add: unclaimed_def s1_def\<close>)
  have wf2: "wf_store s2"
    unfolding s2_def by (rule wf_claimed [OF _ caller h(2)]) (use wf u ids(2) in \<open>simp_all add: unclaimed_def s1_def\<close>)
  have create: "wp (create_schedule ?i cp draft mode) (\<lambda>_. Q) s2 = Q s3" for Q
    unfolding s3_def a_def
    by (rule wp_create_schedule [OF draft mode _ wf2])
      (use caller ids in \<open>simp_all add: storable_caller_def s2_def s1_def\<close>)
  have wf3: "wf_store s3"
    by (rule wp_wf [where m = "create_schedule ?i cp draft mode", OF _ wfi.keeps_schedule_services(1) wf2]) (simp add: create)
  have own: "schedule_of s3 cp ?i a" by (simp add: schedule_of_def s3_def a_def)
  then have activate: "wp (activate cp ?i) (\<lambda>_. Q) s3 = Q (with_schedule_state ?i ACTIVE s3)" for Q
    by (rule wp_activate [OF wf_keyed [OF wf3]]) (simp add: a_def)
  have wf4: "wf_store (with_schedule_state ?i ACTIVE s3)"
    by (rule wp_wf [where m = "activate cp ?i", OF _ wfi.keeps_schedule_services(2) wf3]) (simp add: activate)
  have "schedule_of (with_schedule_state ?i ACTIVE s3) cp ?i (a\<lparr>sch_state := ACTIVE\<rparr>)"
    using own by (auto simp: schedule_of_def with_schedule_state_def set_upd_where)
  then have view: "wp (service_get_schedule cp ?i) (\<lambda>_. Q) (with_schedule_state ?i ACTIVE s3) =
      Q (with_schedule_state ?i ACTIVE s3)" for Q
    by (rule read_view [OF wf_keyed [OF wf4]])
  have finish: "with_schedule_state ?i ACTIVE s3 = creation s cp key draft mode h"
    using activate_created [where s = s2 and title = "draft_title draft" and mode = mode and cp = cp and
        ps = "new_steps s2 ?i 1 (draft_steps draft)"] ids(1)
    by (simp add: s3_def a_def s2_def s1_def creation_def created_def new_steps_def)
  have "deferred_ok (creation s cp key draft mode h)"
    using d deferred_untouched [of "creation s cp key draft mode h" s] by (simp add: creation_def)
  then have "wp (bnd (create_schedule_once cp key draft mode) (\<lambda>(recibo, _).
         bnd (parse_outcome recibo) (\<lambda>sid.
         bnd (if \<not> out_replayed recibo then bnd (activate cp sid) (\<lambda>_. ret ()) else ret ()) (\<lambda>_.
         service_get_schedule cp sid)))) (\<lambda>_ t. deferred_ok t \<and> t = creation s cp key draft mode h) s"
    using h(1) by (simp add: create_schedule_once_def wp_simps s1_def [symmetric] exec create parse_outcome_def
        parse_str_uuid activate finish view [unfolded finish])
  then have "wp (criar_schedule cp key draft mode) (\<lambda>_ t. t = creation s cp key draft mode h) s"
    using draft wp_committed
    by (simp add: criar_schedule_def storable_draft_def list_ex_iff list_all_iff storable_step_def)
  with h show ?thesis by blast
qed

end
