(* ===== verification/Delivery.thy ===== *)
theory Delivery
  imports Liveness
begin

text \<open>
  Exports that succeed: a step that may be dispatched and whose gate lets it pass, because it
  declares none or because a valid delegation of its content is active, is exported, and the rows
  the export leaves are computed.
\<close>

section \<open>Reads of rows that exist\<close>

lemma wp_reads:
  assumes "keyed s" and "schedule_of s cp sid a"
  shows "wp (get_schedule cp sid) Q s = Q (Some a) s" "wp (lock_schedule cp sid) Q s = Q (Some a) s"
    and "step_of s sid pid p \<Longrightarrow> wp (get_step cp sid pid) Q' s = Q' (Some p) s"
    and "step_of s sid pid p \<Longrightarrow> wp (lock_step cp sid pid) Q' s = Q' (Some p) s"
    and "step_of s sid pid p \<Longrightarrow> wp (require_step cp sid pid) Q1 s = Q1 p s"
    and "attempt_of s sid aid b \<Longrightarrow> wp (get_attempt cp sid aid) R s = R (Some b) s"
    and "attempt_of s sid aid b \<Longrightarrow> wp (lock_attempt cp sid aid) R s = R (Some b) s"
    and "attempt_of s sid aid b \<Longrightarrow> wp (require_attempt cp sid aid) R1 s = R1 aid s"
proof -
  have o: "owned s cp sid" using assms(2) by (auto simp: owned_iff)
  show "wp (get_schedule cp sid) Q s = Q (Some a) s" "wp (lock_schedule cp sid) Q s = Q (Some a) s"
    using read_schedule [OF assms] by (simp_all add: wp_def)
  show "step_of s sid pid p \<Longrightarrow> wp (get_step cp sid pid) Q' s = Q' (Some p) s"
    "step_of s sid pid p \<Longrightarrow> wp (lock_step cp sid pid) Q' s = Q' (Some p) s"
    "step_of s sid pid p \<Longrightarrow> wp (require_step cp sid pid) Q1 s = Q1 p s"
    using read_step [OF assms(1) o] by (auto simp: wp_def)
  show "attempt_of s sid aid b \<Longrightarrow> wp (get_attempt cp sid aid) R s = R (Some b) s"
    "attempt_of s sid aid b \<Longrightarrow> wp (lock_attempt cp sid aid) R s = R (Some b) s"
    "attempt_of s sid aid b \<Longrightarrow> wp (require_attempt cp sid aid) R1 s = R1 aid s"
    using read_attempt [OF assms(1) o] by (auto simp: wp_def)
qed

lemma run_wf:
  assumes "\<And>Q. wp m (\<lambda>_. Q) s = Q t" and "keeps (\<lambda>s t. wf_store s \<longrightarrow> wf_store t) m" and "wf_store s"
  shows "wf_store t"
  by (rule wp_wf [OF _ assms(2,3)]) (simp add: assms(1))

section \<open>Preflight\<close>

lemma wp_guards:
  assumes "wf_store s" and d: "dispatchable s cp sid pid a p"
  shows "wp (preflight_guards cp sid pid) Q s = Q p s"
proof -
  have k: "keyed s" using assms(1) by (rule wf_keyed)
  have a: "schedule_of s cp sid a" and p: "step_of s sid pid p" using d by (simp_all add: dispatchable_def)
  have adv: "wp (advance cp sid (stp_position p)) R s = R [] s" for R
    using d by (simp add: advance_def list_unreturned_predecessors_def wp_simps dispatchable_def)
  have "filter (\<lambda>b. att_step_id b = pid \<and> att_schedule_id b = sid \<and> att_state b = OPEN \<and> owned s cp sid)
      (attempts s) = []"
    using d by (auto simp: dispatchable_def filter_empty_conv)
  then have op: "wp (get_open_attempt cp sid pid) R s = R None s" for R
    by (simp add: get_open_attempt_def select_one_def wp_def)
  show ?thesis
    using d by (auto simp: preflight_guards_def wp_simps wp_reads [OF k a] wp_reads(4) [OF k a p] adv op dispatchable_def)
qed

lemma wp_envelope:
  assumes "wf_store s" and "schedule_of s cp sid a" and "step_of s sid pid p" and "envelope_of_step sid pid p = Inr e"
  shows "wp (build_envelope_content cp sid pid) Q s = Q e s"
  using assms(4) by (simp add: build_envelope_content_def wp_simps wp_reads(1) [OF wf_keyed [OF assms(1)] assms(2)]
      wp_reads(3) [OF wf_keyed [OF assms(1)] assms(2,3)])

text \<open>An authorization as the preflight issues it.\<close>

definition issued :: "store \<Rightarrow> pystr \<Rightarrow> uuid option \<Rightarrow> bool \<Rightarrow> dispatch_authorized" where
  "issued s h did first = \<lparr>da_content_sha256 = h, da_delegation_id = did, da_first_dispatch = first,
     da_authorization_id = entropy s (drawn s), da_object = next_object s\<rparr>"

text \<open>A step passes its gate: it has none, or an unexpired delegation of its content opens it.\<close>

definition passes ::
  "composition \<Rightarrow> store \<Rightarrow> uuid \<Rightarrow> uuid \<Rightarrow> schedule_step \<Rightarrow> pystr \<Rightarrow> uuid option \<Rightarrow> bool" where
  "passes c s sid pid p h did \<longleftrightarrow>
     (gate_requirement (stp_constraints p) = Inr None \<and> did = None) \<or>
     (\<exists>g d. gate_requirement (stp_constraints p) = Inr (Some g) \<and> gate_scope g = GATE_SCOPE_DISPATCH \<and>
        \<not> human_refuses c g sid pid h \<and> d \<in> set (delegations s) \<and> did = Some (dlg_id d) \<and>
        consumable sid pid h (now s) (dlg_id d) d)"

lemma wf_active_delegation:
  assumes "wf_store s" and "d \<in> set (delegations s)" and "consumable sid pid h t i d"
  shows "filter (\<lambda>d. dlg_schedule_id d = sid \<and> dlg_step_id d = pid \<and> dlg_state d = DELEGATION_ACTIVE) (delegations s) = [d]"
proof -
  let ?P = "\<lambda>d. dlg_schedule_id d = sid \<and> dlg_step_id d = pid"
  have scope: "dlg_scope e = GATE_SCOPE_DISPATCH" if "e \<in> set (delegations s)" for e
    using assms(1) that by (simp add: wf_store_def wf_delegations_def rows_ok_def delegation_row_ok_def first_some_None)
  have "distinct (map dlg_triple (filter (\<lambda>d. dlg_state d = DELEGATION_ACTIVE) (delegations s)))"
    using assms(1) by (simp add: wf_store_def wf_delegations_def unique_where_def)
  then have "filter (\<lambda>e. dlg_triple e = dlg_triple d) (filter (\<lambda>d. dlg_state d = DELEGATION_ACTIVE) (delegations s)) = [d]"
    by (rule filter_key_row) (use assms(2,3) in \<open>auto simp: consumable_def\<close>)
  moreover have "filter (\<lambda>d. ?P d \<and> dlg_state d = DELEGATION_ACTIVE) (delegations s) =
      filter (\<lambda>e. dlg_triple e = dlg_triple d) (filter (\<lambda>d. dlg_state d = DELEGATION_ACTIVE) (delegations s))"
    unfolding filter_filter using scope assms(3)
    by (intro filter_cong refl) (auto simp: dlg_triple_def consumable_def)
  ultimately show ?thesis by simp
qed

lemma wp_preflight:
  assumes wf: "wf_store s" and d: "dispatchable s cp sid pid a p" and "envelope_of_step sid pid p = Inr e"
    and h: "content_sha256 e = Inr h" and gate: "passes c s sid pid p h did"
    and em: "length (emitted s) < MAX_AUTORIZACOES_PENDENTES"
  shows "wp (preflight c cp sid pid) Q s = Q (Authorized (issued s h did (stp_state p = PENDING)))
    (s\<lparr>drawn := Suc (drawn s), next_object := Suc (next_object s),
       emitted := AList.update (entropy s (drawn s)) (issued s h did (stp_state p = PENDING)) (emitted s)\<rparr>)"
proof -
  have rows: "schedule_of s cp sid a" "step_of s sid pid p" using d by (simp_all add: dispatchable_def)
  have auth: "wp (bnd (new_authorization h did (stp_state p = PENDING)) (\<lambda>a. bnd (registrar_autorizacao a)
      (\<lambda>a'. ret (Authorized a')))) Q s = Q (Authorized (issued s h did (stp_state p = PENDING)))
    (s\<lparr>drawn := Suc (drawn s), next_object := Suc (next_object s),
       emitted := AList.update (entropy s (drawn s)) (issued s h did (stp_state p = PENDING)) (emitted s)\<rparr>)"
    using em by (simp add: wp_simps new_authorization_def registrar_autorizacao_def issued_def)
  note pre = preflight_def wp_guards [OF wf d] wp_envelope [OF wf rows assms(3)]
  from gate show ?thesis
    unfolding passes_def
  proof (elim disjE exE conjE)
    assume "gate_requirement (stp_constraints p) = Inr None" "did = None"
    with h auth show ?thesis by (simp add: pre Let_def wp_bnd wp_lift_sum)
  next
    fix g x
    assume g: "gate_requirement (stp_constraints p) = Inr (Some g)" "gate_scope g = GATE_SCOPE_DISPATCH"
        "\<not> human_refuses c g sid pid h"
      and x: "x \<in> set (delegations s)" "did = Some (dlg_id x)" "consumable sid pid h (now s) (dlg_id x) x"
    note active = wf_active_delegation [OF wf x(1,3)]
    have "\<not> expired_at sid pid s e" if "e \<in> set (delegations s)" for e
    proof
      assume "expired_at sid pid s e"
      with that have "e \<in> set (filter (\<lambda>d. dlg_schedule_id d = sid \<and> dlg_step_id d = pid \<and>
          dlg_state d = DELEGATION_ACTIVE) (delegations s))" by (simp add: expired_at_def)
      with active x(3) \<open>expired_at sid pid s e\<close> show False by (simp add: expired_at_def consumable_def)
    qed
    then have "upd_where (expired_at sid pid s) (\<lambda>d. d\<lparr>dlg_state := EXPIRED\<rparr>) (delegations s) = delegations s"
      by (simp add: upd_where_def map_idI)
    then have expire: "wp (expire_stale_delegations cp sid pid) (\<lambda>_. Q) s = Q s" for Q
      by (simp add: expire_stale_delegations_def update_delegations_def wp_simps wp_reads(5) [OF wf_keyed [OF wf] rows]
          expired_at_def [abs_def])
    have "filter (\<lambda>d. dlg_schedule_id d = sid \<and> dlg_step_id d = pid \<and> dlg_scope d = GATE_SCOPE_DISPATCH \<and>
        dlg_state d = DELEGATION_ACTIVE \<and> owned s cp sid) (delegations s) =
        filter (\<lambda>d. dlg_scope d = GATE_SCOPE_DISPATCH \<and> owned s cp sid) [x]"
      unfolding active [symmetric] filter_filter by (rule filter_cong) auto
    then have find: "wp (get_active_delegation cp sid pid GATE_SCOPE_DISPATCH) R s = R (Some x) s" for R
      using x(3) rows(1) by (auto simp: get_active_delegation_def select_one_def wp_def consumable_def owned_iff)
    have "dlg_content_sha256 x = h" using x(3) by (simp add: consumable_def)
    with h g x(2) auth show ?thesis
      by (simp add: pre Let_def wp_bnd wp_lift_sum expire find)
  qed
qed

lemma wp_consume:
  assumes "keyed s" and "schedule_of s cp sid a" and "step_of s sid pid p"
    and "\<forall>i. did = Some i \<longrightarrow> (\<exists>d \<in> set (delegations s). consumable sid pid h (now s) i d)"
    and "da_content_sha256 au = h" "da_delegation_id au = did"
  shows "wp (consume_authorized_delegation cp sid pid au aid) (\<lambda>_. Q) s =
    Q (s\<lparr>delegations := consume sid pid h (now s) aid did (delegations s)\<rparr>)"
proof (cases did)
  case None
  with assms(6) show ?thesis by (simp add: consume_authorized_delegation_def wp_simps consume_def)
next
  case (Some i)
  have f: "consumed_row (now s) aid =
      (\<lambda>d. d\<lparr>dlg_state := CONSUMED, dlg_consumed_at := Some (now s), dlg_consumed_by := Some aid\<rparr>)"
    by (simp add: consumed_row_def [abs_def])
  have "count_where (consumable sid pid h (now s) i) (delegations s) \<noteq> 0"
    using assms(4) Some by (auto simp: count_where_0)
  then show ?thesis
    using assms(5,6) Some
    by (simp add: consume_authorized_delegation_def consume_delegation_def update_delegations_def wp_simps
        wp_reads(5) [OF assms(1-3)] consume_def f consumable_def [abs_def])
qed

section \<open>The manual profile and the execution receipt\<close>

lemma manual_profile_filter:
  assumes "keyed s" and "x \<in> set (profiles s)" and "manual_live x" and "con_principal x = cp"
  shows "get_manual_profile cp s = (Inr (Some x), s)"
proof -
  have "distinct (map con_principal (filter manual_live (profiles s)))"
    using assms(1) by (simp add: keyed_def unique_where_def)
  then have "filter (\<lambda>c. con_principal c = cp) (filter manual_live (profiles s)) = [x]"
    by (rule filter_key_row) (use assms in auto)
  moreover have "filter (\<lambda>c. con_principal c = cp \<and> con_method c = METHOD_MANUAL_HANDOFF \<and>
      con_state c \<notin> TERMINAL_CONNECTION_STATES) (profiles s) =
      filter (\<lambda>c. con_principal c = cp) (filter manual_live (profiles s))"
    by (auto simp: manual_live_def filter_filter intro!: filter_cong)
  ultimately show ?thesis by (simp add: get_manual_profile_def select_one_def)
qed

definition has_profile :: "store \<Rightarrow> pystr \<Rightarrow> connection_profile \<Rightarrow> connection_profile list \<Rightarrow> nat \<Rightarrow> bool" where
  "has_profile s cp x profs n \<longleftrightarrow> con_principal x = cp \<and> manual_live x \<and> x \<in> set profs \<and>
     (profs = profiles s \<and> n = drawn s \<or>
      profs = profiles s @ [manual_profile (entropy s (drawn s)) cp (now s)] \<and> n = Suc (drawn s) \<and>
      x = manual_profile (entropy s (drawn s)) cp (now s))"

lemma wp_ensure:
  assumes "wf_store s" and "storable_text MAX_REF_LENGTH cp" and "fresh con_id (entropy s (drawn s)) (profiles s)"
  obtains x b profs n where "has_profile s cp x profs n"
    and "\<And>Q. wp (ensure_manual_profile cp) Q s =
      Q \<lparr>outcome_profile = x, outcome_created = b\<rparr> (s\<lparr>profiles := profs, drawn := n\<rparr>)"
proof (cases "\<exists>x \<in> set (profiles s). manual_live x \<and> con_principal x = cp")
  case True
  then obtain x where x: "x \<in> set (profiles s)" "manual_live x" "con_principal x = cp" by blast
  from manual_profile_filter [OF wf_keyed [OF assms(1)] x] assms(2)
  have "wp (ensure_manual_profile cp) Q s = Q \<lparr>outcome_profile = x, outcome_created = False\<rparr> s" for Q
    by (simp add: ensure_manual_profile_def wp_def bnd_def require_def ret_def storable_text_iff)
  moreover have "has_profile s cp x (profiles s) (drawn s)" using x by (simp add: has_profile_def)
  ultimately show thesis using that [of x "profiles s" "drawn s" False] by simp
next
  case False
  let ?x = "manual_profile (entropy s (drawn s)) cp (now s)"
  have "filter (\<lambda>c. con_principal c = cp \<and> con_method c = METHOD_MANUAL_HANDOFF \<and>
      con_state c \<notin> TERMINAL_CONNECTION_STATES) (profiles s) = []"
    using False by (auto simp: filter_empty_conv manual_live_def)
  then have none: "get_manual_profile cp s = (Inr None, s)" by (simp add: get_manual_profile_def select_one_def)
  have row: "check_profile (s\<lparr>drawn := Suc (drawn s)\<rparr>) ?x = None"
    using assms(2,3) False storable_textD [OF assms(2)]
    by (auto simp: check_profile_def profile_row_ok_def first_some_None manual_profile_def fresh_def
        simp del: text_col_None)
  have "create_profile cp METHOD_MANUAL_HANDOFF AVAILABLE None None None None s =
      (Inr ?x, s\<lparr>profiles := profiles s @ [?x], drawn := Suc (drawn s)\<rparr>)"
    using row by (simp add: create_profile_def bnd_def draw_uuid_def gets_def Let_def insert_row_def ret_def
        manual_profile_def table_updates)
  then have "wp (ensure_manual_profile cp) Q s = Q \<lparr>outcome_profile = ?x, outcome_created = True\<rparr>
      (s\<lparr>profiles := profiles s @ [?x], drawn := Suc (drawn s)\<rparr>)" for Q
    using assms(2) none
    by (simp add: ensure_manual_profile_def wp_def bnd_def require_def ret_def storable_text_iff nested_def)
  moreover have "has_profile s cp ?x (profiles s @ [?x]) (Suc (drawn s))" by (simp add: has_profile_def)
  ultimately show thesis using that [of ?x "profiles s @ [?x]" "Suc (drawn s)" True] by simp
qed

lemma manual_attribution_ok:
  "manual_attribution cid = Inr \<lparr>ea_connection_id = cid, ea_method = METHOD_MANUAL_HANDOFF,
     ea_access_provider = None, ea_requested_model = None, ea_observed_model = None, ea_attestation = UNKNOWN\<rparr>"
  by (simp add: manual_attribution_def make_execution_attribution_def)

lemma wp_record_execution:
  assumes "wf_store s" and "storable_text MAX_REF_LENGTH cp" and "x \<in> set (profiles s)" and "con_principal x = cp"
    and "manual_live x" and "fresh exe_id (entropy s (drawn s)) (exec_receipts s)"
    and "fresh exe_attempt_id aid (exec_receipts s)" and "manual_attribution (con_id x) = Inr attr"
  shows "wp (record_execution cp sid pid aid attr t) Q s =
    Q (manual_receipt (entropy s (drawn s)) cp sid pid aid (con_id x) t)
      (s\<lparr>drawn := Suc (drawn s),
         exec_receipts := exec_receipts s @ [manual_receipt (entropy s (drawn s)) cp sid pid aid (con_id x) t]\<rparr>)"
proof -
  have attr: "attr = \<lparr>ea_connection_id = con_id x, ea_method = METHOD_MANUAL_HANDOFF,
     ea_access_provider = None, ea_requested_model = None, ea_observed_model = None, ea_attestation = UNKNOWN\<rparr>"
    using assms(8) by (simp add: manual_attribution_ok)
  have "filter (\<lambda>c. con_id c = con_id x \<and> con_principal c = cp) (profiles s) = [x]"
    by (rule filter_key_row [where k = con_id]) (use assms wf_keyed in \<open>auto simp: keyed_def\<close>)
  then have prof: "wp (require_profile cp (con_id x)) R s = R x s" for R
    by (simp add: require_profile_def get_profile_def select_one_def wp_def bnd_def require_some_def ret_def)
  have row: "check_exec_receipt (s\<lparr>drawn := Suc (drawn s)\<rparr>)
      (manual_receipt (entropy s (drawn s)) cp sid pid aid (con_id x) t) = None"
    using assms(3-7) storable_textD [OF assms(2)]
    by (auto simp: check_exec_receipt_def exec_row_ok_def first_some_None manual_receipt_def exists_row_def manual_live_def
        simp del: text_col_None)
  show ?thesis
    using assms(2) row by (simp add: record_execution_def create_execution_receipt_def wp_simps attr prof Let_def
        storable_text_iff manual_receipt_def [symmetric] table_updates)
qed

section \<open>Sealing\<close>

lemma next_number_fresh:
  "b \<in> set (attempts s) \<Longrightarrow> att_step_id b = pid \<Longrightarrow> att_number b < next_number pid s"
proof -
  have "x \<in> set xs \<Longrightarrow> x \<le> foldr max xs (0::int)" for x xs
    by (induction xs) auto
  then show "b \<in> set (attempts s) \<Longrightarrow> att_step_id b = pid \<Longrightarrow> att_number b < next_number pid s"
    by (force simp: next_number_def attempts_of_step_def)
qed

lemma next_number_delegations [simp]: "next_number pid (s\<lparr>delegations := ds\<rparr>) = next_number pid s"
  by (simp add: next_number_def attempts_of_step_def)

lemma next_number_pos: "1 \<le> next_number pid s"
proof -
  have "0 \<le> foldr max xs (0::int)" for xs by (induction xs) auto
  then show ?thesis by (simp add: next_number_def)
qed

lemma envelope_version_ok: "text_col MAX_ENVELOPE_VERSION_LENGTH ENVELOPE_VERSION = None" "sql_not_blank ENVELOPE_VERSION"
proof -
  have "storable_text MAX_ENVELOPE_VERSION_LENGTH ENVELOPE_VERSION"
    by (simp add: storable_text_iff ENVELOPE_VERSION_def MAX_ENVELOPE_VERSION_LENGTH_def blank_iff is_space_def encodable_pys)
  from storable_textD [OF this]
  show "text_col MAX_ENVELOPE_VERSION_LENGTH ENVELOPE_VERSION = None" "sql_not_blank ENVELOPE_VERSION" by simp_all
qed

lemma content_hash_hex: "content_sha256 e = Inr h \<Longrightarrow> sql_hex64 h"
  by (auto simp: content_sha256_def run_iffs)

lemma wf_seal_attempt: "wf_store s \<Longrightarrow> r \<in> set (seals s) \<Longrightarrow> \<exists>a \<in> set (attempts s). att_id a = rcp_attempt_id r"
  by (force simp: wf_store_def wf_seals_def att_keys_def)

lemma sealed_sel [simp]:
  "att_id (sealed aid sid pid h n t) = aid" "att_number (sealed aid sid pid h n t) = n"
  "rcp_id (receipt rid aid h t sealer) = rid" "rcp_sealed_at (receipt rid aid h t sealer) = t"
  "rcp_sealer_ref (receipt rid aid h t sealer) = sealer"
  by (simp_all add: sealed_def receipt_def)

lemma wp_seal:
  assumes wf: "wf_store s" and d: "dispatchable s cp sid pid a p" and e: "envelope_of_step sid pid p = Inr e"
    and h: "content_sha256 e = Inr h" and cp: "storable_text MAX_REF_LENGTH cp"
    and n: "next_number pid s \<le> 2147483647"
    and ids: "fresh att_id aid (attempts s)" "fresh rcp_id (entropy s (drawn s)) (seals s)"
  shows "wp (seal_step_for_export aid cp sid pid cp) Q s =
    Q \<lparr>seal_attempt_id = aid, seal_attempt_number = next_number pid s, seal_content_sha256 = h,
        seal_envelope_version = ENVELOPE_VERSION, seal_receipt_id = entropy s (drawn s),
        seal_sealed_at = now s, seal_sealer_ref = cp\<rparr>
      (s\<lparr>attempts := attempts s @ [sealed aid sid pid h (next_number pid s) (now s)], drawn := Suc (drawn s),
         seals := seals s @ [receipt (entropy s (drawn s)) aid h (now s) cp]\<rparr>)"
proof -
  let ?a = "sealed aid sid pid h (next_number pid s) (now s)"
  define s1 where "s1 = s\<lparr>attempts := attempts s @ [?a]\<rparr>"
  have k: "keyed s" using wf by (rule wf_keyed)
  have a: "schedule_of s cp sid a" and p: "step_of s sid pid p" using d by (simp_all add: dispatchable_def)
  note hex = hex64_col [OF content_hash_hex [OF h]] content_hash_hex [OF h]
  note cpD = storable_textD [OF cp]
  have numbers: "att_number b \<noteq> next_number pid s" if "b \<in> set (attempts s)" "att_step_id b = pid" for b
    using next_number_fresh [OF that] by simp
  have closed: "att_state b \<noteq> OPEN" if b: "b \<in> set (attempts s)" "att_step_id b = pid" for b
  proof -
    from wf_attempt_step [OF wf b(1)] obtain q where q: "q \<in> set (steps s)" "stp_id q = att_step_id b"
      "stp_schedule_id q = att_schedule_id b" by blast
    with wf_step_unique [OF wf q(1), of p] p b(2) have "att_schedule_id b = sid" by (auto simp: step_of_def)
    with d b show ?thesis by (simp add: dispatchable_def)
  qed
  have row: "check_attempt s ?a = None"
    using hex n next_number_pos [of pid s] envelope_version_ok ids(1) numbers closed p
    by (auto simp: check_attempt_def attempt_row_ok_def first_some_None sealed_def int_col_def fresh_def step_within_def
        exists_row_def step_of_def simp del: text_col_None)
  have "keyed s1"
    using k ids(1) by (auto simp: keyed_def s1_def fresh_def sealed_def)
  moreover have "schedule_of s1 cp sid a" using a by (simp add: schedule_of_def s1_def)
  moreover have "attempt_of s1 sid aid ?a" by (simp add: attempt_of_def s1_def sealed_def)
  ultimately have req: "wp (require_attempt cp sid aid) R s1 = R aid s1" for R by (rule wp_reads(8))
  have "rcp_attempt_id r \<noteq> aid" if "r \<in> set (seals s)" for r
    using wf_seal_attempt [OF wf that] ids(1) by (auto simp: fresh_def)
  then have row2: "check_seal (s1\<lparr>drawn := Suc (drawn s1)\<rparr>) (receipt (entropy s (drawn s)) aid h (now s) cp) = None"
    using hex cpD ids(2)
    by (auto simp: check_seal_def seal_row_ok_def first_some_None receipt_def fresh_def exists_row_def s1_def sealed_def
        simp del: text_col_None)
  have nn: "wp (next_attempt_number cp sid pid) R s = R (next_number pid s) s" for R
    by (simp add: next_attempt_number_def wp_simps wp_reads(5) [OF k a p] next_number_def attempts_of_step_def)
  have create: "wp (create_attempt cp aid sid pid (next_number pid s) ENVELOPE_VERSION h) R s = R ?a s1" for R
    using row by (simp add: create_attempt_def wp_simps wp_reads(5) [OF k a p] Let_def table_updates s1_def sealed_def)
  have seal: "wp (create_seal_receipt cp sid aid h t cp) R s1 = R (receipt (entropy s (drawn s)) aid h (now s) cp)
      (s1\<lparr>drawn := Suc (drawn s1), seals := seals s1 @ [receipt (entropy s (drawn s)) aid h (now s) cp]\<rparr>)"
    if "t = now s" for R t
    using row2 that by (simp add: create_seal_receipt_def wp_simps req Let_def table_updates receipt_def) (simp add: s1_def)
  have now1: "now s1 = now s" by (simp add: s1_def)
  have st: "stp_state p \<in> set [PENDING, AWAITING_RETURN]" "sch_state a = ACTIVE" "sch_mode a \<in> EXECUTABLE_HANDOFF_MODES"
    using d by (auto simp: dispatchable_def)
  show ?thesis
    using st h next_number_pos [of pid s] cpD hex envelope_of_step_version [OF e]
    by (simp add: seal_step_for_export_def seal_with_def wp_simps wp_reads(1) [OF k a] wp_reads(3) [OF k a p] e nn create seal
        database_now_def now1 make_seal_outcome_def) (simp add: s1_def)
qed

section \<open>Exporting\<close>

lemma wp_set_step_state:
  assumes "keyed s" and "schedule_of s cp sid a" and "step_of s sid pid p"
  shows "wp (set_step_state cp sid pid st) (\<lambda>_. Q) s = Q (with_step_state pid st s)"
proof -
  have "stp_id p = pid" using assms(3) by (simp add: step_of_def)
  then show ?thesis
    by (simp add: set_step_state_def wp_simps wp_reads(4) [OF assms] with_step_state_def table_updates)
qed

lemma keyed_step_state [simp]: "keyed (with_step_state pid st s) = keyed s"
  by (simp add: keyed_def with_step_state_def map_upd_where)

lemma schedule_of_step_state [simp]: "schedule_of (with_step_state pid st s) = schedule_of s"
  by (simp add: fun_eq_iff schedule_of_def with_step_state_def)

lemma step_of_step_state: "step_of s sid pid p \<Longrightarrow> step_of (with_step_state pid st s) sid pid (p\<lparr>stp_state := st\<rparr>)"
  by (auto simp: step_of_def with_step_state_def set_upd_where)

lemma wp_step_states:
  assumes "keyed s" and "schedule_of s cp sid a" and "step_of s sid pid p"
  shows "wp (if first then bnd (set_step_state cp sid pid DISPATCHED) (\<lambda>_. ret ()) else ret ())
      (\<lambda>_. wp (set_step_state cp sid pid AWAITING_RETURN) (\<lambda>_. Q)) s = Q (with_step_state pid AWAITING_RETURN s)"
  using wp_set_step_state [OF assms]
    wp_set_step_state [of "with_step_state pid DISPATCHED s" cp sid a pid "p\<lparr>stp_state := DISPATCHED\<rparr>"]
    step_of_step_state [OF assms(3)] assms(1,2)
  by (simp add: wp_simps)

text \<open>The rows an export adds, and the state it leaves the step in.\<close>

definition delivered ::
  "store \<Rightarrow> pystr \<Rightarrow> uuid \<Rightarrow> uuid \<Rightarrow> uuid \<Rightarrow> pystr \<Rightarrow> uuid \<Rightarrow> connection_profile list \<Rightarrow>
   connection_execution_receipt \<Rightarrow> store" where
  "delivered s cp sid pid aid h rid profs r =
     with_step_state pid AWAITING_RETURN
       (s\<lparr>attempts := attempts s @ [sealed aid sid pid h (next_number pid s) (now s)],
          seals := seals s @ [receipt rid aid h (now s) cp], profiles := profs,
          exec_receipts := exec_receipts s @ [r]\<rparr>)"

lemma transport_production: "transport_export production x = Inr x"
  by (simp add: production_def manual_transport_export_def)

lemma deferred_receipt: "deferred_ok s \<Longrightarrow> fresh att_id aid (attempts s) \<Longrightarrow> fresh exe_attempt_id aid (exec_receipts s)"
  by (force simp: deferred_ok_def fresh_def attempt_within_def exists_row_def)

lemma wp_export_step:
  assumes wf: "wf_store s" and def: "deferred_ok s" and d: "dispatchable s cp sid pid a p"
    and e: "envelope_of_step sid pid p = Inr e" and h: "content_sha256 e = Inr h"
    and g: "passes c s sid pid p h did" and tr: "\<forall>x. transport_export c x = Inr x" and cp: "storable_text MAX_REF_LENGTH cp"
    and n: "next_number pid s \<le> 2147483647" and em: "emitted s = []"
    and aid: "fresh att_id aid (attempts s)" and new: "new_draws s 4"
  shows "\<exists>x profs xid k res. has_profile (s\<lparr>drawn := drawn s + 2\<rparr>) cp x profs k \<and> xid = entropy s k \<and> eh_envelope (xo_exported res) = e \<and>
    (\<forall>Q. wp (export_step c aid cp sid pid cp None) Q s =
      Q res ((delivered (s\<lparr>delegations := consume sid pid h (now s) aid did (delegations s)\<rparr>) cp sid pid aid h
          (entropy s (Suc (drawn s))) profs (manual_receipt xid cp sid pid aid (con_id x) (now s)))
          \<lparr>drawn := Suc k, next_object := Suc (next_object s), emitted := []\<rparr>))"
proof -
  let ?au = "issued s h did (stp_state p = PENDING)"
  define s2 where "s2 = s\<lparr>drawn := Suc (drawn s), next_object := Suc (next_object s), emitted := []\<rparr>"
  define rid where "rid = entropy s (Suc (drawn s))"
  define ds where "ds = consume sid pid h (now s) aid did (delegations s)"
  define s2c where "s2c = s2\<lparr>delegations := ds\<rparr>"
  define s3 where "s3 = s2c\<lparr>attempts := attempts s @ [sealed aid sid pid h (next_number pid s) (now s)],
     drawn := Suc (drawn s2), seals := seals s @ [receipt rid aid h (now s) cp]\<rparr>"
  have fresh: "fresh rcp_id (entropy s (Suc (drawn s))) (seals s)"
    "fresh con_id (entropy s (drawn s + 2)) (profiles s)"
    "fresh exe_id (entropy s (drawn s + 2)) (exec_receipts s)" "fresh exe_id (entropy s (drawn s + 3)) (exec_receipts s)"
    using new by (auto simp: new_draws_def Let_def)
  have wf2: "wf_store s2" using wf by (simp add: wf_store_def s2_def)
  have d2: "dispatchable s2c cp sid pid a p" using d by (simp add: dispatchable_def row_of_defs s2c_def s2_def)
  have rows: "schedule_of s cp sid a" "step_of s sid pid p" using d by (simp_all add: dispatchable_def)
  then have rows2: "schedule_of s2 cp sid a" "step_of s2 sid pid p" by (simp_all add: row_of_defs s2_def)
  have rows3: "schedule_of s3 cp sid a" "step_of s3 sid pid p" using rows by (simp_all add: row_of_defs s3_def s2c_def s2_def)
  have "\<forall>i. did = Some i \<longrightarrow> (\<exists>d \<in> set (delegations s2). consumable sid pid h (now s2) i d)"
    using g by (auto simp: passes_def s2_def)
  from wp_consume [OF wf_keyed [OF wf2] rows2 this, of ?au aid]
  have use2: "wp (consume_authorized_delegation cp sid pid ?au aid) (\<lambda>_. Q) s2 = Q s2c" for Q
    by (simp add: issued_def s2c_def ds_def s2_def)
  have wf2c: "wf_store s2c"
    by (rule run_wf [OF use2 _ wf2]) (rule wfi.keeps_export_services(3))
  have pre: "wp (preflight c cp sid pid) Q s = Q (Authorized ?au)
      (s\<lparr>drawn := Suc (drawn s), next_object := Suc (next_object s), emitted := [(entropy s (drawn s), ?au)]\<rparr>)" for Q
    using wp_preflight [OF wf d e h g, of Q] em by (simp add: MAX_AUTORIZACOES_PENDENTES_def)
  have use: "wp (consumir_autorizacao ?au) Q (s\<lparr>drawn := Suc (drawn s), next_object := Suc (next_object s),
      emitted := [(entropy s (drawn s), ?au)]\<rparr>) = Q () s2" for Q
    by (simp add: consumir_autorizacao_def wp_simps issued_def s2_def)
  have seal: "wp (seal_step_for_export aid cp sid pid cp) Q s2c =
    Q \<lparr>seal_attempt_id = aid, seal_attempt_number = next_number pid s, seal_content_sha256 = h,
        seal_envelope_version = ENVELOPE_VERSION, seal_receipt_id = rid,
        seal_sealed_at = now s, seal_sealer_ref = cp\<rparr> s3" for Q
    using wp_seal [OF wf2c d2 e h cp, of aid Q] n aid fresh(1)
    by (simp add: s3_def s2c_def s2_def rid_def next_number_def attempts_of_step_def)
  have wf3: "wf_store s3"
    by (rule wp_wf [where m = "seal_step_for_export aid cp sid pid cp", OF _ wfi.keeps_schedule_services(5) wf2c])
      (simp add: seal)
  obtain x b profs k where x: "has_profile s3 cp x profs k"
    and ens: "\<And>Q. wp (ensure_manual_profile cp) Q s3 = Q \<lparr>outcome_profile = x, outcome_created = b\<rparr>
      (s3\<lparr>profiles := profs, drawn := k\<rparr>)"
    by (rule wp_ensure [OF wf3 cp]) (use fresh(2) in \<open>auto simp: s3_def s2c_def s2_def\<close>)
  define s4 where "s4 = s3\<lparr>profiles := profs, drawn := k\<rparr>"
  have wf4: "wf_store s4"
    by (rule wp_wf [where m = "ensure_manual_profile cp", OF _ wfi.keeps_connection_services(1) wf3])
      (simp add: ens s4_def)
  obtain attr where attr: "manual_attribution (con_id x) = Inr attr" using manual_attribution_ok by blast
  let ?r = "manual_receipt (entropy s k) cp sid pid aid (con_id x) (now s)"
  define s5 where "s5 = s4\<lparr>drawn := Suc (drawn s4), exec_receipts := exec_receipts s @ [?r]\<rparr>"
  have k: "k = drawn s + 2 \<or> k = drawn s + 3" using x by (auto simp: has_profile_def s3_def s2c_def s2_def)
  then have "fresh exe_id (entropy s k) (exec_receipts s)" using fresh(3,4) by auto
  then have rec: "wp (record_execution cp sid pid aid attr (now s)) Q s4 = Q ?r s5" for Q
    using wp_record_execution [OF wf4 cp _ _ _ _ _ attr, of aid sid pid "now s" Q] x deferred_receipt [OF def aid]
    by (simp add: has_profile_def s5_def s4_def s3_def s2c_def s2_def)
  have wf5: "wf_store s5"
    by (rule wp_wf [where m = "record_execution cp sid pid aid attr (now s)", OF _ wfi.keeps_connection_services(4) wf4])
      (simp add: rec)
  have rows5: "schedule_of s5 cp sid a" "step_of s5 sid pid p" using rows by (simp_all add: row_of_defs s5_def s4_def s3_def s2c_def s2_def)
  have now4: "now s4 = now s" by (simp add: s4_def s3_def s2c_def s2_def)
  let ?res = "\<lparr>xo_exported = \<lparr>eh_schedule_id = sid, eh_step_id = pid, eh_attempt_id = aid,
      eh_attempt_number = next_number pid s, eh_receipt_id = rid, eh_content_sha256 = h, eh_sealed_at = now s,
      eh_envelope = e\<rparr>, xo_step_state = AWAITING_RETURN, xo_attempt_state = OPEN\<rparr>"
  have au: "da_content_sha256 ?au = h" "da_delegation_id ?au = did" by (simp_all add: issued_def)
  have "wp (export_step c aid cp sid pid cp None) Q s = Q ?res (with_step_state pid AWAITING_RETURN s5)" for Q
    using next_number_pos [of pid s]
    by (simp add: export_step_def obtain_authorization_def wp_simps pre use wp_reads(4) [OF wf_keyed [OF wf2] rows2]
        wp_envelope [OF wf2 rows2 e] h au use2 seal ens s4_def [symmetric] attr
        database_now_def now4 rec e make_exported_handoff_def tr
        wp_step_states [OF wf_keyed [OF wf5] rows5])
  moreover have "with_step_state pid AWAITING_RETURN s5 =
      (delivered (s\<lparr>delegations := ds\<rparr>) cp sid pid aid h rid profs ?r)\<lparr>drawn := Suc k, next_object := Suc (next_object s), emitted := []\<rparr>"
    by (simp add: delivered_def with_step_state_def s5_def s4_def s3_def s2c_def s2_def)
  moreover have "has_profile (s\<lparr>drawn := drawn s + 2\<rparr>) cp x profs k"
    using x by (simp add: has_profile_def s3_def s2c_def s2_def)
  ultimately show ?thesis
    by (intro exI [of _ x] exI [of _ profs] exI [of _ "entropy s k"] exI [of _ k] exI [of _ ?res]) (simp add: rid_def ds_def)
qed

lemma wp_exportar:
  assumes "wp (export_phase_one c cp key sid pid) (\<lambda>b t. b = None \<and>
    wp (export_phase_two c cp key sid pid) (\<lambda>x u. deferred_ok u \<and> Q x u) t) s"
  shows "wp (exportar_handoff c cp key sid pid) Q s"
  using assms by (auto simp: wp_def exportar_handoff_def)

lemma wp_no_replay:
  assumes "unclaimed s cp EXPORT_HANDOFF key"
  shows "wp (replay_de_export cp key fp) Q s = Q None s"
proof -
  have "filter (\<lambda>r. cmd_triple r = (cp, command_operation_value EXPORT_HANDOFF, key)) (commands s) = []"
    using assms by (simp add: filter_empty_conv unclaimed_def)
  then show ?thesis
    by (simp add: replay_de_export_def get_command_receipt_def select_one_def wp_def bnd_def ret_def)
qed

lemma seal_payload_encodable: "encodable cp \<Longrightarrow> encodable_json (seal_payload operation sid pid cp)"
  by (simp add: seal_payload_def encodable_pys)

lemma wp_resposta_export:
  assumes wf: "wf_store s" and a: "schedule_of s cp sid a" and p: "step_of s sid pid p" and b: "attempt_of s sid aid b"
    and step: "att_step_id b = pid" and r: "r \<in> set (seals s)" "rcp_attempt_id r = aid"
    and out: "out_outcome_ref recibo = str_uuid aid"
  shows "wp (resposta_export cp sid pid recibo saida) (\<lambda>_. Q) s = Q s"
proof -
  have k: "keyed s" using wf by (rule wf_keyed)
  have o: "owned s cp sid" using a by (auto simp: owned_iff)
  have "filter (\<lambda>r. rcp_attempt_id r = aid \<and> attempt_in s aid sid \<and> owned s cp sid) (seals s) = [r]"
    by (rule filter_key_row [where k = rcp_attempt_id])
      (use k r o b in \<open>auto simp: keyed_def attempt_in_def exists_row_def attempt_of_def\<close>)
  then have seal: "wp (get_seal_receipt_by_attempt cp sid aid) R s = R (Some r) s" for R
    by (simp add: get_seal_receipt_by_attempt_def select_one_def wp_def)
  show ?thesis
    using step by (simp add: resposta_export_def wp_simps parse_outcome_def out parse_str_uuid get_export_replay_context_def
        wp_reads(6) [OF k a b] seal wp_reads(3) [OF k a p] projetar_tentativa_def)
qed

lemma deferred_delivered:
  "deferred_ok s \<Longrightarrow> deferred_ok (delivered (s\<lparr>delegations := consume sid pid h u aid did (delegations s)\<rparr>) cp sid pid aid h rid profs (manual_receipt xid cp sid pid aid cid t)
     \<lparr>drawn := d, next_object := m, emitted := em\<rparr>)"
  by (cases did) (auto simp: deferred_ok_def delivered_def with_step_state_def attempt_within_def exists_row_def
      manual_receipt_def sealed_def consume_def set_upd_where consumable_def consumed_row_def)

lemma new_draws_claimed:
  assumes "new_draws s (Suc (m + n))" and "cmd_id r = entropy s (drawn s + m)"
  shows "new_draws (s\<lparr>next_object := k, emitted := em, drawn := Suc (drawn s + m), commands := commands s @ [r]\<rparr>) n"
proof -
  have inj: "inj_on (entropy s) {drawn s..<drawn s + Suc (m + n)}" using assms(1) by (simp add: new_draws_def)
  have "cmd_id r \<noteq> entropy s i" if "i \<in> {Suc (drawn s + m)..<Suc (drawn s + m) + n}" for i
    using inj_onD [OF inj, of i "drawn s + m"] that assms(2) by auto
  moreover have "inj_on (entropy s) {Suc (drawn s + m)..<Suc (drawn s + m) + n}"
    using inj by (rule inj_on_subset) auto
  ultimately show ?thesis
    using assms(1) by (auto simp: new_draws_def Let_def fresh_def)
qed

lemma export_runs:
  assumes wf: "wf_store s" and def: "deferred_ok s" and d: "dispatchable s cp sid pid a p"
    and e: "envelope_of_step sid pid p = Inr e" and h: "content_sha256 e = Inr h"
    and g: "passes c s sid pid p h did" and tr: "\<forall>x. transport_export c x = Inr x" and caller: "storable_caller cp key"
    and u: "unclaimed s cp EXPORT_HANDOFF key" and n: "next_number pid s \<le> 2147483647" and em: "emitted s = []"
    and new: "new_draws s 7"
  shows "\<exists>fp x profs xid k. has_profile (s\<lparr>drawn := drawn s + 5\<rparr>) cp x profs k \<and> xid = entropy s k \<and>
    wp (exportar_handoff c cp key sid pid) (\<lambda>_ t. t =
      (delivered (s\<lparr>commands := commands s @ [claimed (s\<lparr>drawn := drawn s + 2\<rparr>) cp EXPORT_HANDOFF key fp
            (entropy s (Suc (drawn s)))], delegations := consume sid pid h (now s) (entropy s (Suc (drawn s))) did (delegations s)\<rparr>) cp sid pid (entropy s (Suc (drawn s))) h (entropy s (drawn s + 4)) profs
          (manual_receipt xid cp sid pid (entropy s (Suc (drawn s))) (con_id x) (now s)))
        \<lparr>drawn := Suc k, next_object := Suc (Suc (next_object s)), emitted := []\<rparr>) s"
proof -
  define aid where "aid = entropy s (Suc (drawn s))"
  have cp: "storable_text MAX_REF_LENGTH cp" using caller by (simp add: storable_caller_def)
  then have "encodable cp" by (simp add: storable_text_iff)
  from fingerprint_encodable [OF seal_payload_encodable [OF this, of EXPORT_HANDOFF sid pid]] obtain fp
    where fp: "impressao_digital (seal_payload EXPORT_HANDOFF sid pid cp) = Inr fp" "sql_hex64 fp" by blast
  have rows: "schedule_of s cp sid a" "step_of s sid pid p" using d by (simp_all add: dispatchable_def)
  have k: "keyed s" using wf by (rule wf_keyed)
  define t1 where "t1 = s\<lparr>next_object := Suc (next_object s), emitted := [], drawn := Suc (Suc (drawn s))\<rparr>"
  define t2 where "t2 = t1\<lparr>drawn := Suc (drawn t1), commands := commands s @ [claimed t1 cp EXPORT_HANDOFF key fp aid]\<rparr>"
  have one: "wp (export_phase_one c cp key sid pid) Q s = Q None (s\<lparr>drawn := Suc (drawn s),
      next_object := Suc (next_object s), emitted := [(entropy s (drawn s), issued s h did (stp_state p = PENDING))]\<rparr>)" for Q
    using em by (simp add: export_phase_one_def impressao_de_export_def fp(1) wp_simps wp_no_replay [OF u] wp_reads(2) [OF k rows(1)]
        wp_preflight [OF wf d e h g] MAX_AUTORIZACOES_PENDENTES_def)
  have fresh1: "fresh cmd_id (entropy s (drawn s + 2)) (commands s)" "fresh att_id aid (attempts s)"
    using new by (auto simp: new_draws_def Let_def aid_def)
  have exec: "wp (executar_uma_vez cp EXPORT_HANDOFF key (str_uuid aid) fp ef) Q t1 = wp ef (\<lambda>x. Q (\<lparr>out_receipt_id =
        entropy t1 (drawn t1), out_technical_principal_ref = cp, out_operation = EXPORT_HANDOFF,
        out_command_key = key, out_outcome_ref = str_uuid aid, out_replayed = False\<rparr>, Some x)) t2"
    for ef :: "export_outcome db" and Q
    using wp_executar_uma_vez [OF caller fp(2), of t1 EXPORT_HANDOFF aid ef Q] u fresh1(1)
    by (simp add: t2_def t1_def unclaimed_def)
  have wf1: "wf_store t1" using wf by (simp add: wf_store_def t1_def)
  have "fresh cmd_id (entropy t1 (drawn t1)) (commands t1)" "unclaimed t1 cp EXPORT_HANDOFF key"
    using u fresh1(1) by (simp_all add: t1_def unclaimed_def)
  from wf_claimed [OF wf1 caller fp(2) this(2,1)] have wf2: "wf_store t2" by (simp add: t2_def t1_def)
  have def2: "deferred_ok t2" using def deferred_untouched [of t2 s] by (simp add: t2_def t1_def)
  have d2: "dispatchable t2 cp sid pid a p" using d by (simp add: dispatchable_def row_of_defs t2_def t1_def)
  have new2: "new_draws t2 4"
    using new_draws_claimed [of s 2 4 "claimed t1 cp EXPORT_HANDOFF key fp aid" ] new
    by (simp add: t2_def t1_def claimed_def new_draws_def Let_def)
  have g2: "passes c t2 sid pid p h did" using g by (simp add: passes_def t2_def t1_def)
  have "next_number pid t2 = next_number pid s" by (simp add: next_number_def attempts_of_step_def t2_def t1_def)
  with wp_export_step [OF wf2 def2 d2 e h g2 tr cp, of aid] n fresh1(2) new2
  obtain x profs xid k' res where x: "has_profile (t2\<lparr>drawn := drawn t2 + 2\<rparr>) cp x profs k'" and xid: "xid = entropy t2 k'"
    and ex: "\<And>Q. wp (export_step c aid cp sid pid cp None) Q t2 =
      Q res ((delivered (t2\<lparr>delegations := consume sid pid h (now t2) aid did (delegations t2)\<rparr>) cp sid pid aid h (entropy t2 (Suc (drawn t2))) profs
          (manual_receipt xid cp sid pid aid (con_id x) (now t2)))
          \<lparr>drawn := Suc k', next_object := Suc (next_object t2), emitted := []\<rparr>)"
    by (force simp: t2_def t1_def)
  define v where "v = (delivered (t2\<lparr>delegations := consume sid pid h (now t2) aid did (delegations t2)\<rparr>) cp sid pid aid h (entropy t2 (Suc (drawn t2))) profs
          (manual_receipt xid cp sid pid aid (con_id x) (now t2)))
          \<lparr>drawn := Suc k', next_object := Suc (next_object t2), emitted := []\<rparr>"
  have wfv: "wf_store v"
    by (rule wp_wf [where m = "export_step c aid cp sid pid cp None", OF _ wfi.keeps_export_step(2) wf2])
      (simp add: ex v_def)
  have defv: "deferred_ok v" unfolding v_def by (rule deferred_delivered [OF def2])
  have rows2: "schedule_of t2 cp sid a" "step_of t2 sid pid p" using rows by (simp_all add: row_of_defs t2_def t1_def)
  have rowsv: "schedule_of v cp sid a" "step_of v sid pid (p\<lparr>stp_state := AWAITING_RETURN\<rparr>)"
    "attempt_of v sid aid (sealed aid sid pid h (next_number pid t2) (now t2))"
    "receipt (entropy t2 (Suc (drawn t2))) aid h (now t2) cp \<in> set (seals v)"
    using rows2 by (auto simp: row_of_defs v_def delivered_def with_step_state_def set_upd_where sealed_def)
  have answer: "wp (resposta_export cp sid pid recibo saida) (\<lambda>_. Q) v = Q v"
    if "out_outcome_ref recibo = str_uuid aid" for recibo saida Q
    by (rule wp_resposta_export [OF wfv rowsv(1-3) _ rowsv(4) _ that]) (simp_all add: sealed_def receipt_def)
  have "wp (exportar_handoff c cp key sid pid) (\<lambda>_ t. t = v) s"
    by (rule wp_exportar) (simp add: one export_phase_two_def export_handoff_once_def fp(1) wp_simps t1_def [symmetric]
      aid_def [symmetric] exec ex v_def [symmetric] answer defv)
  moreover have "v = (delivered (s\<lparr>commands := commands s @ [claimed (s\<lparr>drawn := drawn s + 2\<rparr>) cp EXPORT_HANDOFF key fp
            aid], delegations := consume sid pid h (now s) aid did (delegations s)\<rparr>) cp sid pid aid h (entropy s (drawn s + 4)) profs
          (manual_receipt xid cp sid pid aid (con_id x) (now s)))
        \<lparr>drawn := Suc k', next_object := Suc (Suc (next_object s)), emitted := []\<rparr>"
    by (simp add: v_def delivered_def with_step_state_def t2_def t1_def next_number_def attempts_of_step_def claimed_def
        numeral_eq_Suc)
  moreover have "has_profile (s\<lparr>drawn := drawn s + 5\<rparr>) cp x profs k'"
    using x by (simp add: has_profile_def t2_def t1_def numeral_eq_Suc)
  moreover have "xid = entropy s k'" using xid by (simp add: t2_def t1_def)
  ultimately show ?thesis unfolding aid_def by blast
qed

end
