(* ===== verification/Reception.thy ===== *)
theory Reception
  imports Delivery
begin

text \<open>
  Imports and grants that succeed: the return of an open attempt whose step awaits it is recorded,
  whatever the verdict on its content is, and a step that declares a gate is granted a delegation.
\<close>

section \<open>Values that can be stored\<close>

definition storable_opt :: "nat \<Rightarrow> pystr option \<Rightarrow> bool" where
  "storable_opt n x \<longleftrightarrow> (\<forall>t. x = Some t \<longrightarrow> encodable t \<and> 0 \<notin> set t \<and> length t \<le> n)"

definition storable_return :: "raw_return \<Rightarrow> declared_attribution \<Rightarrow> bool" where
  "storable_return raw d \<longleftrightarrow>
     storable_text MAX_MEDIA_TYPE_LENGTH (raw_media_type raw) \<and> utf8 (raw_content raw) \<noteq> None \<and>
     storable_opt MAX_DECLARED_REF_LENGTH (raw_declared_output_ref raw) \<and>
     storable_text MAX_REF_LENGTH (declared_instance_id d) \<and>
     storable_opt MAX_REF_LENGTH (declared_provider_id d) \<and> storable_opt MAX_REF_LENGTH (declared_model_id d)"

lemma storable_optD: "storable_opt n x \<Longrightarrow> opt_text_col n x = None \<and> (\<forall>t. x = Some t \<longrightarrow> length t \<le> n)"
  by (auto simp: storable_opt_def encodable_def)

lemma encodable_opt_str: "storable_opt n x \<Longrightarrow> encodable_json (opt_str x)"
  by (auto simp: storable_opt_def opt_str_def split: option.splits)

lemma hex_encodable: "sql_hex64 h \<Longrightarrow> encodable h"
  by (auto simp: sql_hex64_def intro!: encodable_ascii lower_hex_ascii)

lemma import_payload_encodable:
  assumes "storable_return raw d" and "encodable h"
  shows "encodable_json (import_payload sid pid aid raw d h)"
  using assms by (auto simp: import_payload_def storable_return_def encodable_pys storable_text_iff
      intro: encodable_opt_str)

text \<open>The verdict repeats the declared media type, and its digest is one.\<close>

lemma validate_json_fields:
  "validate_json_object fl ld dd bs media content = Inr out \<Longrightarrow> media_type out = media \<and> sql_hex64 (output_sha256 out)"
  by (auto simp: validate_json_object_def verdict_simps simp del: dumps.simps dump_check.simps
      split: sum.splits scan_error.splits json.splits option.splits dump_error.splits)

lemma verdict_fields:
  "validate_output fl ld dd contract media (PyStr content) = Inr out \<Longrightarrow>
   media_type out = media \<and> sql_hex64 (output_sha256 out)"
  by (auto simp: validate_output_def verdict_simps dest: validate_json_fields split: option.splits if_splits)

lemma verdict_codes_stored:
  assumes "validate_output fl ld dd contract media v = Inr out"
  shows "(accepted out = (validation_codes out = [])) \<and> codes_strictly_sorted (validation_codes out)"
  using validate_output_shape [OF assms]
  by (auto simp: verdict_shape_def codes_strictly_sorted_def split: if_split_asm)

section \<open>The parts of an import\<close>

lemma exists_row_upd:
  assumes "\<And>r. P (f r) = P r"
  shows "exists_row P (upd_where Q f t) = exists_row P t"
  using assms by (auto simp: exists_row_def upd_where_def)

lemma wp_import_preconditions:
  assumes "keyed s" and "schedule_of s cp sid a" and "step_of s sid pid p" and "attempt_of s sid aid b"
    and "att_step_id b = pid" and "att_state b = OPEN" and "stp_state p = AWAITING_RETURN"
    and "storable_opt MAX_DECLARED_REF_LENGTH (raw_declared_output_ref raw)"
  shows "wp (import_preconditions cp sid pid aid raw) Q s = Q p s"
  using assms(5-7) storable_optD [OF assms(8)]
  by (auto simp: import_preconditions_def wp_simps wp_reads(2) [OF assms(1,2)] wp_reads(4) [OF assms(1-3)]
      wp_reads(7) [OF assms(1,2,4)])

lemma wp_create_result:
  assumes wf: "wf_store s" and a: "schedule_of s cp sid a" and b: "attempt_of s sid aid b" and p: "p \<in> set (steps s)"
    and v: "validate_output fl ld dd (stp_output_contract p) (raw_media_type raw) (PyStr (raw_content raw)) = Inr out"
    and st: "storable_return raw d" and n: "int (output_bytes out) \<le> 2147483647"
    and f: "fresh res_id (entropy s (drawn s)) (results s)" "fresh res_attempt_id aid (results s)"
  shows "wp (create_handoff_result cp sid aid (if accepted out then VALIDATED else RESULT_REJECTED)
      (stp_output_contract p) out (raw_declared_output_ref raw)) Q s =
    Q (result_row (entropy s (drawn s)) aid (stp_output_contract p) (raw_declared_output_ref raw) out)
      (s\<lparr>drawn := Suc (drawn s), results := results s @
         [result_row (entropy s (drawn s)) aid (stp_output_contract p) (raw_declared_output_ref raw) out]\<rparr>)"
proof -
  let ?r = "result_row (entropy s (drawn s)) aid (stp_output_contract p) (raw_declared_output_ref raw) out"
  have "step_row_ok p = None" using wf p by (simp add: wf_store_def wf_steps_def rows_ok_def)
  then have contract: "text_col MAX_REF_LENGTH (stp_output_contract p) = None" "sql_not_blank (stp_output_contract p)"
    by (simp_all add: step_row_ok_def first_some_None)
  note fields = verdict_fields [OF v]
  have media: "text_col MAX_MEDIA_TYPE_LENGTH (media_type out) = None" "sql_not_blank (media_type out)"
    using st fields storable_textD by (auto simp: storable_return_def simp del: text_col_None)
  have ref: "opt_text_col MAX_DECLARED_REF_LENGTH (raw_declared_output_ref raw) = None"
    using st storable_optD by (auto simp: storable_return_def simp del: opt_text_col_None)
  have hex: "length (output_sha256 out) = 64" "text_col 64 (output_sha256 out) = None" "sql_hex64 (output_sha256 out)"
    using hex64_col fields by (auto simp del: text_col_None)
  have "result_row_ok ?r = None"
    using contract media ref hex n verdict_codes_stored [OF v]
    by (simp add: result_row_ok_def result_row_def first_some_None int_col_def del: text_col_None opt_text_col_None)
  then have "check_result (s\<lparr>drawn := Suc (drawn s)\<rparr>) ?r = None"
    using f b by (auto simp: check_result_def first_some_None exists_row_def attempt_of_def result_row_def)
  then show ?thesis
    using verdict_codes_canonical [OF v]
    by (simp add: create_handoff_result_def wp_simps wp_reads(8) [OF wf_keyed [OF wf] a b] Let_def table_updates
        result_row_def)
qed

lemma wp_create_attribution:
  assumes wf: "wf_store s" and a: "schedule_of s cp sid a" and b: "attempt_of s sid aid b" and p: "p \<in> set (steps s)"
    and st: "storable_return raw d"
    and f: "fresh atr_id (entropy s (drawn s)) (attributions s)" "fresh atr_attempt_id aid (attributions s)"
  shows "wp (create_handoff_attribution cp sid aid (stp_role p) (declared_provider_id d) (declared_model_id d)
      (declared_instance_id d) t) Q s =
    Q (attribution_row (entropy s (drawn s)) aid (stp_role p) d t)
      (s\<lparr>drawn := Suc (drawn s), attributions := attributions s @
         [attribution_row (entropy s (drawn s)) aid (stp_role p) d t]\<rparr>)"
proof -
  let ?r = "attribution_row (entropy s (drawn s)) aid (stp_role p) d t"
  have "step_row_ok p = None" using wf p by (simp add: wf_store_def wf_steps_def rows_ok_def)
  then have role: "text_col MAX_ROLE_LENGTH (stp_role p) = None" "sql_not_blank (stp_role p)"
    by (simp_all add: step_row_ok_def first_some_None)
  have ids: "text_col MAX_REF_LENGTH (declared_instance_id d) = None" "sql_not_blank (declared_instance_id d)"
    "opt_text_col MAX_REF_LENGTH (declared_provider_id d) = None" "opt_text_col MAX_REF_LENGTH (declared_model_id d) = None"
    using st storable_textD storable_optD by (auto simp: storable_return_def simp del: text_col_None opt_text_col_None)
  have "attribution_row_ok ?r = None"
    using role ids by (simp add: attribution_row_ok_def attribution_row_def first_some_None del: text_col_None opt_text_col_None)
  then have "check_attribution (s\<lparr>drawn := Suc (drawn s)\<rparr>) ?r = None"
    using f b by (auto simp: check_attribution_def first_some_None exists_row_def attempt_of_def attribution_row_def)
  then show ?thesis
    by (simp add: create_handoff_attribution_def wp_simps wp_reads(8) [OF wf_keyed [OF wf] a b] Let_def table_updates
        attribution_row_def)
qed

lemma wp_set_attempt_state:
  assumes "keyed s" and "schedule_of s cp sid a" and "attempt_of s sid aid b"
  shows "wp (set_attempt_state cp sid aid st) (\<lambda>_. Q) s = Q (with_attempt_state aid st s)"
proof -
  have "att_id b = aid" using assms(3) by (simp add: attempt_of_def)
  then show ?thesis
    by (simp add: set_attempt_state_def wp_simps wp_reads(7) [OF assms] with_attempt_state_def table_updates)
qed

lemma get_last_attribution_read:
  assumes "keyed s" and "attempt_of s sid aid b"
  shows "\<exists>x. get_last_attribution_before cp sid pid aid s = (Inr x, s) \<and>
    (\<forall>r. x = Some r \<longrightarrow> r \<in> set (attributions s) \<and> atr_attempt_id r \<noteq> aid \<and>
       attempt_within s (atr_attempt_id r) pid sid)"
proof -
  let ?ok = "\<lambda>(r, a). att_id a = atr_attempt_id r \<and> att_step_id a = pid \<and> att_schedule_id a = sid \<and> att_id a \<noteq> aid \<and>
      att_created_at a \<le> att_created_at b \<and> owned s cp sid"
  let ?pairs = "sort_key (\<lambda>(r, a). (att_created_at a, att_id a)) (filter ?ok (List.product (attributions s) (attempts s)))"
  have "filter (\<lambda>a. att_id a = aid) (attempts s) = [b]"
    by (rule filter_key_row [where k = att_id]) (use assms in \<open>auto simp: keyed_def attempt_of_def\<close>)
  then have run: "get_last_attribution_before cp sid pid aid s =
      (Inr (if ?pairs = [] then None else Some (fst (last ?pairs))), s)"
    by (simp add: get_last_attribution_before_def select_one_def bnd_def gets_def)
  have "fst (last ?pairs) \<in> set (attributions s) \<and> atr_attempt_id (fst (last ?pairs)) \<noteq> aid \<and>
      attempt_within s (atr_attempt_id (fst (last ?pairs))) pid sid" if "?pairs \<noteq> []"
  proof -
    from last_in_set [OF that] have "last ?pairs \<in> set (filter ?ok (List.product (attributions s) (attempts s)))" by simp
    then show ?thesis by (auto simp: attempt_within_def exists_row_def)
  qed
  with run show ?thesis by auto
qed

lemma wp_observe:
  assumes wf: "wf_store s" and a: "schedule_of s cp sid a" and p: "step_of s sid pid p" and b: "attempt_of s sid aid b"
    and step: "att_step_id b = pid" and st: "storable_opt MAX_REF_LENGTH prov"
    and f: "fresh obs_id (entropy s (drawn s)) (observations s)"
  shows "\<exists>obs k. drawn s \<le> k \<and> k \<le> Suc (drawn s) \<and> (\<forall>Q. wp (observar_troca_de_provedor cp sid pid aid prov) (\<lambda>_. Q) s =
    Q (s\<lparr>drawn := k, observations := obs\<rparr>))"
proof -
  have k: "keyed s" using wf by (rule wf_keyed)
  from get_last_attribution_read [OF k b] obtain x where x: "get_last_attribution_before cp sid pid aid s = (Inr x, s)"
    and r: "\<And>r. x = Some r \<Longrightarrow> r \<in> set (attributions s) \<and> atr_attempt_id r \<noteq> aid \<and>
       attempt_within s (atr_attempt_id r) pid sid" by metis
  have read: "wp (get_last_attribution_before cp sid pid aid) Q s = Q x s" for Q
    using x by (simp add: wp_def)
  show ?thesis
  proof (cases "\<exists>r. x = Some r \<and> atr_provider r \<noteq> prov")
    case False
    then have "wp (observar_troca_de_provedor cp sid pid aid prov) (\<lambda>_. Q) s = Q s" for Q
      by (auto simp: observar_troca_de_provedor_def wp_simps read split: option.splits)
    then show ?thesis by (intro exI [of _ "observations s"] exI [of _ "drawn s"]) simp
  next
    case True
    then obtain r where xr: "x = Some r" "atr_provider r \<noteq> prov" by blast
    note r = r [OF xr(1)]
    let ?e = "switch_row (entropy s (drawn s)) sid pid (atr_attempt_id r) aid (atr_provider r) prov (now s)"
    have "attribution_row_ok r = None" using wf r by (simp add: wf_store_def wf_attributions_def rows_ok_def)
    then have "observation_row_ok ?e = None"
      using r xr storable_optD [OF st]
      by (simp add: observation_row_ok_def attribution_row_ok_def switch_row_def first_some_None
          del: text_col_None opt_text_col_None)
    moreover have "attempt_within s aid pid sid" "step_within s pid sid"
      using b step p by (auto simp: attempt_within_def step_within_def exists_row_def attempt_of_def step_of_def)
    ultimately have row: "check_observation (s\<lparr>drawn := Suc (drawn s)\<rparr>) ?e = None"
      using f r by (simp add: check_observation_def first_some_None switch_row_def step_within_def attempt_within_def)
    have "wp (observar_troca_de_provedor cp sid pid aid prov) (\<lambda>_. Q) s =
        Q (s\<lparr>drawn := Suc (drawn s), observations := observations s @ [?e]\<rparr>)" for Q
      using row xr by (simp add: observar_troca_de_provedor_def create_execution_observation_def wp_simps read
          wp_reads(5) [OF k a p] Let_def table_updates switch_row_def database_now_def)
    then show ?thesis by (intro exI [of _ "observations s @ [?e]"] exI [of _ "Suc (drawn s)"]) simp
  qed
qed

lemma wp_complete:
  assumes wf: "wf_store s" and a: "schedule_of s cp sid a" and cp: "storable_text MAX_REF_LENGTH cp"
    and f: "fresh evt_id (entropy s (drawn s)) (events s)"
  shows "\<exists>x y k a'. schedule_of (s\<lparr>schedules := x\<rparr>) cp sid a' \<and>
    (\<forall>Q. wp (complete_if_all_returned cp sid) (\<lambda>_. Q) s = Q (s\<lparr>schedules := x, drawn := k, events := y\<rparr>))"
proof -
  have k: "keyed s" using wf by (rule wf_keyed)
  have all: "wp (all_steps_returned cp sid) Q s = Q (fst (all_steps_returned cp sid s) = Inr True) s" for Q
    by (auto simp: all_steps_returned_def wp_def gets_def)
  show ?thesis
  proof (cases "sch_state a = ACTIVE \<and> fst (all_steps_returned cp sid s) = Inr True")
    case False
    then have "wp (complete_if_all_returned cp sid) (\<lambda>_. Q) s = Q s" for Q
      by (auto simp: complete_if_all_returned_def wp_simps wp_reads(2) [OF k a] all)
    with a show ?thesis
      by (intro exI [of _ "schedules s"] exI [of _ "events s"] exI [of _ "drawn s"] exI [of _ a]) simp
  next
    case True
    let ?e = "event_row (entropy s (drawn s)) sid None EVENT_COMPLETED ALL_STEPS_RETURNED None cp (now s)"
    define s1 where "s1 = with_schedule_state sid COMPLETED s"
    have s1_sel: "drawn s1 = drawn s" "entropy s1 = entropy s" "now s1 = now s" "events s1 = events s"
      by (simp_all add: s1_def with_schedule_state_def)
    have sid: "sch_id a = sid" using a by (simp add: schedule_of_def)
    have "keyed s1" using k by (simp add: keyed_def s1_def with_schedule_state_def map_upd_where)
    moreover have completed_row: "schedule_of s1 cp sid (a\<lparr>sch_state := COMPLETED\<rparr>)"
      using a by (auto simp: schedule_of_def s1_def with_schedule_state_def set_upd_where)
    moreover from calculation(2) have "exists_row (\<lambda>a. sch_id a = sid) (schedules s1)"
      unfolding exists_row_def by (intro bexI [of _ "a\<lparr>sch_state := COMPLETED\<rparr>"]) (simp_all add: schedule_of_def)
    ultimately have ex: "exists_row (\<lambda>a. sch_id a = sid) (schedules s1)" and later: "keyed (s1\<lparr>drawn := Suc (drawn s)\<rparr>)"
      "schedule_of (s1\<lparr>drawn := Suc (drawn s)\<rparr>) cp sid (a\<lparr>sch_state := COMPLETED\<rparr>)"
      by (simp_all add: keyed_def schedule_of_def)
    note get = wp_reads(1) [OF later]
    have set: "wp (set_schedule_state cp sid COMPLETED) (\<lambda>_. Q) s = Q s1" for Q
      using True sid by (simp add: set_schedule_state_def require_schedule_def wp_simps wp_reads(1,2) [OF k a] table_updates s1_def
          with_schedule_state_def E7_1_IMPLEMENTED_SCHEDULE_TRANSITIONS_def)
    have "check_event (s1\<lparr>drawn := Suc (drawn s)\<rparr>) ?e = None"
      using f ex storable_textD [OF cp]
      by (simp add: check_event_def event_row_ok_def first_some_None event_row_def del: text_col_None)
        (simp add: s1_def with_schedule_state_def)
    then have "wp (complete_if_all_returned cp sid) (\<lambda>_. Q) s =
        Q (s1\<lparr>drawn := Suc (drawn s), events := events s @ [?e]\<rparr>)" for Q
      using True by (simp add: complete_if_all_returned_def wp_simps wp_reads(2) [OF k a] all set database_now_def s1_sel get
          create_control_event_def Let_def event_row_def table_updates)
    then show ?thesis
      using completed_row
      by (intro exI [of _ "schedules s1"] exI [of _ "events s @ [?e]"] exI [of _ "Suc (drawn s)"]
          exI [of _ "a\<lparr>sch_state := COMPLETED\<rparr>"])
        (simp add: s1_def with_schedule_state_def schedule_of_def)
  qed
qed

section \<open>Importing\<close>

text \<open>An open attempt of the principal whose step awaits its return, with no verdict yet.\<close>

definition awaits ::
  "store \<Rightarrow> pystr \<Rightarrow> uuid \<Rightarrow> uuid \<Rightarrow> uuid \<Rightarrow> schedule \<Rightarrow> schedule_step \<Rightarrow> handoff_attempt \<Rightarrow> bool" where
  "awaits s cp sid pid aid a p b \<longleftrightarrow> schedule_of s cp sid a \<and> step_of s sid pid p \<and> attempt_of s sid aid b \<and>
     att_step_id b = pid \<and> att_state b = OPEN \<and> stp_state p = AWAITING_RETURN \<and>
     fresh res_attempt_id aid (results s) \<and> fresh atr_attempt_id aid (attributions s)"

text \<open>What an import leaves behind: the verdict, signed, and the attempt closed with it.\<close>

definition judged_as ::
  "store \<Rightarrow> uuid \<Rightarrow> uuid \<Rightarrow> uuid \<Rightarrow> validated_output \<Rightarrow> declared_attribution \<Rightarrow> schedule_step \<Rightarrow> handoff_attempt \<Rightarrow> bool" where
  "judged_as s sid pid aid out d p b \<longleftrightarrow>
     attempt_of s sid aid (b\<lparr>att_state := (if accepted out then CLOSED_OK else CLOSED_REJECTED)\<rparr>) \<and>
     step_of s sid pid (if accepted out then p\<lparr>stp_state := RETURNED\<rparr> else p) \<and>
     (\<exists>r \<in> set (results s). res_attempt_id r = aid \<and> res_sha256 r = output_sha256 out \<and>
        res_status r = (if accepted out then VALIDATED else RESULT_REJECTED)) \<and>
     (\<exists>r \<in> set (attributions s). atr_attempt_id r = aid \<and> atr_instance r = declared_instance_id d)"

lemma attempt_of_attempt_state:
  "attempt_of s sid aid b \<Longrightarrow> attempt_of (with_attempt_state aid st s) sid aid (b\<lparr>att_state := st\<rparr>)"
  by (auto simp: attempt_of_def with_attempt_state_def set_upd_where)

lemma wp_import_return:
  assumes wf: "wf_store s" and w: "awaits s cp sid pid aid a p b" and cp: "storable_text MAX_REF_LENGTH cp"
    and v: "validate_output (float_of rt) (load_depth rt) (dump_depth rt) (stp_output_contract p)
      (raw_media_type raw) (PyStr (raw_content raw)) = Inr out"
    and st: "storable_return raw d" and n: "int (output_bytes out) \<le> 2147483647" and new: "new_draws s 4"
  shows "\<exists>r t. judged_as t sid pid aid out d p b \<and> (\<exists>a'. schedule_of t cp sid a') \<and>
    attempt_within t = attempt_within s \<and> delegations t = delegations s \<and> exec_receipts t = exec_receipts s \<and>
    (\<forall>Q. wp (import_return rt cp sid pid aid raw d) Q s = Q r t)"
proof -
  let ?st = "if accepted out then CLOSED_OK else CLOSED_REJECTED"
  let ?r = "result_row (entropy s (drawn s)) aid (stp_output_contract p) (raw_declared_output_ref raw) out"
  let ?t = "attribution_row (entropy s (Suc (drawn s))) aid (stp_role p) d (now s)"
  define s1 where "s1 = s\<lparr>drawn := Suc (drawn s), results := results s @ [?r]\<rparr>"
  define s2 where "s2 = s1\<lparr>drawn := Suc (drawn s1), attributions := attributions s1 @ [?t]\<rparr>"
  define s3 where "s3 = with_attempt_state aid ?st s2"
  have rows: "schedule_of s cp sid a" "step_of s sid pid p" "attempt_of s sid aid b" "att_step_id b = pid"
    "att_state b = OPEN" "stp_state p = AWAITING_RETURN" "fresh res_attempt_id aid (results s)"
    "fresh atr_attempt_id aid (attributions s)"
    using w by (simp_all add: awaits_def)
  have p: "p \<in> set (steps s)" using rows(2) by (simp add: step_of_def)
  have ids: "fresh res_id (entropy s (drawn s)) (results s)" "fresh atr_id (entropy s (Suc (drawn s))) (attributions s)"
    "fresh obs_id (entropy s (Suc (Suc (drawn s)))) (observations s)"
    "fresh evt_id (entropy s (Suc (Suc (drawn s)))) (events s)"
    "fresh evt_id (entropy s (Suc (Suc (Suc (drawn s))))) (events s)"
    using new by (auto simp: new_draws_def Let_def)
  have ref: "storable_opt MAX_DECLARED_REF_LENGTH (raw_declared_output_ref raw)"
    and prov: "storable_opt MAX_REF_LENGTH (declared_provider_id d)"
    using st by (simp_all add: storable_return_def)
  note pre = wp_import_preconditions [OF wf_keyed [OF wf] rows(1-6) ref]
  have 1: "wp (create_handoff_result cp sid aid (if accepted out then VALIDATED else RESULT_REJECTED)
      (stp_output_contract p) out (raw_declared_output_ref raw)) Q s = Q ?r s1" for Q
    unfolding s1_def by (rule wp_create_result [OF wf rows(1,3) p v st n ids(1) rows(7)])
  have wf1: "wf_store s1"
    by (rule run_wf [OF 1 wfi.keeps_writers(6) wf])
  have r1: "schedule_of s1 cp sid a" "step_of s1 sid pid p" "attempt_of s1 sid aid b" "p \<in> set (steps s1)"
    using rows p by (simp_all add: row_of_defs s1_def)
  have 2: "wp (create_handoff_attribution cp sid aid (stp_role p) (declared_provider_id d) (declared_model_id d)
      (declared_instance_id d) (now s)) Q s1 = Q ?t s2" for Q
    using wp_create_attribution [OF wf1 r1(1,3,4) st, of "now s" Q] ids(2) rows(8) by (simp add: s2_def s1_def)
  have wf2: "wf_store s2"
    by (rule run_wf [OF 2 wfi.keeps_writers(7) wf1])
  have r2: "schedule_of s2 cp sid a" "step_of s2 sid pid p" "attempt_of s2 sid aid b"
    using r1 by (simp_all add: row_of_defs s2_def)
  have 3: "wp (set_attempt_state cp sid aid ?st) (\<lambda>_. Q) s2 = Q s3" for Q
    unfolding s3_def by (rule wp_set_attempt_state [OF wf_keyed [OF wf2] r2(1,3)])
  have wf3: "wf_store s3"
    by (rule run_wf [OF 3 wfi.keeps_set_attempt_state wf2]) simp
  have r3: "schedule_of s3 cp sid a" "step_of s3 sid pid p" "attempt_of s3 sid aid (b\<lparr>att_state := ?st\<rparr>)"
    using r2 attempt_of_attempt_state [OF r2(3), of ?st]
    by (simp_all add: s3_def) (simp_all add: row_of_defs with_attempt_state_def)
  have "fresh obs_id (entropy s3 (drawn s3)) (observations s3)"
    using ids(3) by (simp add: s3_def s2_def s1_def with_attempt_state_def)
  from wp_observe [OF wf3 r3 _ prov this] rows(4) obtain obs k where k: "drawn s3 \<le> k" "k \<le> Suc (drawn s3)"
    and 4: "\<And>Q. wp (observar_troca_de_provedor cp sid pid aid (declared_provider_id d)) (\<lambda>_. Q) s3 =
      Q (s3\<lparr>drawn := k, observations := obs\<rparr>)" by auto
  define s4 where "s4 = s3\<lparr>drawn := k, observations := obs\<rparr>"
  have wf4: "wf_store s4"
    unfolding s4_def by (rule run_wf [OF 4 wfi.keeps_import_services(1) wf3])
  have r4: "schedule_of s4 cp sid a" "step_of s4 sid pid p" "attempt_of s4 sid aid (b\<lparr>att_state := ?st\<rparr>)"
    using r3 by (simp_all add: row_of_defs s4_def)
  have "wp (create_handoff_attribution cp sid aid (stp_role p) (declared_provider_id d) (declared_model_id d)
      (declared_instance_id d) (now s1)) Q s1 = Q ?t s2" for Q
    using 2 by (simp add: s1_def)
  then have head: "wp (import_return rt cp sid pid aid raw d) Q s =
      wp (if accepted out then bnd (set_step_state cp sid pid RETURNED) (\<lambda>_.
          bnd (complete_if_all_returned cp sid) (\<lambda>_. ret RETURNED)) else ret AWAITING_RETURN)
        (\<lambda>e. Q \<lparr>ro_result = ?r, ro_attribution = ?t, ro_attempt_state = ?st, ro_step_state = e\<rparr>) s4" for Q
    by (simp add: import_return_def Let_def wp_bnd wp_lift_sum wp_basic pre v 1 database_now_def 3 4 s4_def)
  have same: "attempt_within s4 = attempt_within s" "delegations s4 = delegations s" "exec_receipts s4 = exec_receipts s"
    by (simp_all add: fun_eq_iff s4_def s3_def s2_def s1_def with_attempt_state_def attempt_within_def exists_row_upd)
  have verdict: "\<exists>r \<in> set (results s4). res_attempt_id r = aid \<and> res_sha256 r = output_sha256 out \<and>
      res_status r = (if accepted out then VALIDATED else RESULT_REJECTED)"
    "\<exists>r \<in> set (attributions s4). atr_attempt_id r = aid \<and> atr_instance r = declared_instance_id d"
    by (auto simp: s4_def s3_def s2_def s1_def with_attempt_state_def result_row_def attribution_row_def)
  show ?thesis
  proof (cases "accepted out")
    case False
    then have run: "wp (import_return rt cp sid pid aid raw d) Q s =
        Q \<lparr>ro_result = ?r, ro_attribution = ?t, ro_attempt_state = ?st, ro_step_state = AWAITING_RETURN\<rparr> s4" for Q
      by (simp add: head wp_basic)
    have "judged_as s4 sid pid aid out d p b"
      using False r4(2,3) verdict by (simp add: judged_as_def)
    then show ?thesis using run r4(1) same by blast
  next
    case True
    define s5 where "s5 = with_step_state pid RETURNED s4"
    have 5: "wp (set_step_state cp sid pid RETURNED) (\<lambda>_. Q) s4 = Q s5" for Q
      unfolding s5_def by (rule wp_set_step_state [OF wf_keyed [OF wf4] r4(1,2)])
    have wf5: "wf_store s5"
      by (rule run_wf [OF 5 wfi.keeps_set_step_state wf4])
    have r5: "schedule_of s5 cp sid a" "step_of s5 sid pid (p\<lparr>stp_state := RETURNED\<rparr>)"
      "attempt_of s5 sid aid (b\<lparr>att_state := ?st\<rparr>)"
      using True r4 step_of_step_state [OF r4(2), of RETURNED]
      by (simp_all add: s5_def) (simp add: row_of_defs with_step_state_def split del: if_split)
    have "drawn s5 = k" "drawn s3 = Suc (Suc (drawn s))" "events s5 = events s" "entropy s5 = entropy s"
      by (simp_all add: s5_def s4_def s3_def s2_def s1_def with_step_state_def with_attempt_state_def)
    moreover from this k have "k = Suc (Suc (drawn s)) \<or> k = Suc (Suc (Suc (drawn s)))" by auto
    ultimately have "fresh evt_id (entropy s5 (drawn s5)) (events s5)" using ids(4,5) by auto
    from wp_complete [OF wf5 r5(1) cp this] obtain x y l a' where
      a': "schedule_of (s5\<lparr>schedules := x\<rparr>) cp sid a'" and 6: "\<And>Q. wp (complete_if_all_returned cp sid) (\<lambda>_. Q) s5 = Q (s5\<lparr>schedules := x, drawn := l, events := y\<rparr>)"
      by blast
    define s6 where "s6 = s5\<lparr>schedules := x, drawn := l, events := y\<rparr>"
    have run: "wp (import_return rt cp sid pid aid raw d) Q s =
        Q \<lparr>ro_result = ?r, ro_attribution = ?t, ro_attempt_state = ?st, ro_step_state = RETURNED\<rparr> s6" for Q
      using True by (simp add: head wp_simps 5 6 s6_def)
    have "\<exists>a'. schedule_of s6 cp sid a'" using a' by (auto simp: schedule_of_def s6_def)
    moreover have "judged_as s6 sid pid aid out d p b"
      using True r5 verdict by (simp add: judged_as_def row_of_defs s6_def) (simp add: s5_def with_step_state_def)
    moreover have "attempt_within s6 = attempt_within s4" "delegations s6 = delegations s4" "exec_receipts s6 = exec_receipts s4"
      by (simp_all add: fun_eq_iff s6_def s5_def with_step_state_def attempt_within_def)
    ultimately show ?thesis using run same by metis
  qed
qed

lemma wp_resposta_import:
  assumes wf: "wf_store s" and a: "schedule_of s cp sid a" and j: "judged_as s sid pid aid out d p b"
    and recibo: "out_outcome_ref recibo = str_uuid aid"
  shows "wp (resposta_import cp sid pid aid recibo) (\<lambda>_. Q) s = Q s"
proof -
  have k: "keyed s" using wf by (rule wf_keyed)
  have o: "owned s cp sid" using a by (auto simp: owned_iff)
  from j obtain p' b' r t where p: "step_of s sid pid p'" and b: "attempt_of s sid aid b'"
    and r: "r \<in> set (results s)" "res_attempt_id r = aid" and t: "t \<in> set (attributions s)" "atr_attempt_id t = aid"
    unfolding judged_as_def by blast
  have i: "attempt_in s aid sid" using b by (auto simp: attempt_in_def exists_row_def attempt_of_def)
  have "filter (\<lambda>r. res_attempt_id r = aid \<and> attempt_in s aid sid \<and> owned s cp sid) (results s) = [r]"
    by (rule filter_key_row [where k = res_attempt_id]) (use k r i o in \<open>auto simp: keyed_def\<close>)
  then have result: "wp (get_handoff_result cp sid aid) R s = R (Some r) s" for R
    by (simp add: get_handoff_result_def select_one_def wp_def)
  have "filter (\<lambda>r. atr_attempt_id r = aid \<and> attempt_in s aid sid \<and> owned s cp sid) (attributions s) = [t]"
    by (rule filter_key_row [where k = atr_attempt_id]) (use k t i o in \<open>auto simp: keyed_def\<close>)
  then have attribution: "wp (get_handoff_attribution cp sid aid) R s = R (Some t) s" for R
    by (simp add: get_handoff_attribution_def select_one_def wp_def)
  show ?thesis
    using recibo by (simp add: resposta_import_def get_attempt_outcome_def query_get_attempt_def wp_simps result attribution
        wp_reads(3) [OF k a p] wp_reads(6) [OF k a b])
qed

lemma import_runs:
  assumes wf: "wf_store s" and def: "deferred_ok s" and w: "awaits s cp sid pid aid a p b"
    and caller: "storable_caller cp key" and u: "unclaimed s cp IMPORT_RETURN key"
    and v: "validate_output (float_of rt) (load_depth rt) (dump_depth rt) (stp_output_contract p)
      (raw_media_type raw) (PyStr (raw_content raw)) = Inr out"
    and st: "storable_return raw d" and n: "int (output_bytes out) \<le> 2147483647" and new: "new_draws s 5"
  shows "wp (importar_retorno rt cp key sid pid aid raw d) (\<lambda>_ t. judged_as t sid pid aid out d p b) s"
proof -
  have cp: "storable_text MAX_REF_LENGTH cp" using caller by (simp add: storable_caller_def)
  obtain bs where bs: "utf8 (raw_content raw) = Some bs" using st by (auto simp: storable_return_def)
  let ?d = "sha256_hex bs"
  have dig: "digest_de_conteudo (raw_content raw) = Inr ?d" using bs by (simp add: digest_de_conteudo_def sha256_text_def)
  from fingerprint_encodable [OF import_payload_encodable [OF st hex_encodable], of ?d sid pid aid] obtain fp
    where fp: "impressao_digital (import_payload sid pid aid raw d ?d) = Inr fp" "sql_hex64 fp" by auto
  define s1 where "s1 = s\<lparr>drawn := Suc (drawn s), commands := commands s @ [claimed s cp IMPORT_RETURN key fp aid]\<rparr>"
  have f: "fresh cmd_id (entropy s (drawn s)) (commands s)" using new by (simp add: new_draws_def Let_def)
  have wf1: "wf_store s1" unfolding s1_def by (rule wf_claimed [OF wf caller fp(2) u f])
  have def1: "deferred_ok s1" using def deferred_untouched [of s1 s] by (simp add: s1_def)
  have w1: "awaits s1 cp sid pid aid a p b" using w by (simp add: awaits_def row_of_defs s1_def)
  have "new_draws (s\<lparr>next_object := next_object s, emitted := emitted s, drawn := Suc (drawn s + 0),
      commands := commands s @ [claimed s cp IMPORT_RETURN key fp aid]\<rparr>) 4"
    by (rule new_draws_claimed) (use new in \<open>simp_all add: claimed_def\<close>)
  then have new1: "new_draws s1 4" by (simp add: s1_def)
  from wp_import_return [OF wf1 w1 cp v st n new1] obtain r t where
    t: "judged_as t sid pid aid out d p b" "\<exists>a'. schedule_of t cp sid a'" "attempt_within t = attempt_within s1"
      "delegations t = delegations s1" "exec_receipts t = exec_receipts s1"
    and run: "\<And>Q. wp (import_return rt cp sid pid aid raw d) Q s1 = Q r t"
    by (elim exE conjE) (rule that, (assumption | erule spec | (rule exI, assumption))+)
  have wft: "wf_store t" by (rule run_wf [OF run wfi.keeps_import_services(2) wf1])
  have deft: "deferred_ok t" using def1 t(3-5) by (simp add: deferred_ok_def)
  have exec: "wp (executar_uma_vez cp IMPORT_RETURN key (str_uuid aid) fp ef) Q s = wp ef (\<lambda>x. Q (\<lparr>out_receipt_id =
        entropy s (drawn s), out_technical_principal_ref = cp, out_operation = IMPORT_RETURN,
        out_command_key = key, out_outcome_ref = str_uuid aid, out_replayed = False\<rparr>, Some x)) s1"
    for ef :: "return_outcome db" and Q
    unfolding s1_def by (rule wp_executar_uma_vez [OF caller fp(2) u f])
  from t(2) obtain a' where a': "schedule_of t cp sid a'" by blast
  have answer: "wp (resposta_import cp sid pid aid recibo) (\<lambda>_. Q) t = Q t" if "out_outcome_ref recibo = str_uuid aid" for recibo Q
    by (rule wp_resposta_import [OF wft a' t(1) that])
  have "wp (bnd (import_return_once rt cp key sid pid aid raw d) (\<lambda>(recibo, _). resposta_import cp sid pid aid recibo))
      (\<lambda>_ u. deferred_ok u \<and> judged_as u sid pid aid out d p b) s"
    by (simp add: import_return_once_def wp_bnd wp_lift_sum dig fp(1) exec run answer deft t(1))
  then show ?thesis unfolding importar_retorno_def by (rule wp_committed)
qed

section \<open>Granting\<close>

lemma pad_dec_ascii: "list_all (\<lambda>c. c < 128) (pad_dec k n)"
proof (induction k n rule: pad_dec.induct)
  case (2 k n)
  have "n mod 10 < 10" by simp
  then have "48 + n mod 10 < 128" by linarith
  with 2 show ?case by simp
qed simp

lemma ascii_marks:
  "list_all (\<lambda>c. c < 128) (if b then [] else 46 # t) \<longleftrightarrow> b \<or> list_all (\<lambda>c. c < (128::nat)) t"
  "list_all (\<lambda>c. c < 128) (if b then [] else 58 # t) \<longleftrightarrow> b \<or> list_all (\<lambda>c. c < (128::nat)) t"
  "(if b then 45 else 43) < (128::nat)"
  "(45::nat) < 128" "(58::nat) < 128" "(84::nat) < 128"
  by simp_all

lemma isoformat_ascii: "list_all (\<lambda>c. c < 128) (isoformat t)"
proof -
  have "list_all (\<lambda>c. c < 128) (iso_wall w)" "list_all (\<lambda>c. c < 128) (iso_offset w)" for w
    by (simp_all only: iso_wall_def iso_offset_def Let_def case_prod_beta list_all_append
        list.pred_inject pad_dec_ascii ascii_marks simp_thms)
  then show ?thesis by (cases t) simp_all
qed

lemma encodable_isoformat [simp]: "encodable (isoformat t)"
  using isoformat_ascii by (auto intro: encodable_ascii simp: list_all_iff)

lemma grant_payload_encodable: "encodable_json (grant_payload sid pid valid_until)"
  by (simp add: grant_payload_def encodable_pys)

definition granted_rows :: "store \<Rightarrow> uuid \<Rightarrow> uuid \<Rightarrow> service_delegation \<Rightarrow> service_delegation list" where
  "granted_rows s sid pid d = revoke_all sid pid GATE_SCOPE_DISPATCH (expire sid pid s) @ [d]"

lemma gate_scope_row: "text_col MAX_SCOPE_LENGTH GATE_SCOPE_DISPATCH = None"
proof -
  have "storable_text MAX_SCOPE_LENGTH GATE_SCOPE_DISPATCH"
    by (simp add: storable_text_iff GATE_SCOPE_DISPATCH_def MAX_SCOPE_LENGTH_def blank_iff is_space_def encodable_pys)
  from storable_textD [OF this] show ?thesis by simp
qed

lemma wp_grant:
  assumes wf: "wf_store s" and a: "schedule_of s cp sid a" and p: "step_of s sid pid p"
    and g: "gate_requirement (stp_constraints p) = Inr (Some g)" and e: "envelope_of_step sid pid p = Inr e"
    and h: "content_sha256 e = Inr h" and cp: "storable_text MAX_REF_LENGTH cp" and f: "fresh dlg_id did (delegations s)"
    and until: "tz_aware u" "now s < instant u"
  shows "wp (grant_delegation cp sid pid u did) Q s =
    Q (delegation_row did sid pid h cp (instant u) (now s))
      (s\<lparr>delegations := granted_rows s sid pid (delegation_row did sid pid h cp (instant u) (now s))\<rparr>)"
proof -
  let ?d = "delegation_row did sid pid h cp (instant u) (now s)"
  define s1 where "s1 = s\<lparr>delegations := expire sid pid s\<rparr>"
  define s2 where "s2 = s1\<lparr>delegations := revoke_all sid pid GATE_SCOPE_DISPATCH (delegations s1)\<rparr>"
  have k: "keyed s" using wf by (rule wf_keyed)
  have k': "keyed (s\<lparr>delegations := ds\<rparr>)" "schedule_of (s\<lparr>delegations := ds\<rparr>) cp sid a"
    "step_of (s\<lparr>delegations := ds\<rparr>) sid pid p" for ds
    using k a p by (simp_all add: keyed_def row_of_defs)
  have k1: "keyed s1" "schedule_of s1 cp sid a" "step_of s1 sid pid p" by (simp_all add: s1_def k' p)
  have k2: "keyed s2" "schedule_of s2 cp sid a" "step_of s2 sid pid p" by (simp_all add: s2_def s1_def k' p)
  have 1: "wp (expire_stale_delegations cp sid pid) (\<lambda>_. Q) s = Q s1" for Q
    by (simp add: expire_stale_delegations_def update_delegations_def wp_simps wp_reads(5) [OF k a p] s1_def expire_def
        expired_at_def [abs_def])
  have 2: "wp (build_envelope_content cp sid pid) Q s1 = Q e s1" for Q
    by (simp add: build_envelope_content_def wp_simps wp_reads(1) [OF k1(1,2)] wp_reads(3) [OF k1] e)
  have 3: "wp (revoke_active_delegations cp sid pid GATE_SCOPE_DISPATCH) (\<lambda>_. Q) s1 = Q s2" for Q
    by (simp add: revoke_active_delegations_def update_delegations_def wp_simps wp_reads(5) [OF k1] s2_def revoke_all_def
        revocable_def [abs_def])
  have now2: "now s2 = now s" by (simp add: s2_def s1_def)
  have ids: "fresh dlg_id did (delegations s2)"
    using f by (simp add: s2_def s1_def fresh_map revoke_all_def expire_def map_upd_where del: set_map)
  have "dlg_triple x \<noteq> (sid, pid, GATE_SCOPE_DISPATCH)"
    if "x \<in> set (revoke_all sid pid GATE_SCOPE_DISPATCH ds)" "dlg_state x = DELEGATION_ACTIVE" for x ds
  proof -
    from that(1) obtain y where y: "x = (if revocable sid pid GATE_SCOPE_DISPATCH y then y\<lparr>dlg_state := REVOKED\<rparr> else y)"
      unfolding revoke_all_def upd_where_def set_map by blast
    with that(2) have "\<not> revocable sid pid GATE_SCOPE_DISPATCH y" by (cases "revocable sid pid GATE_SCOPE_DISPATCH y") simp_all
    moreover from this y have "x = y" by simp
    ultimately show ?thesis using that(2) by (auto simp: revocable_def dlg_triple_def)
  qed
  moreover have "dlg_triple ?d = (sid, pid, GATE_SCOPE_DISPATCH)" by (simp add: dlg_triple_def delegation_row_def)
  ultimately have none: "fresh dlg_triple (dlg_triple ?d) (filter (\<lambda>d. dlg_state d = DELEGATION_ACTIVE) (delegations s2))"
    by (auto simp: fresh_def s2_def)
  note hex = hex64_col [OF content_hash_hex [OF h]] content_hash_hex [OF h]
  have "delegation_row_ok ?d = None"
    using hex storable_textD [OF cp] gate_scope_row
    by (simp add: delegation_row_ok_def delegation_row_def first_some_None del: text_col_None)
  moreover have "step_within s2 pid sid"
    using p by (auto simp: step_within_def exists_row_def step_of_def s2_def s1_def)
  ultimately have row: "check_delegation s2 ?d = None"
    using ids none by (simp add: check_delegation_def first_some_None) (simp add: delegation_row_def)
  have 4: "wp (create_delegation cp did sid pid h GATE_SCOPE_DISPATCH cp (instant u)) Q s2 =
      Q ?d (s\<lparr>delegations := granted_rows s sid pid ?d\<rparr>)" for Q
    using row by (simp add: create_delegation_def wp_simps wp_reads(5) [OF k2] Let_def table_updates delegation_row_def now2
        granted_rows_def) (simp add: s2_def s1_def)
  show ?thesis
    using until g by (simp add: grant_delegation_def wp_simps wp_reads(2) [OF k a] wp_reads(4) [OF k a p] 1 2 3 4 h
        database_now_def)
qed

lemma granted_consumed:
  assumes "d \<in> set (granted_rows s sid pid x)" and "dlg_consumed_by x = None" and "dlg_consumed_by d \<noteq> None"
  shows "\<exists>e \<in> set (delegations s). dlg_consumed_by e = dlg_consumed_by d \<and> dlg_step_id e = dlg_step_id d \<and>
    dlg_schedule_id e = dlg_schedule_id d"
  using assms
  by (auto simp: granted_rows_def revoke_all_def expire_def upd_where_def split: if_split_asm intro: rev_bexI)

lemma grant_runs:
  assumes wf: "wf_store s" and def: "deferred_ok s" and a: "schedule_of s cp sid a" and p: "step_of s sid pid p"
    and g: "gate_requirement (stp_constraints p) = Inr (Some g)" and e: "envelope_of_step sid pid p = Inr e"
    and h: "content_sha256 e = Inr h" and caller: "storable_caller cp key" and u: "unclaimed s cp GRANT_DELEGATION key"
    and until: "tz_aware v" "now s < instant v" and new: "new_draws s 2"
  shows "\<exists>fp. wp (conceder_delegacao cp key sid pid v) (\<lambda>_ t. t =
    s\<lparr>commands := commands s @ [claimed (s\<lparr>drawn := Suc (drawn s)\<rparr>) cp GRANT_DELEGATION key fp (entropy s (drawn s))],
      delegations := granted_rows s sid pid (delegation_row (entropy s (drawn s)) sid pid h cp (instant v) (now s)),
      drawn := drawn s + 2\<rparr>) s"
proof -
  define did where "did = entropy s (drawn s)"
  let ?d = "delegation_row did sid pid h cp (instant v) (now s)"
  from fingerprint_encodable [OF grant_payload_encodable] obtain fp
    where fp: "impressao_digital (grant_payload sid pid v) = Inr fp" "sql_hex64 fp" by blast
  have delegation_unused: "dlg_consumed_by ?d = None" by (simp add: delegation_row_def)
  define s1 where "s1 = s\<lparr>drawn := Suc (drawn s)\<rparr>"
  define s2 where "s2 = s1\<lparr>drawn := Suc (drawn s1), commands := commands s1 @ [claimed s1 cp GRANT_DELEGATION key fp did]\<rparr>"
  define s3 where "s3 = s2\<lparr>delegations := granted_rows s2 sid pid ?d\<rparr>"
  have cp: "storable_text MAX_REF_LENGTH cp" using caller by (simp add: storable_caller_def)
  have ids: "fresh cmd_id (entropy s (Suc (drawn s))) (commands s)" "fresh dlg_id did (delegations s)"
    using new by (auto simp: new_draws_def Let_def did_def)
  have exec: "wp (executar_uma_vez cp GRANT_DELEGATION key (str_uuid did) fp ef) Q s1 = wp ef (\<lambda>x. Q (\<lparr>out_receipt_id =
        entropy s1 (drawn s1), out_technical_principal_ref = cp, out_operation = GRANT_DELEGATION,
        out_command_key = key, out_outcome_ref = str_uuid did, out_replayed = False\<rparr>, Some x)) s2"
    for ef :: "service_delegation db" and Q
    unfolding s2_def by (rule wp_executar_uma_vez [OF caller fp(2)]) (use u ids in \<open>simp_all add: unclaimed_def s1_def\<close>)
  have wf2: "wf_store s2"
    unfolding s2_def by (rule wf_claimed [OF _ caller fp(2)]) (use wf u ids in \<open>simp_all add: unclaimed_def s1_def\<close>)
  have rows2: "schedule_of s2 cp sid a" "step_of s2 sid pid p" using a p by (simp_all add: row_of_defs s2_def s1_def)
  have grant: "wp (grant_delegation cp sid pid v did) Q s2 = Q ?d s3" for Q
    using wp_grant [OF wf2 rows2 g e h cp, of did v Q] ids(2) until by (simp add: s3_def s2_def s1_def)
  have wf3: "wf_store s3" by (rule run_wf [OF grant wfi.keeps_control_services(5) wf2])
  have "distinct (map dlg_id (delegations s3))"
    using wf3 by (simp add: wf_store_def wf_delegations_def rows_ok_def)
  then have "filter (\<lambda>d. dlg_id d = did \<and> dlg_schedule_id d = sid \<and> owned s3 cp sid) (delegations s3) = [?d]"
    by (rule filter_key_row) (use a in \<open>auto simp: s3_def s2_def s1_def granted_rows_def delegation_row_def owned_def exists_row_def schedule_of_def\<close>)
  then have view: "wp (delegation_view cp sid did) (\<lambda>_. Q) s3 = Q s3" for Q
    by (simp add: delegation_view_def get_delegation_def select_one_def wp_def bnd_def require_some_def ret_def)
  have "deferred_ok s3"
    using def granted_consumed [of _ s2 sid pid ?d] delegation_unused by (fastforce simp: deferred_ok_def s3_def s2_def s1_def attempt_within_def)
  then have "wp (bnd (grant_delegation_once cp key sid pid v) (\<lambda>(recibo, _).
      bnd (parse_outcome recibo) (\<lambda>did. bnd (delegation_view cp sid did) (\<lambda>d. ret (out_replayed recibo, d)))))
      (\<lambda>_ t. deferred_ok t \<and> t = s3) s"
    by (simp add: grant_delegation_once_def wp_simps s1_def [symmetric] did_def [symmetric] fp(1) exec grant parse_outcome_def
        parse_str_uuid view)
  then have "wp (conceder_delegacao cp key sid pid v) (\<lambda>_ t. t = s3) s"
    unfolding conceder_delegacao_def by (rule wp_committed)
  moreover have "s3 = s\<lparr>commands := commands s @ [claimed (s\<lparr>drawn := Suc (drawn s)\<rparr>) cp GRANT_DELEGATION key fp did],
      delegations := granted_rows s sid pid ?d, drawn := drawn s + 2\<rparr>"
    by (simp add: s3_def s2_def s1_def granted_rows_def expire_def expired_at_def [abs_def])
  ultimately show ?thesis unfolding did_def by metis
qed

end
