(* ===== verification/Deferred.thy ===== *)
theory Deferred
  imports Liveness
begin

text \<open>
  The two deferred foreign keys hold in every reachable database: each commit checks them, and a
  rollback restores rows that had passed the check.
\<close>

definition keeps_deferred :: "'a db \<Rightarrow> bool" where
  "keeps_deferred m \<longleftrightarrow> (\<forall>s. deferred_ok s \<longrightarrow> deferred_ok (snd (m s)))"

lemma deferred_rollback: "deferred_ok (rollback s t) = deferred_ok s"
  by (rule deferred_untouched) (simp_all add: rollback_def)

lemma committed_deferred: "keeps_deferred (committed m)"
  by (auto simp: keeps_deferred_def committed_def deferred_rollback split: prod.splits sum.splits)

lemma exportar_deferred: "keeps_deferred (exportar_handoff c cp key sid pid)"
  by (auto simp: keeps_deferred_def exportar_handoff_def deferred_rollback
      split: prod.splits sum.splits option.splits error.splits)

lemma criar_deferred: "keeps_deferred (criar_schedule cp key draft mode)"
  using committed_deferred by (auto simp: criar_schedule_def raise_def keeps_deferred_def)

lemma handle_deferred: "keeps_deferred (handle c rt cp key cl)"
proof -
  have d: "keeps_deferred (discard m) = keeps_deferred m" for m :: "'a db"
    by (simp add: keeps_deferred_def discard_snd)
  show ?thesis
    by (cases cl) (simp_all add: d exportar_deferred criar_deferred committed_deferred importar_retorno_def
        conceder_delegacao_def revogar_delegacao_def registrar_controle_def registrar_parecer_def)
qed

lemma reachable_deferred:
  assumes "reachable c rt s"
  shows "deferred_ok s"
proof -
  from assms obtain s0 where s0: "initial s0" "reaches c rt s0 s" by (auto simp: reachable_def)
  have "deferred_ok (serve c rt n cp key cl t)" if "deferred_ok t" for n cp key cl t
    using handle_deferred [of c rt cp key cl] that deferred_untouched [of "t\<lparr>now := n, emitted := [], next_object := 0\<rparr>" t]
    by (simp add: keeps_deferred_def serve_def request_def)
  with s0(2) show ?thesis
    by (induction rule: reaches.induct) (use s0(1) in \<open>simp_all add: deferred_ok_def initial_def\<close>)
qed

end
