(* ===== verification/Scenario.thy ===== *)
theory Scenario
  imports Reception Deferred
begin

text \<open>
  A concrete run, the input of the witnesses: from empty tables, one principal creates a schedule
  of two steps, the first gated by a delegation and the second also by a human, grants the delegation
  of the first, exports its handoff and imports the return.
\<close>

definition demo_rt :: python_runtime where
  "demo_rt = \<lparr>float_of = (\<lambda>_. NaN), load_depth = 10, dump_depth = 10\<rparr>"

text \<open>The draws: 1, 2, 3 and so on.\<close>

definition demo_entropy :: "nat \<Rightarrow> uuid" where
  "demo_entropy n = (if n < 1000 then Uuid (word_of_nat (Suc n)) else Uuid 0)"

definition demo_empty :: store where
  "demo_empty = \<lparr>schedules = [], steps = [], attempts = [], seals = [], commands = [], results = [],
     attributions = [], delegations = [], events = [], observations = [], opinions = [], profiles = [],
     exec_receipts = [], provider_ids = [], emitted = [], next_object = 0, now = 0,
     entropy = demo_entropy, drawn = 0\<rparr>"

definition demo_gate :: "pystr \<Rightarrow> constraint_pairs" where
  "demo_gate r = [(GATE_KEY_REQUIRED, r), (GATE_KEY_SCOPE, GATE_SCOPE_DISPATCH)]"

definition demo_step :: "pystr \<Rightarrow> step_draft" where
  "demo_step r = \<lparr>draft_role = pys ''author'', draft_instruction_ref = pys ''ref:1'',
     draft_expected_output_contract = OUTPUT_NON_EMPTY_TEXT_V1, draft_context_refs = [],
     draft_constraints = demo_gate r\<rparr>"

definition demo_draft :: schedule_draft where
  "demo_draft = \<lparr>draft_title = pys ''report'', draft_steps =
     [demo_step GATE_REQUIRED_SERVICE_DELEGATION, demo_step GATE_REQUIRED_SERVICE_DELEGATION_AND_HUMAN]\<rparr>"

definition demo_create :: call where
  "demo_create = CallCreate demo_draft MANUAL_HANDOFF"

definition demo_grant :: call where
  "demo_grant = CallGrant (Uuid 1) (Uuid 3) (Aware 100 0)"

definition demo_export :: call where
  "demo_export = CallExport (Uuid 1) (Uuid 3)"

definition demo_raw :: raw_return where
  "demo_raw = \<lparr>raw_media_type = MEDIA_TYPE_TEXT_PLAIN, raw_content = pys ''done'', raw_declared_output_ref = None\<rparr>"

definition demo_declared :: declared_attribution where
  "demo_declared = \<lparr>declared_instance_id = pys ''session'', declared_provider_id = None, declared_model_id = None\<rparr>"

definition demo_import :: call where
  "demo_import = CallImport (Uuid 1) (Uuid 3) (Uuid 8)
     demo_raw demo_declared"

definition demo_created :: store where
  "demo_created = serve production demo_rt 1 (pys ''alice'') (pys ''key'') demo_create demo_empty"

definition demo_granted :: store where
  "demo_granted = serve production demo_rt 2 (pys ''alice'') (pys ''key'') demo_grant demo_created"

definition demo_exported :: store where
  "demo_exported = serve production demo_rt 3 (pys ''alice'') (pys ''key'') demo_export demo_granted"

definition demo_imported :: store where
  "demo_imported = serve production demo_rt 4 (pys ''alice'') (pys ''key'') demo_import demo_exported"

lemma demo_gate_reads:
  assumes "r \<in> GATE_REQUIRED_VALUES"
  shows "gate_requirement (demo_gate r) = Inr (Some \<lparr>required = r, gate_scope = GATE_SCOPE_DISPATCH\<rparr>)"
    and "validate_gate_keys (demo_gate r) = Inr ()"
proof -
  have k: "GATE_KEY_SCOPE \<noteq> GATE_KEY_REQUIRED" "starts_with GATE_KEY_REQUIRED GATE_RESERVED_PREFIX"
    "starts_with GATE_KEY_SCOPE GATE_RESERVED_PREFIX"
    by (simp_all add: gate_defs starts_with_def)
  have s: "GATE_SCOPE_DISPATCH \<in> GATE_SCOPE_VALUES" by (simp add: GATE_SCOPE_VALUES_def)
  show "gate_requirement (demo_gate r) = Inr (Some \<lparr>required = r, gate_scope = GATE_SCOPE_DISPATCH\<rparr>)"
    using assms k s by (simp add: gate_requirement_def demo_gate_def dict_of_def lookup_key_def make_gate_requirement_def)
  show "validate_gate_keys (demo_gate r) = Inr ()"
    using assms k s
    by (simp add: validate_gate_keys_def demo_gate_def dict_of_def lookup_key_def make_gate_requirement_def
        GATE_RESERVED_KEYS_def insert_commute)
qed

lemma demo_gate_pairs:
  assumes "r \<in> GATE_REQUIRED_VALUES"
  shows "canonical_pairs (demo_gate r)"
proof -
  have v: "list_all valid_pair (demo_gate r)"
    using assms by (auto simp: demo_gate_def valid_pair_def valid_text_def gate_defs blank_iff is_space_def max_length_defs)
  have "(GATE_KEY_REQUIRED, x) \<le> (GATE_KEY_SCOPE, y)" "GATE_KEY_REQUIRED \<noteq> GATE_KEY_SCOPE" for x y :: pystr
    by (simp_all add: gate_defs)
  with v demo_gate_reads(2) [OF assms] show ?thesis by (simp add: canonical_pairs_def) (simp add: demo_gate_def)
qed

lemma storable_demo_step:
  assumes "r \<in> GATE_REQUIRED_VALUES"
  shows "storable_step (demo_step r)"
proof -
  have "json_text x = None \<longleftrightarrow> encodable x \<and> 0 \<notin> set x" for x
    by (auto simp: json_text_def encodable_def)
  then have "list_all (\<lambda>kv. pair_col kv = None) (demo_gate r)"
    using assms by (auto simp: demo_gate_def pair_col_def first_some_None gate_defs encodable_pys)
  moreover have "storable_text MAX_ROLE_LENGTH (pys ''author'')" "storable_text MAX_REF_LENGTH (pys ''ref:1'')"
    by (simp_all add: storable_text_iff encodable_pys blank_iff is_space_def max_length_defs)
  ultimately show ?thesis
    using demo_gate_pairs [OF assms]
    by (simp add: storable_step_def demo_step_def SUPPORTED_OUTPUT_CONTRACTS_def)
qed

lemma gate_values: "GATE_REQUIRED_SERVICE_DELEGATION \<in> GATE_REQUIRED_VALUES"
  "GATE_REQUIRED_SERVICE_DELEGATION_AND_HUMAN \<in> GATE_REQUIRED_VALUES"
  by (simp_all add: GATE_REQUIRED_VALUES_def)

lemma storable_demo_draft: "storable_draft demo_draft"
proof -
  have "storable_text MAX_TITLE_LENGTH (pys ''report'')"
    by (simp add: storable_text_iff encodable_pys blank_iff is_space_def max_length_defs)
  then show ?thesis
    using storable_demo_step [OF gate_values(1)] storable_demo_step [OF gate_values(2)]
    by (simp add: storable_draft_def demo_draft_def)
qed

lemma demo_valid: "valid_call demo_create" "valid_call demo_export" "valid_call demo_import" "valid_call demo_grant"
  by (simp_all add: demo_create_def demo_export_def demo_import_def demo_grant_def storable_valid [OF storable_demo_draft])

lemma demo_start: "reachable production demo_rt demo_empty"
  unfolding reachable_def by (intro exI [of _ demo_empty] conjI reaches.start) (simp add: initial_def demo_empty_def)

lemma reachable_serve: "reachable c rt s \<Longrightarrow> valid_call cl \<Longrightarrow> reachable c rt (serve c rt n cp key cl s)"
  unfolding reachable_def by (blast intro: reaches.serve)

lemma demo_reachable:
  "reachable production demo_rt demo_created" "reachable production demo_rt demo_exported"
  "reachable production demo_rt demo_imported" "reachable production demo_rt demo_granted"
  unfolding demo_imported_def demo_exported_def demo_granted_def demo_created_def
  by (intro reachable_serve demo_start demo_valid)+

text \<open>What the creation leaves: it succeeds, and the rows are the ones the draft asks for.\<close>

lemma serve_wp:
  assumes "wp (handle c rt cp key cl) (\<lambda>_ u. u = t) (s\<lparr>now := n, emitted := [], next_object := 0\<rparr>)"
  shows "serve c rt n cp key cl s = t" "fst (request n (handle c rt cp key cl) s) = Inr ()"
  using assms by (auto simp: wp_def serve_def request_def)

lemma demo_caller: "storable_caller (pys ''alice'') (pys ''key'')"
  by (simp add: storable_caller_def storable_text_iff encodable_pys blank_iff is_space_def max_length_defs
      MAX_COMMAND_KEY_LENGTH_def)

abbreviation demo_request :: "int \<Rightarrow> store \<Rightarrow> store" where
  "demo_request n s \<equiv> s\<lparr>now := n, emitted := [], next_object := 0\<rparr>"

lemma demo_entropy_unat: "unat (uuid_word (demo_entropy x)) = (if x < 1000 then Suc x else 0)"
proof (cases "x < 1000")
  case True
  moreover have "(1000::nat) < 2 ^ 128" by simp
  ultimately have "Suc x < 2 ^ 128" by linarith
  then have "unat (word_of_nat (Suc x) :: 128 word) = Suc x" by (simp add: unat_of_nat del: of_nat_Suc)
  with True show ?thesis by (simp add: demo_entropy_def del: of_nat_Suc)
qed (simp add: demo_entropy_def)

lemma demo_entropy_eq: "x < 1000 \<Longrightarrow> demo_entropy x = demo_entropy y \<longleftrightarrow> x = y"
proof
  assume "x < 1000" "demo_entropy x = demo_entropy y"
  then have "Suc x = (if y < 1000 then Suc y else 0)"
    using demo_entropy_unat [of x] demo_entropy_unat [of y] by metis
  then show "x = y" by (cases "y < 1000") simp_all
qed simp

lemma demo_entropy_inj: "j \<le> 1000 \<Longrightarrow> inj_on demo_entropy {i..<j}"
  by (rule inj_onI) (metis atLeastLessThan_iff demo_entropy_eq order_less_le_trans)

lemma demo_creation:
  obtains h where "demo_created = creation (demo_request 1 demo_empty) (pys ''alice'') (pys ''key'') demo_draft
      MANUAL_HANDOFF h"
    and "fst (request 1 (handle production demo_rt (pys ''alice'') (pys ''key'') demo_create) demo_empty) = Inr ()"
proof -
  have wf: "wf_store (demo_request 1 demo_empty)"
    by (simp add: demo_empty_def wf_store_def wf_defs rows_ok_def unique_where_def)
  have inj: "inj_on demo_entropy {0..<2 + length (draft_steps demo_draft)}"
    by (rule demo_entropy_inj) (simp add: demo_draft_def)
  obtain h where "wp (criar_schedule (pys ''alice'') (pys ''key'') demo_draft MANUAL_HANDOFF)
      (\<lambda>_ t. t = creation (demo_request 1 demo_empty) (pys ''alice'') (pys ''key'') demo_draft MANUAL_HANDOFF h)
      (demo_request 1 demo_empty)"
    using creation_runs [OF wf _ storable_demo_draft _ demo_caller, of MANUAL_HANDOFF] inj
    by (auto simp: deferred_ok_def EXECUTABLE_HANDOFF_MODES_def unclaimed_def new_draws_def fresh_def demo_empty_def)
  then have "wp (handle production demo_rt (pys ''alice'') (pys ''key'') demo_create)
      (\<lambda>_ t. t = creation (demo_request 1 demo_empty) (pys ''alice'') (pys ''key'') demo_draft MANUAL_HANDOFF h)
      (demo_request 1 demo_empty)"
    by (simp add: demo_create_def discard_def wp_simps)
  with that show thesis unfolding demo_created_def by (blast dest: serve_wp)
qed

lemma demo_uuid: "Uuid 1 = demo_entropy 0" "Uuid 3 = demo_entropy 2" "Uuid 4 = demo_entropy 3" "Uuid 5 = demo_entropy 4"
  "Uuid 2 = demo_entropy 1" "Uuid 8 = demo_entropy 7"
  by (simp_all add: demo_entropy_def)

definition demo_schedule :: schedule where
  "demo_schedule = \<lparr>sch_id = Uuid 1, sch_title = pys ''report'', sch_state = ACTIVE,
     sch_mode = MANUAL_HANDOFF, sch_owner = pys ''alice''\<rparr>"

definition demo_row :: schedule_step where
  "demo_row = row_of_draft (Uuid 3) (Uuid 1) 1 (demo_step GATE_REQUIRED_SERVICE_DELEGATION)
     (demo_gate GATE_REQUIRED_SERVICE_DELEGATION)"

definition demo_human_row :: schedule_step where
  "demo_human_row = row_of_draft (Uuid 4) (Uuid 1) 2 (demo_step GATE_REQUIRED_SERVICE_DELEGATION_AND_HUMAN)
     (demo_gate GATE_REQUIRED_SERVICE_DELEGATION_AND_HUMAN)"

lemma demo_ids: "sch_id demo_schedule = Uuid 1" "stp_id demo_row = Uuid 3" "stp_id demo_human_row = Uuid 4"
  "cmd_id (claimed s cp operation key h i) = entropy s (drawn s)"
  by (simp_all add: demo_schedule_def demo_row_def demo_human_row_def row_of_draft_def claimed_def)

lemma demo_created_rows:
  "schedules demo_created = [demo_schedule]" "steps demo_created = [demo_row, demo_human_row]" "attempts demo_created = []"
  "results demo_created = []" "attributions demo_created = []" "delegations demo_created = []"
  "events demo_created = []" "entropy demo_created = demo_entropy" "drawn demo_created = 4" "emitted demo_created = []"
  "\<exists>h. commands demo_created = [claimed (demo_created\<lparr>drawn := 1\<rparr>) (pys ''alice'') CREATE_SCHEDULE (pys ''key'') h (Uuid 1)]"
  "seals demo_created = []" "profiles demo_created = []" "exec_receipts demo_created = []" "observations demo_created = []"
proof -
  obtain h where eq: "demo_created = creation (demo_request 1 demo_empty) (pys ''alice'') (pys ''key'') demo_draft
      MANUAL_HANDOFF h"
    using demo_creation .
  show "schedules demo_created = [demo_schedule]" "attempts demo_created = []"
    "results demo_created = []" "attributions demo_created = []" "delegations demo_created = []"
    "events demo_created = []" "entropy demo_created = demo_entropy" "drawn demo_created = 4" "emitted demo_created = []"
    "seals demo_created = []" "profiles demo_created = []" "exec_receipts demo_created = []" "observations demo_created = []"
    by (simp_all add: eq creation_def demo_empty_def demo_draft_def demo_schedule_def demo_entropy_def)
  show "steps demo_created = [demo_row, demo_human_row]"
    by (simp add: eq creation_def demo_empty_def demo_draft_def demo_row_def demo_human_row_def new_steps_def
        demo_entropy_def) (simp add: demo_step_def numeral_2_eq_2)
  show "\<exists>h. commands demo_created = [claimed (demo_created\<lparr>drawn := 1\<rparr>) (pys ''alice'') CREATE_SCHEDULE (pys ''key'') h (Uuid 1)]"
    by (simp add: eq creation_def demo_empty_def demo_draft_def demo_entropy_def claimed_def)
qed

text \<open>The hash of the first step.\<close>

definition demo_hash :: pystr where
  "demo_hash = projr (content_sha256 (projr (envelope_of_step (Uuid 1) (Uuid 3) demo_row)))"

lemma demo_envelope:
  obtains e where "envelope_of_step (Uuid 1) (Uuid 3) demo_row = Inr e" and "content_sha256 e = Inr demo_hash"
proof -
  let ?g = "demo_gate GATE_REQUIRED_SERVICE_DELEGATION"
  have "canonical_constraints (py_pairs ?g) = Inr ?g"
    using demo_gate_pairs [OF gate_values(1)] by simp
  moreover have "texto_obrigatorio (PyStr (pys ''author'')) MAX_ROLE_LENGTH = Inr (pys ''author'')"
    "texto_obrigatorio (PyStr (pys ''ref:1'')) MAX_REF_LENGTH = Inr (pys ''ref:1'')"
    "texto_obrigatorio (PyStr OUTPUT_NON_EMPTY_TEXT_V1) MAX_REF_LENGTH = Inr OUTPUT_NON_EMPTY_TEXT_V1"
    "texto_obrigatorio (PyStr ENVELOPE_VERSION) MAX_ENVELOPE_VERSION_LENGTH = Inr ENVELOPE_VERSION"
    by (simp_all add: texto_obrigatorio_def check_def blank_iff is_space_def max_length_defs OUTPUT_NON_EMPTY_TEXT_V1_def
        ENVELOPE_VERSION_def MAX_ENVELOPE_VERSION_LENGTH_def)
  ultimately have e: "envelope_of_step (Uuid 1) (Uuid 3) demo_row = Inr \<lparr>env_version = ENVELOPE_VERSION,
      env_schedule_id = Uuid 1, env_step_id = Uuid 3, env_role = pys ''author'', env_instruction_ref = pys ''ref:1'',
      env_context_refs = [], env_expected_output_contract = OUTPUT_NON_EMPTY_TEXT_V1, env_constraints = ?g\<rparr>"
    (is "_ = Inr ?e")
    by (simp add: envelope_of_step_def make_envelope_content_def demo_row_def row_of_draft_def demo_step_def)
  have "encodable_json (as_canonical_mapping ?e)"
    by (simp add: as_canonical_mapping_def constraints_as_mapping_def encodable_pys demo_gate_def gate_defs
        OUTPUT_NON_EMPTY_TEXT_V1_def ENVELOPE_VERSION_def)
  from sha256_encodable [OF encodable_dumps [OF this]] obtain h where "content_sha256 ?e = Inr h"
    unfolding content_sha256_def canonical_json_def by blast
  with e that show thesis by (simp add: demo_hash_def)
qed

lemma demo_valid_gates:
  "gate_requirement (stp_constraints demo_row) =
     Inr (Some \<lparr>required = GATE_REQUIRED_SERVICE_DELEGATION, gate_scope = GATE_SCOPE_DISPATCH\<rparr>)"
  "gate_requirement (stp_constraints demo_human_row) =
     Inr (Some \<lparr>required = GATE_REQUIRED_SERVICE_DELEGATION_AND_HUMAN, gate_scope = GATE_SCOPE_DISPATCH\<rparr>)"
  using demo_gate_reads(1) gate_values by (simp_all add: demo_row_def demo_human_row_def row_of_draft_def)

definition demo_delegation :: service_delegation where
  "demo_delegation = delegation_row (Uuid 5) (Uuid 1) (Uuid 3) demo_hash (pys ''alice'') 100 2"

lemma demo_draws: "n \<le> 900 \<Longrightarrow> inj_on demo_entropy {i..<n}"
  by (rule demo_entropy_inj) simp

lemma demo_granting:
  obtains h h' where "demo_granted = (demo_request 2 demo_created)\<lparr>commands :=
      [claimed (demo_created\<lparr>drawn := 1\<rparr>) (pys ''alice'') CREATE_SCHEDULE (pys ''key'') h (Uuid 1),
       claimed (demo_created\<lparr>drawn := 5\<rparr>) (pys ''alice'') GRANT_DELEGATION (pys ''key'') h' (Uuid 5)],
      delegations := [demo_delegation], drawn := 6\<rparr>"
    and "fst (request 2 (handle production demo_rt (pys ''alice'') (pys ''key'') demo_grant) demo_created) = Inr ()"
proof -
  let ?s = "demo_request 2 demo_created"
  obtain e where e: "envelope_of_step (Uuid 1) (Uuid 3) demo_row = Inr e" "content_sha256 e = Inr demo_hash"
    using demo_envelope .
  obtain h where h: "commands demo_created = [claimed (demo_created\<lparr>drawn := 1\<rparr>) (pys ''alice'') CREATE_SCHEDULE (pys ''key'') h (Uuid 1)]"
    using demo_created_rows(11) by blast
  have wf: "wf_store ?s" using reachable_wf [OF demo_reachable(1)] by (simp add: wf_store_def)
  have rows: "schedule_of ?s (pys ''alice'') (Uuid 1) demo_schedule" "step_of ?s (Uuid 1) (Uuid 3) demo_row"
    by (simp_all add: row_of_defs demo_created_rows demo_schedule_def demo_row_def) (simp_all add: row_of_draft_def)
  have new: "new_draws ?s 2"
    using demo_draws [of 6 4]
    by (auto simp: new_draws_def Let_def fresh_def demo_created_rows h demo_ids demo_uuid demo_entropy_eq)
  have def: "deferred_ok ?s"
    using reachable_deferred [OF demo_reachable(1)] by (simp add: deferred_ok_def attempt_within_def)
  have u: "unclaimed ?s (pys ''alice'') GRANT_DELEGATION (pys ''key'')"
    by (simp add: unclaimed_def demo_created_rows h claimed_def cmd_triple_def)
  from grant_runs [OF wf def rows demo_valid_gates(1) e demo_caller u _ _ new, of "Aware 100 0"] obtain h'
    where run: "wp (conceder_delegacao (pys ''alice'') (pys ''key'') (Uuid 1) (Uuid 3) (Aware 100 0)) (\<lambda>_ t. t =
      ?s\<lparr>commands := commands ?s @ [claimed (?s\<lparr>drawn := Suc (drawn ?s)\<rparr>) (pys ''alice'') GRANT_DELEGATION
          (pys ''key'') h' (entropy ?s (drawn ?s))],
        delegations := granted_rows ?s (Uuid 1) (Uuid 3) (delegation_row (entropy ?s (drawn ?s)) (Uuid 1) (Uuid 3)
          demo_hash (pys ''alice'') (instant (Aware 100 0)) (now ?s)),
        drawn := drawn ?s + 2\<rparr>) ?s"
    by auto
  let ?t = "?s\<lparr>commands :=
      [claimed (demo_created\<lparr>drawn := 1\<rparr>) (pys ''alice'') CREATE_SCHEDULE (pys ''key'') h (Uuid 1),
       claimed (demo_created\<lparr>drawn := 5\<rparr>) (pys ''alice'') GRANT_DELEGATION (pys ''key'') h' (Uuid 5)],
      delegations := [demo_delegation], drawn := 6\<rparr>"
  from run have "wp (handle production demo_rt (pys ''alice'') (pys ''key'') demo_grant) (\<lambda>_ t. t = ?t) ?s"
    by (simp add: demo_grant_def discard_def wp_simps demo_created_rows h granted_rows_def revoke_all_def expire_def
        demo_delegation_def demo_uuid claimed_def)
  with that show thesis unfolding demo_granted_def by (blast dest: serve_wp)
qed

definition demo_attempt :: handoff_attempt where
  "demo_attempt = sealed (Uuid 8) (Uuid 1) (Uuid 3) demo_hash 1 3"

text \<open>The first step may be exported, and what the export leaves.\<close>

lemma demo_exportable:
  "dispatchable demo_granted (pys ''alice'') (Uuid 1) (Uuid 3) demo_schedule demo_row"
  "passes production (demo_granted\<lparr>now := 3\<rparr>) (Uuid 1) (Uuid 3) demo_row demo_hash (Some (Uuid 5))"
  "new_draws demo_granted 7" "unclaimed demo_granted (pys ''alice'') EXPORT_HANDOFF (pys ''key'')"
  "next_number (Uuid 3) demo_granted \<le> 2147483647"
proof -
  obtain h h' where eq: "demo_granted = (demo_request 2 demo_created)\<lparr>commands :=
      [claimed (demo_created\<lparr>drawn := 1\<rparr>) (pys ''alice'') CREATE_SCHEDULE (pys ''key'') h (Uuid 1),
       claimed (demo_created\<lparr>drawn := 5\<rparr>) (pys ''alice'') GRANT_DELEGATION (pys ''key'') h' (Uuid 5)],
      delegations := [demo_delegation], drawn := 6\<rparr>"
    using demo_granting by blast
  show "dispatchable demo_granted (pys ''alice'') (Uuid 1) (Uuid 3) demo_schedule demo_row"
    by (simp add: dispatchable_def row_of_defs eq demo_created_rows demo_ids EXECUTABLE_HANDOFF_MODES_def)
      (simp add: demo_schedule_def demo_row_def demo_human_row_def row_of_draft_def)
  show "passes production (demo_granted\<lparr>now := 3\<rparr>) (Uuid 1) (Uuid 3) demo_row demo_hash (Some (Uuid 5))"
    by (simp add: passes_def demo_valid_gates(1) human_refuses_def requires_human_def eq consumable_def
        demo_delegation_def delegation_row_def) (simp add: gate_defs)
  show "new_draws demo_granted 7"
    using demo_draws [of 13 6]
    by (auto simp: new_draws_def Let_def fresh_def demo_created_rows eq demo_ids demo_uuid demo_entropy_eq
        demo_delegation_def delegation_row_def)
  show "unclaimed demo_granted (pys ''alice'') EXPORT_HANDOFF (pys ''key'')"
    by (simp add: unclaimed_def eq claimed_def cmd_triple_def)
  show "next_number (Uuid 3) demo_granted \<le> 2147483647"
    by (simp add: next_number_def attempts_of_step_def eq demo_created_rows)
qed

lemma demo_exporting:
  obtains h h' fp xid profs where "demo_exported = (delivered ((demo_request 3 demo_granted)\<lparr>commands :=
      [claimed (demo_created\<lparr>drawn := 1\<rparr>) (pys ''alice'') CREATE_SCHEDULE (pys ''key'') h (Uuid 1),
       claimed (demo_created\<lparr>drawn := 5\<rparr>) (pys ''alice'') GRANT_DELEGATION (pys ''key'') h' (Uuid 5),
       claimed (demo_created\<lparr>drawn := 8\<rparr>) (pys ''alice'') EXPORT_HANDOFF (pys ''key'') fp (Uuid 8)],
      delegations := [consumed_row 3 (Uuid 8) demo_delegation]\<rparr>)
      (pys ''alice'') (Uuid 1) (Uuid 3) (Uuid 8) demo_hash (demo_entropy 10) profs
      (manual_receipt xid (pys ''alice'') (Uuid 1) (Uuid 3) (Uuid 8) (demo_entropy 11) 3))
      \<lparr>drawn := 13, next_object := 2, emitted := []\<rparr>"
    and "xid = demo_entropy 12" and "map con_id profs = [demo_entropy 11]"
    and "fst (request 3 (handle production demo_rt (pys ''alice'') (pys ''key'') demo_export) demo_granted) = Inr ()"
proof -
  let ?s = "demo_request 3 demo_granted"
  obtain e where e: "envelope_of_step (Uuid 1) (Uuid 3) demo_row = Inr e" "content_sha256 e = Inr demo_hash"
    using demo_envelope .
  obtain h h' where eq: "demo_granted = (demo_request 2 demo_created)\<lparr>commands :=
      [claimed (demo_created\<lparr>drawn := 1\<rparr>) (pys ''alice'') CREATE_SCHEDULE (pys ''key'') h (Uuid 1),
       claimed (demo_created\<lparr>drawn := 5\<rparr>) (pys ''alice'') GRANT_DELEGATION (pys ''key'') h' (Uuid 5)],
      delegations := [demo_delegation], drawn := 6\<rparr>"
    using demo_granting by blast
  have wf: "wf_store ?s" using reachable_wf [OF demo_reachable(4)] by (simp add: wf_store_def)
  have def: "deferred_ok ?s"
    using reachable_deferred [OF demo_reachable(4)] by (simp add: deferred_ok_def attempt_within_def)
  have d: "dispatchable ?s (pys ''alice'') (Uuid 1) (Uuid 3) demo_schedule demo_row"
    using demo_exportable(1) by (simp add: dispatchable_def row_of_defs)
  have g: "passes production ?s (Uuid 1) (Uuid 3) demo_row demo_hash (Some (Uuid 5))"
    using demo_exportable(2) by (simp add: passes_def)
  have new: "new_draws ?s 7" using demo_exportable(3) by (simp add: new_draws_def)
  have u: "unclaimed ?s (pys ''alice'') EXPORT_HANDOFF (pys ''key'')" using demo_exportable(4) by (simp add: unclaimed_def)
  have n: "next_number (Uuid 3) ?s \<le> 2147483647" "emitted ?s = []"
    using demo_exportable(5) by (simp_all add: next_number_def attempts_of_step_def)
  from export_runs [OF wf def d e g _ demo_caller u n new] obtain fp x profs xid k post
    where x: "has_profile (?s\<lparr>drawn := drawn ?s + 5\<rparr>) (pys ''alice'') x profs k"
      and run: "wp (exportar_handoff production (pys ''alice'') (pys ''key'') (Uuid 1) (Uuid 3)) (\<lambda>_ t. t = post) ?s" and xid: "xid = entropy ?s k"
      and post: "post = (delivered (?s\<lparr>commands := commands ?s @ [claimed (?s\<lparr>drawn := drawn ?s + 2\<rparr>) (pys ''alice'') EXPORT_HANDOFF (pys ''key'') fp
            (entropy ?s (Suc (drawn ?s)))], delegations := consume (Uuid 1) (Uuid 3) demo_hash (now ?s)
              (entropy ?s (Suc (drawn ?s))) (Some (Uuid 5)) (delegations ?s)\<rparr>) (pys ''alice'') (Uuid 1) (Uuid 3)
          (entropy ?s (Suc (drawn ?s))) demo_hash (entropy ?s (drawn ?s + 4)) profs
          (manual_receipt xid (pys ''alice'') (Uuid 1) (Uuid 3) (entropy ?s (Suc (drawn ?s))) (con_id x) (now ?s)))
        \<lparr>drawn := Suc k, next_object := Suc (Suc (next_object ?s)), emitted := []\<rparr>"
    using transport_production by metis
  have x': "k = 12 \<and> con_id x = demo_entropy 11 \<and> map con_id profs = [demo_entropy 11]"
    using x by (auto simp: has_profile_def eq demo_created_rows manual_profile_def)
  let ?t = "(delivered (?s\<lparr>commands :=
      [claimed (demo_created\<lparr>drawn := 1\<rparr>) (pys ''alice'') CREATE_SCHEDULE (pys ''key'') h (Uuid 1),
       claimed (demo_created\<lparr>drawn := 5\<rparr>) (pys ''alice'') GRANT_DELEGATION (pys ''key'') h' (Uuid 5),
       claimed (demo_created\<lparr>drawn := 8\<rparr>) (pys ''alice'') EXPORT_HANDOFF (pys ''key'') fp (Uuid 8)],
      delegations := [consumed_row 3 (Uuid 8) demo_delegation]\<rparr>)
      (pys ''alice'') (Uuid 1) (Uuid 3) (Uuid 8) demo_hash (demo_entropy 10) profs
      (manual_receipt xid (pys ''alice'') (Uuid 1) (Uuid 3) (Uuid 8) (demo_entropy 11) 3))
      \<lparr>drawn := 13, next_object := 2, emitted := []\<rparr>"
  have "consume (Uuid 1) (Uuid 3) demo_hash 3 (Uuid 8) (Some (Uuid 5)) [demo_delegation] =
      [consumed_row 3 (Uuid 8) demo_delegation]"
    by (simp add: consume_def upd_where_def consumable_def demo_delegation_def delegation_row_def)
  moreover have "entropy ?s = demo_entropy" "drawn ?s = 6" "now ?s = 3" "next_object ?s = 0" "delegations ?s = [demo_delegation]"
    "demo_entropy (Suc 6) = Uuid 8"
    by (simp_all add: eq demo_created_rows) (simp add: demo_entropy_def)
  moreover have "commands ?s @ [claimed (?s\<lparr>drawn := 6 + 2\<rparr>) (pys ''alice'') EXPORT_HANDOFF (pys ''key'') fp (Uuid 8)] =
      [claimed (demo_created\<lparr>drawn := 1\<rparr>) (pys ''alice'') CREATE_SCHEDULE (pys ''key'') h (Uuid 1),
       claimed (demo_created\<lparr>drawn := 5\<rparr>) (pys ''alice'') GRANT_DELEGATION (pys ''key'') h' (Uuid 5),
       claimed (demo_created\<lparr>drawn := 8\<rparr>) (pys ''alice'') EXPORT_HANDOFF (pys ''key'') fp (Uuid 8)]"
    by (simp add: eq claimed_def)
  ultimately have "post = ?t"
    unfolding post using x' by (simp only:) (simp add: numeral_2_eq_2)
  with run have served: "wp (handle production demo_rt (pys ''alice'') (pys ''key'') demo_export) (\<lambda>_ t. t = ?t) ?s"
    by (simp add: demo_export_def discard_def wp_bnd wp_basic)
  show thesis
  proof (rule that)
    show "demo_exported = ?t" unfolding demo_exported_def by (rule serve_wp(1) [OF served])
    show "fst (request 3 (handle production demo_rt (pys ''alice'') (pys ''key'') demo_export) demo_granted) = Inr ()"
      by (rule serve_wp(2) [OF served])
    show "xid = demo_entropy 12" using xid x' by (simp add: eq demo_created_rows)
    show "map con_id profs = [demo_entropy 11]" using x' by simp
  qed
qed

lemma demo_exported_rows:
  "schedules demo_exported = [demo_schedule]"
  "steps demo_exported = [demo_row\<lparr>stp_state := AWAITING_RETURN\<rparr>, demo_human_row]"
  "attempts demo_exported = [demo_attempt]" "delegations demo_exported = [consumed_row 3 (Uuid 8) demo_delegation]"
  "results demo_exported = []" "attributions demo_exported = []" "observations demo_exported = []"
  "events demo_exported = []" "entropy demo_exported = demo_entropy" "drawn demo_exported = 13"
  "seals demo_exported = [receipt (demo_entropy 10) (Uuid 8) demo_hash 3 (pys ''alice'')]"
  "exec_receipts demo_exported =
     [manual_receipt (demo_entropy 12) (pys ''alice'') (Uuid 1) (Uuid 3) (Uuid 8) (demo_entropy 11) 3]"
  "unclaimed demo_exported (pys ''alice'') IMPORT_RETURN (pys ''key'')"
  "map cmd_id (commands demo_exported) = [demo_entropy 1, demo_entropy 5, demo_entropy 8]"
  "map con_id (profiles demo_exported) = [demo_entropy 11]"
proof -
  obtain g g' where granted: "demo_granted = (demo_request 2 demo_created)\<lparr>commands :=
      [claimed (demo_created\<lparr>drawn := 1\<rparr>) (pys ''alice'') CREATE_SCHEDULE (pys ''key'') g (Uuid 1),
       claimed (demo_created\<lparr>drawn := 5\<rparr>) (pys ''alice'') GRANT_DELEGATION (pys ''key'') g' (Uuid 5)],
      delegations := [demo_delegation], drawn := 6\<rparr>"
    using demo_granting by blast
  obtain h h' fp xid profs where eq: "demo_exported = (delivered ((demo_request 3 demo_granted)\<lparr>commands :=
      [claimed (demo_created\<lparr>drawn := 1\<rparr>) (pys ''alice'') CREATE_SCHEDULE (pys ''key'') h (Uuid 1),
       claimed (demo_created\<lparr>drawn := 5\<rparr>) (pys ''alice'') GRANT_DELEGATION (pys ''key'') h' (Uuid 5),
       claimed (demo_created\<lparr>drawn := 8\<rparr>) (pys ''alice'') EXPORT_HANDOFF (pys ''key'') fp (Uuid 8)],
      delegations := [consumed_row 3 (Uuid 8) demo_delegation]\<rparr>)
      (pys ''alice'') (Uuid 1) (Uuid 3) (Uuid 8) demo_hash (demo_entropy 10) profs
      (manual_receipt xid (pys ''alice'') (Uuid 1) (Uuid 3) (Uuid 8) (demo_entropy 11) 3))
      \<lparr>drawn := 13, next_object := 2, emitted := []\<rparr>"
    and new: "xid = demo_entropy 12" "map con_id profs = [demo_entropy 11]"
    and "fst (request 3 (handle production demo_rt (pys ''alice'') (pys ''key'') demo_export) demo_granted) = Inr ()"
    by (rule demo_exporting)
  note rows = eq delivered_def with_step_state_def granted demo_created_rows
  show "schedules demo_exported = [demo_schedule]" by (simp add: rows)
  show "delegations demo_exported = [consumed_row 3 (Uuid 8) demo_delegation]" by (simp add: rows)
  show "results demo_exported = []" "attributions demo_exported = []" "observations demo_exported = []"
    "events demo_exported = []" "entropy demo_exported = demo_entropy" "drawn demo_exported = 13"
    by (simp_all add: rows)
  show "seals demo_exported = [receipt (demo_entropy 10) (Uuid 8) demo_hash 3 (pys ''alice'')]" by (simp add: rows)
  show "exec_receipts demo_exported =
       [manual_receipt (demo_entropy 12) (pys ''alice'') (Uuid 1) (Uuid 3) (Uuid 8) (demo_entropy 11) 3]"
    by (simp add: rows new(1))
  show "map con_id (profiles demo_exported) = [demo_entropy 11]" using new(2) by (simp add: eq delivered_def with_step_state_def)
  show "steps demo_exported = [demo_row\<lparr>stp_state := AWAITING_RETURN\<rparr>, demo_human_row]"
    by (simp add: rows upd_where_def demo_ids)
  show "attempts demo_exported = [demo_attempt]"
    by (simp add: rows demo_attempt_def next_number_def attempts_of_step_def)
  show "unclaimed demo_exported (pys ''alice'') IMPORT_RETURN (pys ''key'')"
    by (simp add: rows unclaimed_def cmd_triple_def claimed_def)
  show "map cmd_id (commands demo_exported) = [demo_entropy 1, demo_entropy 5, demo_entropy 8]"
    by (simp add: rows demo_ids)
qed

text \<open>The verdict on the return: four bytes of text are accepted.\<close>

lemma demo_verdict:
  obtains out where "validate_output (float_of demo_rt) (load_depth demo_rt) (dump_depth demo_rt)
      (stp_output_contract (demo_row\<lparr>stp_state := AWAITING_RETURN\<rparr>)) (raw_media_type demo_raw)
      (PyStr (raw_content demo_raw)) = Inr out" and "accepted out" and "output_bytes out = 4"
proof -
  have "OUTPUT_NON_EMPTY_TEXT_V1 \<noteq> OUTPUT_JSON_OBJECT_V1"
    by (simp add: OUTPUT_NON_EMPTY_TEXT_V1_def OUTPUT_JSON_OBJECT_V1_def)
  then show thesis
    using that by (simp add: utf8_char_def validate_output_def demo_raw_def demo_row_def row_of_draft_def demo_step_def verdict_simps
        CONTRACT_MEDIA_TYPES_def blank_iff is_space_def)
qed

lemma demo_importable:
  "awaits demo_exported (pys ''alice'') (Uuid 1) (Uuid 3) (Uuid 8) demo_schedule (demo_row\<lparr>stp_state := AWAITING_RETURN\<rparr>)
     demo_attempt"
  "new_draws demo_exported 5" "storable_return demo_raw demo_declared"
proof -
  show "awaits demo_exported (pys ''alice'') (Uuid 1) (Uuid 3) (Uuid 8) demo_schedule (demo_row\<lparr>stp_state := AWAITING_RETURN\<rparr>)
     demo_attempt"
    by (simp add: awaits_def row_of_defs demo_exported_rows demo_ids demo_attempt_def fresh_def)
      (simp add: demo_schedule_def demo_row_def row_of_draft_def sealed_def)
  show "new_draws demo_exported 5"
    using demo_draws [of 18 13]
    by (auto simp: new_draws_def Let_def fresh_map demo_exported_rows demo_ids demo_uuid demo_entropy_eq
        demo_attempt_def consumed_row_def demo_delegation_def delegation_row_def receipt_def manual_receipt_def
        simp del: set_map)
  show "storable_return demo_raw demo_declared"
    by (simp add: storable_return_def demo_raw_def demo_declared_def storable_opt_def storable_text_iff encodable_pys
        blank_iff is_space_def max_length_defs MEDIA_TYPE_TEXT_PLAIN_def utf8_char_def MAX_MEDIA_TYPE_LENGTH_def)
qed

lemma demo_importing:
  "demo_attempt\<lparr>att_state := CLOSED_OK\<rparr> \<in> set (attempts demo_imported)"
  "demo_row\<lparr>stp_state := RETURNED\<rparr> \<in> set (steps demo_imported)"
  "fst (request 4 (handle production demo_rt (pys ''alice'') (pys ''key'') demo_import) demo_exported) = Inr ()"
proof -
  let ?s = "demo_request 4 demo_exported"
  let ?p = "demo_row\<lparr>stp_state := AWAITING_RETURN\<rparr>"
  obtain out where v: "validate_output (float_of demo_rt) (load_depth demo_rt) (dump_depth demo_rt)
      (stp_output_contract ?p) (raw_media_type demo_raw) (PyStr (raw_content demo_raw)) = Inr out"
    and out: "accepted out" "output_bytes out = 4"
    using demo_verdict .
  have wf: "wf_store ?s" using reachable_wf [OF demo_reachable(2)] by (simp add: wf_store_def)
  have def: "deferred_ok ?s"
    using reachable_deferred [OF demo_reachable(2)] by (simp add: deferred_ok_def attempt_within_def)
  have w: "awaits ?s (pys ''alice'') (Uuid 1) (Uuid 3) (Uuid 8) demo_schedule ?p demo_attempt"
    using demo_importable(1) by (simp add: awaits_def row_of_defs)
  have u: "unclaimed ?s (pys ''alice'') IMPORT_RETURN (pys ''key'')"
    using demo_exported_rows(13) by (simp add: unclaimed_def)
  have new: "new_draws ?s 5" using demo_importable(2) by (simp add: new_draws_def)
  note st = demo_importable(3)
  from import_runs [OF wf def w demo_caller u v st _ new] out have run:
    "wp (importar_retorno demo_rt (pys ''alice'') (pys ''key'') (Uuid 1) (Uuid 3) (Uuid 8) demo_raw demo_declared)
      (\<lambda>_ t. judged_as t (Uuid 1) (Uuid 3) (Uuid 8) out demo_declared ?p demo_attempt) ?s"
    by simp
  then obtain x t where t: "handle production demo_rt (pys ''alice'') (pys ''key'') demo_import ?s = (Inr (), t)"
    "judged_as t (Uuid 1) (Uuid 3) (Uuid 8) out demo_declared ?p demo_attempt"
    unfolding wp_def by (auto simp: demo_import_def discard_def bnd_def ret_def)
  then have s: "demo_imported = t" by (simp add: demo_imported_def serve_def request_def)
  show "fst (request 4 (handle production demo_rt (pys ''alice'') (pys ''key'') demo_import) demo_exported) = Inr ()"
    using t(1) by (simp add: request_def)
  show "demo_attempt\<lparr>att_state := CLOSED_OK\<rparr> \<in> set (attempts demo_imported)"
    "demo_row\<lparr>stp_state := RETURNED\<rparr> \<in> set (steps demo_imported)"
    using t(2) out(1) by (simp_all add: s judged_as_def row_of_defs)
qed

lemma demo_success: "fst (request 1 (handle production demo_rt (pys ''alice'') (pys ''key'') demo_create) demo_empty) = Inr ()"
  using demo_creation by blast

text \<open>Another request under the same key: its title holds a lone surrogate.\<close>

definition demo_other :: call where
  "demo_other = CallCreate (demo_draft\<lparr>draft_title := [55296]\<rparr>) MANUAL_HANDOFF"

lemma demo_other_fingerprint: "fingerprint (pys ''alice'') demo_other = Inl UnicodeEncodeError"
proof -
  define d where "d = demo_draft\<lparr>draft_title := [55296]\<rparr>"
  have "(pys ''title'', JStr (draft_title d)) \<in> set [operation_field CREATE_SCHEDULE, (pys ''title'', JStr (draft_title d)),
      (pys ''execution_mode'', JStr (handoff_mode_value MANUAL_HANDOFF)),
      (pys ''steps'', JList (map draft_payload (draft_steps d)))]"
    by (simp only: list.set insertI1 insertI2)
  moreover have "\<not> encodable (dumps (JStr (draft_title d)))"
    by (simp add: d_def utf8_char_def)
  ultimately have "\<not> encodable (dumps (create_payload d MANUAL_HANDOFF))"
    unfolding create_payload_def by (rule unencodable_field)
  then show ?thesis
    by (simp add: demo_other_def d_def [symmetric] impressao_digital_def sha256_text_def encodable_def)
qed

lemma demo_fingerprint: "fingerprint (pys ''alice'') demo_create \<noteq> Inl UnicodeEncodeError"
  using fingerprint_encodable [OF storable_draft_json [OF storable_demo_draft, of MANUAL_HANDOFF]] by (auto simp: demo_create_def)

lemma demo_unrepeated: "unrepeated (entropy demo_empty) (drawn demo_created)"
proof -
  have "inj_on demo_entropy {..<4}"
    using demo_entropy_inj [of 4 0] by (simp add: atLeast0LessThan)
  moreover have "demo_entropy m \<noteq> demo_entropy n" if "m < 4" "4 \<le> n" for m n
    using demo_entropy_eq [of m n] that by simp
  ultimately show ?thesis
    unfolding unrepeated_def demo_created_rows by (simp add: demo_empty_def)
qed

lemma demo_created_reaches:
  "reaches production demo_rt (serve production demo_rt 1 (pys ''alice'') (pys ''key'') demo_create demo_empty) demo_created"
  unfolding demo_created_def by (rule reaches.start)

lemma demo_fingerprints_differ: "fingerprint (pys ''alice'') demo_other \<noteq> fingerprint (pys ''alice'') demo_create"
  using demo_fingerprint unfolding demo_other_fingerprint by metis

end
