(* ===== verification/Registry.thy ===== *)
theory Registry
  imports Delivery
begin

text \<open>
  The life of one instance of the export service and of its registry of authorizations
  (\<^verbatim>\<open>_autorizacoes_emitidas\<close>): whatever is called on the instance, in whatever order
  and with whatever authorizations, the registry stays within its cap.
\<close>

section \<open>A well-kept registry\<close>

definition within_cap :: "(uuid \<times> dispatch_authorized) list \<Rightarrow> bool" where
  "within_cap em \<longleftrightarrow> length em \<le> MAX_AUTORIZACOES_PENDENTES \<and> distinct (map fst em) \<and>
     (\<forall>(i, a) \<in> set em. da_authorization_id a = i)"

lemma length_update: "length (AList.update k v xs) = (if k \<in> fst ` set xs then length xs else Suc (length xs))"
  using arg_cong [OF update_keys [of k v xs], of length] by simp

lemma length_delete: "k \<in> fst ` set xs \<Longrightarrow> distinct (map fst xs) \<Longrightarrow> Suc (length (AList.delete k xs)) = length xs"
  by (induction xs) auto

lemma length_delete_le: "length (AList.delete k xs) \<le> length xs"
  by (induction xs) auto

lemma set_update_subset: "set (AList.update k v xs) \<subseteq> insert (k, v) (set xs)"
  by (induction xs) auto

lemma set_delete_subset: "set (AList.delete k xs) \<subseteq> set xs"
  by (induction xs) auto

lemma within_cap_Nil: "within_cap []"
  by (simp add: within_cap_def)

lemma within_cap_put:
  "within_cap em \<Longrightarrow> length em < MAX_AUTORIZACOES_PENDENTES \<Longrightarrow>
   within_cap (AList.update (da_authorization_id v) v em)"
  using set_update_subset [of "da_authorization_id v" v em]
  by (auto simp: within_cap_def length_update distinct_update)

lemma within_cap_pop: "within_cap em \<Longrightarrow> within_cap (AList.delete i em)"
  using length_delete_le [of i em] set_delete_subset [of i em]
  by (auto simp: within_cap_def distinct_delete)

lemma within_cap_back:
  assumes "within_cap em" and "map_of em i = Some e"
  shows "within_cap (AList.update i e (AList.delete i em))"
proof -
  have mem: "(i, e) \<in> set em" using assms(2) by (rule map_of_SomeD)
  then have "i \<in> fst ` set em" by force
  then have "Suc (length (AList.delete i em)) = length em"
    using assms(1) by (intro length_delete) (simp_all add: within_cap_def)
  then have "length (AList.delete i em) < MAX_AUTORIZACOES_PENDENTES"
    using assms(1) by (simp add: within_cap_def)
  moreover have "da_authorization_id e = i" using assms(1) mem by (auto simp: within_cap_def)
  ultimately show ?thesis
    using within_cap_put [OF within_cap_pop [OF assms(1)], of i e] by simp
qed

text \<open>Every operation of the orchestration layer keeps the registry within its cap.\<close>

interpretation cap: store_progress "\<lambda>s t. within_cap (emitted s) \<longrightarrow> within_cap (emitted t)"
proof
  show "within_cap (emitted s) \<longrightarrow> within_cap (emitted (s\<lparr>emitted := []\<rparr>))" for s
    by (simp add: within_cap_Nil)
qed (simp_all add: within_cap_put within_cap_pop within_cap_back)

section \<open>An instance of the export service\<close>

text \<open>
  From its construction, with an empty registry, an instance receives calls: preflights, registered
  blocks, exports with or without an authorization, genuine or not. Between the calls, and while the
  session commits, rolls back or sees the commits of others, the tables may change in any way; the
  registry belongs to the instance.
\<close>

inductive service_reach :: "composition \<Rightarrow> store \<Rightarrow> bool" for c where
  built: "emitted s = [] \<Longrightarrow> service_reach c s"
| preflighted: "service_reach c s \<Longrightarrow> service_reach c (snd (preflight c cp sid pid s))"
| blocked: "service_reach c s \<Longrightarrow>
    service_reach c (snd ((register_block c cp sid pid b :: export_outcome db) s))"
| exported: "service_reach c s \<Longrightarrow>
    service_reach c (snd (export_step c aid cp sid pid sealer authorization s))"
| elsewhere: "service_reach c s \<Longrightarrow> emitted t = emitted s \<Longrightarrow> service_reach c t"

lemma service_within_cap: "service_reach c s \<Longrightarrow> within_cap (emitted s)"
proof (induction rule: service_reach.induct)
  case (preflighted s cp sid pid)
  then show ?case using cap.keeps_export_services(1) by (simp add: keeps_def)
next
  case (blocked s cp sid pid b)
  have "keeps (\<lambda>s t. within_cap (emitted s) \<longrightarrow> within_cap (emitted t))
      (register_block c cp sid pid b :: export_outcome db)"
    by (rule cap.keeps_export_services(2))
  with blocked show ?case by (simp add: keeps_def)
next
  case (exported s aid cp sid pid sealer authorization)
  then show ?case using cap.keeps_export_step(2) by (simp add: keeps_def)
qed (simp_all add: within_cap_Nil)

text \<open>A preflight that authorizes had room, and enters its authorization and nothing else.\<close>

lemma registrar_enters:
  assumes "bnd (new_authorization h did first) (\<lambda>a. bnd (registrar_autorizacao a) (\<lambda>a'. ret (Authorized a'))) s
    = (Inr (Authorized a), t)"
  shows "length (emitted s) < MAX_AUTORIZACOES_PENDENTES \<and>
    emitted t = AList.update (da_authorization_id a) a (emitted s)"
  using assms by (auto simp: new_authorization_def registrar_autorizacao_def run_iffs)

lemma preflight_enters:
  assumes "preflight c cp sid pid s = (Inr (Authorized a), t)"
  shows "length (emitted s) < MAX_AUTORIZACOES_PENDENTES \<and>
    emitted t = AList.update (da_authorization_id a) a (emitted s)"
proof -
  from assms obtain p e h g where
    "preflight_guards cp sid pid s = (Inr p, s)" and "build_envelope_content cp sid pid s = (Inr e, s)" and
    "content_sha256 e = Inr h" and "gate_requirement (stp_constraints p) = Inr g" and
    rest: "(case g of
       None \<Rightarrow>
         bnd (new_authorization h None (stp_state p = PENDING)) (\<lambda>a.
         bnd (registrar_autorizacao a) (\<lambda>a'. ret (Authorized a')))
     | Some g \<Rightarrow>
         if human_refuses c g sid pid h
         then ret (Blocked \<lparr>db_reason = HUMAN_GATE_UNAVAILABLE, db_content = Some h\<rparr>)
         else
           bnd (expire_stale_delegations cp sid pid) (\<lambda>_.
           bnd (get_active_delegation cp sid pid (gate_scope g)) (\<lambda>delegacao.
           case delegacao of
             None \<Rightarrow> ret (Blocked \<lparr>db_reason = DELEGATION_MISSING, db_content = Some h\<rparr>)
           | Some d \<Rightarrow>
               if dlg_content_sha256 d \<noteq> h
               then ret (Blocked \<lparr>db_reason = DELEGATION_CONTENT_CHANGED, db_content = Some h\<rparr>)
               else
                 bnd (new_authorization h (Some (dlg_id d)) (stp_state p = PENDING)) (\<lambda>a.
                 bnd (registrar_autorizacao a) (\<lambda>a'. ret (Authorized a')))))) s
       = (Inr (Authorized a), t)"
    by (auto simp: preflight_def Let_def bnd_read [OF unchanged_services(2)]
        bnd_read [OF unchanged_services(3)] bnd_read [OF unchanged_lift_sum] lift_sum_eq_iff)
  show ?thesis
  proof (cases g)
    case None
    with rest show ?thesis using registrar_enters by simp
  next
    case (Some r)
    with rest obtain n u d where "\<not> human_refuses c r sid pid h"
      and x: "expire_stale_delegations cp sid pid s = (Inr n, u)"
      and "get_active_delegation cp sid pid (gate_scope r) u = (Inr (Some d), u)"
      and "dlg_content_sha256 d = h"
      and w: "bnd (new_authorization h (Some (dlg_id d)) (stp_state p = PENDING)) (\<lambda>a.
         bnd (registrar_autorizacao a) (\<lambda>a'. ret (Authorized a'))) u = (Inr (Authorized a), t)"
      by (auto simp: bnd_eq_Inr [of "expire_stale_delegations cp sid pid"]
          bnd_read [OF unchanged_queries(15)] ret_eq_iff split: if_splits option.splits)
    show ?thesis using expire_run [OF x] registrar_enters [OF w] by simp
  qed
qed

section \<open>The cap is reached\<close>

text \<open>
  On a step whose gate is open, \<open>n\<close> preflights fill the registry with \<open>n\<close> authorizations, as long
  as the drawn identities differ.
\<close>

lemma preflights_fill:
  assumes "wf_store s" and d: "dispatchable s cp sid pid a p" and "envelope_of_step sid pid p = Inr e"
    and "content_sha256 e = Inr h" and gate: "passes c s sid pid p h did" and "emitted s = []"
    and "inj_on (entropy s) {drawn s..<drawn s + n}" and "n \<le> MAX_AUTORIZACOES_PENDENTES"
  shows "\<exists>em. service_reach c (s\<lparr>drawn := drawn s + n, next_object := next_object s + n, emitted := em\<rparr>) \<and>
    length em = n \<and> fst ` set em = entropy s ` {drawn s..<drawn s + n}"
  using assms(7,8)
proof (induction n)
  case 0
  have "service_reach c (s\<lparr>drawn := drawn s, next_object := next_object s, emitted := []\<rparr>)"
    by (rule built) simp
  then show ?case by auto
next
  case (Suc n)
  from Suc.prems have "inj_on (entropy s) {drawn s..<drawn s + n}" by (auto intro: inj_on_subset)
  with Suc obtain em where r: "service_reach c (s\<lparr>drawn := drawn s + n, next_object := next_object s + n, emitted := em\<rparr>)"
    (is "service_reach c ?t") and em: "length em = n" "fst ` set em = entropy s ` {drawn s..<drawn s + n}"
    by auto
  have "wf_store ?t" "dispatchable ?t cp sid pid a p" "passes c ?t sid pid p h did"
    using assms(1) d gate by (simp_all add: wf_store_def dispatchable_def row_of_defs passes_def)
  moreover define v where "v = s\<lparr>drawn := drawn s + Suc n, next_object := next_object s + Suc n,
      emitted := AList.update (entropy s (drawn s + n)) (issued ?t h did (stp_state p = PENDING)) em\<rparr>"
  ultimately have "wp (preflight c cp sid pid) (\<lambda>_ u. u = v) ?t"
    using wp_preflight [of ?t cp sid pid a p e h c did "\<lambda>_ u. u = v"] assms(3,4) Suc.prems(2) em(1) by simp
  then have u: "snd (preflight c cp sid pid ?t) = v" by (auto simp: wp_def)
  have new: "entropy s (drawn s + n) \<notin> fst ` set em"
  proof
    assume "entropy s (drawn s + n) \<in> fst ` set em"
    then obtain i where i: "i \<in> {drawn s..<drawn s + n}" and eq: "entropy s (drawn s + n) = entropy s i"
      unfolding em(2) by blast
    from inj_onD [OF Suc.prems(1) eq] i show False by simp
  qed
  have "{drawn s..<drawn s + Suc n} = insert (drawn s + n) {drawn s..<drawn s + n}" by auto
  then have "fst ` set (AList.update (entropy s (drawn s + n)) (issued ?t h did (stp_state p = PENDING)) em) =
      entropy s ` {drawn s..<drawn s + Suc n}"
    using new em(2) by (simp add: update_keys flip: set_map)
  moreover have "length (AList.update (entropy s (drawn s + n)) (issued ?t h did (stp_state p = PENDING)) em) = Suc n"
    using new em(1) by (simp add: length_update)
  ultimately show ?case using preflighted [OF r, of cp sid pid] unfolding u v_def by blast
qed

end
