(* ===== verification/Contracts.thy ===== *)
theory Contracts
  imports Scenario Registry "HOL-Library.Multiset"
begin

text \<open>
  Contracts of single components: the canonical form of constraints and the gate marker inside it,
  verdicts on untrusted returns, audit opinions, the registry of authorizations, the manual
  profile, and what a failed request leaves behind.
\<close>

section \<open>Constraints\<close>

lemma texto_obrigatorio_fails: "texto_obrigatorio v n = Inl e \<Longrightarrow> e = ValueError"
  by (cases v) (auto simp: texto_obrigatorio_def split: if_splits)

lemma constraint_loop_fails: "constraint_loop V itens = Inl e \<Longrightarrow> e = ValueError"
  by (induction V itens rule: constraint_loop.induct)
    (auto simp: run_iffs dest: texto_obrigatorio_fails split: if_splits)

text \<open>The constructor on a list of pairs, as one expression.\<close>

lemma canonical_constraints_pairs:
  "canonical_constraints (py_pairs ps) =
     (if distinct (map fst ps) \<and> list_all valid_pair ps
      then andthen (validate_gate_keys (sort ps)) (\<lambda>_. Inr (sort ps)) else Inl ValueError)"
proof -
  have loop: "constraint_loop {} (map (\<lambda>(k, v). (PyStr k, PyStr v)) ps) =
      (if distinct (map fst ps) \<and> list_all valid_pair ps then Inr ps else Inl ValueError)"
  proof (cases "constraint_loop {} (map (\<lambda>(k, v). (PyStr k, PyStr v)) ps)")
    case (Inl e)
    with constraint_loop_iff [of "{}" "map (\<lambda>(k, v). (PyStr k, PyStr v)) ps" ps] constraint_loop_fails [OF Inl]
    show ?thesis by auto
  next
    case (Inr qs)
    have "inj (\<lambda>(k, v). (PyStr k, PyStr v))" by (auto intro: injI)
    with Inr have "qs = ps" by (auto simp: constraint_loop_iff dest: map_injective)
    with Inr show ?thesis by (auto simp: constraint_loop_iff)
  qed
  then show ?thesis by (simp add: canonical_constraints_def Let_def)
qed

lemma one_pair: "canonical_constraints (py_pairs [(pys ''a'', pys ''2'')]) = Inr [(pys ''a'', pys ''2'')]"
  by (simp add: canonical_constraints_pairs valid_pair_def valid_text_def blank_iff is_space_def max_length_defs
      validate_gate_keys_def starts_with_def gate_defs)

text \<open>
  C24: the order in which constraints are declared does not matter. Two lists of pairs that are permutations of
  each other have the same canonical form, or are refused with the same error.
\<close>

theorem constraints_order_irrelevant:
  fixes ps qs :: constraint_pairs
  assumes "mset ps = mset qs"
  shows "canonical_constraints (py_pairs ps) = canonical_constraints (py_pairs qs)"
proof -
  have "mset (map fst ps) = mset (map fst qs)" using assms by (metis mset_map)
  then have "distinct (map fst ps) = distinct (map fst qs)" by (rule mset_eq_imp_distinct_iff)
  moreover have "list_all valid_pair ps = list_all valid_pair qs"
    using mset_eq_setD [OF assms] by (simp add: list_all_iff)
  moreover have "sort ps = sort qs"
    using assms by (simp add: properties_for_sort)
  ultimately show ?thesis by (simp add: canonical_constraints_pairs)
qed

theorem constraints_order_irrelevant_witness:
  "canonical_constraints (py_pairs [(pys ''b'', pys ''1''), (pys ''a'', pys ''2'')]) =
     canonical_constraints (py_pairs [(pys ''a'', pys ''2''), (pys ''b'', pys ''1'')])"
  by (rule constraints_order_irrelevant) simp

text \<open>
  C25: canonical constraints survive persistence. What the constructor accepts is a fixed point of it, both as the
  list of pairs of a value object and as the JSON object a row stores and a read gives back.
\<close>

theorem constraints_roundtrip:
  assumes "canonical_constraints v = Inr cs"
  shows "canonical_constraints (py_pairs cs) = Inr cs \<and> canonical_constraints (py_mapping cs) = Inr cs"
  using canonical_constraints_canonical [OF assms] by simp

theorem constraints_roundtrip_witness:
  "canonical_constraints (py_mapping [(pys ''a'', pys ''2'')]) = Inr [(pys ''a'', pys ''2'')]"
  using constraints_roundtrip [OF one_pair] by blast

text \<open>
  C26: the value object and the database agree on the gate marker. On pairs with distinct keys, the check of the
  constructor accepts exactly what the \<^verbatim>\<open>CHECK\<close> function of the migration accepts.
\<close>

theorem gate_marker_agrees:
  assumes "distinct (map fst cs)"
  shows "validate_gate_keys cs = Inr () \<longleftrightarrow> gate_marker_is_canonical cs"
proof -
  let ?res = "filter (\<lambda>k. starts_with k GATE_RESERVED_PREFIX) (map fst cs)"
  have card: "length ?res = card (set ?res)"
    using assms by (intro distinct_card [symmetric]) simp
  have two: "length ?res = 2 \<longleftrightarrow> set ?res = GATE_RESERVED_KEYS" if "set ?res \<subseteq> GATE_RESERVED_KEYS"
  proof -
    have "finite GATE_RESERVED_KEYS" "card GATE_RESERVED_KEYS = 2" by (simp_all add: gate_defs)
    with that card show ?thesis by (metis card_subset_eq)
  qed
  have found: "\<exists>r q. map_of cs GATE_KEY_REQUIRED = Some r \<and> map_of cs GATE_KEY_SCOPE = Some q"
    if "set ?res = GATE_RESERVED_KEYS"
  proof -
    have "GATE_KEY_REQUIRED \<in> set ?res" "GATE_KEY_SCOPE \<in> set ?res"
      unfolding that by (simp_all add: GATE_RESERVED_KEYS_def)
    then have "map_of cs GATE_KEY_REQUIRED \<noteq> None" "map_of cs GATE_KEY_SCOPE \<noteq> None"
      by (simp_all add: map_of_eq_None_iff)
    then show ?thesis by blast
  qed
  show ?thesis
  proof (cases "set ?res \<subseteq> GATE_RESERVED_KEYS")
    case False
    then show ?thesis by (auto simp: validate_gate_keys_def gate_marker_is_canonical_def Let_def)
  next
    case sub: True
    show ?thesis
    proof (cases "set ?res = {}")
      case True
      then show ?thesis by (simp add: validate_gate_keys_def gate_marker_is_canonical_def Let_def)
    next
      case False
      then have ne: "?res \<noteq> []" by (metis list.set(1))
      have "validate_gate_keys cs = Inr () \<longleftrightarrow> set ?res = GATE_RESERVED_KEYS \<and>
          (\<exists>r q. map_of cs GATE_KEY_REQUIRED = Some r \<and> map_of cs GATE_KEY_SCOPE = Some q \<and>
             r \<in> GATE_REQUIRED_VALUES \<and> q \<in> GATE_SCOPE_VALUES)"
        using sub False by (auto simp: validate_gate_keys_def Let_def run_iffs dict_of_distinct [OF assms])
      moreover have "gate_marker_is_canonical cs \<longleftrightarrow> set ?res = GATE_RESERVED_KEYS \<and>
          (\<exists>r. map_of cs GATE_KEY_REQUIRED = Some r \<and> r \<in> GATE_REQUIRED_VALUES) \<and>
          map_of cs GATE_KEY_SCOPE = Some GATE_SCOPE_DISPATCH"
        using sub ne two [OF sub] by (auto simp: gate_marker_is_canonical_def Let_def)
      ultimately show ?thesis by (auto simp: GATE_SCOPE_VALUES_def)
    qed
  qed
qed

theorem gate_marker_agrees_witness:
  "validate_gate_keys [(GATE_KEY_REQUIRED, GATE_REQUIRED_SERVICE_DELEGATION)] \<noteq> Inr () \<longleftrightarrow>
     \<not> gate_marker_is_canonical [(GATE_KEY_REQUIRED, GATE_REQUIRED_SERVICE_DELEGATION)]"
  using gate_marker_agrees [of "[(GATE_KEY_REQUIRED, GATE_REQUIRED_SERVICE_DELEGATION)]"] by simp

text \<open>
  C27: reading the gate of accepted constraints never fails, and there is none exactly when no key of the gate is
  present.
\<close>

theorem gate_requirement_total:
  assumes "canonical_constraints v = Inr cs"
  shows "\<exists>g. gate_requirement cs = Inr g \<and>
    (g = None \<longleftrightarrow> filter (\<lambda>k. starts_with k GATE_RESERVED_PREFIX) (map fst cs) = [])"
proof -
  let ?res = "filter (\<lambda>k. starts_with k GATE_RESERVED_PREFIX) (map fst cs)"
  from canonical_constraints_canonical [OF assms]
  have d: "distinct (map fst cs)" and v: "validate_gate_keys cs = Inr ()" by (simp_all add: canonical_pairs_def)
  show ?thesis
  proof (cases "set ?res = {}")
    case True
    then have "GATE_KEY_REQUIRED \<notin> set (map fst cs)"
      using reserved_keys_prefix [of GATE_KEY_REQUIRED] by (auto simp: GATE_RESERVED_KEYS_def filter_empty_conv)
    then have "map_of cs GATE_KEY_REQUIRED = None" by (simp add: map_of_eq_None_iff)
    with True show ?thesis by (simp add: gate_requirement_def dict_of_distinct [OF d])
  next
    case False
    with v show ?thesis
      by (auto simp: validate_gate_keys_def gate_requirement_def Let_def run_iffs dict_of_distinct [OF d]
          filter_empty_conv split: if_splits)
  qed
qed

theorem gate_requirement_total_witness:
  "\<exists>g. gate_requirement [(pys ''a'', pys ''2'')] = Inr g \<and>
    (g = None \<longleftrightarrow> filter (\<lambda>k. starts_with k GATE_RESERVED_PREFIX) (map fst [(pys ''a'', pys ''2'')]) = [])"
  by (rule gate_requirement_total [OF one_pair])

section \<open>Verdicts\<close>

lemma validate_json_verdict:
  assumes "validate_json_object fl ld dd bs media content = Inr out"
  shows "accepted out \<longleftrightarrow> (\<exists>kvs. json_loads fl ld content = Inr (JObj kvs) \<and> dump_check dd (JObj kvs) = None)"
    and "accepted out \<Longrightarrow> validation_codes out = [] \<and> (\<exists>kvs cb. json_loads fl ld content = Inr (JObj kvs) \<and>
      utf8 (dumps (JObj kvs)) = Some cb \<and> output_sha256 out = sha256_hex cb \<and> output_bytes out = length cb)"
    and "\<not> accepted out \<Longrightarrow> output_sha256 out = sha256_hex bs \<and> output_bytes out = length bs \<and>
      validation_codes out = [if json_loads fl ld content = Inl NonCanonicalConstant \<or>
          (\<exists>kvs. json_loads fl ld content = Inr (JObj kvs) \<and> dump_check dd (JObj kvs) = Some DumpNonFinite)
        then CODE_NON_CANONICAL_JSON_NUMBER else CODE_EXPECTED_JSON_OBJECT]"
    and "media_type out = media"
  using assms
  by (auto simp: validate_json_object_def verdict_simps simp del: dumps.simps dump_check.simps
      split: sum.splits scan_error.splits json.splits option.splits dump_error.splits)

text \<open>
  C28: what a verdict says and what it hashes. A return is accepted exactly when its media type is the one of the
  contract and the content is not blank (text contract) or is a JSON object that Python can encode again (object
  contract). An accepted return carries no code; it carries the hash and the size of its own bytes under the text
  contract, and those of the canonical text of the object it holds, never of the text as sent, under the object
  contract. A rejected return carries the hash and the size of the bytes as sent and one code of the vocabulary, the
  one of the first check that fails: contract, media type, content. The media type is the declared one.
\<close>

theorem verdict_accepts_iff:
  assumes "validate_output fl ld dd contract media (PyStr content) = Inr out"
  shows "(accepted out \<longleftrightarrow>
      contract = OUTPUT_NON_EMPTY_TEXT_V1 \<and> media = MEDIA_TYPE_TEXT_PLAIN \<and> \<not> blank content \<or>
      contract = OUTPUT_JSON_OBJECT_V1 \<and> media = MEDIA_TYPE_APPLICATION_JSON \<and>
        (\<exists>kvs. json_loads fl ld content = Inr (JObj kvs) \<and> dump_check dd (JObj kvs) = None)) \<and>
    media_type out = media \<and>
    (\<exists>bs. utf8 content = Some bs \<and>
      (if accepted out then validation_codes out = [] \<and>
         (if contract = OUTPUT_NON_EMPTY_TEXT_V1 then output_sha256 out = sha256_hex bs \<and> output_bytes out = length bs
          else \<exists>kvs cb. json_loads fl ld content = Inr (JObj kvs) \<and> utf8 (dumps (JObj kvs)) = Some cb \<and>
            output_sha256 out = sha256_hex cb \<and> output_bytes out = length cb)
       else output_sha256 out = sha256_hex bs \<and> output_bytes out = length bs \<and>
         (\<exists>c \<in> VALIDATION_CODES. validation_codes out = [c] \<and> c =
            (if contract \<notin> {OUTPUT_NON_EMPTY_TEXT_V1, OUTPUT_JSON_OBJECT_V1} then CODE_UNSUPPORTED_OUTPUT_CONTRACT
             else if CONTRACT_MEDIA_TYPES contract \<noteq> Some media then CODE_MEDIA_TYPE_MISMATCH
             else if contract = OUTPUT_NON_EMPTY_TEXT_V1 then CODE_EXPECTED_NON_EMPTY_TEXT
             else if json_loads fl ld content = Inl NonCanonicalConstant \<or>
               (\<exists>kvs. json_loads fl ld content = Inr (JObj kvs) \<and> dump_check dd (JObj kvs) = Some DumpNonFinite)
             then CODE_NON_CANONICAL_JSON_NUMBER else CODE_EXPECTED_JSON_OBJECT))))"
proof -
  have ne: "OUTPUT_NON_EMPTY_TEXT_V1 \<noteq> OUTPUT_JSON_OBJECT_V1" by (simp add: contract_defs)
  obtain bs where bs: "utf8 content = Some bs"
    using assms by (auto simp: validate_output_def split: option.splits)
  consider (plain) "contract = OUTPUT_NON_EMPTY_TEXT_V1" | (json) "contract = OUTPUT_JSON_OBJECT_V1"
    | (none) "CONTRACT_MEDIA_TYPES contract = None" "contract \<noteq> OUTPUT_NON_EMPTY_TEXT_V1" "contract \<noteq> OUTPUT_JSON_OBJECT_V1"
    by (auto simp: CONTRACT_MEDIA_TYPES_def)
  then show ?thesis
  proof cases
    case plain
    with assms bs show ?thesis
      by (auto simp: validate_output_def CONTRACT_MEDIA_TYPES_def ne verdict_simps split: if_splits)
  next
    case json
    show ?thesis
    proof (cases "media = MEDIA_TYPE_APPLICATION_JSON")
      case True
      with json assms bs have v: "validate_json_object fl ld dd bs media content = Inr out"
        by (simp add: validate_output_def CONTRACT_MEDIA_TYPES_def ne [symmetric])
      show ?thesis
        using validate_json_verdict(1,4) [OF v] validate_json_verdict(2,3) [OF v] json True bs
        by (cases "accepted out") (simp_all add: ne [symmetric] CONTRACT_MEDIA_TYPES_def)
    next
      case False
      with json assms bs ne show ?thesis
        by (auto simp: validate_output_def CONTRACT_MEDIA_TYPES_def verdict_simps)
    qed
  next
    case none
    with assms bs show ?thesis by (auto simp: validate_output_def verdict_simps)
  qed
qed

text \<open>An object sent with a blank between its braces: the hash and the size are those of the text without it.\<close>

theorem verdict_accepts_iff_witness:
  "\<exists>out. validate_output (\<lambda>_. NaN) 5 5 OUTPUT_JSON_OBJECT_V1 MEDIA_TYPE_APPLICATION_JSON (PyStr (pys ''{ }'')) = Inr out \<and>
     accepted out \<and> output_sha256 out = sha256_hex [123, 125] \<and> output_bytes out = 2"
proof -
  let ?out = "\<lparr>accepted = True, media_type = MEDIA_TYPE_APPLICATION_JSON, output_sha256 = sha256_hex [123, 125],
    output_bytes = 2, validation_codes = []\<rparr>"
  have sent: "pys ''{ }'' = [123, 32, 125]" "pys ''{}'' = [123, 125]" by simp_all
  have "scan_value h (Suc 6) 5 [123, 32, 125] = resume [] (hook_pairs h [])" for h
    unfolding scan_value.simps by (simp add: skip_ws_def del: scan_value.simps scan_members.simps)
  then have loads: "json_loads (\<lambda>_. NaN) 5 (pys ''{ }'') = Inr (JObj [])"
    unfolding sent
    by (simp add: json_loads_def json_loads_with_def strict_constants_def skip_ws_def dict_of_pairs_def
        del: scan_value.simps)
  moreover have "utf8 (pys ''{ }'') = Some [123, 32, 125]" unfolding sent by (simp add: utf8_char_def)
  moreover have "dumps (JObj []) = [123, 125]" "dump_check 5 (JObj []) = None"
    by simp_all
  ultimately have run: "validate_output (\<lambda>_. NaN) 5 5 OUTPUT_JSON_OBJECT_V1 MEDIA_TYPE_APPLICATION_JSON
      (PyStr (pys ''{ }'')) = Inr ?out"
    by (simp add: validate_output_def validate_json_object_def CONTRACT_MEDIA_TYPES_def contract_defs aceitar_ok
        utf8_char_def)
  from verdict_accepts_iff [OF this] loads have "output_sha256 ?out = sha256_hex [123, 125] \<and> output_bytes ?out = 2"
    by (simp add: contract_defs utf8_char_def)
  with run show ?thesis by simp
qed

text \<open>
  C29: the validation of an untrusted text always ends, and only two exceptions leave it: the text holds a lone
  surrogate (or, once parsed, so does its canonical form), or the encoder exceeds the recursion limit. In particular
  the fuel of the JSON scanner is never used up.
\<close>

theorem validation_ends:
  "((\<exists>out. validate_output fl ld dd contract media (PyStr content) = Inr out) \<or>
    validate_output fl ld dd contract media (PyStr content) \<in> {Inl UnicodeEncodeError, Inl PyRecursionError}) \<and>
   json_loads fl ld content \<noteq> Inl OutOfFuel"
  using json_loads_fuel [of fl ld content]
  by (auto simp: validate_output_def validate_json_object_def verdict_simps simp del: dumps.simps dump_check.simps
      split: option.splits sum.splits scan_error.splits json.splits dump_error.splits)

section \<open>Failed requests\<close>

lemma committed_failed: "committed m s = (Inl e, t) \<Longrightarrow> scrub t = scrub s"
  by (auto simp: committed_def rollback_def split: prod.splits sum.splits if_splits)

lemma discard_failed: "fst (discard m s) = Inl e \<Longrightarrow> \<exists>t. m s = (Inl e, t) \<and> snd (discard m s) = t"
  by (auto simp: discard_def bnd_def ret_def split: prod.splits sum.splits)

lemma criar_failed: "criar_schedule cp key draft mode s = (Inl e, t) \<Longrightarrow> scrub t = scrub s"
  by (auto simp: criar_schedule_def raise_def dest: committed_failed split: if_splits)

lemma exportar_failed:
  assumes "exportar_handoff c cp key sid pid s = (Inl e, t)" and "\<forall>r. e \<noteq> DispatchBlocked r"
  shows "scrub t = scrub s"
  using assms
  by (auto simp: exportar_handoff_def rollback_def split: prod.splits sum.splits option.splits error.splits if_splits)

text \<open>
  C30: a failed request leaves no trace. Whatever the route, when a request ends in an error other than a blocked
  dispatch, every table holds the rows it held before.
\<close>

theorem failed_request_rolls_back:
  assumes "fst (request n (handle c rt cp key cl) s) = Inl e" and "\<forall>r. e \<noteq> DispatchBlocked r"
  shows "scrub (serve c rt n cp key cl s) = scrub s"
proof -
  let ?s = "s\<lparr>now := n, emitted := [], next_object := 0\<rparr>"
  have "fst (handle c rt cp key cl ?s) = Inl e" using assms(1) by (simp add: request_def)
  then have "scrub (snd (handle c rt cp key cl ?s)) = scrub ?s"
    using assms(2)
    by (cases cl)
      (auto dest!: discard_failed exportar_failed criar_failed simp: importar_retorno_def conceder_delegacao_def
        revogar_delegacao_def registrar_controle_def registrar_parecer_def dest: committed_failed)
  then show ?thesis by (simp add: serve_def request_def)
qed

lemma demo_other_fails:
  "fst (request 2 (handle production demo_rt (pys ''alice'') (pys ''key'') demo_other) s) = Inl UnicodeEncodeError"
proof -
  let ?d = "demo_draft\<lparr>draft_title := [55296]\<rparr>"
  have f: "impressao_digital (create_payload ?d MANUAL_HANDOFF) = Inl UnicodeEncodeError"
    using demo_other_fingerprint by (simp add: demo_other_def)
  have c: "\<not> list_ex (\<lambda>e. draft_expected_output_contract e \<notin> SUPPORTED_OUTPUT_CONTRACTS) (draft_steps ?d)"
    by (simp add: demo_draft_def demo_step_def SUPPORTED_OUTPUT_CONTRACTS_def)
  show ?thesis
    unfolding demo_other_def handle.simps discard_def request_def criar_schedule_def if_not_P [OF c]
      create_schedule_once_def f
    by (simp add: committed_def bnd_def lift_sum_def draw_uuid_def)
qed

theorem failed_request_rolls_back_witness:
  "scrub (serve production demo_rt 2 (pys ''alice'') (pys ''key'') demo_other demo_created) = scrub demo_created"
  by (rule failed_request_rolls_back [OF demo_other_fails]) simp

section \<open>Authorizations\<close>

text \<open>
  C31: an instance of the export service never holds more than eight authorizations that were not used, whatever is
  asked of it and however the preflights and the exports end. From its construction, with an empty registry, the
  instance receives preflights, blocks and exports in any order and with any authorizations, while the tables change in
  any way in between: its registry has at most eight entries, each under the identity of its authorization and no
  identity twice, and a preflight authorizes only while there is room, entering its authorization and nothing else.
  Another instance, as the one of the second phase of the route, starts another registry.
\<close>

theorem authorizations_bounded:
  assumes "service_reach c s"
  shows "length (emitted s) \<le> MAX_AUTORIZACOES_PENDENTES \<and> distinct (map fst (emitted s)) \<and>
    (\<forall>(i, a) \<in> set (emitted s). da_authorization_id a = i) \<and>
    (\<forall>cp sid pid a t. preflight c cp sid pid s = (Inr (Authorized a), t) \<longrightarrow>
       length (emitted s) < MAX_AUTORIZACOES_PENDENTES \<and>
       emitted t = AList.update (da_authorization_id a) a (emitted s))"
  using service_within_cap [OF assms] preflight_enters unfolding within_cap_def by blast

text \<open>The registry is filled by eight preflights of the same step, and the ninth is not authorized.\<close>

theorem authorizations_bounded_witness:
  "\<exists>t. service_reach production t \<and> length (emitted t) = 8 \<and>
     \<not> (\<exists>a u. preflight production (pys ''alice'') (Uuid 1) (Uuid 3) t = (Inr (Authorized a), u))"
proof -
  let ?s = "demo_request 3 demo_granted"
  obtain e where e: "envelope_of_step (Uuid 1) (Uuid 3) demo_row = Inr e" "content_sha256 e = Inr demo_hash"
    using demo_envelope .
  obtain h h' where eq: "demo_granted = (demo_request 2 demo_created)\<lparr>commands :=
      [claimed (demo_created\<lparr>drawn := 1\<rparr>) (pys ''alice'') CREATE_SCHEDULE (pys ''key'') h (Uuid 1),
       claimed (demo_created\<lparr>drawn := 5\<rparr>) (pys ''alice'') GRANT_DELEGATION (pys ''key'') h' (Uuid 5)],
      delegations := [demo_delegation], drawn := 6\<rparr>"
    using demo_granting by blast
  have "entropy ?s = demo_entropy" "drawn ?s = 6" by (simp_all add: eq demo_created_rows)
  then have inj: "inj_on (entropy ?s) {drawn ?s..<drawn ?s + 8}" using demo_draws [of 14 6] by simp
  have wf: "wf_store ?s" using reachable_wf [OF demo_reachable(4)] by (simp add: wf_store_def)
  have d: "dispatchable ?s (pys ''alice'') (Uuid 1) (Uuid 3) demo_schedule demo_row"
    using demo_exportable(1) by (simp add: dispatchable_def row_of_defs)
  have g: "passes production ?s (Uuid 1) (Uuid 3) demo_row demo_hash (Some (Uuid 5))"
    using demo_exportable(2) by (simp add: passes_def)
  have "emitted ?s = []" by simp
  from preflights_fill [OF wf d e g this inj] obtain t where t: "service_reach production t" "length (emitted t) = 8"
    by (auto simp: MAX_AUTORIZACOES_PENDENTES_def)
  with authorizations_bounded [OF t(1)] show ?thesis unfolding MAX_AUTORIZACOES_PENDENTES_def by fastforce
qed

text \<open>
  C32: an authorization is used at most once, and a forged one is never used. Consuming succeeds only on an
  authorization that the registry holds as that very object; afterwards the same authorization is refused, and so is
  any object that copies its fields.
\<close>

theorem authorization_single_use:
  assumes "consumir_autorizacao a s = (Inr u, t)" and "da_authorization_id b = da_authorization_id a"
  shows "(\<exists>e. map_of (emitted s) (da_authorization_id a) = Some e \<and> da_object e = da_object a) \<and>
    consumir_autorizacao b t = (Inl (DispatchBlocked AuthorizationNotIssued), t)"
proof -
  from assms(1) obtain e where e: "map_of (emitted s) (da_authorization_id a) = Some e" "da_object e = da_object a"
    and t: "t = s\<lparr>emitted := AList.delete (da_authorization_id a) (emitted s)\<rparr>"
    by (auto simp: consumir_autorizacao_def bnd_def gets_def modify_def raise_def ret_def split: option.splits if_splits)
  have "map_of (emitted t) (da_authorization_id b) = None"
    using assms(2) by (simp add: t delete_conv)
  moreover have "AList.delete (da_authorization_id b) (emitted t) = emitted t"
    using assms(2) by (simp add: t AList.delete_idem)
  ultimately show ?thesis
    using e by (simp add: consumir_autorizacao_def bnd_def gets_def modify_def raise_def)
qed

theorem authorization_single_use_witness:
  "consumir_autorizacao \<lparr>da_content_sha256 = [], da_delegation_id = None, da_first_dispatch = True,
       da_authorization_id = Uuid 1, da_object = 7\<rparr> demo_empty =
     (Inl (DispatchBlocked AuthorizationNotIssued), demo_empty)"
proof -
  let ?a = "\<lparr>da_content_sha256 = [], da_delegation_id = None, da_first_dispatch = True,
       da_authorization_id = Uuid 1, da_object = 0\<rparr>"
  have "consumir_autorizacao ?a (demo_empty\<lparr>emitted := [(Uuid 1, ?a)]\<rparr>) = (Inr (), demo_empty\<lparr>emitted := []\<rparr>)"
    by (simp add: consumir_autorizacao_def bnd_def gets_def modify_def ret_def)
  from conjunct2 [OF authorization_single_use [OF this]] show ?thesis by (simp add: demo_empty_def)
qed

section \<open>Audit opinions\<close>

text \<open>
  C33: the opinions the service accepts are the ones the database accepts. A list of reason codes passes the service
  checks exactly when, sorted and without repetition, it is the single code the \<^verbatim>\<open>CHECK\<close> function of
  the migration requires of that opinion.
\<close>

theorem audit_matrix_agrees:
  "andthen (canonical_audit_reason_codes (PySeq (map PyStr codes))) (\<lambda>cs.
     andthen (assert_opinion_matrix k cs) (\<lambda>_. Inr cs)) = Inr cs \<longleftrightarrow>
   sort (remdups codes) = cs \<and> cs = opinion_codes k"
proof -
  have loop: "audit_code_loop (map PyStr ds) =
      (if set ds \<subseteq> audit_reason_values then Inr ds else Inl ValueError)" for ds
    by (induction ds) (auto simp: check_def)
  obtain c where c: "opinion_codes k = [c]" "c \<in> audit_reason_values"
    "audit_reason_code_value ` AUDIT_OPINION_REASON_MATRIX k = {c}"
    by (cases k) (simp_all add: audit_reason_values_def)
  have one: "sort (remdups codes) = [c] \<longleftrightarrow> set codes = {c}"
  proof
    assume "set codes = {c}"
    then have "set (sort (remdups codes)) = {c}" "distinct (sort (remdups codes))" by simp_all
    then show "sort (remdups codes) = [c]"
      by (metis distinct.simps(2) empty_iff insert_iff list.exhaust list.set(1) list.set(2) list.set_intros(1)
          singletonD)
  next
    assume "sort (remdups codes) = [c]"
    then have "set (sort (remdups codes)) = {c}" by simp
    then show "set codes = {c}" by simp
  qed
  have "andthen (canonical_audit_reason_codes (PySeq (map PyStr codes))) (\<lambda>cs.
       andthen (assert_opinion_matrix k cs) (\<lambda>_. Inr cs)) = Inr cs \<longleftrightarrow>
      codes \<noteq> [] \<and> set codes \<subseteq> audit_reason_values \<and> set codes \<subseteq> {c} \<and> sort (remdups codes) = cs"
  proof (cases "codes \<noteq> [] \<and> set codes \<subseteq> audit_reason_values")
    case True
    then show ?thesis
      by (simp add: canonical_audit_reason_codes_def assert_opinion_matrix_def loop c(3) check_def Diff_eq_empty_iff)
  next
    case False
    then have "canonical_audit_reason_codes (PySeq (map PyStr codes)) = Inl ValueError"
      by (cases "codes = []") (simp_all add: canonical_audit_reason_codes_def loop check_def)
    with False show ?thesis by auto
  qed
  also have "\<dots> \<longleftrightarrow> set codes = {c} \<and> sort (remdups codes) = cs"
  proof -
    have "codes \<noteq> [] \<and> set codes \<subseteq> {c} \<longleftrightarrow> set codes = {c}" by (cases codes) auto
    with c(2) show ?thesis by blast
  qed
  also have "\<dots> \<longleftrightarrow> sort (remdups codes) = cs \<and> cs = opinion_codes k"
    using one c(1) by auto
  finally show ?thesis .
qed

section \<open>The manual profile\<close>

text \<open>
  C34: ensuring the manual profile of a principal is idempotent. A second call returns the profile of the first,
  says it created nothing and changes no row.
\<close>

theorem ensure_manual_profile_idempotent:
  assumes "wf_store s" and "ensure_manual_profile cp s = (Inr x, t)"
  shows "ensure_manual_profile cp t = (Inr \<lparr>outcome_profile = outcome_profile x, outcome_created = False\<rparr>, t)"
proof -
  have wf: "wf_store t" using wfD [OF wfi.keeps_connection_services(1) assms(2,1)] .
  from ensure_manual_profile_run [OF assms(2)]
  have x: "\<not> blank cp" "outcome_profile x \<in> set (profiles t)" "con_principal (outcome_profile x) = cp"
    "manual_live (outcome_profile x)"
    by (auto split: if_splits)
  have "distinct (map con_principal (filter manual_live (profiles t)))"
    using wf by (simp add: wf_store_def wf_profiles_def unique_where_def)
  then have "filter (\<lambda>c. con_principal c = cp) (filter manual_live (profiles t)) = [outcome_profile x]"
    by (rule filter_key_row) (use x in auto)
  moreover have "filter (\<lambda>c. con_principal c = cp \<and> con_method c = METHOD_MANUAL_HANDOFF \<and>
      con_state c \<notin> TERMINAL_CONNECTION_STATES) (profiles t) =
      filter (\<lambda>c. con_principal c = cp) (filter manual_live (profiles t))"
    by (simp add: manual_live_def cong: conj_cong) (metis (no_types, lifting))
  ultimately have "get_manual_profile cp t = (Inr (Some (outcome_profile x)), t)"
    by (simp add: get_manual_profile_def select_one_def)
  with x(1) show ?thesis
    by (simp add: ensure_manual_profile_def bnd_def require_def ret_def)
qed

theorem ensure_manual_profile_idempotent_witness:
  "\<exists>x t. ensure_manual_profile (pys ''alice'') demo_empty = (Inr x, t) \<and>
     ensure_manual_profile (pys ''alice'') t = (Inr \<lparr>outcome_profile = outcome_profile x, outcome_created = False\<rparr>, t)"
proof -
  have "fresh con_id (entropy demo_empty (drawn demo_empty)) (profiles demo_empty)"
    by (simp add: fresh_def demo_empty_def)
  from wp_ensure [OF reachable_wf [OF demo_start] _ this, of "pys ''alice''"] demo_caller
  obtain x b p n where "\<And>Q. wp (ensure_manual_profile (pys ''alice'')) Q demo_empty =
      Q \<lparr>outcome_profile = x, outcome_created = b\<rparr> (demo_empty\<lparr>profiles := p, drawn := n\<rparr>)"
    unfolding storable_caller_def by metis
  from this [of "\<lambda>y t. y = _ \<and> t = _"] have run: "ensure_manual_profile (pys ''alice'') demo_empty =
      (Inr \<lparr>outcome_profile = x, outcome_created = b\<rparr>, demo_empty\<lparr>profiles := p, drawn := n\<rparr>)"
    by (simp add: wp_def split: prod.splits sum.splits)
  from ensure_manual_profile_idempotent [OF reachable_wf [OF demo_start] this] run show ?thesis by blast
qed

end
