(* ===== verification/JsonText.thy ===== *)
theory JsonText
  imports JsonRead
begin

text \<open>
  Texts and bytes that come back: decoding UTF-8 inverts encoding it, and reading what
  \<^verbatim>\<open>json.dumps\<close> printed gives the printed value with its keys sorted.
\<close>

section \<open>Decoding UTF-8\<close>

text \<open>
  How many bytes a lead byte announces, and the code point a sequence of that length spells.
  A sequence is well-formed when it is the encoding of that code point: this excludes
  overlong forms, surrogates and values above 10FFFF.
\<close>

definition utf8_length :: "nat \<Rightarrow> nat" where
  "utf8_length b = (if b < 192 then 1 else if b < 224 then 2 else if b < 240 then 3 else 4)"

fun utf8_point :: "bytes \<Rightarrow> nat" where
  "utf8_point [a] = a"
| "utf8_point [a, b] = (a - 192) * 64 + (b - 128)"
| "utf8_point [a, b, c] = (a - 224) * 4096 + (b - 128) * 64 + (c - 128)"
| "utf8_point [a, b, c, d] =
     (a - 240) * 262144 + (b - 128) * 4096 + (c - 128) * 64 + (d - 128)"
| "utf8_point _ = 0"

function utf8_decode :: "bytes \<Rightarrow> pystr option" where
  "utf8_decode [] = Some []"
| "utf8_decode (b # bs) =
     (let n = utf8_length b; u = utf8_point (take n (b # bs))
      in if utf8_char u = Some (take n (b # bs))
         then map_option ((#) u) (utf8_decode (drop (n - 1) bs))
         else None)"
  by pat_completeness auto

termination
  by (relation "measure length") auto

declare utf8_decode.simps(2) [simp del]

lemma utf8_char_decodes:
  assumes "utf8_char c = Some bs"
  shows "bs \<noteq> [] \<and> utf8_length (hd bs) = length bs \<and> utf8_point bs = c"
proof -
  consider "c < 128" | "128 \<le> c" "c < 2048" | "2048 \<le> c" "c < 65536"
    | "65536 \<le> c" "c < 1114112"
    using assms by (fastforce simp: utf8_char_def split: if_splits)
  then show ?thesis
  proof cases
    case 1
    with assms show ?thesis by (auto simp: utf8_char_def utf8_length_def)
  next
    case 2
    then have "c div 64 < 32" "c div 64 * 64 + c mod 64 = c" by simp_all
    with 2 assms show ?thesis by (auto simp: utf8_char_def utf8_length_def)
  next
    case 3
    define a where "a = c div 64"
    have "c div 4096 = a div 64"
      using div_mult2_eq [of c 64 64] by (simp add: a_def)
    moreover have "c = 64 * a + c mod 64" "a = 64 * (a div 64) + a mod 64"
      by (simp_all add: a_def)
    ultimately have "c div 4096 * 4096 + c div 64 mod 64 * 64 + c mod 64 = c"
      unfolding a_def [symmetric] by linarith
    moreover have "c div 4096 < 16" using 3 by (simp add: less_mult_imp_div_less)
    ultimately show ?thesis using 3 assms by (auto simp: utf8_char_def utf8_length_def split: if_splits)
  next
    case 4
    define a b where "a = c div 64" and "b = a div 64"
    have e: "c div 4096 = b" "c div 262144 = b div 64"
      using div_mult2_eq [of c 64 64] div_mult2_eq [of c 4096 64]
      by (simp_all add: a_def b_def)
    have "c = 64 * a + c mod 64" "a = 64 * b + a mod 64" "b = 64 * (b div 64) + b mod 64"
      by (simp_all add: a_def b_def)
    then have "c div 262144 * 262144 + c div 4096 mod 64 * 4096 + c div 64 mod 64 * 64 + c mod 64 = c"
      unfolding a_def [symmetric] e by linarith
    with 4 assms show ?thesis by (auto simp: utf8_char_def utf8_length_def split: if_splits)
  qed
qed

lemma utf8_decode_utf8: "utf8 s = Some bs \<Longrightarrow> utf8_decode bs = Some s"
proof (induction s arbitrary: bs)
  case (Cons c s)
  then obtain x xs where x: "utf8_char c = Some x" "utf8 s = Some xs" "bs = x @ xs"
    by (auto split: option.splits)
  from utf8_char_decodes [OF x(1)] obtain b r where b: "x = b # r" "utf8_length b = Suc (length r)"
    "utf8_point (b # r) = c"
    by (cases x) auto
  then show ?case
    using x Cons.IH [OF x(2)] by (simp add: utf8_decode.simps(2) [of b] Let_def)
qed simp

section \<open>Reading what was printed\<close>

subsection \<open>Strings\<close>

lemma read_hex4_fixed_hex: "n < 65536 \<Longrightarrow> read_hex4 (fixed_hex 4 n @ r) = Some (n, r)"
  using hex_number_fixed_hex [of n 4 0] by (simp add: read_hex4_def)

lemma scan_char_escape:
  "expect_char 34 (json_escape c @ r) = None \<and> scan_char (json_escape c @ r) = Some (c, r)"
proof (cases "c < 32")
  case True
  then have "read_u_escape (fixed_hex 4 c @ r) = Some (c, r)"
    using read_hex4_fixed_hex [of c r] by (simp add: read_u_escape_def is_high_def)
  with True show ?thesis
    by (auto simp: json_escape_def scan_char_def simple_escape_def)
next
  case False
  then show ?thesis by (auto simp: json_escape_def scan_char_def simple_escape_def)
qed

lemma scan_string_dumped: "scan_string (concat (map json_escape s) @ 34 # r) = Some (s, r)"
proof (induction s)
  case Nil
  then show ?case by (simp add: scan_string.simps)
next
  case (Cons c s)
  then show ?case
    using scan_char_escape [of c "concat (map json_escape s) @ 34 # r"]
    by (simp add: scan_string.simps [of "json_escape c @ _"])
qed

lemma dump_str_scan: "dump_str s @ r = 34 # concat (map json_escape s) @ 34 # r"
  by (simp add: dump_str_def)

subsection \<open>Integers\<close>

lemma dec_nat_digits: "list_all is_digit (dec_nat n) \<and> dec_nat n \<noteq> []"
proof (induction n rule: dec_nat.induct)
  case (1 n)
  have "n mod 10 < 10" by simp
  then have "is_digit (48 + n mod 10)" by (simp only: is_digit_def) linarith
  with 1 show ?case unfolding dec_nat.simps [of n] by (cases "n < 10") (auto simp: is_digit_def)
qed

lemma digits_value_append1: "digits_value (ds @ [d]) = 10 * digits_value ds + int (d - 48)"
  by (simp add: digits_value_def)

lemma digits_value_dec_nat: "digits_value (dec_nat n) = int n"
proof (induction n rule: dec_nat.induct)
  case (1 n)
  show ?case
  proof (cases "n < 10")
    case True
    then show ?thesis by (subst dec_nat.simps) (simp add: digits_value_def)
  next
    case False
    with 1 show ?thesis
      by (subst dec_nat.simps) (simp add: digits_value_append1 zdiv_int zmod_int)
  qed
qed

lemma dec_nat_head: "n \<noteq> 0 \<Longrightarrow> hd (dec_nat n) \<noteq> 48"
proof (induction n rule: dec_nat.induct)
  case (1 n)
  then show ?case
    using dec_nat_digits [of "n div 10"]
    by (cases "n < 10"; subst dec_nat.simps) (auto simp: hd_append)
qed

lemma length_dec_nat: "n < 10 ^ k \<Longrightarrow> 0 < k \<Longrightarrow> length (dec_nat n) \<le> k"
proof (induction k arbitrary: n)
  case (Suc k)
  show ?case
  proof (cases "n < 10")
    case True
    then show ?thesis by (subst dec_nat.simps) simp
  next
    case False
    with Suc.prems have "n div 10 < 10 ^ k" "0 < k"
      by (auto simp: less_mult_imp_div_less mult.commute intro: Nat.gr0I)
    with Suc.IH False show ?thesis by (subst dec_nat.simps) simp
  qed
qed simp

lemma max_int_digits_pos: "0 < MAX_INT_DIGITS"
  by (simp add: MAX_INT_DIGITS_def)

text \<open>A text after which a number cannot go on.\<close>

definition ends_token :: "pystr \<Rightarrow> bool" where
  "ends_token r \<longleftrightarrow> r = [] \<or> hd r \<in> {44, 93, 125}"

lemma ends_token_simps [simp]:
  "ends_token []" "ends_token (44 # r)" "ends_token (93 # r)" "ends_token (125 # r)"
  by (simp_all add: ends_token_def)

lemma ends_tokenD:
  assumes "ends_token r"
  shows "takeWhile is_digit r = []" "scan_fraction r = ([], r)" "scan_exponent r = ([], r)"
  using assms by (cases r; auto simp: ends_token_def is_digit_def scan_fraction_def scan_exponent_def)+

lemma scan_number_str_int:
  assumes "ends_token r" and "nat \<bar>i\<bar> < 10 ^ MAX_INT_DIGITS"
  shows "scan_number fl (str_int i @ r) = Inr (JInt i, r)"
proof -
  define n where "n = nat \<bar>i\<bar>"
  obtain d ds where dn: "dec_nat n = d # ds" using dec_nat_digits [of n] by (cases "dec_nat n") auto
  have dig: "is_digit d" "list_all is_digit ds" using dec_nat_digits [of n] dn by auto
  have zero: "ds = []" if "d = 48"
    using dec_nat_head [of n] dn that by (cases "n = 0") (simp_all add: dec_nat.simps)
  have tw: "takeWhile is_digit (d # ds @ r) = d # ds"
    using dig ends_tokenD(1) [OF assms(1)] by (simp add: takeWhile_append2 list_all_iff)
  have "length (d # ds) \<le> MAX_INT_DIGITS"
    using length_dec_nat [of n MAX_INT_DIGITS] assms(2) dn max_int_digits_pos by (simp add: n_def)
  moreover have "scan_int (str_int i @ r) = (if i < 0 then [45] else [], d # ds, r)"
    using dig tw zero dn
    by (cases "i < 0") (auto simp: scan_int_def str_int_def n_def is_digit_def Let_def)
  moreover have "digits_value (d # ds) = \<bar>i\<bar>"
    using digits_value_dec_nat [of n] dn by (simp add: n_def)
  ultimately show ?thesis
    using ends_tokenD [OF assms(1)] by (auto simp: scan_number_def)
qed

subsection \<open>Values\<close>

text \<open>
  A value without floats, whose objects have distinct keys and whose integers the scanner reads;
  the same value with the members of every object in the order of their keys; and a value that
  opens at most \<open>d\<close> containers inside one another.
\<close>

fun plain :: "json \<Rightarrow> bool" where
  "plain (JInt i) = (nat \<bar>i\<bar> < 10 ^ MAX_INT_DIGITS)"
| "plain (JFloat x) = False"
| "plain (JList vs) = (\<forall>v \<in> set vs. plain v)"
| "plain (JObj kvs) = (distinct (map fst kvs) \<and> (\<forall>kv \<in> set kvs. plain (snd kv)))"
| "plain _ = True"

fun sorted_json :: "json \<Rightarrow> json" where
  "sorted_json (JList vs) = JList (map sorted_json vs)"
| "sorted_json (JObj kvs) = JObj (map (\<lambda>kv. (fst kv, sorted_json (snd kv))) (sort_key fst kvs))"
| "sorted_json v = v"

fun fits :: "nat \<Rightarrow> json \<Rightarrow> bool" where
  "fits d (JList vs) = (0 < d \<and> (\<forall>v \<in> set vs. fits (d - 1) v))"
| "fits d (JObj kvs) = (0 < d \<and> (\<forall>kv \<in> set kvs. fits (d - 1) (snd kv)))"
| "fits d _ = True"

definition keeps_pairs :: "json_hooks \<Rightarrow> bool" where
  "keeps_pairs h \<longleftrightarrow> (\<forall>ps. distinct (map fst ps) \<longrightarrow> hook_pairs h ps = Inr (JObj ps))"

text \<open>The first character of a printed value is neither white space nor a closing bracket.\<close>

definition opens_value :: "pystr \<Rightarrow> bool" where
  "opens_value s \<longleftrightarrow> (case s of [] \<Rightarrow> False | c # _ \<Rightarrow> 32 < c \<and> c \<noteq> 93 \<and> c \<noteq> 125)"

lemma opens_value_append [simp]: "opens_value s \<Longrightarrow> opens_value (s @ r)"
  by (auto simp: opens_value_def split: list.splits)

lemma opens_valueD [simp]:
  assumes "opens_value s"
  shows "skip_ws s = s" "expect_char 93 s = None" "expect_char 125 s = None"
  using assms by (auto simp: opens_value_def skip_ws_def split: list.splits)

lemma str_int_head: "\<exists>c s. str_int i = c # s \<and> (is_digit c \<or> c = 45 \<and> is_digit (hd s) \<and> s \<noteq> [])"
  using dec_nat_digits [of "nat i"] dec_nat_digits [of "nat (- i)"]
  by (cases "dec_nat (nat i)"; cases "dec_nat (nat (- i))") (auto simp: str_int_def)

lemma dumps_opens: "plain v \<Longrightarrow> opens_value (dumps v)"
proof (cases v)
  case (JInt i)
  then show ?thesis
    using str_int_head [of i] by (auto simp: opens_value_def is_digit_def)
qed (auto simp: opens_value_def dump_str_def)

lemma scan_value_int:
  assumes "ends_token r" and "plain (JInt i)"
  shows "scan_value h (Suc n) d (str_int i @ r) = Inr (JInt i, r)"
proof -
  obtain c s where s: "str_int i = c # s"
    and c: "is_digit c \<or> c = 45 \<and> is_digit (hd s) \<and> s \<noteq> []"
    using str_int_head [of i] by blast
  have "\<not> starts_with (c # s @ r) (pys w)" if "w \<in> {''null'', ''true'', ''false'', ''NaN'', ''Infinity'', ''-Infinity''}" for w
    using that c by (cases s) (auto simp: starts_with_def is_digit_def)
  then have "\<not> starts_with (c # s @ r) (pys ''null'')" "\<not> starts_with (c # s @ r) (pys ''true'')"
    "\<not> starts_with (c # s @ r) (pys ''false'')" "\<not> starts_with (c # s @ r) (pys ''NaN'')"
    "\<not> starts_with (c # s @ r) (pys ''Infinity'')" "\<not> starts_with (c # s @ r) (pys ''-Infinity'')"
    by (simp_all only: insert_iff simp_thms)
  moreover have "c \<noteq> 34" "c \<noteq> 123" "c \<noteq> 91" using c by (auto simp: is_digit_def)
  ultimately have "scan_value h (Suc n) d (c # s @ r) = scan_number (hook_float h) (c # s @ r)"
    by (simp only: scan_value.simps list.case if_False simp_thms)
  also have "\<dots> = Inr (JInt i, r)"
    using scan_number_str_int [OF assms(1), of i "hook_float h"] assms(2) s by simp
  finally show ?thesis by (simp only: s append_Cons)
qed

lemma scan_elements_dumped:
  assumes "vs \<noteq> []" and "\<And>v. v \<in> set vs \<Longrightarrow> opens_value (dumps v)"
    and "\<And>v m r. v \<in> set vs \<Longrightarrow> ends_token r \<Longrightarrow> 2 * length (dumps v) < m \<Longrightarrow>
      scan_value h m d (dumps v @ r) = Inr (g v, r)"
    and "2 * length (join_with [44] (map dumps vs)) + 1 < n"
  shows "scan_elements h n d acc (join_with [44] (map dumps vs) @ 93 # r) = Inr (JList (acc @ map g vs), r)"
  using assms
proof (induction vs arbitrary: acc n)
  case (Cons v vs)
  then obtain m where n: "n = Suc m" by (cases n) auto
  show ?case
  proof (cases vs)
    case Nil
    with Cons.prems n show ?thesis by (simp add: skip_ws_def)
  next
    case (Cons w ws)
    have open': "opens_value (join_with [44] (map dumps vs) @ 93 # r)"
      using Cons Cons.prems(2) [of w] by (cases ws) auto
    have "scan_elements h m d (acc @ [g v]) (join_with [44] (map dumps vs) @ 93 # r)
        = Inr (JList ((acc @ [g v]) @ map g vs), r)"
      using Cons Cons.prems n by (intro Cons.IH) auto
    with Cons Cons.prems(3,4) n open' show ?thesis by (simp add: skip_ws_def [of "44 # _"])
  qed
qed simp

definition dump_member :: "pystr \<times> json \<Rightarrow> pystr" where
  "dump_member kv = dump_str (fst kv) @ 58 # dumps (snd kv)"

lemma dump_member_scan:
  "dump_member kv @ r = 34 # concat (map json_escape (fst kv)) @ 34 # 58 # dumps (snd kv) @ r"
  by (simp add: dump_member_def dump_str_def)

lemma length_dump_member: "length (dumps (snd kv)) + 3 \<le> length (dump_member kv)"
  by (simp add: dump_member_def dump_str_def)

lemma scan_members_dumped:
  assumes "kvs \<noteq> []" and "\<And>kv. kv \<in> set kvs \<Longrightarrow> opens_value (dumps (snd kv))"
    and "\<And>kv m r. kv \<in> set kvs \<Longrightarrow> ends_token r \<Longrightarrow> 2 * length (dumps (snd kv)) < m \<Longrightarrow>
      scan_value h m d (dumps (snd kv) @ r) = Inr (g (snd kv), r)"
    and "2 * length (join_with [44] (map dump_member kvs)) < n"
  shows "scan_members h n d acc (join_with [44] (map dump_member kvs) @ 125 # r) =
    resume r (hook_pairs h (acc @ map (\<lambda>kv. (fst kv, g (snd kv))) kvs))"
  using assms
proof (induction kvs arbitrary: acc n)
  case (Cons kv kvs)
  then obtain m where n: "n = Suc m" by (cases n) auto
  have colon: "skip_ws (58 # t) = 58 # t" "skip_ws (44 # t) = 44 # t" "skip_ws (125 # t) = 125 # t" for t
    by (simp_all add: skip_ws_def)
  have len: "2 * length (dumps (snd kv)) < m"
    using Cons.prems(4) n length_dump_member [of kv] by (cases kvs) auto
  have val: "scan_value h m d (dumps (snd kv) @ t) = Inr (g (snd kv), t)" if "ends_token t" for t
    using Cons.prems(3) [OF _ that len] by simp
  have open': "skip_ws (dumps (snd kv) @ t) = dumps (snd kv) @ t" for t
    using Cons.prems(2) [of kv] by simp
  show ?case
  proof (cases kvs)
    case Nil
    with n val show ?thesis by (simp add: dump_member_scan scan_string_dumped colon open')
  next
    case (Cons w ws)
    define rest where "rest = join_with [44] (map dump_member kvs) @ 125 # r"
    have sk: "skip_ws rest = rest"
      using Cons by (cases ws) (simp_all add: rest_def dump_member_scan skip_ws_def)
    have "scan_members h m d (acc @ [(fst kv, g (snd kv))]) rest
        = resume r (hook_pairs h ((acc @ [(fst kv, g (snd kv))]) @ map (\<lambda>kv. (fst kv, g (snd kv))) kvs))"
      unfolding rest_def using Cons Cons.prems n by (intro Cons.IH) auto
    moreover have "join_with [44] (map dump_member (kv # kvs)) @ 125 # r = dump_member kv @ 44 # rest"
      using Cons by (simp add: rest_def)
    ultimately show ?thesis
      using n val by (simp add: dump_member_scan scan_string_dumped colon open' sk)
  qed
qed simp

theorem scan_dumped:
  assumes "keeps_pairs h" and "plain v" and "fits d v" and "ends_token r" and "2 * length (dumps v) < n"
  shows "scan_value h n d (dumps v @ r) = Inr (sorted_json v, r)"
  using assms(2-)
proof (induction v arbitrary: d r n)
  case JNull
  then obtain m where "n = Suc m" by (cases n) auto
  then show ?case by (simp add: starts_with_def)
next
  case (JBool b)
  then obtain m where "n = Suc m" by (cases n) auto
  then show ?case by (simp add: starts_with_def)
next
  case (JInt i)
  then obtain m where "n = Suc m" by (cases n) auto
  with JInt show ?case by (simp only: dumps.simps sorted_json.simps scan_value_int)
next
  case (JStr s)
  then obtain m where "n = Suc m" by (cases n) auto
  then show ?case by (simp add: dump_str_scan scan_string_dumped)
next
  case (JList vs)
  obtain m where n: "n = Suc m" using JList.prems by (cases n) auto
  show ?case
  proof (cases "vs = []")
    case True
    with JList.prems n show ?thesis by (simp add: skip_ws_def)
  next
    case False
    have "opens_value (join_with [44] (map dumps vs) @ 93 # r)"
      using False JList.prems(1) dumps_opens by (cases vs rule: list.exhaust; cases "tl vs") auto
    moreover have "scan_elements h m (d - 1) [] (join_with [44] (map dumps vs) @ 93 # r)
        = Inr (JList ([] @ map sorted_json vs), r)"
      using False JList n by (intro scan_elements_dumped) (auto intro: dumps_opens)
    ultimately show ?thesis using JList.prems n by simp
  qed
next
  case (JObj kvs)
  obtain m where n: "n = Suc m" using JObj.prems by (cases n) auto
  define xs where "xs = sort_key fst kvs"
  have xs: "set xs = set kvs" "distinct (map fst xs)"
    using JObj.prems(1) by (simp_all add: xs_def distinct_map)
  have shape: "dumps (JObj kvs) = 123 # join_with [44] (map dump_member xs) @ [125]"
    by (simp add: xs_def dump_member_def [abs_def])
  have pairs: "hook_pairs h (map (\<lambda>kv. (fst kv, sorted_json (snd kv))) xs) =
      Inr (JObj (map (\<lambda>kv. (fst kv, sorted_json (snd kv))) xs))"
    using assms(1) xs(2) by (simp add: keeps_pairs_def comp_def)
  show ?case
  proof (cases "xs = []")
    case True
    then have "kvs = []" using xs(1) by simp
    with True JObj.prems n pairs show ?thesis by (simp add: skip_ws_def)
  next
    case False
    have "skip_ws (join_with [44] (map dump_member xs) @ 125 # r) = join_with [44] (map dump_member xs) @ 125 # r"
      "expect_char 125 (join_with [44] (map dump_member xs) @ 125 # r) = None"
      using False by (cases xs rule: list.exhaust; cases "tl xs"; simp add: dump_member_scan skip_ws_def)+
    moreover have "scan_members h m (d - 1) [] (join_with [44] (map dump_member xs) @ 125 # r)
        = resume r (hook_pairs h ([] @ map (\<lambda>kv. (fst kv, sorted_json (snd kv))) xs))"
      using False JObj n shape xs(1)
      by (intro scan_members_dumped) (auto intro!: dumps_opens JObj.IH)
    ultimately show ?thesis
      using JObj.prems n pairs unfolding shape by (simp add: xs_def)
  qed
qed simp

lemma skip_ws_empty: "skip_ws [] = []"
  by (simp add: skip_ws_def)

lemma json_loads_dumps:
  assumes "keeps_pairs h" and "plain v" and "fits d v"
  shows "json_loads_with h d (dumps v) = Inr (sorted_json v)"
proof -
  have "opens_value (dumps v)" by (rule dumps_opens [OF assms(2)])
  moreover have "hd (dumps v) \<noteq> 65279"
  proof (cases v)
    case (JInt i)
    then show ?thesis using str_int_head [of i] by (auto simp: is_digit_def)
  qed (use assms(2) in \<open>auto simp: dump_str_def split: if_splits\<close>)
  moreover have "scan_value h (2 * length (dumps v) + 1) d (dumps v @ []) = Inr (sorted_json v, [])"
    by (rule scan_dumped [OF assms]) simp_all
  ultimately show ?thesis
    by (simp add: json_loads_with_def skip_ws_empty del: scan_value.simps)
qed

end
