(* ===== verification/IsoTime.thy ===== *)
theory IsoTime
  imports JsonText
begin

text \<open>
  Instants and durations as text. The calendar of \<open>PyStd\<close> has an inverse, so the text
  \<^verbatim>\<open>datetime.isoformat\<close> prints of a UTC instant is read back as that instant; a
  \<^verbatim>\<open>timedelta\<close> and its total of microseconds determine each other.
\<close>

section \<open>The calendar has an inverse\<close>

text \<open>
  Inside an era of 400 years, counted from a first of March: the day a year starts on and the
  year a day lies in.
\<close>

definition year_start :: "int \<Rightarrow> int" where
  "year_start y = 365 * y + y div 4 - y div 100"

definition year_of_day :: "int \<Rightarrow> int" where
  "year_of_day n = (n - n div 1460 + n div 36524 - n div 146096) div 365"

lemma year_of_day_step: "year_of_day n \<le> year_of_day (n + 1)"
proof -
  define b b' where "b = n div 36524" and "b' = (n + 1) div 36524"
  have "n div 146096 = b div 4" "(n + 1) div 146096 = b' div 4"
    using zdiv_zmult2_eq [of 4 n 36524] zdiv_zmult2_eq [of 4 "n + 1" 36524]
    by (simp_all add: b_def b'_def)
  moreover have "b \<le> b'" "b' \<le> b + 1" unfolding b_def b'_def by linarith+
  then have "b' div 4 - b div 4 \<le> b' - b" by linarith
  moreover have "(n + 1) div 1460 \<le> n div 1460 + 1" by linarith
  ultimately have "n - n div 1460 + b - n div 146096 \<le> (n + 1) - (n + 1) div 1460 + b' - (n + 1) div 146096"
    by linarith
  then show ?thesis unfolding year_of_day_def b_def b'_def by (rule zdiv_mono1) simp
qed

lemma year_of_day_mono: "m \<le> n \<Longrightarrow> year_of_day m \<le> year_of_day n"
proof (induction n rule: int_ge_induct)
  case (step i)
  then show ?case using year_of_day_step [of i] by linarith
qed simp

text \<open>The first and the last day of each of the 400 years.\<close>

definition year_checked :: "int \<Rightarrow> bool" where
  "year_checked y \<longleftrightarrow> year_of_day (year_start y) = y \<and>
     year_of_day (year_start (y + 1) - 1) = y \<and>
     year_start (y + 1) - year_start y \<le> 366"

lemma years_checked: "year_checked 0" "list_all year_checked [1..399]"
  by (simp_all add: year_checked_def year_start_def year_of_day_def upto.simps)

lemma year_bounds:
  assumes "0 \<le> n" "n \<le> 146096"
  shows "0 \<le> year_of_day n" "year_of_day n \<le> 399"
    "0 \<le> n - year_start (year_of_day n)" "n - year_start (year_of_day n) \<le> 365"
proof -
  have "0 \<le> year_of_day n \<and> year_of_day n \<le> 399 \<and>
    0 \<le> n - year_start (year_of_day n) \<and> n - year_start (year_of_day n) \<le> 365"
  proof (cases "n = 146096")
    case True
    then show ?thesis by (simp add: year_of_day_def year_start_def)
  next
    case False
    have "n < year_start (int k) \<Longrightarrow> \<exists>i<k. year_start (int i) \<le> n \<and> n < year_start (int (Suc i))" for k
    proof (induction k)
      case 0
      then show ?case using assms by (simp add: year_start_def)
    next
      case (Suc k)
      then show ?case by (cases "n < year_start (int k)") (auto intro: less_SucI)
    qed
    moreover have "n < year_start (int 400)" using assms False by (simp add: year_start_def)
    ultimately obtain k where k: "k < 400" "year_start (int k) \<le> n" "n < year_start (int k + 1)"
      by (metis of_nat_Suc add.commute)
    have ok: "year_checked (int k)"
      using years_checked k(1) by (cases "k = 0") (auto simp: list_all_iff)
    then have "year_of_day n = int k"
      using year_of_day_mono [OF k(2)] year_of_day_mono [of n "year_start (int k + 1) - 1"] k(3)
      unfolding year_checked_def by linarith
    with k ok show ?thesis by (simp add: year_checked_def)
  qed
  then show "0 \<le> year_of_day n" "year_of_day n \<le> 399"
    "0 \<le> n - year_start (year_of_day n)" "n - year_start (year_of_day n) \<le> 365"
    by blast+
qed

text \<open>The day count of a date.\<close>

definition days_of :: "int \<Rightarrow> int \<Rightarrow> int \<Rightarrow> int" where
  "days_of y m d =
     (let y' = y - (if m \<le> 2 then 1 else 0);
          doy = (153 * ((m + 9) mod 12) + 2) div 5 + d - 1
      in y' div 400 * 146097 + year_start (y' mod 400) + doy - 719468)"

lemma civil_cases:
  obtains e n y mp where "days = e * 146097 + n - 719468" "0 \<le> n" "n \<le> 146096"
    "y = year_of_day n" "0 \<le> y" "y \<le> 399" "0 \<le> n - year_start y" "n - year_start y \<le> 365"
    "mp = (5 * (n - year_start y) + 2) div 153" "0 \<le> mp" "mp \<le> 11"
    "civil days =
       (y + e * 400 + (if 10 \<le> mp then 1 else 0), if mp < 10 then mp + 3 else mp - 9,
        n - year_start y - (153 * mp + 2) div 5 + 1)"
proof -
  define e n where "e = (days + 719468) div 146097" and "n = (days + 719468) mod 146097"
  have n: "0 \<le> n" "n \<le> 146096" "days = e * 146097 + n - 719468"
    by (simp_all add: e_def n_def) (simp add: minus_mod_eq_div_mult [symmetric])?
  define y where "y = year_of_day n"
  define mp where "mp = (5 * (n - year_start y) + 2) div 153"
  note b = year_bounds [OF n(1,2), folded y_def]
  have "0 div 153 \<le> mp" "mp \<le> 1827 div 153"
    using b unfolding mp_def by (intro zdiv_mono1; simp)+
  then have mp: "0 \<le> mp" "mp \<le> 11" by simp_all
  have "civil days =
       (y + e * 400 + (if 10 \<le> mp then 1 else 0), if mp < 10 then mp + 3 else mp - 9,
        n - year_start y - (153 * mp + 2) div 5 + 1)"
    unfolding civil_def Let_def e_def [symmetric] n_def [symmetric] year_of_day_def [symmetric]
      y_def [symmetric] year_start_def [symmetric] mp_def [symmetric]
    using mp by auto
  with n b mp show ?thesis by (intro that [of e n y mp]) (auto simp: y_def mp_def)
qed

lemma days_of_civil: "civil days = (y, m, d) \<Longrightarrow> days_of y m d = days"
proof -
  assume c: "civil days = (y, m, d)"
  obtain e n yy mp where
    *: "days = e * 146097 + n - 719468" "0 \<le> yy" "yy \<le> 399" "0 \<le> mp" "mp \<le> 11"
      "civil days =
       (yy + e * 400 + (if 10 \<le> mp then 1 else 0), if mp < 10 then mp + 3 else mp - 9,
        n - year_start yy - (153 * mp + 2) div 5 + 1)"
    using civil_cases [of days] by metis
  have m: "m \<le> 2 \<longleftrightarrow> 10 \<le> mp" "(m + 9) mod 12 = mp"
    using c *(4-6) by (auto split: if_splits)
  have "y - (if m \<le> 2 then 1 else 0) = yy + e * 400" using c *(6) m(1) by auto
  then show ?thesis using c * m(2) by (simp add: days_of_def)
qed

section \<open>The range of \<^verbatim>\<open>datetime\<close>\<close>

text \<open>From the first microsecond of year 1 to the last of year 9999.\<close>

definition datetime_range :: "int \<Rightarrow> bool" where
  "datetime_range w \<longleftrightarrow> -62135596800000000 \<le> w \<and> w < 253402300800000000"

text \<open>\<^verbatim>\<open>value.astimezone(UTC)\<close>; \<open>None\<close> is \<^verbatim>\<open>OverflowError\<close>.\<close>

definition astimezone_utc :: "int \<Rightarrow> int \<Rightarrow> py_datetime option" where
  "astimezone_utc w off = (if datetime_range (w - off) then Some (Aware (w - off) 0) else None)"

lemma month_day:
  fixes mp x :: int
  assumes "153 * mp \<le> 5 * x + 2" "5 * x + 2 < 153 * mp + 153"
  shows "(153 * mp + 2) div 5 \<le> x" "x - (153 * mp + 2) div 5 \<le> 30"
proof -
  have "5 * ((153 * mp + 2) div 5) \<le> 153 * mp + 2" "153 * mp + 2 < 5 * ((153 * mp + 2) div 5) + 5"
    by linarith+
  with assms show "(153 * mp + 2) div 5 \<le> x" "x - (153 * mp + 2) div 5 \<le> 30" by linarith+
qed

lemma civil_year_range:
  assumes "datetime_range w" and "civil (w div 86400000000) = (y, m, d)"
  shows "0 \<le> y" "y < 10000" "1 \<le> m" "m \<le> 12" "1 \<le> d" "d \<le> 31"
proof -
  define z where "z = w div 86400000000"
  have "- 62135596800000000 div 86400000000 \<le> z" "z \<le> 253402300799999999 div 86400000000"
    using assms(1) unfolding z_def datetime_range_def by (intro zdiv_mono1; simp)+
  then have z: "- 719162 \<le> z" "z \<le> 2932896" by simp_all
  obtain e n yy mp where
    *: "z = e * 146097 + n - 719468" "0 \<le> n" "n \<le> 146096" "0 \<le> yy" "yy \<le> 399"
      "mp = (5 * (n - year_start yy) + 2) div 153" "0 \<le> mp" "mp \<le> 11"
      "civil z = (yy + e * 400 + (if 10 \<le> mp then 1 else 0), if mp < 10 then mp + 3 else mp - 9,
        n - year_start yy - (153 * mp + 2) div 5 + 1)"
    using civil_cases [of z] by metis
  have ymd: "y = yy + e * 400 + (if 10 \<le> mp then 1 else 0)" "m = (if mp < 10 then mp + 3 else mp - 9)"
    "d = n - year_start yy - (153 * mp + 2) div 5 + 1"
    using *(9) assms(2) by (simp_all add: z_def)
  have mp: "153 * mp \<le> 5 * (n - year_start yy) + 2" "5 * (n - year_start yy) + 2 < 153 * mp + 153"
    using *(6) by linarith+
  have e: "0 \<le> e" "e \<le> 24" using *(1-3) z by linarith+
  show "0 \<le> y" using ymd(1) *(4) e by simp
  show "y < 10000"
  proof (rule ccontr)
    assume "\<not> y < 10000"
    then have "e = 24" "yy = 399" "10 \<le> mp" using ymd(1) *(5) e by (auto split: if_splits)
    with mp *(1) z show False by (simp add: year_start_def)
  qed
  show "1 \<le> m" "m \<le> 12" using ymd(2) *(7,8) by auto
  have "(153 * mp + 2) div 5 \<le> n - year_start yy" "n - year_start yy - (153 * mp + 2) div 5 \<le> 30"
    using month_day [OF mp] by simp_all
  then show "1 \<le> d" "d \<le> 31" using ymd(3) by simp_all
qed

section \<open>Reading \<^verbatim>\<open>isoformat\<close>\<close>

definition read_dec :: "nat \<Rightarrow> pystr \<Rightarrow> (nat \<times> pystr) option" where
  "read_dec k s =
     (let ds = take k s
      in if length ds = k \<and> list_all is_digit ds
         then Some (foldl (\<lambda>a c. 10 * a + (c - 48)) 0 ds, drop k s) else None)"

lemma length_pad_dec [simp]: "length (pad_dec k n) = k"
  by (induction k arbitrary: n) simp_all

lemma pad_dec_digits: "list_all is_digit (pad_dec k n)"
proof (induction k arbitrary: n)
  case (Suc k)
  have "n mod 10 < 10" by simp
  then have "is_digit (48 + n mod 10)" by (simp only: is_digit_def) linarith
  with Suc show ?case by simp
qed simp

lemma foldl_pad_dec: "n < 10 ^ k \<Longrightarrow> foldl (\<lambda>a c. 10 * a + (c - 48)) 0 (pad_dec k n) = n"
proof (induction k arbitrary: n)
  case (Suc k)
  then have "n div 10 < 10 ^ k" by (simp add: less_mult_imp_div_less mult.commute)
  with Suc.IH show ?case by simp
qed simp

lemma read_dec_pad_dec: "n < 10 ^ k \<Longrightarrow> read_dec k (pad_dec k n @ r) = Some (n, r)"
  by (simp add: read_dec_def Let_def pad_dec_digits foldl_pad_dec)

text \<open>
  The form \<^verbatim>\<open>YYYY-MM-DDTHH:MM:SS[.ffffff]+00:00\<close>, of an existing date and time of day.
\<close>

definition read_date :: "pystr \<Rightarrow> (int \<times> pystr) option" where
  "read_date s =
     Option.bind (read_dec 4 s) (\<lambda>(y, s). Option.bind (expect_char 45 s) (\<lambda>s.
     Option.bind (read_dec 2 s) (\<lambda>(m, s). Option.bind (expect_char 45 s) (\<lambda>s.
     Option.bind (read_dec 2 s) (\<lambda>(d, s).
       let days = days_of (int y) (int m) (int d)
       in if civil days = (int y, int m, int d) then Some (days, s) else None)))))"

definition read_fraction :: "pystr \<Rightarrow> (nat \<times> pystr) option" where
  "read_fraction s = (case expect_char 46 s of None \<Rightarrow> Some (0, s) | Some r \<Rightarrow> read_dec 6 r)"

definition read_time :: "pystr \<Rightarrow> (int \<times> pystr) option" where
  "read_time s =
     Option.bind (read_dec 2 s) (\<lambda>(h, s). Option.bind (expect_char 58 s) (\<lambda>s.
     Option.bind (read_dec 2 s) (\<lambda>(mi, s). Option.bind (expect_char 58 s) (\<lambda>s.
     Option.bind (read_dec 2 s) (\<lambda>(sec, s). Option.bind (read_fraction s) (\<lambda>(us, s).
       if h < 24 \<and> mi < 60 \<and> sec < 60
       then Some (((int h * 60 + int mi) * 60 + int sec) * 1000000 + int us, s) else None))))))"

definition read_iso :: "pystr \<Rightarrow> int option" where
  "read_iso s =
     Option.bind (read_date s) (\<lambda>(days, s). Option.bind (expect_char 84 s) (\<lambda>s.
     Option.bind (read_time s) (\<lambda>(us, s).
       let w = days * 86400000000 + us
       in if s = pys ''+00:00'' \<and> datetime_range w then Some w else None)))"

text \<open>
  \<^verbatim>\<open>datetime.fromisoformat(s)\<close> on a text that ends in \<^verbatim>\<open>+00:00\<close>.
  CPython accepts other ISO 8601 spellings of an instant than the one it prints (basic form,
  week dates, other separators): \<open>lenient\<close> stands for how it reads those.
\<close>

definition fromisoformat :: "(pystr \<Rightarrow> int option) \<Rightarrow> pystr \<Rightarrow> int option" where
  "fromisoformat lenient s =
     (case read_iso s of
        Some w \<Rightarrow> Some w
      | None \<Rightarrow> (case lenient s of Some w \<Rightarrow> if datetime_range w then Some w else None | None \<Rightarrow> None))"

lemma fromisoformat_range: "fromisoformat l s = Some w \<Longrightarrow> datetime_range w"
  by (auto simp: fromisoformat_def read_iso_def Let_def bind_eq_Some_conv
      split: option.splits if_splits)

lemma read_date_wall:
  assumes "datetime_range w" and "civil (w div 86400000000) = (y, m, d)"
  shows "read_date (pad_dec 4 (nat y) @ 45 # pad_dec 2 (nat m) @ 45 # pad_dec 2 (nat d) @ r) =
    Some (w div 86400000000, r)"
proof -
  note b = civil_year_range [OF assms]
  have "read_dec 4 (pad_dec 4 (nat y) @ t) = Some (nat y, t)"
    "read_dec 2 (pad_dec 2 (nat m) @ t) = Some (nat m, t)"
    "read_dec 2 (pad_dec 2 (nat d) @ t) = Some (nat d, t)" for t
    using b by (auto intro!: read_dec_pad_dec simp: nat_less_iff)
  with b days_of_civil [OF assms(2)] assms(2) show ?thesis by (simp add: read_date_def)
qed

lemma read_time_wall:
  assumes "0 \<le> t" "t < 86400000000"
  defines "secs \<equiv> t div 1000000" and "frac \<equiv> t mod 1000000"
  shows "read_time (pad_dec 2 (nat (secs div 3600)) @ 58 # pad_dec 2 (nat (secs div 60 mod 60)) @
      58 # pad_dec 2 (nat (secs mod 60)) @ (if frac = 0 then [] else 46 # pad_dec 6 (nat frac)) @ 43 # r) =
    Some (t, 43 # r)"
proof -
  have "t = secs * 1000000 + frac" unfolding secs_def frac_def by (simp only: div_mult_mod_eq)
  moreover have "0 \<le> frac" "frac < 1000000" by (simp_all add: frac_def)
  ultimately have s: "0 \<le> secs" "secs < 86400" "0 \<le> frac" "frac < 1000000" "t = secs * 1000000 + frac"
    using assms(1,2) by linarith+
  have h: "0 \<le> secs div 3600" "secs div 3600 < 24"
    using s(1,2) by linarith+
  have rd: "read_dec 2 (pad_dec 2 (nat v) @ q) = Some (nat v, q)" if "0 \<le> v" "v < 100" for v q
    using that by (intro read_dec_pad_dec) (simp add: nat_less_iff)
  have fr: "read_fraction ((if frac = 0 then [] else 46 # pad_dec 6 (nat frac)) @ 43 # r) = Some (nat frac, 43 # r)"
    using s read_dec_pad_dec [of "nat frac" 6 "43 # r"]
    by (auto simp: read_fraction_def nat_less_iff)
  have sum: "(secs div 3600 * 60 + secs div 60 mod 60) * 60 + secs mod 60 = secs"
    using zdiv_zmult2_eq [of 60 secs 60] by simp
  show ?thesis
    using s h fr sum by (simp add: read_time_def rd nat_less_iff)
qed

lemma read_iso_wall:
  assumes "datetime_range w"
  shows "read_iso (iso_wall w @ pys ''+00:00'') = Some w"
proof -
  obtain y m d where c: "civil (w div 86400000000) = (y, m, d)" by (metis prod_cases3)
  have "0 \<le> w mod 86400000000" "w mod 86400000000 < 86400000000" by simp_all
  note t = read_time_wall [OF this]
  show ?thesis
    using assms
    by (simp add: iso_wall_def Let_def c read_iso_def read_date_wall [OF assms c] t)
qed

lemma fromisoformat_wall:
  "datetime_range w \<Longrightarrow> fromisoformat l (iso_wall w @ pys ''+00:00'') = Some w"
  by (simp add: fromisoformat_def read_iso_wall del: pys_Cons)

section \<open>\<^verbatim>\<open>str.replace\<close>\<close>

function replace_all :: "pystr \<Rightarrow> pystr \<Rightarrow> pystr \<Rightarrow> pystr" where
  "replace_all old new s =
     (if old = [] \<or> s = [] then s
      else if starts_with s old then new @ replace_all old new (drop (length old) s)
      else hd s # replace_all old new (tl s))"
  by pat_completeness auto

termination
  by (relation "measure (\<lambda>(old, new, s). length s)") auto

declare replace_all.simps [simp del]

lemma replace_all_end:
  assumes "c \<notin> set s"
  shows "replace_all (c # old) new (s @ c # old) = s @ new"
  using assms
proof (induction s)
  case Nil
  have "replace_all (c # old) new [] = []" by (simp add: replace_all.simps)
  then show ?case by (simp add: replace_all.simps [of _ _ "c # old"] starts_with_def)
next
  case (Cons x s)
  then show ?case by (simp add: replace_all.simps [of _ _ "x # _"] starts_with_def)
qed

text \<open>\<^verbatim>\<open>value.isoformat().replace("+00:00", "Z")\<close>.\<close>

definition iso_z :: "py_datetime \<Rightarrow> pystr" where
  "iso_z t = replace_all (pys ''+00:00'') (pys ''Z'') (isoformat t)"

lemma pad_dec_no_plus: "43 \<notin> set (pad_dec k n)"
  using pad_dec_digits [of k n] by (auto simp: list_all_iff is_digit_def)

lemma iso_wall_no_plus: "43 \<notin> set (iso_wall w)"
  by (simp add: iso_wall_def Let_def pad_dec_no_plus split: prod.split)

lemma isoformat_utc: "isoformat (Aware w 0) = iso_wall w @ pys ''+00:00''"
  by (simp add: iso_offset_def numeral_2_eq_2)

lemma iso_z_utc: "iso_z (Aware w 0) = iso_wall w @ pys ''Z''"
  using replace_all_end [OF iso_wall_no_plus, of "pys ''00:00''"]
  by (simp add: iso_z_def isoformat_utc del: isoformat.simps)

section \<open>\<^verbatim>\<open>timedelta\<close>\<close>

record timedelta =
  td_days :: int
  td_seconds :: int
  td_micros :: int

definition valid_timedelta :: "timedelta \<Rightarrow> bool" where
  "valid_timedelta d \<longleftrightarrow>
     \<bar>td_days d\<bar> \<le> 999999999 \<and> 0 \<le> td_seconds d \<and> td_seconds d < 86400 \<and>
     0 \<le> td_micros d \<and> td_micros d < 1000000"

text \<open>\<^verbatim>\<open>timedelta(microseconds=n)\<close>; \<open>None\<close> is \<^verbatim>\<open>OverflowError\<close>.\<close>

definition timedelta_of_micros :: "int \<Rightarrow> timedelta option" where
  "timedelta_of_micros n =
     (let days = n div 86400000000; us = n mod 86400000000
      in if \<bar>days\<bar> \<le> 999999999
         then Some \<lparr>td_days = days, td_seconds = us div 1000000, td_micros = us mod 1000000\<rparr>
         else None)"

text \<open>The exact number of microseconds.\<close>

definition total_micros :: "timedelta \<Rightarrow> int" where
  "total_micros d = (td_days d * 86400 + td_seconds d) * 1000000 + td_micros d"

lemma timedelta_of_total:
  assumes "valid_timedelta d"
  shows "timedelta_of_micros (total_micros d) = Some d"
proof -
  define us where "us = td_seconds d * 1000000 + td_micros d"
  have us: "0 \<le> us" "us < 86400000000" "us div 1000000 = td_seconds d" "us mod 1000000 = td_micros d"
    using assms by (auto simp: valid_timedelta_def us_def)
  have "total_micros d = td_days d * 86400000000 + us" by (simp add: total_micros_def us_def)
  with us(1,2) have "total_micros d div 86400000000 = td_days d" "total_micros d mod 86400000000 = us"
    by simp_all
  with us assms show ?thesis by (simp add: timedelta_of_micros_def valid_timedelta_def)
qed

lemma total_timedelta_of:
  "timedelta_of_micros n = Some d \<Longrightarrow> total_micros d = n \<and> valid_timedelta d"
proof -
  assume "timedelta_of_micros n = Some d"
  then have d: "\<bar>n div 86400000000\<bar> \<le> 999999999"
    "d = \<lparr>td_days = n div 86400000000, td_seconds = n mod 86400000000 div 1000000,
          td_micros = n mod 86400000000 mod 1000000\<rparr>"
    by (auto simp: timedelta_of_micros_def Let_def split: if_splits)
  define us secs where "us = n mod 86400000000" and "secs = us div 1000000"
  have us: "0 \<le> us" "us < 86400000000" "n = n div 86400000000 * 86400000000 + us"
    "us = secs * 1000000 + us mod 1000000" "0 \<le> us mod 1000000" "us mod 1000000 < 1000000"
    by (simp_all add: us_def secs_def)
  then have "0 \<le> secs" "secs < 86400" by linarith+
  moreover have "(n div 86400000000 * 86400 + secs) * 1000000 + us mod 1000000 = n"
  proof -
    have "(n div 86400000000 * 86400 + secs) * 1000000 + us mod 1000000 =
        n div 86400000000 * 86400000000 + (secs * 1000000 + us mod 1000000)"
      by simp
    then show ?thesis by (simp only: us(3,4) [symmetric])
  qed
  ultimately show ?thesis
    using d us(5,6) by (simp add: us_def [symmetric] secs_def [symmetric] total_micros_def valid_timedelta_def)
qed

end
