(* ===== verification/PiapAuthority.thy ===== *)
theory PiapAuthority
  imports IsoTime
begin

text \<open>
  \<^verbatim>\<open>predictive_accessibility/piap\<close>: the capacities, the vocabularies, the allowlist of
  contract versions and the authority a PIAP envelope transports, with the validation of its
  approval. What the source guards with \<^verbatim>\<open>isinstance\<close> is a type here.
\<close>

section \<open>Errors of the predictive layer\<close>

text \<open>
  The exceptions of \<^verbatim>\<open>predictive_accessibility/errors\<close>, the typed refusals of
  \<^verbatim>\<open>batch.py\<close>, \<^verbatim>\<open>burden.py\<close> and \<^verbatim>\<open>coordinator.py\<close>, and the
  exceptions of Python and of the database driver that leave the layer as they are. Messages are
  left out.
\<close>

datatype perror =
  PiapUnsupportedVersion
| PiapContractViolation
| EventIdentityMismatch
| EventImmutable
| ReconfigurationContract
| BatchLimit
| BatchItemType
| UnsupportedLibrary
| ExpectedLossRefused
| IncomparableBurden
| PValueError
| PTypeError
| PKeyError
| PIndexError
| PRuntimeError
| PStopIteration
| POverflowError
| PZeroDivision
| PUnicodeEncode
| PRecursion
| PIntegrity
| PDataError

definition pcheck :: "bool \<Rightarrow> perror + unit" where
  "pcheck b = (if b then Inr () else Inl PValueError)"

lemma pcheck_eq [run_iffs]:
  "pcheck b = Inr u \<longleftrightarrow> b"
  "pcheck b = Inl e \<longleftrightarrow> \<not> b \<and> e = PValueError"
  by (auto simp: pcheck_def)

lemma pcheck_simps [simp]: "pcheck True = Inr ()" "pcheck False = Inl PValueError"
  by (simp_all add: pcheck_def)

text \<open>A validation applied to every item, in order; the first that raises wins.\<close>

fun traverse :: "('a \<Rightarrow> perror + 'b) \<Rightarrow> 'a list \<Rightarrow> perror + 'b list" where
  "traverse f [] = Inr []"
| "traverse f (x # xs) = andthen (f x) (\<lambda>y. andthen (traverse f xs) (\<lambda>ys. Inr (y # ys)))"

lemma traverse_eq_Inr [run_iffs]:
  "traverse f xs = Inr ys \<longleftrightarrow> list_all2 (\<lambda>x y. f x = Inr y) xs ys"
  by (induction xs arbitrary: ys) (auto simp: run_iffs list_all2_Cons1)

section \<open>Vocabularies and capacities\<close>

datatype contract_version = V1_0

datatype temporal_availability =
  AVAILABLE_AT_REFERENCE_TIME | UNAVAILABLE_AT_REFERENCE_TIME | AVAILABILITY_UNKNOWN

datatype authority_status =
  ASSERTED_AUTHORIZED | ASSERTED_NOT_AUTHORIZED | AUTHORITY_UNKNOWN

datatype approval_outcome =
  APPROVAL_VALID | APPROVAL_MISSING | NOT_AUTHORIZED | EXPIRED_APPROVAL | VERSION_MISMATCH
| OUT_OF_SCOPE | JURISDICTION_MISMATCH | BINDING_MISMATCH

datatype bound_kind = PROPOSED_BOUND | PROMOTION_CANDIDATE

fun contract_version_value :: "contract_version \<Rightarrow> pystr" where
  "contract_version_value V1_0 = pys ''1.0''"

fun availability_value :: "temporal_availability \<Rightarrow> pystr" where
  "availability_value AVAILABLE_AT_REFERENCE_TIME = pys ''available_at_reference_time''"
| "availability_value UNAVAILABLE_AT_REFERENCE_TIME = pys ''unavailable_at_reference_time''"
| "availability_value AVAILABILITY_UNKNOWN = pys ''unknown''"

fun authority_status_value :: "authority_status \<Rightarrow> pystr" where
  "authority_status_value ASSERTED_AUTHORIZED = pys ''asserted_authorized''"
| "authority_status_value ASSERTED_NOT_AUTHORIZED = pys ''asserted_not_authorized''"
| "authority_status_value AUTHORITY_UNKNOWN = pys ''unknown''"

fun bound_kind_value :: "bound_kind \<Rightarrow> pystr" where
  "bound_kind_value PROPOSED_BOUND = pys ''proposed_bound''"
| "bound_kind_value PROMOTION_CANDIDATE = pys ''promotion_candidate''"

text \<open>An enumeration looked up by its value.\<close>

definition member_of :: "('a \<Rightarrow> pystr) \<Rightarrow> 'a list \<Rightarrow> pystr \<Rightarrow> 'a option" where
  "member_of val members s = List.find (\<lambda>m. val m = s) members"

definition CONTRACT_VERSIONS :: "contract_version list" where
  "CONTRACT_VERSIONS = [V1_0]"

definition AVAILABILITIES :: "temporal_availability list" where
  "AVAILABILITIES =
     [AVAILABLE_AT_REFERENCE_TIME, UNAVAILABLE_AT_REFERENCE_TIME, AVAILABILITY_UNKNOWN]"

definition AUTHORITY_STATUSES :: "authority_status list" where
  "AUTHORITY_STATUSES = [ASSERTED_AUTHORIZED, ASSERTED_NOT_AUTHORIZED, AUTHORITY_UNKNOWN]"

definition BOUND_KINDS :: "bound_kind list" where
  "BOUND_KINDS = [PROPOSED_BOUND, PROMOTION_CANDIDATE]"

lemmas vocabulary_defs = CONTRACT_VERSIONS_def AVAILABILITIES_def AUTHORITY_STATUSES_def BOUND_KINDS_def

lemma member_of_value [simp]:
  "member_of contract_version_value CONTRACT_VERSIONS (contract_version_value v) = Some v"
  "member_of availability_value AVAILABILITIES (availability_value a) = Some a"
  "member_of authority_status_value AUTHORITY_STATUSES (authority_status_value s) = Some s"
  "member_of bound_kind_value BOUND_KINDS (bound_kind_value k) = Some k"
  by (cases v; cases a; cases s; cases k; simp add: member_of_def vocabulary_defs)+

definition SUPPORTED_VERSIONS :: "contract_version list" where
  "SUPPORTED_VERSIONS = [V1_0]"

definition require_supported_version :: "contract_version \<Rightarrow> perror + contract_version" where
  "require_supported_version v =
     (if v \<in> set SUPPORTED_VERSIONS then Inr v else Inl PiapUnsupportedVersion)"

lemma require_supported_version [simp]: "require_supported_version v = Inr v"
  by (cases v) (simp add: require_supported_version_def SUPPORTED_VERSIONS_def)

definition MAX_PIAP_INPUT_BYTES :: nat where "MAX_PIAP_INPUT_BYTES = 262144"
definition MAX_PAYLOAD_REFERENCES :: nat where "MAX_PAYLOAD_REFERENCES = 256"
definition MAX_APPROVAL_SCOPE_ITEMS :: nat where "MAX_APPROVAL_SCOPE_ITEMS = 32"
definition MAX_PIAP_VERSION_NUMBER :: int where "MAX_PIAP_VERSION_NUMBER = 2147483647"
definition MAX_PIAP_REF_LENGTH :: nat where "MAX_PIAP_REF_LENGTH = 255"

section \<open>Validation of fields\<close>

text \<open>
  The characters of the categories Cc, Cf, Zl and Zp of Unicode 15.0, the version of
  \<^verbatim>\<open>unicodedata\<close> in Python 3.12.
\<close>

definition FORBIDDEN_RANGES :: "(nat \<times> nat) list" where
  "FORBIDDEN_RANGES =
     [(0x0, 0x1f), (0x7f, 0x9f), (0xad, 0xad), (0x600, 0x605), (0x61c, 0x61c), (0x6dd, 0x6dd),
      (0x70f, 0x70f), (0x890, 0x891), (0x8e2, 0x8e2), (0x180e, 0x180e), (0x200b, 0x200f),
      (0x2028, 0x202e), (0x2060, 0x2064), (0x2066, 0x206f), (0xfeff, 0xfeff), (0xfff9, 0xfffb),
      (0x110bd, 0x110bd), (0x110cd, 0x110cd), (0x13430, 0x1343f), (0x1bca0, 0x1bca3),
      (0x1d173, 0x1d17a), (0xe0001, 0xe0001), (0xe0020, 0xe007f)]"

definition categoria_proibida :: "nat \<Rightarrow> bool" where
  "categoria_proibida c \<longleftrightarrow> (\<exists>(a, b) \<in> set FORBIDDEN_RANGES. a \<le> c \<and> c \<le> b)"

definition validar_referencia_opaca :: "pystr \<Rightarrow> perror + pystr" where
  "validar_referencia_opaca s =
     (if blank s then Inl PValueError
      else if length s > MAX_PIAP_REF_LENGTH then Inl PValueError
      else if \<exists>c \<in> set s. categoria_proibida c then Inl PValueError
      else Inr s)"

definition opaque_ref :: "pystr \<Rightarrow> bool" where
  "opaque_ref s \<longleftrightarrow>
     \<not> blank s \<and> length s \<le> MAX_PIAP_REF_LENGTH \<and> (\<forall>c \<in> set s. \<not> categoria_proibida c)"

lemma validar_referencia_opaca_iff [run_iffs]:
  "validar_referencia_opaca s = Inr t \<longleftrightarrow> opaque_ref s \<and> t = s"
  by (auto simp: validar_referencia_opaca_def opaque_ref_def)

definition validar_inteiro_positivo :: "int \<Rightarrow> perror + int" where
  "validar_inteiro_positivo n =
     (if n < 1 then Inl PValueError
      else if n > MAX_PIAP_VERSION_NUMBER then Inl PValueError
      else Inr n)"

definition piap_version :: "int \<Rightarrow> bool" where
  "piap_version n \<longleftrightarrow> 1 \<le> n \<and> n \<le> MAX_PIAP_VERSION_NUMBER"

lemma validar_inteiro_positivo_iff [run_iffs]:
  "validar_inteiro_positivo n = Inr m \<longleftrightarrow> piap_version n \<and> m = n"
  by (auto simp: validar_inteiro_positivo_def piap_version_def)

fun canonizar_instante :: "py_datetime \<Rightarrow> perror + py_datetime" where
  "canonizar_instante (Naive w) = Inl PValueError"
| "canonizar_instante (Aware w off) =
     (case astimezone_utc w off of None \<Rightarrow> Inl POverflowError | Some t \<Rightarrow> Inr t)"

text \<open>An instant in the canonical form: in UTC, inside the range of \<^verbatim>\<open>datetime\<close>.\<close>

definition canonical_instant :: "py_datetime \<Rightarrow> bool" where
  "canonical_instant t \<longleftrightarrow> (\<exists>w. t = Aware w 0 \<and> datetime_range w)"

lemma canonical_instant_code [code]:
  "canonical_instant (Aware w off) \<longleftrightarrow> off = 0 \<and> datetime_range w"
  "canonical_instant (Naive w) \<longleftrightarrow> False"
  by (auto simp: canonical_instant_def)

lemma canonizar_canonical: "canonizar_instante t = Inr u \<Longrightarrow> canonical_instant u \<and> instant u = instant t"
  by (cases t) (auto simp: canonical_instant_def astimezone_utc_def split: if_splits)

lemma canonizar_instante_canonical [simp]: "canonical_instant t \<Longrightarrow> canonizar_instante t = Inr t"
  by (auto simp: canonical_instant_def astimezone_utc_def)

definition validar_escopo :: "pystr list \<Rightarrow> perror + pystr list" where
  "validar_escopo xs =
     (if xs = [] then Inl PValueError
      else if length xs > MAX_APPROVAL_SCOPE_ITEMS then Inl PValueError
      else andthen (traverse validar_referencia_opaca xs) (\<lambda>itens.
             if \<not> distinct itens then Inl PValueError
             else if itens \<noteq> sort itens then Inl PValueError
             else Inr itens))"

definition canonical_scope :: "pystr list \<Rightarrow> bool" where
  "canonical_scope xs \<longleftrightarrow>
     xs \<noteq> [] \<and> length xs \<le> MAX_APPROVAL_SCOPE_ITEMS \<and> (\<forall>x \<in> set xs. opaque_ref x) \<and>
     distinct xs \<and> sorted xs"

lemma traverse_same: "(\<And>x y. f x = Inr y \<longleftrightarrow> P x \<and> y = x) \<Longrightarrow>
  traverse f xs = Inr ys \<longleftrightarrow> (\<forall>x \<in> set xs. P x) \<and> ys = xs"
  by (induction xs arbitrary: ys) (auto simp: run_iffs)

lemma validar_escopo_iff [run_iffs]:
  "validar_escopo xs = Inr ys \<longleftrightarrow> canonical_scope xs \<and> ys = xs"
proof -
  have s: "xs = sort xs \<longleftrightarrow> sorted xs" by (metis sort_key_id_if_sorted sorted_sort list.map_ident)
  show ?thesis
    using s by (auto simp: validar_escopo_def canonical_scope_def
        andthen_eq_Inr traverse_same [OF validar_referencia_opaca_iff])
qed

section \<open>Authority\<close>

record bound_object_ref =
  bo_kind :: bound_kind
  bo_ref :: uuid

record approval_binding =
  ab_reference :: pystr
  ab_version :: int
  ab_scope :: "pystr list"
  ab_expiry :: "py_datetime option"
  ab_jurisdiction :: "pystr option"
  ab_bound_to :: bound_object_ref

record authority_context =
  ac_status :: authority_status
  ac_approval :: "approval_binding option"

text \<open>A validation of an optional field: \<^verbatim>\<open>None\<close> is let through.\<close>

fun optional :: "('a \<Rightarrow> 'e + 'b) \<Rightarrow> 'a option \<Rightarrow> 'e + 'b option" where
  "optional f None = Inr None"
| "optional f (Some x) = andthen (f x) (\<lambda>y. Inr (Some y))"

definition make_approval_binding ::
  "pystr \<Rightarrow> int \<Rightarrow> pystr list \<Rightarrow> py_datetime option \<Rightarrow> pystr option \<Rightarrow> bound_object_ref \<Rightarrow>
   perror + approval_binding" where
  "make_approval_binding ref ver scope expiry jur bound =
     andthen (validar_referencia_opaca ref) (\<lambda>ref'.
     andthen (validar_inteiro_positivo ver) (\<lambda>ver'.
     andthen (validar_escopo scope) (\<lambda>scope'.
     andthen (optional canonizar_instante expiry) (\<lambda>expiry'.
     andthen (optional validar_referencia_opaca jur) (\<lambda>jur'.
     Inr \<lparr>ab_reference = ref', ab_version = ver', ab_scope = scope', ab_expiry = expiry',
          ab_jurisdiction = jur', ab_bound_to = bound\<rparr>)))))"

definition make_authority_context ::
  "authority_status \<Rightarrow> approval_binding option \<Rightarrow> perror + authority_context" where
  "make_authority_context status approval =
     (if status = ASSERTED_AUTHORIZED \<and> approval = None then Inl PValueError
      else if status = AUTHORITY_UNKNOWN \<and> approval \<noteq> None then Inl PValueError
      else Inr \<lparr>ac_status = status, ac_approval = approval\<rparr>)"

definition valid_approval :: "approval_binding \<Rightarrow> bool" where
  "valid_approval a \<longleftrightarrow>
     opaque_ref (ab_reference a) \<and> piap_version (ab_version a) \<and> canonical_scope (ab_scope a) \<and>
     pred_option canonical_instant (ab_expiry a) \<and> pred_option opaque_ref (ab_jurisdiction a)"

definition valid_authority :: "authority_context \<Rightarrow> bool" where
  "valid_authority c \<longleftrightarrow>
     pred_option valid_approval (ac_approval c) \<and>
     (ac_status c = ASSERTED_AUTHORIZED \<longrightarrow> ac_approval c \<noteq> None) \<and>
     (ac_status c = AUTHORITY_UNKNOWN \<longrightarrow> ac_approval c = None)"

lemma optional_same:
  "(\<And>x y. f x = Inr y \<longleftrightarrow> P x \<and> y = x) \<Longrightarrow> optional f v = Inr w \<longleftrightarrow> pred_option P v \<and> w = v"
  by (cases v) (auto simp: run_iffs)

lemma make_approval_valid:
  "make_approval_binding ref ver scope expiry jur bound = Inr a \<Longrightarrow> valid_approval a"
  by (cases expiry)
     (auto simp: make_approval_binding_def valid_approval_def run_iffs
       optional_same [OF validar_referencia_opaca_iff] dest: canonizar_canonical)

lemma make_approval_fields:
  "valid_approval a \<Longrightarrow>
   make_approval_binding (ab_reference a) (ab_version a) (ab_scope a) (ab_expiry a)
     (ab_jurisdiction a) (ab_bound_to a) = Inr a"
  by (cases "ab_expiry a")
     (auto simp: make_approval_binding_def valid_approval_def run_iffs
       optional_same [OF validar_referencia_opaca_iff])

lemma make_authority_valid:
  "make_authority_context s a = Inr c \<Longrightarrow> pred_option valid_approval a \<Longrightarrow> valid_authority c"
  by (auto simp: make_authority_context_def valid_authority_def split: if_splits)

lemma make_authority_fields:
  "valid_authority c \<Longrightarrow> make_authority_context (ac_status c) (ac_approval c) = Inr c"
  by (auto simp: make_authority_context_def valid_authority_def)

text \<open>\<^verbatim>\<open>validate_approval\<close>: seven refusals in a fixed order, then \<^verbatim>\<open>VALID\<close>.\<close>

definition approval_verdict ::
  "authority_context \<Rightarrow> py_datetime \<Rightarrow> int \<Rightarrow> pystr list \<Rightarrow> pystr option \<Rightarrow> bound_object_ref \<Rightarrow>
   approval_outcome" where
  "approval_verdict c at ver scope jur bound =
     (case ac_approval c of
        None \<Rightarrow> APPROVAL_MISSING
      | Some a \<Rightarrow>
          if ac_status c \<noteq> ASSERTED_AUTHORIZED then NOT_AUTHORIZED
          else if ab_bound_to a \<noteq> bound then BINDING_MISMATCH
          else if ab_version a \<noteq> ver then VERSION_MISMATCH
          else if jur \<noteq> None \<and> ab_jurisdiction a \<noteq> jur then JURISDICTION_MISMATCH
          else if \<not> set scope \<subseteq> set (ab_scope a) then OUT_OF_SCOPE
          else if (case ab_expiry a of None \<Rightarrow> False | Some x \<Rightarrow> instant x \<le> instant at)
          then EXPIRED_APPROVAL
          else APPROVAL_VALID)"

definition validate_approval ::
  "authority_context \<Rightarrow> py_datetime \<Rightarrow> int \<Rightarrow> pystr list \<Rightarrow> pystr option \<Rightarrow> bound_object_ref \<Rightarrow>
   perror + approval_outcome" where
  "validate_approval c at ver scope jur bound =
     andthen (canonizar_instante at) (\<lambda>instante.
     andthen (validar_inteiro_positivo ver) (\<lambda>esperada.
     andthen (validar_escopo scope) (\<lambda>escopo.
     andthen (optional validar_referencia_opaca jur) (\<lambda>jurisdicao.
     Inr (approval_verdict c instante esperada escopo jurisdicao bound)))))"

lemma validate_approval_Inr:
  "validate_approval c at ver scope jur bound = Inr out \<longleftrightarrow>
     (\<exists>t. canonizar_instante at = Inr t) \<and> piap_version ver \<and> canonical_scope scope \<and>
     pred_option opaque_ref jur \<and> out = approval_verdict c at ver scope jur bound"
proof -
  have "approval_verdict c t ver scope jur bound = approval_verdict c at ver scope jur bound"
    if "canonizar_instante at = Inr t" for t
    using canonizar_canonical [OF that] by (simp add: approval_verdict_def split: option.splits)
  then show ?thesis
    by (auto simp: validate_approval_def run_iffs optional_same [OF validar_referencia_opaca_iff])
qed

lemma approval_valid_iff:
  "approval_verdict c at ver scope jur bound = APPROVAL_VALID \<longleftrightarrow>
     (\<exists>a. ac_approval c = Some a \<and> ac_status c = ASSERTED_AUTHORIZED \<and> ab_bound_to a = bound \<and>
       ab_version a = ver \<and> (jur = None \<or> ab_jurisdiction a = jur) \<and>
       set scope \<subseteq> set (ab_scope a) \<and> (\<forall>x. ab_expiry a = Some x \<longrightarrow> instant at < instant x))"
  by (auto simp: approval_verdict_def split: option.splits)

end
