(* ===== verification/PyFloat.thy ===== *)
theory PyFloat
  imports PiapAuthority "HOL-Library.Log_Nat"
begin

text \<open>
  Python floats. A finite binary64 value is the rational it denotes (the two zeros are one value
  here: no comparison and no branch of the program tells them apart), arithmetic is exact
  arithmetic followed by rounding to nearest, ties to even. The functions of the C library and
  the pseudo-random generator are parameters.
\<close>

section \<open>Values and comparisons\<close>

datatype float64 = Fin rat | FPosInf | FNegInf | FNaN

fun flt :: "float64 \<Rightarrow> float64 \<Rightarrow> bool" where
  "flt (Fin a) (Fin b) = (a < b)"
| "flt FNegInf (Fin _) = True"
| "flt FNegInf FPosInf = True"
| "flt (Fin _) FPosInf = True"
| "flt _ _ = False"

fun feq :: "float64 \<Rightarrow> float64 \<Rightarrow> bool" where
  "feq FNaN _ = False"
| "feq _ FNaN = False"
| "feq a b = (a = b)"

definition fle :: "float64 \<Rightarrow> float64 \<Rightarrow> bool" where
  "fle a b \<longleftrightarrow> flt a b \<or> feq a b"

lemma flt_irrefl [simp]: "\<not> flt a a"
  by (cases a) auto

lemma flt_trans: "flt a b \<Longrightarrow> flt b c \<Longrightarrow> flt a c"
  by (cases a; cases b; cases c) auto

lemma flt_asym: "flt a b \<Longrightarrow> \<not> flt b a"
  by (cases a; cases b) auto

lemma flt_nan [simp]: "\<not> flt FNaN a" "\<not> flt a FNaN" "\<not> fle FNaN a" "\<not> fle a FNaN"
  by (cases a; simp add: fle_def)+

lemma not_nan_total: "a \<noteq> FNaN \<Longrightarrow> b \<noteq> FNaN \<Longrightarrow> fle a b \<longleftrightarrow> \<not> flt b a"
  by (cases a; cases b) (auto simp: fle_def)

lemma fle_not_flt: "fle a b \<Longrightarrow> \<not> flt b a"
  by (cases a; cases b) (auto simp: fle_def)

text \<open>\<^verbatim>\<open>max(a, b)\<close>: the first unless the second is greater.\<close>

definition fmax :: "float64 \<Rightarrow> float64 \<Rightarrow> float64" where
  "fmax a b = (if flt a b then b else a)"

text \<open>\<^verbatim>\<open>list.sort()\<close> on floats that are not \<^verbatim>\<open>nan\<close>: a stable sort by \<open>flt\<close>.\<close>

fun finsert :: "float64 \<Rightarrow> float64 list \<Rightarrow> float64 list" where
  "finsert x [] = [x]"
| "finsert x (y # ys) = (if flt y x then y # finsert x ys else x # y # ys)"

definition fsort :: "float64 list \<Rightarrow> float64 list" where
  "fsort xs = foldr finsert xs []"

section \<open>Rounding and arithmetic\<close>

definition half_even :: "rat \<Rightarrow> int" where
  "half_even q =
     (let f = \<lfloor>q\<rfloor>; r = q - of_int f
      in if r < 1 / 2 then f else if 1 / 2 < r then f + 1 else if even f then f else f + 1)"

text \<open>The exponent \<open>e\<close> with \<open>2^e \<le> a < 2^(e+1)\<close> of a positive rational.\<close>

definition exponent2 :: "rat \<Rightarrow> int" where
  "exponent2 a =
     (let (n, d) = quotient_of a;
          e = int (floorlog 2 (nat n)) - int (floorlog 2 (nat d))
      in if 2 powi e \<le> a then e else e - 1)"

definition round64 :: "rat \<Rightarrow> float64" where
  "round64 x =
     (if x = 0 then Fin 0
      else let a = \<bar>x\<bar>;
               ulp = 2 powi (max (exponent2 a) (- 1022) - 52);
               v = of_int (half_even (a / ulp)) * ulp
           in if 2 ^ 1024 \<le> v then (if x < 0 then FNegInf else FPosInf)
              else Fin (if x < 0 then - v else v))"

fun fneg :: "float64 \<Rightarrow> float64" where
  "fneg (Fin a) = Fin (- a)"
| "fneg FPosInf = FNegInf"
| "fneg FNegInf = FPosInf"
| "fneg FNaN = FNaN"

fun fadd :: "float64 \<Rightarrow> float64 \<Rightarrow> float64" where
  "fadd (Fin a) (Fin b) = round64 (a + b)"
| "fadd FNaN _ = FNaN"
| "fadd _ FNaN = FNaN"
| "fadd FPosInf FNegInf = FNaN"
| "fadd FNegInf FPosInf = FNaN"
| "fadd FPosInf _ = FPosInf"
| "fadd _ FPosInf = FPosInf"
| "fadd FNegInf _ = FNegInf"
| "fadd _ FNegInf = FNegInf"

definition fsub :: "float64 \<Rightarrow> float64 \<Rightarrow> float64" where
  "fsub a b = fadd a (fneg b)"

text \<open>The sign of a value that is not \<^verbatim>\<open>nan\<close>, and the infinity of a sign.\<close>

fun fsign :: "float64 \<Rightarrow> rat" where
  "fsign (Fin a) = (if a < 0 then - 1 else if a = 0 then 0 else 1)"
| "fsign FPosInf = 1"
| "fsign FNegInf = - 1"
| "fsign FNaN = 0"

definition signed_inf :: "rat \<Rightarrow> float64" where
  "signed_inf s = (if s = 0 then FNaN else if s < 0 then FNegInf else FPosInf)"

fun fmul :: "float64 \<Rightarrow> float64 \<Rightarrow> float64" where
  "fmul (Fin a) (Fin b) = round64 (a * b)"
| "fmul a b = (if a = FNaN \<or> b = FNaN then FNaN else signed_inf (fsign a * fsign b))"

text \<open>\<^verbatim>\<open>a / b\<close> raises when \<open>b\<close> is zero.\<close>

fun fdiv :: "float64 \<Rightarrow> float64 \<Rightarrow> perror + float64" where
  "fdiv a (Fin b) =
     (if b = 0 then Inl PZeroDivision
      else Inr (case a of Fin x \<Rightarrow> round64 (x / b) | FNaN \<Rightarrow> FNaN
                | _ \<Rightarrow> signed_inf (fsign a * fsign (Fin b))))"
| "fdiv a FNaN = Inr FNaN"
| "fdiv a b = Inr (case a of Fin _ \<Rightarrow> Fin 0 | _ \<Rightarrow> FNaN)"

definition f_of_int :: "int \<Rightarrow> float64" where
  "f_of_int n = round64 (of_int n)"

text \<open>\<^verbatim>\<open>int(math.floor(x))\<close> and \<^verbatim>\<open>int(x)\<close>.\<close>

fun ffloor :: "float64 \<Rightarrow> perror + int" where
  "ffloor (Fin a) = Inr \<lfloor>a\<rfloor>"
| "ffloor FNaN = Inl PValueError"
| "ffloor _ = Inl POverflowError"

fun ftrunc :: "float64 \<Rightarrow> perror + int" where
  "ftrunc (Fin a) = Inr (if a < 0 then \<lceil>a\<rceil> else \<lfloor>a\<rfloor>)"
| "ftrunc FNaN = Inl PValueError"
| "ftrunc _ = Inl POverflowError"

text \<open>\<^verbatim>\<open>math.fsum\<close>: the exact sum, rounded once.\<close>

definition fsum :: "float64 list \<Rightarrow> perror + float64" where
  "fsum xs =
     (if FPosInf \<in> set xs \<and> FNegInf \<in> set xs then Inl PValueError
      else if FNaN \<in> set xs then Inr FNaN
      else if FPosInf \<in> set xs then Inr FPosInf
      else if FNegInf \<in> set xs then Inr FNegInf
      else let s = round64 (sum_list (map (\<lambda>x. case x of Fin a \<Rightarrow> a | _ \<Rightarrow> 0) xs))
           in if s = FPosInf \<or> s = FNegInf then Inl POverflowError else Inr s)"

text \<open>
  The built-in \<^verbatim>\<open>sum\<close> of floats as of Python 3.12: Neumaier's compensated sum, the
  compensation added at the end when it is finite.
\<close>

definition fabs :: "float64 \<Rightarrow> float64" where
  "fabs x = (if flt x (Fin 0) then fneg x else x)"

fun neumaier :: "float64 \<Rightarrow> float64 \<Rightarrow> float64 list \<Rightarrow> float64 \<times> float64" where
  "neumaier s c [] = (s, c)"
| "neumaier s c (x # xs) =
     (let t = fadd s x;
          d = (if fle (fabs x) (fabs s) then fadd (fsub s t) x else fadd (fsub x t) s)
      in neumaier t (fadd c d) xs)"

definition fsum_builtin :: "float64 list \<Rightarrow> float64" where
  "fsum_builtin xs =
     (case neumaier (Fin 0) (Fin 0) xs of
        (s, Fin c) \<Rightarrow> if c = 0 then s else fadd s (Fin c)
      | (s, _) \<Rightarrow> s)"

text \<open>
  What the estimator takes from the C library (\<^verbatim>\<open>log\<close>, \<^verbatim>\<open>pow\<close>) and from
  \<^verbatim>\<open>random.Random\<close>: a generator made from a seed, and a draw below a bound.
\<close>

record 'g numerics =
  lib_log :: "float64 \<Rightarrow> float64"
  lib_pow :: "float64 \<Rightarrow> float64 \<Rightarrow> float64"
  rng_seed :: "int \<Rightarrow> 'g"
  rng_below :: "nat \<Rightarrow> 'g \<Rightarrow> nat \<times> 'g"

text \<open>What the documentation of \<^verbatim>\<open>randrange\<close> says of a draw.\<close>

definition draws_below :: "('g, 'z) numerics_scheme \<Rightarrow> bool" where
  "draws_below lib \<longleftrightarrow> (\<forall>n g. 0 < n \<longrightarrow> fst (rng_below lib n g) < n)"

text \<open>\<^verbatim>\<open>math.log\<close> refuses what is not positive; \<^verbatim>\<open>x ** 2\<close> refuses to overflow.\<close>

fun is_finite :: "float64 \<Rightarrow> bool" where
  "is_finite (Fin a) = True"
| "is_finite x = False"

definition flog :: "('g, 'z) numerics_scheme \<Rightarrow> float64 \<Rightarrow> perror + float64" where
  "flog lib x = (if fle x (Fin 0) then Inl PValueError else Inr (lib_log lib x))"

definition fsquare :: "('g, 'z) numerics_scheme \<Rightarrow> float64 \<Rightarrow> perror + float64" where
  "fsquare lib x =
     (let y = lib_pow lib x (Fin 2)
      in if is_finite x \<and> y = FPosInf then Inl POverflowError else Inr y)"

lemma f_of_int_example: "f_of_int (2 ^ 53 + 1) = Fin (2 ^ 53)"
proof -
  have "floorlog 2 9007199254740993 = 54" "floorlog 2 (Suc 0) = 1"
    by (simp_all add: compute_floorlog)
  then have e: "exponent2 9007199254740993 = 53"
    by (simp add: exponent2_def power_int_def)
  have "\<lfloor>9007199254740993 / (2 :: rat)\<rfloor> = 4503599627370496"
    by (simp add: floor_eq_iff)
  then show ?thesis
    by (simp add: f_of_int_def round64_def e half_even_def Let_def power_int_def)
qed

lemma f_of_int_two_53: "f_of_int (2 ^ 53) = Fin (2 ^ 53)"
proof -
  have "floorlog 2 9007199254740992 = 54" "floorlog 2 (Suc 0) = 1"
    by (simp_all add: compute_floorlog)
  then have e: "exponent2 9007199254740992 = 53"
    by (simp add: exponent2_def power_int_def)
  then show ?thesis
    by (simp add: f_of_int_def round64_def e half_even_def Let_def power_int_def)
qed

end
