(* ===== verification/Estimator.thy ===== *)
theory Estimator
  imports PyFloat "HOL-Library.Multiset"
begin

text \<open>
  \<^verbatim>\<open>predictive_accessibility/estimator.py\<close> and \<^verbatim>\<open>power.py\<close>: the Gaussian baseline,
  the AR(1) candidate, the gain of each blind event, the circular block bootstrap and the
  placebo, operation by operation. The conditions they raise under are branches.
\<close>

section \<open>Models\<close>

record baseline_model =
  bm_mean :: float64
  bm_variance :: float64

record ar1_model =
  ar_intercept :: float64
  ar_coefficient :: float64
  ar_residual_variance :: float64

definition LOG_2PI :: "('g, 'z) numerics_scheme \<Rightarrow> float64" where
  "LOG_2PI lib = lib_log lib (fmul (Fin 2) (round64 (884279719003555 / 281474976710656)))"

text \<open>\<^verbatim>\<open>-0.5 * (_LOG_2PI + math.log(variance) + (target - mean) ** 2 / variance)\<close>.\<close>

definition gaussian_log_density ::
  "('g, 'z) numerics_scheme \<Rightarrow> float64 \<Rightarrow> float64 \<Rightarrow> float64 \<Rightarrow> perror + float64" where
  "gaussian_log_density lib variance mean target =
     andthen (flog lib variance) (\<lambda>lv.
     andthen (fsquare lib (fsub target mean)) (\<lambda>sq.
     andthen (fdiv sq variance) (\<lambda>q.
     Inr (fmul (Fin (- 1 / 2)) (fadd (fadd (LOG_2PI lib) lv) q)))))"

definition baseline_log_density ::
  "('g, 'z) numerics_scheme \<Rightarrow> baseline_model \<Rightarrow> float64 \<Rightarrow> perror + float64" where
  "baseline_log_density lib m y = gaussian_log_density lib (bm_variance m) (bm_mean m) y"

definition ar1_log_density ::
  "('g, 'z) numerics_scheme \<Rightarrow> ar1_model \<Rightarrow> float64 \<Rightarrow> float64 \<Rightarrow> perror + float64" where
  "ar1_log_density lib m y x =
     gaussian_log_density lib (ar_residual_variance m)
       (fadd (ar_intercept m) (fmul (ar_coefficient m) x)) y"

definition fit_baseline :: "('g, 'z) numerics_scheme \<Rightarrow> float64 list \<Rightarrow> perror + baseline_model" where
  "fit_baseline lib targets =
     (let n = int (length targets) in
      if n < 2 then Inl PValueError
      else
      andthen (fsum targets) (\<lambda>s.
      andthen (fdiv s (f_of_int n)) (\<lambda>media.
      andthen (traverse (\<lambda>y. fsquare lib (fsub y media)) targets) (\<lambda>sqs.
      andthen (fsum sqs) (\<lambda>ss.
      andthen (fdiv ss (f_of_int (n - 1))) (\<lambda>variancia.
      if fle variancia (Fin 0) then Inl PValueError
      else Inr \<lparr>bm_mean = media, bm_variance = variancia\<rparr>))))))"

definition fit_ar1 :: "('g, 'z) numerics_scheme \<Rightarrow> (float64 \<times> float64) list \<Rightarrow> perror + ar1_model" where
  "fit_ar1 lib pairs =
     (let n = int (length pairs) in
      if n < 3 then Inl PValueError
      else
      andthen (andthen (fsum (map fst pairs)) (\<lambda>s. fdiv s (f_of_int n))) (\<lambda>media_x.
      andthen (andthen (fsum (map snd pairs)) (\<lambda>s. fdiv s (f_of_int n))) (\<lambda>media_y.
      andthen (andthen (traverse (\<lambda>(x, _). fsquare lib (fsub x media_x)) pairs) fsum) (\<lambda>sxx.
      if fle sxx (Fin 0) then Inl PValueError
      else
      andthen (fsum (map (\<lambda>(x, y). fmul (fsub x media_x) (fsub y media_y)) pairs)) (\<lambda>sxy.
      andthen (fdiv sxy sxx) (\<lambda>coeficiente.
      let intercepto = fsub media_y (fmul coeficiente media_x) in
      andthen (andthen (traverse (\<lambda>(x, y). fsquare lib (fsub (fsub y intercepto) (fmul coeficiente x))) pairs)
                 fsum) (\<lambda>residuos.
      andthen (fdiv residuos (f_of_int (n - 2))) (\<lambda>variancia.
      if fle variancia (Fin 0) then Inl PValueError
      else Inr \<lparr>ar_intercept = intercepto, ar_coefficient = coeficiente,
                ar_residual_variance = variancia\<rparr>))))))))"

definition per_event_gains ::
  "('g, 'z) numerics_scheme \<Rightarrow> baseline_model \<Rightarrow> ar1_model \<Rightarrow> (float64 \<times> float64) list \<Rightarrow>
   perror + float64 list" where
  "per_event_gains lib base cand blind =
     (if blind = [] then Inl PValueError
      else traverse (\<lambda>(x, y).
             andthen (ar1_log_density lib cand y x) (\<lambda>a.
             andthen (baseline_log_density lib base y) (\<lambda>b. Inr (fsub a b)))) blind)"

section \<open>Power\<close>

record power_outcome =
  po_a_minus :: float64
  po_a_upper :: float64
  po_a_star_worst :: float64
  po_mean_gain :: float64
  po_placebo_p :: float64
  po_g_real :: float64
  po_g_shuffled_p95 :: float64
  po_sample_size :: nat
  po_alpha_corrected :: float64

text \<open>
  The interpolated quantile of a sorted sample. The positions are read as Python reads them; a
  negative one counts from the end.
\<close>

definition py_index :: "'a list \<Rightarrow> int \<Rightarrow> perror + 'a" where
  "py_index xs i =
     (let k = (if 0 \<le> i then i else i + int (length xs))
      in if k < 0 \<or> int (length xs) \<le> k then Inl PIndexError else Inr (xs ! nat k))"

definition quantile :: "float64 list \<Rightarrow> float64 \<Rightarrow> perror + float64" where
  "quantile ordenado q =
     (if ordenado = [] then Inl PValueError
      else
      let n = int (length ordenado); pos = fmul q (f_of_int (n - 1)) in
      andthen (ffloor pos) (\<lambda>baixo.
      let alto = min (baixo + 1) (n - 1); frac = fsub pos (f_of_int baixo) in
      andthen (py_index ordenado baixo) (\<lambda>lo.
      andthen (py_index ordenado alto) (\<lambda>hi.
      Inr (fadd (fmul lo (fsub (Fin 1) frac)) (fmul hi frac))))))"

definition block_length :: "('g, 'z) numerics_scheme \<Rightarrow> nat \<Rightarrow> perror + int" where
  "block_length lib n =
     andthen (fdiv (Fin 1) (Fin 3)) (\<lambda>third.
     andthen (ffloor (lib_pow lib (f_of_int (int n)) third)) (\<lambda>k. Inr (max 2 k)))"

text \<open>One resample: whole blocks of consecutive events, around the end, cut to the sample size.\<close>

fun draw_blocks ::
  "('g, 'z) numerics_scheme \<Rightarrow> float64 list \<Rightarrow> nat \<Rightarrow> nat \<Rightarrow> 'g \<Rightarrow> float64 list \<times> 'g" where
  "draw_blocks lib gains tamanho 0 g = ([], g)"
| "draw_blocks lib gains tamanho (Suc k) g =
     (let (inicio, g1) = rng_below lib (length gains) g;
          bloco = map (\<lambda>i. gains ! ((inicio + i) mod length gains)) [0..<tamanho];
          (resto, g2) = draw_blocks lib gains tamanho k g1
      in (bloco @ resto, g2))"

fun bootstrap_means ::
  "('g, 'z) numerics_scheme \<Rightarrow> float64 list \<Rightarrow> nat \<Rightarrow> nat \<Rightarrow> nat \<Rightarrow> 'g \<Rightarrow> perror + float64 list" where
  "bootstrap_means lib gains tamanho blocos 0 g = Inr []"
| "bootstrap_means lib gains tamanho blocos (Suc r) g =
     (let (amostra, g1) = draw_blocks lib gains tamanho blocos g; n = length gains in
      andthen (fsum (take n amostra)) (\<lambda>s.
      andthen (fdiv s (f_of_int (int n))) (\<lambda>m.
      andthen (bootstrap_means lib gains tamanho blocos r g1) (\<lambda>ms. Inr (m # ms)))))"

definition circular_block_bootstrap ::
  "('g, 'z) numerics_scheme \<Rightarrow> float64 list \<Rightarrow> nat \<Rightarrow> int \<Rightarrow> float64 \<Rightarrow> perror + float64 \<times> float64" where
  "circular_block_bootstrap lib gains replicates seed alpha =
     (let n = length gains in
      if n < 2 then Inl PValueError
      else
      andthen (block_length lib n) (\<lambda>tamanho.
      let blocos = nat (- ((- int n) div tamanho)) in
      andthen (bootstrap_means lib gains (nat tamanho) blocos replicates (rng_seed lib seed)) (\<lambda>medias.
      andthen (quantile (fsort medias) alpha) (\<lambda>lo.
      andthen (quantile (fsort medias) (fsub (Fin 1) alpha)) (\<lambda>hi. Inr (lo, hi))))))"

text \<open>
  \<^verbatim>\<open>random.shuffle\<close>: from the last position down to the second, swap with a position
  drawn at or below it.
\<close>

fun shuffle_from :: "('g, 'z) numerics_scheme \<Rightarrow> nat \<Rightarrow> 'a list \<Rightarrow> 'g \<Rightarrow> 'a list \<times> 'g" where
  "shuffle_from lib 0 xs g = (xs, g)"
| "shuffle_from lib (Suc i) xs g =
     (let (j, g1) = rng_below lib (Suc (Suc i)) g
      in shuffle_from lib i (xs[Suc i := xs ! j, j := xs ! Suc i]) g1)"

definition shuffle :: "('g, 'z) numerics_scheme \<Rightarrow> 'a list \<Rightarrow> 'g \<Rightarrow> 'a list \<times> 'g" where
  "shuffle lib xs g = shuffle_from lib (length xs - 1) xs g"

definition placebo_gain ::
  "('g, 'z) numerics_scheme \<Rightarrow> float64 list \<Rightarrow> ar1_model \<Rightarrow> float64 list \<Rightarrow> float64 list \<Rightarrow>
   perror + float64" where
  "placebo_gain lib baseline_log cand alvos preditores =
     andthen (traverse (\<lambda>((y, x), b). andthen (ar1_log_density lib cand y x) (\<lambda>a. Inr (fsub a b)))
                (zip (zip alvos preditores) baseline_log)) (\<lambda>ds.
     andthen (fsum ds) (\<lambda>s. fdiv s (f_of_int (int (length alvos)))))"

fun placebo_nulls ::
  "('g, 'z) numerics_scheme \<Rightarrow> float64 list \<Rightarrow> ar1_model \<Rightarrow> float64 list \<Rightarrow> float64 list \<Rightarrow>
   nat \<Rightarrow> 'g \<Rightarrow> perror + float64 list" where
  "placebo_nulls lib baseline_log cand alvos preditores 0 g = Inr []"
| "placebo_nulls lib baseline_log cand alvos preditores (Suc k) g =
     (let (embaralhado, g1) = shuffle lib preditores g in
      andthen (placebo_gain lib baseline_log cand alvos embaralhado) (\<lambda>ganho.
      andthen (placebo_nulls lib baseline_log cand alvos preditores k g1) (\<lambda>r. Inr (ganho # r))))"

definition deterministic_placebo ::
  "('g, 'z) numerics_scheme \<Rightarrow> float64 list \<Rightarrow> ar1_model \<Rightarrow> (float64 \<times> float64) list \<Rightarrow> nat \<Rightarrow> int \<Rightarrow>
   perror + float64 \<times> float64 \<times> float64" where
  "deterministic_placebo lib baseline_log cand blind permutations seed =
     (let preditores = map fst blind; alvos = map snd blind in
      andthen (placebo_gain lib baseline_log cand alvos preditores) (\<lambda>ganho_real.
      andthen (placebo_nulls lib baseline_log cand alvos preditores permutations (rng_seed lib seed)) (\<lambda>nulos.
      let contagem = length (filter (\<lambda>g. fle ganho_real g) nulos) in
      andthen (fdiv (f_of_int (1 + int contagem)) (f_of_int (int permutations + 1))) (\<lambda>p.
      andthen (quantile (fsort nulos) (round64 (95 / 100))) (\<lambda>p95. Inr (p, ganho_real, p95))))))"

section \<open>A shuffle is a permutation\<close>

lemma shuffle_from_mset:
  "draws_below lib \<Longrightarrow> i < length xs \<Longrightarrow> mset (fst (shuffle_from lib i xs g)) = mset xs"
proof (induction i arbitrary: xs g)
  case (Suc i)
  obtain j g1 where d: "rng_below lib (Suc (Suc i)) g = (j, g1)" by force
  have "j < Suc (Suc i)" using Suc.prems(1) d by (metis draws_below_def fst_conv zero_less_Suc)
  then have "j < length xs" using Suc.prems(2) by simp
  with Suc d show ?case by (simp add: mset_swap)
qed simp

lemma shuffle_mset: "draws_below lib \<Longrightarrow> mset (fst (shuffle lib xs g)) = mset xs"
  by (cases xs) (simp_all add: shuffle_def shuffle_from_mset)

end
