(* ===== verification/PiapEnvelope.thy ===== *)
theory PiapEnvelope
  imports PiapAuthority
begin

text \<open>
  \<^verbatim>\<open>predictive_accessibility/piap/envelope.py\<close>: the value objects of the PIAP envelope,
  its canonical serialization and the boundary that reads it back.
\<close>

section \<open>Tokens and hashes\<close>

definition MAX_TOKEN_LENGTH :: nat where "MAX_TOKEN_LENGTH = 64"

definition is_lower :: "nat \<Rightarrow> bool" where "is_lower c \<longleftrightarrow> 97 \<le> c \<and> c \<le> 122"

definition token_char :: "nat \<Rightarrow> bool" where "token_char c \<longleftrightarrow> is_lower c \<or> is_digit c"

definition token_mark :: "nat \<Rightarrow> bool" where "token_mark c \<longleftrightarrow> c = 46 \<or> c = 95 \<or> c = 45"

text \<open>
  \<^verbatim>\<open>[a-z][a-z0-9]*(?:[._-][a-z0-9]+)*\<close>: after its first letter a token is a sequence
  of letters, digits and single marks, each mark followed by a letter or a digit.
\<close>

fun token_tail :: "pystr \<Rightarrow> bool" where
  "token_tail [] = True"
| "token_tail [c] = token_char c"
| "token_tail (c # d # s) =
     (if token_char c then token_tail (d # s)
      else token_mark c \<and> token_char d \<and> token_tail s)"

definition match_token :: "pystr \<Rightarrow> bool" where
  "match_token s \<longleftrightarrow> (case s of [] \<Rightarrow> False | c # r \<Rightarrow> is_lower c \<and> token_tail r)"

definition validar_token :: "pystr \<Rightarrow> perror + pystr" where
  "validar_token s =
     (if s = [] then Inl PValueError
      else if length s > MAX_TOKEN_LENGTH then Inl PValueError
      else if \<not> match_token s then Inl PValueError
      else Inr s)"

definition token :: "pystr \<Rightarrow> bool" where
  "token s \<longleftrightarrow> length s \<le> MAX_TOKEN_LENGTH \<and> match_token s"

lemma validar_token_iff [run_iffs]: "validar_token s = Inr t \<longleftrightarrow> token s \<and> t = s"
  by (auto simp: validar_token_def token_def match_token_def)

definition canonical_sha256 :: "pystr \<Rightarrow> bool" where
  "canonical_sha256 s \<longleftrightarrow> length s = 64 \<and> list_all is_lower_hex s"

definition validar_sha256_hex :: "pystr \<Rightarrow> perror + pystr" where
  "validar_sha256_hex s = (if \<not> canonical_sha256 s then Inl PValueError else Inr s)"

lemma validar_sha256_hex_iff [run_iffs]:
  "validar_sha256_hex s = Inr t \<longleftrightarrow> canonical_sha256 s \<and> t = s"
  by (auto simp: validar_sha256_hex_def)

section \<open>Value objects\<close>

record source_reference =
  sr_kind :: pystr
  sr_ref :: uuid
  sr_version :: int
  sr_sha256 :: "pystr option"

record horizon =
  hz_delta :: timedelta
  hz_reference_time :: py_datetime
  hz_availability :: temporal_availability

record claim_subject =
  cs_target :: pystr
  cs_signal :: pystr
  cs_horizon :: horizon

record provenance_record =
  pr_origin :: source_reference
  pr_recorded_at :: py_datetime
  pr_jurisdiction :: "pystr option"
  pr_policy_ref :: "pystr option"

record piap_envelope =
  pe_version :: contract_version
  pe_subject :: claim_subject
  pe_provenance :: provenance_record
  pe_authority :: authority_context
  pe_payload_refs :: "source_reference list"
  pe_sealed_at :: py_datetime

definition make_provenance_kind :: "pystr \<Rightarrow> perror + pystr" where
  "make_provenance_kind s = validar_token s"

definition make_source_reference ::
  "pystr \<Rightarrow> uuid \<Rightarrow> int \<Rightarrow> pystr option \<Rightarrow> perror + source_reference" where
  "make_source_reference kind ref ver sha =
     andthen (validar_inteiro_positivo ver) (\<lambda>ver'.
     andthen (optional validar_sha256_hex sha) (\<lambda>sha'.
     Inr \<lparr>sr_kind = kind, sr_ref = ref, sr_version = ver', sr_sha256 = sha'\<rparr>))"

definition source_sort_key :: "source_reference \<Rightarrow> pystr \<times> pystr \<times> int \<times> pystr" where
  "source_sort_key r =
     (sr_kind r, str_uuid (sr_ref r), sr_version r, case sr_sha256 r of None \<Rightarrow> [] | Some h \<Rightarrow> h)"

definition make_horizon ::
  "timedelta \<Rightarrow> py_datetime \<Rightarrow> temporal_availability \<Rightarrow> perror + horizon" where
  "make_horizon delta t avail =
     (if total_micros delta \<le> 0 then Inl PValueError
      else andthen (canonizar_instante t) (\<lambda>t'.
        Inr \<lparr>hz_delta = delta, hz_reference_time = t', hz_availability = avail\<rparr>))"

definition make_claim_subject :: "pystr \<Rightarrow> pystr \<Rightarrow> horizon \<Rightarrow> perror + claim_subject" where
  "make_claim_subject tgt sig hz =
     andthen (validar_token tgt) (\<lambda>tgt'.
     andthen (validar_token sig) (\<lambda>sig'.
     Inr \<lparr>cs_target = tgt', cs_signal = sig', cs_horizon = hz\<rparr>))"

definition make_provenance_record ::
  "source_reference \<Rightarrow> py_datetime \<Rightarrow> pystr option \<Rightarrow> pystr option \<Rightarrow> perror + provenance_record" where
  "make_provenance_record orig t jur pol =
     andthen (canonizar_instante t) (\<lambda>t'.
     andthen (optional validar_referencia_opaca jur) (\<lambda>jur'.
     andthen (optional validar_referencia_opaca pol) (\<lambda>pol'.
     Inr \<lparr>pr_origin = orig, pr_recorded_at = t', pr_jurisdiction = jur', pr_policy_ref = pol'\<rparr>)))"

definition make_piap_envelope ::
  "contract_version \<Rightarrow> claim_subject \<Rightarrow> provenance_record \<Rightarrow> authority_context \<Rightarrow>
   source_reference list \<Rightarrow> py_datetime \<Rightarrow> perror + piap_envelope" where
  "make_piap_envelope ver subj prov auth refs sealed =
     andthen (require_supported_version ver) (\<lambda>ver'.
     if length refs > MAX_PAYLOAD_REFERENCES then Inl PValueError
     else let chaves = map source_sort_key refs in
     if \<not> distinct chaves then Inl PValueError
     else if chaves \<noteq> sort chaves then Inl PValueError
     else andthen (canonizar_instante sealed) (\<lambda>sealed'.
     if instant (hz_reference_time (cs_horizon subj)) > instant sealed' then Inl PValueError
     else if instant (pr_recorded_at prov) > instant sealed' then Inl PValueError
     else Inr \<lparr>pe_version = ver', pe_subject = subj, pe_provenance = prov, pe_authority = auth,
               pe_payload_refs = refs, pe_sealed_at = sealed'\<rparr>))"

definition valid_source :: "source_reference \<Rightarrow> bool" where
  "valid_source r \<longleftrightarrow> token (sr_kind r) \<and> piap_version (sr_version r) \<and>
     pred_option canonical_sha256 (sr_sha256 r)"

definition valid_horizon :: "horizon \<Rightarrow> bool" where
  "valid_horizon h \<longleftrightarrow> valid_timedelta (hz_delta h) \<and> 0 < total_micros (hz_delta h) \<and>
     canonical_instant (hz_reference_time h)"

definition valid_subject :: "claim_subject \<Rightarrow> bool" where
  "valid_subject c \<longleftrightarrow> token (cs_target c) \<and> token (cs_signal c) \<and> valid_horizon (cs_horizon c)"

definition valid_provenance :: "provenance_record \<Rightarrow> bool" where
  "valid_provenance p \<longleftrightarrow> valid_source (pr_origin p) \<and> canonical_instant (pr_recorded_at p) \<and>
     pred_option opaque_ref (pr_jurisdiction p) \<and> pred_option opaque_ref (pr_policy_ref p)"

definition valid_envelope :: "piap_envelope \<Rightarrow> bool" where
  "valid_envelope e \<longleftrightarrow>
     valid_subject (pe_subject e) \<and> valid_provenance (pe_provenance e) \<and>
     valid_authority (pe_authority e) \<and> (\<forall>r \<in> set (pe_payload_refs e). valid_source r) \<and>
     length (pe_payload_refs e) \<le> MAX_PAYLOAD_REFERENCES \<and>
     distinct (map source_sort_key (pe_payload_refs e)) \<and>
     sorted (map source_sort_key (pe_payload_refs e)) \<and> canonical_instant (pe_sealed_at e) \<and>
     instant (hz_reference_time (cs_horizon (pe_subject e))) \<le> instant (pe_sealed_at e) \<and>
     instant (pr_recorded_at (pe_provenance e)) \<le> instant (pe_sealed_at e)"

lemma make_source_iff:
  "make_source_reference k r v h = Inr x \<longleftrightarrow>
     x = \<lparr>sr_kind = k, sr_ref = r, sr_version = v, sr_sha256 = h\<rparr> \<and> piap_version v \<and>
     pred_option canonical_sha256 h"
  by (auto simp: make_source_reference_def run_iffs optional_same [OF validar_sha256_hex_iff])

lemma make_horizon_valid:
  "make_horizon d t a = Inr h \<Longrightarrow> valid_timedelta d \<Longrightarrow> valid_horizon h"
  by (auto simp: make_horizon_def valid_horizon_def run_iffs dest: canonizar_canonical split: if_splits)

lemma make_horizon_fields:
  "valid_horizon h \<Longrightarrow> make_horizon (hz_delta h) (hz_reference_time h) (hz_availability h) = Inr h"
  by (auto simp: make_horizon_def valid_horizon_def)

lemma make_subject_iff:
  "make_claim_subject t s h = Inr c \<longleftrightarrow>
     token t \<and> token s \<and> c = \<lparr>cs_target = t, cs_signal = s, cs_horizon = h\<rparr>"
  by (auto simp: make_claim_subject_def run_iffs)

lemma make_provenance_valid:
  "make_provenance_record o' t j p = Inr r \<Longrightarrow> valid_source o' \<Longrightarrow> valid_provenance r"
  by (auto simp: make_provenance_record_def valid_provenance_def run_iffs
      optional_same [OF validar_referencia_opaca_iff] dest: canonizar_canonical)

lemma make_provenance_fields:
  "valid_provenance r \<Longrightarrow>
   make_provenance_record (pr_origin r) (pr_recorded_at r) (pr_jurisdiction r) (pr_policy_ref r) = Inr r"
  by (auto simp: make_provenance_record_def valid_provenance_def run_iffs
      optional_same [OF validar_referencia_opaca_iff])

lemma eq_sort_iff: "xs = sort xs \<longleftrightarrow> sorted xs"
  by (metis sort_key_id_if_sorted sorted_sort list.map_ident)

lemma make_envelope_valid:
  assumes "make_piap_envelope v s p a rs t = Inr e" and "valid_subject s" "valid_provenance p"
    "valid_authority a" "\<forall>r \<in> set rs. valid_source r"
  shows "valid_envelope e"
  using assms
  by (auto simp: make_piap_envelope_def valid_envelope_def run_iffs Let_def eq_sort_iff not_less
      dest: canonizar_canonical split: if_splits)

lemma make_envelope_fields:
  "valid_envelope e \<Longrightarrow>
   make_piap_envelope (pe_version e) (pe_subject e) (pe_provenance e) (pe_authority e)
     (pe_payload_refs e) (pe_sealed_at e) = Inr e"
  by (auto simp: make_piap_envelope_def valid_envelope_def Let_def eq_sort_iff not_less)

section \<open>Canonical serialization\<close>

definition instante_para_json :: "py_datetime \<Rightarrow> json" where
  "instante_para_json t = JStr (iso_z t)"

definition opt_json :: "('a \<Rightarrow> json) \<Rightarrow> 'a option \<Rightarrow> json" where
  "opt_json f x = (case x of None \<Rightarrow> JNull | Some v \<Rightarrow> f v)"

definition source_reference_para_json :: "source_reference \<Rightarrow> json" where
  "source_reference_para_json r =
     JObj [(pys ''content_sha256'', opt_json JStr (sr_sha256 r)),
           (pys ''kind'', JStr (sr_kind r)),
           (pys ''ref'', JStr (str_uuid (sr_ref r))),
           (pys ''source_version'', JInt (sr_version r))]"

definition approval_para_json :: "approval_binding \<Rightarrow> json" where
  "approval_para_json a =
     JObj [(pys ''approval_expiry'', opt_json instante_para_json (ab_expiry a)),
           (pys ''approval_jurisdiction'', opt_json JStr (ab_jurisdiction a)),
           (pys ''approval_reference'', JStr (ab_reference a)),
           (pys ''approval_scope'', JList (map JStr (ab_scope a))),
           (pys ''approval_version'', JInt (ab_version a)),
           (pys ''bound_to'',
              JObj [(pys ''kind'', JStr (bound_kind_value (bo_kind (ab_bound_to a)))),
                    (pys ''ref'', JStr (str_uuid (bo_ref (ab_bound_to a))))])]"

definition authority_para_json :: "authority_context \<Rightarrow> json" where
  "authority_para_json c =
     JObj [(pys ''approval'', opt_json approval_para_json (ac_approval c)),
           (pys ''status'', JStr (authority_status_value (ac_status c)))]"

definition provenance_para_json :: "provenance_record \<Rightarrow> json" where
  "provenance_para_json p =
     JObj [(pys ''jurisdiction'', opt_json JStr (pr_jurisdiction p)),
           (pys ''origin'', source_reference_para_json (pr_origin p)),
           (pys ''policy_ref'', opt_json JStr (pr_policy_ref p)),
           (pys ''recorded_at'', instante_para_json (pr_recorded_at p))]"

definition horizon_para_json :: "horizon \<Rightarrow> json" where
  "horizon_para_json h =
     JObj [(pys ''availability'', JStr (availability_value (hz_availability h))),
           (pys ''delta_microseconds'', JInt (total_micros (hz_delta h))),
           (pys ''reference_time'', instante_para_json (hz_reference_time h))]"

definition subject_para_json :: "claim_subject \<Rightarrow> json" where
  "subject_para_json s =
     JObj [(pys ''horizon'', horizon_para_json (cs_horizon s)),
           (pys ''signal'', JStr (cs_signal s)),
           (pys ''target'', JStr (cs_target s))]"

definition envelope_para_json :: "piap_envelope \<Rightarrow> json" where
  "envelope_para_json e =
     JObj [(pys ''authority'', authority_para_json (pe_authority e)),
           (pys ''contract_version'', JStr (contract_version_value (pe_version e))),
           (pys ''payload_refs'', JList (map source_reference_para_json (pe_payload_refs e))),
           (pys ''provenance'', provenance_para_json (pe_provenance e)),
           (pys ''sealed_at'', instante_para_json (pe_sealed_at e)),
           (pys ''subject'', subject_para_json (pe_subject e))]"

text \<open>
  The document has no float, so \<^verbatim>\<open>json.dumps(allow_nan=False)\<close> does not raise; a text
  with a lone surrogate has no encoding.
\<close>

definition serialize_piap_envelope :: "piap_envelope \<Rightarrow> perror + bytes" where
  "serialize_piap_envelope e =
     (case utf8 (dumps (envelope_para_json e)) of None \<Rightarrow> Inl PUnicodeEncode | Some bs \<Rightarrow> Inr bs)"

end
