(* ===== verification/Claims.thy ===== *)
theory Claims
  imports Estimator PiapEnvelope
begin

text \<open>
  The evaluation of one claim: \<^verbatim>\<open>claim.py\<close>, \<^verbatim>\<open>channel.py\<close>,
  \<^verbatim>\<open>availability.py\<close>, \<^verbatim>\<open>history.py\<close>, \<^verbatim>\<open>regime.py\<close>,
  \<^verbatim>\<open>horizon.py\<close>, \<^verbatim>\<open>approval_validation.py\<close> and \<^verbatim>\<open>epistemic.py\<close> of
  \<^verbatim>\<open>predictive_accessibility\<close>.
\<close>

section \<open>Claims and channels\<close>

record predictive_claim =
  pc_target :: pystr
  pc_signal :: pystr
  pc_horizon :: timedelta
  pc_reference_time :: py_datetime

definition claim_from_envelope :: "piap_envelope \<Rightarrow> predictive_claim" where
  "claim_from_envelope e =
     (let s = pe_subject e
      in \<lparr>pc_target = cs_target s, pc_signal = cs_signal s, pc_horizon = hz_delta (cs_horizon s),
          pc_reference_time = hz_reference_time (cs_horizon s)\<rparr>)"

text \<open>
  \<^verbatim>\<open>int(horizon / timedelta(microseconds=1))\<close>: the quotient of two durations is the
  float nearest to the quotient of their microseconds.
\<close>

definition horizon_as_int :: "timedelta \<Rightarrow> perror + int" where
  "horizon_as_int d = ftrunc (f_of_int (total_micros d))"

text \<open>The JSON array of the four identifying fields, hashed.\<close>

definition subject_key :: "predictive_claim \<Rightarrow> perror + pystr" where
  "subject_key c =
     andthen (horizon_as_int (pc_horizon c)) (\<lambda>us.
     case utf8 (dumps (JList [JStr (pc_target c), JStr (pc_signal c), JInt us,
                              JStr (iso_z (pc_reference_time c))])) of
       None \<Rightarrow> Inl PUnicodeEncode
     | Some bs \<Rightarrow> Inr (sha256_hex bs))"

record channel =
  ch_name :: pystr
  ch_lag :: int

record channel_registry =
  cr_channels :: "channel list"
  cr_estimator_library :: "pystr list"

definition make_channel :: "pystr \<Rightarrow> int \<Rightarrow> perror + channel" where
  "make_channel name lag =
     (if lag < 1 then Inl PValueError else Inr \<lparr>ch_name = name, ch_lag = lag\<rparr>)"

definition make_channel_registry :: "channel list \<Rightarrow> pystr list \<Rightarrow> perror + channel_registry" where
  "make_channel_registry cs lib =
     (if cs = [] then Inl PValueError
      else if lib = [] then Inl PValueError
      else Inr \<lparr>cr_channels = cs, cr_estimator_library = lib\<rparr>)"

section \<open>Causal availability\<close>

text \<open>The reason of an outcome is a text for people; what it says is the comparison kept here.\<close>

record availability_outcome =
  ao_channel :: channel
  ao_available :: bool

definition availability :: "channel \<Rightarrow> int \<Rightarrow> availability_outcome" where
  "availability ch observed_at_offset =
     \<lparr>ao_channel = ch, ao_available = (ch_lag ch \<le> observed_at_offset)\<rparr>"

record causal_rejection =
  rej_claim :: predictive_claim
  rej_channels :: "availability_outcome list"

definition make_causal_rejection ::
  "predictive_claim \<Rightarrow> availability_outcome list \<Rightarrow> perror + causal_rejection" where
  "make_causal_rejection c os =
     (if os = [] then Inl PValueError
      else if \<exists>o' \<in> set os. ao_available o' then Inl PValueError
      else Inr \<lparr>rej_claim = c, rej_channels = os\<rparr>)"

section \<open>Historical validity\<close>

record observation =
  ob_reference :: pystr
  ob_provenance :: pystr
  ob_relevance :: float64

record historical_validity =
  hv_valid_window :: "observation list"
  hv_historical_kernel :: "observation list"
  hv_rho_min :: float64

definition make_observation :: "pystr \<Rightarrow> pystr \<Rightarrow> float64 \<Rightarrow> perror + observation" where
  "make_observation ref prov score =
     (if ref = [] then Inl PValueError
      else if prov = [] then Inl PValueError
      else Inr \<lparr>ob_reference = ref, ob_provenance = prov, ob_relevance = score\<rparr>)"

definition make_historical_validity ::
  "observation list \<Rightarrow> observation list \<Rightarrow> float64 \<Rightarrow> perror + historical_validity" where
  "make_historical_validity ws ks rho =
     (if \<not> distinct (map ob_reference (ws @ ks)) then Inl PValueError
      else Inr \<lparr>hv_valid_window = ws, hv_historical_kernel = ks, hv_rho_min = rho\<rparr>)"

definition historical_validity_of ::
  "observation list \<Rightarrow> float64 \<Rightarrow> perror + historical_validity" where
  "historical_validity_of obs rho =
     (if obs = [] then Inl PValueError
      else make_historical_validity
             (filter (\<lambda>o'. flt rho (ob_relevance o')) obs)
             (filter (\<lambda>o'. fle (ob_relevance o') rho) obs) rho)"

section \<open>Regime\<close>

datatype regime_status = NO_SHIFT | REGIME_SHIFT_CANDIDATE

record regime_assessment =
  ra_status :: regime_status
  ra_d_regime :: float64
  ra_theta :: float64
  ra_beats_fluctuation :: bool
  ra_high_prediction_error :: bool
  ra_model_disagreement :: bool

definition regime_assessment_of ::
  "float64 \<Rightarrow> float64 \<Rightarrow> bool \<Rightarrow> bool \<Rightarrow> bool \<Rightarrow> regime_assessment" where
  "regime_assessment_of d theta beats err disagree =
     \<lparr>ra_status = (if flt theta d \<and> beats then REGIME_SHIFT_CANDIDATE else NO_SHIFT),
      ra_d_regime = d, ra_theta = theta, ra_beats_fluctuation = beats,
      ra_high_prediction_error = err, ra_model_disagreement = disagree\<rparr>"

section \<open>Horizon spectrum\<close>

record horizon_point =
  hp_horizon :: int
  hp_a_minus :: float64
  hp_gates_pass :: bool
  hp_regime :: regime_status

record horizon_spectrum =
  sp_h_pred :: "horizon_point list"
  sp_delta_cont :: "horizon_point list"
  sp_r_pred :: "horizon_point list"

definition make_horizon_point :: "int \<Rightarrow> float64 \<Rightarrow> bool \<Rightarrow> regime_status \<Rightarrow> perror + horizon_point" where
  "make_horizon_point h a g r =
     (if h < 1 then Inl PValueError
      else Inr \<lparr>hp_horizon = h, hp_a_minus = a, hp_gates_pass = g, hp_regime = r\<rparr>)"

definition admissible :: "horizon_point \<Rightarrow> bool" where
  "admissible p \<longleftrightarrow> flt (Fin 0) (hp_a_minus p) \<and> hp_gates_pass p"

fun continuous_prefix :: "int \<Rightarrow> horizon_point list \<Rightarrow> horizon_point list" where
  "continuous_prefix esperado [] = []"
| "continuous_prefix esperado (p # ps) =
     (if admissible p \<and> hp_horizon p = esperado then p # continuous_prefix (esperado + 1) ps else [])"

definition horizon_spectrum_of :: "horizon_point list \<Rightarrow> perror + horizon_spectrum" where
  "horizon_spectrum_of points =
     (case sort_key hp_horizon points of
        [] \<Rightarrow> Inl PValueError
      | q # qs \<Rightarrow>
          let ordenados = q # qs;
              admissiveis = filter admissible ordenados;
              continuo = continuous_prefix (hp_horizon q) ordenados;
              resto = filter (\<lambda>p. p \<notin> set continuo) admissiveis
          in if length continuo + length resto \<noteq> length admissiveis then Inl PValueError
             else Inr \<lparr>sp_h_pred = admissiveis, sp_delta_cont = continuo, sp_r_pred = resto\<rparr>)"

section \<open>The approval step\<close>

definition approval_validation ::
  "piap_envelope \<Rightarrow> py_datetime \<Rightarrow> int \<Rightarrow> pystr list \<Rightarrow> pystr option \<Rightarrow> bound_kind \<Rightarrow>
   perror + approval_outcome" where
  "approval_validation e moment ver scope jur kind =
     (case ac_approval (pe_authority e) of
        None \<Rightarrow> Inr APPROVAL_MISSING
      | Some a \<Rightarrow>
          if bo_kind (ab_bound_to a) \<noteq> kind then Inr BINDING_MISMATCH
          else validate_approval (pe_authority e) moment ver scope jur (ab_bound_to a))"

section \<open>Epistemic states\<close>

datatype epistemic_state = PREDICTABLE | UNRESOLVED | PREDICTIVELY_INACCESSIBLE

record provenance =
  pv_registry :: channel_registry
  pv_a_rel :: float64
  pv_historical_validity :: historical_validity

record claim_evaluation =
  ev_claim :: predictive_claim
  ev_provenance :: provenance
  ev_regime :: regime_assessment
  ev_evidence :: power_outcome
  ev_uncertainty :: "float64 \<times> float64"
  ev_horizon :: horizon_spectrum
  ev_state :: epistemic_state
  ev_approval :: approval_outcome

definition classify_epistemic_state :: "power_outcome \<Rightarrow> float64 \<Rightarrow> bool \<Rightarrow> epistemic_state" where
  "classify_epistemic_state evidence a_rel confirmatory_pass =
     (if flt (Fin 0) (po_a_minus evidence)
      then (if \<not> confirmatory_pass then UNRESOLVED else PREDICTABLE)
      else if fle a_rel (po_a_star_worst evidence) then UNRESOLVED
      else PREDICTIVELY_INACCESSIBLE)"

definition assemble_claim_evaluation ::
  "predictive_claim \<Rightarrow> channel_registry \<Rightarrow> power_outcome \<Rightarrow> approval_outcome \<Rightarrow> float64 \<Rightarrow> bool \<Rightarrow>
   regime_assessment \<Rightarrow> horizon_spectrum \<Rightarrow> historical_validity \<Rightarrow> claim_evaluation" where
  "assemble_claim_evaluation c reg evd appr a_rel pass rgm hz hist =
     \<lparr>ev_claim = c,
      ev_provenance = \<lparr>pv_registry = reg, pv_a_rel = a_rel, pv_historical_validity = hist\<rparr>,
      ev_regime = rgm, ev_evidence = evd, ev_uncertainty = (po_a_minus evd, po_a_upper evd),
      ev_horizon = hz, ev_state = classify_epistemic_state evd a_rel pass, ev_approval = appr\<rparr>"

section \<open>What the parts promise\<close>

text \<open>History is a partition exactly when no relevance and no threshold is \<^verbatim>\<open>nan\<close>.\<close>

lemma history_partition:
  assumes "historical_validity_of obs rho = Inr h" and "rho \<noteq> FNaN"
    and "\<forall>o' \<in> set obs. ob_relevance o' \<noteq> FNaN"
  shows "set (hv_valid_window h) \<union> set (hv_historical_kernel h) = set obs"
    and "set (hv_valid_window h) \<inter> set (hv_historical_kernel h) = {}"
  using assms
  by (auto simp: historical_validity_of_def make_historical_validity_def not_nan_total
      split: if_splits dest: fle_not_flt)

lemma history_loses_nan:
  "o' \<in> set obs \<Longrightarrow> ob_relevance o' = FNaN \<Longrightarrow> historical_validity_of obs rho = Inr h \<Longrightarrow>
   o' \<notin> set (hv_valid_window h) \<union> set (hv_historical_kernel h)"
  by (auto simp: historical_validity_of_def make_historical_validity_def split: if_splits)

lemma continuous_prefix_take:
  "\<exists>rest. ps = continuous_prefix k ps @ rest"
  by (induction k ps rule: continuous_prefix.induct) auto

lemma continuous_prefix_horizons:
  "map hp_horizon (continuous_prefix k ps) = [k..k + int (length (continuous_prefix k ps)) - 1]"
proof (induction k ps rule: continuous_prefix.induct)
  case (2 k p ps)
  then show ?case by (auto simp: upto_rec1 algebra_simps)
qed simp

lemma continuous_prefix_admissible: "p \<in> set (continuous_prefix k ps) \<Longrightarrow> admissible p"
  by (induction k ps rule: continuous_prefix.induct) (auto split: if_splits)

end
