(* ===== verification/Quality.thy ===== *)
theory Quality
  imports Claims
begin

text \<open>
  What stands between an evaluated claim and a route: \<^verbatim>\<open>predictive_claim_conflict.py\<close>,
  \<^verbatim>\<open>assertiveness.py\<close>, \<^verbatim>\<open>protection.py\<close> and \<^verbatim>\<open>guidance.py\<close> of
  \<^verbatim>\<open>predictive_accessibility\<close>. The explanations written for people are constructors, one
  for each text of the source.
\<close>

section \<open>The outcome of one item\<close>

record upstream_unavailable =
  up_reference :: pystr
  up_reason :: pystr

datatype item_outcome =
  UpstreamUnavailable upstream_unavailable
| CausallyRejected causal_rejection
| Evaluated claim_evaluation

section \<open>Conflict between claims\<close>

datatype conflict_status = NO_CONFLICT | REAL_CONFLICT | FALSE_CONFLICT_DECOMPOSED

record comparability_key =
  ck_target :: pystr
  ck_population :: pystr
  ck_jurisdiction :: pystr
  ck_horizon :: int
  ck_regime :: pystr
  ck_unit :: pystr

record comparable_claim =
  cc_evaluation :: claim_evaluation
  cc_key :: comparability_key
  cc_conclusion :: pystr

datatype conflict_reason =
  FewerThanTwo | NotCommensurable | IncompatibleConclusions | ConcordantConclusions

record conflict_assessment =
  ca_status :: conflict_status
  ca_compared :: "comparable_claim list"
  ca_dimensions :: "pystr list"
  ca_preserved :: "item_outcome list"
  ca_reason :: conflict_reason

definition make_comparable_claim ::
  "claim_evaluation \<Rightarrow> comparability_key \<Rightarrow> pystr \<Rightarrow> perror + comparable_claim" where
  "make_comparable_claim ev key sig =
     (if blank sig then Inl PValueError
      else Inr \<lparr>cc_evaluation = ev, cc_key = key, cc_conclusion = sig\<rparr>)"

definition make_conflict_assessment ::
  "conflict_status \<Rightarrow> comparable_claim list \<Rightarrow> pystr list \<Rightarrow> item_outcome list \<Rightarrow> conflict_reason \<Rightarrow>
   perror + conflict_assessment" where
  "make_conflict_assessment st cs dims pres why =
     (if st = FALSE_CONFLICT_DECOMPOSED \<and> dims = [] then Inl PValueError
      else if st = REAL_CONFLICT \<and> dims \<noteq> [] then Inl PValueError
      else Inr \<lparr>ca_status = st, ca_compared = cs, ca_dimensions = dims, ca_preserved = pres,
                ca_reason = why\<rparr>)"

definition blocks_material_support :: "conflict_assessment \<Rightarrow> bool" where
  "blocks_material_support a \<longleftrightarrow> ca_status a = REAL_CONFLICT"

definition blocks_safe_route :: "conflict_assessment \<Rightarrow> bool" where
  "blocks_safe_route a \<longleftrightarrow> ca_status a = REAL_CONFLICT"

definition incommensurable_dimensions :: "comparability_key \<Rightarrow> comparability_key \<Rightarrow> pystr list" where
  "incommensurable_dimensions a b =
     map fst (filter snd
       [(pys ''target'', ck_target a \<noteq> ck_target b),
        (pys ''population'', ck_population a \<noteq> ck_population b),
        (pys ''jurisdiction'', ck_jurisdiction a \<noteq> ck_jurisdiction b),
        (pys ''horizon'', ck_horizon a \<noteq> ck_horizon b),
        (pys ''regime'', ck_regime a \<noteq> ck_regime b),
        (pys ''unit'', ck_unit a \<noteq> ck_unit b)])"

text \<open>\<^verbatim>\<open>tuple(sorted(set(...)))\<close>.\<close>

definition sorted_set :: "pystr list \<Rightarrow> pystr list" where
  "sorted_set xs = sort (remdups xs)"

lemma sorted_set_simps [simp]:
  "set (sorted_set xs) = set xs" "sorted (sorted_set xs)" "distinct (sorted_set xs)"
  "sorted_set xs = [] \<longleftrightarrow> xs = []"
  by (simp_all add: sorted_set_def) (metis remdups_eq_nil_iff set_empty set_sort)

definition conflict_assessment_of ::
  "comparable_claim list \<Rightarrow> item_outcome list \<Rightarrow> perror + conflict_assessment" where
  "conflict_assessment_of claims preserved =
     (case claims of
        [] \<Rightarrow> make_conflict_assessment NO_CONFLICT claims [] preserved FewerThanTwo
      | [_] \<Rightarrow> make_conflict_assessment NO_CONFLICT claims [] preserved FewerThanTwo
      | c # cs \<Rightarrow>
          let divergentes = concat (map (\<lambda>d. incommensurable_dimensions (cc_key c) (cc_key d)) cs)
          in if divergentes \<noteq> [] then
               make_conflict_assessment FALSE_CONFLICT_DECOMPOSED claims (sorted_set divergentes)
                 preserved NotCommensurable
             else
               let conflito = (1 < length (remdups (map cc_conclusion claims)))
               in make_conflict_assessment (if conflito then REAL_CONFLICT else NO_CONFLICT) claims []
                    preserved (if conflito then IncompatibleConclusions else ConcordantConclusions))"

lemma no_dimension_iff: "incommensurable_dimensions a b = [] \<longleftrightarrow> a = b"
  by (cases a; cases b) (auto simp: incommensurable_dimensions_def)

lemma conflict_assessment_total: "\<exists>a. conflict_assessment_of cs pres = Inr a"
  by (auto simp: conflict_assessment_of_def make_conflict_assessment_def Let_def
      simp del: sorted_set_simps(1-3) split: list.splits)

text \<open>A real conflict is a difference of conclusions under one and the same key.\<close>

lemma real_conflict_iff:
  assumes "conflict_assessment_of cs pres = Inr a"
  shows "ca_status a = REAL_CONFLICT \<longleftrightarrow>
    (\<forall>x \<in> set cs. \<forall>y \<in> set cs. cc_key x = cc_key y) \<and>
    (\<exists>x \<in> set cs. \<exists>y \<in> set cs. cc_conclusion x \<noteq> cc_conclusion y)"
proof (cases cs)
  case Nil
  with assms show ?thesis by (simp add: conflict_assessment_of_def make_conflict_assessment_def) force
next
  case (Cons c ds)
  show ?thesis
  proof (cases ds)
    case Nil
    with Cons assms show ?thesis
      by (simp add: conflict_assessment_of_def make_conflict_assessment_def) force
  next
    case (Cons d es)
    have one: "1 < length (remdups xs) \<longleftrightarrow> (\<exists>x \<in> set xs. \<exists>y \<in> set xs. x \<noteq> y)" for xs :: "pystr list"
    proof -
      have "length (remdups xs) \<le> 1 \<longleftrightarrow> (\<forall>x \<in> set xs. \<forall>y \<in> set xs. x = y)"
        using card_le_Suc0_iff_eq [of "set xs"] by (simp add: length_remdups_card_conv)
      then show ?thesis by fastforce
    qed
    have keys: "(\<forall>x \<in> set cs. \<forall>y \<in> set cs. cc_key x = cc_key y) \<longleftrightarrow> (\<forall>x \<in> set ds. cc_key c = cc_key x)"
      using \<open>cs = c # ds\<close> by auto metis
    define D where "D = concat (map (\<lambda>d. incommensurable_dimensions (cc_key c) (cc_key d)) ds)"
    have none: "D = [] \<longleftrightarrow> (\<forall>x \<in> set ds. cc_key c = cc_key x)"
      by (simp add: D_def no_dimension_iff)
    have run: "conflict_assessment_of cs pres =
        (if D \<noteq> [] then make_conflict_assessment FALSE_CONFLICT_DECOMPOSED cs (sorted_set D) pres NotCommensurable
         else let conflito = (1 < length (remdups (map cc_conclusion cs)))
              in make_conflict_assessment (if conflito then REAL_CONFLICT else NO_CONFLICT) cs [] pres
                   (if conflito then IncompatibleConclusions else ConcordantConclusions))"
      by (simp add: conflict_assessment_of_def Cons \<open>cs = c # ds\<close> D_def del: remdups.simps)
    define differ where "differ = (1 < length (remdups (map cc_conclusion cs)))"
    have "differ \<longleftrightarrow> (\<exists>x \<in> set cs. \<exists>y \<in> set cs. cc_conclusion x \<noteq> cc_conclusion y)"
      using one [of "map cc_conclusion cs"] by (simp add: differ_def)
    moreover have "ca_status a = REAL_CONFLICT \<longleftrightarrow> D = [] \<and> differ"
      using assms unfolding run differ_def [symmetric] Let_def
      by (cases "D = []"; cases differ) (auto simp: make_conflict_assessment_def)
    ultimately show ?thesis unfolding keys none by blast
  qed
qed

section \<open>Assertiveness\<close>

datatype authority_state = STATE_AUTHORIZED | STATE_NOT_AUTHORIZED

record assertiveness =
  as_candidate_conclusion :: pystr
  as_decisive_constraint :: pystr
  as_uncertainty :: "float64 \<times> float64"
  as_authority_state :: authority_state
  as_next_governed_route :: pystr
  as_review_or_stop_trigger :: pystr
  as_conflict :: conflict_assessment

definition REVIEW_TRIGGER :: pystr where
  "REVIEW_TRIGGER =
     pys ''revisar ao mudar regime, aprova'' @ [231, 227] @
     pys ''o ou janela de validade hist'' @ [243] @ pys ''rica''"

definition REAL_CONFLICT_PREFIX :: pystr where
  "REAL_CONFLICT_PREFIX = pys ''conflito real entre alega'' @ [231, 245] @ pys ''es; ''"

fun route_of_state :: "epistemic_state \<Rightarrow> pystr" where
  "route_of_state PREDICTABLE = pys ''predict''"
| "route_of_state UNRESOLVED = pys ''investigate''"
| "route_of_state PREDICTIVELY_INACCESSIBLE = pys ''robust''"

definition make_assertiveness :: "assertiveness \<Rightarrow> perror + assertiveness" where
  "make_assertiveness a =
     (if as_candidate_conclusion a = [] \<or> as_decisive_constraint a = [] \<or>
         as_next_governed_route a = [] \<or> as_review_or_stop_trigger a = []
      then Inl PValueError else Inr a)"

definition assertiveness_of ::
  "claim_evaluation \<Rightarrow> pystr \<Rightarrow> pystr \<Rightarrow> conflict_assessment \<Rightarrow> perror + assertiveness" where
  "assertiveness_of ev conclusion constraint conflict =
     make_assertiveness
       \<lparr>as_candidate_conclusion = conclusion,
        as_decisive_constraint =
          (if blocks_safe_route conflict then REAL_CONFLICT_PREFIX @ constraint else constraint),
        as_uncertainty = ev_uncertainty ev,
        as_authority_state =
          (if ev_approval ev = APPROVAL_VALID then STATE_AUTHORIZED else STATE_NOT_AUTHORIZED),
        as_next_governed_route =
          (if blocks_safe_route conflict then pys ''investigate'' else route_of_state (ev_state ev)),
        as_review_or_stop_trigger = REVIEW_TRIGGER, as_conflict = conflict\<rparr>"

section \<open>Comparing instants\<close>

text \<open>Python refuses to order a naive and an aware \<^verbatim>\<open>datetime\<close>.\<close>

definition dt_less :: "py_datetime \<Rightarrow> py_datetime \<Rightarrow> perror + bool" where
  "dt_less a b = (if tz_aware a \<noteq> tz_aware b then Inl PTypeError else Inr (instant a < instant b))"

definition dt_le :: "py_datetime \<Rightarrow> py_datetime \<Rightarrow> perror + bool" where
  "dt_le a b = (if tz_aware a \<noteq> tz_aware b then Inl PTypeError else Inr (instant a \<le> instant b))"

text \<open>\<^verbatim>\<open>t < start or t >= stop\<close>: the second comparison only when the first is false.\<close>

definition outside_window :: "py_datetime \<Rightarrow> py_datetime \<Rightarrow> py_datetime \<Rightarrow> perror + bool" where
  "outside_window t start stop =
     andthen (dt_less t start) (\<lambda>early. if early then Inr True else dt_le stop t)"

lemma dt_eq [run_iffs]:
  "dt_less a b = Inr x \<longleftrightarrow> tz_aware a = tz_aware b \<and> x = (instant a < instant b)"
  "dt_le a b = Inr x \<longleftrightarrow> tz_aware a = tz_aware b \<and> x = (instant a \<le> instant b)"
  by (auto simp: dt_less_def dt_le_def)

section \<open>Protective candidates\<close>

datatype materiality_status = SUPPORTED | NOT_SUPPORTED | MATERIALITY_UNRESOLVED

record materiality_authority =
  ma_reference :: pystr
  ma_authority :: pystr
  ma_jurisdiction :: pystr
  ma_version :: int
  ma_scope :: "pystr list"
  ma_valid_from :: "py_datetime option"
  ma_valid_until :: "py_datetime option"

record candidate_input =
  ci_identifier :: pystr
  ci_reason :: pystr
  ci_provenance :: pystr
  ci_effect_claimed :: bool
  ci_authority :: "materiality_authority option"
  ci_owner :: "pystr option"
  ci_time_window :: "pystr option"
  ci_reversibility :: "pystr option"
  ci_triggers :: "pystr list"
  ci_incompatible_with :: "pystr list"

datatype authority_failure =
  ApprovalNotValid approval_outcome | NoAuthorityReference | NoApprovalBinding | BlankAuthority
| ReferenceNotBound | AuthorityVersionDiffers | AuthorityJurisdictionDiffers | ScopeExceedsApproval
| ScopeInsufficient | WindowAbsent | WindowIncoherent | OutsideWindow | WindowExceedsApproval

datatype classification_reason =
  NoMaterialEffect | AuthorityFails authority_failure | RealConflictBlocks | NoAuthorityState
| SafeguardsMissing | EffectSustained | IncompatibleAction

record candidate =
  cd_identifier :: pystr
  cd_reason :: pystr
  cd_provenance :: pystr
  cd_materiality :: materiality_status
  cd_classification :: classification_reason
  cd_owner :: "pystr option"
  cd_authority :: "materiality_authority option"
  cd_time_window :: "pystr option"
  cd_reversibility :: "pystr option"
  cd_triggers :: "pystr list"
  cd_incompatible_with :: "pystr list"

definition make_candidate_input :: "candidate_input \<Rightarrow> perror + candidate_input" where
  "make_candidate_input c =
     (if ci_identifier c = [] \<or> ci_reason c = [] \<or> ci_provenance c = [] then Inl PValueError
      else if ci_identifier c \<in> set (ci_incompatible_with c) then Inl PValueError
      else if \<not> distinct (ci_incompatible_with c) then Inl PValueError
      else Inr c)"

definition make_candidate :: "candidate \<Rightarrow> perror + candidate" where
  "make_candidate c =
     (if cd_materiality c = SUPPORTED \<and>
         (cd_authority c = None \<or> cd_owner c = None \<or> cd_time_window c = None \<or>
          cd_reversibility c = None \<or> cd_triggers c = [])
      then Inl PValueError else Inr c)"

definition authority_failure_of ::
  "materiality_authority option \<Rightarrow> claim_evaluation \<Rightarrow> approval_binding option \<Rightarrow> py_datetime \<Rightarrow>
   pystr list \<Rightarrow> perror + authority_failure option" where
  "authority_failure_of auth ev binding moment needed =
     (if ev_approval ev \<noteq> APPROVAL_VALID then Inr (Some (ApprovalNotValid (ev_approval ev)))
      else case auth of
        None \<Rightarrow> Inr (Some NoAuthorityReference)
      | Some m \<Rightarrow>
     (case binding of
        None \<Rightarrow> Inr (Some NoApprovalBinding)
      | Some b \<Rightarrow>
          if blank (ma_reference m) \<or> blank (ma_authority m) then Inr (Some BlankAuthority)
          else if ma_reference m \<noteq> ab_reference b then Inr (Some ReferenceNotBound)
          else if ma_version m < 1 \<or> ma_version m \<noteq> ab_version b then Inr (Some AuthorityVersionDiffers)
          else if Some (ma_jurisdiction m) \<noteq> ab_jurisdiction b then Inr (Some AuthorityJurisdictionDiffers)
          else if \<not> set (ma_scope m) \<subseteq> set (ab_scope b) then Inr (Some ScopeExceedsApproval)
          else if \<not> set needed \<subseteq> set (ma_scope m) then Inr (Some ScopeInsufficient)
          else (case (ma_valid_from m, ma_valid_until m) of
                  (Some vf, Some vu) \<Rightarrow>
                    andthen (dt_le vu vf) (\<lambda>incoherent.
                    if incoherent then Inr (Some WindowIncoherent)
                    else andthen (outside_window moment vf vu) (\<lambda>out.
                    if out then Inr (Some OutsideWindow)
                    else (case ab_expiry b of
                            None \<Rightarrow> Inr None
                          | Some x \<Rightarrow> andthen (dt_less x vu) (\<lambda>exceeds.
                              Inr (if exceeds then Some WindowExceedsApproval else None)))))
                | _ \<Rightarrow> Inr (Some WindowAbsent))))"

definition classificar ::
  "assertiveness \<Rightarrow> claim_evaluation \<Rightarrow> approval_binding option \<Rightarrow> conflict_assessment \<Rightarrow> py_datetime \<Rightarrow>
   pystr list \<Rightarrow> candidate_input \<Rightarrow> perror + candidate" where
  "classificar assert ev binding conflict moment needed c =
     andthen (authority_failure_of (ci_authority c) ev binding moment needed) (\<lambda>falha.
     let (status, motivo) =
           (if \<not> ci_effect_claimed c then (NOT_SUPPORTED, NoMaterialEffect)
            else case falha of
              Some f \<Rightarrow> (MATERIALITY_UNRESOLVED, AuthorityFails f)
            | None \<Rightarrow>
                if blocks_material_support conflict then (MATERIALITY_UNRESOLVED, RealConflictBlocks)
                else if as_authority_state assert \<noteq> STATE_AUTHORIZED
                then (MATERIALITY_UNRESOLVED, NoAuthorityState)
                else if ci_owner c = None \<or> ci_time_window c = None \<or> ci_reversibility c = None \<or>
                        ci_triggers c = []
                then (MATERIALITY_UNRESOLVED, SafeguardsMissing)
                else (SUPPORTED, EffectSustained))
     in make_candidate
          \<lparr>cd_identifier = ci_identifier c, cd_reason = ci_reason c, cd_provenance = ci_provenance c,
           cd_materiality = status, cd_classification = motivo, cd_owner = ci_owner c,
           cd_authority = ci_authority c, cd_time_window = ci_time_window c,
           cd_reversibility = ci_reversibility c, cd_triggers = ci_triggers c,
           cd_incompatible_with = ci_incompatible_with c\<rparr>)"

datatype coverage_gap =
  CoverageNotEvaluated | InventoryWithoutProvenance | RequiredFrontsMissing "pystr list"

record protection_set =
  ps_accepted :: "candidate list"
  ps_rejected :: "candidate list"
  ps_unresolved :: "candidate list"
  ps_assertiveness :: assertiveness
  ps_evaluation :: claim_evaluation
  ps_conflict :: conflict_assessment
  ps_coverage :: "coverage_gap option"

definition has_unresolved_branch :: "protection_set \<Rightarrow> bool" where
  "has_unresolved_branch p \<longleftrightarrow> ps_unresolved p \<noteq> [] \<or> ps_coverage p \<noteq> None"

definition complete_answer_allowed :: "protection_set \<Rightarrow> bool" where
  "complete_answer_allowed p \<longleftrightarrow> \<not> has_unresolved_branch p"

definition coverage_of ::
  "candidate_input list \<Rightarrow> pystr list \<Rightarrow> pystr option \<Rightarrow> coverage_gap option" where
  "coverage_of cands needed inventory =
     (let faltantes = filter (\<lambda>i. i \<notin> set (map ci_identifier cands)) needed
      in if cands = [] \<and> needed = [] then Some CoverageNotEvaluated
         else if needed \<noteq> [] \<and> (inventory = None \<or> inventory = Some []) then Some InventoryWithoutProvenance
         else if faltantes \<noteq> [] then Some (RequiredFrontsMissing faltantes)
         else None)"

text \<open>
  The accepted candidates that exclude one another, by identifier; each is replaced, wherever its
  identifier stands, by the last accepted candidate of that identifier, unresolved.
\<close>

definition incompatible_ids :: "candidate list \<Rightarrow> pystr list" where
  "incompatible_ids aceitos =
     map cd_identifier (filter (\<lambda>c.
       (\<exists>i \<in> set (cd_incompatible_with c). i \<in> cd_identifier ` set aceitos) \<or>
       (\<exists>d \<in> set aceitos. cd_identifier c \<in> set (cd_incompatible_with d))) aceitos)"

definition reclassified :: "candidate list \<Rightarrow> pystr \<Rightarrow> candidate option" where
  "reclassified aceitos =
     map_of (rev (map (\<lambda>c. (cd_identifier c,
         c\<lparr>cd_materiality := MATERIALITY_UNRESOLVED, cd_classification := IncompatibleAction\<rparr>))
       (filter (\<lambda>c. cd_identifier c \<in> set (incompatible_ids aceitos)) aceitos)))"

definition supported :: "candidate list \<Rightarrow> candidate list" where
  "supported cs = filter (\<lambda>c. cd_materiality c = SUPPORTED) cs"

definition final_candidates :: "candidate list \<Rightarrow> candidate list" where
  "final_candidates classificados =
     (let r = reclassified (supported classificados)
      in map (\<lambda>c. case r (cd_identifier c) of None \<Rightarrow> c | Some d \<Rightarrow> d) classificados)"

definition protection_set_of ::
  "candidate_input list \<Rightarrow> assertiveness \<Rightarrow> claim_evaluation \<Rightarrow> approval_binding option \<Rightarrow>
   conflict_assessment \<Rightarrow> py_datetime \<Rightarrow> pystr list \<Rightarrow> pystr list \<Rightarrow> pystr option \<Rightarrow>
   perror + protection_set" where
  "protection_set_of cands assert ev binding conflict moment scope needed inventory =
     andthen (traverse (classificar assert ev binding conflict moment scope) cands) (\<lambda>classificados.
     let finais = final_candidates classificados
     in Inr \<lparr>ps_accepted = supported finais,
             ps_rejected = filter (\<lambda>c. cd_materiality c = NOT_SUPPORTED) finais,
             ps_unresolved = filter (\<lambda>c. cd_materiality c = MATERIALITY_UNRESOLVED) finais,
             ps_assertiveness = assert, ps_evaluation = ev, ps_conflict = conflict,
             ps_coverage = coverage_of cands needed inventory\<rparr>)"

section \<open>Guidance\<close>

datatype guidance_outcome =
  GUIDANCE_VALID | GUIDANCE_MISSING | GUIDANCE_STALE | GUIDANCE_INVALID
| GUIDANCE_JURISDICTION_MISMATCH | GUIDANCE_VERSION_MISMATCH

datatype guidance_disposition =
  USE_PROCEDURAL_DETAIL | REFER_TO_COMPETENT_AUTHORITY | ABSTAIN_FROM_PROCEDURAL_DETAIL

record guidance_reference =
  gr_reference :: pystr
  gr_authority :: pystr
  gr_provenance :: pystr
  gr_jurisdiction :: pystr
  gr_version :: int
  gr_valid_from :: "py_datetime option"
  gr_valid_until :: "py_datetime option"

record recommendation_quality =
  rq_protection :: protection_set
  rq_guidance :: "guidance_reference option"
  rq_outcome :: guidance_outcome
  rq_disposition :: guidance_disposition
  rq_complete_answer_allowed :: bool
  rq_procedural_detail_allowed :: bool

definition validate_guidance ::
  "guidance_reference option \<Rightarrow> py_datetime \<Rightarrow> pystr \<Rightarrow> int \<Rightarrow> perror + guidance_outcome" where
  "validate_guidance guidance moment jur ver =
     (case guidance of
        None \<Rightarrow> Inr GUIDANCE_MISSING
      | Some g \<Rightarrow>
          if blank (gr_reference g) \<or> blank (gr_authority g) then Inr GUIDANCE_INVALID
          else if blank (gr_provenance g) \<or> gr_version g < 1 then Inr GUIDANCE_INVALID
          else (case (gr_valid_from g, gr_valid_until g) of
                  (Some vf, Some vu) \<Rightarrow>
                    andthen (dt_le vu vf) (\<lambda>incoherent.
                    if incoherent then Inr GUIDANCE_INVALID
                    else if gr_jurisdiction g \<noteq> jur then Inr GUIDANCE_JURISDICTION_MISMATCH
                    else if gr_version g \<noteq> ver then Inr GUIDANCE_VERSION_MISMATCH
                    else andthen (outside_window moment vf vu) (\<lambda>out.
                    Inr (if out then GUIDANCE_STALE else GUIDANCE_VALID)))
                | _ \<Rightarrow> Inr GUIDANCE_INVALID))"

definition recommendation_quality_of ::
  "protection_set \<Rightarrow> guidance_reference option \<Rightarrow> py_datetime \<Rightarrow> pystr \<Rightarrow> int \<Rightarrow>
   perror + recommendation_quality" where
  "recommendation_quality_of prot guidance moment jur ver =
     andthen (validate_guidance guidance moment jur ver) (\<lambda>out.
     Inr \<lparr>rq_protection = prot, rq_guidance = guidance, rq_outcome = out,
          rq_disposition =
            (if out = GUIDANCE_VALID then USE_PROCEDURAL_DETAIL
             else if out = GUIDANCE_MISSING then ABSTAIN_FROM_PROCEDURAL_DETAIL
             else REFER_TO_COMPETENT_AUTHORITY),
          rq_complete_answer_allowed = complete_answer_allowed prot,
          rq_procedural_detail_allowed = (out = GUIDANCE_VALID)\<rparr>)"

section \<open>What protection promises\<close>

text \<open>What a competent authority has shown when its materiality does not fail.\<close>

definition sustains ::
  "materiality_authority \<Rightarrow> claim_evaluation \<Rightarrow> approval_binding \<Rightarrow> py_datetime \<Rightarrow> pystr list \<Rightarrow> bool" where
  "sustains m ev b moment needed \<longleftrightarrow>
     ev_approval ev = APPROVAL_VALID \<and> ma_reference m = ab_reference b \<and>
     1 \<le> ma_version m \<and> ma_version m = ab_version b \<and> ab_jurisdiction b = Some (ma_jurisdiction m) \<and>
     set needed \<subseteq> set (ma_scope m) \<and> set (ma_scope m) \<subseteq> set (ab_scope b) \<and>
     (\<exists>vf vu. ma_valid_from m = Some vf \<and> ma_valid_until m = Some vu \<and>
        instant vf \<le> instant moment \<and> instant moment < instant vu \<and>
        (\<forall>x. ab_expiry b = Some x \<longrightarrow> instant vu \<le> instant x))"

lemma no_failure_sustains:
  "authority_failure_of auth ev binding moment needed = Inr None \<Longrightarrow>
   \<exists>m b. auth = Some m \<and> binding = Some b \<and> sustains m ev b moment needed"
  by (auto simp: authority_failure_of_def sustains_def outside_window_def run_iffs
      split: if_splits option.splits)

lemma classificar_supported:
  assumes "classificar assert ev binding conflict moment needed c = Inr d"
    and "cd_materiality d = SUPPORTED"
  shows "cd_authority d = ci_authority c \<and>
    (\<exists>m b. ci_authority c = Some m \<and> binding = Some b \<and> sustains m ev b moment needed) \<and>
    ci_effect_claimed c \<and> \<not> blocks_material_support conflict \<and>
    as_authority_state assert = STATE_AUTHORIZED \<and>
    cd_owner d \<noteq> None \<and> cd_time_window d \<noteq> None \<and> cd_reversibility d \<noteq> None \<and> cd_triggers d \<noteq> []"
  using assms
  by (auto simp: classificar_def run_iffs make_candidate_def Let_def
      split: if_splits option.splits dest!: no_failure_sustains)

text \<open>The post-condition of a candidate never raises here.\<close>

lemma classificar_Inr:
  "(\<exists>d. classificar assert ev binding conflict moment needed c = Inr d) \<longleftrightarrow>
   (\<exists>f. authority_failure_of (ci_authority c) ev binding moment needed = Inr f)"
proof
  assume "\<exists>f. authority_failure_of (ci_authority c) ev binding moment needed = Inr f"
  then obtain f where f: "authority_failure_of (ci_authority c) ev binding moment needed = Inr f" ..
  show "\<exists>d. classificar assert ev binding conflict moment needed c = Inr d"
  proof (cases f)
    case None
    with f no_failure_sustains have "ci_authority c \<noteq> None" by blast
    with f None show ?thesis by (auto simp: classificar_def make_candidate_def)
  next
    case (Some x)
    with f show ?thesis by (simp add: classificar_def make_candidate_def)
  qed
qed (auto simp: classificar_def run_iffs)

lemma classificar_identifier:
  "classificar assert ev binding conflict moment needed c = Inr d \<Longrightarrow> cd_identifier d = ci_identifier c"
  by (auto simp: classificar_def run_iffs make_candidate_def Let_def split: if_splits option.splits)

lemma reclassified_unresolved:
  "reclassified as i = Some d \<Longrightarrow> cd_materiality d = MATERIALITY_UNRESOLVED"
  by (auto simp: reclassified_def dest!: map_of_SomeD)

lemma reclassified_None:
  "reclassified as i = None \<longleftrightarrow> i \<notin> set (incompatible_ids as)"
proof -
  have "reclassified as i = None \<longleftrightarrow>
      i \<notin> cd_identifier ` set (filter (\<lambda>c. cd_identifier c \<in> set (incompatible_ids as)) as)"
    by (simp add: reclassified_def map_of_eq_None_iff image_image)
  then show ?thesis by (auto simp: incompatible_ids_def)
qed

lemma accepted_in_final:
  assumes "c \<in> set (supported (final_candidates cs))"
  shows "c \<in> set (supported cs) \<and> cd_identifier c \<notin> set (incompatible_ids (supported cs))"
proof -
  obtain b where b: "b \<in> set cs" and m: "cd_materiality c = SUPPORTED"
    and c: "c = (case reclassified (supported cs) (cd_identifier b) of None \<Rightarrow> b | Some d \<Rightarrow> d)"
    using assms by (auto simp: supported_def final_candidates_def Let_def)
  have r: "reclassified (supported cs) (cd_identifier b) = None"
    using c m reclassified_unresolved by (cases "reclassified (supported cs) (cd_identifier b)") force+
  then have "c = b" using c by simp
  with b m r show ?thesis unfolding reclassified_None by (simp add: supported_def)
qed

lemma accepted_compatible:
  assumes "c \<in> set (supported (final_candidates cs))" "d \<in> set (supported (final_candidates cs))"
  shows "cd_identifier d \<notin> set (cd_incompatible_with c)"
  using accepted_in_final [OF assms(1)] accepted_in_final [OF assms(2)]
  by (auto simp: incompatible_ids_def)

lemma materiality_partition:
  "length (filter (\<lambda>c. cd_materiality c = SUPPORTED) cs) +
   length (filter (\<lambda>c. cd_materiality c = NOT_SUPPORTED) cs) +
   length (filter (\<lambda>c. cd_materiality c = MATERIALITY_UNRESOLVED) cs) = length cs"
proof (induction cs)
  case (Cons c cs)
  then show ?case by (cases "cd_materiality c") auto
qed simp

lemma final_candidates_length [simp]: "length (final_candidates cs) = length cs"
  by (simp add: final_candidates_def Let_def)

end
