(* ===== verification/Routing.thy ===== *)
theory Routing
  imports Quality
begin

text \<open>
  From the alternatives to a route: \<^verbatim>\<open>counterfactual.py\<close>, \<^verbatim>\<open>burden.py\<close> and
  \<^verbatim>\<open>routing.py\<close> of \<^verbatim>\<open>predictive_accessibility\<close>. Burdens are compared by
  Pareto dominance only; nothing is summed.
\<close>

section \<open>Alternatives\<close>

datatype alternative_kind = A0_INACTION | A1_REVERSIBLE_ESCALATION | A2_FULL_ACTION

datatype cost_knowledge = COST_KNOWN | COST_UNKNOWN

definition ALTERNATIVE_KINDS :: "alternative_kind list" where
  "ALTERNATIVE_KINDS = [A0_INACTION, A1_REVERSIBLE_ESCALATION, A2_FULL_ACTION]"

lemma set_alternative_kinds [simp]: "set ALTERNATIVE_KINDS = UNIV"
  by (auto simp: ALTERNATIVE_KINDS_def intro: alternative_kind.exhaust)

record alternative =
  al_kind :: alternative_kind
  al_key :: comparability_key
  al_cost_knowledge :: cost_knowledge
  al_cost_value :: "float64 option"
  al_reversible :: bool
  al_description :: pystr

record counterfactual_set =
  cf_alternatives :: "alternative list"
  cf_asymmetry_justification :: "pystr option"
  cf_assertiveness :: assertiveness
  cf_protection :: protection_set
  cf_quality :: recommendation_quality
  cf_procedural_endorsement_allowed :: bool
  cf_complete_answer_allowed :: bool

definition make_alternative :: "alternative \<Rightarrow> perror + alternative" where
  "make_alternative a =
     (if al_cost_knowledge a = COST_UNKNOWN \<and> al_cost_value a \<noteq> None then Inl PValueError
      else if al_kind a = A1_REVERSIBLE_ESCALATION \<and> \<not> al_reversible a then Inl PValueError
      else Inr a)"

definition make_counterfactual_set :: "counterfactual_set \<Rightarrow> perror + counterfactual_set" where
  "make_counterfactual_set c =
     (if al_kind ` set (cf_alternatives c) \<noteq> set ALTERNATIVE_KINDS then Inl PValueError
      else if 1 < length (remdups (map al_key (cf_alternatives c))) \<and>
              (cf_asymmetry_justification c = None \<or> cf_asymmetry_justification c = Some [])
      then Inl PValueError
      else Inr c)"

definition counterfactual_of :: "counterfactual_set \<Rightarrow> alternative_kind \<Rightarrow> perror + alternative" where
  "counterfactual_of c k =
     (case List.find (\<lambda>a. al_kind a = k) (cf_alternatives c) of
        None \<Rightarrow> Inl PStopIteration
      | Some a \<Rightarrow> Inr a)"

definition counterfactual_set_of ::
  "alternative list \<Rightarrow> assertiveness \<Rightarrow> protection_set \<Rightarrow> recommendation_quality \<Rightarrow> pystr option \<Rightarrow>
   perror + counterfactual_set" where
  "counterfactual_set_of alts assert prot qual just =
     make_counterfactual_set
       \<lparr>cf_alternatives = alts, cf_asymmetry_justification = just, cf_assertiveness = assert,
        cf_protection = prot, cf_quality = qual,
        cf_procedural_endorsement_allowed = (rq_outcome qual = GUIDANCE_VALID),
        cf_complete_answer_allowed = complete_answer_allowed prot\<rparr>"

section \<open>Burden\<close>

datatype burden_kind =
  FINANCIAL_RESOURCES | SOCIAL_HUMAN | CRITICAL_SERVICE_CONTINUITY | DISTRIBUTION_EQUITY
| OPPORTUNITY_DELAY | IRREVERSIBILITY_RECOVERY

definition BURDEN_KINDS :: "burden_kind list" where
  "BURDEN_KINDS =
     [FINANCIAL_RESOURCES, SOCIAL_HUMAN, CRITICAL_SERVICE_CONTINUITY, DISTRIBUTION_EQUITY,
      OPPORTUNITY_DELAY, IRREVERSIBILITY_RECOVERY]"

lemma set_burden_kinds [simp]: "set BURDEN_KINDS = UNIV"
  by (auto simp: BURDEN_KINDS_def intro: burden_kind.exhaust)

fun burden_kind_value :: "burden_kind \<Rightarrow> pystr" where
  "burden_kind_value FINANCIAL_RESOURCES = pys ''financial_resources''"
| "burden_kind_value SOCIAL_HUMAN = pys ''social_human''"
| "burden_kind_value CRITICAL_SERVICE_CONTINUITY = pys ''critical_service_continuity''"
| "burden_kind_value DISTRIBUTION_EQUITY = pys ''distribution_equity''"
| "burden_kind_value OPPORTUNITY_DELAY = pys ''opportunity_delay''"
| "burden_kind_value IRREVERSIBILITY_RECOVERY = pys ''irreversibility_recovery''"

datatype probability_validation = PROBABILITY_VALIDATED | PROBABILITY_NOT_VALIDATED

record burden_dimension =
  bd_kind :: burden_kind
  bd_magnitude :: float64
  bd_unit :: pystr
  bd_source :: pystr
  bd_source_version :: int
  bd_observed_at :: pystr
  bd_uncertainty :: "float64 \<times> float64"
  bd_incidence :: pystr
  bd_vulnerable :: bool

record burden_vector =
  bv_dimensions :: "burden_dimension list"
  bv_probability :: probability_validation

definition make_burden_dimension :: "burden_dimension \<Rightarrow> perror + burden_dimension" where
  "make_burden_dimension d =
     (if bd_unit d = [] \<or> bd_source d = [] \<or> bd_incidence d = [] then Inl PValueError else Inr d)"

definition make_burden_vector :: "burden_vector \<Rightarrow> perror + burden_vector" where
  "make_burden_vector v =
     (let tipos = map bd_kind (bv_dimensions v)
      in if set tipos \<noteq> set BURDEN_KINDS \<or> \<not> distinct tipos then Inl PValueError else Inr v)"

text \<open>A vector that was built: one dimension of each kind.\<close>

definition valid_vector :: "burden_vector \<Rightarrow> bool" where
  "valid_vector v \<longleftrightarrow>
     set (map bd_kind (bv_dimensions v)) = UNIV \<and> distinct (map bd_kind (bv_dimensions v))"

lemma make_burden_vector_iff [run_iffs]: "make_burden_vector v = Inr w \<longleftrightarrow> valid_vector v \<and> w = v"
  by (auto simp: make_burden_vector_def valid_vector_def Let_def)

definition dimension_of :: "burden_vector \<Rightarrow> burden_kind \<Rightarrow> burden_dimension option" where
  "dimension_of v k = map_of (rev (map (\<lambda>d. (bd_kind d, d)) (bv_dimensions v))) k"

definition magnitude :: "burden_vector \<Rightarrow> burden_kind \<Rightarrow> float64" where
  "magnitude v k = (case dimension_of v k of Some d \<Rightarrow> bd_magnitude d | None \<Rightarrow> Fin 0)"

definition touches_vulnerable :: "burden_vector \<Rightarrow> bool" where
  "touches_vulnerable v \<longleftrightarrow> (\<exists>d \<in> set (bv_dimensions v). bd_vulnerable d)"

datatype burden_field = UnitField | SourceField | SourceVersionField | ObservedAtField

definition field_mismatch :: "burden_dimension \<Rightarrow> burden_dimension \<Rightarrow> burden_field option" where
  "field_mismatch a c =
     (if bd_unit a \<noteq> bd_unit c then Some UnitField
      else if bd_source a \<noteq> bd_source c then Some SourceField
      else if bd_source_version a \<noteq> bd_source_version c then Some SourceVersionField
      else if bd_observed_at a \<noteq> bd_observed_at c then Some ObservedAtField
      else None)"

text \<open>
  The first dimension, in the order of the kinds, whose two sides cannot be compared. A built
  vector has every dimension, so the lookup does not fail.
\<close>

definition comparability_failure ::
  "burden_vector \<Rightarrow> burden_vector \<Rightarrow> (burden_kind \<times> burden_field) option" where
  "comparability_failure v w =
     first_some (map (\<lambda>k.
       case (dimension_of v k, dimension_of w k) of
         (Some a, Some c) \<Rightarrow> map_option (Pair k) (field_mismatch a c)
       | _ \<Rightarrow> None) BURDEN_KINDS)"

definition pareto :: "(burden_kind \<Rightarrow> float64) \<Rightarrow> (burden_kind \<Rightarrow> float64) \<Rightarrow> bool" where
  "pareto m n \<longleftrightarrow>
     (\<forall>k \<in> set BURDEN_KINDS. fle (n k) (m k)) \<and> (\<exists>k \<in> set BURDEN_KINDS. flt (n k) (m k))"

definition dominates :: "burden_vector \<Rightarrow> burden_vector \<Rightarrow> perror + bool" where
  "dominates v w =
     (if comparability_failure v w \<noteq> None then Inl IncomparableBurden
      else Inr (pareto (magnitude v) (magnitude w)))"

definition trade_offs :: "burden_vector \<Rightarrow> burden_vector \<Rightarrow> perror + burden_kind list" where
  "trade_offs v w =
     (if comparability_failure v w \<noteq> None then Inl IncomparableBurden
      else let maiores = filter (\<lambda>k. flt (magnitude w k) (magnitude v k)) BURDEN_KINDS;
               menores = filter (\<lambda>k. flt (magnitude v k) (magnitude w k)) BURDEN_KINDS
           in Inr (if maiores \<noteq> [] \<and> menores \<noteq> []
                   then sort_key burden_kind_value
                          (filter (\<lambda>k. k \<in> set maiores \<or> k \<in> set menores) BURDEN_KINDS)
                   else []))"

definition expected_loss :: "burden_vector \<Rightarrow> float64 \<Rightarrow> perror + float64" where
  "expected_loss v p =
     (if bv_probability v \<noteq> PROBABILITY_VALIDATED then Inl ExpectedLossRefused
      else if \<not> (fle (Fin 0) p \<and> fle p (Fin 1)) then Inl ExpectedLossRefused
      else (case List.find (\<lambda>d. bd_kind d = FINANCIAL_RESOURCES) (bv_dimensions v) of
              None \<Rightarrow> Inl PStopIteration
            | Some d \<Rightarrow> Inr (fmul p (bd_magnitude d))))"

record burden_comparison =
  bc_counterfactual :: counterfactual_set
  bc_entries :: "(alternative_kind \<times> burden_vector) list"
  bc_dominated :: "alternative_kind list"
  bc_trade_off_pairs :: "(alternative_kind \<times> alternative_kind) list"
  bc_incomparable :: "(alternative_kind \<times> alternative_kind \<times> burden_kind \<times> burden_field) list"

definition make_burden_comparison :: "burden_comparison \<Rightarrow> perror + burden_comparison" where
  "make_burden_comparison c =
     (let tipos = map fst (bc_entries c)
      in if set tipos \<noteq> set ALTERNATIVE_KINDS \<or> \<not> distinct tipos then Inl PValueError else Inr c)"

definition non_dominated :: "burden_comparison \<Rightarrow> alternative_kind list" where
  "non_dominated c = filter (\<lambda>k. k \<notin> set (bc_dominated c)) ALTERNATIVE_KINDS"

definition append_new :: "'a \<Rightarrow> 'a list \<Rightarrow> 'a list" where
  "append_new x xs = (if x \<in> set xs then xs else xs @ [x])"

lemma set_append_new [simp]: "set (append_new x xs) = insert x (set xs)"
  by (auto simp: append_new_def)

text \<open>One ordered pair of different alternatives: the body of the two nested loops.\<close>

definition compare_pair ::
  "(alternative_kind \<Rightarrow> burden_vector option) \<Rightarrow> alternative_kind \<times> alternative_kind \<Rightarrow>
   burden_comparison \<Rightarrow> perror + burden_comparison" where
  "compare_pair mapa ab c =
     (case ab of (a, b) \<Rightarrow>
      if a = b then Inr c
      else (case (mapa a, mapa b) of
         (Some va, Some vb) \<Rightarrow>
           (case comparability_failure va vb of
              Some (k, f) \<Rightarrow> Inr (c\<lparr>bc_incomparable := append_new (a, b, k, f) (bc_incomparable c)\<rparr>)
            | None \<Rightarrow>
                andthen (dominates va vb) (\<lambda>dom.
                let c1 = (if dom then c\<lparr>bc_dominated := append_new a (bc_dominated c)\<rparr> else c) in
                andthen (trade_offs va vb) (\<lambda>cross.
                Inr (if cross \<noteq> [] \<and> (b, a) \<notin> set (bc_trade_off_pairs c1)
                     then c1\<lparr>bc_trade_off_pairs := bc_trade_off_pairs c1 @ [(a, b)]\<rparr> else c1))))
       | _ \<Rightarrow> Inl PKeyError))"

fun compare_all ::
  "(alternative_kind \<Rightarrow> burden_vector option) \<Rightarrow> (alternative_kind \<times> alternative_kind) list \<Rightarrow>
   burden_comparison \<Rightarrow> perror + burden_comparison" where
  "compare_all mapa [] c = Inr c"
| "compare_all mapa (ab # pairs) c = andthen (compare_pair mapa ab c) (compare_all mapa pairs)"

definition burden_comparison_of ::
  "counterfactual_set \<Rightarrow> (alternative_kind \<times> burden_vector) list \<Rightarrow> perror + burden_comparison" where
  "burden_comparison_of cf entries =
     andthen (compare_all (map_of (rev entries)) (List.product ALTERNATIVE_KINDS ALTERNATIVE_KINDS)
                \<lparr>bc_counterfactual = cf, bc_entries = entries, bc_dominated = [],
                 bc_trade_off_pairs = [], bc_incomparable = []\<rparr>)
       make_burden_comparison"

section \<open>Routes\<close>

datatype route = PREDICT | RECONFIGURE | INVESTIGATE | ROBUST

fun route_value :: "route \<Rightarrow> pystr" where
  "route_value PREDICT = pys ''predict''"
| "route_value RECONFIGURE = pys ''reconfigure''"
| "route_value INVESTIGATE = pys ''investigate''"
| "route_value ROBUST = pys ''robust''"

definition CONSERVADORISMO :: "(pystr \<times> nat) list" where
  "CONSERVADORISMO =
     [(pys ''predict'', 0), (pys ''reconfigure'', 1), (pys ''robust'', 2), (pys ''investigate'', 3)]"

definition conservadorismo :: "pystr \<Rightarrow> nat" where
  "conservadorismo r = (case map_of CONSERVADORISMO r of Some n \<Rightarrow> n | None \<Rightarrow> 9)"

datatype limit =
  LimitRealConflict conflict_reason
| LimitDecomposed "pystr list"
| LimitApproval approval_outcome
| LimitProtectionUnresolved
| LimitGuidance guidance_outcome
| LimitProbability
| LimitTradeOffs
| LimitVulnerable
| LimitIncompleteAnswer
| LimitNoEndorsement guidance_outcome
| LimitIncomparable "alternative_kind \<times> alternative_kind \<times> burden_kind \<times> burden_field"
| LimitAllDominated
| LimitTie "alternative_kind list"
| LimitA0Preserved
| LimitA1Irreversible
| LimitA1Preserved
| LimitNoSafeRoute

datatype routing_reason =
  NoRouteConflict | PromotedAndSustained | StatePredictable | StateUnresolved
| LegitimateLimits | AbstainNoRoute

record final_routing =
  fr_route :: "route option"
  fr_abstained :: bool
  fr_recommended :: "alternative_kind option"
  fr_conflict :: conflict_assessment
  fr_limits :: "limit list"
  fr_reason :: routing_reason
  fr_assertiveness :: assertiveness
  fr_revalidated :: pystr
  fr_quality :: recommendation_quality

definition make_final_routing :: "final_routing \<Rightarrow> perror + final_routing" where
  "make_final_routing r =
     (if (fr_route r = None) \<noteq> fr_abstained r then Inl PValueError
      else if fr_route r = None \<and> fr_limits r = [] then Inl PValueError
      else Inr r)"

text \<open>The recommended alternative with the limits the choice adds.\<close>

definition escolher_alternativa ::
  "counterfactual_set \<Rightarrow> burden_comparison \<Rightarrow> perror + alternative_kind option \<times> limit list" where
  "escolher_alternativa cf bc =
     (if \<not> cf_complete_answer_allowed cf then Inr (None, [LimitIncompleteAnswer])
      else if \<not> cf_procedural_endorsement_allowed cf
      then Inr (None, [LimitNoEndorsement (rq_outcome (cf_quality cf))])
      else case bc_incomparable bc of
        i # _ \<Rightarrow> Inr (None, [LimitIncomparable i])
      | [] \<Rightarrow>
     (case non_dominated bc of
        [] \<Rightarrow> Inr (None, [LimitAllDominated])
      | [unica] \<Rightarrow>
          (case unica of
             A0_INACTION \<Rightarrow> Inr (Some unica, [LimitA0Preserved])
           | A1_REVERSIBLE_ESCALATION \<Rightarrow>
               andthen (counterfactual_of cf unica) (\<lambda>a.
               Inr (if \<not> al_reversible a then (None, [LimitA1Irreversible])
                    else (Some unica, [LimitA1Preserved])))
           | A2_FULL_ACTION \<Rightarrow> Inr (Some unica, []))
      | ks \<Rightarrow> Inr (None, [LimitTie ks])))"

text \<open>The limits the inputs impose, in the order of the source.\<close>

definition input_limits ::
  "claim_evaluation \<Rightarrow> recommendation_quality \<Rightarrow> burden_comparison \<Rightarrow> conflict_assessment \<Rightarrow> limit list" where
  "input_limits ev qual bc conflict =
     (if blocks_safe_route conflict then [LimitRealConflict (ca_reason conflict)] else []) @
     (if ca_dimensions conflict \<noteq> [] then [LimitDecomposed (ca_dimensions conflict)] else []) @
     (if ev_approval ev \<noteq> APPROVAL_VALID then [LimitApproval (ev_approval ev)] else []) @
     (if \<not> rq_complete_answer_allowed qual then [LimitProtectionUnresolved] else []) @
     (if rq_outcome qual \<noteq> GUIDANCE_VALID then [LimitGuidance (rq_outcome qual)] else []) @
     (if \<exists>(_, v) \<in> set (bc_entries bc). bv_probability v = PROBABILITY_NOT_VALIDATED
      then [LimitProbability] else []) @
     (if bc_trade_off_pairs bc \<noteq> [] then [LimitTradeOffs] else []) @
     (if \<exists>(_, v) \<in> set (bc_entries bc). touches_vulnerable v then [LimitVulnerable] else [])"

definition entregar ::
  "limit list \<Rightarrow> alternative_kind option \<Rightarrow> conflict_assessment \<Rightarrow> assertiveness \<Rightarrow>
   recommendation_quality \<Rightarrow> route option \<Rightarrow> routing_reason \<Rightarrow> perror + final_routing" where
  "entregar limites alternativa conflict assert qual rota motivo =
     (let base = as_next_governed_route assert;
          revalidada = (case rota of
             Some r \<Rightarrow> if conservadorismo base < conservadorismo (route_value r) then route_value r else base
           | None \<Rightarrow> base);
          limites' = (if rota = None \<and> limites = [] then [LimitNoSafeRoute] else limites)
      in make_final_routing
           \<lparr>fr_route = rota, fr_abstained = (rota = None),
            fr_recommended = (if rota = None then None else alternativa), fr_conflict = conflict,
            fr_limits = limites', fr_reason = motivo, fr_assertiveness = assert,
            fr_revalidated = revalidada, fr_quality = qual\<rparr>)"

text \<open>
  \<open>promoted\<close> says whether the reconfiguration sidecar of the item was evaluated and promoted.
\<close>

definition final_routing_of ::
  "claim_evaluation \<Rightarrow> bool \<Rightarrow> assertiveness \<Rightarrow> recommendation_quality \<Rightarrow> counterfactual_set \<Rightarrow>
   burden_comparison \<Rightarrow> conflict_assessment \<Rightarrow> perror + final_routing" where
  "final_routing_of ev promoted assert qual cf bc conflict =
     andthen (escolher_alternativa cf bc) (\<lambda>(alternativa, mais).
     let limites = input_limits ev qual bc conflict @ mais;
         aprovado = (ev_approval ev = APPROVAL_VALID);
         answer = entregar limites alternativa conflict assert qual
     in if blocks_safe_route conflict then answer None NoRouteConflict
        else if promoted \<and> rq_complete_answer_allowed qual \<and> aprovado
        then answer (Some RECONFIGURE) PromotedAndSustained
        else if ev_state ev = PREDICTABLE then answer (Some PREDICT) StatePredictable
        else if ev_state ev = UNRESOLVED then answer (Some INVESTIGATE) StateUnresolved
        else if aprovado \<and> rq_complete_answer_allowed qual then answer (Some ROBUST) LegitimateLimits
        else answer None AbstainNoRoute)"

section \<open>Pareto dominance is a strict order\<close>

lemma pareto_irrefl: "\<not> pareto m m"
  by (simp add: pareto_def)

lemma fle_trans: "fle a b \<Longrightarrow> fle b c \<Longrightarrow> fle a c"
  by (cases a; cases b; cases c) (auto simp: fle_def)

lemma flt_fle_trans: "flt a b \<Longrightarrow> fle b c \<Longrightarrow> flt a c"
  by (cases a; cases b; cases c) (auto simp: fle_def)

lemma pareto_trans: "pareto m n \<Longrightarrow> pareto n p \<Longrightarrow> pareto m p"
  unfolding pareto_def by (meson fle_trans flt_fle_trans)

lemma pareto_asym: "pareto m n \<Longrightarrow> \<not> pareto n m"
  using pareto_irrefl pareto_trans by blast

section \<open>What the comparison finds\<close>

text \<open>The relation the two loops look at.\<close>

definition outweighs ::
  "(alternative_kind \<Rightarrow> burden_vector option) \<Rightarrow> alternative_kind \<Rightarrow> alternative_kind \<Rightarrow> bool" where
  "outweighs mapa a b \<longleftrightarrow>
     (\<exists>v w. mapa a = Some v \<and> mapa b = Some w \<and> comparability_failure v w = None \<and>
        pareto (magnitude v) (magnitude w))"

lemma outweighs_irrefl: "\<not> outweighs mapa a a"
  by (auto simp: outweighs_def pareto_irrefl)

lemma compare_pair_dominated:
  "compare_pair mapa (a, b) c = Inr d \<Longrightarrow>
   set (bc_dominated d) = set (bc_dominated c) \<union> (if outweighs mapa a b then {a} else {}) \<and>
   bc_counterfactual d = bc_counterfactual c \<and> bc_entries d = bc_entries c"
  by (auto simp: compare_pair_def outweighs_def dominates_def trade_offs_def Let_def run_iffs outweighs_irrefl
      pareto_irrefl split: if_splits option.splits)

lemma compare_all_dominated:
  "compare_all mapa pairs c = Inr d \<Longrightarrow>
   set (bc_dominated d) = set (bc_dominated c) \<union> {a. \<exists>b. (a, b) \<in> set pairs \<and> outweighs mapa a b} \<and>
   bc_counterfactual d = bc_counterfactual c \<and> bc_entries d = bc_entries c"
proof (induction pairs arbitrary: c)
  case (Cons ab pairs)
  then obtain c' where c': "compare_pair mapa ab c = Inr c'" "compare_all mapa pairs c' = Inr d"
    by (auto simp: run_iffs)
  show ?case
    using Cons.IH [OF c'(2)] compare_pair_dominated [of mapa "fst ab" "snd ab" c c'] c'(1)
    by (cases ab) (auto split: if_splits)
qed simp

lemma dominated_iff:
  assumes "burden_comparison_of cf entries = Inr bc"
  shows "a \<in> set (bc_dominated bc) \<longleftrightarrow> (\<exists>b. outweighs (map_of (rev entries)) a b)"
    and "bc_counterfactual bc = cf" and "bc_entries bc = entries"
  using assms
  by (auto simp: burden_comparison_of_def make_burden_comparison_def run_iffs Let_def
      split: if_splits dest!: compare_all_dominated)

text \<open>A burden that outweighs another cannot be the least: some alternative always remains.\<close>

lemma non_dominated_not_empty:
  assumes "burden_comparison_of cf entries = Inr bc"
  shows "non_dominated bc \<noteq> []"
proof
  assume none: "non_dominated bc = []"
  define R where "R = {(b, a). outweighs (map_of (rev entries)) a b}"
  have "trans {(b, a). \<exists>v w. map_of (rev entries) a = Some v \<and> map_of (rev entries) b = Some w \<and>
      pareto (magnitude v) (magnitude w)}" (is "trans ?S")
    by (auto simp: trans_def intro: pareto_trans)
  then have "?S\<^sup>+ = ?S" by (rule trancl_id)
  moreover have "irrefl ?S" by (auto simp: irrefl_def pareto_irrefl)
  ultimately have "acyclic ?S" by (simp add: acyclic_irrefl)
  moreover have "R \<subseteq> ?S" by (auto simp: R_def outweighs_def)
  ultimately have "acyclic R" by (rule acyclic_subset)
  moreover have "finite R"
  proof (rule finite_subset)
    show "R \<subseteq> set ALTERNATIVE_KINDS \<times> set ALTERNATIVE_KINDS" by auto
    show "finite (set ALTERNATIVE_KINDS \<times> set ALTERNATIVE_KINDS)"
      by (intro finite_cartesian_product finite_set)
  qed
  ultimately have "wf R" by (rule finite_acyclic_wf [rotated])
  then obtain a where "\<forall>b. (b, a) \<notin> R" by (metis UNIV_I wf_eq_minimal)
  then have "a \<notin> set (bc_dominated bc)"
    using dominated_iff(1) [OF assms] by (auto simp: R_def)
  with none show False by (auto simp: non_dominated_def filter_empty_conv)
qed

section \<open>What a route needs\<close>

lemma counterfactual_has:
  assumes "make_counterfactual_set c = Inr d"
  shows "\<exists>a. counterfactual_of d k = Inr a \<and> al_kind a = k"
proof -
  have "k \<in> al_kind ` set (cf_alternatives d)"
    using assms by (auto simp: make_counterfactual_set_def split: if_splits)
  then show ?thesis
    by (auto simp: counterfactual_of_def find_None_iff image_iff split: option.splits
        dest: find_Some_iff [THEN iffD1])
qed

lemma entregar_Inr:
  "entregar ls alt conf as q rota why = Inr r \<Longrightarrow>
   fr_route r = rota \<and> fr_abstained r = (rota = None) \<and> fr_reason r = why \<and>
   fr_recommended r = (if rota = None then None else alt) \<and>
   conservadorismo (as_next_governed_route as) \<le> conservadorismo (fr_revalidated r) \<and>
   (\<forall>x. rota = Some x \<longrightarrow> conservadorismo (route_value x) \<le> conservadorismo (fr_revalidated r)) \<and>
   (ls \<noteq> [] \<longrightarrow> fr_limits r = ls) \<and> (rota = None \<longrightarrow> fr_limits r \<noteq> [])"
  by (cases rota) (auto simp: entregar_def make_final_routing_def Let_def split: if_splits)

lemma entregar_total: "\<exists>r. entregar ls alt conf as q rota why = Inr r"
  by (simp add: entregar_def make_final_routing_def Let_def)

lemma escolher_recommends:
  "escolher_alternativa cf bc = Inr (Some k, ls) \<Longrightarrow>
   cf_complete_answer_allowed cf \<and> cf_procedural_endorsement_allowed cf \<and> bc_incomparable bc = [] \<and>
   non_dominated bc = [k] \<and>
   (k = A1_REVERSIBLE_ESCALATION \<longrightarrow> (\<exists>a. counterfactual_of cf k = Inr a \<and> al_reversible a))"
  by (auto simp: escolher_alternativa_def run_iffs split: if_splits list.splits alternative_kind.splits)

end
