(* ===== verification/Reconfiguration.thy ===== *)
theory Reconfiguration
  imports Claims
begin

text \<open>
  \<^verbatim>\<open>reconfiguration.py\<close> and \<^verbatim>\<open>reconfiguration_repository.py\<close> of
  \<^verbatim>\<open>predictive_accessibility\<close>, with the constraints of migration
  \<^verbatim>\<open>f8a91c2d4e60\<close>: the append-only log of promotions and rollbacks, written by
  concurrent sessions.
\<close>

section \<open>Candidates and events\<close>

datatype event_kind = PROMOTE | ROLLBACK

datatype reconfiguration_decision =
  PROMOTED | REPLAYED | LOST_CONCURRENT_RACE | NOT_APPLICABLE | REJECTED_APPROVAL | REJECTED_VALIDATION

record reconfiguration_candidate =
  rc_candidate_ref :: uuid
  rc_subject_key :: pystr
  rc_model_ref :: pystr
  rc_hypothesis_refs :: "pystr list"
  rc_validation_ref :: pystr
  rc_cost_ref :: pystr
  rc_responsible_ref :: pystr
  rc_rollback_plan_ref :: pystr
  rc_payload_sha256 :: pystr
  rc_expected_version :: int
  rc_proposed_version :: int

definition make_reconfiguration_candidate ::
  "reconfiguration_candidate \<Rightarrow> perror + reconfiguration_candidate" where
  "make_reconfiguration_candidate c =
     (if \<exists>t \<in> set [rc_model_ref c, rc_validation_ref c, rc_cost_ref c, rc_responsible_ref c,
                    rc_rollback_plan_ref c]. blank t then Inl PValueError
      else if rc_hypothesis_refs c = [] \<or> (\<exists>t \<in> set (rc_hypothesis_refs c). blank t) then Inl PValueError
      else if \<not> (sorted (rc_hypothesis_refs c) \<and> distinct (rc_hypothesis_refs c)) then Inl PValueError
      else if \<not> canonical_sha256 (rc_subject_key c) then Inl PValueError
      else if \<not> canonical_sha256 (rc_payload_sha256 c) then Inl PValueError
      else if rc_expected_version c < 0 \<or> rc_proposed_version c \<noteq> rc_expected_version c + 1
      then Inl PValueError
      else Inr c)"

record reconfiguration_event =
  re_event_id :: uuid
  re_subject_key :: pystr
  re_kind :: event_kind
  re_from_version :: int
  re_to_version :: int
  re_active_candidate_ref :: uuid
  re_payload_sha256 :: pystr
  re_model_ref :: pystr
  re_hypothesis_refs :: "pystr list"
  re_validation_ref :: pystr
  re_cost_ref :: pystr
  re_responsible_ref :: pystr
  re_rollback_plan_ref :: pystr
  re_approval_reference :: pystr
  re_approval_version :: int
  re_approval_scope :: "pystr list"
  re_approval_jurisdiction :: "pystr option"
  re_approval_bound_kind :: pystr
  re_approval_bound_ref :: uuid
  re_rollback_of :: "uuid option"
  re_recorded_at :: py_datetime

section \<open>What the table accepts\<close>

definition column_text :: "nat \<Rightarrow> pystr \<Rightarrow> bool" where
  "column_text n s \<longleftrightarrow> length s \<le> n \<and> 0 \<notin> set s \<and> utf8 s \<noteq> None"

text \<open>The bind processor of a tuple column.\<close>

definition bind_string_tuple :: "pystr list \<Rightarrow> bool" where
  "bind_string_tuple xs \<longleftrightarrow> (\<forall>x \<in> set xs. \<not> blank x) \<and> sorted xs \<and> distinct xs"

text \<open>
  \<^verbatim>\<open>predictive_string_array_is_canonical(value, true)\<close>; \<open>coll\<close> is the order of
  \<^verbatim>\<open>text\<close> in the collation of the database.
\<close>

fun increasing :: "('a \<Rightarrow> 'a \<Rightarrow> bool) \<Rightarrow> 'a list \<Rightarrow> bool" where
  "increasing coll (x # y # ys) = (coll x y \<and> increasing coll (y # ys))"
| "increasing coll _ = True"

definition string_array_is_canonical :: "(pystr \<Rightarrow> pystr \<Rightarrow> bool) \<Rightarrow> pystr list \<Rightarrow> bool" where
  "string_array_is_canonical coll xs \<longleftrightarrow>
     xs \<noteq> [] \<and> (\<forall>x \<in> set xs. sql_not_blank x) \<and> increasing coll xs"

definition event_columns :: "reconfiguration_event \<Rightarrow> bool" where
  "event_columns e \<longleftrightarrow>
     column_text 64 (re_subject_key e) \<and> column_text 64 (re_payload_sha256 e) \<and>
     (\<forall>t \<in> set [re_model_ref e, re_validation_ref e, re_cost_ref e, re_responsible_ref e,
                re_rollback_plan_ref e, re_approval_reference e]. column_text 255 t) \<and>
     (\<forall>t \<in> set (re_hypothesis_refs e @ re_approval_scope e). column_text (length t) t) \<and>
     pred_option (column_text 255) (re_approval_jurisdiction e) \<and>
     column_text 64 (re_approval_bound_kind e) \<and>
     (\<forall>n \<in> set [re_from_version e, re_to_version e, re_approval_version e].
        - 2147483648 \<le> n \<and> n \<le> 2147483647)"

definition event_checks :: "(pystr \<Rightarrow> pystr \<Rightarrow> bool) \<Rightarrow> reconfiguration_event \<Rightarrow> bool" where
  "event_checks coll e \<longleftrightarrow>
     0 \<le> re_from_version e \<and> 1 \<le> re_to_version e \<and> re_to_version e = re_from_version e + 1 \<and>
     (re_kind e = PROMOTE \<longleftrightarrow> re_rollback_of e = None) \<and>
     canonical_sha256 (re_subject_key e) \<and> canonical_sha256 (re_payload_sha256 e) \<and>
     1 \<le> re_approval_version e \<and>
     re_approval_bound_kind e = bound_kind_value PROMOTION_CANDIDATE \<and>
     (\<forall>t \<in> set [re_model_ref e, re_validation_ref e, re_cost_ref e, re_responsible_ref e,
                re_rollback_plan_ref e]. sql_not_blank t) \<and>
     string_array_is_canonical coll (re_hypothesis_refs e) \<and>
     string_array_is_canonical coll (re_approval_scope e)"

type_synonym event_log = "reconfiguration_event list"

definition get_event :: "event_log \<Rightarrow> uuid \<Rightarrow> reconfiguration_event option" where
  "get_event rows i = List.find (\<lambda>e. re_event_id e = i) rows"

text \<open>\<^verbatim>\<open>ORDER BY to_version DESC LIMIT 1\<close>.\<close>

definition newest :: "reconfiguration_event option \<Rightarrow> reconfiguration_event \<Rightarrow> reconfiguration_event option" where
  "newest acc e =
     (case acc of None \<Rightarrow> Some e
      | Some m \<Rightarrow> if re_to_version m < re_to_version e then Some e else Some m)"

definition of_subject :: "pystr \<Rightarrow> event_log \<Rightarrow> event_log" where
  "of_subject k rows = filter (\<lambda>e. re_subject_key e = k) rows"

definition current_event :: "event_log \<Rightarrow> pystr \<Rightarrow> reconfiguration_event option" where
  "current_event rows k = foldl newest None (of_subject k rows)"

definition actual_version :: "event_log \<Rightarrow> pystr \<Rightarrow> int" where
  "actual_version rows k = (case current_event rows k of None \<Rightarrow> 0 | Some e \<Rightarrow> re_to_version e)"

section \<open>Appending\<close>

definition canonical_equal :: "reconfiguration_event \<Rightarrow> reconfiguration_event \<Rightarrow> bool" where
  "canonical_equal a b \<longleftrightarrow>
     a\<lparr>re_event_id := re_event_id b, re_recorded_at := re_recorded_at b\<rparr> = b \<and>
     tz_aware (re_recorded_at a) = tz_aware (re_recorded_at b) \<and>
     instant (re_recorded_at a) = instant (re_recorded_at b)"

definition reconcile ::
  "reconfiguration_event \<Rightarrow> reconfiguration_event \<Rightarrow> perror + reconfiguration_event" where
  "reconcile existing e =
     (if \<not> canonical_equal existing e then Inl EventIdentityMismatch else Inr existing)"

text \<open>
  What the statements of one call see. Each statement of a READ COMMITTED transaction sees the
  rows committed before it: the gate reads its target and the current version, \<^verbatim>\<open>append\<close>
  reads the identity and then inserts.
\<close>

record log_view =
  lv_target :: event_log
  lv_current :: event_log
  lv_identity :: event_log
  lv_insert :: event_log

record append_result =
  ar_decision :: reconfiguration_decision
  ar_event :: "reconfiguration_event option"
  ar_inserted :: "reconfiguration_event option"

definition append_event ::
  "(pystr \<Rightarrow> pystr \<Rightarrow> bool) \<Rightarrow> log_view \<Rightarrow> reconfiguration_event \<Rightarrow> perror + append_result" where
  "append_event coll v e =
     (let replay = (\<lambda>existing. andthen (reconcile existing e) (\<lambda>x.
            Inr \<lparr>ar_decision = REPLAYED, ar_event = Some x, ar_inserted = None\<rparr>));
          now = lv_insert v
      in case get_event (lv_identity v) (re_event_id e) of
           Some existing \<Rightarrow> replay existing
         | None \<Rightarrow>
             if \<not> (bind_string_tuple (re_hypothesis_refs e) \<and> bind_string_tuple (re_approval_scope e))
             then Inl PValueError
             else if \<not> event_columns e then Inl PDataError
             else if \<not> event_checks coll e then Inl PIntegrity
             else (case get_event now (re_event_id e) of
                     Some concurrent \<Rightarrow> replay concurrent
                   | None \<Rightarrow>
                       if \<exists>r \<in> set now. re_subject_key r = re_subject_key e \<and>
                                        re_to_version r = re_to_version e
                       then Inr \<lparr>ar_decision = LOST_CONCURRENT_RACE,
                                 ar_event = current_event now (re_subject_key e), ar_inserted = None\<rparr>
                       else if (case re_rollback_of e of None \<Rightarrow> False | Some i \<Rightarrow> get_event now i = None)
                       then Inl PIntegrity
                       else Inr \<lparr>ar_decision = PROMOTED, ar_event = Some e, ar_inserted = Some e\<rparr>))"

text \<open>The repository refuses to update or delete before any SQL.\<close>

definition update_event :: "reconfiguration_event \<Rightarrow> perror + reconfiguration_event" where
  "update_event e = Inl EventImmutable"

definition delete_event :: "reconfiguration_event \<Rightarrow> perror + unit" where
  "delete_event e = Inl EventImmutable"

section \<open>The gates\<close>

datatype reconfiguration_reason =
  RegimeNotCandidate | BlindNotPredictable | ApprovalUnfit | ExpectedNotCurrent | EventPersisted
| RaceLost | RollbackUnfit | RollbackRecorded | NothingProposed

record evaluated_reconfiguration =
  er_decision :: reconfiguration_decision
  er_event_id :: "uuid option"
  er_subject_key :: pystr
  er_resulting_version :: "int option"
  er_reason :: reconfiguration_reason

text \<open>The outcome with the row the call inserted, if it did.\<close>

type_synonym gate_result = "evaluated_reconfiguration \<times> reconfiguration_event option"

definition refused ::
  "reconfiguration_decision \<Rightarrow> pystr \<Rightarrow> reconfiguration_reason \<Rightarrow> perror + gate_result" where
  "refused d k why =
     Inr (\<lparr>er_decision = d, er_event_id = None, er_subject_key = k, er_resulting_version = None,
           er_reason = why\<rparr>, None)"

text \<open>The second half of both gates: the version guard, the append and its outcome.\<close>

definition append_guarded ::
  "(pystr \<Rightarrow> pystr \<Rightarrow> bool) \<Rightarrow> log_view \<Rightarrow> int \<Rightarrow> reconfiguration_reason \<Rightarrow> reconfiguration_event \<Rightarrow>
   perror + gate_result" where
  "append_guarded coll v expected stored e =
     (let k = re_subject_key e; actual = actual_version (lv_current v) k
      in if actual \<noteq> expected
         then Inr (\<lparr>er_decision = LOST_CONCURRENT_RACE,
                    er_event_id = map_option re_event_id (current_event (lv_current v) k),
                    er_subject_key = k, er_resulting_version = Some actual,
                    er_reason = ExpectedNotCurrent\<rparr>, None)
         else andthen (append_event coll v e) (\<lambda>a.
           Inr (\<lparr>er_decision = ar_decision a, er_event_id = map_option re_event_id (ar_event a),
                 er_subject_key = k,
                 er_resulting_version =
                   Some (case ar_event a of Some p \<Rightarrow> re_to_version p | None \<Rightarrow> actual),
                 er_reason = (case ar_event a of Some _ \<Rightarrow> stored | None \<Rightarrow> RaceLost)\<rparr>,
                ar_inserted a)))"

definition promotion_event ::
  "reconfiguration_candidate \<Rightarrow> approval_binding \<Rightarrow> uuid \<Rightarrow> py_datetime \<Rightarrow> reconfiguration_event" where
  "promotion_event c a event_id recorded_at =
     \<lparr>re_event_id = event_id, re_subject_key = rc_subject_key c, re_kind = PROMOTE,
      re_from_version = rc_expected_version c, re_to_version = rc_proposed_version c,
      re_active_candidate_ref = rc_candidate_ref c, re_payload_sha256 = rc_payload_sha256 c,
      re_model_ref = rc_model_ref c, re_hypothesis_refs = rc_hypothesis_refs c,
      re_validation_ref = rc_validation_ref c, re_cost_ref = rc_cost_ref c,
      re_responsible_ref = rc_responsible_ref c, re_rollback_plan_ref = rc_rollback_plan_ref c,
      re_approval_reference = ab_reference a, re_approval_version = ab_version a,
      re_approval_scope = ab_scope a, re_approval_jurisdiction = ab_jurisdiction a,
      re_approval_bound_kind = bound_kind_value (bo_kind (ab_bound_to a)),
      re_approval_bound_ref = bo_ref (ab_bound_to a), re_rollback_of = None,
      re_recorded_at = recorded_at\<rparr>"

definition reconfiguration_gate ::
  "(pystr \<Rightarrow> pystr \<Rightarrow> bool) \<Rightarrow> log_view \<Rightarrow> claim_evaluation \<Rightarrow> piap_envelope \<Rightarrow>
   reconfiguration_candidate \<Rightarrow> uuid \<Rightarrow> py_datetime \<Rightarrow> perror + gate_result" where
  "reconfiguration_gate coll v ev env c event_id recorded_at =
     andthen (subject_key (ev_claim ev)) (\<lambda>k.
     if rc_subject_key c \<noteq> k then Inl ReconfigurationContract
     else if ra_status (ev_regime ev) \<noteq> REGIME_SHIFT_CANDIDATE
     then refused NOT_APPLICABLE k RegimeNotCandidate
     else if fle (po_a_minus (ev_evidence ev)) (Fin 0) \<or> ev_state ev \<noteq> PREDICTABLE
     then refused REJECTED_VALIDATION k BlindNotPredictable
     else case ac_approval (pe_authority env) of
       Some a \<Rightarrow>
         if ev_approval ev = APPROVAL_VALID \<and> bo_kind (ab_bound_to a) = PROMOTION_CANDIDATE \<and>
            bo_ref (ab_bound_to a) = rc_candidate_ref c \<and> ab_version a = rc_proposed_version c
         then append_guarded coll v (rc_expected_version c) EventPersisted
                (promotion_event c a event_id recorded_at)
         else refused REJECTED_APPROVAL k ApprovalUnfit
     | None \<Rightarrow> refused REJECTED_APPROVAL k ApprovalUnfit)"

record rollback_request =
  rb_event_id :: uuid
  rb_subject_key :: pystr
  rb_rollback_of :: uuid
  rb_expected_version :: int
  rb_required_scope :: "pystr list"
  rb_expected_jurisdiction :: "pystr option"
  rb_recorded_at :: py_datetime

definition rollback_event ::
  "rollback_request \<Rightarrow> reconfiguration_event \<Rightarrow> approval_binding \<Rightarrow> reconfiguration_event" where
  "rollback_event q target a =
     target\<lparr>re_event_id := rb_event_id q, re_subject_key := rb_subject_key q, re_kind := ROLLBACK,
       re_from_version := rb_expected_version q, re_to_version := rb_expected_version q + 1,
       re_approval_reference := ab_reference a, re_approval_version := ab_version a,
       re_approval_scope := ab_scope a, re_approval_jurisdiction := ab_jurisdiction a,
       re_approval_bound_kind := bound_kind_value (bo_kind (ab_bound_to a)),
       re_approval_bound_ref := bo_ref (ab_bound_to a),
       re_rollback_of := Some (re_event_id target), re_recorded_at := rb_recorded_at q\<rparr>"

definition rollback_gate ::
  "(pystr \<Rightarrow> pystr \<Rightarrow> bool) \<Rightarrow> log_view \<Rightarrow> rollback_request \<Rightarrow> piap_envelope \<Rightarrow> perror + gate_result" where
  "rollback_gate coll v q env =
     (case get_event (lv_target v) (rb_rollback_of q) of
        None \<Rightarrow> refused REJECTED_APPROVAL (rb_subject_key q) RollbackUnfit
      | Some target \<Rightarrow>
          andthen (validate_approval (pe_authority env) (rb_recorded_at q) (rb_expected_version q + 1)
                     (rb_required_scope q) (rb_expected_jurisdiction q)
                     \<lparr>bo_kind = PROMOTION_CANDIDATE, bo_ref = re_active_candidate_ref target\<rparr>) (\<lambda>out.
          case ac_approval (pe_authority env) of
            Some a \<Rightarrow>
              if out = APPROVAL_VALID \<and> re_subject_key target = rb_subject_key q \<and>
                 bo_kind (ab_bound_to a) = PROMOTION_CANDIDATE \<and>
                 bo_ref (ab_bound_to a) = re_active_candidate_ref target \<and>
                 ab_version a = rb_expected_version q + 1
              then append_guarded coll v (rb_expected_version q) RollbackRecorded
                     (rollback_event q target a)
              else refused REJECTED_APPROVAL (rb_subject_key q) RollbackUnfit
          | None \<Rightarrow> refused REJECTED_APPROVAL (rb_subject_key q) RollbackUnfit))"

end
