(* ===== verification/ReconfigLog.thy ===== *)
theory ReconfigLog
  imports Reconfiguration
begin

text \<open>
  The log of reconfigurations under concurrency. A log is what calls of the two gates, by any
  sessions in any interleaving, insert one after another; each read of a call sees any part of
  the rows, as a statement of a READ COMMITTED transaction does, and the insertion is checked
  against all of them.
\<close>

section \<open>Reachable logs\<close>

definition view_of :: "event_log \<Rightarrow> log_view \<Rightarrow> bool" where
  "view_of rows v \<longleftrightarrow>
     set (lv_target v) \<subseteq> set rows \<and> set (lv_current v) \<subseteq> set rows \<and>
     set (lv_identity v) \<subseteq> set rows \<and> lv_insert v = rows"

inductive log_reach :: "(pystr \<Rightarrow> pystr \<Rightarrow> bool) \<Rightarrow> event_log \<Rightarrow> bool" for coll where
  empty_log: "log_reach coll []"
| promotion: "log_reach coll rows \<Longrightarrow> view_of rows v \<Longrightarrow>
    reconfiguration_gate coll v ev env c i t = Inr (out, Some e) \<Longrightarrow> log_reach coll (rows @ [e])"
| rollback: "log_reach coll rows \<Longrightarrow> view_of rows v \<Longrightarrow>
    rollback_gate coll v q env = Inr (out, Some e) \<Longrightarrow> log_reach coll (rows @ [e])"

inductive_cases log_reach_snoc: "log_reach coll (rows @ [e])"

section \<open>The current version\<close>

lemma newest_fold:
  "foldl newest acc rows = Some m \<Longrightarrow>
   (acc = Some m \<or> m \<in> set rows) \<and> (\<forall>x. acc = Some x \<longrightarrow> re_to_version x \<le> re_to_version m) \<and>
   (\<forall>r \<in> set rows. re_to_version r \<le> re_to_version m)"
proof (induction rows arbitrary: acc)
  case (Cons r rows)
  from Cons.IH [of "newest acc r"] Cons.prems show ?case
    by (auto simp: newest_def split: option.splits if_splits)
qed simp

lemma newest_fold_None: "foldl newest acc rows = None \<longleftrightarrow> acc = None \<and> rows = []"
  by (induction rows arbitrary: acc) (auto simp: newest_def split: option.splits)

lemma actual_version_cases:
  "of_subject k rows = [] \<and> actual_version rows k = 0 \<or>
   (\<exists>m \<in> set rows. re_subject_key m = k \<and> current_event rows k = Some m \<and>
      actual_version rows k = re_to_version m \<and>
      (\<forall>r \<in> set rows. re_subject_key r = k \<longrightarrow> re_to_version r \<le> re_to_version m))"
proof (cases "current_event rows k")
  case None
  then show ?thesis by (simp add: current_event_def actual_version_def newest_fold_None)
next
  case (Some m)
  then show ?thesis
    using newest_fold [of None "of_subject k rows" m]
    by (auto simp: current_event_def actual_version_def of_subject_def)
qed

section \<open>What an insertion went through\<close>

lemma find_id_None: "get_event rows i = None \<longleftrightarrow> (\<forall>r \<in> set rows. re_event_id r \<noteq> i)"
  by (auto simp: get_event_def find_None_iff)

lemma find_id_Some: "get_event rows i = Some e \<Longrightarrow> e \<in> set rows \<and> re_event_id e = i"
  by (auto simp: get_event_def find_Some_iff)

lemma append_inserted:
  "append_event coll v e = Inr a \<Longrightarrow> ar_inserted a = Some e' \<Longrightarrow>
   e' = e \<and> ar_decision a = PROMOTED \<and> event_checks coll e \<and>
   (\<forall>r \<in> set (lv_insert v). re_event_id r \<noteq> re_event_id e) \<and>
   (\<forall>r \<in> set (lv_insert v). re_subject_key r = re_subject_key e \<longrightarrow> re_to_version r \<noteq> re_to_version e)"
  by (auto simp: append_event_def Let_def run_iffs find_id_None split: option.splits if_splits)

lemma append_guarded_inserted:
  "append_guarded coll v expected why e = Inr (out, Some e') \<Longrightarrow>
   e' = e \<and> er_decision out = PROMOTED \<and> event_checks coll e \<and>
   actual_version (lv_current v) (re_subject_key e) = expected \<and>
   (\<forall>r \<in> set (lv_insert v). re_event_id r \<noteq> re_event_id e) \<and>
   (\<forall>r \<in> set (lv_insert v). re_subject_key r = re_subject_key e \<longrightarrow> re_to_version r \<noteq> re_to_version e)"
  by (auto simp: append_guarded_def Let_def run_iffs split: if_splits dest: append_inserted)

text \<open>The row a gate inserts, whichever gate it is.\<close>

definition admitted :: "(pystr \<Rightarrow> pystr \<Rightarrow> bool) \<Rightarrow> event_log \<Rightarrow> reconfiguration_event \<Rightarrow> bool" where
  "admitted coll rows e \<longleftrightarrow>
     event_checks coll e \<and>
     (\<exists>seen. set seen \<subseteq> set rows \<and> actual_version seen (re_subject_key e) = re_from_version e) \<and>
     (\<forall>r \<in> set rows. re_event_id r \<noteq> re_event_id e) \<and>
     (\<forall>r \<in> set rows. re_subject_key r = re_subject_key e \<longrightarrow> re_to_version r \<noteq> re_to_version e) \<and>
     re_approval_bound_ref e = re_active_candidate_ref e \<and> re_approval_version e = re_to_version e \<and>
     (re_kind e = ROLLBACK \<longrightarrow>
        (\<exists>t \<in> set rows. re_rollback_of e = Some (re_event_id t) \<and> re_subject_key t = re_subject_key e \<and>
           re_active_candidate_ref t = re_active_candidate_ref e \<and>
           re_payload_sha256 t = re_payload_sha256 e))"

lemma reconfiguration_gate_admitted:
  assumes "reconfiguration_gate coll v ev env c i t = Inr (out, Some e)" and "view_of rows v"
  shows "admitted coll rows e" and "ev_approval ev = APPROVAL_VALID" and "ev_state ev = PREDICTABLE"
    and "ra_status (ev_regime ev) = REGIME_SHIFT_CANDIDATE"
proof -
  obtain a where *: "ev_approval ev = APPROVAL_VALID" "ev_state ev = PREDICTABLE"
    "ra_status (ev_regime ev) = REGIME_SHIFT_CANDIDATE"
    "bo_ref (ab_bound_to a) = rc_candidate_ref c" "ab_version a = rc_proposed_version c"
    "append_guarded coll v (rc_expected_version c) EventPersisted (promotion_event c a i t) = Inr (out, Some e)"
    using assms(1)
    by (auto simp: reconfiguration_gate_def run_iffs refused_def split: if_splits option.splits)
  show "ev_approval ev = APPROVAL_VALID" "ev_state ev = PREDICTABLE"
    "ra_status (ev_regime ev) = REGIME_SHIFT_CANDIDATE" by fact+
  show "admitted coll rows e"
    using append_guarded_inserted [OF *(6)] assms(2) *(4,5)
    by (auto simp: admitted_def view_of_def promotion_event_def)
qed

lemma rollback_gate_admitted:
  assumes "rollback_gate coll v q env = Inr (out, Some e)" and "view_of rows v"
  shows "admitted coll rows e"
proof -
  obtain a target where *: "get_event (lv_target v) (rb_rollback_of q) = Some target"
    "re_subject_key target = rb_subject_key q"
    "bo_ref (ab_bound_to a) = re_active_candidate_ref target" "ab_version a = rb_expected_version q + 1"
    "append_guarded coll v (rb_expected_version q) RollbackRecorded (rollback_event q target a) = Inr (out, Some e)"
    using assms(1)
    by (auto simp: rollback_gate_def run_iffs refused_def split: if_splits option.splits)
  have "target \<in> set rows"
    using find_id_Some [OF *(1)] assms(2) by (auto simp: view_of_def)
  then show ?thesis
    using append_guarded_inserted [OF *(5)] assms(2) *(2-4)
    by (auto simp: admitted_def view_of_def rollback_event_def)
qed

lemma log_reach_admitted:
  "log_reach coll (rows @ [e]) \<Longrightarrow> log_reach coll rows \<and> admitted coll rows e"
  by (erule log_reach_snoc) (auto dest: reconfiguration_gate_admitted(1) rollback_gate_admitted)

section \<open>The invariant\<close>

text \<open>
  What a log of versions has to promise, whoever appends to it: an entry takes the version after
  one its writer saw (or the first), and not a version its subject already has.
\<close>

locale version_log =
  fixes subject :: "'e \<Rightarrow> 'k" and version :: "'e \<Rightarrow> int" and reach :: "'e list \<Rightarrow> bool"
  assumes grows: "reach (rows @ [e]) \<Longrightarrow>
    reach rows \<and>
    (version e = 1 \<or> (\<exists>m \<in> set rows. subject m = subject e \<and> version e = version m + 1)) \<and>
    (\<forall>r \<in> set rows. subject r = subject e \<longrightarrow> version r \<noteq> version e)"
begin

definition entries :: "'k \<Rightarrow> 'e list \<Rightarrow> 'e list" where
  "entries k rows = filter (\<lambda>e. subject e = k) rows"

lemma prefix: "reach (rows @ later) \<Longrightarrow> reach rows"
proof (induction later rule: rev_induct)
  case (snoc e later)
  then have "reach ((rows @ later) @ [e])" by simp
  then show ?case using grows snoc.IH by blast
qed simp

text \<open>Per subject the versions are 1, 2, 3, ... in the order of insertion.\<close>

lemma versions: "reach rows \<Longrightarrow> map version (entries k rows) = [1..int (length (entries k rows))]"
proof (induction rows rule: rev_induct)
  case (snoc e rows)
  note step = grows [OF snoc.prems]
  then have IH: "map version (entries k rows) = [1..int (length (entries k rows))]"
    using snoc.IH by blast
  show ?case
  proof (cases "subject e = k")
    case True
    define n where "n = int (length (entries k rows))"
    have vs: "version ` {r \<in> set rows. subject r = k} = {1..n}"
      using arg_cong [OF IH, of set] by (simp add: entries_def n_def)
    have "version e \<notin> {1..n}" using step True unfolding vs [symmetric] by auto
    moreover have "version e - 1 \<in> insert 0 {1..n}" using step True unfolding vs [symmetric] by force
    moreover have "0 \<le> n" by (simp add: n_def)
    ultimately have "version e = n + 1" by auto
    with IH True show ?thesis by (simp add: entries_def n_def upto_rec2 add.commute)
  qed (use IH in \<open>simp add: entries_def\<close>)
qed (simp add: entries_def)

lemma latest:
  assumes "reach rows" and "m \<in> set rows" and "subject m = k"
    and "\<forall>r \<in> set rows. subject r = k \<longrightarrow> version r \<le> version m"
  shows "version m = int (length (entries k rows))"
proof -
  define n where "n = int (length (entries k rows))"
  have vs: "version ` {r \<in> set rows. subject r = k} = {1..n}"
    using arg_cong [OF versions [OF assms(1), of k], of set] by (simp add: entries_def n_def)
  have "version m \<in> {1..n}" unfolding vs [symmetric] using assms(2,3) by blast
  moreover from this have "n \<in> version ` {r \<in> set rows. subject r = k}" unfolding vs by auto
  ultimately show ?thesis using assms(4) by (force simp: n_def)
qed

end

text \<open>The gates keep that promise.\<close>

interpretation log: version_log re_subject_key re_to_version "log_reach coll" for coll
proof
  fix rows e
  assume "log_reach coll (rows @ [e])"
  then have adm: "log_reach coll rows" "admitted coll rows e" using log_reach_admitted by blast+
  then obtain seen where seen: "set seen \<subseteq> set rows" "actual_version seen (re_subject_key e) = re_from_version e"
    and to: "re_to_version e = re_from_version e + 1"
    by (auto simp: admitted_def event_checks_def)
  have "re_to_version e = 1 \<or> (\<exists>m \<in> set rows. re_subject_key m = re_subject_key e \<and>
      re_to_version e = re_to_version m + 1)"
    using actual_version_cases [of "re_subject_key e" seen] seen to by force
  with adm show "log_reach coll rows \<and>
    (re_to_version e = 1 \<or> (\<exists>m \<in> set rows. re_subject_key m = re_subject_key e \<and>
      re_to_version e = re_to_version m + 1)) \<and>
    (\<forall>r \<in> set rows. re_subject_key r = re_subject_key e \<longrightarrow> re_to_version r \<noteq> re_to_version e)"
    by (auto simp: admitted_def)
qed

lemma entries_of_subject: "log.entries k rows = of_subject k rows"
  by (simp add: log.entries_def of_subject_def)

lemmas log_versions = log.versions [unfolded entries_of_subject]
lemmas log_latest = log.latest [unfolded entries_of_subject]
lemmas log_prefix = log.prefix

lemma log_ids_distinct: "log_reach coll rows \<Longrightarrow> distinct (map re_event_id rows)"
proof (induction rows rule: rev_induct)
  case (snoc e rows)
  with log_reach_admitted [OF snoc.prems] show ?case by (auto simp: admitted_def)
qed simp

lemma log_rows_admitted:
  "log_reach coll rows \<Longrightarrow> e \<in> set rows \<Longrightarrow> \<exists>before after. rows = before @ e # after \<and> admitted coll before e"
proof -
  assume r: "log_reach coll rows" and "e \<in> set rows"
  then obtain before after where s: "rows = before @ e # after" by (meson split_list)
  have "log_reach coll (before @ [e])" using log_prefix [of coll "before @ [e]" after] r s by simp
  with s show ?thesis using log_reach_admitted by blast
qed

text \<open>An event appended again is answered with the row that is there.\<close>

lemma canonical_equal_refl [simp]: "canonical_equal e e"
  by (simp add: canonical_equal_def)

lemma append_replay:
  assumes "get_event (lv_identity v) (re_event_id e) = Some e"
  shows "append_event coll v e = Inr \<lparr>ar_decision = REPLAYED, ar_event = Some e, ar_inserted = None\<rparr>"
  using assms by (simp add: append_event_def reconcile_def)

lemma append_divergent:
  assumes "get_event (lv_identity v) (re_event_id e) = Some x" and "\<not> canonical_equal x e"
  shows "append_event coll v e = Inl EventIdentityMismatch"
  using assms by (simp add: append_event_def reconcile_def)

text \<open>The version the next call has to expect is the number of events so far.\<close>

lemma log_current:
  "log_reach coll rows \<Longrightarrow> actual_version rows k = int (length (of_subject k rows))"
  using actual_version_cases [of k rows] log_latest [of coll rows _ k] by auto

lemma log_event_bound:
  assumes "log_reach coll (before @ e # later)"
  shows "re_approval_bound_ref e = re_active_candidate_ref e \<and> re_approval_version e = re_to_version e \<and>
    re_from_version e = int (length (of_subject (re_subject_key e) before)) \<and>
    (re_kind e = ROLLBACK \<longrightarrow>
       (\<exists>t \<in> set before. re_rollback_of e = Some (re_event_id t) \<and> re_subject_key t = re_subject_key e \<and>
          re_active_candidate_ref t = re_active_candidate_ref e \<and>
          re_payload_sha256 t = re_payload_sha256 e))"
proof -
  have r: "log_reach coll (before @ [e])"
    using log_prefix [of coll "before @ [e]" later] assms by simp
  then have adm: "admitted coll before e" using log_reach_admitted by blast
  define n where "n = length (of_subject (re_subject_key e) before)"
  have "of_subject (re_subject_key e) (before @ [e]) = of_subject (re_subject_key e) before @ [e]"
    by (simp add: of_subject_def)
  with log_versions [OF r, of "re_subject_key e"] have
    "map re_to_version (of_subject (re_subject_key e) before) @ [re_to_version e] = [1..int n + 1]"
    by (simp add: n_def algebra_simps)
  also have "[1..int n + 1] = [1..int n] @ [int n + 1]" by (simp add: upto_rec2)
  finally have "re_to_version e = int n + 1" by simp
  with adm show ?thesis by (auto simp: admitted_def event_checks_def n_def)
qed

text \<open>
  A gate whose statements saw the same rows never answers \<^verbatim>\<open>replayed\<close>: once the event
  is there, the version it expects is no longer the current one.
\<close>

lemma gate_never_replays:
  assumes "append_guarded coll v expected why e = Inr (out, w)" and "re_to_version e = expected + 1"
    and "set (lv_identity v) \<subseteq> set (lv_current v)" and "set (lv_insert v) \<subseteq> set (lv_current v)"
  shows "er_decision out \<noteq> REPLAYED"
proof
  assume rep: "er_decision out = REPLAYED"
  then obtain a where current: "actual_version (lv_current v) (re_subject_key e) = expected"
    and a: "append_event coll v e = Inr a" "ar_decision a = REPLAYED"
    using assms(1) by (auto simp: append_guarded_def Let_def andthen_eq_Inr split: if_splits)
  from a obtain x where x: "get_event (lv_identity v) (re_event_id e) = Some x \<or>
      get_event (lv_insert v) (re_event_id e) = Some x" and eq: "canonical_equal x e"
    by (auto simp: append_event_def Let_def reconcile_def andthen_eq_Inr split: option.splits if_splits)
  have "x \<in> set (lv_current v)" using x assms(3,4) by (auto dest: find_id_Some)
  moreover have "x\<lparr>re_event_id := re_event_id e, re_recorded_at := re_recorded_at e\<rparr> = e"
    using eq by (simp add: canonical_equal_def)
  then have "re_subject_key x = re_subject_key e" "re_to_version x = re_to_version e"
    by (cases x; cases e; simp)+
  ultimately show False
    using actual_version_cases [of "re_subject_key e" "lv_current v"] current assms(2)
    by (fastforce simp: of_subject_def filter_empty_conv)
qed

end
