(* ===== verification/Coordinator.thy ===== *)
theory Coordinator
  imports Routing ReconfigLog
begin

text \<open>
  \<^verbatim>\<open>batch.py\<close> and \<^verbatim>\<open>coordinator.py\<close> of
  \<^verbatim>\<open>predictive_accessibility\<close>: the bounded request, the evaluation of each item with
  its short circuits, the sidecar of reconfigurations and the routing of a whole batch.
\<close>

section \<open>The request\<close>

record evaluation_context =
  ec_registry :: channel_registry
  ec_observed_at_offset :: int
  ec_observations :: "observation list"
  ec_rho_min :: float64
  ec_d_regime :: float64
  ec_theta :: float64
  ec_beats_fluctuation :: bool
  ec_horizon_points :: "horizon_point list"
  ec_training_pairs :: "(float64 \<times> float64) list"
  ec_blind_pairs :: "(float64 \<times> float64) list"
  ec_bootstrap_replicates :: int
  ec_bootstrap_seed :: int
  ec_alpha_corrected :: float64
  ec_placebo_permutations :: int
  ec_placebo_seed :: int
  ec_a_rel :: float64
  ec_at :: py_datetime
  ec_expected_version :: int
  ec_required_scope :: "pystr list"
  ec_expected_jurisdiction :: "pystr option"
  ec_expected_binding_kind :: bound_kind
  ec_high_prediction_error :: bool
  ec_model_disagreement :: bool

definition make_evaluation_context :: "evaluation_context \<Rightarrow> perror + evaluation_context" where
  "make_evaluation_context c =
     (if length (ec_training_pairs c) < 3 then Inl PValueError
      else if ec_blind_pairs c = [] then Inl PValueError
      else if ec_bootstrap_replicates c < 1 \<or> ec_placebo_permutations c < 1 then Inl PValueError
      else if \<not> (flt (Fin 0) (ec_alpha_corrected c) \<and> flt (ec_alpha_corrected c) (Fin 1))
      then Inl PValueError
      else Inr c)"

record ready_item =
  ri_envelope :: piap_envelope
  ri_context :: evaluation_context

datatype request_item = Ready ready_item | Unavailable upstream_unavailable

definition MAX_CLAIMS_PER_EVALUATION :: nat where
  "MAX_CLAIMS_PER_EVALUATION = 8"

definition MAX_TOTAL_REFERENCES_PER_EVALUATION :: nat where
  "MAX_TOTAL_REFERENCES_PER_EVALUATION = 512"

fun item_references :: "request_item \<Rightarrow> nat" where
  "item_references (Ready r) = length (pe_payload_refs (ri_envelope r))"
| "item_references (Unavailable u) = 0"

definition total_references :: "request_item list \<Rightarrow> nat" where
  "total_references items = sum_list (map item_references items)"

definition make_evaluation_request :: "request_item list \<Rightarrow> perror + request_item list" where
  "make_evaluation_request items =
     (if items = [] then Inl BatchLimit
      else if MAX_CLAIMS_PER_EVALUATION < length items then Inl BatchLimit
      else if MAX_TOTAL_REFERENCES_PER_EVALUATION < total_references items then Inl BatchLimit
      else Inr items)"

lemma make_evaluation_request_iff:
  "make_evaluation_request items = Inr q \<longleftrightarrow>
   q = items \<and> items \<noteq> [] \<and> length items \<le> 8 \<and> total_references items \<le> 512"
  by (auto simp: make_evaluation_request_def MAX_CLAIMS_PER_EVALUATION_def
      MAX_TOTAL_REFERENCES_PER_EVALUATION_def)

section \<open>Evaluating an item\<close>

definition MVP_ESTIMATOR_LIBRARY :: "pystr list" where
  "MVP_ESTIMATOR_LIBRARY = [pys ''gaussian_marginal_baseline'', pys ''gaussian_ar1_ols'']"

definition power_outcome_for ::
  "('g, 'z) numerics_scheme \<Rightarrow> evaluation_context \<Rightarrow> perror + power_outcome" where
  "power_outcome_for lib c =
     (if cr_estimator_library (ec_registry c) \<noteq> MVP_ESTIMATOR_LIBRARY then Inl UnsupportedLibrary
      else
      andthen (fit_baseline lib (map snd (ec_training_pairs c))) (\<lambda>baseline.
      andthen (fit_ar1 lib (ec_training_pairs c)) (\<lambda>candidate.
      andthen (per_event_gains lib baseline candidate (ec_blind_pairs c)) (\<lambda>gains.
      andthen (circular_block_bootstrap lib gains (nat (ec_bootstrap_replicates c))
                 (ec_bootstrap_seed c) (ec_alpha_corrected c)) (\<lambda>(a_minus, a_upper).
      andthen (traverse (baseline_log_density lib baseline) (map snd (ec_blind_pairs c))) (\<lambda>baseline_log.
      andthen (deterministic_placebo lib baseline_log candidate (ec_blind_pairs c)
                 (nat (ec_placebo_permutations c)) (ec_placebo_seed c)) (\<lambda>(placebo_p, g_real, p95).
      andthen (fdiv (fsum_builtin gains) (f_of_int (int (length gains)))) (\<lambda>mean_gain.
      Inr \<lparr>po_a_minus = a_minus, po_a_upper = a_upper, po_a_star_worst = fmax (Fin 0) a_upper,
           po_mean_gain = mean_gain, po_placebo_p = placebo_p, po_g_real = g_real,
           po_g_shuffled_p95 = p95, po_sample_size = length (ec_blind_pairs c),
           po_alpha_corrected = ec_alpha_corrected c\<rparr>))))))))"

definition confirmatory_pass :: "power_outcome \<Rightarrow> float64 \<Rightarrow> bool" where
  "confirmatory_pass evidence alpha \<longleftrightarrow>
     flt (po_placebo_p evidence) alpha \<and> flt (po_g_shuffled_p95 evidence) (po_g_real evidence)"

definition unavailable_channels :: "evaluation_context \<Rightarrow> availability_outcome list" where
  "unavailable_channels c =
     filter (\<lambda>d. \<not> ao_available d)
       (map (\<lambda>ch. availability ch (ec_observed_at_offset c)) (cr_channels (ec_registry c)))"

text \<open>The science of a claim whose channels are all available.\<close>

definition evaluate_available ::
  "('g, 'z) numerics_scheme \<Rightarrow> ready_item \<Rightarrow> perror + claim_evaluation" where
  "evaluate_available lib item =
     (let c = ri_context item; e = ri_envelope item in
      andthen (historical_validity_of (ec_observations c) (ec_rho_min c)) (\<lambda>validade.
      let regime = regime_assessment_of (ec_d_regime c) (ec_theta c) (ec_beats_fluctuation c)
                     (ec_high_prediction_error c) (ec_model_disagreement c) in
      andthen (power_outcome_for lib c) (\<lambda>evidence.
      andthen (horizon_spectrum_of (ec_horizon_points c)) (\<lambda>espectro.
      andthen (approval_validation e (ec_at c) (ec_expected_version c) (ec_required_scope c)
                 (ec_expected_jurisdiction c) (ec_expected_binding_kind c)) (\<lambda>aprovacao.
      Inr (assemble_claim_evaluation (claim_from_envelope e) (ec_registry c) evidence aprovacao
             (ec_a_rel c) (confirmatory_pass evidence (ec_alpha_corrected c)) regime espectro
             validade))))))"

fun evaluate_item :: "('g, 'z) numerics_scheme \<Rightarrow> request_item \<Rightarrow> perror + item_outcome" where
  "evaluate_item lib (Unavailable u) = Inr (UpstreamUnavailable u)"
| "evaluate_item lib (Ready item) =
     (let indisponiveis = unavailable_channels (ri_context item)
      in if indisponiveis \<noteq> []
         then andthen (make_causal_rejection (claim_from_envelope (ri_envelope item)) indisponiveis)
                (\<lambda>r. Inr (CausallyRejected r))
         else andthen (evaluate_available lib item) (\<lambda>ev. Inr (Evaluated ev)))"

definition evaluate_batch ::
  "('g, 'z) numerics_scheme \<Rightarrow> request_item list \<Rightarrow> perror + item_outcome list" where
  "evaluate_batch lib items =
     andthen (traverse (evaluate_item lib) items) (\<lambda>os.
     if length os \<noteq> length items then Inl BatchLimit else Inr os)"

section \<open>The reconfiguration sidecar\<close>

record reconfiguration_instruction =
  in_candidate :: reconfiguration_candidate
  in_event_id :: uuid
  in_recorded_at :: py_datetime

datatype reconfiguration_outcome =
  ReconfigurationUpstream pystr
| ReconfigurationRejected pystr
| ReconfigurationEvaluated evaluated_reconfiguration

text \<open>
  The sidecar of one item with the row its gate inserted. \<open>v\<close> is what the statements of this
  item read.
\<close>

definition sidecar_for ::
  "(pystr \<Rightarrow> pystr \<Rightarrow> bool) \<Rightarrow> log_view \<Rightarrow> request_item \<Rightarrow> item_outcome \<Rightarrow>
   reconfiguration_instruction option \<Rightarrow>
   perror + reconfiguration_outcome \<times> reconfiguration_event option" where
  "sidecar_for coll v item outcome instr =
     (case outcome of
        UpstreamUnavailable u \<Rightarrow> Inr (ReconfigurationUpstream (up_reference u), None)
      | CausallyRejected r \<Rightarrow>
          andthen (subject_key (rej_claim r)) (\<lambda>k. Inr (ReconfigurationRejected k, None))
      | Evaluated ev \<Rightarrow>
          (case instr of
             None \<Rightarrow>
               andthen (subject_key (ev_claim ev)) (\<lambda>k.
               andthen (refused NOT_APPLICABLE k NothingProposed) (\<lambda>(r, w).
               Inr (ReconfigurationEvaluated r, w)))
           | Some i \<Rightarrow>
               (case item of
                  Unavailable u \<Rightarrow> Inl PRuntimeError
                | Ready ri \<Rightarrow>
                    andthen (reconfiguration_gate coll v ev (ri_envelope ri) (in_candidate i)
                               (in_event_id i) (in_recorded_at i)) (\<lambda>(r, w).
                    Inr (ReconfigurationEvaluated r, w)))))"

fun approval_binding_for :: "request_item \<Rightarrow> item_outcome \<Rightarrow> approval_binding option" where
  "approval_binding_for (Ready ri) (Evaluated ev) = ac_approval (pe_authority (ri_envelope ri))"
| "approval_binding_for _ _ = None"

record coordinated_batch =
  cb_outcomes :: "item_outcome list"
  cb_sidecar :: "reconfiguration_outcome list"
  cb_approval_bindings :: "approval_binding option list"

definition make_coordinated_batch :: "coordinated_batch \<Rightarrow> perror + coordinated_batch" where
  "make_coordinated_batch b =
     (if length (cb_outcomes b) \<noteq> length (cb_sidecar b) then Inl PValueError
      else if length (cb_outcomes b) \<noteq> length (cb_approval_bindings b) then Inl PValueError
      else Inr b)"

text \<open>\<open>views i\<close> is what the statements of the item at position \<open>i\<close> read.\<close>

fun sidecars ::
  "(pystr \<Rightarrow> pystr \<Rightarrow> bool) \<Rightarrow> (nat \<Rightarrow> log_view) \<Rightarrow> nat \<Rightarrow>
   (request_item \<times> item_outcome \<times> reconfiguration_instruction option) list \<Rightarrow>
   perror + (reconfiguration_outcome \<times> reconfiguration_event option) list" where
  "sidecars coll views n [] = Inr []"
| "sidecars coll views n ((item, outcome, instr) # rest) =
     andthen (sidecar_for coll (views n) item outcome instr) (\<lambda>r.
     andthen (sidecars coll views (Suc n) rest) (\<lambda>rs. Inr (r # rs)))"

definition evaluate_and_reconfigure_batch ::
  "('g, 'z) numerics_scheme \<Rightarrow> (pystr \<Rightarrow> pystr \<Rightarrow> bool) \<Rightarrow> (nat \<Rightarrow> log_view) \<Rightarrow>
   request_item list \<Rightarrow> reconfiguration_instruction option list \<Rightarrow>
   perror + coordinated_batch \<times> reconfiguration_event option list" where
  "evaluate_and_reconfigure_batch lib coll views items instructions =
     (if length instructions \<noteq> length items then Inl PValueError
      else
      andthen (evaluate_batch lib items) (\<lambda>outcomes.
      andthen (sidecars coll views 0 (zip items (zip outcomes instructions))) (\<lambda>rs.
      andthen (make_coordinated_batch
                 \<lparr>cb_outcomes = outcomes, cb_sidecar = map fst rs,
                  cb_approval_bindings =
                    map (\<lambda>(item, outcome). approval_binding_for item outcome) (zip items outcomes)\<rparr>)
        (\<lambda>b. Inr (b, map snd rs)))))"

section \<open>Governed inputs\<close>

record governed_input =
  gi_conclusion :: pystr
  gi_key :: comparability_key
  gi_decisive_constraint :: pystr
  gi_candidates :: "candidate_input list"
  gi_guidance :: "guidance_reference option"
  gi_guidance_jurisdiction :: pystr
  gi_guidance_version :: int
  gi_alternatives :: "alternative list"
  gi_burden_entries :: "(alternative_kind \<times> burden_vector) list"
  gi_materiality_scope :: "pystr list"
  gi_protection_identifiers :: "pystr list"
  gi_inventory_reference :: "pystr option"
  gi_asymmetry_justification :: "pystr option"

definition make_governed_input :: "governed_input \<Rightarrow> perror + governed_input" where
  "make_governed_input g =
     (if blank (gi_conclusion g) then Inl BatchItemType
      else if blank (gi_decisive_constraint g) then Inl BatchItemType
      else if \<not> distinct (gi_protection_identifiers g) then Inl BatchItemType
      else if gi_protection_identifiers g \<noteq> [] \<and>
              (case gi_inventory_reference g of None \<Rightarrow> True | Some r \<Rightarrow> blank r)
      then Inl BatchItemType
      else Inr g)"

section \<open>Conflicts of a batch\<close>

text \<open>\<^verbatim>\<open>grupos.setdefault(key, []).append(...)\<close> of a dict that keeps its order.\<close>

fun append_to_group :: "'k \<Rightarrow> 'a \<Rightarrow> ('k \<times> 'a list) list \<Rightarrow> ('k \<times> 'a list) list" where
  "append_to_group k x [] = [(k, [x])]"
| "append_to_group k x ((l, xs) # gs) =
     (if l = k then (l, xs @ [x]) # gs else (l, xs) # append_to_group k x gs)"

type_synonym claim_groups = "(comparability_key \<times> (nat \<times> comparable_claim) list) list"

fun group_claims ::
  "nat \<Rightarrow> (item_outcome \<times> governed_input option) list \<Rightarrow> claim_groups \<Rightarrow> item_outcome list \<Rightarrow>
   perror + claim_groups \<times> item_outcome list" where
  "group_claims i [] grupos preservadas = Inr (grupos, preservadas)"
| "group_claims i ((Evaluated ev, Some g) # rest) grupos preservadas =
     andthen (make_comparable_claim ev (gi_key g) (gi_conclusion g)) (\<lambda>alegacao.
     group_claims (Suc i) rest (append_to_group (gi_key g) (i, alegacao) grupos) preservadas)"
| "group_claims i ((desfecho, _) # rest) grupos preservadas =
     group_claims (Suc i) rest grupos (preservadas @ [desfecho])"

fun assess_groups ::
  "item_outcome list \<Rightarrow> claim_groups \<Rightarrow> conflict_assessment option list \<Rightarrow>
   perror + conflict_assessment option list" where
  "assess_groups preservadas [] por_item = Inr por_item"
| "assess_groups preservadas ((_, membros) # grupos) por_item =
     andthen (conflict_assessment_of (map snd membros) preservadas) (\<lambda>avaliacao.
     assess_groups preservadas grupos
       (foldl (\<lambda>xs i. xs[i := Some avaliacao]) por_item (map fst membros)))"

fun key_pair_dimensions :: "comparability_key list \<Rightarrow> pystr list" where
  "key_pair_dimensions [] = []"
| "key_pair_dimensions (k # ks) =
     concat (map (incommensurable_dimensions k) ks) @ key_pair_dimensions ks"

record batch_conflict =
  bx_per_item :: "conflict_assessment option list"
  bx_dimensions :: "pystr list"

definition make_batch_conflict :: "batch_conflict \<Rightarrow> perror + batch_conflict" where
  "make_batch_conflict b = (if bx_per_item b = [] then Inl PValueError else Inr b)"

definition conflict_for_batch ::
  "coordinated_batch \<Rightarrow> governed_input option list \<Rightarrow> perror + batch_conflict" where
  "conflict_for_batch b governed =
     (if length (cb_outcomes b) \<noteq> length governed then Inl PValueError
      else
      andthen (group_claims 0 (zip (cb_outcomes b) governed) [] []) (\<lambda>(grupos, preservadas).
      andthen (assess_groups preservadas grupos (replicate (length (cb_outcomes b)) None)) (\<lambda>por_item.
      make_batch_conflict
        \<lparr>bx_per_item = por_item,
         bx_dimensions = sorted_set (key_pair_dimensions (map fst grupos))\<rparr>)))"

section \<open>Routing\<close>

datatype routing_outcome =
  RoutingUpstream pystr
| RoutingRejected pystr
| Routed final_routing

fun promoted :: "reconfiguration_outcome \<Rightarrow> bool" where
  "promoted (ReconfigurationEvaluated r) = (er_decision r = PROMOTED)"
| "promoted _ = False"

text \<open>The chain from the assertiveness of an evaluated claim to its route.\<close>

definition route_evaluated ::
  "claim_evaluation \<Rightarrow> governed_input \<Rightarrow> bool \<Rightarrow> approval_binding option \<Rightarrow> conflict_assessment \<Rightarrow>
   py_datetime \<Rightarrow> perror + final_routing" where
  "route_evaluated ev g prom binding conflict moment =
     andthen (assertiveness_of ev (gi_conclusion g) (gi_decisive_constraint g) conflict) (\<lambda>assertividade.
     andthen (protection_set_of (gi_candidates g) assertividade ev binding conflict moment
                (gi_materiality_scope g) (gi_protection_identifiers g) (gi_inventory_reference g)) (\<lambda>protecao.
     andthen (recommendation_quality_of protecao (gi_guidance g) moment (gi_guidance_jurisdiction g)
                (gi_guidance_version g)) (\<lambda>qualidade.
     andthen (counterfactual_set_of (gi_alternatives g) assertividade protecao qualidade
                (gi_asymmetry_justification g)) (\<lambda>contrafactual.
     andthen (burden_comparison_of contrafactual (gi_burden_entries g)) (\<lambda>comparacao.
     final_routing_of ev prom assertividade qualidade contrafactual comparacao conflict)))))"

definition route_item ::
  "item_outcome \<Rightarrow> governed_input option \<Rightarrow> reconfiguration_outcome \<Rightarrow> approval_binding option \<Rightarrow>
   conflict_assessment option \<Rightarrow> py_datetime \<Rightarrow> perror + routing_outcome" where
  "route_item outcome governed sidecar binding conflict moment =
     (case outcome of
        UpstreamUnavailable u \<Rightarrow> Inr (RoutingUpstream (up_reference u))
      | CausallyRejected r \<Rightarrow> andthen (subject_key (rej_claim r)) (\<lambda>k. Inr (RoutingRejected k))
      | Evaluated ev \<Rightarrow>
          (case governed of
             None \<Rightarrow> Inl PValueError
           | Some g \<Rightarrow>
               (case conflict of
                  None \<Rightarrow> Inl PValueError
                | Some cf \<Rightarrow>
                    andthen (route_evaluated ev g (promoted sidecar) binding cf moment) (\<lambda>r.
                    Inr (Routed r)))))"

record routing_batch =
  rt_outcomes :: "routing_outcome list"
  rt_dimensions :: "pystr list"

definition route_batch ::
  "coordinated_batch \<Rightarrow> governed_input option list \<Rightarrow> py_datetime \<Rightarrow> perror + routing_batch" where
  "route_batch b governed moment =
     (if length governed \<noteq> length (cb_outcomes b) then Inl PValueError
      else
      andthen (conflict_for_batch b governed) (\<lambda>conflitos.
      andthen (traverse (\<lambda>(desfecho, sidecar, binding, governado, conflito).
                 route_item desfecho governado sidecar binding conflito moment)
               (zip (cb_outcomes b) (zip (cb_sidecar b) (zip (cb_approval_bindings b)
                  (zip governed (bx_per_item conflitos)))))) (\<lambda>os.
      if length os \<noteq> length (cb_outcomes b) then Inl BatchLimit
      else Inr \<lparr>rt_outcomes = os, rt_dimensions = bx_dimensions conflitos\<rparr>)))"

end
