(* ===== verification/Coordination.thy ===== *)
theory Coordination
  imports Coordinator
begin

text \<open>
  What the coordinator does position by position: the outcome, the sidecar, the conflict and the
  route of the item at one index, and what a route it gives away implies about the item.
\<close>

section \<open>Positions\<close>

lemma evaluate_batch_nth:
  assumes "evaluate_batch lib items = Inr os"
  shows "length os = length items"
    and "i < length items \<Longrightarrow> evaluate_item lib (items ! i) = Inr (os ! i)"
  using assms by (auto simp: evaluate_batch_def run_iffs list_all2_conv_all_nth split: if_splits)

lemma sidecars_nth:
  "sidecars coll views n xs = Inr rs \<Longrightarrow>
   length rs = length xs \<and>
   (\<forall>i < length xs. case xs ! i of (item, outcome, instr) \<Rightarrow>
      sidecar_for coll (views (n + i)) item outcome instr = Inr (rs ! i))"
proof (induction coll views n xs arbitrary: rs rule: sidecars.induct)
  case (2 coll views n item outcome instr rest)
  then obtain r rs' where r: "sidecar_for coll (views n) item outcome instr = Inr r"
    "sidecars coll views (Suc n) rest = Inr rs'" "rs = r # rs'"
    by (auto simp: run_iffs)
  with "2.IH" [OF r(1,2)] show ?case by (auto simp: nth_Cons' less_Suc_eq_0_disj)
qed simp

lemma coordinated_nth:
  assumes "evaluate_and_reconfigure_batch lib coll views items instrs = Inr (b, written)"
  shows "length (cb_outcomes b) = length items" and "length (cb_sidecar b) = length items"
    and "length (cb_approval_bindings b) = length items" and "length written = length items"
    and "i < length items \<Longrightarrow> evaluate_item lib (items ! i) = Inr (cb_outcomes b ! i)"
    and "i < length items \<Longrightarrow>
      sidecar_for coll (views i) (items ! i) (cb_outcomes b ! i) (instrs ! i) =
        Inr (cb_sidecar b ! i, written ! i)"
    and "i < length items \<Longrightarrow>
      cb_approval_bindings b ! i = approval_binding_for (items ! i) (cb_outcomes b ! i)"
proof -
  obtain os rs where run: "length instrs = length items" "evaluate_batch lib items = Inr os"
    "sidecars coll views 0 (zip items (zip os instrs)) = Inr rs" "written = map snd rs"
    "b = \<lparr>cb_outcomes = os, cb_sidecar = map fst rs,
          cb_approval_bindings = map (\<lambda>(item, outcome). approval_binding_for item outcome) (zip items os)\<rparr>"
    using assms
    by (auto simp: evaluate_and_reconfigure_batch_def make_coordinated_batch_def run_iffs split: if_splits)
  note ev = evaluate_batch_nth [OF run(2)]
  have rs: "length rs = length items"
    "\<And>i. i < length items \<Longrightarrow>
      sidecar_for coll (views i) (items ! i) (os ! i) (instrs ! i) = Inr (rs ! i)"
    using sidecars_nth [OF run(3)] run(1) ev(1) by auto
  show "length (cb_outcomes b) = length items" "length (cb_sidecar b) = length items"
    "length (cb_approval_bindings b) = length items" "length written = length items"
    using run(4,5) ev(1) rs(1) by simp_all
  show "evaluate_item lib (items ! i) = Inr (cb_outcomes b ! i)" if "i < length items"
    using ev(2) that run(5) by simp
  show "sidecar_for coll (views i) (items ! i) (cb_outcomes b ! i) (instrs ! i) =
        Inr (cb_sidecar b ! i, written ! i)" if "i < length items"
    using rs that run(4,5) by simp
  show "cb_approval_bindings b ! i = approval_binding_for (items ! i) (cb_outcomes b ! i)"
    if "i < length items"
    using that run(5) ev(1) by simp
qed

lemma route_batch_nth:
  assumes "route_batch b governed moment = Inr r"
  obtains bx where "conflict_for_batch b governed = Inr bx"
    and "length governed = length (cb_outcomes b)" and "length (rt_outcomes r) = length (cb_outcomes b)"
    and "\<forall>i < length (cb_outcomes b).
      route_item (cb_outcomes b ! i) (governed ! i) (cb_sidecar b ! i) (cb_approval_bindings b ! i)
        (bx_per_item bx ! i) moment = Inr (rt_outcomes r ! i)"
proof -
  define zs where "zs bx = zip (cb_outcomes b) (zip (cb_sidecar b) (zip (cb_approval_bindings b)
      (zip governed (bx_per_item bx))))" for bx :: batch_conflict
  obtain bx where run: "conflict_for_batch b governed = Inr bx" "length governed = length (cb_outcomes b)"
    "length (rt_outcomes r) = length (cb_outcomes b)"
    "traverse (\<lambda>(desfecho, sidecar, binding, governado, conflito).
       route_item desfecho governado sidecar binding conflito moment) (zs bx) = Inr (rt_outcomes r)"
    using assms by (auto simp: route_batch_def run_iffs zs_def split: if_splits)
  have all: "list_all2 (\<lambda>x y. (case x of (desfecho, sidecar, binding, governado, conflito) \<Rightarrow>
       route_item desfecho governado sidecar binding conflito moment) = Inr y) (zs bx) (rt_outcomes r)"
    using run(4) by (simp only: traverse_eq_Inr)
  then have len: "length (zs bx) = length (cb_outcomes b)"
    using run(3) by (auto dest: list_all2_lengthD)
  have "route_item (cb_outcomes b ! i) (governed ! i) (cb_sidecar b ! i) (cb_approval_bindings b ! i)
        (bx_per_item bx ! i) moment = Inr (rt_outcomes r ! i)" if "i < length (cb_outcomes b)" for i
  proof -
    have "zs bx ! i = (cb_outcomes b ! i, cb_sidecar b ! i, cb_approval_bindings b ! i, governed ! i,
        bx_per_item bx ! i)"
      using len that by (simp add: zs_def min_def split: if_splits)
    then show ?thesis using list_all2_nthD [OF all, of i] len that by simp
  qed
  with run that show ?thesis by blast
qed

lemma route_item_evaluated:
  "route_item (Evaluated ev) governed side binding conflict moment = Inr x \<longleftrightarrow>
     (\<exists>g conf f. governed = Some g \<and> conflict = Some conf \<and>
        route_evaluated ev g (promoted side) binding conf moment = Inr f \<and> x = Routed f)"
  by (cases governed; cases conflict) (auto simp: route_item_def andthen_eq_Inr)

lemma route_item_rejected:
  "route_item (CausallyRejected c) governed side binding conflict moment = Inr x \<longleftrightarrow>
     (\<exists>k. subject_key (rej_claim c) = Inr k \<and> x = RoutingRejected k)"
  by (auto simp: route_item_def andthen_eq_Inr)

lemma evaluate_lagging:
  "unavailable_channels (ri_context it) \<noteq> [] \<Longrightarrow> evaluate_item lib (Ready it) = Inr os \<Longrightarrow>
   os = CausallyRejected \<lparr>rej_claim = claim_from_envelope (ri_envelope it),
                           rej_channels = unavailable_channels (ri_context it)\<rparr>"
  by (auto simp: Let_def andthen_eq_Inr make_causal_rejection_def split: if_splits)

section \<open>The groups of a batch\<close>

definition group_of :: "claim_groups \<Rightarrow> comparability_key \<Rightarrow> (nat \<times> comparable_claim) list" where
  "group_of gs k = (case map_of gs k of None \<Rightarrow> [] | Some ms \<Rightarrow> ms)"

lemma group_of_append:
  "group_of (append_to_group k x gs) l = group_of gs l @ (if l = k then [x] else [])"
  by (induction k x gs rule: append_to_group.induct) (auto simp: group_of_def)

lemma append_to_group_keys:
  "fst ` set (append_to_group k x gs) = insert k (fst ` set gs)"
  "distinct (map fst gs) \<Longrightarrow> distinct (map fst (append_to_group k x gs))"
  by (induction k x gs rule: append_to_group.induct) auto

fun own_claim :: "comparability_key \<Rightarrow> nat \<times> item_outcome \<times> governed_input option \<Rightarrow> (nat \<times> comparable_claim) list" where
  "own_claim k (i, Evaluated ev, Some g) =
     (if gi_key g = k then [(i, \<lparr>cc_evaluation = ev, cc_key = gi_key g, cc_conclusion = gi_conclusion g\<rparr>)]
      else [])"
| "own_claim k _ = []"

definition claim_members ::
  "nat \<Rightarrow> (item_outcome \<times> governed_input option) list \<Rightarrow> comparability_key \<Rightarrow>
   (nat \<times> comparable_claim) list" where
  "claim_members i xs k = concat (map (own_claim k) (enumerate i xs))"

lemma claim_members_simps [simp]:
  "claim_members i [] k = []"
  "claim_members i (x # xs) k = own_claim k (i, x) @ claim_members (Suc i) xs k"
  by (simp_all add: claim_members_def)

lemma own_claim_iff:
  "(j, c) \<in> set (own_claim k x) \<longleftrightarrow>
     (\<exists>ev g. x = (j, Evaluated ev, Some g) \<and> gi_key g = k \<and>
        c = \<lparr>cc_evaluation = ev, cc_key = k, cc_conclusion = gi_conclusion g\<rparr>)"
  by (cases "(k, x)" rule: own_claim.cases) auto

lemma set_claim_members:
  "(j, c) \<in> set (claim_members 0 xs k) \<longleftrightarrow>
     (\<exists>ev g. j < length xs \<and> xs ! j = (Evaluated ev, Some g) \<and> gi_key g = k \<and>
        c = \<lparr>cc_evaluation = ev, cc_key = k, cc_conclusion = gi_conclusion g\<rparr>)"
proof -
  have "(j, c) \<in> set (claim_members 0 xs k) \<longleftrightarrow>
      (\<exists>x \<in> set (enumerate 0 xs). (j, c) \<in> set (own_claim k x))"
    by (simp add: claim_members_def)
  also have "\<dots> \<longleftrightarrow> (\<exists>i. i < length xs \<and> (j, c) \<in> set (own_claim k (i, xs ! i)))"
    by (force simp: in_set_enumerate_eq)
  finally show ?thesis unfolding own_claim_iff by auto
qed

lemma group_claims_groups:
  "group_claims i xs gs ps = Inr (gs', ps') \<Longrightarrow> distinct (map fst gs) \<Longrightarrow>
   distinct (map fst gs') \<and> (\<forall>k. group_of gs' k = group_of gs k @ claim_members i xs k)"
proof (induction i xs gs ps rule: group_claims.induct)
  case (2 i ev g rest gs ps)
  from "2.prems"(1) have "\<not> blank (gi_conclusion g)"
    and run: "group_claims (Suc i) rest (append_to_group (gi_key g)
      (i, \<lparr>cc_evaluation = ev, cc_key = gi_key g, cc_conclusion = gi_conclusion g\<rparr>) gs) ps = Inr (gs', ps')"
    by (auto simp: run_iffs make_comparable_claim_def split: if_splits)
  then have "make_comparable_claim ev (gi_key g) (gi_conclusion g) =
      Inr \<lparr>cc_evaluation = ev, cc_key = gi_key g, cc_conclusion = gi_conclusion g\<rparr>"
    by (simp add: make_comparable_claim_def)
  from "2.IH" [OF this run append_to_group_keys(2) [OF "2.prems"(2)]] show ?case
    by (simp add: group_of_append)
qed auto

section \<open>The conflict of one position\<close>

lemma foldl_update_nth:
  "foldl (\<lambda>xs i. xs[i := v]) xs is ! j = (if j \<in> set is \<and> j < length xs then v else xs ! j)"
proof (induction "is" arbitrary: xs)
  case (Cons i "is")
  then show ?case by (cases "i < length xs") (auto simp: nth_list_update list_update_beyond)
qed simp

lemma length_foldl_update [simp]: "length (foldl (\<lambda>xs i. xs[i := v]) xs is) = length xs"
  by (induction "is" arbitrary: xs) auto

definition in_group :: "nat \<Rightarrow> 'k \<times> (nat \<times> 'a) list \<Rightarrow> bool" where
  "in_group j g \<longleftrightarrow> j \<in> fst ` set (snd g)"

lemma assess_groups_step:
  assumes "assess_groups ps (g # gs) acc = Inr out"
  obtains a where "conflict_assessment_of (map snd (snd g)) ps = Inr a"
    and "assess_groups ps gs (foldl (\<lambda>xs i. xs[i := Some a]) acc (map fst (snd g))) = Inr out"
  using assms by (cases g) (auto simp: run_iffs)

lemma assess_groups_keep:
  "assess_groups ps gs acc = Inr out \<Longrightarrow> \<forall>g \<in> set gs. \<not> in_group j g \<Longrightarrow> out ! j = acc ! j"
proof (induction gs arbitrary: acc)
  case (Cons g gs)
  obtain a where "assess_groups ps gs (foldl (\<lambda>xs i. xs[i := Some a]) acc (map fst (snd g))) = Inr out"
    using assess_groups_step [OF Cons.prems(1)] by metis
  from Cons.IH [OF this] Cons.prems(2) show ?case
    by (simp add: foldl_update_nth in_group_def)
qed simp

lemma assess_groups_nth:
  "assess_groups ps gs acc = Inr out \<Longrightarrow> (k, ms) \<in> set gs \<Longrightarrow> in_group j (k, ms) \<Longrightarrow>
   j < length acc \<Longrightarrow> distinct (map fst gs) \<Longrightarrow> (\<forall>g \<in> set gs. in_group j g \<longrightarrow> fst g = k) \<Longrightarrow>
   \<exists>a. out ! j = Some a \<and> conflict_assessment_of (map snd ms) ps = Inr a"
proof (induction gs arbitrary: acc)
  case (Cons g gs)
  obtain a where a: "conflict_assessment_of (map snd (snd g)) ps = Inr a"
    and run: "assess_groups ps gs (foldl (\<lambda>xs i. xs[i := Some a]) acc (map fst (snd g))) = Inr out"
    by (rule assess_groups_step [OF Cons.prems(1)])
  show ?case
  proof (cases "(k, ms) \<in> set gs")
    case True
    show ?thesis
      by (rule Cons.IH [OF run True Cons.prems(3)]) (use Cons.prems(4-6) in simp_all)
  next
    case False
    with Cons.prems(2) have e: "g = (k, ms)" by simp
    have "\<forall>h \<in> set gs. \<not> in_group j h"
    proof
      fix h assume h: "h \<in> set gs"
      then have "fst h \<noteq> k" using Cons.prems(5) e by auto
      with h Cons.prems(6) show "\<not> in_group j h" by auto
    qed
    from assess_groups_keep [OF run this] a e Cons.prems(3,4) show ?thesis
      by (simp add: foldl_update_nth in_group_def)
  qed
qed simp

lemma conflict_for_batch_nth:
  assumes "conflict_for_batch b governed = Inr bx" and "i < length (cb_outcomes b)"
    and "cb_outcomes b ! i = Evaluated ev" and "governed ! i = Some g"
  obtains a ps where "bx_per_item bx ! i = Some a"
    and "conflict_assessment_of (map snd (claim_members 0 (zip (cb_outcomes b) governed) (gi_key g))) ps = Inr a"
proof -
  define xs where "xs = zip (cb_outcomes b) governed"
  have len: "length governed = length (cb_outcomes b)"
    using assms(1) by (auto simp: conflict_for_batch_def split: if_splits)
  then have chain: "andthen (group_claims 0 xs [] []) (\<lambda>(grupos, preservadas).
      andthen (assess_groups preservadas grupos (replicate (length (cb_outcomes b)) None)) (\<lambda>por_item.
      make_batch_conflict \<lparr>bx_per_item = por_item,
        bx_dimensions = sorted_set (key_pair_dimensions (map fst grupos))\<rparr>)) = Inr bx"
    using assms(1) by (simp add: conflict_for_batch_def xs_def)
  obtain gs ps where gs: "group_claims 0 xs [] [] = Inr (gs, ps)"
    using chain by (cases "group_claims 0 xs [] []") (simp, metis surj_pair)
  have out: "assess_groups ps gs (replicate (length (cb_outcomes b)) None) = Inr (bx_per_item bx)"
    using chain unfolding gs
    by (cases "assess_groups ps gs (replicate (length (cb_outcomes b)) None)")
       (auto simp: make_batch_conflict_def split: if_splits)
  have g: "distinct (map fst gs)" "\<And>k. group_of gs k = claim_members 0 xs k"
    using group_claims_groups [OF gs] by (simp_all add: group_of_def)
  define ms where "ms = claim_members 0 xs (gi_key g)"
  have member: "in_group i (gi_key g, ms)"
  proof -
    have "(i, \<lparr>cc_evaluation = ev, cc_key = gi_key g, cc_conclusion = gi_conclusion g\<rparr>) \<in> set ms"
      using assms(2-4) len unfolding ms_def set_claim_members xs_def by simp
    then show ?thesis by (force simp: in_group_def)
  qed
  then have "map_of gs (gi_key g) = Some ms"
    using g(2) [of "gi_key g"] by (auto simp: group_of_def ms_def in_group_def split: option.splits)
  then have "(gi_key g, ms) \<in> set gs" by (rule map_of_SomeD)
  moreover have "fst h = gi_key g" if "h \<in> set gs" "in_group i h" for h
  proof -
    have "snd h = claim_members 0 xs (fst h)"
    proof -
      have "map_of gs (fst h) = Some (snd h)"
        using g(1) that(1) by (intro map_of_is_SomeI) simp_all
      then show ?thesis using g(2) [of "fst h"] by (simp add: group_of_def)
    qed
    with that(2) obtain c where "(i, c) \<in> set (claim_members 0 xs (fst h))"
      by (auto simp: in_group_def)
    then show ?thesis using assms(2-4) len unfolding set_claim_members xs_def by auto
  qed
  ultimately obtain a where "bx_per_item bx ! i = Some a" "conflict_assessment_of (map snd ms) ps = Inr a"
    using assess_groups_nth [OF out, of "gi_key g" ms i] member assms(2) g(1) by auto
  with that show ?thesis by (simp add: ms_def xs_def)
qed

text \<open>The conflict of an item is a difference of conclusions with an item of the same key.\<close>

definition contradicted ::
  "item_outcome list \<Rightarrow> governed_input option list \<Rightarrow> governed_input \<Rightarrow> bool" where
  "contradicted os governed g \<longleftrightarrow>
     (\<exists>j ev h. j < length os \<and> os ! j = Evaluated ev \<and> governed ! j = Some h \<and>
        gi_key h = gi_key g \<and> gi_conclusion h \<noteq> gi_conclusion g)"

lemma blocks_iff_contradicted:
  assumes "conflict_for_batch b governed = Inr bx" and "i < length (cb_outcomes b)"
    and "cb_outcomes b ! i = Evaluated ev" and "governed ! i = Some g"
  obtains a where "bx_per_item bx ! i = Some a"
    and "blocks_safe_route a \<longleftrightarrow> contradicted (cb_outcomes b) governed g"
proof -
  have len: "length governed = length (cb_outcomes b)"
    using assms(1) by (auto simp: conflict_for_batch_def split: if_splits)
  define cs where "cs = map snd (claim_members 0 (zip (cb_outcomes b) governed) (gi_key g))"
  have cs: "c \<in> set cs \<longleftrightarrow> (\<exists>j ev' h. j < length (cb_outcomes b) \<and> cb_outcomes b ! j = Evaluated ev' \<and>
      governed ! j = Some h \<and> gi_key h = gi_key g \<and>
      c = \<lparr>cc_evaluation = ev', cc_key = gi_key g, cc_conclusion = gi_conclusion h\<rparr>)" for c
  proof -
    have "c \<in> set cs \<longleftrightarrow> (\<exists>j. (j, c) \<in> set (claim_members 0 (zip (cb_outcomes b) governed) (gi_key g)))"
      by (force simp: cs_def)
    then show ?thesis using len unfolding set_claim_members by auto
  qed
  obtain a ps where a: "bx_per_item bx ! i = Some a" "conflict_assessment_of cs ps = Inr a"
    using conflict_for_batch_nth [OF assms] unfolding cs_def by metis
  have own: "\<lparr>cc_evaluation = ev, cc_key = gi_key g, cc_conclusion = gi_conclusion g\<rparr> \<in> set cs"
    using assms(2-4) unfolding cs by blast
  have "\<forall>x \<in> set cs. \<forall>y \<in> set cs. cc_key x = cc_key y" by (auto simp: cs)
  then have "blocks_safe_route a \<longleftrightarrow> (\<exists>x \<in> set cs. \<exists>y \<in> set cs. cc_conclusion x \<noteq> cc_conclusion y)"
    unfolding blocks_safe_route_def real_conflict_iff [OF a(2)] by blast
  also have "\<dots> \<longleftrightarrow> (\<exists>x \<in> set cs. cc_conclusion x \<noteq> gi_conclusion g)"
    using own by (metis comparable_claim.select_convs(3))
  also have "\<dots> \<longleftrightarrow> contradicted (cb_outcomes b) governed g"
    unfolding contradicted_def Bex_def cs by (auto 0 4)
  finally show ?thesis using a(1) that by blast
qed

section \<open>What a route implies\<close>

text \<open>The state, the approval and the answer that carry each route.\<close>

definition route_justified ::
  "piap_envelope \<Rightarrow> claim_evaluation \<Rightarrow> reconfiguration_event option \<Rightarrow> final_routing \<Rightarrow> bool" where
  "route_justified env ev row f \<longleftrightarrow>
     (case fr_route f of
        None \<Rightarrow> fr_abstained f \<and> fr_limits f \<noteq> [] \<and> fr_recommended f = None
      | Some PREDICT \<Rightarrow> ev_state ev = PREDICTABLE
      | Some INVESTIGATE \<Rightarrow> ev_state ev = UNRESOLVED
      | Some ROBUST \<Rightarrow>
          ev_state ev = PREDICTIVELY_INACCESSIBLE \<and> ev_approval ev = APPROVAL_VALID \<and>
          rq_complete_answer_allowed (fr_quality f)
      | Some RECONFIGURE \<Rightarrow>
          ev_state ev = PREDICTABLE \<and> ev_approval ev = APPROVAL_VALID \<and>
          ra_status (ev_regime ev) = REGIME_SHIFT_CANDIDATE \<and>
          rq_complete_answer_allowed (fr_quality f) \<and>
          (\<exists>e a. row = Some e \<and> ac_approval (pe_authority env) = Some a \<and>
             re_kind e = PROMOTE \<and> re_active_candidate_ref e = bo_ref (ab_bound_to a) \<and>
             re_to_version e = ab_version a))"

text \<open>
  The route that is given, with no more and no less: the regime of the evaluation has no say in it beyond the
  promotion, and an item stands alone.
\<close>

definition decided_route ::
  "epistemic_state \<Rightarrow> approval_outcome \<Rightarrow> bool \<Rightarrow> bool \<Rightarrow> bool \<Rightarrow> route option" where
  "decided_route st appr prom whole blocked =
     (if blocked then None
      else if prom \<and> whole \<and> appr = APPROVAL_VALID then Some RECONFIGURE
      else case st of
        PREDICTABLE \<Rightarrow> Some PREDICT
      | UNRESOLVED \<Rightarrow> Some INVESTIGATE
      | PREDICTIVELY_INACCESSIBLE \<Rightarrow> if appr = APPROVAL_VALID \<and> whole then Some ROBUST else None)"

text \<open>The alternatives no other alternative is a lesser burden than.\<close>

definition least_burdens :: "(alternative_kind \<times> burden_vector) list \<Rightarrow> alternative_kind set" where
  "least_burdens entries = {k. \<not> (\<exists>j. outweighs (map_of (rev entries)) k j)}"

definition recommendation_justified :: "governed_input \<Rightarrow> final_routing \<Rightarrow> bool" where
  "recommendation_justified g f \<longleftrightarrow>
     (case fr_recommended f of
        None \<Rightarrow> True
      | Some k \<Rightarrow>
          fr_route f \<noteq> None \<and> rq_outcome (fr_quality f) = GUIDANCE_VALID \<and>
          rq_complete_answer_allowed (fr_quality f) \<and> least_burdens (gi_burden_entries g) = {k})"

lemma set_non_dominated:
  assumes "burden_comparison_of cf entries = Inr bc"
  shows "set (non_dominated bc) = least_burdens entries"
  by (auto simp: non_dominated_def least_burdens_def dominated_iff [OF assms])

lemma final_routing_Inr:
  assumes "final_routing_of ev prom as q cf bc conf = Inr f"
  obtains alt ls ms rota why where "escolher_alternativa cf bc = Inr (alt, ls)"
    and "entregar ms alt conf as q rota why = Inr f"
    and "(why = NoRouteConflict) = blocks_safe_route conf"
    and "rota = None \<and> (why = NoRouteConflict \<or> why = AbstainNoRoute) \<or>
      (\<not> blocks_safe_route conf \<and>
       (rota = Some RECONFIGURE \<and> prom \<and> rq_complete_answer_allowed q \<and> ev_approval ev = APPROVAL_VALID \<or>
        rota = Some PREDICT \<and> ev_state ev = PREDICTABLE \<or>
        rota = Some INVESTIGATE \<and> ev_state ev = UNRESOLVED \<or>
        rota = Some ROBUST \<and> ev_state ev = PREDICTIVELY_INACCESSIBLE \<and>
        ev_approval ev = APPROVAL_VALID \<and> rq_complete_answer_allowed q))"
proof -
  obtain alt ls where e: "escolher_alternativa cf bc = Inr (alt, ls)"
    using assms by (cases "escolher_alternativa cf bc") (auto simp: final_routing_of_def)
  show ?thesis
    using assms unfolding final_routing_of_def e
    by (cases "ev_state ev")
       (auto simp: Let_def split: if_splits intro: that [OF e])
qed

lemma entregar_quality:
  "entregar ms alt conf as q rota why = Inr f \<Longrightarrow> fr_quality f = q \<and> fr_conflict f = conf"
  by (auto simp: entregar_def make_final_routing_def Let_def split: if_splits)

text \<open>A promotion is the row its gate inserted.\<close>

lemma gate_promoted:
  assumes "reconfiguration_gate coll v ev env c i t = Inr (out, w)" and "er_decision out = PROMOTED"
  obtains e a where "w = Some e" and "ac_approval (pe_authority env) = Some a"
    and "re_kind e = PROMOTE" and "re_active_candidate_ref e = bo_ref (ab_bound_to a)"
    and "re_to_version e = ab_version a" and "ev_state ev = PREDICTABLE"
    and "ra_status (ev_regime ev) = REGIME_SHIFT_CANDIDATE"
proof -
  obtain a where a: "ev_state ev = PREDICTABLE" "ra_status (ev_regime ev) = REGIME_SHIFT_CANDIDATE"
    "ac_approval (pe_authority env) = Some a" "bo_ref (ab_bound_to a) = rc_candidate_ref c"
    "ab_version a = rc_proposed_version c"
    "append_guarded coll v (rc_expected_version c) EventPersisted (promotion_event c a i t) = Inr (out, w)"
    using assms
    by (auto simp: reconfiguration_gate_def run_iffs refused_def split: if_splits option.splits)
  from a(6) assms(2) have "w = Some (promotion_event c a i t)"
    by (auto simp: append_guarded_def append_event_def Let_def run_iffs split: if_splits option.splits)
  with a show ?thesis by (intro that [of "promotion_event c a i t" a]) (simp_all add: promotion_event_def)
qed

lemma sidecar_promoted:
  assumes "sidecar_for coll v (Ready it) (Evaluated ev) instr = Inr (side, w)" and "promoted side"
  obtains e a where "w = Some e" and "ac_approval (pe_authority (ri_envelope it)) = Some a"
    and "re_kind e = PROMOTE" and "re_active_candidate_ref e = bo_ref (ab_bound_to a)"
    and "re_to_version e = ab_version a" and "ev_state ev = PREDICTABLE"
    and "ra_status (ev_regime ev) = REGIME_SHIFT_CANDIDATE"
proof (cases instr)
  case None
  with assms show ?thesis by (auto simp: sidecar_for_def run_iffs refused_def)
next
  case (Some i)
  with assms obtain out where "reconfiguration_gate coll v ev (ri_envelope it) (in_candidate i)
      (in_event_id i) (in_recorded_at i) = Inr (out, w)" "er_decision out = PROMOTED"
    by (auto simp: sidecar_for_def run_iffs)
  then show ?thesis by (rule gate_promoted) (rule that)
qed

lemma counterfactual_flags:
  "counterfactual_set_of alts as p q just = Inr cf \<Longrightarrow>
   cf_procedural_endorsement_allowed cf = (rq_outcome q = GUIDANCE_VALID) \<and>
   cf_complete_answer_allowed cf = complete_answer_allowed p"
  by (auto simp: counterfactual_set_of_def make_counterfactual_set_def split: if_splits)

lemma quality_complete:
  "recommendation_quality_of p gd t j v = Inr q \<Longrightarrow> rq_complete_answer_allowed q = complete_answer_allowed p"
  by (auto simp: recommendation_quality_of_def run_iffs)

lemma route_evaluated_justified:
  assumes "route_evaluated ev g prom binding conf moment = Inr f"
    and "prom \<Longrightarrow> ev_state ev = PREDICTABLE \<and> ra_status (ev_regime ev) = REGIME_SHIFT_CANDIDATE \<and>
      (\<exists>e a. row = Some e \<and> ac_approval (pe_authority env) = Some a \<and> re_kind e = PROMOTE \<and>
         re_active_candidate_ref e = bo_ref (ab_bound_to a) \<and> re_to_version e = ab_version a)"
  shows "route_justified env ev row f" and "recommendation_justified g f"
    and "(fr_reason f = NoRouteConflict) = blocks_safe_route conf"
    and "blocks_safe_route conf \<Longrightarrow> fr_route f = None \<and> fr_recommended f = None"
    and "conservadorismo (route_of_state (ev_state ev)) \<le> conservadorismo (fr_revalidated f)"
proof -
  obtain as p q cf bc where run: "assertiveness_of ev (gi_conclusion g) (gi_decisive_constraint g) conf = Inr as"
    "recommendation_quality_of p (gi_guidance g) moment (gi_guidance_jurisdiction g) (gi_guidance_version g) = Inr q"
    "counterfactual_set_of (gi_alternatives g) as p q (gi_asymmetry_justification g) = Inr cf"
    "burden_comparison_of cf (gi_burden_entries g) = Inr bc"
    "final_routing_of ev prom as q cf bc conf = Inr f"
    using assms(1) unfolding route_evaluated_def andthen_eq_Inr by blast
  obtain alt ls ms rota why where alt: "escolher_alternativa cf bc = Inr (alt, ls)"
    and f: "entregar ms alt conf as q rota why = Inr f"
    and why: "(why = NoRouteConflict) = blocks_safe_route conf"
    and rota: "rota = None \<and> (why = NoRouteConflict \<or> why = AbstainNoRoute) \<or>
      (\<not> blocks_safe_route conf \<and>
       (rota = Some RECONFIGURE \<and> prom \<and> rq_complete_answer_allowed q \<and> ev_approval ev = APPROVAL_VALID \<or>
        rota = Some PREDICT \<and> ev_state ev = PREDICTABLE \<or>
        rota = Some INVESTIGATE \<and> ev_state ev = UNRESOLVED \<or>
        rota = Some ROBUST \<and> ev_state ev = PREDICTIVELY_INACCESSIBLE \<and>
        ev_approval ev = APPROVAL_VALID \<and> rq_complete_answer_allowed q))"
    by (rule final_routing_Inr [OF run(5)])
  note out = entregar_Inr [OF f] entregar_quality [OF f]
  show "(fr_reason f = NoRouteConflict) = blocks_safe_route conf" using out why by simp
  show "fr_route f = None \<and> fr_recommended f = None" if "blocks_safe_route conf"
    using out rota that by auto
  show "route_justified env ev row f"
    using rota out assms(2) unfolding route_justified_def by auto
  show "recommendation_justified g f"
  proof (cases "fr_recommended f")
    case (Some k)
    then have k: "alt = Some k" "rota \<noteq> None" using out by (auto split: if_splits)
    from escolher_recommends [OF alt [unfolded k(1)]] have
      "cf_complete_answer_allowed cf" "cf_procedural_endorsement_allowed cf" "non_dominated bc = [k]"
      by blast+
    then show ?thesis
      using counterfactual_flags [OF run(3)] quality_complete [OF run(2)]
        set_non_dominated [OF run(4)] out k Some
      by (auto simp: recommendation_justified_def)
  qed (simp add: recommendation_justified_def)
  have base: "as_next_governed_route as =
      (if blocks_safe_route conf then pys ''investigate'' else route_of_state (ev_state ev))"
    using run(1) by (auto simp: assertiveness_of_def make_assertiveness_def split: if_splits)
  have "conservadorismo (route_of_state (ev_state ev)) \<le> conservadorismo (as_next_governed_route as)"
    unfolding base by (cases "ev_state ev") (simp_all add: conservadorismo_def CONSERVADORISMO_def)
  also have "\<dots> \<le> conservadorismo (fr_revalidated f)" using out by blast
  finally show "conservadorismo (route_of_state (ev_state ev)) \<le> conservadorismo (fr_revalidated f)" .
qed

lemma entregar_route:
  "entregar ms alt conf as q rota why = Inr f \<Longrightarrow> fr_route f = rota \<and> fr_quality f = q \<and> fr_conflict f = conf"
  by (frule entregar_Inr, drule entregar_quality) simp

lemma final_routing_decided:
  assumes "final_routing_of ev prom as q cf bc conf = Inr f"
  shows "fr_route f = decided_route (ev_state ev) (ev_approval ev) prom
    (rq_complete_answer_allowed (fr_quality f)) (blocks_safe_route (fr_conflict f))"
proof -
  obtain alt ls where e: "escolher_alternativa cf bc = Inr (alt, ls)"
    using assms by (cases "escolher_alternativa cf bc") (auto simp: final_routing_of_def)
  show ?thesis
    using assms unfolding final_routing_of_def e
    by (cases "ev_state ev")
       (auto simp: Let_def decided_route_def dest!: entregar_route split: if_splits)
qed

lemma route_decided:
  assumes "route_evaluated ev g prom binding conf moment = Inr f"
  shows "fr_route f = decided_route (ev_state ev) (ev_approval ev) prom
    (rq_complete_answer_allowed (fr_quality f)) (blocks_safe_route (fr_conflict f))"
proof -
  obtain as q cf bc where "final_routing_of ev prom as q cf bc conf = Inr f"
    using assms unfolding route_evaluated_def andthen_eq_Inr by blast
  then show ?thesis by (rule final_routing_decided)
qed

lemma route_conflict:
  assumes "route_evaluated ev g prom binding conf moment = Inr f"
  shows "fr_conflict f = conf"
proof -
  obtain as q cf bc where "final_routing_of ev prom as q cf bc conf = Inr f"
    using assms unfolding route_evaluated_def andthen_eq_Inr by blast
  then obtain alt ms rota why where "entregar ms alt conf as q rota why = Inr f" by (rule final_routing_Inr) blast
  then show ?thesis using entregar_quality by blast
qed

text \<open>What the conflict decides does not depend on the sidecar.\<close>

lemma route_blocked:
  assumes "route_evaluated ev g prom binding conf moment = Inr f"
  shows "(fr_reason f = NoRouteConflict) = blocks_safe_route conf"
    and "blocks_safe_route conf \<Longrightarrow> fr_route f = None \<and> fr_recommended f = None"
proof -
  obtain as q cf bc where "final_routing_of ev prom as q cf bc conf = Inr f"
    using assms unfolding route_evaluated_def andthen_eq_Inr by blast
  then obtain alt ms rota why where f: "entregar ms alt conf as q rota why = Inr f"
    and why: "(why = NoRouteConflict) = blocks_safe_route conf"
    and rota: "blocks_safe_route conf \<Longrightarrow> rota = None"
    by (rule final_routing_Inr) blast
  show "(fr_reason f = NoRouteConflict) = blocks_safe_route conf"
    using entregar_Inr [OF f] why by simp
  show "fr_route f = None \<and> fr_recommended f = None" if "blocks_safe_route conf"
    using entregar_Inr [OF f] rota [OF that] by simp
qed

end
