(* ===== verification/FloatExact.thy ===== *)
theory FloatExact
  imports PyFloat
begin

text \<open>
  Rationals of at most 53 significant bits are floats: rounding leaves them as they are.
\<close>

lemma floorlog_bounds2:
  assumes "0 < n"
  shows "(2 :: rat) ^ (floorlog 2 n - 1) \<le> of_nat n" "(of_nat n :: rat) < 2 ^ floorlog 2 n"
    and "0 < floorlog 2 n"
proof -
  have "2 ^ (floorlog 2 n - 1) \<le> n" "n < 2 ^ floorlog 2 n"
    using floorlog_bounds [of n 2] assms by simp_all
  then show "(2 :: rat) ^ (floorlog 2 n - 1) \<le> of_nat n" "(of_nat n :: rat) < 2 ^ floorlog 2 n"
    by (metis of_nat_le_iff of_nat_numeral of_nat_power) (metis \<open>n < 2 ^ floorlog 2 n\<close> of_nat_less_iff of_nat_numeral of_nat_power)
  show "0 < floorlog 2 n" using assms by (simp add: floorlog_def)
qed

lemma exponent2_bounds:
  assumes "0 < a"
  shows "2 powi exponent2 a \<le> a" and "a < 2 powi (exponent2 a + 1)"
proof -
  obtain n d where q: "quotient_of a = (n, d)" by force
  then have d: "0 < d" and a: "a = of_int n / of_int d"
    by (simp_all add: quotient_of_denom_pos quotient_of_div)
  with assms have n: "0 < n" by (simp add: zero_less_divide_iff)
  define L where "L = floorlog 2 (nat n)"
  define D where "D = floorlog 2 (nat d)"
  have N: "(2 :: rat) ^ (L - 1) \<le> of_int n" "(of_int n :: rat) < 2 ^ L" "0 < L"
    using floorlog_bounds2 [of "nat n"] n by (simp_all add: L_def)
  have Dd: "(2 :: rat) ^ (D - 1) \<le> of_int d" "(of_int d :: rat) < 2 ^ D" "0 < D"
    using floorlog_bounds2 [of "nat d"] d by (simp_all add: D_def)
  define e where "e = int L - int D"
  have up: "a < 2 powi (e + 1)"
  proof -
    have "a < 2 ^ L / 2 ^ (D - 1)"
      unfolding a using N Dd d n by (intro frac_less) simp_all
    also have "\<dots> = 2 powi (e + 1)"
    proof -
      have "e + 1 = int L - int (D - 1)" using Dd(3) by (simp add: e_def of_nat_diff)
      then show ?thesis by (simp add: power_int_diff)
    qed
    finally show ?thesis .
  qed
  have lo: "2 powi (e - 1) < a"
  proof -
    have "e - 1 = int (L - 1) - int D" using N(3) by (simp add: e_def of_nat_diff)
    then have "2 powi (e - 1) = (2 :: rat) ^ (L - 1) / 2 ^ D" by (simp add: power_int_diff)
    also have "\<dots> < a"
      unfolding a using N Dd d n by (intro frac_less2) simp_all
    finally show ?thesis .
  qed
  have "exponent2 a = (if 2 powi e \<le> a then e else e - 1)"
    by (simp add: exponent2_def q e_def L_def D_def)
  then show "2 powi exponent2 a \<le> a" "a < 2 powi (exponent2 a + 1)"
    using up lo by (auto split: if_splits)
qed

lemma half_even_of_int [simp]: "half_even (of_int n) = n"
  by (simp add: half_even_def)

lemma round64_dyadic:
  assumes "\<bar>m\<bar> < 2 ^ 53" and "k \<le> 1000"
  shows "round64 (of_int m / 2 ^ k) = Fin (of_int m / 2 ^ k)"
proof (cases "m = 0")
  case False
  define a :: rat where "a = of_int \<bar>m\<bar> / 2 ^ k"
  have m53: "(of_int \<bar>m\<bar> :: rat) < 2 ^ 53"
    using assms(1) by (metis of_int_less_iff of_int_numeral of_int_power)
  have pos: "0 < a" using False by (simp add: a_def)
  define x where "x = max (exponent2 a) (- 1022)"
  have "a < 2 ^ 53 / 2 ^ k"
    unfolding a_def by (rule divide_strict_right_mono [OF m53]) simp
  also have "\<dots> = 2 powi (53 - int k)" by (simp add: power_int_diff)
  finally have small: "a < 2 powi (53 - int k)" .
  have "2 powi exponent2 a < (2 :: rat) powi (53 - int k)"
    using exponent2_bounds(1) [OF pos] small by (rule order_le_less_trans)
  then have "exponent2 a < 53 - int k"
    by (metis not_less power_int_increasing one_le_numeral)
  then have j: "0 \<le> 52 - int k - x" using assms(2) by (simp add: x_def)
  define ulp :: rat where "ulp = 2 powi (x - 52)"
  have "a / ulp = of_int \<bar>m\<bar> * 2 powi (52 - int k - x)"
    by (simp add: a_def ulp_def power_int_diff power_int_add field_simps)
  also have "\<dots> = of_int (\<bar>m\<bar> * 2 ^ nat (52 - int k - x))"
    using j by (simp add: power_int_def)
  finally have "a / ulp = of_int (\<bar>m\<bar> * 2 ^ nat (52 - int k - x))" .
  then have v: "of_int (half_even (a / ulp)) * ulp = a"
    by (metis half_even_of_int nonzero_eq_divide_eq power_int_not_zero ulp_def zero_neq_numeral)
  have "a < 2 ^ 1024"
  proof -
    have "a \<le> of_int \<bar>m\<bar>" by (simp add: a_def divide_le_eq mult_le_cancel_left1)
    also have "\<dots> < 2 ^ 53" by (rule m53)
    also have "\<dots> \<le> 2 ^ 1024" by (rule power_increasing) simp_all
    finally show ?thesis .
  qed
  then have "\<not> 2 ^ 1024 \<le> a" unfolding not_le .
  moreover define y :: rat where "y = of_int m / 2 ^ k"
  moreover have y: "\<bar>y\<bar> = a" by (simp add: y_def a_def)
  moreover have "y \<noteq> 0" using False by (simp add: y_def)
  ultimately have "round64 y = Fin (if y < 0 then - a else a)"
    using v unfolding round64_def Let_def y ulp_def x_def by simp
  then show ?thesis using y unfolding y_def by (auto simp: abs_if split: if_splits)
qed (simp add: round64_def)

end
