(* ===== verification/AccessSample.thy ===== *)
theory AccessSample
  imports Coordination FloatExact
begin

text \<open>
  A concrete run of the predictive layer: an envelope, a context of eight pairs whose numbers are
  dyadic, a candidate for promotion, a governed input. The C library and the generator are given
  concrete functions.
\<close>

section \<open>The envelope\<close>

definition sample_instant :: py_datetime where
  "sample_instant = Aware 1000 0"

definition sample_source :: source_reference where
  "sample_source =
     \<lparr>sr_kind = pys ''sensor'', sr_ref = Uuid 7, sr_version = 1, sr_sha256 = None\<rparr>"

definition sample_approval :: approval_binding where
  "sample_approval =
     \<lparr>ab_reference = pys ''act-1'', ab_version = 1, ab_scope = [pys ''north''], ab_expiry = None,
      ab_jurisdiction = Some (pys ''br''), ab_bound_to = \<lparr>bo_kind = PROMOTION_CANDIDATE, bo_ref = Uuid 9\<rparr>\<rparr>"

definition sample_envelope :: piap_envelope where
  "sample_envelope =
     \<lparr>pe_version = V1_0,
      pe_subject =
        \<lparr>cs_target = pys ''demand'', cs_signal = pys ''alert'',
         cs_horizon = \<lparr>hz_delta = \<lparr>td_days = 1, td_seconds = 0, td_micros = 0\<rparr>,
           hz_reference_time = sample_instant, hz_availability = AVAILABLE_AT_REFERENCE_TIME\<rparr>\<rparr>,
      pe_provenance =
        \<lparr>pr_origin = sample_source, pr_recorded_at = sample_instant, pr_jurisdiction = None,
         pr_policy_ref = None\<rparr>,
      pe_authority = \<lparr>ac_status = ASSERTED_AUTHORIZED, ac_approval = Some sample_approval\<rparr>,
      pe_payload_refs = [sample_source], pe_sealed_at = sample_instant\<rparr>"

lemma sample_envelope_valid: "valid_envelope sample_envelope"
  by (simp add: sample_envelope_def sample_instant_def sample_source_def sample_approval_def
      valid_envelope_def valid_subject_def valid_horizon_def valid_provenance_def valid_authority_def
      valid_source_def valid_approval_def canonical_instant_code datetime_range_def token_def match_token_def
      token_char_def is_lower_def MAX_TOKEN_LENGTH_def piap_version_def MAX_PIAP_VERSION_NUMBER_def
      valid_timedelta_def total_micros_def opaque_ref_def canonical_scope_def blank_iff
      MAX_PIAP_REF_LENGTH_def MAX_APPROVAL_SCOPE_ITEMS_def MAX_PAYLOAD_REFERENCES_def
      categoria_proibida_def FORBIDDEN_RANGES_def is_space_def)

section \<open>Numbers\<close>

definition sample_numerics :: "nat numerics" where
  "sample_numerics =
     \<lparr>lib_log = (\<lambda>x. Fin 0), lib_pow = (\<lambda>x y. if y = Fin 2 then fmul x x else Fin 1),
      rng_seed = (\<lambda>s. 0), rng_below = (\<lambda>n g. (0, g))\<rparr>"

definition sample_context :: evaluation_context where
  "sample_context =
     \<lparr>ec_registry = \<lparr>cr_channels = [\<lparr>ch_name = pys ''feed'', ch_lag = 1\<rparr>],
        cr_estimator_library = MVP_ESTIMATOR_LIBRARY\<rparr>,
      ec_observed_at_offset = 1,
      ec_observations = [\<lparr>ob_reference = pys ''o1'', ob_provenance = pys ''p'', ob_relevance = Fin 1\<rparr>],
      ec_rho_min = Fin 0, ec_d_regime = Fin 1, ec_theta = Fin 0, ec_beats_fluctuation = True,
      ec_horizon_points =
        [\<lparr>hp_horizon = 1, hp_a_minus = Fin 1, hp_gates_pass = True, hp_regime = NO_SHIFT\<rparr>],
      ec_training_pairs =
        [(Fin (- 4), Fin (- 4)), (Fin 4, Fin 4), (Fin 0, Fin 2), (Fin 0, Fin (- 2)),
         (Fin 0, Fin 0), (Fin 0, Fin 0)],
      ec_blind_pairs = [(Fin 4, Fin 4), (Fin (- 4), Fin (- 4))],
      ec_bootstrap_replicates = 1, ec_bootstrap_seed = 0, ec_alpha_corrected = Fin (3 / 4),
      ec_placebo_permutations = 1, ec_placebo_seed = 0, ec_a_rel = Fin 1, ec_at = sample_instant,
      ec_expected_version = 1, ec_required_scope = [pys ''north''], ec_expected_jurisdiction = None,
      ec_expected_binding_kind = PROMOTION_CANDIDATE, ec_high_prediction_error = False,
      ec_model_disagreement = False\<rparr>"

definition sample_item :: ready_item where
  "sample_item = \<lparr>ri_envelope = sample_envelope, ri_context = sample_context\<rparr>"

lemma round64_small [simp]:
  "round64 0 = Fin 0" "round64 1 = Fin 1" "round64 (- 1) = Fin (- 1)"
  "numeral w < (2 :: int) ^ 53 \<Longrightarrow> round64 (numeral w) = Fin (numeral w)"
  "numeral w < (2 :: int) ^ 53 \<Longrightarrow> round64 (- numeral w) = Fin (- numeral w)"
  using round64_dyadic [of 0 0] round64_dyadic [of 1 0] round64_dyadic [of "- 1" 0] round64_dyadic [of "numeral w" 0]
    round64_dyadic [of "- numeral w" 0]
  by simp_all

lemma round64_quarters [simp]:
  "round64 (1 / 2) = Fin (1 / 2)" "round64 (1 / 4) = Fin (1 / 4)" 
  using round64_dyadic [of 1 1] round64_dyadic [of 1 2]
  by simp_all

lemma sample_context_accepted: "make_evaluation_context sample_context = Inr sample_context"
  by (simp add: make_evaluation_context_def sample_context_def)

lemmas sample_arithmetic =
  sample_numerics_def fsum_def fsquare_def flog_def fsub_def fle_def f_of_int_def LOG_2PI_def

definition sample_baseline :: baseline_model where
  "sample_baseline = \<lparr>bm_mean = Fin 0, bm_variance = Fin 8\<rparr>"

definition sample_ar1 :: ar1_model where
  "sample_ar1 = \<lparr>ar_intercept = Fin 0, ar_coefficient = Fin 1, ar_residual_variance = Fin 2\<rparr>"

lemma sample_fits:
  "fit_baseline sample_numerics (map snd (ec_training_pairs sample_context)) = Inr sample_baseline"
  "fit_ar1 sample_numerics (ec_training_pairs sample_context) = Inr sample_ar1"
  by (simp_all add: fit_baseline_def fit_ar1_def sample_context_def sample_arithmetic sample_baseline_def
      sample_ar1_def)

lemma sample_densities:
  "baseline_log_density sample_numerics sample_baseline (Fin 4) = Inr (Fin (- 1))"
  "baseline_log_density sample_numerics sample_baseline (Fin (- 4)) = Inr (Fin (- 1))"
  "ar1_log_density sample_numerics sample_ar1 (Fin 4) (Fin 4) = Inr (Fin 0)"
  "ar1_log_density sample_numerics sample_ar1 (Fin (- 4)) (Fin (- 4)) = Inr (Fin 0)"
  "ar1_log_density sample_numerics sample_ar1 (Fin 4) (Fin (- 4)) = Inr (Fin (- 16))"
  "ar1_log_density sample_numerics sample_ar1 (Fin (- 4)) (Fin 4) = Inr (Fin (- 16))"
  by (simp_all add: baseline_log_density_def ar1_log_density_def gaussian_log_density_def sample_arithmetic
      sample_baseline_def sample_ar1_def)

lemma sample_gains:
  "per_event_gains sample_numerics sample_baseline sample_ar1 (ec_blind_pairs sample_context) =
   Inr [Fin 1, Fin 1]"
  by (simp add: per_event_gains_def sample_context_def sample_densities fsub_def)

lemma sample_bootstrap:
  "circular_block_bootstrap sample_numerics [Fin 1, Fin 1] 1 0 (Fin (3 / 4)) = Inr (Fin 1, Fin 1)"
  by (simp add: circular_block_bootstrap_def block_length_def sample_arithmetic quantile_def py_index_def
      fsort_def Let_def upt_rec)

lemma sample_generator:
  "rng_seed sample_numerics s = 0" "rng_below sample_numerics n g = (0, g)"
  by (simp_all add: sample_numerics_def)

lemma round64_19_20: "round64 (19 / 20) = Fin (8556839292003942 / 9007199254740992)"
proof -
  have "floorlog 2 19 = 5" "floorlog 2 20 = 5"
    by (simp_all add: compute_floorlog)
  moreover have "quotient_of (19 / 20) = (19, 20)"
    by (simp add: rat_divide_code quotient_of_number normalize_def Let_def gcd_non_0_int)
  ultimately have e: "exponent2 (19 / 20) = - 1"
    by (simp add: exponent2_def power_int_def)
  have "\<lfloor>42784196460019712 / (5 :: rat)\<rfloor> = 8556839292003942"
    by (simp add: floor_eq_iff)
  then have h: "half_even (42784196460019712 / 5) = 8556839292003942"
    by (simp add: half_even_def)
  have p: "(2 :: rat) powi (- 53) = 1 / 9007199254740992" by (simp add: power_int_def power_one_over)
  show ?thesis
    by (simp add: round64_def e Let_def p h)
qed

lemma sample_placebo:
  "deterministic_placebo sample_numerics [Fin (- 1), Fin (- 1)] sample_ar1 (ec_blind_pairs sample_context) 1 0 =
   Inr (Fin (1 / 2), Fin 1, Fin (- 15))"
  by (simp add: deterministic_placebo_def placebo_gain_def sample_densities sample_context_def
      sample_generator round64_19_20 fsum_def fsub_def fle_def f_of_int_def
      quantile_def py_index_def fsort_def Let_def shuffle_def)

definition sample_power :: power_outcome where
  "sample_power =
     \<lparr>po_a_minus = Fin 1, po_a_upper = Fin 1, po_a_star_worst = Fin 1, po_mean_gain = Fin 1,
      po_placebo_p = Fin (1 / 2), po_g_real = Fin 1, po_g_shuffled_p95 = Fin (- 15),
      po_sample_size = 2, po_alpha_corrected = Fin (3 / 4)\<rparr>"

lemma sample_context_parts:
  "ec_bootstrap_replicates sample_context = 1" "ec_bootstrap_seed sample_context = 0"
  "ec_alpha_corrected sample_context = Fin (3 / 4)" "ec_placebo_permutations sample_context = 1"
  "ec_placebo_seed sample_context = 0" "map snd (ec_blind_pairs sample_context) = [Fin 4, Fin (- 4)]"
  "length (ec_blind_pairs sample_context) = 2"
  "cr_estimator_library (ec_registry sample_context) = MVP_ESTIMATOR_LIBRARY"
  by (simp_all add: sample_context_def)

lemma sample_power_outcome: "power_outcome_for sample_numerics sample_context = Inr sample_power"
  by (simp add: power_outcome_for_def sample_context_parts sample_fits sample_gains
      sample_bootstrap [simplified] sample_densities sample_placebo [simplified] fsum_builtin_def fabs_def fsub_def fle_def f_of_int_def
      fmax_def sample_power_def)

section \<open>The evaluation\<close>

definition sample_claim :: predictive_claim where
  "sample_claim = claim_from_envelope sample_envelope"

definition sample_evaluation :: claim_evaluation where
  "sample_evaluation =
     \<lparr>ev_claim = sample_claim,
      ev_provenance =
        \<lparr>pv_registry = ec_registry sample_context, pv_a_rel = Fin 1,
         pv_historical_validity =
           \<lparr>hv_valid_window = ec_observations sample_context, hv_historical_kernel = [], hv_rho_min = Fin 0\<rparr>\<rparr>,
      ev_regime =
        \<lparr>ra_status = REGIME_SHIFT_CANDIDATE, ra_d_regime = Fin 1, ra_theta = Fin 0,
         ra_beats_fluctuation = True, ra_high_prediction_error = False, ra_model_disagreement = False\<rparr>,
      ev_evidence = sample_power, ev_uncertainty = (Fin 1, Fin 1),
      ev_horizon =
        \<lparr>sp_h_pred = ec_horizon_points sample_context, sp_delta_cont = ec_horizon_points sample_context,
         sp_r_pred = []\<rparr>,
      ev_state = PREDICTABLE, ev_approval = APPROVAL_VALID\<rparr>"

lemma sample_approved:
  "approval_validation sample_envelope sample_instant 1 [pys ''north''] None PROMOTION_CANDIDATE =
   Inr APPROVAL_VALID"
proof -
  have "validate_approval (pe_authority sample_envelope) sample_instant 1 [pys ''north''] None
      \<lparr>bo_kind = PROMOTION_CANDIDATE, bo_ref = Uuid 9\<rparr> = Inr APPROVAL_VALID"
    unfolding validate_approval_Inr
    by (simp add: sample_envelope_def sample_approval_def sample_instant_def astimezone_utc_def
        datetime_range_def piap_version_def MAX_PIAP_VERSION_NUMBER_def canonical_scope_def opaque_ref_def
        blank_iff is_space_def MAX_PIAP_REF_LENGTH_def MAX_APPROVAL_SCOPE_ITEMS_def
        categoria_proibida_def FORBIDDEN_RANGES_def approval_verdict_def)
  then show ?thesis
    by (simp add: approval_validation_def sample_envelope_def sample_approval_def)
qed

lemma sample_evaluate_available:
  "evaluate_available sample_numerics sample_item = Inr sample_evaluation"
  by (simp add: evaluate_available_def sample_item_def Let_def sample_power_outcome)
     (simp add: sample_context_def sample_approved [simplified] historical_validity_of_def make_historical_validity_def
      horizon_spectrum_of_def admissible_def regime_assessment_of_def assemble_claim_evaluation_def
      classify_epistemic_state_def confirmatory_pass_def sample_power_def sample_evaluation_def
      sample_claim_def Let_def fle_def)

lemma sample_evaluate_item:
  "evaluate_item sample_numerics (Ready sample_item) = Inr (Evaluated sample_evaluation)"
proof -
  have "unavailable_channels (ri_context sample_item) = []"
    by (simp add: unavailable_channels_def sample_item_def sample_context_def availability_def)
  then show ?thesis by (simp add: sample_evaluate_available)
qed


section \<open>The promotion\<close>

definition sample_key :: pystr where
  "sample_key = sha256_hex (the (utf8 (dumps (JList [JStr (pys ''demand''), JStr (pys ''alert''),
     JInt 86400000000, JStr (iso_z sample_instant)]))))"

lemma sample_iso: "iso_z sample_instant = pys ''1970-01-01T00:00:00.001000Z''"
  by code_simp

lemma sample_delta: "str_int 86400000000 = pys ''86400000000''"
  by (simp add: str_int_def dec_nat.simps)

lemma sample_key_text:
  "utf8 (dumps (JList [JStr (pys ''demand''), JStr (pys ''alert''), JInt 86400000000,
     JStr (iso_z sample_instant)])) \<noteq> None"
  by (simp add: sample_iso sample_delta dump_str_def json_escape_def utf8_char_def)

lemma sample_subject_key: "subject_key sample_claim = Inr sample_key"
proof -
  have "pc_target sample_claim = pys ''demand''" "pc_signal sample_claim = pys ''alert''"
    "pc_reference_time sample_claim = sample_instant" "horizon_as_int (pc_horizon sample_claim) = Inr 86400000000"
    by (simp_all add: sample_claim_def claim_from_envelope_def sample_envelope_def horizon_as_int_def
        total_micros_def f_of_int_def)
  then show ?thesis
    using sample_key_text by (auto simp del: pys_def simp: subject_key_def sample_key_def)
qed

definition sample_candidate :: reconfiguration_candidate where
  "sample_candidate =
     \<lparr>rc_candidate_ref = Uuid 9, rc_subject_key = sample_key, rc_model_ref = pys ''m'',
      rc_hypothesis_refs = [pys ''h''], rc_validation_ref = pys ''v'', rc_cost_ref = pys ''c'',
      rc_responsible_ref = pys ''r'', rc_rollback_plan_ref = pys ''b'', rc_payload_sha256 = sample_key,
      rc_expected_version = 0, rc_proposed_version = 1\<rparr>"

definition sample_instruction :: reconfiguration_instruction where
  "sample_instruction =
     \<lparr>in_candidate = sample_candidate, in_event_id = Uuid 11, in_recorded_at = sample_instant\<rparr>"

definition empty_view :: log_view where
  "empty_view = \<lparr>lv_target = [], lv_current = [], lv_identity = [], lv_insert = []\<rparr>"

definition sample_event :: reconfiguration_event where
  "sample_event = promotion_event sample_candidate sample_approval (Uuid 11) sample_instant"

definition sample_promotion :: evaluated_reconfiguration where
  "sample_promotion =
     \<lparr>er_decision = PROMOTED, er_event_id = Some (Uuid 11), er_subject_key = sample_key,
      er_resulting_version = Some 1, er_reason = EventPersisted\<rparr>"

lemma sample_key_canonical [simp]: "canonical_sha256 sample_key"
  by (auto simp: canonical_sha256_def sample_key_def list_all_iff sha256_hex_lower)

lemma hex_column: "canonical_sha256 s \<Longrightarrow> column_text 64 s"
proof -
  assume s: "canonical_sha256 s"
  have "utf8 t \<noteq> None \<and> 0 \<notin> set t" if "list_all is_lower_hex t" for t
    using that by (induction t) (auto simp: is_lower_hex_def utf8_char_def split: option.splits)
  with s show ?thesis by (simp add: canonical_sha256_def column_text_def)
qed

lemmas sample_key_column = hex_column [OF sample_key_canonical, unfolded column_text_def]

lemma sample_event_row:
  "event_columns sample_event" "event_checks coll sample_event"
  "re_event_id sample_event = Uuid 11" "re_subject_key sample_event = sample_key"
  "re_to_version sample_event = 1" "re_rollback_of sample_event = None"
  "bind_string_tuple (re_hypothesis_refs sample_event)" "bind_string_tuple (re_approval_scope sample_event)"
  by (simp_all add: sample_event_def promotion_event_def sample_candidate_def sample_approval_def
      event_columns_def event_checks_def sample_key_column column_text_def utf8_char_def
      string_array_is_canonical_def sql_not_blank_def bind_string_tuple_def blank_iff is_space_def)

lemma sample_gate:
  "reconfiguration_gate coll empty_view sample_evaluation sample_envelope sample_candidate (Uuid 11)
     sample_instant = Inr (sample_promotion, Some sample_event)"
proof -
  have "append_guarded coll empty_view 0 EventPersisted sample_event = Inr (sample_promotion, Some sample_event)"
    by (simp add: append_guarded_def append_event_def empty_view_def actual_version_def current_event_def
        of_subject_def get_event_def Let_def sample_event_row sample_promotion_def)
  then show ?thesis
    by (simp add: reconfiguration_gate_def sample_evaluation_def sample_subject_key sample_candidate_def
        sample_power_def fle_def sample_envelope_def sample_approval_def sample_event_def)
qed

section \<open>The governed input\<close>

definition sample_comparability :: comparability_key where
  "sample_comparability =
     \<lparr>ck_target = pys ''demand'', ck_population = pys ''all'', ck_jurisdiction = pys ''br'',
      ck_horizon = 1, ck_regime = pys ''r'', ck_unit = pys ''mw''\<rparr>"

definition sample_materiality :: materiality_authority where
  "sample_materiality =
     \<lparr>ma_reference = pys ''act-1'', ma_authority = pys ''board'', ma_jurisdiction = pys ''br'',
      ma_version = 1, ma_scope = [pys ''north''], ma_valid_from = Some (Aware 0 0),
      ma_valid_until = Some (Aware 2000 0)\<rparr>"

definition sample_protective :: candidate_input where
  "sample_protective =
     \<lparr>ci_identifier = pys ''shelter'', ci_reason = pys ''r'', ci_provenance = pys ''p'',
      ci_effect_claimed = True, ci_authority = Some sample_materiality, ci_owner = Some (pys ''o''),
      ci_time_window = Some (pys ''w''), ci_reversibility = Some (pys ''v''), ci_triggers = [pys ''t''],
      ci_incompatible_with = []\<rparr>"

definition sample_guidance :: guidance_reference where
  "sample_guidance =
     \<lparr>gr_reference = pys ''g-1'', gr_authority = pys ''board'', gr_provenance = pys ''p'',
      gr_jurisdiction = pys ''br'', gr_version = 1, gr_valid_from = Some (Aware 0 0),
      gr_valid_until = Some (Aware 2000 0)\<rparr>"

definition sample_alternative :: "alternative_kind \<Rightarrow> alternative" where
  "sample_alternative k =
     \<lparr>al_kind = k, al_key = sample_comparability, al_cost_knowledge = COST_UNKNOWN, al_cost_value = None,
      al_reversible = True, al_description = []\<rparr>"

definition sample_burden :: "float64 \<Rightarrow> burden_vector" where
  "sample_burden m =
     \<lparr>bv_dimensions = map (\<lambda>k. \<lparr>bd_kind = k, bd_magnitude = m, bd_unit = pys ''u'', bd_source = pys ''s'',
        bd_source_version = 1, bd_observed_at = pys ''d'', bd_uncertainty = (Fin 0, Fin 0),
        bd_incidence = pys ''i'', bd_vulnerable = False\<rparr>) BURDEN_KINDS,
      bv_probability = PROBABILITY_VALIDATED\<rparr>"

definition sample_governed :: "pystr \<Rightarrow> governed_input" where
  "sample_governed conclusion =
     \<lparr>gi_conclusion = conclusion, gi_key = sample_comparability, gi_decisive_constraint = pys ''cap'',
      gi_candidates = [sample_protective], gi_guidance = Some sample_guidance,
      gi_guidance_jurisdiction = pys ''br'', gi_guidance_version = 1,
      gi_alternatives = map sample_alternative ALTERNATIVE_KINDS,
      gi_burden_entries =
        [(A0_INACTION, sample_burden (Fin 0)), (A1_REVERSIBLE_ESCALATION, sample_burden (Fin 1)),
         (A2_FULL_ACTION, sample_burden (Fin 2))],
      gi_materiality_scope = [pys ''north''], gi_protection_identifiers = [pys ''shelter''],
      gi_inventory_reference = Some (pys ''inv''), gi_asymmetry_justification = None\<rparr>"

lemma sample_governed_accepted:
  "make_governed_input (sample_governed (pys ''keep'')) = Inr (sample_governed (pys ''keep''))"
  by (simp add: make_governed_input_def sample_governed_def blank_iff is_space_def)

lemma sample_burden_magnitude [simp]: "magnitude (sample_burden m) = (\<lambda>k. m)"
proof
  show "magnitude (sample_burden m) k = m" for k
    by (cases k) (simp_all add: magnitude_def dimension_of_def sample_burden_def BURDEN_KINDS_def)
qed

lemma sample_burden_comparable [simp]: "comparability_failure (sample_burden m) (sample_burden n) = None"
  by (simp add: comparability_failure_def dimension_of_def sample_burden_def BURDEN_KINDS_def field_mismatch_def)

lemma UNIV_alternative: "UNIV = {A0_INACTION, A1_REVERSIBLE_ESCALATION, A2_FULL_ACTION}"
  by (auto intro: alternative_kind.exhaust)

lemma sample_burdens:
  "burden_comparison_of cf (gi_burden_entries (sample_governed c)) =
   Inr \<lparr>bc_counterfactual = cf, bc_entries = gi_burden_entries (sample_governed c),
        bc_dominated = [A1_REVERSIBLE_ESCALATION, A2_FULL_ACTION], bc_trade_off_pairs = [],
        bc_incomparable = []\<rparr>"
  by (simp add: burden_comparison_of_def sample_governed_def ALTERNATIVE_KINDS_def compare_pair_def
      dominates_def trade_offs_def pareto_def fle_def append_new_def make_burden_comparison_def Let_def
      UNIV_alternative)

section \<open>The route\<close>

definition agreed :: "comparable_claim list \<Rightarrow> item_outcome list \<Rightarrow> conflict_assessment" where
  "agreed cs ps =
     \<lparr>ca_status = NO_CONFLICT, ca_compared = cs, ca_dimensions = [], ca_preserved = ps,
      ca_reason = FewerThanTwo\<rparr>"

lemma sample_assertive:
  assumes "\<not> blocks_safe_route conf" and "c \<noteq> []"
  obtains as where
    "assertiveness_of sample_evaluation c (gi_decisive_constraint (sample_governed c)) conf = Inr as"
    and "as_authority_state as = STATE_AUTHORIZED"
  using assms
  by (simp add: assertiveness_of_def make_assertiveness_def sample_evaluation_def sample_governed_def
      REVIEW_TRIGGER_def)

lemma sample_sustained:
  "authority_failure_of (Some sample_materiality) sample_evaluation (Some sample_approval) sample_instant
     [pys ''north''] = Inr None"
  by (simp add: authority_failure_of_def sample_materiality_def sample_evaluation_def sample_approval_def
      sample_instant_def dt_le_def dt_less_def outside_window_def blank_iff is_space_def)

definition sample_accepted :: candidate where
  "sample_accepted =
     \<lparr>cd_identifier = pys ''shelter'', cd_reason = pys ''r'', cd_provenance = pys ''p'',
      cd_materiality = SUPPORTED, cd_classification = EffectSustained, cd_owner = Some (pys ''o''),
      cd_authority = Some sample_materiality, cd_time_window = Some (pys ''w''),
      cd_reversibility = Some (pys ''v''), cd_triggers = [pys ''t''], cd_incompatible_with = []\<rparr>"

lemma sample_protected:
  assumes "\<not> blocks_safe_route conf" and "as_authority_state as = STATE_AUTHORIZED"
  obtains p where
    "protection_set_of (gi_candidates (sample_governed c)) as sample_evaluation (Some sample_approval) conf
       sample_instant (gi_materiality_scope (sample_governed c))
       (gi_protection_identifiers (sample_governed c)) (gi_inventory_reference (sample_governed c)) = Inr p"
    and "complete_answer_allowed p" and "map cd_identifier (ps_accepted p) = [pys ''shelter'']"
proof -
  have "authority_failure_of (ci_authority sample_protective) sample_evaluation (Some sample_approval)
      sample_instant [pys ''north''] = Inr None"
    by (simp add: sample_sustained [simplified] sample_protective_def)
  with assms have one: "classificar as sample_evaluation (Some sample_approval) conf sample_instant
      [pys ''north''] sample_protective = Inr sample_accepted"
    by (simp add: classificar_def blocks_material_support_def blocks_safe_route_def sample_protective_def
        make_candidate_def sample_accepted_def)
  have keep: "final_candidates [sample_accepted] = [sample_accepted]"
    by (simp add: final_candidates_def reclassified_def incompatible_ids_def supported_def sample_accepted_def)
  have cover: "coverage_of [sample_protective] [pys ''shelter''] (Some (pys ''inv'')) = None"
    by (simp add: coverage_of_def sample_protective_def)
  define p where "p = \<lparr>ps_accepted = [sample_accepted], ps_rejected = [], ps_unresolved = [],
    ps_assertiveness = as, ps_evaluation = sample_evaluation, ps_conflict = conf, ps_coverage = None\<rparr>"
  have "protection_set_of (gi_candidates (sample_governed c)) as sample_evaluation (Some sample_approval) conf
       sample_instant (gi_materiality_scope (sample_governed c))
       (gi_protection_identifiers (sample_governed c)) (gi_inventory_reference (sample_governed c)) = Inr p"
    by (simp only: protection_set_of_def sample_governed_def governed_input.select_convs traverse.simps one
        andthen.simps keep cover Let_def p_def)
       (simp add: supported_def sample_accepted_def)
  then show ?thesis
    by (rule that) (simp_all add: p_def complete_answer_allowed_def has_unresolved_branch_def sample_accepted_def)
qed

lemma sample_quality:
  assumes "complete_answer_allowed p"
  obtains q where
    "recommendation_quality_of p (gi_guidance (sample_governed c)) sample_instant
       (gi_guidance_jurisdiction (sample_governed c)) (gi_guidance_version (sample_governed c)) = Inr q"
    and "rq_outcome q = GUIDANCE_VALID" and "rq_complete_answer_allowed q"
  using assms
  by (simp add: recommendation_quality_of_def validate_guidance_def sample_governed_def sample_guidance_def
      sample_instant_def dt_le_def dt_less_def outside_window_def blank_iff is_space_def)

lemma sample_counterfactual:
  obtains cf where
    "counterfactual_set_of (gi_alternatives (sample_governed c)) as p q
       (gi_asymmetry_justification (sample_governed c)) = Inr cf"
    by (simp add: counterfactual_set_of_def make_counterfactual_set_def sample_governed_def ALTERNATIVE_KINDS_def
      sample_alternative_def UNIV_alternative)

lemma sample_routed:
  assumes "\<not> blocks_safe_route conf" and "c \<noteq> []"
  obtains f where
    "route_evaluated sample_evaluation (sample_governed c) True (Some sample_approval) conf sample_instant = Inr f"
    and "fr_route f = Some RECONFIGURE" and "fr_recommended f = Some A0_INACTION"
proof -
  obtain as where as: "assertiveness_of sample_evaluation c (gi_decisive_constraint (sample_governed c)) conf = Inr as"
    "as_authority_state as = STATE_AUTHORIZED"
    by (rule sample_assertive [OF assms])
  obtain p where p: "protection_set_of (gi_candidates (sample_governed c)) as sample_evaluation
      (Some sample_approval) conf sample_instant (gi_materiality_scope (sample_governed c))
      (gi_protection_identifiers (sample_governed c)) (gi_inventory_reference (sample_governed c)) = Inr p"
    "complete_answer_allowed p"
    by (rule sample_protected [OF assms(1) as(2)])
  obtain q where q: "recommendation_quality_of p (gi_guidance (sample_governed c)) sample_instant
      (gi_guidance_jurisdiction (sample_governed c)) (gi_guidance_version (sample_governed c)) = Inr q"
    "rq_outcome q = GUIDANCE_VALID" "rq_complete_answer_allowed q"
    by (rule sample_quality [OF p(2)])
  obtain cf where cf: "counterfactual_set_of (gi_alternatives (sample_governed c)) as p q
       (gi_asymmetry_justification (sample_governed c)) = Inr cf"
    by (rule sample_counterfactual)
  have c: "gi_conclusion (sample_governed c) = c" by (simp add: sample_governed_def)
  define bc where "bc = \<lparr>bc_counterfactual = cf, bc_entries = gi_burden_entries (sample_governed c),
        bc_dominated = [A1_REVERSIBLE_ESCALATION, A2_FULL_ACTION], bc_trade_off_pairs = [],
        bc_incomparable = []\<rparr>"
  have choice: "escolher_alternativa cf bc = Inr (Some A0_INACTION, [LimitA0Preserved])"
    using counterfactual_flags [OF cf] p(2) q(2)
    by (simp add: escolher_alternativa_def bc_def non_dominated_def ALTERNATIVE_KINDS_def)
  have "route_evaluated sample_evaluation (sample_governed c) True (Some sample_approval) conf sample_instant =
      final_routing_of sample_evaluation True as q cf bc conf"
    by (simp add: route_evaluated_def c as(1) p(1) q(1) cf sample_burdens bc_def)
  also have "\<dots> = entregar (input_limits sample_evaluation q bc conf @ [LimitA0Preserved])
      (Some A0_INACTION) conf as q (Some RECONFIGURE) PromotedAndSustained"
    using assms(1) q(3) by (simp add: final_routing_of_def choice Let_def sample_evaluation_def)
  finally have run: "route_evaluated sample_evaluation (sample_governed c) True (Some sample_approval) conf
      sample_instant = \<dots>" .
  with entregar_total obtain f where "entregar (input_limits sample_evaluation q bc conf @ [LimitA0Preserved])
      (Some A0_INACTION) conf as q (Some RECONFIGURE) PromotedAndSustained = Inr f" by metis
  with run entregar_Inr [OF this] show ?thesis by (intro that) auto
qed

section \<open>The batch\<close>

definition sample_upstream :: upstream_unavailable where
  "sample_upstream = \<lparr>up_reference = pys ''x'', up_reason = pys ''down''\<rparr>"

definition sample_request :: "request_item list" where
  "sample_request = [Ready sample_item, Unavailable sample_upstream]"

definition sample_batch :: coordinated_batch where
  "sample_batch =
     \<lparr>cb_outcomes = [Evaluated sample_evaluation, UpstreamUnavailable sample_upstream],
      cb_sidecar = [ReconfigurationEvaluated sample_promotion, ReconfigurationUpstream (pys ''x'')],
      cb_approval_bindings = [Some sample_approval, None]\<rparr>"

lemma sample_coordinated:
  "evaluate_and_reconfigure_batch sample_numerics coll (\<lambda>i. empty_view) sample_request
     [Some sample_instruction, None] = Inr (sample_batch, [Some sample_event, None])"
proof -
  have env: "ri_envelope sample_item = sample_envelope"
    "ac_approval (pe_authority sample_envelope) = Some sample_approval"
    by (simp_all add: sample_item_def sample_envelope_def)
  show ?thesis
    by (simp del: evaluate_item.simps(2) add: evaluate_and_reconfigure_batch_def sample_request_def evaluate_batch_def
        sample_evaluate_item sidecar_for_def sample_instruction_def sample_gate env
        make_coordinated_batch_def sample_batch_def sample_upstream_def)
qed

lemma sample_route_batch:
  obtains r f where "route_batch sample_batch [Some (sample_governed (pys ''keep'')), None] sample_instant = Inr r"
    and "rt_outcomes r = [Routed f, RoutingUpstream (pys ''x'')]"
    and "fr_route f = Some RECONFIGURE" and "fr_recommended f = Some A0_INACTION"
proof -
  define g where "g = sample_governed (pys ''keep'')"
  define cc where "cc = \<lparr>cc_evaluation = sample_evaluation, cc_key = gi_key g, cc_conclusion = pys ''keep''\<rparr>"
  define conf where "conf = agreed [cc] [UpstreamUnavailable sample_upstream]"
  have g: "gi_conclusion g = pys ''keep''" by (simp add: g_def sample_governed_def)
  have "make_comparable_claim sample_evaluation (gi_key g) (gi_conclusion g) = Inr cc"
    by (simp add: make_comparable_claim_def cc_def g blank_iff is_space_def)
  then have conflict: "conflict_for_batch sample_batch [Some g, None] =
      Inr \<lparr>bx_per_item = [Some conf, None], bx_dimensions = []\<rparr>"
    by (simp add: conflict_for_batch_def sample_batch_def conflict_assessment_of_def
        make_conflict_assessment_def make_batch_conflict_def conf_def agreed_def sorted_set_def)
  have "\<not> blocks_safe_route conf" by (simp add: conf_def agreed_def blocks_safe_route_def)
  moreover have "pys ''keep'' \<noteq> []" by simp
  ultimately obtain f where
    f: "route_evaluated sample_evaluation g True (Some sample_approval) conf sample_instant = Inr f"
    "fr_route f = Some RECONFIGURE" "fr_recommended f = Some A0_INACTION"
    unfolding g_def by (rule sample_routed)
  have "route_batch sample_batch [Some g, None] sample_instant =
      Inr \<lparr>rt_outcomes = [Routed f, RoutingUpstream (pys ''x'')], rt_dimensions = []\<rparr>"
    using f(1) unfolding route_batch_def conflict
    by (simp add: sample_batch_def route_item_def sample_promotion_def sample_upstream_def)
  with that f show ?thesis unfolding g_def by simp
qed

section \<open>Two items that contradict each other\<close>

text \<open>Whatever the conflict says, the chain of the sample ends in an answer.\<close>

lemma sample_route_any:
  assumes "c \<noteq> []"
  shows "\<exists>f. route_evaluated sample_evaluation (sample_governed c) prom (Some sample_approval) conf sample_instant =
    Inr f"
proof -
  have "\<exists>as. assertiveness_of sample_evaluation c (gi_decisive_constraint (sample_governed c)) conf = Inr as"
    using assms
    by (simp add: assertiveness_of_def make_assertiveness_def sample_evaluation_def sample_governed_def
        REVIEW_TRIGGER_def REAL_CONFLICT_PREFIX_def)
  then obtain as where as: "assertiveness_of sample_evaluation (gi_conclusion (sample_governed c))
      (gi_decisive_constraint (sample_governed c)) conf = Inr as"
    by (auto simp: sample_governed_def)
  have "\<exists>d. classificar as sample_evaluation (Some sample_approval) conf sample_instant [pys ''north'']
      sample_protective = Inr d"
    unfolding classificar_Inr using sample_sustained by (simp add: sample_protective_def)
  then obtain p where p: "protection_set_of (gi_candidates (sample_governed c)) as sample_evaluation
      (Some sample_approval) conf sample_instant (gi_materiality_scope (sample_governed c))
      (gi_protection_identifiers (sample_governed c)) (gi_inventory_reference (sample_governed c)) = Inr p"
    by (force simp: protection_set_of_def sample_governed_def Let_def)
  have "\<exists>q. recommendation_quality_of p (gi_guidance (sample_governed c)) sample_instant
      (gi_guidance_jurisdiction (sample_governed c)) (gi_guidance_version (sample_governed c)) = Inr q"
    by (simp add: recommendation_quality_of_def validate_guidance_def sample_governed_def sample_guidance_def
        sample_instant_def dt_le_def dt_less_def outside_window_def blank_iff is_space_def)
  then obtain q where q: "recommendation_quality_of p (gi_guidance (sample_governed c)) sample_instant
      (gi_guidance_jurisdiction (sample_governed c)) (gi_guidance_version (sample_governed c)) = Inr q" ..
  obtain cf where cf: "counterfactual_set_of (gi_alternatives (sample_governed c)) as p q
       (gi_asymmetry_justification (sample_governed c)) = Inr cf"
    by (rule sample_counterfactual)
  define bc where "bc = \<lparr>bc_counterfactual = cf, bc_entries = gi_burden_entries (sample_governed c),
        bc_dominated = [A1_REVERSIBLE_ESCALATION, A2_FULL_ACTION], bc_trade_off_pairs = [],
        bc_incomparable = []\<rparr>"
  have "\<exists>x. escolher_alternativa cf bc = Inr x"
    by (simp add: escolher_alternativa_def bc_def non_dominated_def ALTERNATIVE_KINDS_def)
  then obtain alt ls where choice: "escolher_alternativa cf bc = Inr (alt, ls)" by auto
  have "\<exists>f. final_routing_of sample_evaluation prom as q cf bc conf = Inr f"
    unfolding final_routing_of_def choice andthen.simps prod.case Let_def
    by (simp add: entregar_total)
  then show ?thesis
    by (simp add: route_evaluated_def as p q cf sample_burdens bc_def)
qed

definition clash_batch :: coordinated_batch where
  "clash_batch =
     \<lparr>cb_outcomes = [Evaluated sample_evaluation, Evaluated sample_evaluation],
      cb_sidecar = [ReconfigurationEvaluated sample_promotion, ReconfigurationEvaluated sample_promotion],
      cb_approval_bindings = [Some sample_approval, Some sample_approval]\<rparr>"

definition clash_inputs :: "governed_input option list" where
  "clash_inputs = [Some (sample_governed (pys ''keep'')), Some (sample_governed (pys ''leave''))]"

lemma clash_routed: "\<exists>r. route_batch clash_batch clash_inputs sample_instant = Inr r"
proof -
  define claim where "claim c = \<lparr>cc_evaluation = sample_evaluation, cc_key = sample_comparability, cc_conclusion = c\<rparr>" for c
  obtain a where a: "conflict_assessment_of [claim (pys ''keep''), claim (pys ''leave'')] [] = Inr a"
    using conflict_assessment_total by blast
  have "make_comparable_claim sample_evaluation (gi_key (sample_governed c)) (gi_conclusion (sample_governed c)) =
      Inr (claim c)" if "c = pys ''keep'' \<or> c = pys ''leave''" for c
    using that by (auto simp: make_comparable_claim_def claim_def sample_governed_def blank_iff is_space_def)
  moreover have "gi_key (sample_governed c) = sample_comparability" for c
    by (simp add: sample_governed_def)
  ultimately have conflict: "conflict_for_batch clash_batch clash_inputs =
      Inr \<lparr>bx_per_item = [Some a, Some a], bx_dimensions = []\<rparr>"
    by (simp del: pys_Cons add: conflict_for_batch_def clash_batch_def clash_inputs_def a make_batch_conflict_def sorted_set_def)
  have "pys ''keep'' \<noteq> []" "pys ''leave'' \<noteq> []" by simp_all
  then obtain f g where
    "route_evaluated sample_evaluation (sample_governed (pys ''keep'')) True (Some sample_approval) a sample_instant = Inr f"
    "route_evaluated sample_evaluation (sample_governed (pys ''leave'')) True (Some sample_approval) a sample_instant = Inr g"
    using sample_route_any by metis
  then show ?thesis
    unfolding route_batch_def conflict
    by (simp del: pys_Cons add: clash_batch_def clash_inputs_def route_item_def sample_promotion_def)
qed

section \<open>Two horizons, one key\<close>

text \<open>
  A duration divided by a microsecond is a float: from \<open>2^53\<close> microseconds on, claims that differ
  in their horizon only share their subject key.
\<close>

lemma horizons_collide:
  fixes c :: predictive_claim
  defines "d \<equiv> \<lparr>td_days = 104249, td_seconds = 85654, td_micros = 740992\<rparr>"
  shows "valid_timedelta d" and "valid_timedelta (d\<lparr>td_micros := 740993\<rparr>)"
    and "subject_key (c\<lparr>pc_horizon := d\<rparr>) = subject_key (c\<lparr>pc_horizon := d\<lparr>td_micros := 740993\<rparr>\<rparr>)"
proof -
  show "valid_timedelta d" "valid_timedelta (d\<lparr>td_micros := 740993\<rparr>)"
    by (simp_all add: d_def valid_timedelta_def)
  have "total_micros d = 2 ^ 53" "total_micros (d\<lparr>td_micros := 740993\<rparr>) = 2 ^ 53 + 1"
    by (simp_all add: d_def total_micros_def)
  moreover have "f_of_int (2 ^ 53) = Fin (2 ^ 53)"
    using f_of_int_two_53 .
  ultimately have "horizon_as_int d = horizon_as_int (d\<lparr>td_micros := 740993\<rparr>)"
    using f_of_int_example by (simp add: horizon_as_int_def)
  then show "subject_key (c\<lparr>pc_horizon := d\<rparr>) = subject_key (c\<lparr>pc_horizon := d\<lparr>td_micros := 740993\<rparr>\<rparr>)"
    by (simp add: subject_key_def)
qed

end
