(* ===== verification/PiapBytes.thy ===== *)
theory PiapBytes
  imports PiapEnvelope
begin

text \<open>
  \<^verbatim>\<open>deserialize_piap_envelope\<close>: the byte boundary of a PIAP envelope. What it accepts are
  exactly the canonical bytes of a valid envelope.
\<close>

section \<open>Reading a document\<close>

text \<open>
  \<^verbatim>\<open>object_pairs_hook\<close> refuses a repeated key; constants keep the default of the
  standard library.
\<close>

definition sem_chave_duplicada :: "(pystr \<times> json) list \<Rightarrow> scan_error + json" where
  "sem_chave_duplicada pares =
     (if distinct (map fst pares) then Inr (JObj pares) else Inl DuplicateKey)"

definition piap_hooks :: "(pystr \<Rightarrow> pyfloat) \<Rightarrow> json_hooks" where
  "piap_hooks fl = \<lparr>hook_float = fl, hook_constant = Inr, hook_pairs = sem_chave_duplicada\<rparr>"

lemma piap_hooks_keep [simp]: "keeps_pairs (piap_hooks fl)"
  by (simp add: keeps_pairs_def piap_hooks_def sem_chave_duplicada_def)

lemma piap_hooks_total [simp]: "hooks_total (piap_hooks fl)"
  by (simp add: hooks_total_def piap_hooks_def sem_chave_duplicada_def)

text \<open>An object with exactly the expected keys; its fields are then read by name.\<close>

definition chaves_exatas :: "pystr list \<Rightarrow> json \<Rightarrow> perror + (pystr \<Rightarrow> json)" where
  "chaves_exatas esperadas bruto =
     (case bruto of
        JObj kvs \<Rightarrow>
          if set (map fst kvs) \<noteq> set esperadas then Inl PiapContractViolation
          else Inr (\<lambda>k. case map_of kvs k of Some v \<Rightarrow> v | None \<Rightarrow> JNull)
      | _ \<Rightarrow> Inl PiapContractViolation)"

fun texto :: "json \<Rightarrow> perror + pystr" where
  "texto (JStr s) = Inr s"
| "texto _ = Inl PiapContractViolation"

fun inteiro :: "json \<Rightarrow> perror + int" where
  "inteiro (JInt i) = Inr i"
| "inteiro _ = Inl PiapContractViolation"

definition versao_piap :: "json \<Rightarrow> perror + int" where
  "versao_piap v =
     andthen (inteiro v) (\<lambda>n.
       if n < 1 then Inl PiapContractViolation
       else if n > MAX_PIAP_VERSION_NUMBER then Inl PiapContractViolation
       else Inr n)"

text \<open>
  Whatever else \<^verbatim>\<open>uuid.UUID\<close> accepts, only the text it prints back is let through.
\<close>

definition uuid_canonico :: "json \<Rightarrow> perror + uuid" where
  "uuid_canonico v =
     andthen (texto v) (\<lambda>s.
       case parse_uuid s of
         None \<Rightarrow> Inl PiapContractViolation
       | Some u \<Rightarrow> if str_uuid u \<noteq> s then Inl PiapContractViolation else Inr u)"

definition membro :: "('a \<Rightarrow> pystr) \<Rightarrow> 'a list \<Rightarrow> json \<Rightarrow> perror + 'a" where
  "membro val members v =
     andthen (texto v) (\<lambda>s.
       case member_of val members s of None \<Rightarrow> Inl PiapContractViolation | Some m \<Rightarrow> Inr m)"

definition instante_de_json :: "(pystr \<Rightarrow> int option) \<Rightarrow> json \<Rightarrow> perror + py_datetime" where
  "instante_de_json lenient v =
     (case v of
        JStr s \<Rightarrow>
          if s = [] \<or> last s \<noteq> 90 then Inl PiapContractViolation
          else (case fromisoformat lenient (butlast s @ pys ''+00:00'') of
                  None \<Rightarrow> Inl PiapContractViolation
                | Some w \<Rightarrow> Inr (Aware w 0))
      | _ \<Rightarrow> Inl PiapContractViolation)"

definition timedelta_de_microssegundos :: "int \<Rightarrow> perror + timedelta" where
  "timedelta_de_microssegundos n =
     (case timedelta_of_micros n of None \<Rightarrow> Inl PiapContractViolation | Some d \<Rightarrow> Inr d)"

text \<open>A field that may be \<^verbatim>\<open>null\<close>, and a JSON array.\<close>

definition nullable :: "(json \<Rightarrow> perror + 'a) \<Rightarrow> json \<Rightarrow> perror + 'a option" where
  "nullable f v = (if v = JNull then Inr None else andthen (f v) (\<lambda>x. Inr (Some x)))"

fun lista :: "json \<Rightarrow> perror + json list" where
  "lista (JList vs) = Inr vs"
| "lista _ = Inl PiapContractViolation"

definition KEYS_SOURCE_REFERENCE :: "pystr list" where
  "KEYS_SOURCE_REFERENCE = [pys ''content_sha256'', pys ''kind'', pys ''ref'', pys ''source_version'']"

definition KEYS_HORIZON :: "pystr list" where
  "KEYS_HORIZON = [pys ''availability'', pys ''delta_microseconds'', pys ''reference_time'']"

definition KEYS_SUBJECT :: "pystr list" where
  "KEYS_SUBJECT = [pys ''horizon'', pys ''signal'', pys ''target'']"

definition KEYS_PROVENANCE :: "pystr list" where
  "KEYS_PROVENANCE = [pys ''jurisdiction'', pys ''origin'', pys ''policy_ref'', pys ''recorded_at'']"

definition KEYS_BOUND_TO :: "pystr list" where
  "KEYS_BOUND_TO = [pys ''kind'', pys ''ref'']"

definition KEYS_APPROVAL :: "pystr list" where
  "KEYS_APPROVAL =
     [pys ''approval_expiry'', pys ''approval_jurisdiction'', pys ''approval_reference'',
      pys ''approval_scope'', pys ''approval_version'', pys ''bound_to'']"

definition KEYS_AUTHORITY :: "pystr list" where
  "KEYS_AUTHORITY = [pys ''approval'', pys ''status'']"

definition KEYS_ENVELOPE :: "pystr list" where
  "KEYS_ENVELOPE =
     [pys ''authority'', pys ''contract_version'', pys ''payload_refs'', pys ''provenance'',
      pys ''sealed_at'', pys ''subject'']"

definition source_reference_de_json :: "json \<Rightarrow> perror + source_reference" where
  "source_reference_de_json bruto =
     andthen (chaves_exatas KEYS_SOURCE_REFERENCE bruto) (\<lambda>dados.
     andthen (texto (dados (pys ''kind''))) (\<lambda>k.
     andthen (make_provenance_kind k) (\<lambda>kind.
     andthen (uuid_canonico (dados (pys ''ref''))) (\<lambda>ref.
     andthen (versao_piap (dados (pys ''source_version''))) (\<lambda>ver.
     andthen (nullable texto (dados (pys ''content_sha256''))) (\<lambda>sha.
     make_source_reference kind ref ver sha))))))"

definition approval_de_json :: "(pystr \<Rightarrow> int option) \<Rightarrow> json \<Rightarrow> perror + approval_binding" where
  "approval_de_json lenient bruto =
     andthen (chaves_exatas KEYS_APPROVAL bruto) (\<lambda>campos.
     andthen (chaves_exatas KEYS_BOUND_TO (campos (pys ''bound_to''))) (\<lambda>vinculo.
     andthen (lista (campos (pys ''approval_scope''))) (\<lambda>escopo_bruto.
     if length escopo_bruto > MAX_APPROVAL_SCOPE_ITEMS then Inl PiapContractViolation
     else
     andthen (texto (campos (pys ''approval_reference''))) (\<lambda>ref.
     andthen (versao_piap (campos (pys ''approval_version''))) (\<lambda>ver.
     andthen (traverse texto escopo_bruto) (\<lambda>escopo.
     andthen (nullable (instante_de_json lenient) (campos (pys ''approval_expiry''))) (\<lambda>expiry.
     andthen (nullable texto (campos (pys ''approval_jurisdiction''))) (\<lambda>jur.
     andthen (membro bound_kind_value BOUND_KINDS (vinculo (pys ''kind''))) (\<lambda>kind.
     andthen (uuid_canonico (vinculo (pys ''ref''))) (\<lambda>bref.
     make_approval_binding ref ver escopo expiry jur \<lparr>bo_kind = kind, bo_ref = bref\<rparr>))))))))))"

definition authority_de_json :: "(pystr \<Rightarrow> int option) \<Rightarrow> json \<Rightarrow> perror + authority_context" where
  "authority_de_json lenient bruto =
     andthen (chaves_exatas KEYS_AUTHORITY bruto) (\<lambda>autoridade.
     andthen (nullable (approval_de_json lenient) (autoridade (pys ''approval''))) (\<lambda>aprovacao.
     andthen (membro authority_status_value AUTHORITY_STATUSES (autoridade (pys ''status''))) (\<lambda>status.
     make_authority_context status aprovacao)))"

definition provenance_de_json :: "(pystr \<Rightarrow> int option) \<Rightarrow> json \<Rightarrow> perror + provenance_record" where
  "provenance_de_json lenient bruto =
     andthen (chaves_exatas KEYS_PROVENANCE bruto) (\<lambda>p.
     andthen (source_reference_de_json (p (pys ''origin''))) (\<lambda>orig.
     andthen (instante_de_json lenient (p (pys ''recorded_at''))) (\<lambda>t.
     andthen (nullable texto (p (pys ''jurisdiction''))) (\<lambda>jur.
     andthen (nullable texto (p (pys ''policy_ref''))) (\<lambda>pol.
     make_provenance_record orig t jur pol)))))"

definition horizon_de_json :: "(pystr \<Rightarrow> int option) \<Rightarrow> json \<Rightarrow> perror + horizon" where
  "horizon_de_json lenient bruto =
     andthen (chaves_exatas KEYS_HORIZON bruto) (\<lambda>h.
     andthen (inteiro (h (pys ''delta_microseconds''))) (\<lambda>n.
     andthen (timedelta_de_microssegundos n) (\<lambda>delta.
     andthen (instante_de_json lenient (h (pys ''reference_time''))) (\<lambda>t.
     andthen (membro availability_value AVAILABILITIES (h (pys ''availability''))) (\<lambda>avail.
     make_horizon delta t avail)))))"

definition subject_de_json :: "(pystr \<Rightarrow> int option) \<Rightarrow> json \<Rightarrow> perror + claim_subject" where
  "subject_de_json lenient bruto =
     andthen (chaves_exatas KEYS_SUBJECT bruto) (\<lambda>s.
     andthen (horizon_de_json lenient (s (pys ''horizon''))) (\<lambda>hz.
     andthen (texto (s (pys ''target''))) (\<lambda>tgt.
     andthen (texto (s (pys ''signal''))) (\<lambda>sig.
     make_claim_subject tgt sig hz))))"

definition envelope_de_json :: "(pystr \<Rightarrow> int option) \<Rightarrow> json \<Rightarrow> perror + piap_envelope" where
  "envelope_de_json lenient bruto =
     andthen (chaves_exatas KEYS_ENVELOPE bruto) (\<lambda>dados.
     andthen (texto (dados (pys ''contract_version''))) (\<lambda>tv.
     andthen (case member_of contract_version_value CONTRACT_VERSIONS tv of
                None \<Rightarrow> Inl PiapUnsupportedVersion | Some v \<Rightarrow> require_supported_version v) (\<lambda>ver.
     andthen (authority_de_json lenient (dados (pys ''authority''))) (\<lambda>auth.
     andthen (provenance_de_json lenient (dados (pys ''provenance''))) (\<lambda>prov.
     andthen (subject_de_json lenient (dados (pys ''subject''))) (\<lambda>subj.
     andthen (lista (dados (pys ''payload_refs''))) (\<lambda>brutas.
     if length brutas > MAX_PAYLOAD_REFERENCES then Inl PiapContractViolation
     else
     andthen (traverse source_reference_de_json brutas) (\<lambda>refs.
     andthen (instante_de_json lenient (dados (pys ''sealed_at''))) (\<lambda>sealed.
     make_piap_envelope ver subj prov auth refs sealed)))))))))"

definition exigir_bytes_canonicos :: "bytes \<Rightarrow> piap_envelope \<Rightarrow> perror + unit" where
  "exigir_bytes_canonicos payload e =
     (case serialize_piap_envelope e of
        Inl err \<Rightarrow> Inl (if err = PUnicodeEncode then PiapContractViolation else err)
      | Inr canonico \<Rightarrow> if canonico \<noteq> payload then Inl PiapContractViolation else Inr ())"

text \<open>
  The interpreter is the float conversion, the ISO spellings beyond the printed one and what is
  left of the recursion limit.
\<close>

definition deserialize_piap_envelope ::
  "(pystr \<Rightarrow> pyfloat) \<Rightarrow> (pystr \<Rightarrow> int option) \<Rightarrow> nat \<Rightarrow> bytes \<Rightarrow> perror + piap_envelope" where
  "deserialize_piap_envelope fl lenient depth payload =
     (if length payload > MAX_PIAP_INPUT_BYTES then Inl PiapContractViolation
      else (case utf8_decode payload of
              None \<Rightarrow> Inl PiapContractViolation
            | Some s \<Rightarrow>
                (case json_loads_with (piap_hooks fl) depth s of
                   Inl TooDeep \<Rightarrow> Inl PRecursion
                 | Inl _ \<Rightarrow> Inl PiapContractViolation
                 | Inr bruto \<Rightarrow>
                     andthen (envelope_de_json lenient bruto) (\<lambda>e.
                     andthen (exigir_bytes_canonicos payload e) (\<lambda>_. Inr e)))))"

section \<open>What is accepted is canonical\<close>

lemma deserialized_canonical:
  "deserialize_piap_envelope fl lenient depth payload = Inr e \<Longrightarrow>
   serialize_piap_envelope e = Inr payload \<and> length payload \<le> MAX_PIAP_INPUT_BYTES"
  by (auto simp: deserialize_piap_envelope_def exigir_bytes_canonicos_def run_iffs
      split: if_splits option.splits sum.splits scan_error.splits)

lemma instante_de_json_canonical:
  "instante_de_json l v = Inr t \<Longrightarrow> canonical_instant t"
  by (auto simp: instante_de_json_def canonical_instant_def
      split: json.splits if_splits option.splits dest: fromisoformat_range)

lemma nullable_Inr: "nullable f v = Inr x \<longleftrightarrow> v = JNull \<and> x = None \<or> v \<noteq> JNull \<and> (\<exists>y. f v = Inr y \<and> x = Some y)"
  by (auto simp: nullable_def run_iffs)

lemma source_de_json_valid: "source_reference_de_json v = Inr r \<Longrightarrow> valid_source r"
  by (auto simp: source_reference_de_json_def run_iffs make_source_iff make_provenance_kind_def valid_source_def)

lemma authority_de_json_valid: "authority_de_json l v = Inr a \<Longrightarrow> valid_authority a"
  by (auto simp: authority_de_json_def run_iffs nullable_Inr approval_de_json_def split: if_splits
      intro!: make_authority_valid dest!: make_approval_valid)

lemma provenance_de_json_valid: "provenance_de_json l v = Inr p \<Longrightarrow> valid_provenance p"
  by (auto simp: provenance_de_json_def run_iffs intro: make_provenance_valid source_de_json_valid)

lemma timedelta_de_valid: "timedelta_de_microssegundos n = Inr d \<Longrightarrow> valid_timedelta d"
  by (auto simp: timedelta_de_microssegundos_def split: option.splits dest: total_timedelta_of)

lemma subject_de_json_valid: "subject_de_json l v = Inr s \<Longrightarrow> valid_subject s"
  by (auto simp: subject_de_json_def horizon_de_json_def run_iffs make_subject_iff valid_subject_def
      intro: make_horizon_valid timedelta_de_valid)

lemma sources_valid:
  "list_all2 (\<lambda>x y. source_reference_de_json x = Inr y) xs ys \<Longrightarrow> r \<in> set ys \<Longrightarrow> valid_source r"
  by (induction rule: list_all2_induct) (auto dest: source_de_json_valid)

lemma envelope_de_json_valid: "envelope_de_json l v = Inr e \<Longrightarrow> valid_envelope e"
  by (auto simp: envelope_de_json_def run_iffs split: if_splits
      intro!: make_envelope_valid subject_de_json_valid provenance_de_json_valid authority_de_json_valid
      intro: sources_valid)

lemma deserialized_valid:
  "deserialize_piap_envelope fl lenient depth payload = Inr e \<Longrightarrow> valid_envelope e"
  by (auto simp: deserialize_piap_envelope_def run_iffs
      split: if_splits option.splits sum.splits scan_error.splits intro: envelope_de_json_valid)

section \<open>What is written is read back\<close>

lemma sorted_json_obj:
  "sorted (map fst kvs) \<Longrightarrow> sorted_json (JObj kvs) = JObj (map (\<lambda>kv. (fst kv, sorted_json (snd kv))) kvs)"
  by (simp add: sort_key_id_if_sorted)

lemma fits_mono: "fits d v \<Longrightarrow> d \<le> d' \<Longrightarrow> fits d' v"
proof (induction d v arbitrary: d' rule: fits.induct)
  case (1 d vs)
  then show ?case by (auto intro: "1.IH" [of _ "d' - 1"])
next
  case (2 d kvs)
  then show ?case by (auto intro: "2.IH" [of _ "d' - 1"])
qed simp_all

text \<open>Documents the encoder prints as they are, nested at most \<open>d\<close> deep.\<close>

definition canonical_doc :: "nat \<Rightarrow> json \<Rightarrow> bool" where
  "canonical_doc d v \<longleftrightarrow> plain v \<and> fits d v \<and> sorted_json v = v"

lemma canonical_doc_str [simp]: "canonical_doc d (JStr s)" "canonical_doc d JNull"
  by (simp_all add: canonical_doc_def)

lemma canonical_doc_obj [simp]:
  "sorted (map fst kvs) \<Longrightarrow>
   canonical_doc d (JObj kvs) \<longleftrightarrow>
     0 < d \<and> distinct (map fst kvs) \<and> (\<forall>kv \<in> set kvs. canonical_doc (d - 1) (snd kv))"
  by (auto simp: canonical_doc_def sorted_json_obj simp del: sorted_json.simps(2)
      intro!: map_idI prod_eqI dest!: map_eq_conv [THEN iffD1, of _ kvs id, simplified])

lemma canonical_doc_list [simp]:
  "canonical_doc d (JList vs) \<longleftrightarrow> 0 < d \<and> (\<forall>v \<in> set vs. canonical_doc (d - 1) v)"
  by (auto simp: canonical_doc_def intro!: map_idI dest!: map_eq_conv [THEN iffD1, of _ vs id, simplified])

lemma canonical_doc_int [simp]: "\<bar>i\<bar> < 10 ^ 24 \<Longrightarrow> canonical_doc d (JInt i)"
proof -
  assume i: "\<bar>i\<bar> < 10 ^ 24"
  have "(10::int) ^ 24 \<le> 10 ^ MAX_INT_DIGITS"
    by (rule power_increasing) (simp_all add: MAX_INT_DIGITS_def)
  with i have "\<bar>i\<bar> < 10 ^ MAX_INT_DIGITS" by linarith
  then show ?thesis by (simp add: canonical_doc_def nat_less_iff)
qed

lemma canonical_doc_opt [simp]:
  "canonical_doc d (opt_json f x) \<longleftrightarrow> (\<forall>v. x = Some v \<longrightarrow> canonical_doc d (f v))"
  by (auto simp: opt_json_def split: option.splits)

lemma canonical_doc_instant [simp]: "canonical_doc d (instante_para_json t)"
  by (simp add: instante_para_json_def)

lemma piap_version_small: "piap_version n \<Longrightarrow> canonical_doc d (JInt n)"
  by (simp add: piap_version_def MAX_PIAP_VERSION_NUMBER_def)

lemma total_micros_small:
  "valid_timedelta t \<Longrightarrow> 0 < total_micros t \<Longrightarrow> canonical_doc d (JInt (total_micros t))"
  by (rule canonical_doc_int) (auto simp: valid_timedelta_def total_micros_def)

lemma canonical_doc_source:
  "valid_source r \<Longrightarrow> canonical_doc (Suc d) (source_reference_para_json r)"
  by (simp add: source_reference_para_json_def valid_source_def piap_version_small)

lemma canonical_doc_approval:
  "valid_approval a \<Longrightarrow> canonical_doc (Suc (Suc d)) (approval_para_json a)"
  by (simp add: approval_para_json_def valid_approval_def piap_version_small)

lemma canonical_doc_subject:
  "valid_subject s \<Longrightarrow> canonical_doc (Suc (Suc d)) (subject_para_json s)"
  by (simp add: subject_para_json_def horizon_para_json_def valid_subject_def valid_horizon_def total_micros_small)

lemma canonical_doc_provenance:
  "valid_provenance p \<Longrightarrow> canonical_doc (Suc (Suc d)) (provenance_para_json p)"
  by (simp add: provenance_para_json_def valid_provenance_def canonical_doc_source)

lemma canonical_doc_authority:
  "valid_authority c \<Longrightarrow> canonical_doc (Suc (Suc (Suc d))) (authority_para_json c)"
  by (cases "ac_approval c")
     (simp_all add: authority_para_json_def valid_authority_def canonical_doc_approval)

lemma canonical_doc_envelope:
  assumes "valid_envelope e" and "4 \<le> d"
  shows "canonical_doc d (envelope_para_json e)"
proof -
  obtain k where "d = Suc (Suc (Suc (Suc k)))"
    using assms(2) by (intro that [of "d - 4"]) simp
  with assms(1) show ?thesis
    by (simp add: envelope_para_json_def valid_envelope_def canonical_doc_source canonical_doc_subject
        canonical_doc_provenance canonical_doc_authority)
qed

lemma chaves_exatas_obj:
  "set (map fst kvs) = set ks \<Longrightarrow>
   chaves_exatas ks (JObj kvs) = Inr (\<lambda>k. case map_of kvs k of Some v \<Rightarrow> v | None \<Rightarrow> JNull)"
  by (simp add: chaves_exatas_def)

lemma uuid_canonico_str [simp]: "uuid_canonico (JStr (str_uuid u)) = Inr u"
  by (simp add: uuid_canonico_def parse_str_uuid)

lemma instante_de_para [simp]:
  "canonical_instant t \<Longrightarrow> instante_de_json l (instante_para_json t) = Inr t"
  by (auto simp: canonical_instant_def instante_de_json_def instante_para_json_def iso_z_utc
      fromisoformat_wall [simplified] butlast_append)

lemma nullable_opt:
  "(\<And>v. x = Some v \<Longrightarrow> f (g v) = Inr v \<and> g v \<noteq> JNull) \<Longrightarrow> nullable f (opt_json g x) = Inr x"
  by (cases x) (auto simp: nullable_def opt_json_def)

lemma versao_piap_int [simp]: "piap_version n \<Longrightarrow> versao_piap (JInt n) = Inr n"
  by (simp add: versao_piap_def piap_version_def)

lemma membro_str [simp]:
  "member_of val ms (val m) = Some m \<Longrightarrow> membro val ms (JStr (val m)) = Inr m"
  by (simp add: membro_def)

lemma timedelta_de_total [simp]:
  "valid_timedelta d \<Longrightarrow> timedelta_de_microssegundos (total_micros d) = Inr d"
  by (simp add: timedelta_de_microssegundos_def timedelta_of_total)

lemma traverse_texto [simp]: "traverse texto (map JStr xs) = Inr xs"
  by (induction xs) simp_all

lemmas keys_defs =
  KEYS_SOURCE_REFERENCE_def KEYS_HORIZON_def KEYS_SUBJECT_def KEYS_PROVENANCE_def KEYS_BOUND_TO_def
  KEYS_APPROVAL_def KEYS_AUTHORITY_def KEYS_ENVELOPE_def

lemma source_de_para:
  "valid_source r \<Longrightarrow> source_reference_de_json (source_reference_para_json r) = Inr r"
  by (cases r)
     (auto simp: source_reference_de_json_def source_reference_para_json_def chaves_exatas_def keys_defs
       valid_source_def nullable_opt make_provenance_kind_def make_source_iff run_iffs
       andthen_eq_Inr)

lemma traverse_source:
  "\<forall>r \<in> set rs. valid_source r \<Longrightarrow>
   traverse source_reference_de_json (map source_reference_para_json rs) = Inr rs"
  by (induction rs) (simp_all add: source_de_para)

lemma instante_not_null [simp]: "instante_para_json t \<noteq> JNull"
  by (simp add: instante_para_json_def)

lemma approval_de_para:
  assumes "valid_approval a"
  shows "approval_de_json l (approval_para_json a) = Inr a"
proof -
  have opt: "nullable texto (opt_json JStr (ab_jurisdiction a)) = Inr (ab_jurisdiction a)"
    "nullable (instante_de_json l) (opt_json instante_para_json (ab_expiry a)) = Inr (ab_expiry a)"
    using assms by (auto intro!: nullable_opt simp: valid_approval_def)
  have len: "\<not> MAX_APPROVAL_SCOPE_ITEMS < length (ab_scope a)" and ver: "piap_version (ab_version a)"
    using assms by (simp_all add: valid_approval_def canonical_scope_def)
  show ?thesis
    using make_approval_fields [OF assms] opt len ver
    by (cases "ab_bound_to a") (simp add: approval_de_json_def approval_para_json_def chaves_exatas_def keys_defs)
qed

lemma approval_not_null: "approval_para_json a \<noteq> JNull"
  by (simp add: approval_para_json_def)

lemma authority_de_para:
  assumes "valid_authority c"
  shows "authority_de_json l (authority_para_json c) = Inr c"
proof -
  have "nullable (approval_de_json l) (opt_json approval_para_json (ac_approval c)) = Inr (ac_approval c)"
    using assms
    by (auto intro!: nullable_opt simp: valid_authority_def approval_de_para approval_not_null)
  then show ?thesis
    using make_authority_fields [OF assms]
    by (simp add: authority_de_json_def authority_para_json_def chaves_exatas_def keys_defs)
qed

lemma provenance_de_para:
  assumes "valid_provenance p"
  shows "provenance_de_json l (provenance_para_json p) = Inr p"
proof -
  have "nullable texto (opt_json JStr x) = Inr x" for x
    by (rule nullable_opt) simp
  moreover have "valid_source (pr_origin p)" "canonical_instant (pr_recorded_at p)"
    using assms by (simp_all add: valid_provenance_def)
  ultimately show ?thesis
    using make_provenance_fields [OF assms]
    by (simp add: provenance_de_json_def provenance_para_json_def chaves_exatas_def keys_defs source_de_para)
qed

lemma subject_de_para:
  assumes "valid_subject s"
  shows "subject_de_json l (subject_para_json s) = Inr s"
proof -
  have h: "valid_horizon (cs_horizon s)" using assms by (simp add: valid_subject_def)
  then have "horizon_de_json l (horizon_para_json (cs_horizon s)) = Inr (cs_horizon s)"
    using make_horizon_fields [OF h]
    by (simp add: horizon_de_json_def horizon_para_json_def chaves_exatas_def keys_defs valid_horizon_def)
  moreover have "make_claim_subject (cs_target s) (cs_signal s) (cs_horizon s) = Inr s"
    using assms by (simp add: make_subject_iff valid_subject_def)
  ultimately show ?thesis
    by (simp add: subject_de_json_def subject_para_json_def chaves_exatas_def keys_defs)
qed

lemma envelope_de_para:
  assumes "valid_envelope e"
  shows "envelope_de_json l (envelope_para_json e) = Inr e"
proof -
  have v: "valid_subject (pe_subject e)" "valid_provenance (pe_provenance e)" "valid_authority (pe_authority e)"
    "\<forall>r \<in> set (pe_payload_refs e). valid_source r" "\<not> MAX_PAYLOAD_REFERENCES < length (pe_payload_refs e)"
    "canonical_instant (pe_sealed_at e)"
    using assms by (simp_all add: valid_envelope_def)
  show ?thesis
    using make_envelope_fields [OF assms] v
    by (simp add: envelope_de_json_def envelope_para_json_def chaves_exatas_def keys_defs
        subject_de_para provenance_de_para authority_de_para traverse_source)
qed

lemma deserialize_serialized:
  assumes "valid_envelope e" and "serialize_piap_envelope e = Inr b"
    and "length b \<le> MAX_PIAP_INPUT_BYTES" and "4 \<le> depth"
  shows "deserialize_piap_envelope fl lenient depth b = Inr e"
proof -
  have u: "utf8 (dumps (envelope_para_json e)) = Some b"
    using assms(2) by (auto simp: serialize_piap_envelope_def split: option.splits)
  have doc: "canonical_doc depth (envelope_para_json e)"
    by (rule canonical_doc_envelope [OF assms(1,4)])
  have "json_loads_with (piap_hooks fl) depth (dumps (envelope_para_json e)) = Inr (envelope_para_json e)"
    using json_loads_dumps [OF piap_hooks_keep, of "envelope_para_json e" depth fl] doc
    by (simp add: canonical_doc_def)
  then show ?thesis
    using assms u by (simp add: deserialize_piap_envelope_def utf8_decode_utf8 [OF u] envelope_de_para
        exigir_bytes_canonicos_def)
qed

text \<open>Two payloads that are read as the same envelope are the same payload.\<close>

lemma deserialize_inj:
  "deserialize_piap_envelope fl l d b = Inr e \<Longrightarrow> deserialize_piap_envelope fl' l' d' b' = Inr e \<Longrightarrow> b = b'"
  by (metis deserialized_canonical sum.inject(2))

end
