(* ===== verification/Accessibility.thy ===== *)
theory Accessibility
  imports AccessSample PiapBytes
begin

text \<open>
  The properties of the predictive layer, from the bytes of an envelope to the routes of a batch,
  each with a witness at the run of \<open>AccessSample\<close>.
\<close>

section \<open>The boundary\<close>

text \<open>
  C35: the boundary accepts exactly the canonical bytes. A payload is read as an envelope precisely when the
  envelope satisfies every contract of its value objects, the payload is byte for byte its canonical
  serialization and the payload is within the limit of 262144 bytes. So nothing that was written is refused,
  nothing else is accepted, and two payloads that differ are two envelopes. The recursion limit of the reader
  has to allow the four levels an envelope has.
\<close>

theorem boundary_accepts_canonical:
  "deserialize_piap_envelope fl lenient (depth + 4) payload = Inr e \<longleftrightarrow>
     valid_envelope e \<and> serialize_piap_envelope e = Inr payload \<and> length payload \<le> MAX_PIAP_INPUT_BYTES"
  using deserialized_canonical [of fl lenient "depth + 4" payload e]
    deserialized_valid [of fl lenient "depth + 4" payload e]
    deserialize_serialized [of e payload "depth + 4" fl lenient]
  by auto

section \<open>Approvals\<close>

text \<open>
  C36: what an approval needs to be valid for an evaluation. The step of the coordinator answers
  \<^verbatim>\<open>VALID\<close> exactly when the arguments are canonical and the envelope carries an approval that
  is asserted as authorized, is bound to the kind of object the context expects, has the expected version,
  the expected jurisdiction when one is expected, a scope that covers the whole required scope, and an expiry,
  if it has one, strictly after the instant of the evaluation.
\<close>

theorem approval_valid_exactly:
  "approval_validation env t ver scope jur kind = Inr APPROVAL_VALID \<longleftrightarrow>
     (\<exists>u. canonizar_instante t = Inr u) \<and> piap_version ver \<and> canonical_scope scope \<and>
     pred_option opaque_ref jur \<and>
     (\<exists>a. ac_approval (pe_authority env) = Some a \<and> ac_status (pe_authority env) = ASSERTED_AUTHORIZED \<and>
        bo_kind (ab_bound_to a) = kind \<and> ab_version a = ver \<and> (jur = None \<or> ab_jurisdiction a = jur) \<and>
        set scope \<subseteq> set (ab_scope a) \<and> pred_option (\<lambda>x. instant t < instant x) (ab_expiry a))"
proof (cases "ac_approval (pe_authority env)")
  case (Some a)
  then show ?thesis
    by (auto simp: approval_validation_def validate_approval_Inr approval_valid_iff option.pred_set
        eq_commute [of APPROVAL_VALID])
qed (simp add: approval_validation_def)

section \<open>Protections\<close>

text \<open>
  C37: no protection is sustained without its authority. In a protection set every accepted candidate answers
  one of the inputs and claims an effect, its authority is the approval of the envelope - same reference, same
  version, same jurisdiction, no wider scope, a window that contains the instant and does not outlive the
  approval -, its owner, window, reversibility and triggers are present, no real conflict is open, and no two
  accepted candidates exclude one another. Every candidate ends in exactly one of the three classes, and an
  answer is complete only when nothing is unresolved and every required front has a candidate.
\<close>

theorem protections_are_sustained:
  assumes "protection_set_of cands as ev binding conf moment scope needed inventory = Inr p"
  shows "(\<forall>c \<in> set (ps_accepted p).
      (\<exists>i \<in> set cands. cd_identifier c = ci_identifier i \<and> ci_effect_claimed i \<and>
         (\<exists>m b. ci_authority i = Some m \<and> binding = Some b \<and> sustains m ev b moment scope)) \<and>
      as_authority_state as = STATE_AUTHORIZED \<and> \<not> blocks_material_support conf \<and>
      cd_owner c \<noteq> None \<and> cd_time_window c \<noteq> None \<and> cd_reversibility c \<noteq> None \<and> cd_triggers c \<noteq> []) \<and>
    (\<forall>c \<in> set (ps_accepted p). \<forall>d \<in> set (ps_accepted p). cd_identifier d \<notin> set (cd_incompatible_with c)) \<and>
    length (ps_accepted p) + length (ps_rejected p) + length (ps_unresolved p) = length cands \<and>
    (complete_answer_allowed p \<longrightarrow>
      ps_unresolved p = [] \<and> set needed \<subseteq> ci_identifier ` set cands)"
proof -
  obtain cs where run: "traverse (classificar as ev binding conf moment scope) cands = Inr cs"
    using assms by (cases "traverse (classificar as ev binding conf moment scope) cands")
      (simp_all add: protection_set_of_def)
  then have cs: "list_all2 (\<lambda>i c. classificar as ev binding conf moment scope i = Inr c) cands cs"
    by (simp only: traverse_eq_Inr)
  from run assms have p: "ps_accepted p = supported (final_candidates cs)"
      "ps_rejected p = filter (\<lambda>c. cd_materiality c = NOT_SUPPORTED) (final_candidates cs)"
      "ps_unresolved p = filter (\<lambda>c. cd_materiality c = MATERIALITY_UNRESOLVED) (final_candidates cs)"
      "ps_coverage p = coverage_of cands needed inventory"
    by (auto simp: protection_set_of_def Let_def)
  have accepted: "c \<in> set cs \<and> cd_materiality c = SUPPORTED" if "c \<in> set (ps_accepted p)" for c
    using accepted_in_final that p(1) by (auto simp: supported_def)
  have source: "\<exists>i \<in> set cands. classificar as ev binding conf moment scope i = Inr c" if mem: "c \<in> set cs" for c
  proof -
    obtain j where j: "j < length cs" "cs ! j = c" using mem by (auto simp: in_set_conv_nth)
    with list_all2_nthD2 [OF cs j(1)] list_all2_lengthD [OF cs] show ?thesis by auto
  qed
  have 1: "\<forall>c \<in> set (ps_accepted p).
      (\<exists>i \<in> set cands. cd_identifier c = ci_identifier i \<and> ci_effect_claimed i \<and>
         (\<exists>m b. ci_authority i = Some m \<and> binding = Some b \<and> sustains m ev b moment scope)) \<and>
      as_authority_state as = STATE_AUTHORIZED \<and> \<not> blocks_material_support conf \<and>
      cd_owner c \<noteq> None \<and> cd_time_window c \<noteq> None \<and> cd_reversibility c \<noteq> None \<and> cd_triggers c \<noteq> []"
  proof
    fix c assume "c \<in> set (ps_accepted p)"
    then have c: "c \<in> set cs" "cd_materiality c = SUPPORTED" using accepted by blast+
    then obtain i where i: "i \<in> set cands" "classificar as ev binding conf moment scope i = Inr c"
      using source by blast
    from classificar_supported [OF i(2) c(2)] classificar_identifier [OF i(2)] i(1)
    show "(\<exists>i \<in> set cands. cd_identifier c = ci_identifier i \<and> ci_effect_claimed i \<and>
         (\<exists>m b. ci_authority i = Some m \<and> binding = Some b \<and> sustains m ev b moment scope)) \<and>
      as_authority_state as = STATE_AUTHORIZED \<and> \<not> blocks_material_support conf \<and>
      cd_owner c \<noteq> None \<and> cd_time_window c \<noteq> None \<and> cd_reversibility c \<noteq> None \<and> cd_triggers c \<noteq> []"
      by blast
  qed
  have 2: "\<forall>c \<in> set (ps_accepted p). \<forall>d \<in> set (ps_accepted p). cd_identifier d \<notin> set (cd_incompatible_with c)"
    unfolding p(1) using accepted_compatible by blast
  have 3: "length (ps_accepted p) + length (ps_rejected p) + length (ps_unresolved p) = length cands"
    using materiality_partition [of "final_candidates cs"] list_all2_lengthD [OF cs]
    by (simp add: p supported_def)
  have 4: "complete_answer_allowed p \<longrightarrow> ps_unresolved p = [] \<and> set needed \<subseteq> ci_identifier ` set cands"
    by (auto simp: complete_answer_allowed_def has_unresolved_branch_def p(4) coverage_of_def Let_def
        filter_empty_conv split: if_splits)
  from 1 2 3 4 show ?thesis by blast
qed

theorem protections_are_sustained_witness:
  "\<exists>as p. protection_set_of [sample_protective] as sample_evaluation (Some sample_approval) (agreed [] [])
      sample_instant [pys ''north''] [pys ''shelter''] (Some (pys ''inv'')) = Inr p \<and>
     length (ps_accepted p) = 1 \<and> length (ps_rejected p) + length (ps_unresolved p) = 0"
proof -
  have free: "\<not> blocks_safe_route (agreed [] [])" by (simp add: agreed_def blocks_safe_route_def)
  have "pys ''keep'' \<noteq> []" by simp
  then obtain as where "assertiveness_of sample_evaluation (pys ''keep'')
      (gi_decisive_constraint (sample_governed (pys ''keep''))) (agreed [] []) = Inr as"
    and as: "as_authority_state as = STATE_AUTHORIZED"
    by (rule sample_assertive [OF free])
  have g: "gi_candidates (sample_governed c) = [sample_protective]"
    "gi_materiality_scope (sample_governed c) = [pys ''north'']"
    "gi_protection_identifiers (sample_governed c) = [pys ''shelter'']"
    "gi_inventory_reference (sample_governed c) = Some (pys ''inv'')" for c
    by (simp_all only: sample_governed_def governed_input.select_convs)
  obtain p where p: "protection_set_of [sample_protective] as sample_evaluation (Some sample_approval)
      (agreed [] []) sample_instant [pys ''north''] [pys ''shelter''] (Some (pys ''inv'')) = Inr p"
    and "complete_answer_allowed p" and acc: "map cd_identifier (ps_accepted p) = [pys ''shelter'']"
    by (rule sample_protected [OF free as, unfolded g])
  from arg_cong [OF acc, of length] have one: "length (ps_accepted p) = 1" by simp
  have "length (ps_accepted p) + length (ps_rejected p) + length (ps_unresolved p) = length [sample_protective]"
    using protections_are_sustained [OF p] by blast
  with one have "length (ps_rejected p) + length (ps_unresolved p) = 0" by simp
  with p one show ?thesis by blast
qed

section \<open>Routes\<close>

text \<open>
  C38: a batch is routed in its order, and no route is given away. When a request went through the
  coordinator and its batch was routed, there is one outcome per item, in the same position. An item that
  was unavailable upstream, or that has a channel whose lag exceeds the offset of the observation, ran no
  science and has no route. Every other item has a route that its evaluation carries: PREDICT only for a
  predictable state, INVESTIGATE only for an unresolved one, ROBUST only with a valid approval and a complete
  protective answer, RECONFIGURE only when the gate inserted the promotion of the candidate the valid approval
  of the envelope is bound to; an abstention names its limits. An alternative is recommended only with valid
  guidance, a complete answer and when it is the one alternative no other is a lesser burden than. No route is
  withheld either: the route is the one \<open>decided_route\<close> names for the state, the approval, the promotion, the
  completeness of the answer and the conflict of the item. Nothing else counts, so that the routing is narrower than
  \<^verbatim>\<open>E5_0_ARCHITECTURE_FREEZE.md\<close> and \<^verbatim>\<open>E5_0_CONFLICT_AND_ASSERTIVENESS.md\<close>: a regime that
  is not identified yet does not lead to INVESTIGATE, and there is no route for a composite question.
\<close>

theorem routes_are_justified:
  assumes "evaluate_and_reconfigure_batch lib coll views items instrs = Inr (b, written)"
    and "route_batch b governed moment = Inr r" and "i < length items"
  shows "length (rt_outcomes r) = length items \<and>
    (case items ! i of
       Unavailable u \<Rightarrow> rt_outcomes r ! i = RoutingUpstream (up_reference u)
     | Ready it \<Rightarrow>
         if \<exists>ch \<in> set (cr_channels (ec_registry (ri_context it))). ec_observed_at_offset (ri_context it) < ch_lag ch
         then \<exists>k. rt_outcomes r ! i = RoutingRejected k
         else \<exists>ev g f. evaluate_available lib it = Inr ev \<and> governed ! i = Some g \<and>
                rt_outcomes r ! i = Routed f \<and> route_justified (ri_envelope it) ev (written ! i) f \<and>
                recommendation_justified g f \<and>
                fr_route f = decided_route (ev_state ev) (ev_approval ev) (promoted (cb_sidecar b ! i))
                  (rq_complete_answer_allowed (fr_quality f)) (blocks_safe_route (fr_conflict f)))"
proof -
  note pos = coordinated_nth [OF assms(1)]
  obtain bx where "conflict_for_batch b governed = Inr bx" "length governed = length (cb_outcomes b)"
    "length (rt_outcomes r) = length (cb_outcomes b)"
    and route: "\<forall>j < length (cb_outcomes b).
      route_item (cb_outcomes b ! j) (governed ! j) (cb_sidecar b ! j) (cb_approval_bindings b ! j)
        (bx_per_item bx ! j) moment = Inr (rt_outcomes r ! j)"
    by (rule route_batch_nth [OF assms(2)])
  then have len: "length (rt_outcomes r) = length items" using pos(1) by simp
  have here: "route_item (cb_outcomes b ! i) (governed ! i) (cb_sidecar b ! i) (cb_approval_bindings b ! i)
        (bx_per_item bx ! i) moment = Inr (rt_outcomes r ! i)"
    using route assms(3) pos(1) by simp
  note out = pos(5) [OF assms(3)] and side = pos(6) [OF assms(3)]
  show ?thesis
  proof (cases "items ! i")
    case (Unavailable u)
    with out have "cb_outcomes b ! i = UpstreamUnavailable u" by simp
    with here len Unavailable show ?thesis by (simp add: route_item_def)
  next
    case (Ready it)
    show ?thesis
    proof (cases "unavailable_channels (ri_context it) = []")
      case False
      then have "\<exists>ch \<in> set (cr_channels (ec_registry (ri_context it))). ec_observed_at_offset (ri_context it) < ch_lag ch"
        by (auto simp: unavailable_channels_def availability_def filter_empty_conv not_le)
      moreover obtain k where "rt_outcomes r ! i = RoutingRejected k"
        using here unfolding evaluate_lagging [OF False out [unfolded Ready]] route_item_rejected by blast
      ultimately show ?thesis using Ready len by auto
    next
      case True
      then have none: "\<not> (\<exists>ch \<in> set (cr_channels (ec_registry (ri_context it))).
          ec_observed_at_offset (ri_context it) < ch_lag ch)"
        by (auto simp: unavailable_channels_def availability_def filter_empty_conv)
      obtain ev where ev: "evaluate_available lib it = Inr ev" "cb_outcomes b ! i = Evaluated ev"
        using out Ready True by (auto simp: andthen_eq_Inr)
      obtain g conf f where g: "governed ! i = Some g" and f: "rt_outcomes r ! i = Routed f"
        and run: "route_evaluated ev g (promoted (cb_sidecar b ! i)) (cb_approval_bindings b ! i) conf moment = Inr f"
        using here unfolding ev(2) route_item_evaluated by blast
      have prom: "ev_state ev = PREDICTABLE \<and> ra_status (ev_regime ev) = REGIME_SHIFT_CANDIDATE \<and>
        (\<exists>e a. written ! i = Some e \<and> ac_approval (pe_authority (ri_envelope it)) = Some a \<and> re_kind e = PROMOTE \<and>
           re_active_candidate_ref e = bo_ref (ab_bound_to a) \<and> re_to_version e = ab_version a)"
        if "promoted (cb_sidecar b ! i)"
        using sidecar_promoted [OF side [unfolded Ready ev(2)] that] by metis
      have "route_justified (ri_envelope it) ev (written ! i) f \<and> recommendation_justified g f"
        using route_evaluated_justified(1,2) [OF run prom] by blast
      with route_decided [OF run] ev(1) g f Ready len none show ?thesis by auto
    qed
  qed
qed

theorem routes_are_justified_witness:
  "\<exists>r f. route_batch sample_batch [Some (sample_governed (pys ''keep'')), None] sample_instant = Inr r \<and>
     rt_outcomes r ! 0 = Routed f \<and> fr_route f = Some RECONFIGURE \<and> fr_recommended f = Some A0_INACTION \<and>
     length (rt_outcomes r) = length sample_request \<and>
     route_justified sample_envelope sample_evaluation (Some sample_event) f \<and>
     recommendation_justified (sample_governed (pys ''keep'')) f \<and>
     decided_route PREDICTABLE APPROVAL_VALID True (rq_complete_answer_allowed (fr_quality f))
       (blocks_safe_route (fr_conflict f)) = Some RECONFIGURE"
proof -
  obtain r f where r: "route_batch sample_batch [Some (sample_governed (pys ''keep'')), None] sample_instant = Inr r"
    "rt_outcomes r = [Routed f, RoutingUpstream (pys ''x'')]"
    "fr_route f = Some RECONFIGURE" "fr_recommended f = Some A0_INACTION"
    by (rule sample_route_batch)
  have first: "sample_request ! 0 = Ready sample_item" "0 < length sample_request"
    by (simp_all add: sample_request_def)
  have chans: "\<not> (\<exists>ch \<in> set (cr_channels (ec_registry (ri_context sample_item))).
      ec_observed_at_offset (ri_context sample_item) < ch_lag ch)" "ri_envelope sample_item = sample_envelope"
    by (simp_all add: sample_item_def sample_context_def)
  have parts: "ev_state sample_evaluation = PREDICTABLE" "ev_approval sample_evaluation = APPROVAL_VALID"
      "promoted (cb_sidecar sample_batch ! 0)"
    by (simp_all add: sample_evaluation_def sample_batch_def sample_promotion_def)
  from routes_are_justified [OF sample_coordinated r(1) first(2)]
  have "length (rt_outcomes r) = length sample_request \<and>
    route_justified sample_envelope sample_evaluation (Some sample_event) f \<and>
    recommendation_justified (sample_governed (pys ''keep'')) f \<and>
    fr_route f = decided_route PREDICTABLE APPROVAL_VALID True
      (rq_complete_answer_allowed (fr_quality f)) (blocks_safe_route (fr_conflict f))"
    unfolding first(1) request_item.case if_not_P [OF chans(1)] chans(2) sample_evaluate_available r(2)
    by (simp add: parts del: pys_Cons)
  with r show ?thesis by (auto simp del: pys_Cons)
qed

text \<open>A predictable claim whose regime is a shift candidate that was not promoted is still routed to PREDICT.\<close>

lemma candidate_regime_predicts:
  "\<exists>f. ra_status (ev_regime sample_evaluation) = REGIME_SHIFT_CANDIDATE \<and>
     route_evaluated sample_evaluation (sample_governed (pys ''keep'')) False (Some sample_approval)
       (agreed [] []) sample_instant = Inr f \<and> fr_route f = Some PREDICT"
proof -
  obtain f where f: "route_evaluated sample_evaluation (sample_governed (pys ''keep'')) False (Some sample_approval)
      (agreed [] []) sample_instant = Inr f"
    using sample_route_any [of "pys ''keep''" False "agreed [] []"] by auto
  have "\<not> blocks_safe_route (fr_conflict f)"
    using route_conflict [OF f] by (simp add: agreed_def blocks_safe_route_def)
  with f route_decided [OF f] show ?thesis by (simp add: sample_evaluation_def decided_route_def)
qed

text \<open>
  C39: contradictions block both sides. In a routed batch an evaluated item is refused a route for conflict
  exactly when an evaluated item of the same batch has the same comparability key and another conclusion; it
  then has no route and no recommended alternative, whatever its state, its approval and its promotion.
  Differences between items of different keys never count as a conflict.
\<close>

theorem contradiction_blocks_route:
  assumes "route_batch b governed moment = Inr r" and "i < length (cb_outcomes b)"
    and "cb_outcomes b ! i = Evaluated ev" and "governed ! i = Some g"
  shows "\<exists>f. rt_outcomes r ! i = Routed f \<and>
    (if contradicted (cb_outcomes b) governed g
     then fr_reason f = NoRouteConflict \<and> fr_route f = None \<and> fr_recommended f = None
     else fr_reason f \<noteq> NoRouteConflict)"
proof -
  obtain bx where bx: "conflict_for_batch b governed = Inr bx"
    and "length governed = length (cb_outcomes b)" "length (rt_outcomes r) = length (cb_outcomes b)"
    and route: "\<forall>j < length (cb_outcomes b).
      route_item (cb_outcomes b ! j) (governed ! j) (cb_sidecar b ! j) (cb_approval_bindings b ! j)
        (bx_per_item bx ! j) moment = Inr (rt_outcomes r ! j)"
    by (rule route_batch_nth [OF assms(1)])
  obtain conf where conf: "bx_per_item bx ! i = Some conf"
    "blocks_safe_route conf \<longleftrightarrow> contradicted (cb_outcomes b) governed g"
    by (rule blocks_iff_contradicted [OF bx assms(2-4)])
  obtain f where f: "rt_outcomes r ! i = Routed f"
    and run: "route_evaluated ev g (promoted (cb_sidecar b ! i)) (cb_approval_bindings b ! i) conf moment = Inr f"
    using route [rule_format, OF assms(2)] unfolding assms(3,4) conf(1) route_item_evaluated by blast
  have "(fr_reason f = NoRouteConflict) = blocks_safe_route conf"
    "blocks_safe_route conf \<Longrightarrow> fr_route f = None \<and> fr_recommended f = None"
    using run by (rule route_blocked)+
  with f conf(2) show ?thesis by auto
qed

theorem contradiction_blocks_route_witness:
  "\<exists>r f. route_batch clash_batch clash_inputs sample_instant = Inr r \<and>
     rt_outcomes r ! 0 = Routed f \<and> fr_route f = None \<and> fr_reason f = NoRouteConflict"
proof -
  obtain r where r: "route_batch clash_batch clash_inputs sample_instant = Inr r"
    using clash_routed by blast
  have here: "0 < length (cb_outcomes clash_batch)" "cb_outcomes clash_batch ! 0 = Evaluated sample_evaluation"
    "clash_inputs ! 0 = Some (sample_governed (pys ''keep''))"
    by (simp_all add: clash_batch_def clash_inputs_def)
  have "contradicted (cb_outcomes clash_batch) clash_inputs (sample_governed (pys ''keep''))"
    unfolding contradicted_def
    by (rule exI [of _ 1]) (simp add: clash_batch_def clash_inputs_def sample_governed_def)
  with contradiction_blocks_route [OF r here] r show ?thesis by auto
qed

section \<open>The log of reconfigurations\<close>

text \<open>
  C40: the log of reconfigurations is a gapless history. Whatever sessions call the two gates, in whatever
  interleaving and however stale the rows their statements read, the events of a subject are numbered
  1, 2, 3, ... in the order they were inserted, no event identity repeats, the current version is their number,
  every event is bound to an approval of exactly its version for exactly its active candidate, and every
  rollback reinstates the candidate and the payload of an earlier event of the same subject.
\<close>

theorem log_is_gapless:
  assumes "log_reach coll rows"
  shows "(\<forall>k. map re_to_version (of_subject k rows) = [1..int (length (of_subject k rows))] \<and>
       actual_version rows k = int (length (of_subject k rows))) \<and>
    distinct (map re_event_id rows) \<and>
    (\<forall>before e later. rows = before @ e # later \<longrightarrow>
       re_approval_bound_ref e = re_active_candidate_ref e \<and> re_approval_version e = re_to_version e \<and>
       re_from_version e = int (length (of_subject (re_subject_key e) before)) \<and>
       (re_kind e = ROLLBACK \<longrightarrow>
          (\<exists>t \<in> set before. re_rollback_of e = Some (re_event_id t) \<and> re_subject_key t = re_subject_key e \<and>
             re_active_candidate_ref t = re_active_candidate_ref e \<and>
             re_payload_sha256 t = re_payload_sha256 e)))"
  using assms log_versions log_current log_ids_distinct log_event_bound by blast

theorem log_is_gapless_witness:
  "map re_to_version (of_subject sample_key [sample_event]) = [1] \<and>
   actual_version [sample_event] sample_key = 1 \<and> re_approval_version sample_event = 1"
proof -
  have "log_reach less_eq ([] @ [sample_event])"
    by (rule promotion [OF empty_log _ sample_gate]) (simp add: view_of_def empty_view_def)
  then have reach: "log_reach less_eq [sample_event]" by simp
  have "of_subject sample_key [sample_event] = [sample_event]"
    by (simp add: of_subject_def sample_event_row)
  moreover have "re_approval_version sample_event = re_to_version sample_event"
    using log_is_gapless [OF reach] by (metis append_Nil)
  ultimately show ?thesis
    using log_is_gapless [OF reach] by (simp add: sample_event_row)
qed

end
