(* ===== verification/Spec2Isabelle.thy ===== *)
theory Spec2Isabelle
  imports Contracts Accessibility
begin

text \<open>
  PIA-OS keeps a person's work that several external assistants carry out by hand. This library
  models two layers of its backend (\<^verbatim>\<open>src/backend/app\<close>), written in Python over
  PostgreSQL. In the orchestration layer (\<^verbatim>\<open>app/orchestration\<close>) a principal declares a
  schedule of steps, dispatches one step at a time as a sealed envelope, imports the text that came
  back, and keeps evidence of each of these acts. In the predictive layer
  (\<^verbatim>\<open>app/predictive_accessibility\<close>) a batch of claims, each in an envelope with the approval it
  carries, is evaluated, possibly promotes a model in a log of reconfigurations, and is routed.

  \<^bold>\<open>The program and its model.\<close>

  \<^item> \<open>Prelude\<close>, \<open>PyStd\<close>: computations over a database session that return or raise and keep
    the session in both cases; Python strings as code points, UTF-8, SHA-256,
    \<^verbatim>\<open>json.dumps\<close>, UUIDs and aware instants.
  \<^item> \<open>Vocabulary\<close>, \<open>Envelope\<close>, \<open>JsonRead\<close>, \<open>OutputContract\<close>: the closed
    enumerations with their declared transitions (\<^verbatim>\<open>models/enums.py\<close>), the value objects
    (\<^verbatim>\<open>schemas/envelope.py\<close>), the scanner of \<^verbatim>\<open>json.loads\<close> and the verdict on an
    untrusted return (\<^verbatim>\<open>schemas/output_contract.py\<close>).
  \<^item> \<open>Store\<close>, \<open>Constraints\<close>: the session as a record with one list of rows per table, and
    every column length, CHECK, unique index and foreign key as a check of an insertion, each named
    as the schema names it.
  \<^item> \<open>Repository\<close>, \<open>ScheduleService\<close>, \<open>ControlService\<close>, \<open>Connections\<close>,
    \<open>ExportService\<close>, \<open>ReturnValidation\<close>, \<open>CommandReceiptService\<close>, \<open>Query\<close>,
    \<open>Routes\<close>: one theory per service (two where they are small), one definition per method,
    under the name of the method, composed as the code composes them up to the handlers of
    \<^verbatim>\<open>routers/orchestration.py\<close> with their commits and rollbacks. Every raise is a
    constructor of \<open>error\<close>.

  A request is a call (\<open>serve\<close>) of a composition: the human gate and the transport are fields,
  and \<open>production\<close> is the composition the router builds (a gate that denies everything and the
  manual transport). \<open>reachable\<close> is what requests make of empty tables.

  The predictive layer has a group of definitions for each file of
  \<^verbatim>\<open>predictive_accessibility\<close>, under the English of its functions; the explanations it
  writes for people are constructors.

  \<^item> \<open>PiapAuthority\<close>, \<open>PiapEnvelope\<close>, \<open>PiapBytes\<close>: the envelope, its approval, its
    canonical bytes and the boundary that reads them (\<^verbatim>\<open>piap/\<close>), over \<open>JsonText\<close> (UTF-8
    back to text, the scanner on what the printer wrote) and \<open>IsoTime\<close> (ISO instants and
    durations).
  \<^item> \<open>PyFloat\<close>, \<open>FloatExact\<close>: binary64 as rationals rounded to nearest; \<open>Estimator\<close>:
    the fits, the bootstrap and the placebo (\<^verbatim>\<open>estimator.py\<close>, \<^verbatim>\<open>power.py\<close>);
    \<open>Claims\<close>: claim, channels, history, regime, horizon, approval and epistemic state.
  \<^item> \<open>Quality\<close>, \<open>Routing\<close>: conflict, assertiveness, protection, guidance, counterfactual,
    burden and the route. \<open>Reconfiguration\<close>: the two gates, the repository and the constraints
    of the log. \<open>Coordinator\<close>: \<^verbatim>\<open>batch.py\<close> and \<^verbatim>\<open>coordinator.py\<close>, which
    compose all of it.

  A request goes through \<open>make_evaluation_request\<close>, \<open>evaluate_and_reconfigure_batch\<close> and
  \<open>route_batch\<close>. What the statements of the log read is an argument (\<open>log_view\<close>), and
  \<open>log_reach\<close> is what gates of any sessions, interleaved, make of the empty log.

  \<^bold>\<open>What the lemmas show.\<close>

  \<^item> \<open>Progress\<close> states what an operation keeps as a contract (a locale over a relation between
    stores) and \<open>Integrity\<close> interprets it on the constraints of the schema, \<open>Idempotency\<close>
    and \<open>Isolation\<close> on the receipts and on the view of a principal.
  \<^item> \<open>Runs\<close>, \<open>ReturnRuns\<close> invert the successful runs; \<open>Effects\<close> proves that every
    handler refines the abstract relation \<open>change\<close>; \<open>Evolution\<close>, \<open>Lifecycle\<close>,
    \<open>Evidence\<close>, \<open>Gates\<close>, \<open>ControlLog\<close>, \<open>Deferred\<close> prove an invariant each over
    that relation, and the locale of \<open>Reachable\<close> carries them to every reachable database.
  \<^item> \<open>Storable\<close>, \<open>Liveness\<close>, \<open>Delivery\<close>, \<open>Reception\<close> compute weakest preconditions:
    creations, exports, grants and imports that do succeed and the rows they leave.
  \<^item> \<open>Registry\<close> follows one instance of the export service from its construction
    (\<open>service_reach\<close>) and interprets the contract of \<open>Progress\<close> on the cap of its registry.
  \<^item> \<open>Scenario\<close> is a concrete run used by the witnesses; \<open>Contracts\<close> has the properties of
    single components of the orchestration and this theory those of the service as a whole.
  \<^item> \<open>PiapBytes\<close> proves that reading inverts writing and that nothing else is read;
    \<open>ReconfigLog\<close> states what a log of versions promises as a locale and interprets it on the
    gates; \<open>Coordination\<close> follows one position of a batch through the coordinator, and states which
    route is given (\<open>decided_route\<close>);
    \<open>AccessSample\<close> is a run of the whole layer with dyadic numbers, and \<open>Accessibility\<close> has
    the properties.

  \<^bold>\<open>Bounds and fuel.\<close> The scanner of JSON spends one unit of fuel per call and is given twice the
  length of the text and one; \<open>json_loads_with_fuel\<close> shows it never runs out. The recursion limit
  of CPython is a parameter. The sums, fits, bootstraps and shuffles recur on their lists and counters. Everything else recurs
  on its data.

  \<^bold>\<open>Not modelled.\<close> A transaction is one atomic step: locks order concurrent transactions and have
  no effect inside one. HTTP parsing, status codes and authentication are outside the handlers.
  The conversion of a decimal literal to a float is a parameter, as are the logarithm and the power
  of the C library, the generator behind \<^verbatim>\<open>random.Random\<close>, the spellings of an instant
  beyond the canonical one that \<^verbatim>\<open>fromisoformat\<close> reads, and the collation of the database.
  The two zeros of a float are one value: no branch tells them apart. The HTTP schemas of the
  predictive layer and their mapping to the records of a batch are not modelled. The migrations are modelled as the
  constraints they leave, not as programs; the append-only triggers are not needed, because no
  modelled method updates those rows. The rows leave out \<^verbatim>\<open>updated_at\<close>
  (\<^verbatim>\<open>models/mixins.py\<close>, which the database sets again at every update), \<^verbatim>\<open>created_at\<close>
  where no code reads it, and \<^verbatim>\<open>provenance_record_ref\<close> of an attribution, which is always
  \<^verbatim>\<open>NULL\<close>: that a row keeps its columns is said of the others. The clock is an argument of each
  request and need not advance from one to the next. The bridge of human protection, the connection catalogue, the memory and cognitive domains,
  the authorization broker, the MCP server, the SDK and the application shell are not modelled.
\<close>

section \<open>The service as a whole\<close>

text \<open>
  C1: every request refines the abstract specification. Whatever the principal, the key, the time and the
  arguments, and whether it is rolled back or not, the rows it leaves are reached from the rows it found by
  steps of the abstract relation \<open>change\<close>: command receipts of that principal are appended, and every
  other change of a row is one of the effects of the specification, from a well-formed database to a
  well-formed database.
\<close>

theorem request_refines:
  assumes "reachable c rt s" and "valid_call cl"
  shows "change c cp s (serve c rt n cp key cl s)"
proof (rule serve_change [OF reachable_wf [OF assms(1)] assms(2)])
  show "\<forall>a \<in> set (schedules s). sch_state a \<noteq> DRAFT"
    using reachable_life [OF assms(1)] by (simp add: life_def contents_def)
qed

theorem request_refines_witness:
  "change production (pys ''alice'') demo_created (serve production demo_rt 2 (pys ''alice'') (pys ''key'')
     (CallExport (Uuid 1) (Uuid 3)) demo_created)"
  by (rule request_refines [OF demo_reachable(1)]) simp

text \<open>
  C2: the constraints of the schema hold in every reachable database: every row passes its column and
  \<^verbatim>\<open>CHECK\<close> conditions, every primary key and every unique index (one position per schedule, one open
  attempt per step, one seal, one result and one attribution per attempt, one active delegation per step and
  scope, one live manual profile per principal) has one row per key, and every foreign key, the deferred ones
  included, refers to a row.
\<close>

theorem database_integrity:
  assumes "reachable c rt s"
  shows "wf_store s \<and> deferred_ok s"
  using reachable_wf [OF assms] reachable_deferred [OF assms] by simp

theorem database_integrity_witness: "wf_store demo_imported \<and> deferred_ok demo_imported"
  by (rule database_integrity [OF demo_reachable(3)])

text \<open>
  C3: rows are never lost and move only along the declared transitions. From any reachable database, whatever
  requests follow: receipts, seals, results, attributions, control events, observations, opinions, profiles and
  execution receipts are only appended; a schedule, a step and an attempt keep every column but the state, and
  the state moves along the transitions the deliveries declare; a delegation leaves the active state once.
\<close>

theorem database_evolves:
  assumes "reachable c rt s" and "reaches c rt s t"
  shows "evolves s t"
  using reaches_keeps [OF assms(2) reachable_wf [OF assms(1)] reachable_life [OF assms(1)]] by blast

theorem database_evolves_witness: "evolves demo_created (serve production demo_rt 2 (pys ''alice'') (pys ''key'')
     (CallExport (Uuid 1) (Uuid 3)) demo_created)"
  by (rule database_evolves [OF demo_reachable(1)]) (rule reaches.serve, rule reaches.start, simp)

section \<open>Life cycles\<close>

lemma no_transition: "(x, y) \<in> r\<^sup>* \<Longrightarrow> \<forall>z. (x, z) \<notin> r \<Longrightarrow> y = x"
  by (erule converse_rtranclE) auto

lemma terminal_row:
  "schedule_evolves a b \<Longrightarrow> sch_state a \<in> TERMINAL_SCHEDULE_STATES \<Longrightarrow> b = a"
  "step_evolves p q \<Longrightarrow> stp_state p \<in> {RETURNED, STEP_CANCELLED} \<Longrightarrow> q = p"
  "attempt_evolves x y \<Longrightarrow> att_state x \<noteq> OPEN \<Longrightarrow> y = x"
  "delegation_evolves d e \<Longrightarrow> dlg_state d \<in> TERMINAL_DELEGATION_STATES \<Longrightarrow> e = d"
proof -
  have "(sch_state a, z) \<notin> schedule_transitions" if "sch_state a \<in> TERMINAL_SCHEDULE_STATES" for z
    using that by (auto simp: transition_defs)
  then show "schedule_evolves a b \<Longrightarrow> sch_state a \<in> TERMINAL_SCHEDULE_STATES \<Longrightarrow> b = a"
    by (auto simp: schedule_evolves_def dest!: no_transition)
  have "(stp_state p, z) \<notin> step_transitions" if "stp_state p \<in> {RETURNED, STEP_CANCELLED}" for z
    using that by (auto simp: transition_defs)
  then show "step_evolves p q \<Longrightarrow> stp_state p \<in> {RETURNED, STEP_CANCELLED} \<Longrightarrow> q = p"
    by (auto simp: step_evolves_def dest!: no_transition)
  have "(att_state x, z) \<notin> attempt_transitions" if "att_state x \<noteq> OPEN" for z
    using that by (auto simp: transition_defs)
  then show "attempt_evolves x y \<Longrightarrow> att_state x \<noteq> OPEN \<Longrightarrow> y = x"
    by (auto simp: attempt_evolves_def dest!: no_transition)
  show "delegation_evolves d e \<Longrightarrow> dlg_state d \<in> TERMINAL_DELEGATION_STATES \<Longrightarrow> e = d"
    by (auto simp: delegation_evolves_def transition_defs)
qed

text \<open>
  C4: terminal states are final. A schedule that is completed, cancelled or stopped, a step that is returned or
  cancelled, an attempt that is closed and a delegation that is consumed, revoked or expired is found unchanged,
  every column of it, in every database reached later.
\<close>

theorem terminal_states_absorb:
  assumes "reachable c rt s" and "reaches c rt s t"
  shows "{a \<in> set (schedules s). sch_state a \<in> TERMINAL_SCHEDULE_STATES} \<subseteq> set (schedules t) \<and>
    {p \<in> set (steps s). stp_state p \<in> {RETURNED, STEP_CANCELLED}} \<subseteq> set (steps t) \<and>
    {a \<in> set (attempts s). att_state a \<noteq> OPEN} \<subseteq> set (attempts t) \<and>
    {d \<in> set (delegations s). dlg_state d \<in> TERMINAL_DELEGATION_STATES} \<subseteq> set (delegations t)"
proof -
  from reaches_keeps [OF assms(2) reachable_wf [OF assms(1)] reachable_life [OF assms(1)]]
  have g: "grown schedule_evolves (schedules s) (schedules t)" "grown step_evolves (steps s) (steps t)"
    "grown attempt_evolves (attempts s) (attempts t)" "grown delegation_evolves (delegations s) (delegations t)"
    by (simp_all add: evolves_def)
  then show ?thesis
    by (intro conjI subsetI) (auto dest!: grown_member terminal_row)
qed

theorem terminal_states_absorb_witness:
  "{a \<in> set (attempts demo_imported). att_state a \<noteq> OPEN} \<subseteq>
     set (attempts (serve production demo_rt 9 (pys ''alice'') (pys ''key'') (CallExport (Uuid 1) (Uuid 3)) demo_imported))"
  by (rule conjunct1 [OF conjunct2 [OF conjunct2 [OF terminal_states_absorb [OF demo_reachable(3)]]]])
    (rule reaches.serve, rule reaches.start, simp)

text \<open>
  C5: the state of a step and the states of its attempts, in the order they were opened, agree. A pending step has
  none; an awaiting one has a last attempt that is open or rejected, a returned one a last attempt that is accepted,
  a cancelled one none or a last attempt that is rejected or cancelled; every earlier attempt is rejected. In
  particular no step rests in \<^verbatim>\<open>DISPATCHED\<close>, \<^verbatim>\<open>REJECTED\<close> or \<^verbatim>\<open>FAILED\<close>.
\<close>

theorem step_history_agrees:
  assumes "reachable c rt s" and "p \<in> set (steps s)"
  shows "history_ok (stp_state p) (history (stp_id p) s)"
  using reachable_life [OF assms(1)] assms(2) by (simp add: life_def histories_def)

theorem step_history_agrees_witness: "history_ok (stp_state demo_row) (history (stp_id demo_row) demo_created)"
  by (rule step_history_agrees [OF demo_reachable(1)]) (simp add: demo_created_rows)

text \<open>
  C6: the attempts of a step are numbered 1, 2, 3, ... in the order they were opened, with no gap and no repetition.
\<close>

theorem attempts_numbered:
  assumes "reachable c rt s" and "p \<in> set (steps s)"
  shows "map att_number (attempts_of_step (stp_id p) s) =
    map int [1..<Suc (length (attempts_of_step (stp_id p) s))]"
  using reachable_life [OF assms(1)] assms(2) by (simp add: life_def numbered_def history_def)

theorem attempts_numbered_witness:
  "map att_number (attempts_of_step (Uuid 3) demo_created) =
     map int [1..<Suc (length (attempts_of_step (Uuid 3) demo_created))]"
proof -
  have "stp_id demo_row = Uuid 3" by (simp add: demo_row_def row_of_draft_def)
  with attempts_numbered [OF demo_reachable(1), of demo_row] show ?thesis by (simp only: demo_created_rows list.set insertI1)
qed

text \<open>
  C7: steps are dispatched in order. As long as a step has not returned, no later step of its schedule was ever
  exported: it has no attempt.
\<close>

theorem steps_in_order:
  assumes "reachable c rt s" and "p \<in> set (steps s)" and "q \<in> set (steps s)"
    and "stp_schedule_id q = stp_schedule_id p" and "stp_position q < stp_position p" and "stp_state q \<noteq> RETURNED"
  shows "attempts_of_step (stp_id p) s = []"
proof -
  have "history (stp_id p) s = []"
    using reachable_life [OF assms(1)] assms by (auto simp: life_def ordered_def)
  then show ?thesis by (simp add: history_def)
qed

theorem steps_in_order_witness: "attempts_of_step (Uuid 4) demo_exported = []"
proof -
  have "stp_id demo_human_row = Uuid 4" by (rule demo_ids)
  moreover have "attempts_of_step (stp_id demo_human_row) demo_exported = []"
    by (rule steps_in_order [OF demo_reachable(2), where q = "demo_row\<lparr>stp_state := AWAITING_RETURN\<rparr>"])
      (simp_all add: demo_exported_rows, simp_all add: demo_row_def demo_human_row_def row_of_draft_def)
  ultimately show ?thesis by simp
qed

text \<open>
  C8: the state of a schedule and the states of its steps agree. A completed schedule has only returned steps, a
  cancelled one only returned and cancelled ones, an active, paused or stopped one no cancelled step; no schedule
  rests in \<^verbatim>\<open>DRAFT\<close>.
\<close>

theorem schedule_contents_agree:
  assumes "reachable c rt s" and "a \<in> set (schedules s)" and "p \<in> set (steps s)"
    and "stp_schedule_id p = sch_id a"
  shows "content_ok (sch_state a) (stp_state p)"
  using reachable_life [OF assms(1)] assms by (auto simp: life_def contents_def)

theorem schedule_contents_agree_witness: "content_ok (sch_state demo_schedule) (stp_state demo_row)"
  by (rule schedule_contents_agree [OF demo_reachable(1)])
    (simp_all add: demo_created_rows demo_schedule_def demo_row_def row_of_draft_def)

section \<open>Evidence\<close>

text \<open>
  C9: every attempt left its evidence in the transaction that opened it. It has exactly one seal, of its content
  hash and at its instant, and exactly one execution receipt, of its schedule and step and at its instant, signed by
  the owner of the schedule.
\<close>

theorem attempt_has_evidence:
  assumes "reachable c rt s" and "a \<in> set (attempts s)"
  shows "(\<exists>!r. r \<in> set (seals s) \<and> rcp_attempt_id r = att_id a) \<and>
    (\<exists>r \<in> set (seals s). rcp_attempt_id r = att_id a \<and> rcp_content_sha256 r = att_content_sha256 a \<and>
       rcp_sealed_at r = att_created_at a) \<and>
    (\<exists>!x. x \<in> set (exec_receipts s) \<and> exe_attempt_id x = att_id a) \<and>
    (\<exists>x \<in> set (exec_receipts s). exe_attempt_id x = att_id a \<and> exe_schedule_id x = att_schedule_id a \<and>
       exe_step_id x = att_step_id a \<and> exe_observed_at x = att_created_at a \<and>
       owned s (exe_principal x) (att_schedule_id a))"
proof -
  have e: "has_seal s a" "has_exec_receipt s a"
    using seal.always [OF assms(1)] assms(2) by (auto simp: attempts_sealed_def)
  have d: "distinct (map rcp_attempt_id (seals s))" "distinct (map exe_attempt_id (exec_receipts s))"
    using reachable_wf [OF assms(1)] by (simp_all add: wf_store_def wf_seals_def wf_exec_receipts_def)
  have "\<exists>!r. r \<in> set (seals s) \<and> rcp_attempt_id r = att_id a"
    using e(1) distinct_map_inj [OF d(1)] by (auto simp: has_seal_def)
  moreover have "\<exists>!x. x \<in> set (exec_receipts s) \<and> exe_attempt_id x = att_id a"
    using e(2) distinct_map_inj [OF d(2)] by (auto simp: has_exec_receipt_def)
  ultimately show ?thesis
    using e by (auto simp: has_seal_def has_exec_receipt_def owned_def exists_row_def)
qed

theorem attempt_has_evidence_witness:
  "(\<exists>!r. r \<in> set (seals demo_exported) \<and> rcp_attempt_id r = att_id demo_attempt)"
  by (rule conjunct1 [OF attempt_has_evidence [OF demo_reachable(2)]]) (simp add: demo_exported_rows)

text \<open>
  C10: what was sealed can be recomputed. The hash of an attempt is the hash of the envelope that the step, as it
  stands now, renders to: the content of a step never changes once it was sealed.
\<close>

theorem sealed_content_recomputes:
  assumes "reachable c rt s" and "a \<in> set (attempts s)"
  shows "\<exists>p e. p \<in> set (steps s) \<and> stp_id p = att_step_id a \<and> stp_schedule_id p = att_schedule_id a \<and>
    envelope_of_step (att_schedule_id a) (att_step_id a) p = Inr e \<and> content_sha256 e = Inr (att_content_sha256 a)"
  using content.always [OF assms(1)] assms(2) by (fastforce simp: content_kept_def hash_of_step_def)

theorem sealed_content_recomputes_witness:
  "\<exists>p e. p \<in> set (steps demo_exported) \<and> stp_id p = Uuid 3 \<and> stp_schedule_id p = Uuid 1 \<and>
    envelope_of_step (Uuid 1) (Uuid 3) p = Inr e \<and> content_sha256 e = Inr demo_hash"
proof -
  have "demo_attempt \<in> set (attempts demo_exported)" by (simp add: demo_exported_rows)
  from sealed_content_recomputes [OF demo_reachable(2) this] show ?thesis by (simp add: demo_attempt_def sealed_def)
qed

text \<open>
  C11: verdicts and attempts agree. An attempt is closed as accepted exactly when it has a validated result, closed
  as rejected exactly when it has a rejected one, and it has a result exactly when it has an attribution.
\<close>

theorem verdicts_agree:
  assumes "reachable c rt s" and "a \<in> set (attempts s)"
  shows "(att_state a = CLOSED_OK \<longleftrightarrow>
      (\<exists>r \<in> set (results s). res_attempt_id r = att_id a \<and> res_status r = VALIDATED)) \<and>
    (att_state a = CLOSED_REJECTED \<longleftrightarrow>
      (\<exists>r \<in> set (results s). res_attempt_id r = att_id a \<and> res_status r = RESULT_REJECTED)) \<and>
    ((\<exists>r \<in> set (results s). res_attempt_id r = att_id a) \<longleftrightarrow>
      (\<exists>t \<in> set (attributions s). atr_attempt_id t = att_id a))"
proof -
  have v: "verdict_ok (results s) (attributions s) a"
    using verdict.always [OF assms(1)] assms(2) by (simp add: verdicts_def list_all_iff)
  have st: "att_state a = verdict_state (res_status r)" if "r \<in> set (results s)" "res_attempt_id r = att_id a" for r
    using v that by (simp add: verdict_ok_def)
  have k: "verdict_state k = CLOSED_OK \<longleftrightarrow> k = VALIDATED" "verdict_state k = CLOSED_REJECTED \<longleftrightarrow> k = RESULT_REJECTED" for k
    by (cases k; simp)+
  from v have j: "judged a \<longleftrightarrow> (\<exists>r \<in> set (results s). res_attempt_id r = att_id a)" by (simp add: verdict_ok_def)
  show ?thesis
  proof (intro conjI)
    show "att_state a = CLOSED_OK \<longleftrightarrow>
        (\<exists>r \<in> set (results s). res_attempt_id r = att_id a \<and> res_status r = VALIDATED)"
      using j st k unfolding judged_def by metis
    show "att_state a = CLOSED_REJECTED \<longleftrightarrow>
        (\<exists>r \<in> set (results s). res_attempt_id r = att_id a \<and> res_status r = RESULT_REJECTED)"
      using j st k unfolding judged_def by metis
    show "(\<exists>r \<in> set (results s). res_attempt_id r = att_id a) \<longleftrightarrow>
        (\<exists>t \<in> set (attributions s). atr_attempt_id t = att_id a)"
      using v unfolding verdict_ok_def by blast
  qed
qed

theorem verdicts_agree_witness:
  "\<exists>r \<in> set (results demo_imported). res_attempt_id r = Uuid 8 \<and> res_status r = VALIDATED"
  using verdicts_agree [OF demo_reachable(3) demo_importing(1)] by (simp add: demo_attempt_def sealed_def)

section \<open>Delegations and gates\<close>

text \<open>
  C12: a delegation is used at most once, for the content it was granted for. A consumed delegation names one attempt
  of its own schedule and step, with the same content hash, opened at the instant of consumption and before the
  delegation expired; no other delegation was consumed by that attempt. A delegation in any other state names none.
\<close>

theorem delegation_single_use:
  assumes "reachable c rt s" and "d \<in> set (delegations s)"
  shows "(dlg_state d = CONSUMED \<longleftrightarrow> (\<exists>a \<in> set (attempts s). dlg_consumed_by d = Some (att_id a) \<and>
      att_schedule_id a = dlg_schedule_id d \<and> att_step_id a = dlg_step_id d \<and>
      att_content_sha256 a = dlg_content_sha256 d \<and> dlg_consumed_at d = Some (att_created_at a) \<and>
      att_created_at a < dlg_valid_until d)) \<and>
    (\<forall>e \<in> set (delegations s). dlg_consumed_by e = dlg_consumed_by d \<and> dlg_state d = CONSUMED \<longrightarrow> e = d)"
proof -
  from gate.always [OF assms(1)] have g: "bound (attempts s) (delegations s)" "single_use (delegations s)"
    by (simp_all add: gated_def)
  have dist: "distinct (map dlg_id (delegations s))"
    using reachable_wf [OF assms(1)] by (simp add: wf_store_def wf_delegations_def rows_ok_def)
  have none: "dlg_state e = CONSUMED" if "e \<in> set (delegations s)" "dlg_consumed_by e \<noteq> None" for e
    using g(1) that by (auto simp: bound_def)
  have "dlg_state d = CONSUMED \<longleftrightarrow> (\<exists>a \<in> set (attempts s). consumed_by a d)"
    using g(1) assms(2) by (auto simp: bound_def consumed_by_def)
  moreover have "\<exists>a. dlg_consumed_by d = Some a" if "dlg_state d = CONSUMED"
    using g(1) assms(2) that by (auto simp: bound_def consumed_by_def)
  moreover have "e = d" if "e \<in> set (delegations s)" "dlg_consumed_by e = dlg_consumed_by d" "dlg_state d = CONSUMED" for e
  proof -
    from calculation(2) [OF that(3)] that(1,2) have "dlg_state e = CONSUMED" by (intro none) auto
    with g(2) assms(2) that have "dlg_id e = dlg_id d" by (blast intro: single_useD)
    with distinct_map_inj [OF dist that(1) assms(2)] show ?thesis by blast
  qed
  ultimately show ?thesis using none [OF assms(2)] by (auto simp: consumed_by_def)
qed

theorem delegation_single_use_witness:
  "dlg_consumed_by (consumed_row 3 (Uuid 8) demo_delegation) = Some (Uuid 8) \<and> att_content_sha256 demo_attempt = demo_hash"
proof -
  have "consumed_row 3 (Uuid 8) demo_delegation \<in> set (delegations demo_exported)" by (simp add: demo_exported_rows)
  from delegation_single_use [OF demo_reachable(2) this] show ?thesis
    by (simp add: demo_exported_rows consumed_row_def demo_delegation_def delegation_row_def demo_attempt_def sealed_def)
qed

text \<open>
  C13: no gated step is dispatched without its authorization. Every attempt of a step whose constraints declare a gate
  consumed exactly one delegation, granted for the content the attempt sealed, and the human gate of the composition
  did not refuse it when the step asks for a human.
\<close>

theorem gated_attempts_authorized:
  assumes "reachable c rt s" and "a \<in> set (attempts s)" and "p \<in> set (steps s)" and "stp_id p = att_step_id a"
    and "gate_requirement (stp_constraints p) = Inr (Some g)"
  shows "(\<exists>!d. d \<in> set (delegations s) \<and> dlg_consumed_by d = Some (att_id a) \<and>
      dlg_content_sha256 d = att_content_sha256 a \<and> dlg_state d = CONSUMED) \<and>
    \<not> human_refuses c g (att_schedule_id a) (att_step_id a) (att_content_sha256 a)"
proof -
  from gate.always [OF assms(1)] have g: "single_use (delegations s)"
    "gates_passed c (steps s) (delegations s) (attempts s)"
    by (simp_all add: gated_def)
  have dist: "distinct (map dlg_id (delegations s))"
    using reachable_wf [OF assms(1)] by (simp add: wf_store_def wf_delegations_def rows_ok_def)
  from g(2) assms(2) obtain q where "q \<in> set (steps s)" "stp_id q = att_step_id a"
    and q: "gate_passed c (delegations s) a q" by (auto simp: gates_passed_def)
  with wf_step_unique [OF reachable_wf [OF assms(1)]] assms(3,4) have "q = p" by metis
  with q assms(5) obtain d where d: "d \<in> set (delegations s)" "consumed_by a d"
    and h: "\<not> human_refuses c g (att_schedule_id a) (att_step_id a) (att_content_sha256 a)"
    by (auto simp: gate_passed_def)
  have "e = d" if "e \<in> set (delegations s)" "dlg_consumed_by e = Some (att_id a)" "dlg_state e = CONSUMED" for e
  proof -
    from d(2) have "dlg_state d = CONSUMED" "dlg_consumed_by d = Some (att_id a)" by (simp_all add: consumed_by_def)
    with g(1) d(1) that have "dlg_id e = dlg_id d" by (intro single_useD [OF g(1)]) simp_all
    with distinct_map_inj [OF dist that(1) d(1)] show ?thesis by blast
  qed
  with d h show ?thesis by (auto simp: consumed_by_def)
qed

theorem gated_attempts_authorized_witness:
  "\<exists>!d. d \<in> set (delegations demo_exported) \<and> dlg_consumed_by d = Some (Uuid 8) \<and>
    dlg_content_sha256 d = demo_hash \<and> dlg_state d = CONSUMED"
proof -
  have rows: "demo_attempt \<in> set (attempts demo_exported)" "demo_row\<lparr>stp_state := AWAITING_RETURN\<rparr> \<in> set (steps demo_exported)"
    "stp_id (demo_row\<lparr>stp_state := AWAITING_RETURN\<rparr>) = att_step_id demo_attempt"
    by (simp_all add: demo_exported_rows demo_ids) (simp add: demo_attempt_def sealed_def)
  have "gate_requirement (stp_constraints (demo_row\<lparr>stp_state := AWAITING_RETURN\<rparr>)) =
      Inr (Some \<lparr>required = GATE_REQUIRED_SERVICE_DELEGATION, gate_scope = GATE_SCOPE_DISPATCH\<rparr>)"
    by (simp add: demo_valid_gates)
  from conjunct1 [OF gated_attempts_authorized [OF demo_reachable(2) rows this]] show ?thesis
    by (simp add: demo_attempt_def sealed_def)
qed

text \<open>
  C14: the composition the router builds denies every human gate, so in it a step that asks for a human is never
  dispatched: it has no attempt and stays pending until it is cancelled.
\<close>

theorem production_denies_human_steps:
  assumes "reachable production rt s" and "p \<in> set (steps s)"
    and "gate_requirement (stp_constraints p) = Inr (Some g)" and "requires_human g"
  shows "attempts_of_step (stp_id p) s = [] \<and> stp_state p \<in> {PENDING, STEP_CANCELLED}"
proof -
  have "\<not> gate_passed production (delegations s) a p" for a
    using assms(3,4) by (auto simp: gate_passed_def human_refuses_def production_def deny_all_human_gate_def)
  moreover have "gates_passed production (steps s) (delegations s) (attempts s)"
    using gate.always [OF assms(1)] by (simp add: gated_def)
  ultimately have none: "attempts_of_step (stp_id p) s = []"
    using wf_step_unique [OF reachable_wf [OF assms(1)]] assms(2)
    by (force simp: attempts_of_step_def filter_empty_conv gates_passed_def)
  have "history_ok (stp_state p) (history (stp_id p) s)"
    using reachable_life [OF assms(1)] assms(2) by (simp add: life_def histories_def)
  with none show ?thesis by (cases "stp_state p") (simp_all add: history_def)
qed

theorem production_denies_human_steps_witness:
  "attempts_of_step (Uuid 4) demo_exported = [] \<and> stp_state demo_human_row \<in> {PENDING, STEP_CANCELLED}"
proof -
  have "demo_human_row \<in> set (steps demo_exported)" by (simp add: demo_exported_rows)
  from production_denies_human_steps [OF demo_reachable(2) this demo_valid_gates(2)] show ?thesis
    by (simp add: requires_human_def demo_ids)
qed

section \<open>Control\<close>

text \<open>
  C15: the control log is complete. Replaying the control events of a schedule from \<^verbatim>\<open>ACTIVE\<close>, each event moving it
  to the state it announces, takes only transitions the delivery declares and ends in the state the schedule is in.
\<close>

theorem control_log_replays:
  assumes "reachable c rt s" and "a \<in> set (schedules s)"
  shows "log_path (trace (sch_id a) (events s)) \<and> last (trace (sch_id a) (events s)) = sch_state a"
  using log.always [OF assms(1)] assms(2) by (simp add: logged_def)

theorem control_log_replays_witness:
  "log_path (trace (Uuid 1) (events demo_created)) \<and> last (trace (Uuid 1) (events demo_created)) = ACTIVE"
  using control_log_replays [OF demo_reachable(1), of demo_schedule]
  by (simp add: demo_created_rows) (simp add: demo_schedule_def)

text \<open>
  C16: acts are signed by the owner. The grantor of a delegation, the principal of a control event and the principal
  of an execution receipt own the schedule the row belongs to.
\<close>

theorem acts_signed_by_owner:
  assumes "reachable c rt s"
  shows "(\<forall>d \<in> set (delegations s). owned s (dlg_granted_by d) (dlg_schedule_id d)) \<and>
    (\<forall>e \<in> set (events s). owned s (evt_declared_by e) (evt_schedule_id e)) \<and>
    (\<forall>x \<in> set (exec_receipts s). owned s (exe_principal x) (exe_schedule_id x))"
  using author.always [OF assms] by (simp add: authored_def signs_owned)

theorem acts_signed_by_owner_witness:
  "list_all (\<lambda>x. owned demo_exported (exe_principal x) (exe_schedule_id x)) (exec_receipts demo_exported)"
  using acts_signed_by_owner [OF demo_reachable(2)] by (simp add: list_all_iff)

section \<open>Principals\<close>

text \<open>
  C17: a request writes inside the schedules of its principal only. What another principal can see - its schedules and
  everything that hangs from them, its profiles, execution receipts and command receipts - is the same before and
  after.
\<close>

theorem write_isolation:
  assumes "reachable c rt s" and "valid_call cl" and "cp' \<noteq> cp"
  shows "view cp' (serve c rt n cp key cl s) = view cp' s"
  by (rule serve_view [OF reachable_wf [OF assms(1)] reachable_life [OF assms(1)] assms(2,3)])

theorem write_isolation_witness:
  "view (pys ''bob'') (serve production demo_rt 2 (pys ''alice'') (pys ''key'') demo_export demo_created) =
     view (pys ''bob'') demo_created"
  by (rule write_isolation [OF demo_reachable(1)]) (simp_all add: demo_export_def)

text \<open>
  C18: a principal reads its own rows only. Two databases that show a principal the same view answer every read route
  of the router with the same value or the same error, so no answer tells anything of another principal's rows, not
  even that a schedule exists.
\<close>

theorem read_isolation:
  assumes "view cp t = view cp s"
  shows "fst (ler_schedule cp sid t) = fst (ler_schedule cp sid s) \<and>
    fst (listar_tentativas cp sid t) = fst (listar_tentativas cp sid s) \<and>
    fst (ler_governanca cp sid t) = fst (ler_governanca cp sid s)"
  using scoped_noninterference [OF scoped_handlers(1) assms] scoped_noninterference [OF scoped_handlers(2) assms]
    scoped_noninterference [OF scoped_handlers(3) assms] by blast

theorem read_isolation_witness:
  "fst (ler_schedule (pys ''bob'') (Uuid 1) demo_created) = fst (ler_schedule (pys ''bob'') (Uuid 1) demo_empty)"
proof -
  have "view (pys ''bob'') demo_created = view (pys ''bob'') demo_empty"
    unfolding demo_created_def by (rule serve_view [OF reachable_wf [OF demo_start] reachable_life [OF demo_start] demo_valid(1)]) simp
  from read_isolation [OF this] show ?thesis by blast
qed

section \<open>At most once\<close>

text \<open>
  C19: a command takes effect at most once. After a request succeeded, in every database later requests lead to, no
  request of the same operation by the same principal under the same key moves any row, whatever it asks for and
  whether it succeeds or fails. (The identities of \<^verbatim>\<open>uuid4\<close> are assumed not to repeat.)
\<close>

theorem command_takes_effect_once:
  assumes "reachable c rt s" and "valid_call cl" and "fst (request n (handle c rt cp key cl) s) = Inr ()"
    and "reaches c rt (serve c rt n cp key cl s) u" and "unrepeated (entropy s) (drawn u)"
    and "operation_of cl' = operation_of cl"
  shows "scrub (serve c rt n' cp key cl' u) = scrub u"
proof -
  from success_spent [OF assms(1-5)] obtain r where "spent u cp (operation_of cl') key r"
    using assms(6) by auto
  then show ?thesis by (rule serve_spent)
qed

theorem command_takes_effect_once_witness:
  "scrub (serve production demo_rt 2 (pys ''alice'') (pys ''key'') demo_create demo_created) = scrub demo_created"
  by (rule command_takes_effect_once [OF demo_start demo_valid(1) demo_success demo_created_reaches demo_unrepeated])
    (rule refl)

text \<open>
  C20: a key cannot be spent on two different requests. After a request succeeded, a request of the same operation
  under the same key whose fingerprint differs fails.
\<close>

theorem reused_key_conflicts:
  assumes "reachable c rt s" and "valid_call cl" and "fst (request n (handle c rt cp key cl) s) = Inr ()"
    and "reaches c rt (serve c rt n cp key cl s) u" and "unrepeated (entropy s) (drawn u)"
    and "operation_of cl' = operation_of cl" and "fingerprint cp cl' \<noteq> fingerprint cp cl"
  shows "\<exists>e. fst (request n' (handle c rt cp key cl') u) = Inl e"
proof -
  from success_spent [OF assms(1-5)] obtain r where "spent u cp (operation_of cl') key r"
    "fingerprint cp cl = Inr (the (cmd_request_sha256 r))"
    using assms(6) by auto
  with assms(7) other_request_fails [of u cp cl' key r] show ?thesis by simp
qed

theorem reused_key_conflicts_witness:
  "\<exists>e. fst (request 2 (handle production demo_rt (pys ''alice'') (pys ''key'')
      demo_other) demo_created) = Inl e"
  by (rule reused_key_conflicts [OF demo_start demo_valid(1) demo_success demo_created_reaches demo_unrepeated])
    (simp add: demo_other_def demo_create_def, rule demo_fingerprints_differ)

section \<open>Requests that succeed\<close>

lemma at_request:
  fixes s n defines "r \<equiv> s\<lparr>now := n, emitted := [], next_object := 0\<rparr>"
  assumes "reachable c rt s"
  shows "wf_store r" "deferred_ok r"
  using reachable_wf [OF assms(2)] reachable_deferred [OF assms(2)]
  by (simp_all add: r_def wf_store_def deferred_ok_def attempt_within_def)

text \<open>
  C21: a valid draft is created. From any reachable database, a draft whose texts can be stored, under a key that was
  not used, becomes an active schedule of the principal with the steps of the draft, in order and pending.
\<close>

theorem creation_succeeds:
  assumes "reachable c rt s" and "storable_draft draft" and "mode \<in> EXECUTABLE_HANDOFF_MODES" and "storable_caller cp key"
    and "unclaimed s cp CREATE_SCHEDULE key" and "new_draws s (2 + length (draft_steps draft))"
  shows "fst (request n (handle c rt cp key (CallCreate draft mode)) s) = Inr () \<and>
    schedules (serve c rt n cp key (CallCreate draft mode) s) = schedules s @ [\<lparr>sch_id = entropy s (drawn s),
      sch_title = draft_title draft, sch_state = ACTIVE, sch_mode = mode, sch_owner = cp\<rparr>] \<and>
    steps (serve c rt n cp key (CallCreate draft mode) s) =
      steps s @ new_steps (s\<lparr>drawn := drawn s + 2\<rparr>) (entropy s (drawn s)) 1 (draft_steps draft)"
proof -
  let ?r = "s\<lparr>now := n, emitted := [], next_object := 0\<rparr>"
  have "unclaimed ?r cp CREATE_SCHEDULE key" "new_draws ?r (2 + length (draft_steps draft))"
    using assms(5,6) by (simp_all add: unclaimed_def new_draws_def)
  from creation_runs [OF at_request [OF assms(1)] assms(2-4) this] obtain h
    where "wp (criar_schedule cp key draft mode) (\<lambda>_ t. t = creation ?r cp key draft mode h) ?r" by blast
  then have "wp (handle c rt cp key (CallCreate draft mode)) (\<lambda>_ t. t = creation ?r cp key draft mode h) ?r"
    by (simp add: discard_def wp_bnd wp_basic)
  from serve_wp [OF this] show ?thesis by (simp add: creation_def new_steps_def)
qed

theorem creation_succeeds_witness:
  "fst (request 1 (handle production demo_rt (pys ''alice'') (pys ''key'') (CallCreate demo_draft MANUAL_HANDOFF))
    demo_empty) = Inr ()"
proof -
  have "inj_on demo_entropy {0..<4}" by (rule demo_draws) simp
  then have "new_draws demo_empty (2 + length (draft_steps demo_draft))"
    by (simp add: new_draws_def fresh_def demo_empty_def demo_draft_def)
  from conjunct1 [OF creation_succeeds [OF demo_start storable_demo_draft _ demo_caller _ this]] show ?thesis
    by (simp add: EXECUTABLE_HANDOFF_MODES_def unclaimed_def demo_empty_def)
qed

text \<open>
  C22: a dispatchable step is exported. When the schedule is active, the steps before have returned, no attempt of the
  step is open and its gate, if it has one, is open for the content it has, the export succeeds and opens an attempt
  that seals this content.
\<close>

theorem export_succeeds:
  assumes "reachable c rt s" and "dispatchable s cp sid pid a p" and "envelope_of_step sid pid p = Inr e"
    and "content_sha256 e = Inr h" and "passes c (s\<lparr>now := n\<rparr>) sid pid p h did"
    and "\<forall>x. transport_export c x = Inr x" and "storable_caller cp key" and "unclaimed s cp EXPORT_HANDOFF key"
    and "next_number pid s \<le> 2147483647" and "new_draws s 7"
  shows "fst (request n (handle c rt cp key (CallExport sid pid)) s) = Inr () \<and>
    sealed (entropy s (Suc (drawn s))) sid pid h (next_number pid s) n
      \<in> set (attempts (serve c rt n cp key (CallExport sid pid) s))"
proof -
  let ?r = "s\<lparr>now := n, emitted := [], next_object := 0\<rparr>"
  have d: "dispatchable ?r cp sid pid a p" using assms(2) by (simp add: dispatchable_def row_of_defs)
  have g: "passes c ?r sid pid p h did" using assms(5) by (simp add: passes_def)
  have new: "unclaimed ?r cp EXPORT_HANDOFF key" "next_number pid ?r \<le> 2147483647" "emitted ?r = []" "new_draws ?r 7"
    using assms(8-10) by (simp_all add: unclaimed_def new_draws_def next_number_def attempts_of_step_def)
  from export_runs [OF at_request [OF assms(1)] d assms(3,4) g assms(6,7) new] obtain t
    where run: "wp (exportar_handoff c cp key sid pid) (\<lambda>_ u. u = t) ?r"
      and t: "sealed (entropy s (Suc (drawn s))) sid pid h (next_number pid s) n \<in> set (attempts t)"
    by (force simp: delivered_def with_step_state_def next_number_def attempts_of_step_def)
  from run have "wp (handle c rt cp key (CallExport sid pid)) (\<lambda>_ u. u = t) ?r"
    by (simp add: discard_def wp_bnd wp_basic)
  from serve_wp [OF this] t show ?thesis by simp
qed

theorem export_succeeds_witness:
  "fst (request 3 (handle production demo_rt (pys ''alice'') (pys ''key'') (CallExport (Uuid 1) (Uuid 3))) demo_granted) =
    Inr ()"
proof -
  obtain e where e: "envelope_of_step (Uuid 1) (Uuid 3) demo_row = Inr e" "content_sha256 e = Inr demo_hash"
    using demo_envelope .
  from conjunct1 [OF export_succeeds [OF demo_reachable(4) demo_exportable(1) e demo_exportable(2) _ demo_caller
      demo_exportable(4,5,3)]] show ?thesis
    using transport_production by blast
qed

text \<open>
  C23: a return is recorded, whatever it says. While an attempt is open and its step awaits the return, the import of a
  return succeeds: a well-formed one closes the attempt as accepted and returns the step, a malformed one closes the
  attempt as rejected and leaves the step waiting; the verdict and the declared attribution are on record.
\<close>

theorem import_succeeds:
  assumes "reachable c rt s" and "awaits s cp sid pid aid a p b" and "storable_caller cp key"
    and "unclaimed s cp IMPORT_RETURN key" and "storable_return raw d"
    and "validate_output (float_of rt) (load_depth rt) (dump_depth rt) (stp_output_contract p)
      (raw_media_type raw) (PyStr (raw_content raw)) = Inr out"
    and "int (output_bytes out) \<le> 2147483647" and "new_draws s 5"
  shows "fst (request n (handle c rt cp key (CallImport sid pid aid raw d)) s) = Inr () \<and>
    judged_as (serve c rt n cp key (CallImport sid pid aid raw d) s) sid pid aid out d p b"
proof -
  let ?r = "s\<lparr>now := n, emitted := [], next_object := 0\<rparr>"
  have w: "awaits ?r cp sid pid aid a p b" using assms(2) by (simp add: awaits_def row_of_defs)
  have new: "unclaimed ?r cp IMPORT_RETURN key" "new_draws ?r 5"
    using assms(4,8) by (simp_all add: unclaimed_def new_draws_def)
  from import_runs [OF at_request [OF assms(1)] w assms(3) new(1) assms(6,5,7) new(2)]
  have "wp (handle c rt cp key (CallImport sid pid aid raw d)) (\<lambda>_ t. judged_as t sid pid aid out d p b) ?r"
    by (simp add: discard_def wp_bnd wp_basic)
  then show ?thesis by (auto simp: wp_def serve_def request_def)
qed

theorem import_succeeds_witness:
  "\<exists>out. accepted out \<and> judged_as demo_imported (Uuid 1) (Uuid 3) (Uuid 8) out demo_declared
    (demo_row\<lparr>stp_state := AWAITING_RETURN\<rparr>) demo_attempt"
proof -
  obtain out where v: "validate_output (float_of demo_rt) (load_depth demo_rt) (dump_depth demo_rt)
      (stp_output_contract (demo_row\<lparr>stp_state := AWAITING_RETURN\<rparr>)) (raw_media_type demo_raw)
      (PyStr (raw_content demo_raw)) = Inr out" and out: "accepted out" "output_bytes out = 4"
    using demo_verdict .
  from out(2) have "int (output_bytes out) \<le> 2147483647" by simp
  from conjunct2 [OF import_succeeds [OF demo_reachable(2) demo_importable(1) demo_caller demo_exported_rows(13)
      demo_importable(3) v this demo_importable(2), of 4]] out(1) show ?thesis
    unfolding demo_imported_def demo_import_def by blast
qed

end
